(* ===== verification/Trade_Prelude.thy ===== *)
theory Trade_Prelude
  imports Main "HOL-Library.Char_ord" "HOL-Library.List_Lexorder"
begin

text \<open>
  Shared vocabulary of the Baobab Trade development: results with errors as values, sequencing
  of fallible steps and of loops over them, keyed tables as lists of rows, and the few
  JavaScript string and number tests the sources use. Strings are lists of code units below
  256; instants are milliseconds since the epoch, as \<open>Date.getTime()\<close> gives them, and the
  order of strings (\<open>List_Lexorder\<close> over \<open>Char_ord\<close>) is the code-unit order of the
  language and of collation "C".
\<close>

named_theorems tx_simps \<open>inversion of successful steps of a transaction\<close>

type_synonym instant = int

section \<open>Fallible steps\<close>

definition andThen :: "'e + 'a \<Rightarrow> ('a \<Rightarrow> 'e + 'b) \<Rightarrow> 'e + 'b" where
  [code_unfold]: "andThen m f = (case m of Inl e \<Rightarrow> Inl e | Inr x \<Rightarrow> f x)"

definition ensure :: "bool \<Rightarrow> 'e \<Rightarrow> 'e + unit" where
  "ensure c e = (if c then Inr () else Inl e)"

lemma andThen_Inl [simp]: "andThen (Inl e) f = Inl e"
  by (simp add: andThen_def)

lemma andThen_Inr [simp]: "andThen (Inr x) f = f x"
  by (simp add: andThen_def)

lemma andThen_Inr_iff [tx_simps]: "andThen m f = Inr y \<longleftrightarrow> (\<exists>x. m = Inr x \<and> f x = Inr y)"
  by (cases m) auto

lemma andThen_Inl_iff:
  "andThen m f = Inl e \<longleftrightarrow> m = Inl e \<or> (\<exists>x. m = Inr x \<and> f x = Inl e)"
  by (cases m) auto

lemma ensure_Inr_iff [tx_simps, simp]: "ensure c e = Inr u \<longleftrightarrow> c"
  by (simp add: ensure_def)

lemma ensure_Inl_iff [simp]: "ensure c e = Inl e' \<longleftrightarrow> \<not> c \<and> e' = e"
  by (auto simp: ensure_def)

lemma andThen_ensure [simp]: "andThen (ensure c e) f = (if c then f () else Inl e)"
  by (simp add: ensure_def)

lemma if_Inl_eq_Inr [tx_simps]: "(if c then Inl e else m) = Inr y \<longleftrightarrow> \<not> c \<and> m = Inr y"
  by simp

lemma if_else_Inl_eq_Inr [tx_simps]: "(if c then m else Inl e) = Inr y \<longleftrightarrow> c \<and> m = Inr y"
  by simp

lemma case_option_Inl_eq_Inr [tx_simps]:
  "(case x of None \<Rightarrow> Inl e | Some y \<Rightarrow> f y) = Inr z \<longleftrightarrow> (\<exists>y. x = Some y \<and> f y = Inr z)"
  by (cases x) simp_all

lemma case_prod_eq_Inr [tx_simps]:
  "(case p of (x, y) \<Rightarrow> f x y) = Inr z \<longleftrightarrow> (\<exists>x y. p = (x, y) \<and> f x y = Inr z)"
  by (cases p) simp

fun for_each :: "('s \<Rightarrow> 'x \<Rightarrow> 'e + 's) \<Rightarrow> 's \<Rightarrow> 'x list \<Rightarrow> 'e + 's" where
  "for_each f s [] = Inr s"
| "for_each f s (x # xs) = andThen (f s x) (\<lambda>s'. for_each f s' xs)"

lemma for_each_append [simp]:
  "for_each f s (xs @ ys) = andThen (for_each f s xs) (\<lambda>s'. for_each f s' ys)"
proof (induction xs arbitrary: s)
  case (Cons x xs)
  then show ?case by (cases "f s x") simp_all
qed simp

lemma for_each_invariant:
  assumes "for_each f s xs = Inr s'" and "P s"
    and "\<And>s x s'. x \<in> set xs \<Longrightarrow> P s \<Longrightarrow> f s x = Inr s' \<Longrightarrow> P s'"
  shows "P s'"
  using assms
proof (induction xs arbitrary: s)
  case (Cons x xs)
  from Cons.prems(1) obtain t where t: "f s x = Inr t" "for_each f t xs = Inr s'"
    by (auto simp: andThen_Inr_iff)
  have "P t" using Cons.prems(2,3) t(1) by (meson list.set_intros(1))
  with t(2) Cons.prems(3) show ?case
    by (intro Cons.IH [of t]) auto
qed simp

section \<open>Tables: lists of rows with a key\<close>

definition find_row :: "('r \<Rightarrow> 'k) \<Rightarrow> 'k \<Rightarrow> 'r list \<Rightarrow> 'r option" where
  "find_row key k rows = List.find (\<lambda>r. key r = k) rows"

definition upd_row :: "('r \<Rightarrow> 'k) \<Rightarrow> 'k \<Rightarrow> ('r \<Rightarrow> 'r) \<Rightarrow> 'r list \<Rightarrow> 'r list" where
  "upd_row key k f rows = map (\<lambda>r. if key r = k then f r else r) rows"

lemma find_row_Nil [simp]: "find_row key k [] = None"
  by (simp add: find_row_def)

lemma find_row_Cons [simp]:
  "find_row key k (r # rows) = (if key r = k then Some r else find_row key k rows)"
  by (simp add: find_row_def)

lemma find_row_append [simp]:
  "find_row key k (xs @ ys) =
     (case find_row key k xs of None \<Rightarrow> find_row key k ys | Some r \<Rightarrow> Some r)"
  by (induction xs) auto

lemma find_row_SomeD: "find_row key k rows = Some r \<Longrightarrow> r \<in> set rows \<and> key r = k"
  by (induction rows) (auto split: if_splits)

lemma find_row_key: "find_row key k rows = Some r \<Longrightarrow> key r = k"
  using find_row_SomeD [of key k rows r] by blast

lemma find_row_None_iff: "find_row key k rows = None \<longleftrightarrow> k \<notin> key ` set rows"
  unfolding find_row_def find_None_iff image_iff by metis

lemma find_row_Some_iff:
  "distinct (map key rows) \<Longrightarrow> find_row key k rows = Some r \<longleftrightarrow> r \<in> set rows \<and> key r = k"
proof (induction rows)
  case (Cons x xs)
  show ?case
  proof (cases "key x = k")
    case True
    with Cons.prems have "\<And>y. y \<in> set xs \<Longrightarrow> key y \<noteq> k" by (metis distinct.simps(2) image_eqI list.set_map list.simps(9))
    with True show ?thesis by auto
  next
    case False
    with Cons show ?thesis by auto
  qed
qed simp

lemma upd_row_Nil [simp]: "upd_row key k f [] = []"
  by (simp add: upd_row_def)

lemma upd_row_append [simp]: "upd_row key k f (xs @ ys) = upd_row key k f xs @ upd_row key k f ys"
  by (simp add: upd_row_def)

lemma length_upd_row [simp]: "length (upd_row key k f rows) = length rows"
  by (simp add: upd_row_def)

lemma map_key_upd_row:
  "(\<And>r. key r = k \<Longrightarrow> key (f r) = k) \<Longrightarrow> map key (upd_row key k f rows) = map key rows"
  by (induction rows) (auto simp: upd_row_def)

lemma find_row_upd_row:
  "(\<And>r. key r = k \<Longrightarrow> key (f r) = k) \<Longrightarrow>
   find_row key k' (upd_row key k f rows) =
     (if k' = k then map_option f (find_row key k rows) else find_row key k' rows)"
  by (induction rows) (auto simp: upd_row_def)

lemma set_upd_row_cases:
  "r \<in> set (upd_row key k f rows) \<Longrightarrow>
   (\<exists>r0 \<in> set rows. key r0 = k \<and> r = f r0) \<or> (r \<in> set rows \<and> key r \<noteq> k)"
  by (auto simp: upd_row_def split: if_splits)

lemma upd_row_absent: "k \<notin> key ` set rows \<Longrightarrow> upd_row key k f rows = rows"
  by (induction rows) (auto simp: upd_row_def)

lemma sum_upd_row:
  fixes g :: "'r \<Rightarrow> int"
  assumes "distinct (map key rows)" and "find_row key k rows = Some r"
  shows "(\<Sum>x\<leftarrow>upd_row key k f rows. g x) = (\<Sum>x\<leftarrow>rows. g x) + (g (f r) - g r)"
  using assms
proof (induction rows)
  case (Cons x xs)
  show ?case
  proof (cases "key x = k")
    case True
    with Cons.prems have "k \<notin> key ` set xs" and "r = x" by auto
    then have "upd_row key k f (x # xs) = f r # xs"
      using True upd_row_absent [of k key xs f] by (simp add: upd_row_def)
    then show ?thesis using \<open>r = x\<close> by simp
  next
    case False
    with Cons show ?thesis by (simp add: upd_row_def)
  qed
qed simp

lemma sum_find_row:
  fixes g :: "'r \<Rightarrow> int"
  assumes "distinct (map key rows)"
  shows "(\<Sum>x\<leftarrow>rows. if key x = k then g x else 0) =
         (case find_row key k rows of None \<Rightarrow> 0 | Some r \<Rightarrow> g r)"
  using assms
proof (induction rows)
  case (Cons x xs)
  have "(\<Sum>y\<leftarrow>xs. if key y = k then g y else 0) = 0" if "key x = k"
  proof -
    have "map (\<lambda>y. if key y = k then g y else 0) xs = map (\<lambda>_. 0) xs"
      using Cons.prems that by (intro map_cong) (auto simp: image_iff)
    then show ?thesis by (simp only: sum_list_0)
  qed
  with Cons show ?case by (cases "key x = k") auto
qed simp

lemma member_le_sum:
  fixes g :: "'r \<Rightarrow> int"
  assumes "r \<in> set rows" and "\<And>x. x \<in> set rows \<Longrightarrow> 0 \<le> g x"
  shows "g r \<le> (\<Sum>x\<leftarrow>rows. g x)"
  using assms
proof (induction rows)
  case (Cons x xs)
  have "0 \<le> (\<Sum>y\<leftarrow>xs. g y)"
    by (rule sum_list_nonneg) (use Cons.prems(2) in auto)
  moreover have "r \<in> set xs \<Longrightarrow> g r \<le> (\<Sum>y\<leftarrow>xs. g y)"
    using Cons by simp
  moreover have "0 \<le> g x" using Cons.prems(2) by simp
  ultimately show ?case using Cons.prems(1) by auto
qed simp

section \<open>JavaScript strings and numbers\<close>

definition char_code :: "char \<Rightarrow> int" where
  "char_code c = of_char c"

definition js_space :: "char \<Rightarrow> bool" where
  "js_space c \<longleftrightarrow> (let n = char_code c in (9 \<le> n \<and> n \<le> 13) \<or> n = 32 \<or> n = 160)"

definition js_trim :: "string \<Rightarrow> string" where
  "js_trim s = rev (dropWhile js_space (rev (dropWhile js_space s)))"

text \<open>\<open>s?.trim()\<close> as a condition: a missing string and a blank one are falsy alike.\<close>

definition truthy_trim :: "string option \<Rightarrow> bool" where
  "truthy_trim s = (case s of None \<Rightarrow> False | Some t \<Rightarrow> js_trim t \<noteq> [])"

definition in_class :: "string \<Rightarrow> char \<Rightarrow> bool" where
  "in_class cs c \<longleftrightarrow> c \<in> set cs"

text \<open>Character ranges by code unit: A-Z, a-z, 0-9 and a-f.\<close>

definition code_between :: "int \<Rightarrow> int \<Rightarrow> char \<Rightarrow> bool" where
  "code_between lo hi c \<longleftrightarrow> (let n = char_code c in lo \<le> n \<and> n \<le> hi)"

definition upper_char :: "char \<Rightarrow> bool" where
  "upper_char = code_between 65 90"

definition lower_char :: "char \<Rightarrow> bool" where
  "lower_char = code_between 97 122"

definition digit_char :: "char \<Rightarrow> bool" where
  "digit_char = code_between 48 57"

definition alnum_char :: "char \<Rightarrow> bool" where
  "alnum_char c \<longleftrightarrow> upper_char c \<or> lower_char c \<or> digit_char c"

definition lower_hex_char :: "char \<Rightarrow> bool" where
  "lower_hex_char c \<longleftrightarrow> digit_char c \<or> code_between 97 102 c"

text \<open>A whole-string match of one character class repeated between \<open>m\<close> and \<open>n\<close> times.\<close>

definition class_range :: "(char \<Rightarrow> bool) \<Rightarrow> nat \<Rightarrow> nat \<Rightarrow> string \<Rightarrow> bool" where
  "class_range p m n s \<longleftrightarrow> m \<le> length s \<and> length s \<le> n \<and> list_all p s"

definition has_prefix :: "string \<Rightarrow> string \<Rightarrow> bool" where
  "has_prefix p s \<longleftrightarrow> take (length p) s = p"

fun has_substring :: "string \<Rightarrow> string \<Rightarrow> bool" where
  "has_substring p [] = (p = [])"
| "has_substring p (c # cs) = (has_prefix p (c # cs) \<or> has_substring p cs)"

text \<open>
  A number argument the code validates before it uses it: an integer value, or anything else a
  JavaScript number can be (a fraction, an infinity, NaN).
\<close>

datatype js_number = JInt int | JNonInt

definition max_safe :: int where
  "max_safe = 2 ^ 53 - 1"

definition is_safe_int :: "int \<Rightarrow> bool" where
  "is_safe_int n \<longleftrightarrow> - max_safe \<le> n \<and> n \<le> max_safe"

fun is_safe_number :: "js_number \<Rightarrow> bool" where
  "is_safe_number (JInt n) = is_safe_int n"
| "is_safe_number JNonInt = False"

text \<open>
  A start-inclusive, end-exclusive interval whose bounds may be absent.
\<close>

definition in_interval :: "instant \<Rightarrow> instant option \<Rightarrow> instant option \<Rightarrow> bool" where
  "in_interval now from until \<longleftrightarrow>
     (case from of None \<Rightarrow> True | Some f \<Rightarrow> f \<le> now) \<and>
     (case until of None \<Rightarrow> True | Some u \<Rightarrow> now < u)"

section \<open>Interfaces\<close>

text \<open>
  A store whose fallible step keeps an invariant: so does every loop of steps, and so does every
  history in which a refused step leaves the store as it was.
\<close>

fun history :: "('s \<Rightarrow> 'x \<Rightarrow> 'e + 's) \<Rightarrow> 's \<Rightarrow> 'x list \<Rightarrow> 's" where
  "history f s [] = s"
| "history f s (x # xs) = history f (case f s x of Inl _ \<Rightarrow> s | Inr s' \<Rightarrow> s') xs"

locale checked_store =
  fixes step :: "'s \<Rightarrow> 'x \<Rightarrow> 'e + 's" and inv :: "'s \<Rightarrow> bool"
  assumes step_inv: "inv s \<Longrightarrow> step s x = Inr s' \<Longrightarrow> inv s'"
begin

lemma steps_inv: "for_each step s xs = Inr s' \<Longrightarrow> inv s \<Longrightarrow> inv s'"
  by (rule for_each_invariant) (auto intro: step_inv)

lemma history_inv: "inv s \<Longrightarrow> inv (history step s xs)"
  by (induction xs arbitrary: s) (auto intro: step_inv split: sum.splits)

end

text \<open>
  A ledger seen through one quantity per key: a posted item adds its amount at its key and
  nothing elsewhere, and the key an item lands on is not moved by other items. A loop of posts
  then adds up.
\<close>

locale additive_ledger = checked_store post good
  for post :: "'s \<Rightarrow> 'x \<Rightarrow> 'e + 's" and good :: "'s \<Rightarrow> bool" +
  fixes view :: "'s \<Rightarrow> 'k \<Rightarrow> int" and target :: "'s \<Rightarrow> 'x \<Rightarrow> 'k" and delta :: "'x \<Rightarrow> int"
  assumes post_view: "good s \<Longrightarrow> post s x = Inr s' \<Longrightarrow>
      view s' k = view s k + (if target s x = k then delta x else 0)"
    and post_target: "good s \<Longrightarrow> post s x = Inr s' \<Longrightarrow> target s' y = target s y"
begin

lemma posts_target: "for_each post s xs = Inr s' \<Longrightarrow> good s \<Longrightarrow> target s' y = target s y"
proof (induction xs arbitrary: s)
  case (Cons x xs)
  then obtain t where "post s x = Inr t" "for_each post t xs = Inr s'" by (auto simp: tx_simps)
  with Cons show ?case by (metis post_target step_inv)
qed simp

lemma posts_view:
  "for_each post s xs = Inr s' \<Longrightarrow> good s \<Longrightarrow>
   view s' k = view s k + (\<Sum>x\<leftarrow>xs. if target s x = k then delta x else 0)"
proof (induction xs arbitrary: s)
  case (Cons x xs)
  then obtain t where t: "post s x = Inr t" "for_each post t xs = Inr s'" by (auto simp: tx_simps)
  have "good t" using step_inv Cons.prems(2) t(1) by blast
  moreover have "target t = target s" using post_target Cons.prems(2) t(1) by blast
  ultimately show ?case
    using Cons.IH [OF t(2)] post_view [OF Cons.prems(2) t(1), of k] by simp
qed simp

lemma posts_view_untouched:
  "for_each post s xs = Inr s' \<Longrightarrow> good s \<Longrightarrow> (\<And>x. x \<in> set xs \<Longrightarrow> target s x \<noteq> k) \<Longrightarrow> view s' k = view s k"
  by (subst posts_view) (auto simp: sum_list_0 cong: map_cong)

end

text \<open>PostgreSQL\<open>'\<close>s \<open>btrim\<close>: only spaces are trimmed.\<close>

definition btrim :: "string \<Rightarrow> string" where
  "btrim s = rev (dropWhile (\<lambda>c. c = CHR '' '') (rev (dropWhile (\<lambda>c. c = CHR '' '') s)))"

end
