(* ===== verification/Spend_Tables.thy ===== *)
theory Spend_Tables
  imports Trade_Prelude
begin

text \<open>
  The tables of the spending-control ledger of
  \<open>src/src/modules/b2b/migrations/Migration20261022150000.ts\<close> as lists of rows, and the writes of
  the budget policies and of the reservations, with the row triggers and the constraints as
  guards; the reservation guard is the one \<open>Migration20261022180000.ts\<close> installs.

  A write runs as PostgreSQL runs it: the BEFORE trigger, then the CHECK constraints, then the
  unique indexes, then the foreign keys; a failure is the error value and leaves no state. The
  \<open>raw_*\<close> columns mirror their amounts, and random surrogate ids, \<open>created_at\<close> defaults and row
  locks carry no decision; they are left out. Amounts are the integers that the
  \<open>= trunc(..)\<close> checks leave.
\<close>

section \<open>Errors of the database\<close>

datatype db_error =
    Raised string
  | RaisedCheck string
  | UniqueViolation string
  | CheckViolation string string
  | NotNullViolation string
  | ForeignKeyViolation string string

fun error_message :: "db_error \<Rightarrow> string" where
  "error_message (Raised m) = m"
| "error_message (RaisedCheck m) = m"
| "error_message (UniqueViolation c) = ''duplicate key value violates unique constraint '' @ c"
| "error_message (CheckViolation t c) = ''new row for relation '' @ t @ '' violates check constraint '' @ c"
| "error_message (NotNullViolation c) = ''null value in column '' @ c @ '' violates not-null constraint''"
| "error_message (ForeignKeyViolation t c) =
     ''insert or update on table '' @ t @ '' violates foreign key constraint '' @ c"

fun pg_code :: "db_error \<Rightarrow> string" where
  "pg_code (Raised m) = ''P0001''"
| "pg_code (RaisedCheck m) = ''23514''"
| "pg_code (UniqueViolation c) = ''23505''"
| "pg_code (CheckViolation t c) = ''23514''"
| "pg_code (NotNullViolation c) = ''23502''"
| "pg_code (ForeignKeyViolation t c) = ''23503''"

section \<open>Tables\<close>

datatype policy_status = POLICY_ACTIVE | POLICY_SUSPENDED | POLICY_RETIRED
datatype budget_scope = MEMBERSHIP | AGREEMENT | ORGANISATION
datatype period_kind = CALENDAR_MONTH | AGREEMENT_TERM
datatype reservation_status = ACTIVE | COMMITTED | RELEASED | EXPIRED
datatype entry_kind = RESERVE | COMMIT | RELEASE
datatype release_reason =
  R_REJECTED | R_CANCELLED | R_EXPIRED | AMOUNT_REDUCED | PERIOD_ROLLOVER | POLICY_REVISED

record spend_policy =
  p_id :: string
  p_revision :: int
  p_status :: policy_status
  p_scope :: budget_scope
  p_tenant :: string
  p_organisation :: string
  p_membership :: "string option"
  p_agreement :: "string option"
  p_market :: string
  p_currency :: string
  p_period_kind :: period_kind
  p_timezone :: string
  p_limit :: int
  p_from :: instant
  p_until :: "instant option"
  p_evidence :: string
  p_deleted :: "instant option"

record reservation =
  r_id :: string
  r_tenant :: string
  r_organisation :: string
  r_membership :: string
  r_submitter :: string
  r_market :: string
  r_currency :: string
  r_agreement :: "string option"
  r_digest :: string
  r_version :: int
  r_status :: reservation_status
  r_expires :: instant
  r_created :: instant
  r_amount :: "int option"
  r_purchase :: "string option"
  r_supersedes :: "string option"
  r_hold_revision :: int
  r_deleted :: "instant option"

record balance =
  b_policy :: string
  b_starts :: instant
  b_ends :: instant
  b_committed :: int
  b_reserved :: int

record hold =
  h_reservation :: string
  h_policy :: string
  h_policy_revision :: int
  h_starts :: instant
  h_reserved :: int
  h_committed :: int

record ledger_entry =
  e_kind :: entry_kind
  e_reservation :: string
  e_policy :: string
  e_policy_revision :: int
  e_starts :: "instant option"
  e_ends :: "instant option"
  e_amount :: int
  e_commitment :: "string option"
  e_reason :: "release_reason option"
  e_key :: string
  e_actor :: string
  e_occurred :: instant

datatype membership_status = M_INVITED | M_ACTIVE | M_SUSPENDED | M_REVOKED

text \<open>The columns of the membership and Organisation tables that these components read.\<close>

record membership_row =
  m_id :: string
  m_organisation :: string
  m_status :: membership_status
  m_from :: "instant option"
  m_until :: "instant option"
  m_deleted :: "instant option"

record organisation_row =
  o_id :: string
  o_tenant :: string

text \<open>\<open>ledger_apply\<close> is the transaction-local setting \<open>baobab.spend_ledger_apply\<close>.\<close>

record ledger_db =
  policies :: "spend_policy list"
  reservations :: "reservation list"
  balances :: "balance list"
  holds :: "hold list"
  entries :: "ledger_entry list"
  memberships :: "membership_row list"
  organisations :: "organisation_row list"
  ledger_apply :: bool

text \<open>
  What the database server supplies: the bounds of the calendar month around an instant in a
  time zone (\<open>date_trunc('month', t at time zone z) at time zone z\<close> and one month later) and
  the names \<open>pg_timezone_names\<close> lists.
\<close>

record db_env =
  month_start :: "string \<Rightarrow> instant \<Rightarrow> instant"
  month_end :: "string \<Rightarrow> instant \<Rightarrow> instant"
  known_timezone :: "string \<Rightarrow> bool"

definition calendar_ok :: "'a db_env_scheme \<Rightarrow> bool" where
  "calendar_ok env \<longleftrightarrow>
     (\<forall>z t. month_start env z t \<le> t \<and> t < month_end env z t)"

definition currency_code :: "string \<Rightarrow> bool" where
  "currency_code s \<longleftrightarrow> class_range upper_char 3 3 s"

definition digest_text :: "string \<Rightarrow> bool" where
  "digest_text s \<longleftrightarrow> has_prefix ''sha256:'' s \<and> class_range lower_hex_char 64 64 (drop 7 s)"

definition idempotency_text :: "string \<Rightarrow> bool" where
  "idempotency_text s \<longleftrightarrow> class_range (\<lambda>c. alnum_char c \<or> c \<in> set ''._:-'') 16 128 s"

section \<open>Budget policies\<close>

definition policy_checks :: "spend_policy \<Rightarrow> db_error + unit" where
  "policy_checks p =
     andThen (ensure (0 < p_limit p) (CheckViolation ''b2b_spend_budget_policy'' ''b2b_spend_budget_policy_limit_check'')) (\<lambda>_.
     andThen (ensure (currency_code (p_currency p)) (CheckViolation ''b2b_spend_budget_policy'' ''b2b_spend_budget_policy_currency_check'')) (\<lambda>_.
     andThen (ensure (case p_until p of None \<Rightarrow> True | Some u \<Rightarrow> p_from p < u)
       (CheckViolation ''b2b_spend_budget_policy'' ''b2b_spend_budget_policy_interval_check'')) (\<lambda>_.
     andThen (ensure (1 \<le> length (btrim (p_evidence p)) \<and> length (btrim (p_evidence p)) \<le> 500)
       (CheckViolation ''b2b_spend_budget_policy'' ''b2b_spend_budget_policy_evidence_check'')) (\<lambda>_.
     ensure
       ((p_scope p = MEMBERSHIP \<and> p_membership p \<noteq> None \<and> p_agreement p = None \<and> p_period_kind p = CALENDAR_MONTH) \<or>
        (p_scope p = ORGANISATION \<and> p_membership p = None \<and> p_agreement p = None \<and> p_period_kind p = CALENDAR_MONTH) \<or>
        (p_scope p = AGREEMENT \<and> p_membership p = None \<and> p_agreement p \<noteq> None \<and>
         p_period_kind p = AGREEMENT_TERM \<and> p_until p \<noteq> None))
       (CheckViolation ''b2b_spend_budget_policy'' ''b2b_spend_budget_policy_binding_check'')))))"

definition coalesce :: "string option \<Rightarrow> string" where
  "coalesce s = (case s of None \<Rightarrow> [] | Some t \<Rightarrow> t)"

definition active_policy :: "spend_policy \<Rightarrow> bool" where
  "active_policy p \<longleftrightarrow> p_status p = POLICY_ACTIVE \<and> p_deleted p = None"

definition same_budget :: "spend_policy \<Rightarrow> spend_policy \<Rightarrow> bool" where
  "same_budget p q \<longleftrightarrow>
     (p_scope p, p_organisation p, coalesce (p_membership p), coalesce (p_agreement p), p_market p, p_currency p) =
     (p_scope q, p_organisation q, coalesce (p_membership q), coalesce (p_agreement q), p_market q, p_currency q)"

text \<open>The unique index of ACTIVE policies, against every other row.\<close>

definition policy_unique :: "spend_policy list \<Rightarrow> spend_policy \<Rightarrow> db_error + unit" where
  "policy_unique rows p =
     ensure (\<forall>q \<in> set rows. p_id q \<noteq> p_id p \<longrightarrow> active_policy p \<longrightarrow> active_policy q \<longrightarrow> \<not> same_budget p q)
       (UniqueViolation ''IDX_b2b_spend_budget_policy_active'')"

definition policy_foreign_keys :: "ledger_db \<Rightarrow> spend_policy \<Rightarrow> db_error + unit" where
  "policy_foreign_keys db p =
     andThen (ensure (find_row o_id (p_organisation p) (organisations db) \<noteq> None)
       (ForeignKeyViolation ''b2b_spend_budget_policy'' ''b2b_spend_budget_policy_organisation_fk'')) (\<lambda>_.
     ensure (case p_membership p of None \<Rightarrow> True | Some m \<Rightarrow> find_row m_id m (memberships db) \<noteq> None)
       (ForeignKeyViolation ''b2b_spend_budget_policy'' ''b2b_spend_budget_policy_membership_fk''))"

text \<open>\<open>b2b_spend_budget_policy_guard\<close>, on INSERT and on UPDATE.\<close>

definition policy_guard_insert :: "'a db_env_scheme \<Rightarrow> spend_policy \<Rightarrow> db_error + spend_policy" where
  "policy_guard_insert env new =
     andThen (ensure (known_timezone env (p_timezone new)) (Raised ''b2b_spend_budget_policy: unknown time zone'')) (\<lambda>_.
     Inr (new\<lparr>p_revision := 1\<rparr>))"

definition policy_guard_update ::
  "'a db_env_scheme \<Rightarrow> spend_policy \<Rightarrow> spend_policy \<Rightarrow> db_error + spend_policy" where
  "policy_guard_update env old new =
     andThen (ensure (known_timezone env (p_timezone new)) (Raised ''b2b_spend_budget_policy: unknown time zone'')) (\<lambda>_.
     andThen (ensure (p_status old \<noteq> POLICY_RETIRED) (Raised ''b2b_spend_budget_policy: a RETIRED policy is terminal'')) (\<lambda>_.
     andThen (ensure
       ((p_scope new, p_tenant new, p_organisation new, p_membership new, p_agreement new,
         p_market new, p_currency new, p_period_kind new) =
        (p_scope old, p_tenant old, p_organisation old, p_membership old, p_agreement old,
         p_market old, p_currency old, p_period_kind old))
       (Raised ''b2b_spend_budget_policy: scope, Market, currency and period are immutable'')) (\<lambda>_.
     if (p_status new, p_timezone new, p_limit new, p_from new, p_until new, p_deleted new) \<noteq>
        (p_status old, p_timezone old, p_limit old, p_from old, p_until old, p_deleted old)
     then Inr (new\<lparr>p_revision := p_revision old + 1\<rparr>)
     else Inr (new\<lparr>p_revision := p_revision old\<rparr>))))"

definition insert_policy :: "'a db_env_scheme \<Rightarrow> spend_policy \<Rightarrow> ledger_db \<Rightarrow> db_error + ledger_db" where
  "insert_policy env new db =
     andThen (policy_guard_insert env new) (\<lambda>p.
     andThen (policy_checks p) (\<lambda>_.
     andThen (ensure (find_row p_id (p_id p) (policies db) = None) (UniqueViolation ''b2b_spend_budget_policy_pkey'')) (\<lambda>_.
     andThen (policy_unique (policies db) p) (\<lambda>_.
     andThen (policy_foreign_keys db p) (\<lambda>_.
     Inr (db\<lparr>policies := policies db @ [p]\<rparr>))))))"

text \<open>An UPDATE of one policy by id; the id itself is never assigned.\<close>

definition update_policy ::
  "'a db_env_scheme \<Rightarrow> string \<Rightarrow> (spend_policy \<Rightarrow> spend_policy) \<Rightarrow> ledger_db \<Rightarrow> db_error + ledger_db" where
  "update_policy env i f db =
     (case find_row p_id i (policies db) of
        None \<Rightarrow> Inr db
      | Some old \<Rightarrow>
          andThen (policy_guard_update env old ((f old)\<lparr>p_id := i\<rparr>)) (\<lambda>p.
          andThen (policy_checks p) (\<lambda>_.
          andThen (policy_unique (policies db) p) (\<lambda>_.
          andThen (policy_foreign_keys db p) (\<lambda>_.
          Inr (db\<lparr>policies := upd_row p_id i (\<lambda>_. p) (policies db)\<rparr>))))))"

definition delete_policy :: "string \<Rightarrow> ledger_db \<Rightarrow> db_error + ledger_db" where
  "delete_policy i db =
     (case find_row p_id i (policies db) of
        None \<Rightarrow> Inr db
      | Some _ \<Rightarrow> Inl (Raised ''b2b_spend_budget_policy: policies are retired, never deleted''))"

section \<open>Reservations\<close>

fun status_text :: "reservation_status \<Rightarrow> string" where
  "status_text ACTIVE = ''ACTIVE''"
| "status_text COMMITTED = ''COMMITTED''"
| "status_text RELEASED = ''RELEASED''"
| "status_text EXPIRED = ''EXPIRED''"

text \<open>\<open>b2b_spend_reservation_guard\<close>, as the later migration replaces it.\<close>

definition reservation_guard_insert :: "ledger_db \<Rightarrow> reservation \<Rightarrow> db_error + reservation" where
  "reservation_guard_insert db new =
     andThen (ensure (r_status new = ACTIVE) (Raised ''b2b_spend_reservation: a reservation starts ACTIVE'')) (\<lambda>_.
     andThen (ensure (r_amount new \<noteq> None \<and> r_purchase new \<noteq> None)
       (Raised ''b2b_spend_reservation: a reservation carries its purchase and full applicable amount'')) (\<lambda>_.
     andThen (ensure (\<exists>m \<in> set (memberships db). m_id m = r_membership new \<and> m_organisation m = r_organisation new)
       (Raised ''b2b_spend_reservation: the membership belongs to another Organisation'')) (\<lambda>_.
     Inr (new\<lparr>r_hold_revision := 1\<rparr>))))"

definition purchase_binding where
  "purchase_binding r =
     ((r_tenant r, r_organisation r, r_membership r, r_submitter r, r_market r, r_currency r),
      (r_agreement r, r_digest r, r_version r, r_expires r),
      (r_amount r, r_purchase r, r_supersedes r))"

definition reservation_guard_update :: "reservation \<Rightarrow> reservation \<Rightarrow> db_error + reservation" where
  "reservation_guard_update old new =
     andThen (ensure (r_status old = ACTIVE) (Raised (''b2b_spend_reservation: '' @ status_text (r_status old) @ '' is terminal''))) (\<lambda>_.
     andThen (ensure (purchase_binding new = purchase_binding old)
       (Raised ''b2b_spend_reservation: a reservation is bound to one immutable purchase'')) (\<lambda>_.
     andThen (ensure
       (\<not> (r_hold_revision new \<notin> {r_hold_revision old, r_hold_revision old + 1} \<or>
           r_hold_revision new \<noteq> r_hold_revision old \<and> r_status new \<noteq> ACTIVE))
       (Raised ''b2b_spend_reservation: hold_revision only advances by one on rollover'')) (\<lambda>_.
     Inr new)))"

definition reservation_checks :: "reservation \<Rightarrow> db_error + unit" where
  "reservation_checks r =
     andThen (ensure (digest_text (r_digest r)) (CheckViolation ''b2b_spend_reservation'' ''b2b_spend_reservation_digest_check'')) (\<lambda>_.
     andThen (ensure (1 \<le> r_version r) (CheckViolation ''b2b_spend_reservation'' ''b2b_spend_reservation_version_check'')) (\<lambda>_.
     andThen (ensure (r_created r < r_expires r) (CheckViolation ''b2b_spend_reservation'' ''b2b_spend_reservation_expiry_check'')) (\<lambda>_.
     andThen (ensure (case r_purchase r of None \<Rightarrow> True | Some t \<Rightarrow> 1 \<le> length (btrim t) \<and> length (btrim t) \<le> 200)
       (CheckViolation ''b2b_spend_reservation'' ''b2b_spend_reservation_purchase_check'')) (\<lambda>_.
     ensure (case r_amount r of None \<Rightarrow> True | Some a \<Rightarrow> 0 < a)
       (CheckViolation ''b2b_spend_reservation'' ''b2b_spend_reservation_amount_check'')))))"

definition live_reservation :: "reservation \<Rightarrow> bool" where
  "live_reservation r \<longleftrightarrow> r_status r = ACTIVE \<and> r_deleted r = None"

text \<open>The two partial unique indexes over ACTIVE rows; two null purchases never collide.\<close>

definition same_purchase :: "reservation \<Rightarrow> reservation \<Rightarrow> bool" where
  "same_purchase r s \<longleftrightarrow>
     r_organisation r = r_organisation s \<and> r_purchase r = r_purchase s \<and> r_purchase r \<noteq> None"

definition same_transaction :: "reservation \<Rightarrow> reservation \<Rightarrow> bool" where
  "same_transaction r s \<longleftrightarrow>
     (r_membership r, r_digest r, r_version r) = (r_membership s, r_digest s, r_version s)"

definition reservation_unique :: "reservation list \<Rightarrow> reservation \<Rightarrow> db_error + unit" where
  "reservation_unique rows r =
     andThen (ensure (\<forall>s \<in> set rows. r_id s \<noteq> r_id r \<longrightarrow> live_reservation r \<longrightarrow> live_reservation s \<longrightarrow> \<not> same_transaction r s)
       (UniqueViolation ''IDX_b2b_spend_reservation_purchase'')) (\<lambda>_.
     ensure (\<forall>s \<in> set rows. r_id s \<noteq> r_id r \<longrightarrow> live_reservation r \<longrightarrow> live_reservation s \<longrightarrow> \<not> same_purchase r s)
       (UniqueViolation ''IDX_b2b_spend_reservation_active_purchase''))"

definition reservation_foreign_keys :: "ledger_db \<Rightarrow> reservation \<Rightarrow> db_error + unit" where
  "reservation_foreign_keys db r =
     andThen (ensure (find_row m_id (r_membership r) (memberships db) \<noteq> None)
       (ForeignKeyViolation ''b2b_spend_reservation'' ''b2b_spend_reservation_membership_fk'')) (\<lambda>_.
     ensure (case r_supersedes r of None \<Rightarrow> True | Some s \<Rightarrow> s = r_id r \<or> find_row r_id s (reservations db) \<noteq> None)
       (ForeignKeyViolation ''b2b_spend_reservation'' ''b2b_spend_reservation_supersedes_fk''))"

definition insert_reservation :: "reservation \<Rightarrow> ledger_db \<Rightarrow> db_error + ledger_db" where
  "insert_reservation new db =
     andThen (reservation_guard_insert db new) (\<lambda>r.
     andThen (reservation_checks r) (\<lambda>_.
     andThen (ensure (find_row r_id (r_id r) (reservations db) = None) (UniqueViolation ''b2b_spend_reservation_pkey'')) (\<lambda>_.
     andThen (reservation_unique (reservations db) r) (\<lambda>_.
     andThen (reservation_foreign_keys db r) (\<lambda>_.
     Inr (db\<lparr>reservations := reservations db @ [r]\<rparr>))))))"

definition update_reservation ::
  "string \<Rightarrow> (reservation \<Rightarrow> reservation) \<Rightarrow> ledger_db \<Rightarrow> db_error + ledger_db" where
  "update_reservation i f db =
     (case find_row r_id i (reservations db) of
        None \<Rightarrow> Inr db
      | Some old \<Rightarrow>
          andThen (reservation_guard_update old ((f old)\<lparr>r_id := i\<rparr>)) (\<lambda>r.
          andThen (reservation_checks r) (\<lambda>_.
          andThen (reservation_unique (reservations db) r) (\<lambda>_.
          andThen (reservation_foreign_keys db r) (\<lambda>_.
          Inr (db\<lparr>reservations := upd_row r_id i (\<lambda>_. r) (reservations db)\<rparr>))))))"

definition delete_reservation :: "string \<Rightarrow> ledger_db \<Rightarrow> db_error + ledger_db" where
  "delete_reservation i db =
     (case find_row r_id i (reservations db) of
        None \<Rightarrow> Inr db
      | Some _ \<Rightarrow> Inl (Raised ''b2b_spend_reservation: reservations are released, never deleted''))"

end
