(* ===== verification/Spend_Ledger.thy ===== *)
theory Spend_Ledger
  imports Spend_Tables
begin

text \<open>
  The capacity authority: \<open>b2b_spend_ledger_entry_apply\<close> of
  \<open>src/src/modules/b2b/migrations/Migration20261022150000.ts\<close>, the trigger that moves the balance
  of a budget period and the hold of a reservation with each RESERVE, COMMIT and RELEASE entry,
  and the guards that keep every other writer away from those two tables.
\<close>

datatype dml = INSERT | UPDATE | DELETE

section \<open>Balances and holds\<close>

definition b_key :: "balance \<Rightarrow> string \<times> instant" where
  "b_key b = (b_policy b, b_starts b)"

definition h_key :: "hold \<Rightarrow> string \<times> string \<times> instant" where
  "h_key h = (h_reservation h, h_policy h, h_starts h)"

text \<open>\<open>b2b_spend_budget_balance_guard\<close> and \<open>b2b_spend_reservation_hold_guard\<close>.\<close>

definition ledger_table_guard :: "string \<Rightarrow> ledger_db \<Rightarrow> dml \<Rightarrow> db_error + unit" where
  "ledger_table_guard table db operation =
     andThen (ensure (ledger_apply db) (Raised (table @ '' moves only through b2b_spend_ledger_entry''))) (\<lambda>_.
     ensure (operation \<noteq> DELETE) (Raised (table @ '' rows are never deleted'')))"

definition balance_checks :: "balance \<Rightarrow> db_error + unit" where
  "balance_checks b =
     andThen (ensure (0 \<le> b_committed b \<and> 0 \<le> b_reserved b)
       (CheckViolation ''b2b_spend_budget_balance'' ''b2b_spend_budget_balance_amounts_check'')) (\<lambda>_.
     ensure (b_starts b < b_ends b)
       (CheckViolation ''b2b_spend_budget_balance'' ''b2b_spend_budget_balance_period_check''))"

definition hold_checks :: "hold \<Rightarrow> db_error + unit" where
  "hold_checks h =
     ensure (0 \<le> h_committed h \<and> 0 \<le> h_reserved h)
       (CheckViolation ''b2b_spend_reservation_hold'' ''b2b_spend_reservation_hold_amounts_check'')"

text \<open>\<open>insert .. on conflict do nothing\<close>: a row of the same key is left as it is.\<close>

definition insert_balance :: "balance \<Rightarrow> ledger_db \<Rightarrow> db_error + ledger_db" where
  "insert_balance b db =
     andThen (ledger_table_guard ''b2b_spend_budget_balance'' db INSERT) (\<lambda>_.
     andThen (balance_checks b) (\<lambda>_.
     if find_row b_key (b_key b) (balances db) = None
     then Inr (db\<lparr>balances := balances db @ [b]\<rparr>)
     else Inr db))"

definition insert_hold :: "hold \<Rightarrow> ledger_db \<Rightarrow> db_error + ledger_db" where
  "insert_hold h db =
     andThen (ledger_table_guard ''b2b_spend_reservation_hold'' db INSERT) (\<lambda>_.
     andThen (hold_checks h) (\<lambda>_.
     if find_row h_key (h_key h) (holds db) = None
     then Inr (db\<lparr>holds := holds db @ [h]\<rparr>)
     else Inr db))"

definition update_balance ::
  "string \<times> instant \<Rightarrow> (balance \<Rightarrow> balance) \<Rightarrow> ledger_db \<Rightarrow> db_error + ledger_db" where
  "update_balance k f db =
     (case find_row b_key k (balances db) of
        None \<Rightarrow> Inr db
      | Some b \<Rightarrow>
          andThen (ledger_table_guard ''b2b_spend_budget_balance'' db UPDATE) (\<lambda>_.
          andThen (balance_checks (f b)) (\<lambda>_.
          Inr (db\<lparr>balances := upd_row b_key k f (balances db)\<rparr>))))"

definition update_hold ::
  "string \<times> string \<times> instant \<Rightarrow> (hold \<Rightarrow> hold) \<Rightarrow> ledger_db \<Rightarrow> db_error + ledger_db" where
  "update_hold k f db =
     (case find_row h_key k (holds db) of
        None \<Rightarrow> Inr db
      | Some h \<Rightarrow>
          andThen (ledger_table_guard ''b2b_spend_reservation_hold'' db UPDATE) (\<lambda>_.
          andThen (hold_checks (f h)) (\<lambda>_.
          Inr (db\<lparr>holds := upd_row h_key k f (holds db)\<rparr>))))"

definition delete_balance :: "string \<times> instant \<Rightarrow> ledger_db \<Rightarrow> db_error + ledger_db" where
  "delete_balance k db =
     (case find_row b_key k (balances db) of
        None \<Rightarrow> Inr db
      | Some _ \<Rightarrow> andThen (ledger_table_guard ''b2b_spend_budget_balance'' db DELETE) (\<lambda>_. Inr db))"

definition delete_hold :: "string \<times> string \<times> instant \<Rightarrow> ledger_db \<Rightarrow> db_error + ledger_db" where
  "delete_hold k db =
     (case find_row h_key k (holds db) of
        None \<Rightarrow> Inr db
      | Some _ \<Rightarrow> andThen (ledger_table_guard ''b2b_spend_reservation_hold'' db DELETE) (\<lambda>_. Inr db))"

definition move_reserved :: "int \<Rightarrow> balance \<Rightarrow> balance" where
  "move_reserved a b = b\<lparr>b_reserved := b_reserved b + a\<rparr>"

definition move_committed :: "int \<Rightarrow> balance \<Rightarrow> balance" where
  "move_committed a b = b\<lparr>b_reserved := b_reserved b - a, b_committed := b_committed b + a\<rparr>"

definition move_hold_reserved :: "int \<Rightarrow> hold \<Rightarrow> hold" where
  "move_hold_reserved a h = h\<lparr>h_reserved := h_reserved h + a\<rparr>"

definition move_hold_committed :: "int \<Rightarrow> hold \<Rightarrow> hold" where
  "move_hold_committed a h = h\<lparr>h_reserved := h_reserved h - a, h_committed := h_committed h + a\<rparr>"

section \<open>The ledger trigger\<close>

definition outside_budget :: "spend_policy \<Rightarrow> reservation \<Rightarrow> bool" where
  "outside_budget p r \<longleftrightarrow>
     (p_tenant p, p_organisation p, p_market p, p_currency p) \<noteq>
       (r_tenant r, r_organisation r, r_market r, r_currency r) \<or>
     (p_scope p = MEMBERSHIP \<and> (case p_membership p of None \<Rightarrow> False | Some m \<Rightarrow> m \<noteq> r_membership r)) \<or>
     (p_scope p = AGREEMENT \<and> p_agreement p \<noteq> r_agreement r)"

text \<open>The period of an entry, from the database clock and never from the caller.\<close>

definition budget_period :: "'a db_env_scheme \<Rightarrow> instant \<Rightarrow> spend_policy \<Rightarrow> instant \<times> instant option" where
  "budget_period env now p =
     (if p_period_kind p = CALENDAR_MONTH
      then (month_start env (p_timezone p) now, Some (month_end env (p_timezone p) now))
      else (p_from p, p_until p))"

text \<open>A RELEASE that names an existing earlier hold (a rollover or an expiry).\<close>

definition apply_named_release :: "instant \<Rightarrow> ledger_entry \<Rightarrow> ledger_db \<Rightarrow> db_error + ledger_entry \<times> ledger_db" where
  "apply_named_release t e db =
     (case (find_row h_key (e_reservation e, e_policy e, t) (holds db),
            find_row b_key (e_policy e, t) (balances db)) of
        (Some h, Some b) \<Rightarrow>
          andThen (ensure (e_amount e \<le> h_reserved h)
            (Raised ''b2b_spend_ledger_entry: RELEASE returns only the unused reserved portion'')) (\<lambda>_.
          andThen (update_balance (b_key b) (move_reserved (- e_amount e)) (db\<lparr>ledger_apply := True\<rparr>)) (\<lambda>db1.
          andThen (update_hold (h_key h) (move_hold_reserved (- e_amount e)) db1) (\<lambda>db2.
          Inr (e\<lparr>e_ends := Some (b_ends b)\<rparr>, db2\<lparr>ledger_apply := False\<rparr>))))
      | _ \<Rightarrow> Inl (Raised ''b2b_spend_ledger_entry: no hold to release in that period''))"

definition new_balance :: "string \<Rightarrow> instant \<Rightarrow> instant \<Rightarrow> balance" where
  "new_balance p t u = \<lparr>b_policy = p, b_starts = t, b_ends = u, b_committed = 0, b_reserved = 0\<rparr>"

definition new_hold :: "string \<Rightarrow> string \<Rightarrow> int \<Rightarrow> instant \<Rightarrow> hold" where
  "new_hold r p revision t =
     \<lparr>h_reservation = r, h_policy = p, h_policy_revision = revision, h_starts = t,
      h_reserved = 0, h_committed = 0\<rparr>"

text \<open>A fully released hold may be re-reserved under a revised policy.\<close>

definition refresh_hold :: "spend_policy \<Rightarrow> hold \<Rightarrow> ledger_db \<Rightarrow> db_error + hold \<times> ledger_db" where
  "refresh_hold p h db =
     (if h_reserved h = 0 \<and> h_committed h = 0 \<and> h_policy_revision h \<noteq> p_revision p
      then andThen (update_hold (h_key h) (\<lambda>x. x\<lparr>h_policy_revision := p_revision p\<rparr>) db) (\<lambda>db1.
           Inr (h\<lparr>h_policy_revision := p_revision p\<rparr>, db1))
      else Inr (h, db))"

definition reservation_lapsed :: "instant \<Rightarrow> reservation \<Rightarrow> bool" where
  "reservation_lapsed now r \<longleftrightarrow> r_status r \<noteq> ACTIVE \<or> r_expires r \<le> now"

definition not_in_effect :: "instant \<Rightarrow> spend_policy \<Rightarrow> ledger_entry \<Rightarrow> hold \<Rightarrow> bool" where
  "not_in_effect now p e h \<longleftrightarrow>
     p_status p \<noteq> POLICY_ACTIVE \<or> now < p_from p \<or>
     (case p_until p of None \<Rightarrow> False | Some u \<Rightarrow> u \<le> now) \<or>
     e_policy_revision e \<noteq> p_revision p \<or> h_policy_revision h \<noteq> p_revision p"

definition move_both ::
  "balance \<Rightarrow> (balance \<Rightarrow> balance) \<Rightarrow> hold \<Rightarrow> (hold \<Rightarrow> hold) \<Rightarrow> ledger_db \<Rightarrow> db_error + ledger_db" where
  "move_both b f h g db =
     andThen (update_balance (b_key b) f db) (\<lambda>db1. update_hold (h_key h) g db1)"

definition apply_reserve ::
  "instant \<Rightarrow> spend_policy \<Rightarrow> reservation \<Rightarrow> balance \<Rightarrow> hold \<Rightarrow> ledger_entry \<Rightarrow> ledger_db \<Rightarrow> db_error + ledger_db" where
  "apply_reserve now p r b h e db =
     andThen (ensure (\<not> reservation_lapsed now r)
       (Raised ''b2b_spend_ledger_entry: the reservation is not active'')) (\<lambda>_.
     andThen (refresh_hold p h db) (\<lambda>(h1, db1).
     andThen (ensure (\<not> not_in_effect now p e h1)
       (Raised ''b2b_spend_ledger_entry: the budget is not in effect at this revision'')) (\<lambda>_.
     andThen (ensure (e_amount e \<le> p_limit p - b_committed b - b_reserved b)
       (RaisedCheck ''b2b_spend_ledger_entry: insufficient budget capacity'')) (\<lambda>_.
     move_both b (move_reserved (e_amount e)) h1 (move_hold_reserved (e_amount e)) db1))))"

definition apply_commit ::
  "instant \<Rightarrow> spend_policy \<Rightarrow> reservation \<Rightarrow> balance \<Rightarrow> hold \<Rightarrow> ledger_entry \<Rightarrow> ledger_db \<Rightarrow> db_error + ledger_db" where
  "apply_commit now p r b h e db =
     andThen (ensure (\<not> reservation_lapsed now r)
       (Raised ''b2b_spend_ledger_entry: an expired or closed reservation never authorises commitment'')) (\<lambda>_.
     andThen (ensure (p_status p = POLICY_ACTIVE \<and> e_policy_revision e = p_revision p \<and> h_policy_revision h = p_revision p)
       (Raised ''b2b_spend_ledger_entry: the budget changed; the reservation must be revalidated'')) (\<lambda>_.
     andThen (ensure (e_amount e \<le> h_reserved h)
       (Raised ''b2b_spend_ledger_entry: COMMIT converts only this period's reserved capacity'')) (\<lambda>_.
     move_both b (move_committed (e_amount e)) h (move_hold_committed (e_amount e)) db)))"

definition apply_release :: "balance \<Rightarrow> hold \<Rightarrow> ledger_entry \<Rightarrow> ledger_db \<Rightarrow> db_error + ledger_db" where
  "apply_release b h e db =
     andThen (ensure (e_amount e \<le> h_reserved h)
       (Raised ''b2b_spend_ledger_entry: RELEASE returns only the unused reserved portion'')) (\<lambda>_.
     move_both b (move_reserved (- e_amount e)) h (move_hold_reserved (- e_amount e)) db)"

definition apply_in_period ::
  "'a db_env_scheme \<Rightarrow> instant \<Rightarrow> spend_policy \<Rightarrow> reservation \<Rightarrow> ledger_entry \<Rightarrow> ledger_db \<Rightarrow>
     db_error + ledger_entry \<times> ledger_db" where
  "apply_in_period env now p r e db =
     (let (starts, ends) = budget_period env now p;
          e1 = e\<lparr>e_starts := Some starts, e_ends := ends\<rparr> in
      andThen (ensure (\<not> (now < starts \<or> (case ends of None \<Rightarrow> False | Some u \<Rightarrow> u \<le> now)))
        (Raised ''b2b_spend_ledger_entry: outside the budget period'')) (\<lambda>_.
      case ends of
        None \<Rightarrow> Inl (NotNullViolation ''period_ends_at'')
      | Some u \<Rightarrow>
        andThen (insert_balance (new_balance (e_policy e) starts u) (db\<lparr>ledger_apply := True\<rparr>)) (\<lambda>db1.
        andThen (insert_hold (new_hold (e_reservation e) (e_policy e) (p_revision p) starts) db1) (\<lambda>db2.
        case (find_row b_key (e_policy e, starts) (balances db2),
              find_row h_key (e_reservation e, e_policy e, starts) (holds db2)) of
          (Some b, Some h) \<Rightarrow>
            andThen
              (case e_kind e of
                 RESERVE \<Rightarrow> apply_reserve now p r b h e1 db2
               | COMMIT \<Rightarrow> apply_commit now p r b h e1 db2
               | RELEASE \<Rightarrow> apply_release b h e1 db2)
              (\<lambda>db3. Inr (e1, db3\<lparr>ledger_apply := False\<rparr>))
        | _ \<Rightarrow> Inl (NotNullViolation ''id'')))))"

definition ledger_entry_apply ::
  "'a db_env_scheme \<Rightarrow> instant \<Rightarrow> ledger_entry \<Rightarrow> ledger_db \<Rightarrow> db_error + ledger_entry \<times> ledger_db" where
  "ledger_entry_apply env now entry db =
     (let e = entry\<lparr>e_occurred := now\<rparr> in
      case (find_row p_id (e_policy e) (policies db), find_row r_id (e_reservation e) (reservations db)) of
        (Some p, Some r) \<Rightarrow>
          andThen (ensure (\<not> outside_budget p r)
            (Raised ''b2b_spend_ledger_entry: the reservation is outside this budget'')) (\<lambda>_.
          case (e_kind e, e_starts e) of
            (RELEASE, Some t) \<Rightarrow> apply_named_release t e db
          | _ \<Rightarrow> apply_in_period env now p r e db)
      | _ \<Rightarrow> Inl (Raised ''b2b_spend_ledger_entry: unknown policy or reservation''))"

definition entry_checks :: "ledger_entry \<Rightarrow> db_error + unit" where
  "entry_checks e =
     andThen (ensure (idempotency_text (e_key e)) (CheckViolation ''b2b_spend_ledger_entry'' ''b2b_spend_ledger_entry_idempotency_check'')) (\<lambda>_.
     andThen (ensure (0 < e_amount e) (CheckViolation ''b2b_spend_ledger_entry'' ''b2b_spend_ledger_entry_amount_check'')) (\<lambda>_.
     ensure ((e_kind e = COMMIT) = (e_commitment e \<noteq> None) \<and> (e_kind e = RELEASE) = (e_reason e \<noteq> None))
       (CheckViolation ''b2b_spend_ledger_entry'' ''b2b_spend_ledger_entry_kind_check'')))"

text \<open>An INSERT into the ledger; UPDATE and DELETE are refused outright.\<close>

definition post_entry ::
  "'a db_env_scheme \<Rightarrow> instant \<Rightarrow> ledger_db \<Rightarrow> ledger_entry \<Rightarrow> db_error + ledger_db" where
  "post_entry env now db entry =
     andThen (ledger_entry_apply env now entry db) (\<lambda>(e, db1).
     andThen (entry_checks e) (\<lambda>_.
     andThen (ensure (find_row e_key (e_key e) (entries db1) = None)
       (UniqueViolation ''b2b_spend_ledger_entry_idempotency_unique'')) (\<lambda>_.
     Inr (db1\<lparr>entries := entries db1 @ [e]\<rparr>))))"

definition rewrite_entry :: "string \<Rightarrow> ledger_db \<Rightarrow> db_error + ledger_db" where
  "rewrite_entry k db =
     (case find_row e_key k (entries db) of
        None \<Rightarrow> Inr db
      | Some _ \<Rightarrow> Inl (Raised ''b2b_spend_ledger_entry is append-only''))"

section \<open>What the rows say\<close>

definition bal_reserved :: "ledger_db \<Rightarrow> string \<times> instant \<Rightarrow> int" where
  "bal_reserved db k = (case find_row b_key k (balances db) of None \<Rightarrow> 0 | Some b \<Rightarrow> b_reserved b)"

definition bal_committed :: "ledger_db \<Rightarrow> string \<times> instant \<Rightarrow> int" where
  "bal_committed db k = (case find_row b_key k (balances db) of None \<Rightarrow> 0 | Some b \<Rightarrow> b_committed b)"

definition held :: "ledger_db \<Rightarrow> string \<times> string \<times> instant \<Rightarrow> int" where
  "held db k = (case find_row h_key k (holds db) of None \<Rightarrow> 0 | Some h \<Rightarrow> h_reserved h)"

definition held_committed :: "ledger_db \<Rightarrow> string \<times> string \<times> instant \<Rightarrow> int" where
  "held_committed db k = (case find_row h_key k (holds db) of None \<Rightarrow> 0 | Some h \<Rightarrow> h_committed h)"

text \<open>The holds of one budget period, over every reservation.\<close>

definition hold_sum :: "(hold \<Rightarrow> int) \<Rightarrow> ledger_db \<Rightarrow> string \<times> instant \<Rightarrow> int" where
  "hold_sum f db k = (\<Sum>h\<leftarrow>holds db. if (h_policy h, h_starts h) = k then f h else 0)"

definition used :: "ledger_db \<Rightarrow> string \<times> instant \<Rightarrow> int" where
  "used db k = bal_committed db k + bal_reserved db k"

definition reserved_delta :: "ledger_entry \<Rightarrow> int" where
  "reserved_delta e = (if e_kind e = RESERVE then e_amount e else - e_amount e)"

definition committed_delta :: "ledger_entry \<Rightarrow> int" where
  "committed_delta e = (if e_kind e = COMMIT then e_amount e else 0)"

definition entry_key_of :: "ledger_entry \<Rightarrow> string \<times> string \<times> instant option" where
  "entry_key_of e = (e_reservation e, e_policy e, e_starts e)"

definition tables_ok :: "ledger_db \<Rightarrow> bool" where
  "tables_ok db \<longleftrightarrow>
     distinct (map b_key (balances db)) \<and> distinct (map h_key (holds db)) \<and>
     (\<forall>b \<in> set (balances db). balance_checks b = Inr ()) \<and>
     (\<forall>h \<in> set (holds db). hold_checks h = Inr ())"

definition frame :: "ledger_db \<Rightarrow> ledger_db \<Rightarrow> bool" where
  "frame db db' \<longleftrightarrow>
     policies db' = policies db \<and> reservations db' = reservations db \<and> entries db' = entries db \<and>
     memberships db' = memberships db \<and> organisations db' = organisations db"

definition balance_moves :: "string \<times> instant \<Rightarrow> int \<Rightarrow> int \<Rightarrow> ledger_db \<Rightarrow> ledger_db \<Rightarrow> bool" where
  "balance_moves k dr dc db db' \<longleftrightarrow>
     (\<forall>k'. bal_reserved db' k' = bal_reserved db k' + (if k' = k then dr else 0)) \<and>
     (\<forall>k'. bal_committed db' k' = bal_committed db k' + (if k' = k then dc else 0))"

definition hold_moves :: "string \<times> string \<times> instant \<Rightarrow> int \<Rightarrow> int \<Rightarrow> ledger_db \<Rightarrow> ledger_db \<Rightarrow> bool" where
  "hold_moves k dr dc db db' \<longleftrightarrow>
     (\<forall>k'. held db' k' = held db k' + (if k' = k then dr else 0)) \<and>
     (\<forall>k'. held_committed db' k' = held_committed db k' + (if k' = k then dc else 0)) \<and>
     (\<forall>k'. k' \<noteq> k \<longrightarrow> find_row h_key k' (holds db') = find_row h_key k' (holds db)) \<and>
     (\<forall>j. hold_sum h_reserved db' j = hold_sum h_reserved db j + (if j = snd k then dr else 0)) \<and>
     (\<forall>j. hold_sum h_committed db' j = hold_sum h_committed db j + (if j = snd k then dc else 0))"

lemma frame_refl [simp, intro]: "frame db db"
  by (simp add: frame_def)

lemma frame_trans: "frame a b \<Longrightarrow> frame b c \<Longrightarrow> frame a c"
  by (simp add: frame_def)

lemma balance_moves_trans:
  "balance_moves k a b x y \<Longrightarrow> balance_moves k c d y z \<Longrightarrow> balance_moves k (a + c) (b + d) x z"
  by (simp add: balance_moves_def)

lemma hold_moves_trans:
  "hold_moves k a b x y \<Longrightarrow> hold_moves k c d y z \<Longrightarrow> hold_moves k (a + c) (b + d) x z"
  by (simp add: hold_moves_def)

lemma ledger_apply_views [simp]:
  "bal_reserved (db\<lparr>ledger_apply := x\<rparr>) = bal_reserved db"
  "bal_committed (db\<lparr>ledger_apply := x\<rparr>) = bal_committed db"
  "held (db\<lparr>ledger_apply := x\<rparr>) = held db"
  "held_committed (db\<lparr>ledger_apply := x\<rparr>) = held_committed db"
  "hold_sum f (db\<lparr>ledger_apply := x\<rparr>) = hold_sum f db"
  "tables_ok (db\<lparr>ledger_apply := x\<rparr>) = tables_ok db"
  by (simp_all add: fun_eq_iff bal_reserved_def bal_committed_def held_def held_committed_def
      hold_sum_def tables_ok_def)

lemma ledger_apply_moves [simp]:
  "frame (db\<lparr>ledger_apply := x\<rparr>) db' = frame db db'"
  "frame db (db'\<lparr>ledger_apply := x\<rparr>) = frame db db'"
  "balance_moves k dr dc (db\<lparr>ledger_apply := x\<rparr>) db' = balance_moves k dr dc db db'"
  "balance_moves k dr dc db (db'\<lparr>ledger_apply := x\<rparr>) = balance_moves k dr dc db db'"
  "hold_moves j dr dc (db\<lparr>ledger_apply := x\<rparr>) db' = hold_moves j dr dc db db'"
  "hold_moves j dr dc db (db'\<lparr>ledger_apply := x\<rparr>) = hold_moves j dr dc db db'"
  by (simp_all add: frame_def balance_moves_def hold_moves_def)

end
