(* ===== verification/Buyer_Reasons.thy ===== *)
theory Buyer_Reasons
  imports Trade_Prelude
begin

text \<open>
  The closed vocabulary of buyer decisions in \<open>src/src/baobab/b2b/buyer-authority.ts\<close>, shared by
  the spend commands and the operation policy.
\<close>

datatype decision_outcome = ALLOW | APPROVAL_REQUIRED | SELECTION_REQUIRED | DENY | UNAVAILABLE

datatype decision_reason =
    BUYER_TOKEN_INVALID
  | ASSURANCE_INSUFFICIENT
  | IDENTITY_NOT_RESOLVED
  | PRINCIPAL_NOT_ACTIVE
  | ORGANISATION_SELECTION_REQUIRED
  | BUYER_NOT_AUTHORISED
  | ORGANISATION_NOT_ATTESTED
  | BUYER_ACCOUNT_NOT_ACTIVE
  | ROLE_NOT_PERMITTED
  | SITE_NOT_PERMITTED
  | MARKET_NOT_PERMITTED
  | PURCHASE_ORDER_REQUIRED
  | SPEND_LIMIT_EXCEEDED
  | SPEND_POLICY_NOT_CONFIGURED
  | APPROVAL_THRESHOLD_EXCEEDED
  | APPROVAL_AUTHORITY_NOT_CONFIGURED
  | SEPARATION_OF_DUTIES
  | TRANSACTION_CHANGED
  | CONTEXT_NOT_USABLE
  | SELLER_AUTHORITY_ABSENT
  | OPERATION_NOT_ACTIVATED
  | SOURCE_UNAVAILABLE

end
