(* ===== verification/Js_Text.thy ===== *)
theory Js_Text
  imports Trade_Prelude
begin

text \<open>
  The texts the sources build from numbers and instants: decimal numerals as \<open>String(n)\<close> prints
  them and \<open>Date.prototype.toISOString\<close>, with the proleptic Gregorian calendar written out.
\<close>

definition digit_text :: "int \<Rightarrow> char" where
  "digit_text d = char_of (48 + d)"

text \<open>The decimal numeral of a nonnegative integer.\<close>

function nat_text :: "int \<Rightarrow> string" where
  "nat_text n = (if n < 10 then [digit_text n] else nat_text (n div 10) @ [digit_text (n mod 10)])"
  by auto

termination nat_text
  by (relation "measure nat") auto

declare nat_text.simps [simp del]

definition int_text :: "int \<Rightarrow> string" where
  "int_text i = (if i < 0 then ''-'' @ nat_text (- i) else nat_text i)"

definition pad :: "nat \<Rightarrow> int \<Rightarrow> string" where
  "pad w i = (let s = nat_text i in replicate (w - length s) CHR ''0'' @ s)"

text \<open>Year, month and day of a day number, day 0 being 1970-01-01.\<close>

definition civil_from_days :: "int \<Rightarrow> int \<times> int \<times> int" where
  "civil_from_days days =
     (let z = days + 719468;
          era = z div 146097;
          doe = z mod 146097;
          yoe = (doe - doe div 1460 + doe div 36524 - doe div 146096) div 365;
          doy = doe - (365 * yoe + yoe div 4 - yoe div 100);
          mp = (5 * doy + 2) div 153;
          d = doy - (153 * mp + 2) div 5 + 1;
          m = (if mp < 10 then mp + 3 else mp - 9);
          y = yoe + era * 400 + (if m \<le> 2 then 1 else 0)
      in (y, m, d))"

definition iso_year :: "int \<Rightarrow> string" where
  "iso_year y =
     (if 0 \<le> y \<and> y \<le> 9999 then pad 4 y
      else (if y < 0 then ''-'' else ''+'') @ pad 6 (abs y))"

definition iso_string :: "instant \<Rightarrow> string" where
  "iso_string t =
     (let (y, m, d) = civil_from_days (t div 86400000);
          r = t mod 86400000
      in iso_year y @ ''-'' @ pad 2 m @ ''-'' @ pad 2 d @ ''T'' @ pad 2 (r div 3600000) @ '':'' @
         pad 2 (r div 60000 mod 60) @ '':'' @ pad 2 (r div 1000 mod 60) @ ''.'' @ pad 3 (r mod 1000) @ ''Z'')"

text \<open>\<open>BigInt(s)\<close> of a text of decimal digits.\<close>

definition digits_value :: "string \<Rightarrow> int" where
  "digits_value s = foldl (\<lambda>n c. 10 * n + (char_code c - 48)) 0 s"

lemma digits_value_snoc: "digits_value (s @ [c]) = 10 * digits_value s + (char_code c - 48)"
  by (simp add: digits_value_def)

lemma code_between_iff: "code_between lo hi c \<longleftrightarrow> lo \<le> char_code c \<and> char_code c \<le> hi"
  by (simp add: code_between_def Let_def)

lemma digit_char_iff: "digit_char c \<longleftrightarrow> 48 \<le> char_code c \<and> char_code c \<le> 57"
  by (simp add: digit_char_def code_between_iff)

lemma digit_text_code: "0 \<le> d \<Longrightarrow> d \<le> 9 \<Longrightarrow> char_code (digit_text d) = 48 + d"
  by (simp add: char_code_def digit_text_def of_char_of take_bit_int_eq_self)

lemma digit_char_text: "0 \<le> d \<Longrightarrow> d \<le> 9 \<Longrightarrow> digit_char (digit_text d)"
  by (simp add: digit_char_iff digit_text_code)

lemma digit_text_of_code: "digit_text (char_code c - 48) = c"
  by (simp add: digit_text_def char_code_def)

lemma nat_text_small: "0 \<le> n \<Longrightarrow> n < 10 \<Longrightarrow> nat_text n = [digit_text n]"
  by (simp add: nat_text.simps)

lemma nat_text_0: "nat_text 0 = ''0''"
  by code_simp

lemma nat_text_big: "10 \<le> n \<Longrightarrow> nat_text n = nat_text (n div 10) @ [digit_text (n mod 10)]"
  by (simp add: nat_text.simps [of n])

lemma nat_text_facts:
  "0 \<le> n \<Longrightarrow> nat_text n \<noteq> [] \<and> list_all digit_char (nat_text n) \<and> digits_value (nat_text n) = n \<and>
     (0 < n \<longrightarrow> code_between 49 57 (hd (nat_text n)))"
proof (induction n rule: nat_text.induct)
  case (1 n)
  show ?case
  proof (cases "n < 10")
    case True
    then show ?thesis
      using 1(2) by (simp add: nat_text_small digit_char_text digits_value_def digit_text_code code_between_iff)
  next
    case False
    then have "0 \<le> n div 10" "0 < n div 10" by auto
    with 1(1) False show ?thesis
      by (simp add: nat_text_big digits_value_snoc digit_text_code digit_char_text)
  qed
qed

lemma int_text_sample: "int_text (-1207) = ''-1207''"
  by code_simp

lemma iso_string_epoch: "iso_string 0 = ''1970-01-01T00:00:00.000Z''"
  by code_simp

lemma iso_string_leap: "iso_string 1709210096789 = ''2024-02-29T12:34:56.789Z''"
  by code_simp

end
