(* ===== verification/Spend_Commands.thy ===== *)
theory Spend_Commands
  imports Spend_Ledger Buyer_Reasons Js_Text "HOL-Library.Product_Lexorder"
begin

text \<open>
  The spend reservation commands of \<open>src/src/baobab/b2b/spend-reservation-commands.ts\<close> over the
  ledger, with the command record of \<open>Migration20261022180000.ts\<close>. A command is one
  transaction: its body is a fallible function of the database, and \<open>run_command\<close> keeps the
  database of a body that fails. \<open>now\<close> is the transaction's clock, \<open>app_now\<close> the caller's.
\<close>

section \<open>Commands, results and errors\<close>

datatype command_kind = K_SUBMIT | K_RESUBMIT | K_COMMIT | K_RELEASE | K_EXPIRE | K_ROLLOVER

record submit_command =
  sub_key :: string
  sub_purchase :: string
  sub_tenant :: string
  sub_organisation :: string
  sub_membership :: string
  sub_actor :: string
  sub_market :: string
  sub_currency :: string
  sub_agreement :: "string option"
  sub_digest :: string
  sub_version :: js_number
  sub_amount :: int
  sub_expires :: js_number

record reservation_command =
  cmd_key :: string
  cmd_organisation :: string
  cmd_reservation :: string
  cmd_actor :: string

record commit_command = reservation_command +
  com_hold_revision :: js_number
  com_digest :: string
  com_version :: js_number
  com_amount :: int
  com_commitment :: string

datatype spend_request =
    SubmitReq submit_command
  | ResubmitReq submit_command string
  | CommitReq commit_command
  | MutationReq commit_command
  | ReleaseReq reservation_command string
  | ExpireReq reservation_command
  | RolloverReq reservation_command

record applied =
  a_reservation :: string
  a_status :: reservation_status
  a_hold_revision :: int
  a_revalidate :: "bool option"

text \<open>The flag of \<open>REFUSED\<close> is the detail ROLLOVER_REQUIRED.\<close>

datatype spend_result =
    APPLIED applied
  | REPLAYED applied
  | REFUSED decision_reason bool
  | CONFLICT

datatype tx_error = Refused decision_reason bool | Conflict | Native db_error

record spend_command_row =
  sc_key :: string
  sc_kind :: command_kind
  sc_organisation :: string
  sc_digest :: string
  sc_reservation :: string
  sc_result :: applied
  sc_actor :: string

record spend_db =
  ledger :: ledger_db
  commands :: "spend_command_row list"

text \<open>
  The connection to the server: up, down, or lost while the reply to the final COMMIT is awaited,
  when the server has committed and the client sees an error.
\<close>

datatype connection = Up | Down | CommitReplyLost

record command_env = db_env +
  sha256 :: "string \<Rightarrow> string"
  request_digest :: "command_kind \<Rightarrow> spend_request \<Rightarrow> string"

definition db_step :: "db_error + 'a \<Rightarrow> tx_error + 'a" where
  "db_step m = (case m of Inl e \<Rightarrow> Inl (Native e) | Inr x \<Rightarrow> Inr x)"

definition on_ledger :: "(ledger_db \<Rightarrow> db_error + ledger_db) \<Rightarrow> spend_db \<Rightarrow> tx_error + spend_db" where
  "on_ledger f db = andThen (db_step (f (ledger db))) (\<lambda>l. Inr (db\<lparr>ledger := l\<rparr>))"

definition MAX_RESERVATION_HOLD_MS :: int where
  "MAX_RESERVATION_HOLD_MS = 30 * 24 * 60 * 60 * 1000"

section \<open>Argument checks\<close>

definition reservation_id_text :: "string \<Rightarrow> bool" where
  "reservation_id_text s \<longleftrightarrow> has_prefix ''b2bres_'' s \<and> class_range alnum_char 6 64 (drop 7 s)"

definition assertReservationCommand :: "'a reservation_command_scheme \<Rightarrow> bool" where
  "assertReservationCommand c \<longleftrightarrow>
     idempotency_text (cmd_key c) \<and> cmd_organisation c \<noteq> [] \<and>
     reservation_id_text (cmd_reservation c) \<and> cmd_actor c \<noteq> []"

definition assertSubmit :: "instant \<Rightarrow> submit_command \<Rightarrow> bool" where
  "assertSubmit app_now c \<longleftrightarrow>
     idempotency_text (sub_key c) \<and>
     (0 < length (js_trim (sub_purchase c)) \<and> length (sub_purchase c) \<le> 200) \<and>
     sub_tenant c \<noteq> [] \<and> sub_organisation c \<noteq> [] \<and> sub_membership c \<noteq> [] \<and> sub_actor c \<noteq> [] \<and>
     sub_market c \<noteq> [] \<and> currency_code (sub_currency c) \<and> digest_text (sub_digest c) \<and>
     is_safe_number (sub_version c) \<and>
     (case sub_version c of JInt v \<Rightarrow> 1 \<le> v | JNonInt \<Rightarrow> True) \<and>
     0 < sub_amount c \<and>
     (case sub_expires c of
        JInt t \<Rightarrow> 0 < t - app_now \<and> t - app_now \<le> MAX_RESERVATION_HOLD_MS
      | JNonInt \<Rightarrow> False)"

definition assertCommit :: "commit_command \<Rightarrow> bool" where
  "assertCommit c \<longleftrightarrow>
     digest_text (com_digest c) \<and> com_commitment c \<noteq> [] \<and> is_safe_number (com_hold_revision c) \<and>
     (case com_hold_revision c of JInt v \<Rightarrow> 1 \<le> v | JNonInt \<Rightarrow> False)"

fun int_of_number :: "js_number \<Rightarrow> int" where
  "int_of_number (JInt n) = n"
| "int_of_number JNonInt = 0"

section \<open>Derived identifiers\<close>

definition reservationIdFor :: "command_env \<Rightarrow> string \<Rightarrow> string \<Rightarrow> string" where
  "reservationIdFor env organisation key = ''b2bres_'' @ take 40 (sha256 env (organisation @ ''|'' @ key))"

fun kind_lower :: "entry_kind \<Rightarrow> string" where
  "kind_lower RESERVE = ''reserve''"
| "kind_lower COMMIT = ''commit''"
| "kind_lower RELEASE = ''release''"

definition entryKey :: "command_env \<Rightarrow> entry_kind \<Rightarrow> string \<Rightarrow> string \<Rightarrow> string \<Rightarrow> string" where
  "entryKey env kind command_key policy_id step =
     kind_lower kind @ ''.'' @ take 48 (sha256 env (command_key @ ''|'' @ policy_id @ ''|'' @ step))"

section \<open>Reads\<close>

text \<open>\<open>lockReservation\<close>: a foreign, deleted or unbound reservation is never disclosed.\<close>

definition lockReservation :: "string \<Rightarrow> string \<Rightarrow> ledger_db \<Rightarrow> tx_error + reservation" where
  "lockReservation organisation i db =
     (case List.find (\<lambda>r. r_id r = i \<and> r_organisation r = organisation \<and> r_deleted r = None) (reservations db) of
        None \<Rightarrow> Inl (Refused BUYER_NOT_AUTHORISED False)
      | Some r \<Rightarrow>
          if r_amount r = None \<or> r_purchase r = None then Inl (Refused BUYER_NOT_AUTHORISED False)
          else Inr r)"

definition amount_of :: "reservation \<Rightarrow> int" where
  "amount_of r = (case r_amount r of None \<Rightarrow> 0 | Some a \<Rightarrow> a)"

definition expired :: "instant \<Rightarrow> reservation \<Rightarrow> bool" where
  "expired now r \<longleftrightarrow> r_expires r \<le> now"

record policy_row =
  pr_id :: string
  pr_revision :: int
  pr_scope :: budget_scope
  pr_starts :: instant

definition policy_applies :: "instant \<Rightarrow> reservation \<Rightarrow> spend_policy \<Rightarrow> bool" where
  "policy_applies now r p \<longleftrightarrow>
     p_tenant p = r_tenant r \<and> p_organisation p = r_organisation r \<and> p_market p = r_market r \<and>
     p_currency p = r_currency r \<and> p_status p = POLICY_ACTIVE \<and> p_deleted p = None \<and>
     p_from p \<le> now \<and> (case p_until p of None \<Rightarrow> True | Some u \<Rightarrow> now < u) \<and>
     (p_scope p = MEMBERSHIP \<and> p_membership p = Some (r_membership r) \<or>
      p_scope p = ORGANISATION \<or>
      p_scope p = AGREEMENT \<and> p_agreement p \<noteq> None \<and> p_agreement p = r_agreement r)"

definition row_of_policy :: "'a db_env_scheme \<Rightarrow> instant \<Rightarrow> spend_policy \<Rightarrow> policy_row" where
  "row_of_policy env now p =
     \<lparr>pr_id = p_id p, pr_revision = p_revision p, pr_scope = p_scope p,
      pr_starts = fst (budget_period env now p)\<rparr>"

definition in_scope :: "budget_scope \<Rightarrow> policy_row list \<Rightarrow> nat" where
  "in_scope s ps = length (filter (\<lambda>p. pr_scope p = s) ps)"

definition applicablePolicies ::
  "'a db_env_scheme \<Rightarrow> instant \<Rightarrow> reservation \<Rightarrow> ledger_db \<Rightarrow> tx_error + policy_row list" where
  "applicablePolicies env now r db =
     (let ps = sort_key pr_id (map (row_of_policy env now) (filter (policy_applies now r) (policies db))) in
      if in_scope MEMBERSHIP ps = 0 then Inl (Refused SPEND_POLICY_NOT_CONFIGURED False)
      else if 1 < in_scope MEMBERSHIP ps \<or> 1 < in_scope ORGANISATION ps \<or> 1 < in_scope AGREEMENT ps
      then Inl (Refused CONTEXT_NOT_USABLE False)
      else Inr ps)"

definition holds_of :: "string \<Rightarrow> ledger_db \<Rightarrow> hold list" where
  "holds_of r db = sort_key (\<lambda>h. (h_policy h, h_starts h)) (filter (\<lambda>h. h_reservation h = r) (holds db))"

definition is_current :: "policy_row \<Rightarrow> hold \<Rightarrow> bool" where
  "is_current p h \<longleftrightarrow>
     h_policy h = pr_id p \<and> h_policy_revision h = pr_revision p \<and> h_starts h = pr_starts p"

definition currentHold :: "hold list \<Rightarrow> policy_row \<Rightarrow> hold option" where
  "currentHold hs p = List.find (is_current p) hs"

section \<open>Ledger entries of a command\<close>

definition reserve_row ::
  "command_env \<Rightarrow> string \<Rightarrow> policy_row \<Rightarrow> int \<Rightarrow> string \<Rightarrow> string \<Rightarrow> string \<Rightarrow> ledger_entry" where
  "reserve_row env r p amount key actor step =
     \<lparr>e_kind = RESERVE, e_reservation = r, e_policy = pr_id p, e_policy_revision = pr_revision p,
      e_starts = None, e_ends = None, e_amount = amount, e_commitment = None, e_reason = None,
      e_key = entryKey env RESERVE key (pr_id p) step, e_actor = actor, e_occurred = 0\<rparr>"

definition release_row ::
  "command_env \<Rightarrow> string \<Rightarrow> hold \<Rightarrow> release_reason \<Rightarrow> string \<Rightarrow> string \<Rightarrow> ledger_entry" where
  "release_row env r h reason key actor =
     \<lparr>e_kind = RELEASE, e_reservation = r, e_policy = h_policy h, e_policy_revision = h_policy_revision h,
      e_starts = Some (h_starts h), e_ends = None, e_amount = h_reserved h, e_commitment = None,
      e_reason = Some reason,
      e_key = entryKey env RELEASE key (h_policy h) (r @ ''|'' @ iso_string (h_starts h)),
      e_actor = actor, e_occurred = 0\<rparr>"

definition commit_row ::
  "command_env \<Rightarrow> string \<Rightarrow> policy_row \<Rightarrow> int \<Rightarrow> string \<Rightarrow> string \<Rightarrow> string \<Rightarrow> ledger_entry" where
  "commit_row env r p amount commitment key actor =
     \<lparr>e_kind = COMMIT, e_reservation = r, e_policy = pr_id p, e_policy_revision = pr_revision p,
      e_starts = None, e_ends = None, e_amount = amount, e_commitment = Some commitment, e_reason = None,
      e_key = entryKey env COMMIT key (pr_id p) ''commit'', e_actor = actor, e_occurred = 0\<rparr>"

text \<open>\<open>releaseHold\<close>: an empty hold writes no entry.\<close>

record release_item =
  rl_reservation :: string
  rl_hold :: hold
  rl_reason :: release_reason

record reserve_item =
  rs_reservation :: string
  rs_policy :: policy_row
  rs_amount :: int

definition releaseHold :: "command_env \<Rightarrow> string \<Rightarrow> string \<Rightarrow> release_item \<Rightarrow> ledger_entry list" where
  "releaseHold env key actor x =
     (if h_reserved (rl_hold x) = 0 then []
      else [release_row env (rl_reservation x) (rl_hold x) (rl_reason x) key actor])"

definition reserveEntry :: "command_env \<Rightarrow> string \<Rightarrow> string \<Rightarrow> string \<Rightarrow> reserve_item \<Rightarrow> ledger_entry" where
  "reserveEntry env key actor step x =
     reserve_row env (rs_reservation x) (rs_policy x) (rs_amount x) key actor step"

text \<open>
  \<open>inPolicyOrder\<close>: the entries by \<open>budget_policy_id\<close>, releases before reservations within one
  budget.
\<close>

definition policy_order :: "release_item list \<Rightarrow> reserve_item list \<Rightarrow> string list" where
  "policy_order releases reserves =
     sort (remdups (map (\<lambda>x. h_policy (rl_hold x)) releases @ map (\<lambda>x. pr_id (rs_policy x)) reserves))"

definition ordered_entries ::
  "command_env \<Rightarrow> string \<Rightarrow> string \<Rightarrow> string \<Rightarrow> release_item list \<Rightarrow> reserve_item list \<Rightarrow> ledger_entry list" where
  "ordered_entries env key actor step releases reserves =
     concat (map (\<lambda>i.
         concat (map (releaseHold env key actor) (filter (\<lambda>x. h_policy (rl_hold x) = i) releases)) @
         map (reserveEntry env key actor step) (filter (\<lambda>x. pr_id (rs_policy x) = i) reserves))
       (policy_order releases reserves))"

definition post_all :: "command_env \<Rightarrow> instant \<Rightarrow> ledger_entry list \<Rightarrow> ledger_db \<Rightarrow> db_error + ledger_db" where
  "post_all env now es l = for_each (post_entry env now) l es"

definition inPolicyOrder ::
  "command_env \<Rightarrow> instant \<Rightarrow> string \<Rightarrow> string \<Rightarrow> string \<Rightarrow> release_item list \<Rightarrow> reserve_item list \<Rightarrow>
     spend_db \<Rightarrow> tx_error + spend_db" where
  "inPolicyOrder env now key actor step releases reserves =
     on_ledger (post_all env now (ordered_entries env key actor step releases reserves))"

definition set_status :: "string \<Rightarrow> reservation_status \<Rightarrow> spend_db \<Rightarrow> tx_error + spend_db" where
  "set_status i s = on_ledger (update_reservation i (\<lambda>r. r\<lparr>r_status := s\<rparr>))"

section \<open>Submission\<close>

definition active_member :: "instant \<Rightarrow> membership_row \<Rightarrow> bool" where
  "active_member now m \<longleftrightarrow>
     m_status m = M_ACTIVE \<and> m_deleted m = None \<and> in_interval now (m_from m) (m_until m)"

definition member_rows :: "instant \<Rightarrow> submit_command \<Rightarrow> ledger_db \<Rightarrow> (membership_row \<times> organisation_row) list" where
  "member_rows now c db =
     [(m, a). m \<leftarrow> memberships db, a \<leftarrow> organisations db,
        o_id a = m_organisation m, m_id m = sub_membership c, m_organisation m = sub_organisation c,
        o_tenant a = sub_tenant c, active_member now m]"

definition reservation_of :: "command_env \<Rightarrow> instant \<Rightarrow> submit_command \<Rightarrow> string option \<Rightarrow> reservation" where
  "reservation_of env now c supersedes =
     \<lparr>r_id = reservationIdFor env (sub_organisation c) (sub_key c), r_tenant = sub_tenant c,
      r_organisation = sub_organisation c, r_membership = sub_membership c, r_submitter = sub_actor c,
      r_market = sub_market c, r_currency = sub_currency c, r_agreement = sub_agreement c,
      r_digest = sub_digest c, r_version = int_of_number (sub_version c), r_status = ACTIVE,
      r_expires = int_of_number (sub_expires c), r_created = now, r_amount = Some (sub_amount c),
      r_purchase = Some (sub_purchase c), r_supersedes = supersedes, r_hold_revision = 1, r_deleted = None\<rparr>"

definition conflict_on_unique :: "db_error + 'a \<Rightarrow> tx_error + 'a" where
  "conflict_on_unique m =
     (case m of Inl e \<Rightarrow> Inl (if pg_code e = ''23505'' then Conflict else Native e) | Inr x \<Rightarrow> Inr x)"

definition insertReservation ::
  "command_env \<Rightarrow> instant \<Rightarrow> submit_command \<Rightarrow> string option \<Rightarrow> spend_db \<Rightarrow> tx_error + reservation \<times> spend_db" where
  "insertReservation env now c supersedes db =
     andThen (ensure (length (member_rows now c (ledger db)) = 1) (Refused BUYER_NOT_AUTHORISED False)) (\<lambda>_.
     andThen (conflict_on_unique (insert_reservation (reservation_of env now c supersedes) (ledger db))) (\<lambda>l.
     andThen (lockReservation (sub_organisation c) (reservationIdFor env (sub_organisation c) (sub_key c)) l) (\<lambda>r.
     Inr (r, db\<lparr>ledger := l\<rparr>))))"

definition reserve_items :: "string \<Rightarrow> int \<Rightarrow> policy_row list \<Rightarrow> reserve_item list" where
  "reserve_items r amount ps = map (\<lambda>p. \<lparr>rs_reservation = r, rs_policy = p, rs_amount = amount\<rparr>) ps"

definition release_items :: "string \<Rightarrow> release_reason \<Rightarrow> hold list \<Rightarrow> release_item list" where
  "release_items r reason hs = map (\<lambda>h. \<lparr>rl_reservation = r, rl_hold = h, rl_reason = reason\<rparr>) hs"

definition reserveNew :: "command_env \<Rightarrow> instant \<Rightarrow> submit_command \<Rightarrow> spend_db \<Rightarrow> tx_error + applied \<times> spend_db" where
  "reserveNew env now c db =
     andThen (insertReservation env now c None db) (\<lambda>(r, db1).
     andThen (applicablePolicies env now r (ledger db1)) (\<lambda>ps.
     andThen (inPolicyOrder env now (sub_key c) (sub_actor c) ''submit'' [] (reserve_items (r_id r) (sub_amount c) ps) db1) (\<lambda>db2.
     Inr (\<lparr>a_reservation = r_id r, a_status = ACTIVE, a_hold_revision = 1, a_revalidate = None\<rparr>, db2))))"

definition resubmit_body ::
  "command_env \<Rightarrow> instant \<Rightarrow> submit_command \<Rightarrow> string \<Rightarrow> spend_db \<Rightarrow> tx_error + applied \<times> spend_db" where
  "resubmit_body env now c supersedes db =
     andThen (lockReservation (sub_organisation c) supersedes (ledger db)) (\<lambda>old.
     andThen (ensure (r_status old = ACTIVE) (Refused CONTEXT_NOT_USABLE False)) (\<lambda>_.
     andThen (ensure (r_submitter old = sub_actor c) (Refused BUYER_NOT_AUTHORISED False)) (\<lambda>_.
     andThen (ensure
       (\<not> (r_purchase old \<noteq> Some (sub_purchase c) \<or> r_tenant old \<noteq> sub_tenant c \<or>
           r_membership old \<noteq> sub_membership c \<or> r_market old \<noteq> sub_market c \<or>
           r_currency old \<noteq> sub_currency c \<or> r_agreement old \<noteq> sub_agreement c \<or>
           int_of_number (sub_version c) \<le> r_version old))
       (Refused TRANSACTION_CHANGED False)) (\<lambda>_.
     let reason = (if sub_amount c < amount_of old then AMOUNT_REDUCED else R_CANCELLED);
         oldHolds = holds_of (r_id old) (ledger db) in
     andThen (set_status (r_id old) RELEASED db) (\<lambda>db1.
     andThen (insertReservation env now c (Some (r_id old)) db1) (\<lambda>(r, db2).
     andThen (applicablePolicies env now r (ledger db2)) (\<lambda>ps.
     andThen (inPolicyOrder env now (sub_key c) (sub_actor c) ''resubmit''
       (release_items (r_id old) reason oldHolds) (reserve_items (r_id r) (sub_amount c) ps) db2) (\<lambda>db3.
     Inr (\<lparr>a_reservation = r_id r, a_status = ACTIVE, a_hold_revision = 1, a_revalidate = None\<rparr>, db3)))))))))"

section \<open>Commitment\<close>

definition number_is :: "js_number \<Rightarrow> int \<Rightarrow> bool" where
  "number_is x n \<longleftrightarrow> x = JInt n"

text \<open>Some applicable budget lacks the full amount in its current period and revision, or some
  hold is no longer current: only a rollover may move it.\<close>

definition holds_stale :: "policy_row list \<Rightarrow> hold list \<Rightarrow> int \<Rightarrow> bool" where
  "holds_stale ps hs amount \<longleftrightarrow>
     (\<exists>p \<in> set ps. case currentHold hs p of None \<Rightarrow> True | Some h \<Rightarrow> h_reserved h \<noteq> amount) \<or>
     (\<exists>h \<in> set hs. 0 < h_reserved h \<and> \<not> (\<exists>p \<in> set ps. currentHold [h] p \<noteq> None))"

definition commit_entries ::
  "command_env \<Rightarrow> commit_command \<Rightarrow> reservation \<Rightarrow> policy_row list \<Rightarrow> ledger_entry list" where
  "commit_entries env c r ps =
     map (\<lambda>p. commit_row env (r_id r) p (amount_of r) (com_commitment c) (cmd_key c) (cmd_actor c)) ps"

definition commit_body ::
  "command_env \<Rightarrow> instant \<Rightarrow> commit_command \<Rightarrow> (spend_db \<Rightarrow> db_error + spend_db) option \<Rightarrow> spend_db \<Rightarrow>
     tx_error + applied \<times> spend_db" where
  "commit_body env now c mutation db =
     andThen (lockReservation (cmd_organisation c) (cmd_reservation c) (ledger db)) (\<lambda>r.
     andThen (ensure (\<not> (r_status r \<noteq> ACTIVE \<or> expired now r)) (Refused CONTEXT_NOT_USABLE False)) (\<lambda>_.
     andThen (ensure
       (\<not> (r_digest r \<noteq> com_digest c \<or> \<not> number_is (com_version c) (r_version r) \<or>
           amount_of r \<noteq> com_amount c \<or> \<not> number_is (com_hold_revision c) (r_hold_revision r)))
       (Refused TRANSACTION_CHANGED False)) (\<lambda>_.
     andThen (applicablePolicies env now r (ledger db)) (\<lambda>ps.
     andThen (ensure (\<not> holds_stale ps (holds_of (r_id r) (ledger db)) (amount_of r)) (Refused CONTEXT_NOT_USABLE True)) (\<lambda>_.
     andThen (on_ledger (post_all env now (commit_entries env c r ps)) db) (\<lambda>db1.
     andThen (set_status (r_id r) COMMITTED db1) (\<lambda>db2.
     andThen (case mutation of None \<Rightarrow> Inr db2 | Some m \<Rightarrow> db_step (m db2)) (\<lambda>db3.
     Inr (\<lparr>a_reservation = r_id r, a_status = COMMITTED, a_hold_revision = r_hold_revision r,
           a_revalidate = None\<rparr>, db3)))))))))"

section \<open>Release, expiry and rollover\<close>

definition close_body ::
  "command_env \<Rightarrow> instant \<Rightarrow> 'a reservation_command_scheme \<Rightarrow> release_reason \<Rightarrow> reservation_status \<Rightarrow> bool \<Rightarrow>
     spend_db \<Rightarrow> tx_error + applied \<times> spend_db" where
  "close_body env now c reason status mustBeExpired db =
     andThen (lockReservation (cmd_organisation c) (cmd_reservation c) (ledger db)) (\<lambda>r.
     andThen (ensure (r_status r = ACTIVE) (Refused CONTEXT_NOT_USABLE False)) (\<lambda>_.
     andThen (ensure (\<not> (mustBeExpired \<and> \<not> expired now r)) (Refused CONTEXT_NOT_USABLE False)) (\<lambda>_.
     andThen (inPolicyOrder env now (cmd_key c) (cmd_actor c) ''release''
       (release_items (r_id r) reason (holds_of (r_id r) (ledger db))) [] db) (\<lambda>db1.
     andThen (set_status (r_id r) status db1) (\<lambda>db2.
     Inr (\<lparr>a_reservation = r_id r, a_status = status, a_hold_revision = r_hold_revision r,
           a_revalidate = None\<rparr>, db2))))))"

definition rollover_release :: "string \<Rightarrow> policy_row list \<Rightarrow> hold \<Rightarrow> release_item list" where
  "rollover_release r ps h =
     (if h_reserved h = 0 then []
      else case List.find (\<lambda>p. pr_id p = h_policy h) ps of
        None \<Rightarrow> [\<lparr>rl_reservation = r, rl_hold = h, rl_reason = POLICY_REVISED\<rparr>]
      | Some p \<Rightarrow>
          if currentHold [h] p \<noteq> None then []
          else [\<lparr>rl_reservation = r, rl_hold = h,
                 rl_reason = (if h_policy_revision h = pr_revision p then PERIOD_ROLLOVER else POLICY_REVISED)\<rparr>])"

definition rollover_reserve :: "string \<Rightarrow> int \<Rightarrow> hold list \<Rightarrow> policy_row \<Rightarrow> reserve_item list" where
  "rollover_reserve r full hs p =
     (let amount = full - (case currentHold hs p of None \<Rightarrow> 0 | Some h \<Rightarrow> h_reserved h) in
      if 0 < amount then [\<lparr>rs_reservation = r, rs_policy = p, rs_amount = amount\<rparr>] else [])"

definition rollover_body ::
  "command_env \<Rightarrow> instant \<Rightarrow> reservation_command \<Rightarrow> spend_db \<Rightarrow> tx_error + applied \<times> spend_db" where
  "rollover_body env now c db =
     andThen (lockReservation (cmd_organisation c) (cmd_reservation c) (ledger db)) (\<lambda>r.
     andThen (ensure (\<not> (r_status r \<noteq> ACTIVE \<or> expired now r)) (Refused CONTEXT_NOT_USABLE False)) (\<lambda>_.
     andThen (applicablePolicies env now r (ledger db)) (\<lambda>ps.
     let hs = holds_of (r_id r) (ledger db);
         releases = concat (map (rollover_release (r_id r) ps) hs);
         reserves = concat (map (rollover_reserve (r_id r) (amount_of r) hs) ps);
         moved = (releases \<noteq> [] \<or> reserves \<noteq> []) in
     andThen (inPolicyOrder env now (cmd_key c) (cmd_actor c) ''rollover'' releases reserves db) (\<lambda>db1.
     andThen (if moved then on_ledger (update_reservation (r_id r) (\<lambda>x. x\<lparr>r_hold_revision := r_hold_revision x + 1\<rparr>)) db1
              else Inr db1) (\<lambda>db2.
     Inr (\<lparr>a_reservation = r_id r, a_status = ACTIVE,
           a_hold_revision = r_hold_revision r + (if moved then 1 else 0), a_revalidate = Some moved\<rparr>, db2))))))"

section \<open>The transaction of a command\<close>

definition refusalFor :: "string \<Rightarrow> decision_reason" where
  "refusalFor message =
     (if has_substring ''insufficient budget capacity'' message then SPEND_LIMIT_EXCEEDED
      else if list_ex (\<lambda>s. has_substring s message)
        [''not in effect at this revision'', ''budget changed'', ''not active'', ''expired or closed'',
         ''outside this budget'', ''outside the budget period'', ''terminal'', ''immutable purchase'']
      then CONTEXT_NOT_USABLE
      else SOURCE_UNAVAILABLE)"

fun outcome_of_error :: "tx_error \<Rightarrow> spend_result" where
  "outcome_of_error (Refused r d) = REFUSED r d"
| "outcome_of_error Conflict = CONFLICT"
| "outcome_of_error (Native e) = REFUSED (refusalFor (error_message e)) False"

definition insert_command :: "spend_command_row \<Rightarrow> spend_db \<Rightarrow> db_error + spend_db" where
  "insert_command row db =
     andThen (ensure (idempotency_text (sc_key row)) (CheckViolation ''b2b_spend_command'' ''b2b_spend_command_idempotency_check'')) (\<lambda>_.
     andThen (ensure (digest_text (sc_digest row)) (CheckViolation ''b2b_spend_command'' ''b2b_spend_command_digest_check'')) (\<lambda>_.
     andThen (ensure (find_row sc_key (sc_key row) (commands db) = None) (UniqueViolation ''b2b_spend_command_idempotency_unique'')) (\<lambda>_.
     andThen (ensure (find_row r_id (sc_reservation row) (reservations (ledger db)) \<noteq> None)
       (ForeignKeyViolation ''b2b_spend_command'' ''b2b_spend_command_reservation_fk'')) (\<lambda>_.
     Inr (db\<lparr>commands := commands db @ [row]\<rparr>)))))"

text \<open>An UPDATE or DELETE of a command record: the row trigger refuses every one of them.\<close>

definition rewrite_command :: "string \<Rightarrow> spend_db \<Rightarrow> db_error + spend_db" where
  "rewrite_command k db =
     (case find_row sc_key k (commands db) of
        None \<Rightarrow> Inr db
      | Some _ \<Rightarrow> Inl (Raised ''b2b_spend_command is append-only''))"

definition command_tx ::
  "command_env \<Rightarrow> command_kind \<Rightarrow> spend_request \<Rightarrow> string \<Rightarrow> string \<Rightarrow> string \<Rightarrow>
     (spend_db \<Rightarrow> tx_error + applied \<times> spend_db) \<Rightarrow> spend_db \<Rightarrow> tx_error + applied \<times> spend_db" where
  "command_tx env kind request key actor organisation execute db =
     andThen (execute db) (\<lambda>(ok, db1).
     andThen (db_step (insert_command
       \<lparr>sc_key = key, sc_kind = kind, sc_organisation = organisation,
        sc_digest = request_digest env kind request, sc_reservation = a_reservation ok,
        sc_result = ok, sc_actor = actor\<rparr> db1)) (\<lambda>db2.
     Inr (ok, db2)))"

definition run_command ::
  "command_env \<Rightarrow> connection \<Rightarrow> command_kind \<Rightarrow> spend_request \<Rightarrow> string \<Rightarrow> string \<Rightarrow> string \<Rightarrow>
     (spend_db \<Rightarrow> tx_error + applied \<times> spend_db) \<Rightarrow> spend_db \<Rightarrow> spend_result \<times> spend_db" where
  "run_command env link kind request key actor organisation execute db =
     (if link = Down then (REFUSED SOURCE_UNAVAILABLE False, db)
      else case find_row sc_key key (commands db) of
        Some row \<Rightarrow>
          (if sc_kind row \<noteq> kind \<or> sc_organisation row \<noteq> organisation \<or>
              sc_digest row \<noteq> request_digest env kind request
           then CONFLICT else REPLAYED (sc_result row), db)
      | None \<Rightarrow>
          (case command_tx env kind request key actor organisation execute db of
             Inl e \<Rightarrow> (outcome_of_error e, db)
           | Inr (ok, db') \<Rightarrow>
               (if link = CommitReplyLost then REFUSED SOURCE_UNAVAILABLE False else APPLIED ok, db')))"

text \<open>The public methods; a TypeError is the left value and nothing runs.\<close>

type_synonym outcome = "(string + spend_result) \<times> spend_db"

definition submit :: "command_env \<Rightarrow> connection \<Rightarrow> instant \<Rightarrow> instant \<Rightarrow> submit_command \<Rightarrow> spend_db \<Rightarrow> outcome" where
  "submit env link app_now now c db =
     (if \<not> assertSubmit app_now c then (Inl ''invalid spend submission'', db)
      else apfst Inr (run_command env link K_SUBMIT (SubmitReq c) (sub_key c) (sub_actor c) (sub_organisation c)
             (reserveNew env now c) db))"

definition resubmit ::
  "command_env \<Rightarrow> connection \<Rightarrow> instant \<Rightarrow> instant \<Rightarrow> submit_command \<Rightarrow> string \<Rightarrow> spend_db \<Rightarrow> outcome" where
  "resubmit env link app_now now c supersedes db =
     (if \<not> assertSubmit app_now c then (Inl ''invalid spend submission'', db)
      else apfst Inr (run_command env link K_RESUBMIT (ResubmitReq c supersedes) (sub_key c) (sub_actor c)
             (sub_organisation c) (resubmit_body env now c supersedes) db))"

definition commitCapacity ::
  "command_env \<Rightarrow> connection \<Rightarrow> instant \<Rightarrow> commit_command \<Rightarrow> (spend_db \<Rightarrow> db_error + spend_db) option \<Rightarrow>
     spend_db \<Rightarrow> outcome" where
  "commitCapacity env link now c mutation db =
     (if \<not> assertReservationCommand c then (Inl ''invalid spend reservation command'', db)
      else if \<not> assertCommit c then (Inl ''invalid commit command'', db)
      else apfst Inr (run_command env link K_COMMIT
             (case mutation of None \<Rightarrow> CommitReq c | Some _ \<Rightarrow> MutationReq c)
             (cmd_key c) (cmd_actor c) (cmd_organisation c) (commit_body env now c mutation) db))"

definition release ::
  "command_env \<Rightarrow> connection \<Rightarrow> instant \<Rightarrow> reservation_command \<Rightarrow> string \<Rightarrow> spend_db \<Rightarrow> outcome" where
  "release env link now c reason db =
     (if \<not> assertReservationCommand c then (Inl ''invalid spend reservation command'', db)
      else if reason \<noteq> ''REJECTED'' \<and> reason \<noteq> ''CANCELLED'' then (Inl ''invalid release reason'', db)
      else apfst Inr (run_command env link K_RELEASE (ReleaseReq c reason) (cmd_key c) (cmd_actor c)
             (cmd_organisation c)
             (close_body env now c (if reason = ''REJECTED'' then R_REJECTED else R_CANCELLED) RELEASED False) db))"

definition expire :: "command_env \<Rightarrow> connection \<Rightarrow> instant \<Rightarrow> reservation_command \<Rightarrow> spend_db \<Rightarrow> outcome" where
  "expire env link now c db =
     (if \<not> assertReservationCommand c then (Inl ''invalid spend reservation command'', db)
      else apfst Inr (run_command env link K_EXPIRE (ExpireReq c) (cmd_key c) (cmd_actor c)
             (cmd_organisation c) (close_body env now c R_EXPIRED EXPIRED True) db))"

definition rollover :: "command_env \<Rightarrow> connection \<Rightarrow> instant \<Rightarrow> reservation_command \<Rightarrow> spend_db \<Rightarrow> outcome" where
  "rollover env link now c db =
     (if \<not> assertReservationCommand c then (Inl ''invalid spend reservation command'', db)
      else apfst Inr (run_command env link K_ROLLOVER (RolloverReq c) (cmd_key c) (cmd_actor c)
             (cmd_organisation c) (rollover_body env now c) db))"

end
