(* ===== verification/Spend_Ledger_Laws.thy ===== *)
theory Spend_Ledger_Laws
  imports Spend_Ledger
begin

text \<open>
  What each write of the ledger does to the rows: the zero rows it may add, the row it moves, and
  what it leaves alone; then the effect of one posted entry, and the invariants every entry keeps.
\<close>

section \<open>Single writes\<close>

lemma insert_balance_effect:
  assumes "insert_balance b db = Inr db'" and "tables_ok db"
    and "b_reserved b = 0" and "b_committed b = 0"
  shows "frame db db'" and "tables_ok db'" and "holds db' = holds db"
    and "balance_moves k 0 0 db db'" and "ledger_apply db' = ledger_apply db"
    and "find_row b_key (b_key b) (balances db') \<noteq> None"
proof -
  have ok: "balance_checks b = Inr ()"
    and db': "db' = (if find_row b_key (b_key b) (balances db) = None
                     then db\<lparr>balances := balances db @ [b]\<rparr> else db)"
    using assms(1) unfolding insert_balance_def by (auto simp: tx_simps split: if_splits)
  show "frame db db'" "holds db' = holds db" "ledger_apply db' = ledger_apply db"
    by (auto simp: db' frame_def)
  show "tables_ok db'"
    using assms(2) ok by (auto simp: db' tables_ok_def find_row_None_iff)
  show "balance_moves k 0 0 db db'"
    using assms(3,4) by (auto simp: db' balance_moves_def bal_reserved_def bal_committed_def split: option.splits)
  show "find_row b_key (b_key b) (balances db') \<noteq> None"
    by (auto simp: db' split: option.splits)
qed

lemma insert_hold_effect:
  assumes "insert_hold h db = Inr db'" and "tables_ok db"
    and "h_reserved h = 0" and "h_committed h = 0"
  shows "frame db db'" and "tables_ok db'" and "balances db' = balances db"
    and "hold_moves (h_key h) 0 0 db db'" and "ledger_apply db' = ledger_apply db"
    and "find_row h_key (h_key h) (holds db') \<noteq> None"
    and "find_row h_key k (holds db) = Some x \<Longrightarrow> find_row h_key k (holds db') = Some x"
proof -
  have ok: "hold_checks h = Inr ()"
    and db': "db' = (if find_row h_key (h_key h) (holds db) = None
                     then db\<lparr>holds := holds db @ [h]\<rparr> else db)"
    using assms(1) unfolding insert_hold_def by (auto simp: tx_simps split: if_splits)
  show "frame db db'" "balances db' = balances db" "ledger_apply db' = ledger_apply db"
    by (auto simp: db' frame_def)
  show "tables_ok db'"
    using assms(2) ok by (auto simp: db' tables_ok_def find_row_None_iff)
  show "hold_moves (h_key h) 0 0 db db'"
    using assms(3,4)
    by (auto simp: db' hold_moves_def held_def held_committed_def hold_sum_def split: option.splits)
  show "find_row h_key (h_key h) (holds db') \<noteq> None"
    by (auto simp: db' split: option.splits)
  show "find_row h_key k (holds db) = Some x \<Longrightarrow> find_row h_key k (holds db') = Some x"
    by (auto simp: db')
qed

lemma update_balance_effect:
  assumes "update_balance k f db = Inr db'" and "tables_ok db"
    and "find_row b_key k (balances db) = Some b"
    and key: "\<And>x. b_key (f x) = b_key x"
    and "b_reserved (f b) = b_reserved b + dr" and "b_committed (f b) = b_committed b + dc"
  shows "frame db db'" and "tables_ok db'" and "holds db' = holds db"
    and "balance_moves k dr dc db db'" and "ledger_apply db' = ledger_apply db"
proof -
  have ok: "balance_checks (f b) = Inr ()"
    and db': "db' = db\<lparr>balances := upd_row b_key k f (balances db)\<rparr>"
    using assms(1,3) unfolding update_balance_def by (auto simp: tx_simps)
  show "frame db db'" "holds db' = holds db" "ledger_apply db' = ledger_apply db"
    by (auto simp: db' frame_def)
  have same: "x = b" if "x \<in> set (balances db)" "b_key x = k" for x
    using assms(2,3) that find_row_Some_iff [of b_key "balances db" k x] by (auto simp: tables_ok_def)
  show "tables_ok db'"
    using assms(2) ok same key
    by (auto simp: db' tables_ok_def map_key_upd_row dest!: set_upd_row_cases)
  show "balance_moves k dr dc db db'"
    using assms(3,5,6) key
    by (auto simp: db' balance_moves_def bal_reserved_def bal_committed_def find_row_upd_row)
qed

lemma update_hold_effect:
  assumes "update_hold k f db = Inr db'" and "tables_ok db"
    and "find_row h_key k (holds db) = Some h"
    and key: "\<And>x. h_key (f x) = h_key x"
    and "h_reserved (f h) = h_reserved h + dr" and "h_committed (f h) = h_committed h + dc"
  shows "frame db db'" and "tables_ok db'" and "balances db' = balances db"
    and "hold_moves k dr dc db db'" and "ledger_apply db' = ledger_apply db"
    and "find_row h_key k (holds db') = Some (f h)"
proof -
  have ok: "hold_checks (f h) = Inr ()"
    and db': "db' = db\<lparr>holds := upd_row h_key k f (holds db)\<rparr>"
    using assms(1,3) unfolding update_hold_def by (auto simp: tx_simps)
  show "frame db db'" "balances db' = balances db" "ledger_apply db' = ledger_apply db"
    by (auto simp: db' frame_def)
  have same: "x = h" if "x \<in> set (holds db)" "h_key x = k" for x
    using assms(2,3) that find_row_Some_iff [of h_key "holds db" k x] by (auto simp: tables_ok_def)
  show "tables_ok db'"
    using assms(2) ok same key
    by (auto simp: db' tables_ok_def map_key_upd_row dest!: set_upd_row_cases)
  show "find_row h_key k (holds db') = Some (f h)"
    using assms(3) key by (simp add: db' find_row_upd_row)
  have dist: "distinct (map h_key (holds db))" using assms(2) by (simp add: tables_ok_def)
  have hk: "h_key h = k" using find_row_key [OF assms(3)] .
  have at: "(h_policy x, h_starts x) = snd (h_key x)" for x by (simp add: h_key_def)
  have keyf: "snd (h_key (f h)) = snd k" using key hk by simp
  have sums: "hold_sum g db' j = hold_sum g db j + (if j = snd k then g (f h) - g h else 0)" for g j
    unfolding hold_sum_def db' at
    using sum_upd_row [OF dist assms(3), of "\<lambda>x. if snd (h_key x) = j then g x else 0" f] hk keyf
    by (auto simp: upd_row_def)
  show "hold_moves k dr dc db db'"
    using assms(3,5,6) key
    by (auto simp: hold_moves_def sums) (auto simp: db' held_def held_committed_def find_row_upd_row)
qed

lemma hold_movesD:
  assumes "hold_moves k dr dc db db'"
  shows "held db' k' = held db k' + (if k' = k then dr else 0)"
    and "held_committed db' k' = held_committed db k' + (if k' = k then dc else 0)"
    and "k' \<noteq> k \<Longrightarrow> find_row h_key k' (holds db') = find_row h_key k' (holds db)"
    and "hold_sum h_reserved db' j = hold_sum h_reserved db j + (if j = snd k then dr else 0)"
    and "hold_sum h_committed db' j = hold_sum h_committed db j + (if j = snd k then dc else 0)"
  using assms unfolding hold_moves_def by blast+

lemma balance_movesD:
  assumes "balance_moves k dr dc db db'"
  shows "bal_reserved db' k' = bal_reserved db k' + (if k' = k then dr else 0)"
    and "bal_committed db' k' = bal_committed db k' + (if k' = k then dc else 0)"
  using assms unfolding balance_moves_def by blast+

section \<open>One posted entry\<close>

lemma key_of_moves [simp]:
  "b_key (move_reserved a b) = b_key b" "b_key (move_committed a b) = b_key b"
  "h_key (move_hold_reserved a h) = h_key h" "h_key (move_hold_committed a h) = h_key h"
  by (simp_all add: b_key_def h_key_def move_reserved_def move_committed_def
      move_hold_reserved_def move_hold_committed_def)

lemma move_both_effect:
  assumes "move_both b f h g db = Inr db'" and "tables_ok db"
    and "find_row b_key (b_key b) (balances db) = Some b"
    and "find_row h_key (h_key h) (holds db) = Some h"
    and "\<And>x. b_key (f x) = b_key x" and "\<And>x. h_key (g x) = h_key x"
    and "b_reserved (f b) = b_reserved b + dr" and "b_committed (f b) = b_committed b + dc"
    and "h_reserved (g h) = h_reserved h + dr" and "h_committed (g h) = h_committed h + dc"
  shows "frame db db'" and "tables_ok db'"
    and "balance_moves (b_key b) dr dc db db'" and "hold_moves (h_key h) dr dc db db'"
    and "find_row h_key (h_key h) (holds db') = Some (g h)"
proof -
  obtain db1 where u: "update_balance (b_key b) f db = Inr db1" "update_hold (h_key h) g db1 = Inr db'"
    using assms(1) unfolding move_both_def by (auto simp: tx_simps)
  note B = update_balance_effect [OF u(1) assms(2,3,5,7,8)]
  have h1: "find_row h_key (h_key h) (holds db1) = Some h" using assms(4) B(3) by simp
  note H = update_hold_effect [OF u(2) B(2) h1 assms(6,9,10)]
  show "frame db db'" using B(1) H(1) by (rule frame_trans)
  show "tables_ok db'" by (fact H(2))
  show "find_row h_key (h_key h) (holds db') = Some (g h)" by (fact H(6))
  show "balance_moves (b_key b) dr dc db db'"
    using B(4) H(3) by (simp add: balance_moves_def bal_reserved_def bal_committed_def)
  show "hold_moves (h_key h) dr dc db db'"
    using H(4) B(3) by (simp add: hold_moves_def held_def held_committed_def hold_sum_def)
qed

lemma refresh_hold_effect:
  assumes "refresh_hold p h db = Inr (h1, db1)" and "tables_ok db"
    and "find_row h_key (h_key h) (holds db) = Some h"
  shows "frame db db1" and "tables_ok db1" and "balances db1 = balances db"
    and "hold_moves (h_key h) 0 0 db db1"
    and "find_row h_key (h_key h) (holds db1) = Some h1" and "h_key h1 = h_key h"
    and "h_reserved h1 = h_reserved h"
proof -
  let ?f = "\<lambda>x. x\<lparr>h_policy_revision := p_revision p\<rparr> :: hold"
  have key: "h_key (?f x) = h_key x" for x by (simp add: h_key_def)
  have "frame db db1 \<and> tables_ok db1 \<and> balances db1 = balances db \<and> hold_moves (h_key h) 0 0 db db1 \<and>
    find_row h_key (h_key h) (holds db1) = Some h1 \<and> h_key h1 = h_key h \<and> h_reserved h1 = h_reserved h"
  proof (cases "h_reserved h = 0 \<and> h_committed h = 0 \<and> h_policy_revision h \<noteq> p_revision p")
    case True
    then have u: "update_hold (h_key h) ?f db = Inr db1" and "h1 = ?f h"
      using assms(1) unfolding refresh_hold_def by (auto simp: tx_simps)
    with update_hold_effect [OF u assms(2,3) key, of 0 0] key show ?thesis by simp
  next
    case False
    with assms show ?thesis unfolding refresh_hold_def by (auto simp: hold_moves_def)
  qed
  then show "frame db db1" "tables_ok db1" "balances db1 = balances db" "hold_moves (h_key h) 0 0 db db1"
    "find_row h_key (h_key h) (holds db1) = Some h1" "h_key h1 = h_key h" "h_reserved h1 = h_reserved h" by auto
qed

lemma delta_stamp [simp]:
  "reserved_delta (e\<lparr>e_starts := s\<rparr>) = reserved_delta e" "reserved_delta (e\<lparr>e_ends := s'\<rparr>) = reserved_delta e"
  "committed_delta (e\<lparr>e_starts := s\<rparr>) = committed_delta e" "committed_delta (e\<lparr>e_ends := s'\<rparr>) = committed_delta e"
  "reserved_delta (e\<lparr>e_occurred := n\<rparr>) = reserved_delta e" "committed_delta (e\<lparr>e_occurred := n\<rparr>) = committed_delta e"
  by (simp_all add: reserved_delta_def committed_delta_def)

text \<open>
  What a hold row says after an entry of its key: a RESERVE leaves the policy's revision on it, any
  other entry the revision it had.
\<close>

definition hold_after ::
  "spend_policy \<Rightarrow> ledger_entry \<Rightarrow> string \<times> string \<times> instant \<Rightarrow> ledger_db \<Rightarrow> ledger_db \<Rightarrow> bool" where
  "hold_after p e k db db' \<longleftrightarrow>
     (\<exists>h'. find_row h_key k (holds db') = Some h' \<and>
       (if e_kind e = RESERVE then h_policy_revision h' = p_revision p
        else \<forall>h. find_row h_key k (holds db) = Some h \<longrightarrow> h_policy_revision h' = h_policy_revision h))"

text \<open>A RESERVE and a COMMIT ask for a live reservation and an ACTIVE policy at this revision.\<close>

definition entry_allowed :: "instant \<Rightarrow> spend_policy \<Rightarrow> reservation \<Rightarrow> ledger_entry \<Rightarrow> bool" where
  "entry_allowed now p r e \<longleftrightarrow>
     e_kind e = RELEASE \<or>
     \<not> reservation_lapsed now r \<and> p_status p = POLICY_ACTIVE \<and> e_policy_revision e = p_revision p"

definition entry_effect ::
  "instant \<Rightarrow> spend_policy \<Rightarrow> reservation \<Rightarrow> ledger_entry \<Rightarrow> instant \<Rightarrow> ledger_db \<Rightarrow> ledger_db \<Rightarrow> bool" where
  "entry_effect now p r e t db db' \<longleftrightarrow>
     entry_allowed now p r e \<and> hold_after p e (e_reservation e, e_policy e, t) db db' \<and>
     frame db db' \<and> tables_ok db' \<and>
     balance_moves (e_policy e, t) (reserved_delta e) (committed_delta e) db db' \<and>
     hold_moves (e_reservation e, e_policy e, t) (reserved_delta e) (committed_delta e) db db' \<and>
     (e_kind e = RESERVE \<longrightarrow>
        bal_committed db' (e_policy e, t) + bal_reserved db' (e_policy e, t) \<le> p_limit p)"

lemma apply_kind_effect:
  assumes "(case e_kind e of
              RESERVE \<Rightarrow> apply_reserve now p r b h e db
            | COMMIT \<Rightarrow> apply_commit now p r b h e db
            | RELEASE \<Rightarrow> apply_release b h e db) = Inr db'"
    and "tables_ok db"
    and b: "find_row b_key (e_policy e, t) (balances db) = Some b"
    and h: "find_row h_key (e_reservation e, e_policy e, t) (holds db) = Some h"
  shows "entry_effect now p r e t db db'"
proof -
  have kb: "b_key b = (e_policy e, t)" and kh: "h_key h = (e_reservation e, e_policy e, t)"
    using find_row_key [OF b] find_row_key [OF h] by simp_all
  note b' = b [folded kb] and h' = h [folded kh]
  show ?thesis
  proof (cases "e_kind e")
    case RESERVE
    with assms(1) obtain h1 db1 where
      rf: "refresh_hold p h db = Inr (h1, db1)" and eff: "\<not> not_in_effect now p e h1"
      and cap: "e_amount e \<le> p_limit p - b_committed b - b_reserved b"
      and mv: "move_both b (move_reserved (e_amount e)) h1 (move_hold_reserved (e_amount e)) db1 = Inr db'"
      unfolding apply_reserve_def by (auto simp: tx_simps split: if_splits)
    note R = refresh_hold_effect [OF rf assms(2) h']
    have b1: "find_row b_key (b_key b) (balances db1) = Some b" using b' R(3) by simp
    have h1: "find_row h_key (h_key h1) (holds db1) = Some h1" using R(5,6) by simp
    note M = move_both_effect [OF mv R(2) b1 h1 key_of_moves(1,3), of "e_amount e" 0]
    have "frame db db'" using R(1) M(1) by (auto simp: move_reserved_def move_hold_reserved_def intro: frame_trans)
    moreover have bm: "balance_moves (e_policy e, t) (e_amount e) 0 db db'"
      using M(3) R(3) kb by (simp add: balance_moves_def bal_reserved_def bal_committed_def
          move_reserved_def move_hold_reserved_def)
    moreover have "hold_moves (e_reservation e, e_policy e, t) (e_amount e) 0 db db'"
      using hold_moves_trans [OF R(4), of "e_amount e" 0 db'] M(4) R(6) kh
      by (simp add: move_reserved_def move_hold_reserved_def)
    moreover have "tables_ok db'" using M(2) by (simp add: move_reserved_def move_hold_reserved_def)
    moreover have "find_row h_key (e_reservation e, e_policy e, t) (holds db') = Some (move_hold_reserved (e_amount e) h1)"
      using M(5) R(6) kh by (simp add: move_reserved_def move_hold_reserved_def)
    moreover have "h_policy_revision (move_hold_reserved (e_amount e) h1) = p_revision p"
      using eff by (simp add: not_in_effect_def move_hold_reserved_def)
    moreover have "entry_allowed now p r e"
      using assms(1) RESERVE eff unfolding apply_reserve_def
      by (auto simp: tx_simps entry_allowed_def not_in_effect_def split: if_splits)
    moreover have "bal_committed db' (e_policy e, t) + bal_reserved db' (e_policy e, t) \<le> p_limit p"
      using bm cap b by (simp add: balance_moves_def bal_reserved_def bal_committed_def)
    ultimately show ?thesis using RESERVE
      by (simp add: entry_effect_def hold_after_def reserved_delta_def committed_delta_def)
  next
    case COMMIT
    with assms(1) have
      mv: "move_both b (move_committed (e_amount e)) h (move_hold_committed (e_amount e)) db = Inr db'"
      and al: "entry_allowed now p r e"
      unfolding apply_commit_def by (auto simp: tx_simps entry_allowed_def split: if_splits)
    show ?thesis using COMMIT kb kh al h
        move_both_effect [OF mv assms(2) b' h' key_of_moves(2,4), of "- e_amount e" "e_amount e"]
      by (simp add: entry_effect_def entry_allowed_def hold_after_def reserved_delta_def committed_delta_def
          move_committed_def move_hold_committed_def)
  next
    case RELEASE
    with assms(1) have
      mv: "move_both b (move_reserved (- e_amount e)) h (move_hold_reserved (- e_amount e)) db = Inr db'"
      unfolding apply_release_def by (auto simp: tx_simps split: if_splits)
    show ?thesis using RELEASE kb kh h
        move_both_effect [OF mv assms(2) b' h' key_of_moves(1,3), of "- e_amount e" 0]
      by (simp add: entry_effect_def entry_allowed_def hold_after_def reserved_delta_def committed_delta_def
          move_reserved_def move_hold_reserved_def)
  qed
qed

text \<open>The period an in-period entry is stamped with.\<close>

lemma apply_in_period_effect:
  assumes "apply_in_period env now p r e db = Inr (e', db')" and "tables_ok db"
    and t: "t = fst (budget_period env now p)"
  shows "\<exists>u. budget_period env now p = (t, Some u) \<and> t \<le> now \<and> now < u \<and>
           e' = e\<lparr>e_starts := Some t, e_ends := Some u\<rparr> \<and>
           entry_effect now p r e' t db db' \<and> \<not> ledger_apply db'"
proof -
  obtain ends where bp: "budget_period env now p = (t, ends)"
    using t by (cases "budget_period env now p") simp
  let ?e = "e\<lparr>e_starts := Some t, e_ends := ends\<rparr>"
  obtain u db1 db2 b h db3 where
    per: "ends = Some u" "t \<le> now" "now < u"
    and ib: "insert_balance (new_balance (e_policy e) t u) (db\<lparr>ledger_apply := True\<rparr>) = Inr db1"
    and ih: "insert_hold (new_hold (e_reservation e) (e_policy e) (p_revision p) t) db1 = Inr db2"
    and b: "find_row b_key (e_policy e, t) (balances db2) = Some b"
    and h: "find_row h_key (e_reservation e, e_policy e, t) (holds db2) = Some h"
    and ap: "(case e_kind ?e of RESERVE \<Rightarrow> apply_reserve now p r b h ?e db2
              | COMMIT \<Rightarrow> apply_commit now p r b h ?e db2
              | RELEASE \<Rightarrow> apply_release b h ?e db2) = Inr db3"
    and out: "e' = ?e" "db' = db3\<lparr>ledger_apply := False\<rparr>"
    using assms(1) bp unfolding apply_in_period_def
    by (auto simp: tx_simps Let_def)
  have B': "frame db db1" "tables_ok db1" "holds db1 = holds db" "balance_moves (e_policy e, t) 0 0 db db1"
    using insert_balance_effect [OF ib] assms(2) by (auto simp: new_balance_def balance_moves_def)
  have H': "frame db1 db2" "tables_ok db2" "balances db2 = balances db1"
    "hold_moves (e_reservation e, e_policy e, t) 0 0 db1 db2"
    and kept: "find_row h_key k (holds db) = Some x \<Longrightarrow> find_row h_key k (holds db2) = Some x" for k x
    using insert_hold_effect [OF ih B'(2)] B'(3) by (simp_all add: new_hold_def h_key_def)
  have E: "entry_effect now p r ?e t db2 db3"
    using apply_kind_effect [OF ap H'(2)] b h by simp
  have "hold_after p ?e (e_reservation e, e_policy e, t) db db3"
    using E kept unfolding entry_effect_def hold_after_def by auto
  moreover have "frame db db3" "tables_ok db3"
    using E B' H' unfolding entry_effect_def by (auto intro: frame_trans)
  moreover have "balance_moves (e_policy e, t) (reserved_delta e) (committed_delta e) db db3"
    "hold_moves (e_reservation e, e_policy e, t) (reserved_delta e) (committed_delta e) db db3"
    using E B' H' unfolding entry_effect_def
    by (simp_all add: balance_moves_def hold_moves_def bal_reserved_def bal_committed_def
        held_def held_committed_def hold_sum_def)
  ultimately have "entry_effect now p r ?e t db db3"
    using E unfolding entry_effect_def by simp
  then have "entry_effect now p r ?e t db db'"
    unfolding out(2) entry_effect_def by (simp add: hold_after_def)
  with bp per out show ?thesis by auto
qed

lemma apply_named_release_effect:
  fixes now :: instant and r :: reservation
  assumes "apply_named_release t e db = Inr (e', db')" and "tables_ok db"
    and "e_kind e = RELEASE" and "e_starts e = Some t"
  shows "\<exists>u. e' = e\<lparr>e_ends := Some u\<rparr> \<and> entry_effect now p r e' t db db' \<and> \<not> ledger_apply db' \<and>
             e_amount e \<le> held db (e_reservation e, e_policy e, t)"
proof -
  obtain h b db1 db2 where
    h: "find_row h_key (e_reservation e, e_policy e, t) (holds db) = Some h"
    and b: "find_row b_key (e_policy e, t) (balances db) = Some b"
    and le: "e_amount e \<le> h_reserved h"
    and u1: "update_balance (b_key b) (move_reserved (- e_amount e)) (db\<lparr>ledger_apply := True\<rparr>) = Inr db1"
    and u2: "update_hold (h_key h) (move_hold_reserved (- e_amount e)) db1 = Inr db2"
    and out: "e' = e\<lparr>e_ends := Some (b_ends b)\<rparr>" "db' = db2\<lparr>ledger_apply := False\<rparr>"
    using assms(1) unfolding apply_named_release_def
    by (auto simp: tx_simps)
  have kb: "b_key b = (e_policy e, t)" and kh: "h_key h = (e_reservation e, e_policy e, t)"
    using find_row_key [OF b] find_row_key [OF h] by simp_all
  have mv: "move_both b (move_reserved (- e_amount e)) h (move_hold_reserved (- e_amount e))
      (db\<lparr>ledger_apply := True\<rparr>) = Inr db2"
    using u1 u2 by (simp add: move_both_def)
  have "tables_ok (db\<lparr>ledger_apply := True\<rparr>)" using assms(2) by simp
  note M = move_both_effect [OF mv this _ _ key_of_moves(1,3), of "- e_amount e" 0]
  have "entry_effect now p r e t db db2"
    using M b h kb kh assms(3)
    by (simp add: entry_effect_def entry_allowed_def hold_after_def reserved_delta_def committed_delta_def
        move_reserved_def move_hold_reserved_def)
  then have "entry_effect now p r e' t db db'"
    using assms(3) unfolding out by (simp add: entry_effect_def entry_allowed_def hold_after_def reserved_delta_def committed_delta_def)
  then show ?thesis using out le h by (auto simp: held_def)
qed

lemma entries_views [simp]:
  "tables_ok (db\<lparr>entries := es\<rparr>) = tables_ok db"
  "balance_moves k dr dc db (db'\<lparr>entries := es\<rparr>) = balance_moves k dr dc db db'"
  "hold_moves j dr dc db (db'\<lparr>entries := es\<rparr>) = hold_moves j dr dc db db'"
  "bal_reserved (db\<lparr>entries := es\<rparr>) = bal_reserved db"
  "bal_committed (db\<lparr>entries := es\<rparr>) = bal_committed db"
  "held (db\<lparr>entries := es\<rparr>) = held db"
  "held_committed (db\<lparr>entries := es\<rparr>) = held_committed db"
  by (simp_all add: fun_eq_iff tables_ok_def balance_moves_def hold_moves_def bal_reserved_def
      bal_committed_def held_def held_committed_def hold_sum_def)

text \<open>Everything but the entry list, the balances and the holds.\<close>

definition same_base :: "ledger_db \<Rightarrow> ledger_db \<Rightarrow> bool" where
  "same_base db db' \<longleftrightarrow>
     policies db' = policies db \<and> reservations db' = reservations db \<and>
     memberships db' = memberships db \<and> organisations db' = organisations db"

lemma same_base_refl [simp, intro]: "same_base db db"
  by (simp add: same_base_def)

lemma same_base_trans: "same_base a b \<Longrightarrow> same_base b c \<Longrightarrow> same_base a c"
  by (simp add: same_base_def)

text \<open>A successful insert: \<open>e\<close> is the row stored, \<open>p\<close> and \<open>r\<close> its policy and reservation.\<close>

definition posted ::
  "'a db_env_scheme \<Rightarrow> instant \<Rightarrow> ledger_entry \<Rightarrow> spend_policy \<Rightarrow> reservation \<Rightarrow> instant \<Rightarrow> ledger_entry \<Rightarrow>
     ledger_db \<Rightarrow> ledger_db \<Rightarrow> bool" where
  "posted env now entry p r t e db db' \<longleftrightarrow>
     find_row p_id (e_policy entry) (policies db) = Some p \<and>
     find_row r_id (e_reservation entry) (reservations db) = Some r \<and>
     \<not> outside_budget p r \<and>
     (\<exists>u. e = entry\<lparr>e_starts := Some t, e_ends := Some u, e_occurred := now\<rparr> \<and>
          (e_kind entry = RELEASE \<and> e_starts entry = Some t \<or>
           \<not> (e_kind entry = RELEASE \<and> e_starts entry \<noteq> None) \<and>
           budget_period env now p = (t, Some u) \<and> t \<le> now \<and> now < u)) \<and>
     entry_checks e = Inr () \<and> find_row e_key (e_key entry) (entries db) = None \<and>
     entries db' = entries db @ [e] \<and> same_base db db' \<and> tables_ok db' \<and> \<not> ledger_apply db' \<and>
     balance_moves (e_policy entry, t) (reserved_delta entry) (committed_delta entry) db db' \<and>
     hold_moves (e_reservation entry, e_policy entry, t) (reserved_delta entry) (committed_delta entry) db db' \<and>
     entry_allowed now p r entry \<and> hold_after p entry (e_reservation entry, e_policy entry, t) db db' \<and>
     (e_kind entry = RESERVE \<longrightarrow> used db' (e_policy entry, t) \<le> p_limit p)"

lemma ledger_entry_apply_effect:
  assumes "ledger_entry_apply env now entry db = Inr (e, db')" and "tables_ok db"
  shows "\<exists>p r t u.
     find_row p_id (e_policy entry) (policies db) = Some p \<and>
     find_row r_id (e_reservation entry) (reservations db) = Some r \<and> \<not> outside_budget p r \<and>
     e = entry\<lparr>e_starts := Some t, e_ends := Some u, e_occurred := now\<rparr> \<and>
     (e_kind entry = RELEASE \<and> e_starts entry = Some t \<or>
      \<not> (e_kind entry = RELEASE \<and> e_starts entry \<noteq> None) \<and>
      budget_period env now p = (t, Some u) \<and> t \<le> now \<and> now < u) \<and>
     entry_effect now p r e t db db' \<and> \<not> ledger_apply db'"
proof -
  let ?e = "entry\<lparr>e_occurred := now\<rparr>"
  obtain p r where p: "find_row p_id (e_policy entry) (policies db) = Some p"
    and r: "find_row r_id (e_reservation entry) (reservations db) = Some r"
    and nb: "\<not> outside_budget p r"
    and go: "(case (e_kind entry, e_starts entry) of
            (RELEASE, Some t) \<Rightarrow> apply_named_release t ?e db
          | _ \<Rightarrow> apply_in_period env now p r ?e db) = Inr (e, db')"
    using assms(1) unfolding ledger_entry_apply_def by (auto simp: tx_simps Let_def)
  show ?thesis
  proof (cases "e_kind entry = RELEASE \<and> e_starts entry \<noteq> None")
    case True
    then obtain t where t: "e_kind entry = RELEASE" "e_starts entry = Some t" by auto
    with go have "apply_named_release t ?e db = Inr (e, db')" by simp
    then obtain u where "e = ?e\<lparr>e_ends := Some u\<rparr>" "entry_effect now p r e t db db'" "\<not> ledger_apply db'"
      using apply_named_release_effect [of t ?e db e db' now p r] assms(2) t by auto
    with p r nb t show ?thesis
      by (intro exI [of _ p] exI [of _ r] exI [of _ t] exI [of _ u]) (cases entry; simp)
  next
    case False
    then have "apply_in_period env now p r ?e db = Inr (e, db')"
      using go by (auto split: entry_kind.splits option.splits)
    then obtain t u where "budget_period env now p = (t, Some u)" "t \<le> now" "now < u"
      "e = ?e\<lparr>e_starts := Some t, e_ends := Some u\<rparr>" "entry_effect now p r e t db db'" "\<not> ledger_apply db'"
      using apply_in_period_effect [OF _ assms(2), of env now p r ?e e db'] by blast
    with p r nb False show ?thesis
      by (intro exI [of _ p] exI [of _ r] exI [of _ t] exI [of _ u]) (cases entry; simp)
  qed
qed

lemma post_entry_effect:
  assumes "post_entry env now db entry = Inr db'" and "tables_ok db"
  obtains p r t e where "posted env now entry p r t e db db'"
proof -
  obtain e db1 where ap: "ledger_entry_apply env now entry db = Inr (e, db1)"
    and ck: "entry_checks e = Inr ()" and un: "find_row e_key (e_key e) (entries db1) = None"
    and db': "db' = db1\<lparr>entries := entries db1 @ [e]\<rparr>"
    using assms(1) unfolding post_entry_def by (auto simp: tx_simps)
  obtain p r t u where
    row: "find_row p_id (e_policy entry) (policies db) = Some p"
    "find_row r_id (e_reservation entry) (reservations db) = Some r" "\<not> outside_budget p r"
    and e: "e = entry\<lparr>e_starts := Some t, e_ends := Some u, e_occurred := now\<rparr>"
    and per: "e_kind entry = RELEASE \<and> e_starts entry = Some t \<or>
      \<not> (e_kind entry = RELEASE \<and> e_starts entry \<noteq> None) \<and>
      budget_period env now p = (t, Some u) \<and> t \<le> now \<and> now < u"
    and ef: "entry_effect now p r e t db db1" and na: "\<not> ledger_apply db1"
    using ledger_entry_apply_effect [OF ap assms(2)] by blast
  have same: "reserved_delta e = reserved_delta entry" "committed_delta e = committed_delta entry"
    "e_kind e = e_kind entry" "e_policy e = e_policy entry" "e_reservation e = e_reservation entry"
    "e_key e = e_key entry"
    by (simp_all add: e reserved_delta_def committed_delta_def)
  have es: "entries db1 = entries db" and base: "same_base db db1"
    using ef unfolding entry_effect_def frame_def same_base_def by blast+
  note ef' = ef [unfolded entry_effect_def same]
  have "entries db' = entries db @ [e]" "same_base db db'" "find_row e_key (e_key entry) (entries db) = None"
    using es base un same(6) by (simp_all add: db' same_base_def)
  moreover have "tables_ok db'" "\<not> ledger_apply db'"
    "balance_moves (e_policy entry, t) (reserved_delta entry) (committed_delta entry) db db'"
    "hold_moves (e_reservation entry, e_policy entry, t) (reserved_delta entry) (committed_delta entry) db db'"
    using ef' na unfolding db' by simp_all
  moreover have "e_kind entry = RESERVE \<longrightarrow> used db' (e_policy entry, t) \<le> p_limit p"
    using ef' unfolding db' used_def by simp
  moreover have "entry_allowed now p r entry"
    "hold_after p entry (e_reservation entry, e_policy entry, t) db db'"
    using ef' unfolding db' by (simp_all add: e entry_allowed_def hold_after_def)
  ultimately have "posted env now entry p r t e db db'"
    using ck row(1,2,3) e per unfolding posted_def by blast
  then show thesis by (rule that)
qed

section \<open>The invariant of the ledger\<close>

text \<open>
  The entries are the source of truth: every balance and every hold is the sum of the entries
  of its key, and a balance is the sum of the holds of its budget period.
\<close>

definition entry_sum :: "(ledger_entry \<Rightarrow> int) \<Rightarrow> (ledger_entry \<Rightarrow> bool) \<Rightarrow> ledger_db \<Rightarrow> int" where
  "entry_sum f sel db = (\<Sum>e\<leftarrow>entries db. if sel e then f e else 0)"

definition on_hold :: "string \<times> string \<times> instant \<Rightarrow> ledger_entry \<Rightarrow> bool" where
  "on_hold k e \<longleftrightarrow> entry_key_of e = (fst k, fst (snd k), Some (snd (snd k)))"

definition on_period :: "string \<times> instant \<Rightarrow> ledger_entry \<Rightarrow> bool" where
  "on_period j e \<longleftrightarrow> e_policy e = fst j \<and> e_starts e = Some (snd j)"

definition ledger_inv :: "ledger_db \<Rightarrow> bool" where
  "ledger_inv db \<longleftrightarrow>
     tables_ok db \<and> \<not> ledger_apply db \<and> distinct (map e_key (entries db)) \<and>
     (\<forall>e \<in> set (entries db). entry_checks e = Inr ()) \<and>
     (\<forall>j. hold_sum h_reserved db j = bal_reserved db j) \<and>
     (\<forall>j. hold_sum h_committed db j = bal_committed db j) \<and>
     (\<forall>k. held db k = entry_sum reserved_delta (on_hold k) db) \<and>
     (\<forall>k. held_committed db k = entry_sum committed_delta (on_hold k) db) \<and>
     (\<forall>j. bal_reserved db j = entry_sum reserved_delta (on_period j) db) \<and>
     (\<forall>j. bal_committed db j = entry_sum committed_delta (on_period j) db)"

text \<open>The row key an entry lands on: its named period, or the one the clock and the policy give.\<close>

definition entry_target ::
  "'a db_env_scheme \<Rightarrow> instant \<Rightarrow> ledger_db \<Rightarrow> ledger_entry \<Rightarrow> string \<times> string \<times> instant" where
  "entry_target env now db e =
     (e_reservation e, e_policy e,
      case (e_kind e, e_starts e) of
        (RELEASE, Some t) \<Rightarrow> t
      | _ \<Rightarrow> (case find_row p_id (e_policy e) (policies db) of
                None \<Rightarrow> 0 | Some p \<Rightarrow> fst (budget_period env now p)))"

lemma postedD:
  assumes "posted env now entry p r t e db db'"
  shows "find_row p_id (e_policy entry) (policies db) = Some p"
    and "find_row r_id (e_reservation entry) (reservations db) = Some r"
    and "same_base db db'" and "tables_ok db'" and "entries db' = entries db @ [e]"
    and "balance_moves (e_policy entry, t) (reserved_delta entry) (committed_delta entry) db db'"
    and "hold_moves (e_reservation entry, e_policy entry, t) (reserved_delta entry) (committed_delta entry) db db'"
  using assms unfolding posted_def by blast+

lemma posted_target:
  assumes "posted env now entry p r t e db db'"
  shows "entry_target env now db entry = (e_reservation entry, e_policy entry, t)"
  using assms unfolding posted_def entry_target_def
  by (auto split: entry_kind.splits option.splits)

lemma ledger_inv_tables: "ledger_inv db \<Longrightarrow> tables_ok db"
  by (simp add: ledger_inv_def)

lemma ledger_inv_cong:
  "balances db' = balances db \<Longrightarrow> holds db' = holds db \<Longrightarrow> entries db' = entries db \<Longrightarrow>
   ledger_apply db' = ledger_apply db \<Longrightarrow> ledger_inv db' = ledger_inv db"
  by (simp add: ledger_inv_def tables_ok_def hold_sum_def bal_reserved_def bal_committed_def
      held_def held_committed_def entry_sum_def)

lemma posted_inv:
  assumes "posted env now entry p r t e db db'" and "ledger_inv db"
  shows "ledger_inv db'"
proof -
  have e: "reserved_delta e = reserved_delta entry" "committed_delta e = committed_delta entry"
    "e_policy e = e_policy entry" "e_reservation e = e_reservation entry" "e_key e = e_key entry"
    "e_starts e = Some t"
    using assms(1) by (auto simp: posted_def reserved_delta_def committed_delta_def)
  have new: "entries db' = entries db @ [e]" "entry_checks e = Inr ()"
    "find_row e_key (e_key entry) (entries db) = None" "tables_ok db'" "\<not> ledger_apply db'"
    using assms(1) by (auto simp: posted_def)
  have b: "balance_moves (e_policy entry, t) (reserved_delta entry) (committed_delta entry) db db'"
    and h: "hold_moves (e_reservation entry, e_policy entry, t) (reserved_delta entry) (committed_delta entry) db db'"
    using assms(1) by (auto simp: posted_def)
  have sum: "entry_sum f sel db' = entry_sum f sel db + (if sel e then f e else 0)" for f sel
    by (simp add: entry_sum_def new(1))
  have sh: "on_hold k e \<longleftrightarrow> k = (e_reservation entry, e_policy entry, t)" for k
    by (cases k) (auto simp: on_hold_def entry_key_of_def e)
  have sp: "on_period j e \<longleftrightarrow> j = (e_policy entry, t)" for j
    by (cases j) (auto simp: on_period_def e)
  have d: "distinct (map e_key (entries db'))"
    using assms(2) new(1,3) e(5) by (auto simp: ledger_inv_def find_row_None_iff)
  have I: "hold_sum h_reserved db j = bal_reserved db j" "hold_sum h_committed db j = bal_committed db j"
    "held db k = entry_sum reserved_delta (on_hold k) db"
    "held_committed db k = entry_sum committed_delta (on_hold k) db"
    "bal_reserved db j = entry_sum reserved_delta (on_period j) db"
    "bal_committed db j = entry_sum committed_delta (on_period j) db" for j k
    using assms(2) unfolding ledger_inv_def by blast+
  have B: "bal_reserved db' j = bal_reserved db j + (if j = (e_policy entry, t) then reserved_delta entry else 0)"
    "bal_committed db' j = bal_committed db j + (if j = (e_policy entry, t) then committed_delta entry else 0)" for j
    using balance_movesD [OF b] by blast+
  have H: "held db' k = held db k + (if k = (e_reservation entry, e_policy entry, t) then reserved_delta entry else 0)"
    "held_committed db' k = held_committed db k + (if k = (e_reservation entry, e_policy entry, t) then committed_delta entry else 0)"
    "hold_sum h_reserved db' j = hold_sum h_reserved db j + (if j = (e_policy entry, t) then reserved_delta entry else 0)"
    "hold_sum h_committed db' j = hold_sum h_committed db j + (if j = (e_policy entry, t) then committed_delta entry else 0)" for j k
    using hold_movesD [OF h] unfolding snd_conv by blast+
  have old: "\<forall>x \<in> set (entries db). entry_checks x = Inr ()"
    using assms(2) unfolding ledger_inv_def by blast
  have "hold_sum h_reserved db' j = bal_reserved db' j" "hold_sum h_committed db' j = bal_committed db' j" for j
    unfolding H B using I(1,2) by simp_all
  moreover have "held db' k = entry_sum reserved_delta (on_hold k) db'"
    "held_committed db' k = entry_sum committed_delta (on_hold k) db'" for k
    unfolding H sum sh e I by simp_all
  moreover have "bal_reserved db' j = entry_sum reserved_delta (on_period j) db'"
    "bal_committed db' j = entry_sum committed_delta (on_period j) db'" for j
    unfolding B sum sp e I by simp_all
  ultimately show ?thesis
    using new(2,4,5) d old unfolding ledger_inv_def new(1) by auto
qed

lemma post_entry_inv: "ledger_inv db \<Longrightarrow> post_entry env now db x = Inr db' \<Longrightarrow> ledger_inv db'"
  by (elim post_entry_effect) (auto intro: posted_inv dest: ledger_inv_tables)

lemma post_entry_view:
  assumes "ledger_inv db" and "post_entry env now db x = Inr db'"
  shows "held db' k = held db k + (if entry_target env now db x = k then reserved_delta x else 0)"
    and "held_committed db' k = held_committed db k + (if entry_target env now db x = k then committed_delta x else 0)"
    and "bal_reserved db' j = bal_reserved db j + (if snd (entry_target env now db x) = j then reserved_delta x else 0)"
    and "bal_committed db' j = bal_committed db j + (if snd (entry_target env now db x) = j then committed_delta x else 0)"
    and "entry_target env now db' y = entry_target env now db y"
proof -
  obtain p r t e where P: "posted env now x p r t e db db'"
    using post_entry_effect [OF assms(2) ledger_inv_tables [OF assms(1)]] .
  note T = posted_target [OF P]
  show "held db' k = held db k + (if entry_target env now db x = k then reserved_delta x else 0)"
    "held_committed db' k = held_committed db k + (if entry_target env now db x = k then committed_delta x else 0)"
    unfolding T hold_movesD(1,2) [OF postedD(7) [OF P]] by (simp_all add: eq_commute)
  show "bal_reserved db' j = bal_reserved db j + (if snd (entry_target env now db x) = j then reserved_delta x else 0)"
    "bal_committed db' j = bal_committed db j + (if snd (entry_target env now db x) = j then committed_delta x else 0)"
    unfolding T balance_movesD [OF postedD(6) [OF P]] by (simp_all add: eq_commute)
  show "entry_target env now db' y = entry_target env now db y"
    using postedD(3) [OF P] unfolding entry_target_def same_base_def by (elim conjE) (simp only:)
qed

interpretation hold_ledger:
  additive_ledger "post_entry env now" ledger_inv held "entry_target env now" reserved_delta
  for env :: "'a db_env_scheme" and now
  by unfold_locales (auto intro: post_entry_inv simp: post_entry_view)

interpretation hold_commitments:
  additive_ledger "post_entry env now" ledger_inv held_committed "entry_target env now" committed_delta
  for env :: "'a db_env_scheme" and now
  by unfold_locales (auto intro: post_entry_inv simp: post_entry_view)

interpretation period_ledger:
  additive_ledger "post_entry env now" ledger_inv bal_reserved "\<lambda>db e. snd (entry_target env now db e)" reserved_delta
  for env :: "'a db_env_scheme" and now
  by unfold_locales (auto intro: post_entry_inv simp: post_entry_view)

interpretation period_commitments:
  additive_ledger "post_entry env now" ledger_inv bal_committed "\<lambda>db e. snd (entry_target env now db e)" committed_delta
  for env :: "'a db_env_scheme" and now
  by unfold_locales (auto intro: post_entry_inv simp: post_entry_view)

section \<open>Rows and limits over a run of entries\<close>

lemma post_entry_base: "ledger_inv db \<Longrightarrow> post_entry env now db x = Inr db' \<Longrightarrow> same_base db db'"
  by (elim post_entry_effect) (auto dest: ledger_inv_tables postedD(3))

lemma post_entry_row_other:
  assumes "ledger_inv db" and "post_entry env now db x = Inr db'" and "entry_target env now db x \<noteq> k"
  shows "find_row h_key k (holds db') = find_row h_key k (holds db)"
proof -
  obtain p r t e where P: "posted env now x p r t e db db'"
    using post_entry_effect [OF assms(2) ledger_inv_tables [OF assms(1)]] .
  show ?thesis
    using hold_movesD(3) [OF postedD(7) [OF P], of k] assms(3) posted_target [OF P] by metis
qed

text \<open>The hold at \<open>k\<close> carries the revision its policy has now.\<close>

definition current_revision :: "ledger_db \<Rightarrow> string \<times> string \<times> instant \<Rightarrow> bool" where
  "current_revision db k \<longleftrightarrow>
     (\<exists>h p. find_row h_key k (holds db) = Some h \<and> find_row p_id (fst (snd k)) (policies db) = Some p \<and>
            h_policy_revision h = p_revision p)"

lemma post_entry_revision:
  assumes "ledger_inv db" and "post_entry env now db x = Inr db'"
    and "current_revision db k \<or> e_kind x = RESERVE \<and> entry_target env now db x = k"
  shows "current_revision db' k"
proof -
  obtain p r t e where P: "posted env now x p r t e db db'"
    using post_entry_effect [OF assms(2) ledger_inv_tables [OF assms(1)]] .
  have pol: "policies db' = policies db" using postedD(3) [OF P] by (simp add: same_base_def)
  note T = posted_target [OF P]
  show ?thesis
  proof (cases "entry_target env now db x = k")
    case True
    have "hold_after p x k db db'" and p: "find_row p_id (fst (snd k)) (policies db) = Some p"
      using P True T by (auto simp: posted_def)
    then show ?thesis
      using assms(3) pol unfolding hold_after_def current_revision_def by (auto split: if_splits)
  next
    case False
    then show ?thesis
      using assms(3) post_entry_row_other [OF assms(1,2) False] pol by (simp add: current_revision_def)
  qed
qed

lemma posts_base: "for_each (post_entry env now) db es = Inr db' \<Longrightarrow> ledger_inv db \<Longrightarrow> same_base db db'"
proof (induction es arbitrary: db)
  case (Cons x es)
  then show ?case
    by (auto simp: tx_simps dest: post_entry_base intro: same_base_trans post_entry_inv)
qed simp

lemma posts_row_other:
  "for_each (post_entry env now) db es = Inr db' \<Longrightarrow> ledger_inv db \<Longrightarrow>
   (\<And>x. x \<in> set es \<Longrightarrow> entry_target env now db x \<noteq> k) \<Longrightarrow>
   find_row h_key k (holds db') = find_row h_key k (holds db)"
proof (induction es arbitrary: db)
  case (Cons x es)
  then obtain d where d: "post_entry env now db x = Inr d" "for_each (post_entry env now) d es = Inr db'"
    by (auto simp: tx_simps)
  have "find_row h_key k (holds db') = find_row h_key k (holds d)"
  proof (rule Cons.IH [OF d(2)])
    show "ledger_inv d" using Cons.prems(2) d(1) by (rule post_entry_inv)
    fix y assume "y \<in> set es"
    then show "entry_target env now d y \<noteq> k"
      using Cons.prems(3) [of y] post_entry_view(5) [OF Cons.prems(2) d(1)] by simp
  qed
  then show ?case
    using post_entry_row_other [OF Cons.prems(2) d(1)] Cons.prems(3) [of x] by simp
qed simp

lemma posts_revision:
  "for_each (post_entry env now) db es = Inr db' \<Longrightarrow> ledger_inv db \<Longrightarrow>
   current_revision db k \<or> (\<exists>x \<in> set es. e_kind x = RESERVE \<and> entry_target env now db x = k) \<Longrightarrow>
   current_revision db' k"
proof (induction es arbitrary: db)
  case (Cons x es)
  then obtain d where d: "post_entry env now db x = Inr d" "for_each (post_entry env now) d es = Inr db'"
    by (auto simp: tx_simps)
  note inv = post_entry_inv [OF Cons.prems(2) d(1)]
  show ?case
  proof (rule Cons.IH [OF d(2) inv])
    show "current_revision d k \<or> (\<exists>y \<in> set es. e_kind y = RESERVE \<and> entry_target env now d y = k)"
      using Cons.prems(3) post_entry_revision [OF Cons.prems(2) d(1), of k]
        post_entry_view(5) [OF Cons.prems(2) d(1)] by auto
  qed
qed simp

text \<open>
  Every policy's limit is at most \<open>B\<close> of its id, and no period has used more than that.
\<close>

definition within_limits :: "(string \<Rightarrow> int) \<Rightarrow> ledger_db \<Rightarrow> bool" where
  "within_limits B db \<longleftrightarrow>
     (\<forall>p \<in> set (policies db). p_limit p \<le> B (p_id p)) \<and> (\<forall>j. used db j \<le> max 0 (B (fst j)))"

lemma post_entry_used:
  assumes "ledger_inv db" and "post_entry env now db x = Inr db'"
  shows "used db' j \<le> used db j \<or>
         (\<exists>p \<in> set (policies db). p_id p = fst j \<and> used db' j \<le> p_limit p)"
proof -
  obtain p r t e where P: "posted env now x p r t e db db'"
    using post_entry_effect [OF assms(2) ledger_inv_tables [OF assms(1)]] .
  have "0 < e_amount x" using P by (auto simp: posted_def entry_checks_def tx_simps split: if_splits)
  moreover have "used db' j = used db j + (if j = (e_policy x, t) then reserved_delta x + committed_delta x else 0)"
    using balance_movesD [OF postedD(6) [OF P], of j] by (simp add: used_def)
  moreover have "p \<in> set (policies db)" "p_id p = e_policy x"
    using find_row_SomeD [OF postedD(1) [OF P]] by auto
  moreover have "e_kind x = RESERVE \<longrightarrow> used db' (e_policy x, t) \<le> p_limit p"
    using P by (simp add: posted_def)
  ultimately show ?thesis
    by (auto simp: reserved_delta_def committed_delta_def split: if_splits)
qed

lemma post_entry_within:
  assumes "ledger_inv db" and "post_entry env now db x = Inr db'" and "within_limits B db"
  shows "within_limits B db'"
proof -
  have pol: "policies db' = policies db"
    using post_entry_base [OF assms(1,2)] by (simp add: same_base_def)
  have "used db' j \<le> max 0 (B (fst j))" for j
  proof -
    have "used db j \<le> max 0 (B (fst j))" "\<And>p. p \<in> set (policies db) \<Longrightarrow> p_id p = fst j \<Longrightarrow> p_limit p \<le> B (fst j)"
      using assms(3) unfolding within_limits_def by (blast, metis)
    then show ?thesis using post_entry_used [OF assms(1,2), of j] by fastforce
  qed
  then show ?thesis using assms(3) pol by (simp add: within_limits_def)
qed

lemma posts_within:
  assumes "for_each (post_entry env now) db es = Inr db'" and "ledger_inv db" and "within_limits B db"
  shows "within_limits B db'"
proof -
  have "ledger_inv db' \<and> within_limits B db'"
    by (rule for_each_invariant [OF assms(1)]) (use assms post_entry_inv post_entry_within in blast)+
  then show ?thesis ..
qed

end
