(* ===== verification/Spend_Commands_Laws.thy ===== *)
theory Spend_Commands_Laws
  imports Spend_Commands Spend_Ledger_Laws "HOL-Library.Multiset"
begin

text \<open>
  What the spend commands do to the ledger: the entries a command posts and their order, the
  effect of each command body on the holds and balances, and the invariant every command keeps.
\<close>

section \<open>Grouping by budget\<close>

lemma sum_list_group:
  fixes g :: "'x \<Rightarrow> int"
  assumes "distinct ids" and "key ` set xs \<subseteq> set ids"
  shows "(\<Sum>i\<leftarrow>ids. \<Sum>x\<leftarrow>filter (\<lambda>x. key x = i) xs. g x) = (\<Sum>x\<leftarrow>xs. g x)"
  using assms(2)
proof (induction xs)
  case (Cons x xs)
  have one: "(\<Sum>i\<leftarrow>ids. if key x = i then g x else 0) = g x"
    using assms(1) Cons.prems by (simp add: sum_list_distinct_conv_sum_set)
  have "(\<Sum>i\<leftarrow>ids. \<Sum>y\<leftarrow>filter (\<lambda>y. key y = i) (x # xs). g y) =
        (\<Sum>i\<leftarrow>ids. (if key x = i then g x else 0) + (\<Sum>y\<leftarrow>filter (\<lambda>y. key y = i) xs. g y))"
    by (intro arg_cong [where f = sum_list] map_cong) auto
  also have "\<dots> = g x + (\<Sum>y\<leftarrow>xs. g y)"
    using Cons one by (simp add: sum_list_addf)
  finally show ?case by simp
qed (simp add: sum_list_0)

lemma sorted_concat_groups:
  assumes "sorted ids" and "\<And>i x. i \<in> set ids \<Longrightarrow> x \<in> set (F i) \<Longrightarrow> key x = i"
  shows "sorted (map key (concat (map F ids)))"
  using assms
proof (induction ids)
  case (Cons i ids)
  have "sorted (map key (F i))"
    using Cons.prems(2) [of i] by (intro sorted_wrt_mono_rel [of _ "\<lambda>_ _. True", THEN sorted_map [THEN iffD2]])
      (auto simp: sorted_wrt_true)
  moreover have "key x \<le> key y" if "x \<in> set (F i)" "j \<in> set ids" "y \<in> set (F j)" for x j y
    using Cons.prems(1) Cons.prems(2) [of i x] Cons.prems(2) [of j y] that by simp
  ultimately show ?case using Cons by (auto simp: sorted_append)
qed simp

lemma set_ordered_entries:
  "set (ordered_entries env key actor step releases reserves) =
     (\<Union>x \<in> set releases. set (releaseHold env key actor x)) \<union> reserveEntry env key actor step ` set reserves"
  by (auto simp: ordered_entries_def policy_order_def)

lemma sum_ordered_entries:
  fixes g :: "ledger_entry \<Rightarrow> int"
  shows "(\<Sum>e\<leftarrow>ordered_entries env key actor step releases reserves. g e) =
     (\<Sum>x\<leftarrow>releases. \<Sum>e\<leftarrow>releaseHold env key actor x. g e) +
     (\<Sum>x\<leftarrow>reserves. g (reserveEntry env key actor step x))"
proof -
  let ?ids = "policy_order releases reserves"
  have ids: "distinct ?ids" "(\<lambda>x. h_policy (rl_hold x)) ` set releases \<subseteq> set ?ids"
    "(\<lambda>x. pr_id (rs_policy x)) ` set reserves \<subseteq> set ?ids"
    by (auto simp: policy_order_def)
  have cc: "sum_list (map g (concat xss)) = (\<Sum>xs\<leftarrow>xss. \<Sum>x\<leftarrow>xs. g x)" for xss
    by (induction xss) auto
  show ?thesis
    unfolding ordered_entries_def cc
    by (simp add: comp_def cc sum_list_addf sum_list_group [OF ids(1,2)] sum_list_group [OF ids(1,3)])
qed

lemma releaseHold_policy: "e \<in> set (releaseHold env key actor x) \<Longrightarrow> e_policy e = h_policy (rl_hold x)"
  by (simp add: releaseHold_def release_row_def split: if_splits)

lemma reserveEntry_policy: "e_policy (reserveEntry env key actor step x) = pr_id (rs_policy x)"
  by (simp add: reserveEntry_def reserve_row_def)

lemma ordered_entries_sorted:
  "sorted (map e_policy (ordered_entries env key actor step releases reserves))"
  unfolding ordered_entries_def
  by (rule sorted_concat_groups) (auto simp: policy_order_def reserveEntry_policy dest: releaseHold_policy)

section \<open>The budgets that apply\<close>

definition key_at :: "string \<Rightarrow> policy_row \<Rightarrow> string \<times> string \<times> instant" where
  "key_at r p = (r, pr_id p, pr_starts p)"

definition release_key :: "release_item \<Rightarrow> string \<times> string \<times> instant" where
  "release_key x = (rl_reservation x, h_policy (rl_hold x), h_starts (rl_hold x))"

definition known_policy :: "'a db_env_scheme \<Rightarrow> instant \<Rightarrow> ledger_db \<Rightarrow> policy_row \<Rightarrow> bool" where
  "known_policy env now l p \<longleftrightarrow>
     (\<exists>q. find_row p_id (pr_id p) (policies l) = Some q \<and> p = row_of_policy env now q)"

lemma applicable_policies_facts:
  assumes "applicablePolicies env now r l = Inr ps" and "distinct (map p_id (policies l))"
  shows "sorted (map pr_id ps)" and "distinct (map pr_id ps)"
    and "set ps = row_of_policy env now ` {q \<in> set (policies l). policy_applies now r q}"
    and "\<And>p. p \<in> set ps \<Longrightarrow> known_policy env now l p"
    and "in_scope MEMBERSHIP ps = 1"
proof -
  have ps: "ps = sort_key pr_id (map (row_of_policy env now) (filter (policy_applies now r) (policies l)))"
    and one: "in_scope MEMBERSHIP ps = 1"
    using assms(1) unfolding applicablePolicies_def by (auto simp: Let_def split: if_splits)
  show "in_scope MEMBERSHIP ps = 1" by (fact one)
  show "sorted (map pr_id ps)" by (simp add: ps)
  show "distinct (map pr_id ps)"
  proof -
    have "map pr_id (map (row_of_policy env now) qs) = map p_id qs" for qs
      by (simp add: row_of_policy_def)
    moreover have "distinct (map p_id (filter (policy_applies now r) (policies l)))"
      using assms(2) by (rule distinct_map_filter)
    moreover have "mset (map pr_id ps) =
        mset (map pr_id (map (row_of_policy env now) (filter (policy_applies now r) (policies l))))"
      by (simp only: ps mset_map mset_sort)
    ultimately show ?thesis by (metis mset_eq_imp_distinct_iff)
  qed
  show set: "set ps = row_of_policy env now ` {q \<in> set (policies l). policy_applies now r q}"
    by (simp add: ps)
  fix p assume "p \<in> set ps"
  then obtain q where q: "q \<in> set (policies l)" "p = row_of_policy env now q" by (auto simp: set)
  then have "find_row p_id (pr_id p) (policies l) = Some q"
    using find_row_Some_iff [OF assms(2), of "pr_id p" q] by (simp add: row_of_policy_def)
  with q show "known_policy env now l p" by (auto simp: known_policy_def)
qed

lemma reserve_target:
  "known_policy env now l p \<Longrightarrow>
   entry_target env now l (reserve_row env' r p a key actor step) = key_at r p"
  by (auto simp: known_policy_def entry_target_def reserve_row_def key_at_def row_of_policy_def)

lemma commit_target:
  "known_policy env now l p \<Longrightarrow>
   entry_target env now l (commit_row env' r p a c key actor) = key_at r p"
  by (auto simp: known_policy_def entry_target_def commit_row_def key_at_def row_of_policy_def)

lemma release_target:
  "entry_target env now l (release_row env' r h reason key actor) = (r, h_policy h, h_starts h)"
  by (simp add: entry_target_def release_row_def)

lemma deltas_of_rows [simp]:
  "reserved_delta (reserve_row env r p a key actor step) = a"
  "committed_delta (reserve_row env r p a key actor step) = 0"
  "reserved_delta (release_row env r h reason key actor) = - h_reserved h"
  "committed_delta (release_row env r h reason key actor) = 0"
  "reserved_delta (commit_row env r p a c key actor) = - a"
  "committed_delta (commit_row env r p a c key actor) = a"
  by (simp_all add: reserved_delta_def committed_delta_def reserve_row_def release_row_def commit_row_def)

section \<open>The effect of releases and reservations in budget order\<close>

definition released_at :: "release_item list \<Rightarrow> string \<times> string \<times> instant \<Rightarrow> int" where
  "released_at xs k = (\<Sum>x\<leftarrow>xs. if release_key x = k then h_reserved (rl_hold x) else 0)"

definition reserved_at :: "reserve_item list \<Rightarrow> string \<times> string \<times> instant \<Rightarrow> int" where
  "reserved_at xs k = (\<Sum>x\<leftarrow>xs. if key_at (rs_reservation x) (rs_policy x) = k then rs_amount x else 0)"

lemma sum_releaseHold:
  "(\<Sum>e\<leftarrow>releaseHold env key actor x. if entry_target env' now l e = k then reserved_delta e else 0) =
     - (if release_key x = k then h_reserved (rl_hold x) else 0)"
  "(\<Sum>e\<leftarrow>releaseHold env key actor x. if entry_target env' now l e = k then committed_delta e else 0) = 0"
  by (simp_all add: releaseHold_def release_target release_key_def)

lemma inPolicyOrder_posts:
  assumes "inPolicyOrder env now key actor step releases reserves db = Inr db'"
  obtains l' where "for_each (post_entry env now) (ledger db)
      (ordered_entries env key actor step releases reserves) = Inr l'"
    and "db' = db\<lparr>ledger := l'\<rparr>"
  using assms unfolding inPolicyOrder_def on_ledger_def post_all_def db_step_def
  by (auto simp: tx_simps split: sum.splits)

lemma inPolicyOrder_effect:
  assumes "inPolicyOrder env now key actor step releases reserves db = Inr db'"
    and inv: "ledger_inv (ledger db)"
    and known: "\<And>x. x \<in> set reserves \<Longrightarrow> known_policy env now (ledger db) (rs_policy x)"
  shows "held (ledger db') k = held (ledger db) k - released_at releases k + reserved_at reserves k"
    and "held_committed (ledger db') k = held_committed (ledger db) k"
    and "ledger_inv (ledger db')" and "same_base (ledger db) (ledger db')" and "commands db' = commands db"
    and "within_limits B (ledger db) \<Longrightarrow> within_limits B (ledger db')"
proof -
  let ?es = "ordered_entries env key actor step releases reserves"
  obtain l' where posts: "for_each (post_entry env now) (ledger db) ?es = Inr l'"
    and db': "db' = db\<lparr>ledger := l'\<rparr>"
    using inPolicyOrder_posts [OF assms(1)] .
  have res: "(if entry_target env now (ledger db) (reserveEntry env key actor step x) = k
              then reserved_delta (reserveEntry env key actor step x) else 0) =
             (if key_at (rs_reservation x) (rs_policy x) = k then rs_amount x else 0)"
    "(if entry_target env now (ledger db) (reserveEntry env key actor step x) = k
              then committed_delta (reserveEntry env key actor step x) else 0) = 0"
    if "x \<in> set reserves" for x
    using reserve_target [OF known [OF that]] by (simp_all add: reserveEntry_def)
  have "(\<Sum>e\<leftarrow>?es. if entry_target env now (ledger db) e = k then reserved_delta e else 0) =
      - released_at releases k + reserved_at reserves k"
    unfolding sum_ordered_entries sum_releaseHold released_at_def reserved_at_def
    using res(1) by (simp add: uminus_sum_list_map comp_def cong: map_cong)
  then show "held (ledger db') k = held (ledger db) k - released_at releases k + reserved_at reserves k"
    using hold_ledger.posts_view [OF posts inv, of k] db' by simp
  have "(\<Sum>e\<leftarrow>?es. if entry_target env now (ledger db) e = k then committed_delta e else 0) = 0"
    unfolding sum_ordered_entries sum_releaseHold using res(2) by (simp add: sum_list_0 cong: map_cong)
  then show "held_committed (ledger db') k = held_committed (ledger db) k"
    using hold_commitments.posts_view [OF posts inv, of k] db' by simp
  show "ledger_inv (ledger db')" using hold_ledger.steps_inv [OF posts inv] db' by simp
  show "same_base (ledger db) (ledger db')" using posts_base [OF posts inv] db' by simp
  show "commands db' = commands db" using db' by simp
  show "within_limits B (ledger db) \<Longrightarrow> within_limits B (ledger db')"
    using posts_within [OF posts inv] db' by simp
qed

end
