(* ===== verification/Spend_Invariant.thy ===== *)
theory Spend_Invariant
  imports Spend_Commands_Laws
begin

text \<open>
  The invariant of the spend database over every command: the ledger's own, the uniqueness of live
  reservations, and that a closed reservation holds no capacity.
\<close>

section \<open>The reservation table\<close>

definition clash :: "reservation \<Rightarrow> reservation \<Rightarrow> bool" where
  "clash r s \<longleftrightarrow> live_reservation r \<and> live_reservation s \<and> (same_purchase r s \<or> same_transaction r s)"

definition unique_live :: "reservation list \<Rightarrow> bool" where
  "unique_live rows \<longleftrightarrow> (\<forall>r \<in> set rows. \<forall>s \<in> set rows. r_id r \<noteq> r_id s \<longrightarrow> \<not> clash r s)"

definition reservations_ok :: "reservation list \<Rightarrow> bool" where
  "reservations_ok rows \<longleftrightarrow>
     distinct (map r_id rows) \<and> unique_live rows \<and>
     (\<forall>r \<in> set rows. reservation_checks r = Inr () \<and> r_amount r \<noteq> None \<and> r_purchase r \<noteq> None)"

definition reservation_written :: "reservation \<Rightarrow> reservation list \<Rightarrow> bool" where
  "reservation_written r rows \<longleftrightarrow>
     reservation_checks r = Inr () \<and> reservation_unique rows r = Inr () \<and>
     r_amount r \<noteq> None \<and> r_purchase r \<noteq> None"

lemma clash_sym: "clash r s = clash s r"
  unfolding clash_def same_purchase_def same_transaction_def by metis

lemma reservation_unique_iff:
  "reservation_unique rows r = Inr () \<longleftrightarrow> (\<forall>s \<in> set rows. r_id s \<noteq> r_id r \<longrightarrow> \<not> clash r s)"
  by (auto simp: reservation_unique_def clash_def)

lemma unique_live_append:
  assumes "unique_live rows" and "reservation_unique rows r = Inr ()"
  shows "unique_live (rows @ [r])"
  using assms unfolding unique_live_def reservation_unique_iff
  by (simp add: ball_Un) (metis clash_sym)

lemma reservations_ok_append:
  assumes "reservations_ok rows" and "reservation_written r rows" and "r_id r \<notin> r_id ` set rows"
  shows "reservations_ok (rows @ [r])"
  using assms unique_live_append [of rows r]
  by (simp add: reservations_ok_def reservation_written_def ball_Un)

lemma reservations_ok_upd:
  assumes "reservations_ok rows" and "reservation_written r rows" and "r_id r = i"
  shows "reservations_ok (upd_row r_id i (\<lambda>_. r) rows)"
proof -
  let ?rows = "upd_row r_id i (\<lambda>_. r) rows"
  have mem: "x = r \<or> x \<in> set rows \<and> r_id x \<noteq> i" if "x \<in> set ?rows" for x
    using set_upd_row_cases [OF that] by auto
  have un: "\<not> clash r s" "\<not> clash s r" if "s \<in> set rows" "r_id s \<noteq> i" for s
    using assms(2,3) that clash_sym [of r s]
    unfolding reservation_written_def reservation_unique_iff by auto
  have old: "\<not> clash s t" if "s \<in> set rows" "t \<in> set rows" "r_id s \<noteq> r_id t" for s t
    using assms(1) that unfolding reservations_ok_def unique_live_def by blast
  have "unique_live ?rows"
    unfolding unique_live_def
  proof (intro ballI impI)
    fix x y
    assume x: "x \<in> set ?rows" and y: "y \<in> set ?rows" and d: "r_id x \<noteq> r_id y"
    from mem [OF x] mem [OF y] show "\<not> clash x y"
      using d un [of y] un [of x] old [of x y] by auto
  qed
  moreover have "map r_id ?rows = map r_id rows"
    using assms(3) by (intro map_key_upd_row) simp
  ultimately show ?thesis
    using assms(1,2) mem unfolding reservations_ok_def reservation_written_def by (metis (no_types, lifting))
qed

lemma insert_reservation_facts:
  assumes "insert_reservation new l = Inr l'"
  shows "l' = l\<lparr>reservations := reservations l @ [new\<lparr>r_hold_revision := 1\<rparr>]\<rparr>"
    and "reservation_written (new\<lparr>r_hold_revision := 1\<rparr>) (reservations l)"
    and "r_id new \<notin> r_id ` set (reservations l)" and "r_status new = ACTIVE"
    and "\<exists>m \<in> set (memberships l). m_id m = r_membership new \<and> m_organisation m = r_organisation new"
  using assms
  by (auto simp: insert_reservation_def reservation_guard_insert_def reservation_written_def tx_simps
      find_row_None_iff split: if_splits)

lemma update_reservation_facts:
  assumes "update_reservation i f l = Inr l'" and "find_row r_id i (reservations l) = Some old"
  shows "l' = l\<lparr>reservations := upd_row r_id i (\<lambda>_. (f old)\<lparr>r_id := i\<rparr>) (reservations l)\<rparr>"
    and "r_status old = ACTIVE" and "purchase_binding (f old) = purchase_binding old"
    and "r_hold_revision (f old) = r_hold_revision old \<or>
         r_hold_revision (f old) = r_hold_revision old + 1 \<and> r_status (f old) = ACTIVE"
    and "reservation_checks ((f old)\<lparr>r_id := i\<rparr>) = Inr ()"
    and "reservation_unique (reservations l) ((f old)\<lparr>r_id := i\<rparr>) = Inr ()"
  using assms
  by (auto simp: update_reservation_def reservation_guard_update_def purchase_binding_def tx_simps
      split: if_splits)

lemma lockReservation_facts:
  assumes "lockReservation org i l = Inr r"
  shows "r \<in> set (reservations l)" and "r_id r = i" and "r_organisation r = org"
    and "r_deleted r = None" and "r_amount r = Some (amount_of r)" and "r_purchase r \<noteq> None"
  using assms
  by (auto simp: lockReservation_def amount_of_def find_Some_iff split: option.splits if_splits)

lemma reservations_ok_find:
  "reservations_ok rows \<Longrightarrow> r \<in> set rows \<Longrightarrow> find_row r_id (r_id r) rows = Some r"
  by (simp add: reservations_ok_def find_row_Some_iff)

section \<open>The invariant\<close>

definition holds_owned :: "ledger_db \<Rightarrow> bool" where
  "holds_owned l \<longleftrightarrow> (\<forall>k. fst k \<notin> r_id ` set (reservations l) \<longrightarrow> find_row h_key k (holds l) = None)"

definition closed_holds :: "ledger_db \<Rightarrow> bool" where
  "closed_holds l \<longleftrightarrow>
     (\<forall>r \<in> set (reservations l). r_status r \<noteq> ACTIVE \<longrightarrow> (\<forall>p t. held l (r_id r, p, t) = 0))"

definition holds_bounded :: "ledger_db \<Rightarrow> bool" where
  "holds_bounded l \<longleftrightarrow>
     (\<forall>r \<in> set (reservations l). \<forall>p t. held l (r_id r, p, t) \<le> amount_of r)"

definition base_inv :: "ledger_db \<Rightarrow> bool" where
  "base_inv l \<longleftrightarrow>
     ledger_inv l \<and> reservations_ok (reservations l) \<and> distinct (map p_id (policies l)) \<and> holds_owned l"

definition spend_inv :: "spend_db \<Rightarrow> bool" where
  "spend_inv db \<longleftrightarrow>
     base_inv (ledger db) \<and> closed_holds (ledger db) \<and> holds_bounded (ledger db) \<and>
     distinct (map sc_key (commands db))"

lemma base_invD:
  assumes "base_inv l"
  shows "ledger_inv l" and "reservations_ok (reservations l)" and "distinct (map p_id (policies l))"
    and "holds_owned l" and "tables_ok l" and "distinct (map r_id (reservations l))"
  using assms by (simp_all add: base_inv_def ledger_inv_def reservations_ok_def)

lemma held_unowned: "holds_owned l \<Longrightarrow> r \<notin> r_id ` set (reservations l) \<Longrightarrow> held l (r, p, t) = 0"
  by (simp add: holds_owned_def held_def)

lemma post_entry_owned:
  assumes "ledger_inv l" and "post_entry env now l x = Inr l'" and "holds_owned l"
  shows "holds_owned l'"
  unfolding holds_owned_def
proof (intro allI impI)
  obtain p r t e where P: "posted env now x p r t e l l'"
    using post_entry_effect [OF assms(2) ledger_inv_tables [OF assms(1)]] .
  have rs: "reservations l' = reservations l" using postedD(3) [OF P] by (simp add: same_base_def)
  have "r \<in> set (reservations l)" "r_id r = e_reservation x"
    using find_row_SomeD [OF postedD(2) [OF P]] by auto
  then have mine: "e_reservation x \<in> r_id ` set (reservations l)" by force
  fix k :: "string \<times> string \<times> instant"
  assume "fst k \<notin> r_id ` set (reservations l')"
  then have un: "fst k \<notin> r_id ` set (reservations l)" by (simp add: rs)
  then have "find_row h_key k (holds l) = None" using assms(3) unfolding holds_owned_def by blast
  moreover have "entry_target env now l x \<noteq> k"
    using mine un posted_target [OF P] by (cases k) auto
  ultimately show "find_row h_key k (holds l') = None"
    using post_entry_row_other [OF assms(1,2)] by simp
qed

interpretation owned_ledger:
  checked_store "post_entry env now" "\<lambda>l. ledger_inv l \<and> holds_owned l"
  for env :: "'a db_env_scheme" and now
  by unfold_locales (blast intro: post_entry_inv post_entry_owned)

lemma posts_base_inv:
  assumes "for_each (post_entry env now) l es = Inr l'" and "base_inv l"
  shows "base_inv l'"
proof -
  have "ledger_inv l' \<and> holds_owned l'"
    using owned_ledger.steps_inv [OF assms(1)] base_invD(1,4) [OF assms(2)] by blast
  moreover have "same_base l l'" using posts_base [OF assms(1)] base_invD(1) [OF assms(2)] by blast
  ultimately show ?thesis using assms(2) by (simp add: base_inv_def same_base_def)
qed

lemma views_of_reservations [simp]:
  "held (l\<lparr>reservations := rs\<rparr>) = held l" "held_committed (l\<lparr>reservations := rs\<rparr>) = held_committed l"
  "bal_reserved (l\<lparr>reservations := rs\<rparr>) = bal_reserved l"
  "bal_committed (l\<lparr>reservations := rs\<rparr>) = bal_committed l" "used (l\<lparr>reservations := rs\<rparr>) = used l"
  "within_limits B (l\<lparr>reservations := rs\<rparr>) = within_limits B l"
  by (simp_all add: fun_eq_iff held_def held_committed_def bal_reserved_def bal_committed_def used_def
      within_limits_def)

lemma ledger_inv_reservations [simp]: "ledger_inv (l\<lparr>reservations := rs\<rparr>) = ledger_inv l"
  by (rule ledger_inv_cong) simp_all

section \<open>Writes of the reservation table\<close>

lemma insertReservation_effect:
  assumes "insertReservation env now c prior db = Inr (r, db1)" and "base_inv (ledger db)"
  shows "r = reservation_of env now c prior"
    and "db1 = db\<lparr>ledger := (ledger db)\<lparr>reservations := reservations (ledger db) @ [r]\<rparr>\<rparr>"
    and "base_inv (ledger db1)" and "r_id r \<notin> r_id ` set (reservations (ledger db))"
    and "member_rows now c (ledger db) \<noteq> []"
proof -
  let ?new = "reservation_of env now c prior" and ?l = "ledger db"
  obtain l' where ins: "insert_reservation ?new ?l = Inr l'" and db1: "db1 = db\<lparr>ledger := l'\<rparr>"
    and lk: "lockReservation (sub_organisation c) (r_id ?new) l' = Inr r"
    and mem: "length (member_rows now c ?l) = 1"
    using assms(1) unfolding insertReservation_def conflict_on_unique_def
    by (auto simp: tx_simps reservation_of_def split: sum.splits if_splits)
  have same: "?new\<lparr>r_hold_revision := 1\<rparr> = ?new" by (simp add: reservation_of_def)
  note I = insert_reservation_facts [OF ins, unfolded same]
  show "member_rows now c ?l \<noteq> []" using mem by auto
  show fresh: "r_id r \<notin> r_id ` set (reservations ?l)"
    using I(3) lockReservation_facts(2) [OF lk] by simp
  show r: "r = ?new"
  proof -
    have "r \<in> set (reservations l')" "r_id r = r_id ?new" using lockReservation_facts [OF lk] by simp_all
    moreover have "r \<notin> set (reservations ?l)" using fresh by blast
    ultimately show ?thesis using I(1) by simp
  qed
  show "db1 = db\<lparr>ledger := ?l\<lparr>reservations := reservations ?l @ [r]\<rparr>\<rparr>"
    using db1 I(1) r by simp
  have "reservations_ok (reservations ?l @ [?new])"
    using reservations_ok_append [OF base_invD(2) [OF assms(2)] I(2,3)] .
  then show "base_inv (ledger db1)"
    using assms(2) db1 I(1) by (simp add: base_inv_def holds_owned_def)
qed

lemma set_status_effect:
  assumes "set_status i s db = Inr db1" and "base_inv (ledger db)"
    and "find_row r_id i (reservations (ledger db)) = Some old"
  shows "db1 = db\<lparr>ledger := (ledger db)\<lparr>reservations :=
           upd_row r_id i (\<lambda>_. old\<lparr>r_status := s\<rparr>) (reservations (ledger db))\<rparr>\<rparr>"
    and "base_inv (ledger db1)" and "r_status old = ACTIVE"
proof -
  obtain l' where u: "update_reservation i (\<lambda>r. r\<lparr>r_status := s\<rparr>) (ledger db) = Inr l'"
    and db1: "db1 = db\<lparr>ledger := l'\<rparr>"
    using assms(1) unfolding set_status_def on_ledger_def db_step_def
    by (auto simp: tx_simps split: sum.splits)
  have id: "r_id old = i" using find_row_key [OF assms(3)] .
  then have eq: "old\<lparr>r_status := s, r_id := i\<rparr> = old\<lparr>r_status := s\<rparr>" by simp
  note U = update_reservation_facts [OF u assms(3), unfolded eq]
  show "db1 = db\<lparr>ledger := (ledger db)\<lparr>reservations :=
           upd_row r_id i (\<lambda>_. old\<lparr>r_status := s\<rparr>) (reservations (ledger db))\<rparr>\<rparr>"
    using db1 U(1) by simp
  show "r_status old = ACTIVE" by (fact U(2))
  have old: "old \<in> set (reservations (ledger db))" using find_row_SomeD [OF assms(3)] by blast
  have ok: "reservations_ok (upd_row r_id i (\<lambda>_. old\<lparr>r_status := s\<rparr>) (reservations (ledger db)))"
    using base_invD(2) [OF assms(2)] U(5,6) old id
    by (intro reservations_ok_upd) (auto simp: reservation_written_def reservations_ok_def)
  have ids: "r_id ` set (upd_row r_id i (\<lambda>_. old\<lparr>r_status := s\<rparr>) (reservations (ledger db))) =
      r_id ` set (reservations (ledger db))"
    using map_key_upd_row [of r_id i "\<lambda>_. old\<lparr>r_status := s\<rparr>" "reservations (ledger db)"] id
    by (metis (no_types, lifting) list.set_map reservation.select_convs(1) reservation.surjective reservation.update_convs(11))
  show "base_inv (ledger db1)"
    using assms(2) ok ids db1 U(1) by (simp add: base_inv_def holds_owned_def)
qed

end
