(* ===== verification/Spend_Effects.thy ===== *)
theory Spend_Effects
  imports Spend_Invariant
begin

text \<open>
  The effect of each command body on the rows: what submission takes, what closing returns, what
  commitment converts and what a rollover moves; each keeps the invariant.
\<close>

section \<open>Closing a reservation\<close>

lemma sum_sort_key:
  fixes f :: "'x \<Rightarrow> int"
  shows "(\<Sum>x\<leftarrow>sort_key g xs. f x) = (\<Sum>x\<leftarrow>xs. f x)"
  by (metis mset_map mset_sort sum_mset_sum_list)

lemma sum_holds_of:
  fixes g :: "hold \<Rightarrow> int"
  assumes "tables_ok l"
  shows "(\<Sum>h\<leftarrow>holds_of r l. if h_key h = k then g h else 0) =
     (if fst k = r then (case find_row h_key k (holds l) of None \<Rightarrow> 0 | Some h \<Rightarrow> g h) else 0)"
proof -
  let ?f = "\<lambda>h. if h_key h = k then g h else 0"
  have d: "distinct (map h_key (holds l))" using assms by (simp add: tables_ok_def)
  have "(\<Sum>h\<leftarrow>holds_of r l. ?f h) = (\<Sum>h\<leftarrow>holds l. if h_reservation h = r then ?f h else 0)"
    unfolding holds_of_def sum_sort_key by (simp add: sum_list_map_filter')
  also have "\<dots> = (if fst k = r then (\<Sum>h\<leftarrow>holds l. ?f h) else 0)"
  proof (cases "fst k = r")
    case True
    then show ?thesis
      by (simp, intro arg_cong [where f = sum_list] map_cong) (auto simp: h_key_def)
  next
    case False
    then have "map (\<lambda>h. if h_reservation h = r then ?f h else 0) (holds l) = map (\<lambda>_. 0) (holds l)"
      by (intro map_cong) (auto simp: h_key_def)
    then show ?thesis using False by (simp only: sum_list_0 if_False)
  qed
  finally show ?thesis using sum_find_row [OF d] by simp
qed

lemma released_all:
  assumes "tables_ok l"
  shows "released_at (release_items r reason (holds_of r l)) k = (if fst k = r then held l k else 0)"
proof -
  have "released_at (release_items r reason (holds_of r l)) k =
      (\<Sum>h\<leftarrow>holds_of r l. if (r, h_policy h, h_starts h) = k then h_reserved h else 0)"
    by (simp add: released_at_def release_items_def release_key_def comp_def cong: if_cong)
  also have "\<dots> = (\<Sum>h\<leftarrow>holds_of r l. if h_key h = k then h_reserved h else 0)"
    by (intro arg_cong [where f = sum_list] map_cong) (auto simp: h_key_def holds_of_def)
  finally show ?thesis using sum_holds_of [OF assms] by (simp add: held_def)
qed

lemma reserved_none [simp]: "reserved_at [] k = 0"
  by (simp add: reserved_at_def)

lemma released_none [simp]: "released_at [] k = 0"
  by (simp add: released_at_def)

text \<open>Rows of one reservation, after an update that keeps its id.\<close>

lemma reservation_rows_upd:
  assumes "distinct (map r_id rows)" and "find_row r_id i rows = Some old" and "r_id new = i"
  shows "set (upd_row r_id i (\<lambda>_. new) rows) = insert new (set rows - {old})"
proof -
  have old: "old \<in> set rows" "r_id old = i" using find_row_SomeD [OF assms(2)] by auto
  have only: "x = old" if "x \<in> set rows" "r_id x = i" for x
    using find_row_Some_iff [OF assms(1)] assms(2) that by (metis option.inject)
  show ?thesis
  proof (rule set_eqI)
    fix x
    have "x \<in> set (upd_row r_id i (\<lambda>_. new) rows) \<longleftrightarrow>
        (\<exists>y \<in> set rows. x = (if r_id y = i then new else y))"
      by (auto simp: upd_row_def image_iff)
    also have "\<dots> \<longleftrightarrow> x = new \<or> x \<in> set rows \<and> r_id x \<noteq> i"
      using old by metis
    also have "\<dots> \<longleftrightarrow> x \<in> insert new (set rows - {old})"
      using old only by blast
    finally show "x \<in> set (upd_row r_id i (\<lambda>_. new) rows) \<longleftrightarrow> x \<in> insert new (set rows - {old})" .
  qed
qed

lemma amount_pos: "reservations_ok rows \<Longrightarrow> r \<in> set rows \<Longrightarrow> 0 < amount_of r"
  by (fastforce simp: reservations_ok_def reservation_checks_def amount_of_def tx_simps split: if_splits)

lemma inPolicyOrder_base_inv:
  "inPolicyOrder env now key actor step releases reserves db = Inr db' \<Longrightarrow> base_inv (ledger db) \<Longrightarrow>
   base_inv (ledger db')"
  by (elim inPolicyOrder_posts) (auto dest: posts_base_inv)

lemma close_effect:
  assumes "close_body env now c reason status mb db = Inr (ok, db')" and "spend_inv db" and "status \<noteq> ACTIVE"
  obtains r where "lockReservation (cmd_organisation c) (cmd_reservation c) (ledger db) = Inr r"
    and "r_status r = ACTIVE" and "mb \<longrightarrow> expired now r"
    and "ok = \<lparr>a_reservation = r_id r, a_status = status, a_hold_revision = r_hold_revision r, a_revalidate = None\<rparr>"
    and "\<And>k. held (ledger db') k = (if fst k = r_id r then 0 else held (ledger db) k)"
    and "\<And>k. held_committed (ledger db') k = held_committed (ledger db) k"
    and "reservations (ledger db') = upd_row r_id (r_id r) (\<lambda>_. r\<lparr>r_status := status\<rparr>) (reservations (ledger db))"
    and "policies (ledger db') = policies (ledger db)" and "commands db' = commands db"
    and "spend_inv db'"
    and "\<And>B. within_limits B (ledger db) \<Longrightarrow> within_limits B (ledger db')"
proof -
  obtain r db1 where lk: "lockReservation (cmd_organisation c) (cmd_reservation c) (ledger db) = Inr r"
    and st: "r_status r = ACTIVE" and ex: "mb \<longrightarrow> expired now r"
    and po: "inPolicyOrder env now (cmd_key c) (cmd_actor c) ''release''
       (release_items (r_id r) reason (holds_of (r_id r) (ledger db))) [] db = Inr db1"
    and ss: "set_status (r_id r) status db1 = Inr db'"
    and ok: "ok = \<lparr>a_reservation = r_id r, a_status = status, a_hold_revision = r_hold_revision r, a_revalidate = None\<rparr>"
    using assms(1) unfolding close_body_def by (auto simp: tx_simps split: if_splits)
  have base: "base_inv (ledger db)" and closed: "closed_holds (ledger db)" and bnd: "holds_bounded (ledger db)"
    using assms(2) by (simp_all add: spend_inv_def)
  note L = base_invD [OF base]
  note E = inPolicyOrder_effect [OF po L(1)]
  have h1: "held (ledger db1) k = (if fst k = r_id r then 0 else held (ledger db) k)" for k
    using E(1) released_all [OF L(5)] by simp
  have sb: "same_base (ledger db) (ledger db1)" using E(4) by simp
  have fr: "find_row r_id (r_id r) (reservations (ledger db1)) = Some r"
    using reservations_ok_find [OF L(2)] lockReservation_facts(1) [OF lk] sb by (simp add: same_base_def)
  note S = set_status_effect [OF ss inPolicyOrder_base_inv [OF po base] fr]
  have rs: "reservations (ledger db') = upd_row r_id (r_id r) (\<lambda>_. r\<lparr>r_status := status\<rparr>) (reservations (ledger db))"
    using S(1) sb by (simp add: same_base_def)
  have rows: "set (reservations (ledger db')) = insert (r\<lparr>r_status := status\<rparr>) (set (reservations (ledger db)) - {r})"
    unfolding rs using sb by (intro reservation_rows_upd [OF L(6)]) (use fr in \<open>simp_all add: same_base_def\<close>)
  have h': "held (ledger db') k = (if fst k = r_id r then 0 else held (ledger db) k)" for k
    using S(1) h1 by simp
  have bound0: "0 \<le> amount_of x" if "x \<in> set (reservations (ledger db))" for x
    using amount_pos [OF L(2) that] by simp
  have "closed_holds (ledger db')" "holds_bounded (ledger db')"
    using closed bnd h' bound0 [OF lockReservation_facts(1) [OF lk]] bound0
    unfolding closed_holds_def holds_bounded_def rows amount_of_def
    by auto
  then have inv: "spend_inv db'"
    using S(1,2) E(5) assms(2) by (simp add: spend_inv_def)
  show thesis
    by (rule that [OF lk st ex ok h' _ rs _ _ inv]) (use S(1) E sb in \<open>simp_all add: same_base_def\<close>)
qed

section \<open>Taking capacity\<close>

lemma applicable_cong:
  "policies l' = policies l \<Longrightarrow> applicablePolicies env now r l' = applicablePolicies env now r l"
  by (simp add: applicablePolicies_def)

lemma known_cong: "policies l' = policies l \<Longrightarrow> known_policy env now l' p = known_policy env now l p"
  by (simp add: known_policy_def)

lemma reserved_items_at:
  assumes "distinct (map pr_id ps)"
  shows "reserved_at (reserve_items r a ps) k = (if \<exists>p \<in> set ps. key_at r p = k then a else 0)"
proof -
  have "reserved_at (reserve_items r a ps) k = (\<Sum>p\<leftarrow>ps. if key_at r p = k then a else 0)"
    by (simp add: reserved_at_def reserve_items_def comp_def cong: if_cong)
  also have "\<dots> = (if \<exists>p \<in> set ps. key_at r p = k then a else 0)"
    using assms by (induction ps) (auto simp: key_at_def image_iff)
  finally show ?thesis .
qed

lemma post_reserve_limit:
  assumes "ledger_inv l" and "post_entry env now l x = Inr l'" and "distinct (map p_id (policies l))"
    and "find_row p_id (fst j) (policies l) = Some q"
    and "used l j \<le> p_limit q \<or> e_kind x = RESERVE \<and> snd (entry_target env now l x) = j"
  shows "used l' j \<le> p_limit q"
proof -
  obtain p r t e where P: "posted env now x p r t e l l'"
    using post_entry_effect [OF assms(2) ledger_inv_tables [OF assms(1)]] .
  have q: "p' = q" if "p' \<in> set (policies l)" "p_id p' = fst j" for p'
    using find_row_Some_iff [OF assms(3), of "fst j" p'] assms(4) that by simp
  show ?thesis
  proof (cases "used l j \<le> p_limit q")
    case True
    then show ?thesis using post_entry_used [OF assms(1,2), of j] q by auto
  next
    case False
    then have "e_kind x = RESERVE" "j = (e_policy x, t)"
      using assms(5) posted_target [OF P] by auto
    then show ?thesis using P assms(4) by (simp add: posted_def)
  qed
qed

lemma posts_reserve_limit:
  "for_each (post_entry env now) l es = Inr l' \<Longrightarrow> ledger_inv l \<Longrightarrow> distinct (map p_id (policies l)) \<Longrightarrow>
   find_row p_id (fst j) (policies l) = Some q \<Longrightarrow>
   used l j \<le> p_limit q \<or> (\<exists>x \<in> set es. e_kind x = RESERVE \<and> snd (entry_target env now l x) = j) \<Longrightarrow>
   used l' j \<le> p_limit q"
proof (induction es arbitrary: l)
  case (Cons x es)
  obtain d where d: "post_entry env now l x = Inr d" "for_each (post_entry env now) d es = Inr l'"
    using Cons.prems(1) by (auto simp: tx_simps)
  have pol: "policies d = policies l"
    using post_entry_base [OF Cons.prems(2) d(1)] by (simp add: same_base_def)
  show ?case
  proof (rule Cons.IH [OF d(2) post_entry_inv [OF Cons.prems(2) d(1)]])
    show "distinct (map p_id (policies d))" "find_row p_id (fst j) (policies d) = Some q"
      using Cons.prems pol by simp_all
    show "used d j \<le> p_limit q \<or> (\<exists>y \<in> set es. e_kind y = RESERVE \<and> snd (entry_target env now d y) = j)"
      using Cons.prems(5) post_reserve_limit [OF Cons.prems(2) d(1) Cons.prems(3,4)]
        post_entry_view(5) [OF Cons.prems(2) d(1)] by auto
  qed
qed simp

text \<open>What releases and reservations in budget order leave behind at each reserved budget.\<close>

lemma inPolicyOrder_reserved:
  assumes "inPolicyOrder env now key actor step releases reserves db = Inr db'"
    and base: "base_inv (ledger db)"
    and known: "known_policy env now (ledger db) (rs_policy x)" and x: "x \<in> set reserves"
  shows "current_revision (ledger db') (key_at (rs_reservation x) (rs_policy x))"
    and "\<And>q. find_row p_id (pr_id (rs_policy x)) (policies (ledger db)) = Some q \<Longrightarrow>
       used (ledger db') (pr_id (rs_policy x), pr_starts (rs_policy x)) \<le> p_limit q"
proof -
  let ?es = "ordered_entries env key actor step releases reserves"
  let ?k = "key_at (rs_reservation x) (rs_policy x)"
  obtain l' where posts: "for_each (post_entry env now) (ledger db) ?es = Inr l'"
    and db': "db' = db\<lparr>ledger := l'\<rparr>"
    using inPolicyOrder_posts [OF assms(1)] .
  have mem: "reserveEntry env key actor step x \<in> set ?es" using x by (auto simp: set_ordered_entries)
  have kind: "e_kind (reserveEntry env key actor step x) = RESERVE"
    by (simp add: reserveEntry_def reserve_row_def)
  have tgt: "entry_target env now (ledger db) (reserveEntry env key actor step x) = ?k"
    using reserve_target [OF known] by (simp add: reserveEntry_def)
  show "current_revision (ledger db') ?k"
    using posts_revision [OF posts base_invD(1) [OF base], of ?k] mem kind tgt db' by auto
  have ex: "\<exists>e \<in> set ?es. e_kind e = RESERVE \<and> snd (entry_target env now (ledger db) e) = snd ?k"
    using mem kind tgt by (intro bexI [of _ "reserveEntry env key actor step x"]) simp_all
  fix q assume "find_row p_id (pr_id (rs_policy x)) (policies (ledger db)) = Some q"
  then show "used (ledger db') (pr_id (rs_policy x), pr_starts (rs_policy x)) \<le> p_limit q"
    using posts_reserve_limit [OF posts base_invD(1,3) [OF base], of "snd ?k" q] db' ex
    by (simp add: key_at_def)
qed

text \<open>A fresh reservation holds nothing, so each budget holds exactly what the command takes.\<close>

lemma reserveNew_effect:
  assumes "reserveNew env now c db = Inr (ok, db')" and "spend_inv db" and "0 < sub_amount c"
  obtains r ps where "r = reservation_of env now c None"
    and "r_id r \<notin> r_id ` set (reservations (ledger db))"
    and "applicablePolicies env now r (ledger db) = Inr ps"
    and "ok = \<lparr>a_reservation = r_id r, a_status = ACTIVE, a_hold_revision = 1, a_revalidate = None\<rparr>"
    and "reservations (ledger db') = reservations (ledger db) @ [r]"
    and "policies (ledger db') = policies (ledger db)" and "commands db' = commands db"
    and "\<And>k. held (ledger db') k = held (ledger db) k + (if \<exists>p \<in> set ps. key_at (r_id r) p = k then sub_amount c else 0)"
    and "\<And>p. p \<in> set ps \<Longrightarrow> current_revision (ledger db') (key_at (r_id r) p)"
    and "\<And>p q. p \<in> set ps \<Longrightarrow> find_row p_id (pr_id p) (policies (ledger db)) = Some q \<Longrightarrow>
       used (ledger db') (pr_id p, pr_starts p) \<le> p_limit q"
    and "spend_inv db'"
    and "\<And>B. within_limits B (ledger db) \<Longrightarrow> within_limits B (ledger db')"
proof -
  obtain r db1 ps where ins: "insertReservation env now c None db = Inr (r, db1)"
    and ap: "applicablePolicies env now r (ledger db1) = Inr ps"
    and po: "inPolicyOrder env now (sub_key c) (sub_actor c) ''submit'' []
       (reserve_items (r_id r) (sub_amount c) ps) db1 = Inr db'"
    and ok: "ok = \<lparr>a_reservation = r_id r, a_status = ACTIVE, a_hold_revision = 1, a_revalidate = None\<rparr>"
    using assms(1) unfolding reserveNew_def by (auto simp: tx_simps)
  have base: "base_inv (ledger db)" and closed: "closed_holds (ledger db)" and bnd: "holds_bounded (ledger db)"
    using assms(2) by (simp_all add: spend_inv_def)
  note I = insertReservation_effect [OF ins base]
  have pol1: "policies (ledger db1) = policies (ledger db)" using I(2) by simp
  note A = applicable_policies_facts [OF ap base_invD(3) [OF I(3)]]
  have known: "known_policy env now (ledger db1) (rs_policy x)"
    if "x \<in> set (reserve_items (r_id r) (sub_amount c) ps)" for x
    using that A(4) by (auto simp: reserve_items_def)
  note E = inPolicyOrder_effect [OF po base_invD(1) [OF I(3)] known]
  have sb: "same_base (ledger db1) (ledger db')" using E(4) by simp
  have rs: "reservations (ledger db') = reservations (ledger db) @ [r]"
    using sb I(2) by (simp add: same_base_def)
  have h': "held (ledger db') k = held (ledger db) k + (if \<exists>p \<in> set ps. key_at (r_id r) p = k then sub_amount c else 0)" for k
    using E(1) [of k] I(2) reserved_items_at [OF A(2)] by simp
  have own: "held (ledger db) (r_id r, p, t) = 0" for p t
    using held_unowned [OF base_invD(4) [OF base] I(4)] .
  have am: "amount_of r = sub_amount c" "r_status r = ACTIVE"
    using I(1) by (simp_all add: reservation_of_def amount_of_def)
  have other: "held (ledger db') (r_id x, p, t) = held (ledger db) (r_id x, p, t)"
    if "x \<in> set (reservations (ledger db))" for x p t
    using h' that I(4) by (auto simp: key_at_def)
  have "closed_holds (ledger db')" "holds_bounded (ledger db')"
    using closed bnd other own h' am assms(3) unfolding closed_holds_def holds_bounded_def rs by auto
  then have inv: "spend_inv db'"
    using E(5) I(2) assms(2) inPolicyOrder_base_inv [OF po I(3)] by (simp add: spend_inv_def)
  have re: "\<lparr>rs_reservation = r_id r, rs_policy = p, rs_amount = sub_amount c\<rparr> \<in>
      set (reserve_items (r_id r) (sub_amount c) ps)" if "p \<in> set ps" for p
    using that by (simp add: reserve_items_def)
  have cur: "current_revision (ledger db') (key_at (r_id r) p)" if "p \<in> set ps" for p
    using inPolicyOrder_reserved(1) [OF po I(3) known [OF re [OF that]] re [OF that]] by simp
  have lim: "used (ledger db') (pr_id p, pr_starts p) \<le> p_limit q"
    if "p \<in> set ps" "find_row p_id (pr_id p) (policies (ledger db)) = Some q" for p q
    using inPolicyOrder_reserved(2) [OF po I(3) known [OF re [OF that(1)]] re [OF that(1)], of q] that(2) pol1 by simp
  have ap0: "applicablePolicies env now r (ledger db) = Inr ps" using ap unfolding applicable_cong [OF pol1] .
  have pol: "policies (ledger db') = policies (ledger db)" using sb pol1 by (simp add: same_base_def)
  have cm: "commands db' = commands db" using E(5) I(2) by simp
  have wl: "within_limits B (ledger db')" if "within_limits B (ledger db)" for B
    using E(6) [of B] I(2) that by simp
  show thesis
    by (rule that [OF I(1,4) ap0 ok rs pol cm h' cur lim inv wl])
qed

end
