(* ===== verification/Spend_Moves.thy ===== *)
theory Spend_Moves
  imports Spend_Effects
begin

text \<open>
  The commands that move an existing hold: resubmission, commitment and rollover. A commitment
  needs every applicable budget to hold the full amount; a rollover makes that so again.
\<close>

section \<open>Resubmission\<close>

lemma resubmit_effect:
  assumes "resubmit_body env now c prior db = Inr (ok, db')" and "spend_inv db" and "0 < sub_amount c"
  obtains old r ps where "lockReservation (sub_organisation c) prior (ledger db) = Inr old"
    and "r_status old = ACTIVE" and "r_submitter old = sub_actor c" and "r_purchase old = Some (sub_purchase c)"
    and "r_version old < int_of_number (sub_version c)"
    and "r = reservation_of env now c (Some (r_id old))"
    and "r_id r \<notin> r_id ` set (reservations (ledger db))"
    and "applicablePolicies env now r (ledger db) = Inr ps"
    and "ok = \<lparr>a_reservation = r_id r, a_status = ACTIVE, a_hold_revision = 1, a_revalidate = None\<rparr>"
    and "reservations (ledger db') =
       upd_row r_id (r_id old) (\<lambda>_. old\<lparr>r_status := RELEASED\<rparr>) (reservations (ledger db)) @ [r]"
    and "policies (ledger db') = policies (ledger db)" and "commands db' = commands db"
    and "\<And>k. held (ledger db') k =
       (if fst k = r_id old then 0
        else held (ledger db) k + (if \<exists>p \<in> set ps. key_at (r_id r) p = k then sub_amount c else 0))"
    and "spend_inv db'"
    and "\<And>B. within_limits B (ledger db) \<Longrightarrow> within_limits B (ledger db')"
proof -
  obtain old db1 r db2 ps reason where lk: "lockReservation (sub_organisation c) prior (ledger db) = Inr old"
    and st: "r_status old = ACTIVE" and su: "r_submitter old = sub_actor c"
    and pu: "r_purchase old = Some (sub_purchase c)" and ve: "r_version old < int_of_number (sub_version c)"
    and ss: "set_status (r_id old) RELEASED db = Inr db1"
    and ins: "insertReservation env now c (Some (r_id old)) db1 = Inr (r, db2)"
    and ap: "applicablePolicies env now r (ledger db2) = Inr ps"
    and po: "inPolicyOrder env now (sub_key c) (sub_actor c) ''resubmit''
       (release_items (r_id old) reason (holds_of (r_id old) (ledger db)))
       (reserve_items (r_id r) (sub_amount c) ps) db2 = Inr db'"
    and ok: "ok = \<lparr>a_reservation = r_id r, a_status = ACTIVE, a_hold_revision = 1, a_revalidate = None\<rparr>"
    using assms(1) unfolding resubmit_body_def by (auto simp: tx_simps Let_def)
  have base: "base_inv (ledger db)" and closed: "closed_holds (ledger db)" and bnd: "holds_bounded (ledger db)"
    using assms(2) by (simp_all add: spend_inv_def)
  note L = base_invD [OF base]
  have oldin: "old \<in> set (reservations (ledger db))" using lockReservation_facts(1) [OF lk] .
  have fr: "find_row r_id (r_id old) (reservations (ledger db)) = Some old"
    using reservations_ok_find [OF L(2) oldin] .
  note S = set_status_effect [OF ss base fr]
  note I = insertReservation_effect [OF ins S(2)]
  let ?rows = "upd_row r_id (r_id old) (\<lambda>_. old\<lparr>r_status := RELEASED\<rparr>) (reservations (ledger db))"
  have rows: "set ?rows = insert (old\<lparr>r_status := RELEASED\<rparr>) (set (reservations (ledger db)) - {old})"
    by (rule reservation_rows_upd [OF L(6) fr]) simp
  have ids: "r_id ` set ?rows = r_id ` set (reservations (ledger db))"
    unfolding rows using oldin by (auto simp: image_iff)
  have fresh: "r_id r \<notin> r_id ` set (reservations (ledger db))"
    using I(4) S(1) ids by simp
  have pol1: "policies (ledger db2) = policies (ledger db)" using I(2) S(1) by simp
  note A = applicable_policies_facts [OF ap base_invD(3) [OF I(3)]]
  have known: "known_policy env now (ledger db2) (rs_policy x)"
    if "x \<in> set (reserve_items (r_id r) (sub_amount c) ps)" for x
    using that A(4) by (auto simp: reserve_items_def)
  note E = inPolicyOrder_effect [OF po base_invD(1) [OF I(3)] known]
  have sb: "same_base (ledger db2) (ledger db')" using E(4) by simp
  have rs: "reservations (ledger db') = ?rows @ [r]"
    using sb I(2) S(1) by (simp add: same_base_def)
  have own: "held (ledger db) (r_id r, p, t) = 0" for p t
    using held_unowned [OF L(4) fresh] .
  have ne: "r_id r \<noteq> r_id old" using fresh oldin by auto
  have h': "held (ledger db') k =
       (if fst k = r_id old then 0
        else held (ledger db) k + (if \<exists>p \<in> set ps. key_at (r_id r) p = k then sub_amount c else 0))" for k
    using E(1) [of k] I(2) S(1) reserved_items_at [OF A(2)] released_all [OF L(5)] ne
    by (auto simp: key_at_def)
  have am: "amount_of r = sub_amount c" "r_status r = ACTIVE"
    using I(1) by (simp_all add: reservation_of_def amount_of_def)
  have other: "held (ledger db') (r_id x, p, t) = (if r_id x = r_id old then 0 else held (ledger db) (r_id x, p, t))"
    if "x \<in> set (reservations (ledger db))" for x p t
    using h' that fresh by (auto simp: key_at_def)
  have pos: "0 \<le> amount_of x" if "x \<in> set (reservations (ledger db))" for x
    using amount_pos [OF L(2) that] by simp
  have amo: "amount_of (old\<lparr>r_status := RELEASED\<rparr>) = amount_of old" by (simp add: amount_of_def)
  have "closed_holds (ledger db')"
    using closed other own h' am unfolding closed_holds_def rs by (auto simp: rows)
  moreover have "holds_bounded (ledger db')"
    using bnd other own h' am assms(3) pos oldin amo ne unfolding holds_bounded_def rs by (auto simp: rows)
  ultimately have inv: "spend_inv db'"
    using E(5) I(2) S(1) assms(2) inPolicyOrder_base_inv [OF po I(3)] by (simp add: spend_inv_def)
  have ap0: "applicablePolicies env now r (ledger db) = Inr ps" using ap unfolding applicable_cong [OF pol1] .
  have pol: "policies (ledger db') = policies (ledger db)" using sb pol1 by (simp add: same_base_def)
  have cm: "commands db' = commands db" using E(5) I(2) S(1) by simp
  have wl: "within_limits B (ledger db')" if "within_limits B (ledger db)" for B
    using E(6) [of B] I(2) S(1) that by simp
  show thesis
    by (rule that [OF lk st su pu ve I(1) fresh ap0 ok rs pol cm h' inv wl])
qed

section \<open>Commitment\<close>

text \<open>What a hold list that is not stale says of the rows.\<close>

lemma holds_of_iff: "h \<in> set (holds_of r l) \<longleftrightarrow> h \<in> set (holds l) \<and> h_reservation h = r"
  by (auto simp: holds_of_def)

lemma held_row:
  assumes "tables_ok l" and "h \<in> set (holds l)"
  shows "held l (h_key h) = h_reserved h" and "find_row h_key (h_key h) (holds l) = Some h"
  using assms find_row_Some_iff [of h_key "holds l" "h_key h" h] by (auto simp: tables_ok_def held_def)

lemma currentHold_Some:
  assumes "currentHold (holds_of r l) p = Some h"
  shows "h \<in> set (holds l)" and "h_key h = key_at r p" and "is_current p h"
  using assms by (auto simp: currentHold_def find_Some_iff holds_of_iff is_current_def h_key_def key_at_def
      dest!: nth_mem)

lemma not_stale_held:
  assumes "\<not> holds_stale ps (holds_of r l) a" and "tables_ok l"
  shows "p \<in> set ps \<Longrightarrow> held l (key_at r p) = a"
    and "(\<And>p. p \<in> set ps \<Longrightarrow> key_at r p \<noteq> (r, i, t)) \<Longrightarrow> held l (r, i, t) = 0"
proof -
  show "held l (key_at r p) = a" if "p \<in> set ps"
  proof -
    obtain h where h: "currentHold (holds_of r l) p = Some h" "h_reserved h = a"
    proof -
      have "\<not> (case currentHold (holds_of r l) p of None \<Rightarrow> True | Some h \<Rightarrow> h_reserved h \<noteq> a)"
        using assms(1) \<open>p \<in> set ps\<close> unfolding holds_stale_def by blast
      with that show thesis by (cases "currentHold (holds_of r l) p") auto
    qed
    show ?thesis using held_row(1) [OF assms(2) currentHold_Some(1) [OF h(1)]] currentHold_Some(2) [OF h(1)] h(2) by simp
  qed
  show "held l (r, i, t) = 0" if no: "\<And>p. p \<in> set ps \<Longrightarrow> key_at r p \<noteq> (r, i, t)"
  proof (cases "find_row h_key (r, i, t) (holds l)")
    case (Some h)
    then have h: "h \<in> set (holds l)" "h_key h = (r, i, t)" using find_row_SomeD by fastforce+
    have "hold_checks h = Inr ()" using assms(2) h(1) by (simp add: tables_ok_def)
    then have "0 \<le> h_reserved h" by (simp add: hold_checks_def)
    moreover have "\<not> 0 < h_reserved h"
    proof
      assume "0 < h_reserved h"
      then obtain p where p: "p \<in> set ps" "currentHold [h] p \<noteq> None"
        using assms(1) h by (auto simp: holds_stale_def holds_of_iff h_key_def)
      then have "is_current p h" by (auto simp: currentHold_def split: if_splits)
      then show False using no [OF p(1)] h(2) by (auto simp: is_current_def key_at_def h_key_def)
    qed
    ultimately show ?thesis using Some by (simp add: held_def)
  qed (simp add: held_def)
qed

lemma sum_commit_entries:
  assumes "\<And>p. p \<in> set ps \<Longrightarrow> known_policy env now l p"
  shows "(\<Sum>e\<leftarrow>commit_entries env c r ps. if entry_target env now l e = k then reserved_delta e else 0) =
      (\<Sum>p\<leftarrow>ps. if key_at (r_id r) p = k then - amount_of r else 0)"
    and "(\<Sum>e\<leftarrow>commit_entries env c r ps. if entry_target env now l e = k then committed_delta e else 0) =
      (\<Sum>p\<leftarrow>ps. if key_at (r_id r) p = k then amount_of r else 0)"
  unfolding commit_entries_def map_map comp_def
  by (intro arg_cong [where f = sum_list] map_cong; simp add: commit_target assms)+

lemma sum_one_key:
  assumes "distinct (map pr_id ps)"
  shows "(\<Sum>p\<leftarrow>ps. if key_at r p = k then a else 0) = (if \<exists>p \<in> set ps. key_at r p = k then a else 0 :: int)"
  using assms by (induction ps) (auto simp: key_at_def image_iff)

lemma commit_posts:
  assumes "for_each (post_entry env now) l (commit_entries env c r ps) = Inr l'" and "ledger_inv l"
    and known: "\<And>p. p \<in> set ps \<Longrightarrow> known_policy env now l p" and "distinct (map pr_id ps)"
  shows "held l' k = held l k - (if \<exists>p \<in> set ps. key_at (r_id r) p = k then amount_of r else 0)"
    and "held_committed l' k = held_committed l k + (if \<exists>p \<in> set ps. key_at (r_id r) p = k then amount_of r else 0)"
    and "used l' j = used l j"
proof -
  have sums: "(\<Sum>e\<leftarrow>commit_entries env c r ps. if entry_target env now l e = k then reserved_delta e else 0) =
      - (if \<exists>p \<in> set ps. key_at (r_id r) p = k then amount_of r else 0)"
    "(\<Sum>e\<leftarrow>commit_entries env c r ps. if entry_target env now l e = k then committed_delta e else 0) =
      (if \<exists>p \<in> set ps. key_at (r_id r) p = k then amount_of r else 0)"
    by (simp_all only: sum_commit_entries [OF known] sum_one_key [OF assms(4)] if_distrib [of uminus] minus_zero)
  show "held l' k = held l k - (if \<exists>p \<in> set ps. key_at (r_id r) p = k then amount_of r else 0)"
    using hold_ledger.posts_view [OF assms(1,2), of k] sums(1) by simp
  show "held_committed l' k = held_committed l k + (if \<exists>p \<in> set ps. key_at (r_id r) p = k then amount_of r else 0)"
    using hold_commitments.posts_view [OF assms(1,2), of k] sums(2) by simp
  have "(\<Sum>e\<leftarrow>commit_entries env c r ps. if snd (entry_target env now l e) = j then reserved_delta e else 0) +
        (\<Sum>e\<leftarrow>commit_entries env c r ps. if snd (entry_target env now l e) = j then committed_delta e else 0) = 0"
    unfolding commit_entries_def by (induction ps) auto
  then show "used l' j = used l j"
    using period_ledger.posts_view [OF assms(1,2), of j] period_commitments.posts_view [OF assms(1,2), of j]
    by (simp add: used_def)
qed

lemma commit_effect:
  assumes "commit_body env now c mutation db = Inr (ok, db')" and "spend_inv db"
  obtains r ps db2 where "lockReservation (cmd_organisation c) (cmd_reservation c) (ledger db) = Inr r"
    and "r_status r = ACTIVE" and "\<not> expired now r"
    and "r_digest r = com_digest c" and "com_version c = JInt (r_version r)"
    and "amount_of r = com_amount c" and "com_hold_revision c = JInt (r_hold_revision r)"
    and "applicablePolicies env now r (ledger db) = Inr ps"
    and "\<not> holds_stale ps (holds_of (r_id r) (ledger db)) (amount_of r)"
    and "ok = \<lparr>a_reservation = r_id r, a_status = COMMITTED, a_hold_revision = r_hold_revision r, a_revalidate = None\<rparr>"
    and "\<And>k. held (ledger db2) k = (if fst k = r_id r then 0 else held (ledger db) k)"
    and "\<And>k. held_committed (ledger db2) k = held_committed (ledger db) k +
           (if \<exists>p \<in> set ps. key_at (r_id r) p = k then amount_of r else 0)"
    and "\<And>j. used (ledger db2) j = used (ledger db) j"
    and "reservations (ledger db2) = upd_row r_id (r_id r) (\<lambda>_. r\<lparr>r_status := COMMITTED\<rparr>) (reservations (ledger db))"
    and "policies (ledger db2) = policies (ledger db)" and "commands db2 = commands db"
    and "spend_inv db2"
    and "(case mutation of None \<Rightarrow> Inr db2 | Some m \<Rightarrow> db_step (m db2)) = Inr db'"
proof -
  obtain r ps db1 db2 where lk: "lockReservation (cmd_organisation c) (cmd_reservation c) (ledger db) = Inr r"
    and st: "r_status r = ACTIVE" and ex: "\<not> expired now r"
    and dg: "r_digest r = com_digest c" and vs: "com_version c = JInt (r_version r)"
    and am: "amount_of r = com_amount c" and hr: "com_hold_revision c = JInt (r_hold_revision r)"
    and ap: "applicablePolicies env now r (ledger db) = Inr ps"
    and ns: "\<not> holds_stale ps (holds_of (r_id r) (ledger db)) (amount_of r)"
    and po: "on_ledger (post_all env now (commit_entries env c r ps)) db = Inr db1"
    and ss: "set_status (r_id r) COMMITTED db1 = Inr db2"
    and mu: "(case mutation of None \<Rightarrow> Inr db2 | Some m \<Rightarrow> db_step (m db2)) = Inr db'"
    and ok: "ok = \<lparr>a_reservation = r_id r, a_status = COMMITTED, a_hold_revision = r_hold_revision r, a_revalidate = None\<rparr>"
    using assms(1) unfolding commit_body_def number_is_def by (auto simp: tx_simps)
  have base: "base_inv (ledger db)" and closed: "closed_holds (ledger db)" and bnd: "holds_bounded (ledger db)"
    using assms(2) by (simp_all add: spend_inv_def)
  note L = base_invD [OF base]
  note A = applicable_policies_facts [OF ap L(3)]
  obtain l1 where posts: "for_each (post_entry env now) (ledger db) (commit_entries env c r ps) = Inr l1"
    and db1: "db1 = db\<lparr>ledger := l1\<rparr>"
    using po unfolding on_ledger_def post_all_def db_step_def by (auto simp: tx_simps split: sum.splits)
  note C = commit_posts [OF posts L(1) A(4) A(2)]
  note H = not_stale_held [OF ns L(5)]
  have h1: "held l1 k = (if fst k = r_id r then 0 else held (ledger db) k)" for k
  proof (cases "fst k = r_id r")
    case True
    then obtain i t where k: "k = (r_id r, i, t)" by (cases k) auto
    show ?thesis
    proof (cases "\<exists>p \<in> set ps. key_at (r_id r) p = k")
      case True
      then have "held (ledger db) k = amount_of r" using H(1) by metis
      with True show ?thesis using C(1) [of k] k by simp
    next
      case False
      then show ?thesis using C(1) [of k] H(2) [of i t] k by auto
    qed
  next
    case False
    then show ?thesis using C(1) [of k] by (auto simp: key_at_def)
  qed
  have sb: "same_base (ledger db) l1" using posts_base [OF posts L(1)] .
  have fr: "find_row r_id (r_id r) (reservations (ledger db1)) = Some r"
    using reservations_ok_find [OF L(2) lockReservation_facts(1) [OF lk]] sb db1 by (simp add: same_base_def)
  have base1: "base_inv (ledger db1)" using posts_base_inv [OF posts base] db1 by simp
  note S = set_status_effect [OF ss base1 fr]
  have rs: "reservations (ledger db2) = upd_row r_id (r_id r) (\<lambda>_. r\<lparr>r_status := COMMITTED\<rparr>) (reservations (ledger db))"
    using S(1) sb db1 by (simp add: same_base_def)
  have rows: "set (reservations (ledger db2)) = insert (r\<lparr>r_status := COMMITTED\<rparr>) (set (reservations (ledger db)) - {r})"
    unfolding rs using reservations_ok_find [OF L(2) lockReservation_facts(1) [OF lk]]
    by (intro reservation_rows_upd [OF L(6)]) simp_all
  have h2: "held (ledger db2) k = (if fst k = r_id r then 0 else held (ledger db) k)" for k
    using S(1) h1 db1 by simp
  have pos: "0 \<le> amount_of x" if "x \<in> set (reservations (ledger db))" for x
    using amount_pos [OF L(2) that] by simp
  have "closed_holds (ledger db2)" "holds_bounded (ledger db2)"
    using closed bnd h2 pos pos [OF lockReservation_facts(1) [OF lk]]
    unfolding closed_holds_def holds_bounded_def rows amount_of_def by auto
  then have inv: "spend_inv db2" using S(1,2) db1 assms(2) by (simp add: spend_inv_def)
  have c2: "held_committed (ledger db2) k = held_committed (ledger db) k +
       (if \<exists>p \<in> set ps. key_at (r_id r) p = k then amount_of r else 0)" for k
    using S(1) db1 C(2) by simp
  have u2: "used (ledger db2) j = used (ledger db) j" for j using S(1) db1 C(3) by simp
  have pol: "policies (ledger db2) = policies (ledger db)" using S(1) sb db1 by (simp add: same_base_def)
  have cm: "commands db2 = commands db" using S(1) db1 by simp
  show thesis
    by (rule that [OF lk st ex dg vs am hr ap ns ok h2 c2 u2 rs pol cm inv mu])
qed

section \<open>Rollover\<close>

lemma currentHold_iff:
  assumes "tables_ok l"
  shows "currentHold (holds_of r l) p = Some h \<longleftrightarrow>
     find_row h_key (key_at r p) (holds l) = Some h \<and> h_policy_revision h = pr_revision p"
    (is "?L \<longleftrightarrow> ?R")
proof
  assume ?L
  note C = currentHold_Some [OF \<open>?L\<close>]
  show ?R using held_row(2) [OF assms C(1)] C(2,3) by (simp add: is_current_def)
next
  assume R: ?R
  then have h: "h \<in> set (holds_of r l)" "is_current p h"
    using find_row_SomeD [of h_key "key_at r p" "holds l" h]
    by (auto simp: holds_of_iff is_current_def key_at_def h_key_def)
  then obtain h' where h': "currentHold (holds_of r l) p = Some h'"
    using find_None_iff [of "is_current p" "holds_of r l"] by (auto simp: currentHold_def)
  have "find_row h_key (key_at r p) (holds l) = Some h'"
    using held_row(2) [OF assms currentHold_Some(1) [OF h']] currentHold_Some(2) [OF h'] by simp
  with R h' show ?L by simp
qed

definition cur :: "policy_row list \<Rightarrow> hold \<Rightarrow> bool" where
  "cur ps h \<longleftrightarrow> (\<exists>p \<in> set ps. is_current p h)"

lemma find_policy_row:
  assumes "distinct (map pr_id ps)"
  shows "List.find (\<lambda>p. pr_id p = i) ps = Some p \<longleftrightarrow> p \<in> set ps \<and> pr_id p = i"
  using find_row_Some_iff [OF assms, of i p] by (simp add: find_row_def)

lemma rollover_release_eq:
  assumes "distinct (map pr_id ps)"
  shows "\<exists>reason. rollover_release r ps h =
     (if h_reserved h = 0 \<or> cur ps h then []
      else [\<lparr>rl_reservation = r, rl_hold = h, rl_reason = reason\<rparr>])"
proof (cases "List.find (\<lambda>p. pr_id p = h_policy h) ps")
  case None
  then have "\<not> cur ps h" by (auto simp: find_None_iff cur_def is_current_def)
  with None show ?thesis by (simp add: rollover_release_def)
next
  case (Some p)
  then have p: "p \<in> set ps" "pr_id p = h_policy h"
    using find_policy_row [OF assms] by blast+
  have "q = p" if "q \<in> set ps" "is_current q h" for q
    using find_policy_row [OF assms, of "h_policy h" q] that Some by (simp add: is_current_def)
  then have "cur ps h = is_current p h"
    using p unfolding cur_def by blast
  with Some show ?thesis by (simp add: rollover_release_def currentHold_def)
qed

lemma released_rollover:
  assumes "distinct (map pr_id ps)" and "tables_ok l"
  shows "released_at (concat (map (rollover_release r ps) (holds_of r l))) k =
     (if fst k = r then (case find_row h_key k (holds l) of None \<Rightarrow> 0
                         | Some h \<Rightarrow> if cur ps h then 0 else h_reserved h) else 0)"
proof -
  have one: "released_at (rollover_release r ps h) k =
      (if h_key h = k then (if cur ps h then 0 else h_reserved h) else 0)" if "h_reservation h = r" for h
    using rollover_release_eq [OF assms(1), of r h] that
    by (auto simp: released_at_def release_key_def h_key_def)
  have eq: "released_at (concat (map (rollover_release r ps) hs)) k =
      (\<Sum>h\<leftarrow>hs. if h_key h = k then (if cur ps h then 0 else h_reserved h) else 0)"
    if "\<And>h. h \<in> set hs \<Longrightarrow> h_reservation h = r" for hs
    using that one by (induction hs) (simp_all add: released_at_def)
  have own: "h_reservation h = r" if "h \<in> set (holds_of r l)" for h
    using that by (simp add: holds_of_iff)
  show ?thesis by (rule trans [OF eq [OF own] sum_holds_of [OF assms(2)]])
qed

lemma reserved_rollover:
  assumes "distinct (map pr_id ps)"
  shows "p \<in> set ps \<Longrightarrow> reserved_at (concat (map (rollover_reserve r a hs) ps)) (key_at r p) =
       max 0 (a - (case currentHold hs p of None \<Rightarrow> 0 | Some h \<Rightarrow> h_reserved h))"
    and "(\<And>p. p \<in> set ps \<Longrightarrow> key_at r p \<noteq> k) \<Longrightarrow>
       reserved_at (concat (map (rollover_reserve r a hs) ps)) k = 0"
proof -
  let ?m = "\<lambda>p. max 0 (a - (case currentHold hs p of None \<Rightarrow> 0 | Some h \<Rightarrow> h_reserved h))"
  have eq: "reserved_at (concat (map (rollover_reserve r a hs) qs)) k = (\<Sum>p\<leftarrow>qs. if key_at r p = k then ?m p else 0)"
    for qs k by (induction qs) (auto simp: reserved_at_def rollover_reserve_def Let_def)
  show "(\<And>p. p \<in> set ps \<Longrightarrow> key_at r p \<noteq> k) \<Longrightarrow>
       reserved_at (concat (map (rollover_reserve r a hs) ps)) k = 0"
    unfolding eq by (induction ps) auto
  show "p \<in> set ps \<Longrightarrow> reserved_at (concat (map (rollover_reserve r a hs) ps)) (key_at r p) = ?m p"
    unfolding eq using assms
  proof (induction ps)
    case (Cons q ps)
    have "(\<Sum>p'\<leftarrow>ps. if key_at r p' = key_at r p then ?m p' else 0) = 0" if "q = p"
      using Cons.prems(2) that by (induction ps) (auto simp: key_at_def)
    with Cons show ?case by (auto simp: key_at_def image_iff)
  qed simp
qed

text \<open>The holds after the releases and reservations of a rollover.\<close>

lemma rollover_holds:
  fixes r :: reservation and l :: ledger_db
  defines "rid \<equiv> r_id r"
  assumes ps: "distinct (map pr_id ps)" and t: "tables_ok l" and bnd: "\<And>i t. held l (rid, i, t) \<le> a"
    and h': "\<And>k. h' k = held l k - released_at (concat (map (rollover_release rid ps) (holds_of rid l))) k +
        reserved_at (concat (map (rollover_reserve rid a (holds_of rid l)) ps)) k"
  shows "p \<in> set ps \<Longrightarrow> h' (key_at rid p) = a"
    and "(\<And>p. p \<in> set ps \<Longrightarrow> key_at rid p \<noteq> (rid, i, u)) \<Longrightarrow> h' (rid, i, u) = 0"
    and "fst k \<noteq> rid \<Longrightarrow> h' k = held l k"
proof -
  note rel = released_rollover [OF ps t, of rid]
  show "h' (key_at rid p) = a" if p: "p \<in> set ps"
  proof -
    let ?k = "key_at rid p" and ?hs = "holds_of rid l"
    have fk: "fst ?k = rid" by (simp add: key_at_def)
    have only: "cur ps h = is_current p h" if "h_key h = ?k" for h
    proof -
      have "q = p" if q: "q \<in> set ps" "is_current q h" for q
      proof -
        have "pr_id q = pr_id p"
          using q(2) \<open>h_key h = ?k\<close> by (simp add: is_current_def h_key_def key_at_def)
        then show ?thesis
          using find_policy_row [OF ps, of "pr_id p"] p q(1) by (metis option.inject)
      qed
      then show ?thesis using p unfolding cur_def by blast
    qed
    show ?thesis
    proof (cases "find_row h_key ?k (holds l)")
      case None
      then have "currentHold ?hs p = None" using currentHold_iff [OF t, of rid p] by (cases "currentHold ?hs p") auto
      moreover have "0 \<le> a" using bnd [of "pr_id p" "pr_starts p"] None by (simp add: held_def key_at_def)
      ultimately show ?thesis
        using h' [of ?k] rel [of ?k] None reserved_rollover(1) [OF ps p, of rid a ?hs] fk by (simp add: held_def)
    next
      case (Some h)
      have hk: "h_key h = ?k" using find_row_key [OF Some] .
      have hb: "h_reserved h \<le> a" using bnd [of "pr_id p" "pr_starts p"] Some by (simp add: held_def key_at_def)
      have "hold_checks h = Inr ()" using t find_row_SomeD [OF Some] by (simp add: tables_ok_def)
      then have "0 \<le> h_reserved h" by (simp add: hold_checks_def)
      moreover have "currentHold ?hs p = (if is_current p h then Some h else None)"
      proof (cases "is_current p h")
        case True
        then show ?thesis using currentHold_iff [OF t, of rid p h] Some by (simp add: is_current_def)
      next
        case False
        have "currentHold ?hs p \<noteq> Some x" for x
          using currentHold_iff [OF t, of rid p x] Some False hk
          by (auto simp: is_current_def h_key_def key_at_def)
        then show ?thesis using False by (cases "currentHold ?hs p") auto
      qed
      ultimately show ?thesis
        using h' [of ?k] rel [of ?k] Some reserved_rollover(1) [OF ps p, of rid a ?hs] fk only [OF hk] hb
        by (simp add: held_def max_def)
    qed
  qed
  show "h' (rid, i, u) = 0" if no: "\<And>p. p \<in> set ps \<Longrightarrow> key_at rid p \<noteq> (rid, i, u)"
  proof -
    have "\<not> cur ps h" if h: "find_row h_key (rid, i, u) (holds l) = Some h" for h
    proof
      assume "cur ps h"
      then obtain p where p: "p \<in> set ps" "is_current p h" by (auto simp: cur_def)
      then have "key_at rid p = (rid, i, u)"
        using find_row_key [OF h] by (simp add: is_current_def h_key_def key_at_def)
      then show False using no [OF p(1)] by simp
    qed
    then show ?thesis
      using h' [of "(rid, i, u)"] rel [of "(rid, i, u)"] reserved_rollover(2) [OF ps no, of a "holds_of rid l"]
      by (auto simp: held_def split: option.splits)
  qed
  show "h' k = held l k" if "fst k \<noteq> rid"
  proof -
    have "key_at rid p \<noteq> k" for p using that by (auto simp: key_at_def)
    then show ?thesis using h' [of k] rel [of k] reserved_rollover(2) [OF ps, of rid k] that by simp
  qed
qed

lemma not_staleI:
  assumes "tables_ok l" and "distinct (map pr_id ps)"
    and "\<And>p. p \<in> set ps \<Longrightarrow> known_policy env now l p"
    and "\<And>p. p \<in> set ps \<Longrightarrow> current_revision l (key_at r p)"
    and "\<And>p. p \<in> set ps \<Longrightarrow> held l (key_at r p) = a"
    and zero: "\<And>i u. (\<And>p. p \<in> set ps \<Longrightarrow> key_at r p \<noteq> (r, i, u)) \<Longrightarrow> held l (r, i, u) = 0"
  shows "\<not> holds_stale ps (holds_of r l) a"
proof -
  have row: "\<exists>h. find_row h_key (key_at r p) (holds l) = Some h \<and> h_policy_revision h = pr_revision p"
    if p: "p \<in> set ps" for p
    using assms(3,4) [OF p]
    by (auto simp: current_revision_def known_policy_def key_at_def row_of_policy_def)
  have "\<exists>h. currentHold (holds_of r l) p = Some h \<and> h_reserved h = a" if p: "p \<in> set ps" for p
    using row [OF p] currentHold_iff [OF assms(1), of r p] assms(5) [OF p] by (auto simp: held_def)
  moreover have "\<exists>p \<in> set ps. currentHold [h] p \<noteq> None" if h: "h \<in> set (holds_of r l)" "0 < h_reserved h" for h
  proof -
    have hl: "h \<in> set (holds l)" "h_reservation h = r" using h(1) by (simp_all add: holds_of_iff)
    have k: "h_key h = (r, h_policy h, h_starts h)" using hl(2) by (simp add: h_key_def)
    have "held l (r, h_policy h, h_starts h) = h_reserved h" using held_row(1) [OF assms(1) hl(1)] k by simp
    then obtain p where p: "p \<in> set ps" "key_at r p = (r, h_policy h, h_starts h)"
      using zero [of "h_policy h" "h_starts h"] h(2) by auto
    moreover have "h_policy_revision h = pr_revision p"
      using row [OF p(1)] p(2) held_row(2) [OF assms(1) hl(1)] k by auto
    ultimately show ?thesis
      by (intro bexI [of _ p]) (auto simp: currentHold_def is_current_def key_at_def)
  qed
  ultimately show ?thesis unfolding holds_stale_def by fastforce
qed

text \<open>A rollover has nothing to move exactly when a commitment would find nothing stale.\<close>

lemma rollover_nothing_iff:
  assumes ps: "distinct (map pr_id ps)" and t: "tables_ok l" and bnd: "\<And>i u. held l (r, i, u) \<le> a" and "0 < a"
  shows "concat (map (rollover_release r ps) (holds_of r l)) = [] \<and>
         concat (map (rollover_reserve r a (holds_of r l)) ps) = [] \<longleftrightarrow>
         \<not> holds_stale ps (holds_of r l) a"
proof -
  have rel: "rollover_release r ps h = [] \<longleftrightarrow> h_reserved h = 0 \<or> cur ps h" for h
    using rollover_release_eq [OF ps, of r h] by (auto split: if_splits)
  have nonneg: "0 \<le> h_reserved h" if "h \<in> set (holds_of r l)" for h
    using t that by (auto simp: tables_ok_def hold_checks_def holds_of_iff)
  have "(\<exists>p \<in> set ps. currentHold [h] p \<noteq> None) \<longleftrightarrow> cur ps h" for h
    by (auto simp: currentHold_def cur_def)
  then have R: "concat (map (rollover_release r ps) (holds_of r l)) = [] \<longleftrightarrow>
      \<not> (\<exists>h \<in> set (holds_of r l). 0 < h_reserved h \<and> \<not> (\<exists>p \<in> set ps. currentHold [h] p \<noteq> None))"
    using rel nonneg by (fastforce simp: order_le_less)
  have "rollover_reserve r a (holds_of r l) p = [] \<longleftrightarrow>
      (case currentHold (holds_of r l) p of None \<Rightarrow> False | Some h \<Rightarrow> h_reserved h = a)" for p
  proof (cases "currentHold (holds_of r l) p")
    case None
    then show ?thesis using \<open>0 < a\<close> by (simp add: rollover_reserve_def)
  next
    case (Some h)
    have "h_reserved h \<le> a"
      using currentHold_iff [OF t] Some bnd [of "pr_id p" "pr_starts p"] by (simp add: held_def key_at_def)
    then show ?thesis using Some by (auto simp: rollover_reserve_def Let_def)
  qed
  then have "concat (map (rollover_reserve r a (holds_of r l)) ps) = [] \<longleftrightarrow>
      \<not> (\<exists>p \<in> set ps. case currentHold (holds_of r l) p of None \<Rightarrow> True | Some h \<Rightarrow> h_reserved h \<noteq> a)"
    by (auto split: option.splits)
  with R show ?thesis unfolding holds_stale_def by blast
qed

lemma rollover_order:
  assumes po: "inPolicyOrder env now key actor ''rollover''
       (concat (map (rollover_release (r_id r) ps) (holds_of (r_id r) (ledger db))))
       (concat (map (rollover_reserve (r_id r) (amount_of r) (holds_of (r_id r) (ledger db))) ps)) db = Inr db1"
    and inv: "spend_inv db" and rin: "r \<in> set (reservations (ledger db))"
    and ap: "applicablePolicies env now r (ledger db) = Inr ps"
  shows "\<not> holds_stale ps (holds_of (r_id r) (ledger db1)) (amount_of r)"
    and "\<And>k. fst k \<noteq> r_id r \<Longrightarrow> held (ledger db1) k = held (ledger db) k"
    and "\<And>i u. held (ledger db1) (r_id r, i, u) \<le> amount_of r"
    and "\<And>k. held_committed (ledger db1) k = held_committed (ledger db) k"
    and "same_base (ledger db) (ledger db1)" and "commands db1 = commands db" and "base_inv (ledger db1)"
    and "\<And>B. within_limits B (ledger db) \<Longrightarrow> within_limits B (ledger db1)"
proof -
  let ?l = "ledger db" and ?reserves = "concat (map (rollover_reserve (r_id r) (amount_of r) (holds_of (r_id r) (ledger db))) ps)"
  have base: "base_inv ?l" and bnd: "holds_bounded ?l" using inv by (simp_all add: spend_inv_def)
  note L = base_invD [OF base]
  note A = applicable_policies_facts [OF ap L(3)]
  have apos: "0 < amount_of r" using amount_pos [OF L(2) rin] .
  have items: "\<exists>p \<in> set ps. rs_policy x = p \<and> rs_reservation x = r_id r" if "x \<in> set ?reserves" for x
    using that by (auto simp: rollover_reserve_def Let_def split: if_splits)
  have known: "known_policy env now ?l (rs_policy x)" if "x \<in> set ?reserves" for x
    using items [OF that] A(4) by blast
  note E = inPolicyOrder_effect [OF po L(1) known]
  obtain l1 where posts: "for_each (post_entry env now) ?l (ordered_entries env key actor ''rollover''
      (concat (map (rollover_release (r_id r) ps) (holds_of (r_id r) ?l))) ?reserves) = Inr l1"
    and db1: "db1 = db\<lparr>ledger := l1\<rparr>"
    using inPolicyOrder_posts [OF po] .
  show base1: "base_inv (ledger db1)" using inPolicyOrder_base_inv [OF po base] .
  show "same_base ?l (ledger db1)" "commands db1 = commands db"
    "\<And>k. held_committed (ledger db1) k = held_committed (ledger db) k"
    "\<And>B. within_limits B (ledger db) \<Longrightarrow> within_limits B (ledger db1)" using E by simp_all
  then have pol1: "policies (ledger db1) = policies ?l" by (simp add: same_base_def)
  have le: "held ?l (r_id r, i, t) \<le> amount_of r" for i t
    using bnd rin by (simp add: holds_bounded_def)
  note H = rollover_holds [where h' = "held (ledger db1)", OF A(2) L(5) le E(1)]
  have known1: "known_policy env now (ledger db1) p" if "p \<in> set ps" for p
    using A(4) [OF that] unfolding known_cong [OF pol1] .
  have cur1: "current_revision (ledger db1) (key_at (r_id r) p)" if p: "p \<in> set ps" for p
  proof (cases "rollover_reserve (r_id r) (amount_of r) (holds_of (r_id r) ?l) p")
    case Nil
    then obtain h where "currentHold (holds_of (r_id r) ?l) p = Some h"
      using apos by (auto simp: rollover_reserve_def Let_def split: option.splits if_splits)
    then have "current_revision ?l (key_at (r_id r) p)"
      using currentHold_iff [OF L(5), of "r_id r" p h] A(4) [OF p]
      by (auto simp: current_revision_def known_policy_def key_at_def row_of_policy_def)
    then show ?thesis
      using posts_revision [OF posts L(1), of "key_at (r_id r) p"] db1 by simp
  next
    case (Cons x xs)
    then have x: "x \<in> set ?reserves" "rs_policy x = p" "rs_reservation x = r_id r"
      using p items by (auto simp: rollover_reserve_def Let_def split: if_splits)
    then show ?thesis using inPolicyOrder_reserved(1) [OF po base known [OF x(1)] x(1)] by simp
  qed
  show "\<not> holds_stale ps (holds_of (r_id r) (ledger db1)) (amount_of r)"
    using not_staleI [OF base_invD(5) [OF base1] A(2) known1 cur1 H(1) H(2)] .
  show "\<And>k. fst k \<noteq> r_id r \<Longrightarrow> held (ledger db1) k = held ?l k" by (rule H(3))
  show "held (ledger db1) (r_id r, i, u) \<le> amount_of r" for i u
    using H(1) H(2) [of i u] apos by (cases "\<exists>p \<in> set ps. key_at (r_id r) p = (r_id r, i, u)") fastforce+
qed

lemma advance_revision_effect:
  assumes "on_ledger (update_reservation (r_id r) (\<lambda>x. x\<lparr>r_hold_revision := r_hold_revision x + 1\<rparr>)) db = Inr db'"
    and "base_inv (ledger db)" and rin: "r \<in> set (reservations (ledger db))"
  shows "db' = db\<lparr>ledger := (ledger db)\<lparr>reservations := upd_row r_id (r_id r)
      (\<lambda>_. r\<lparr>r_hold_revision := r_hold_revision r + 1\<rparr>) (reservations (ledger db))\<rparr>\<rparr>"
    and "base_inv (ledger db')"
proof -
  let ?r = "r\<lparr>r_hold_revision := r_hold_revision r + 1\<rparr>" and ?rows = "reservations (ledger db)"
  note L = base_invD [OF assms(2)]
  have fr: "find_row r_id (r_id r) ?rows = Some r" using reservations_ok_find [OF L(2) rin] .
  obtain l' where u: "update_reservation (r_id r) (\<lambda>x. x\<lparr>r_hold_revision := r_hold_revision x + 1\<rparr>) (ledger db) = Inr l'"
    and db': "db' = db\<lparr>ledger := l'\<rparr>"
    using assms(1) unfolding on_ledger_def db_step_def by (auto simp: tx_simps split: sum.splits)
  have eq: "r\<lparr>r_hold_revision := r_hold_revision r + 1, r_id := r_id r\<rparr> = ?r" by simp
  note U = update_reservation_facts [OF u fr, unfolded eq]
  show d: "db' = db\<lparr>ledger := (ledger db)\<lparr>reservations := upd_row r_id (r_id r) (\<lambda>_. ?r) ?rows\<rparr>\<rparr>"
    using db' U(1) by simp
  have ok: "reservations_ok (upd_row r_id (r_id r) (\<lambda>_. ?r) ?rows)"
    using L(2) U(5,6) rin by (intro reservations_ok_upd) (auto simp: reservation_written_def reservations_ok_def)
  have "set (upd_row r_id (r_id r) (\<lambda>_. ?r) ?rows) = insert ?r (set ?rows - {r})"
    by (rule reservation_rows_upd [OF L(6) fr]) simp
  then have "r_id ` set (upd_row r_id (r_id r) (\<lambda>_. ?r) ?rows) = r_id ` set ?rows"
    using rin by (auto simp: image_iff)
  then show "base_inv (ledger db')" using assms(2) ok d by (simp add: base_inv_def holds_owned_def)
qed

lemma rollover_effect:
  assumes "rollover_body env now c db = Inr (ok, db')" and "spend_inv db"
  obtains r ps moved r' where "lockReservation (cmd_organisation c) (cmd_reservation c) (ledger db) = Inr r"
    and "r_status r = ACTIVE" and "\<not> expired now r"
    and "applicablePolicies env now r (ledger db) = Inr ps"
    and "ok = \<lparr>a_reservation = r_id r, a_status = ACTIVE,
          a_hold_revision = r_hold_revision r + (if moved then 1 else 0), a_revalidate = Some moved\<rparr>"
    and "moved \<longleftrightarrow> holds_stale ps (holds_of (r_id r) (ledger db)) (amount_of r)"
    and "r' = r\<lparr>r_hold_revision := r_hold_revision r + (if moved then 1 else 0)\<rparr>"
    and "set (reservations (ledger db')) = insert r' (set (reservations (ledger db)) - {r})"
    and "policies (ledger db') = policies (ledger db)" and "commands db' = commands db"
    and "\<not> holds_stale ps (holds_of (r_id r) (ledger db')) (amount_of r)"
    and "\<And>k. fst k \<noteq> r_id r \<Longrightarrow> held (ledger db') k = held (ledger db) k"
    and "\<And>k. held_committed (ledger db') k = held_committed (ledger db) k"
    and "spend_inv db'"
    and "\<And>B. within_limits B (ledger db) \<Longrightarrow> within_limits B (ledger db')"
proof -
  let ?l = "ledger db"
  obtain r ps db1 moved where lk: "lockReservation (cmd_organisation c) (cmd_reservation c) ?l = Inr r"
    and st: "r_status r = ACTIVE" and ex: "\<not> expired now r"
    and ap: "applicablePolicies env now r ?l = Inr ps"
    and mv: "moved \<longleftrightarrow> \<not> (concat (map (rollover_release (r_id r) ps) (holds_of (r_id r) ?l)) = [] \<and>
           concat (map (rollover_reserve (r_id r) (amount_of r) (holds_of (r_id r) ?l)) ps) = [])"
    and po: "inPolicyOrder env now (cmd_key c) (cmd_actor c) ''rollover''
       (concat (map (rollover_release (r_id r) ps) (holds_of (r_id r) ?l)))
       (concat (map (rollover_reserve (r_id r) (amount_of r) (holds_of (r_id r) ?l)) ps)) db = Inr db1"
    and up: "(if moved then on_ledger (update_reservation (r_id r) (\<lambda>x. x\<lparr>r_hold_revision := r_hold_revision x + 1\<rparr>)) db1
              else Inr db1) = Inr db'"
    and ok: "ok = \<lparr>a_reservation = r_id r, a_status = ACTIVE,
           a_hold_revision = r_hold_revision r + (if moved then 1 else 0), a_revalidate = Some moved\<rparr>"
    using assms(1) unfolding rollover_body_def Let_def by (simp add: tx_simps) blast
  have base: "base_inv ?l" and bnd: "holds_bounded ?l" and closed: "closed_holds ?l"
    using assms(2) by (simp_all add: spend_inv_def)
  note L = base_invD [OF base] and rin = lockReservation_facts(1) [OF lk]
  note O = rollover_order [OF po assms(2) rin ap]
  have le: "held ?l (r_id r, i, t) \<le> amount_of r" for i t using bnd rin by (simp add: holds_bounded_def)
  have stale: "moved \<longleftrightarrow> holds_stale ps (holds_of (r_id r) ?l) (amount_of r)"
    using mv rollover_nothing_iff [OF applicable_policies_facts(2) [OF ap L(3)] L(5) le amount_pos [OF L(2) rin]] by blast
  define r' where "r' = r\<lparr>r_hold_revision := r_hold_revision r + (if moved then 1 else 0)\<rparr>"
  have rs1: "reservations (ledger db1) = reservations ?l" using O(5) by (simp add: same_base_def)
  have fin: "db' = db1\<lparr>ledger := (ledger db1)\<lparr>reservations := upd_row r_id (r_id r) (\<lambda>_. r') (reservations ?l)\<rparr>\<rparr> \<and>
      base_inv (ledger db')" if moved
    using advance_revision_effect [OF _ O(7), of r db'] up rin rs1 that by (simp add: r'_def)
  have eq: "holds (ledger db') = holds (ledger db1) \<and> policies (ledger db') = policies (ledger db1) \<and>
      balances (ledger db') = balances (ledger db1) \<and> commands db' = commands db1 \<and> base_inv (ledger db')"
    using fin up O(7) by (cases moved) auto
  have rows: "set (reservations (ledger db')) = insert r' (set (reservations ?l) - {r})"
  proof (cases moved)
    case True
    then show ?thesis using fin reservation_rows_upd [OF L(6) reservations_ok_find [OF L(2) rin], of r'] by (simp add: r'_def)
  next
    case False
    then show ?thesis using up rs1 rin by (auto simp: r'_def)
  qed
  have hd: "held (ledger db') = held (ledger db1)" "held_committed (ledger db') = held_committed (ledger db1)"
    using eq by (simp_all add: fun_eq_iff held_def held_committed_def)
  have r': "r_id r' = r_id r" "amount_of r' = amount_of r" "r_status r' = ACTIVE"
    using st by (simp_all add: r'_def amount_of_def)
  have only: "r_id x \<noteq> r_id r" if "x \<in> set (reservations ?l) - {r}" for x
    using that reservations_ok_find [OF L(2), of x] reservations_ok_find [OF L(2) rin] by (metis DiffD1 DiffD2 insertI1 option.inject)
  have "closed_holds (ledger db')" "holds_bounded (ledger db')"
    using closed bnd O(2,3) only r' unfolding closed_holds_def holds_bounded_def rows hd by auto
  then have inv: "spend_inv db'" using eq assms(2) O(6) by (simp add: spend_inv_def)
  have pol: "policies (ledger db') = policies ?l" using eq O(5) by (simp add: same_base_def)
  have ns: "\<not> holds_stale ps (holds_of (r_id r) (ledger db')) (amount_of r)"
    using O(1) eq by (simp add: holds_of_def)
  have wl: "within_limits B (ledger db')" if "within_limits B ?l" for B
    using O(8) [OF that] eq by (simp add: within_limits_def used_def bal_committed_def bal_reserved_def)
  show thesis
    by (rule that [OF lk st ex ap ok stale r'_def rows pol _ ns _ _ inv wl]) (simp_all add: hd O eq)
qed

end
