(* ===== verification/Spend_Safety.thy ===== *)
theory Spend_Safety
  imports Spend_Moves
begin

text \<open>
  The spend database as a state machine: the commands, the policy writes and the changes of
  memberships are its steps, a refused step leaves the state, and the properties of
  \<open>src/src/baobab/b2b/spend-reservation-commands.ts\<close> are stated over its reachable states.
\<close>

section \<open>One command\<close>

lemma insert_command_facts:
  assumes "insert_command row db = Inr db'"
  shows "db' = db\<lparr>commands := commands db @ [row]\<rparr>" and "sc_key row \<notin> sc_key ` set (commands db)"
    and "find_row r_id (sc_reservation row) (reservations (ledger db)) \<noteq> None"
  using assms by (auto simp: insert_command_def tx_simps find_row_None_iff split: if_splits)

lemma command_tx_facts:
  assumes "command_tx env kind request key actor organisation execute db = Inr (ok, db')"
  obtains db1 row where "execute db = Inr (ok, db1)" and "db' = db1\<lparr>commands := commands db1 @ [row]\<rparr>"
    and "sc_key row = key" and "sc_kind row = kind" and "sc_organisation row = organisation"
    and "sc_digest row = request_digest env kind request" and "sc_result row = ok"
    and "key \<notin> sc_key ` set (commands db1)"
proof -
  define row0 where "row0 = (\<lambda>ok. \<lparr>sc_key = key, sc_kind = kind, sc_organisation = organisation,
        sc_digest = request_digest env kind request, sc_reservation = a_reservation ok,
        sc_result = ok, sc_actor = actor\<rparr>)"
  obtain db1 where ex: "execute db = Inr (ok, db1)" and ins: "db_step (insert_command (row0 ok) db1) = Inr db'"
    using assms unfolding command_tx_def row0_def by (auto simp: tx_simps)
  have "insert_command (row0 ok) db1 = Inr db'" using ins by (simp add: db_step_def split: sum.splits)
  note I = insert_command_facts [OF this]
  show thesis by (rule that [OF ex I(1)]) (use I in \<open>simp_all add: row0_def\<close>)
qed

lemma run_command_cases:
  assumes "run_command env link kind request key actor organisation execute db = (res, db')"
  obtains (kept) "db' = db" and "\<And>ok. res \<noteq> APPLIED ok"
  | (applied) ok where "link \<noteq> Down" and "find_row sc_key key (commands db) = None"
      and "command_tx env kind request key actor organisation execute db = Inr (ok, db')"
      and "res = (if link = CommitReplyLost then REFUSED SOURCE_UNAVAILABLE False else APPLIED ok)"
  using assms unfolding run_command_def
  by (auto split: if_splits option.splits sum.splits prod.splits elim: outcome_of_error.elims)

lemma run_command_inv:
  assumes "run_command env link kind request key actor organisation execute db = (res, db')"
    and "spend_inv db" and "\<And>ok d. execute db = Inr (ok, d) \<Longrightarrow> spend_inv d"
  shows "spend_inv db'"
  using assms(1)
proof (cases rule: run_command_cases)
  case kept
  then show ?thesis using assms(2) by simp
next
  case (applied ok)
  obtain db1 row where "execute db = Inr (ok, db1)" "db' = db1\<lparr>commands := commands db1 @ [row]\<rparr>"
    "sc_key row = key" "key \<notin> sc_key ` set (commands db1)"
    using command_tx_facts [OF applied(3)] by metis
  then show ?thesis using assms(3) by (auto simp: spend_inv_def)
qed

lemma run_command_within:
  assumes "run_command env link kind request key actor organisation execute db = (res, db')"
    and "within_limits B (ledger db)"
    and "\<And>ok d. execute db = Inr (ok, d) \<Longrightarrow> within_limits B (ledger d)"
  shows "within_limits B (ledger db')"
  using assms(1)
proof (cases rule: run_command_cases)
  case kept
  then show ?thesis using assms(2) by simp
next
  case (applied ok)
  obtain db1 row where "execute db = Inr (ok, db1)" "db' = db1\<lparr>commands := commands db1 @ [row]\<rparr>"
    using command_tx_facts [OF applied(3)] by metis
  then show ?thesis using assms(3) by auto
qed

section \<open>The state machine\<close>

text \<open>A mutation that is composed with a commitment writes its owner's tables, not these.\<close>

definition foreign_mutation :: "(spend_db \<Rightarrow> db_error + spend_db) option \<Rightarrow> bool" where
  "foreign_mutation m \<longleftrightarrow> (\<forall>f d d'. m = Some f \<longrightarrow> f d = Inr d' \<longrightarrow> d' = d)"

inductive spend_step :: "command_env \<Rightarrow> spend_db \<Rightarrow> spend_db \<Rightarrow> bool" for env where
  submit_step: "submit env link app_now now c db = (res, db') \<Longrightarrow> spend_step env db db'"
| resubmit_step: "resubmit env link app_now now c prior db = (res, db') \<Longrightarrow> spend_step env db db'"
| commit_step: "foreign_mutation m \<Longrightarrow> commitCapacity env link now c m db = (res, db') \<Longrightarrow> spend_step env db db'"
| release_step: "release env link now c' reason db = (res, db') \<Longrightarrow> spend_step env db db'"
| expire_step: "expire env link now c' db = (res, db') \<Longrightarrow> spend_step env db db'"
| rollover_step: "rollover env link now c' db = (res, db') \<Longrightarrow> spend_step env db db'"
| policy_insert_step: "insert_policy env p (ledger db) = Inr l \<Longrightarrow> spend_step env db (db\<lparr>ledger := l\<rparr>)"
| policy_update_step: "update_policy env i f (ledger db) = Inr l \<Longrightarrow> spend_step env db (db\<lparr>ledger := l\<rparr>)"
| member_step: "spend_step env db
    (db\<lparr>ledger := (ledger db)\<lparr>memberships := ms, organisations := os\<rparr>\<rparr>)"

definition limits_under :: "(string \<Rightarrow> int) \<Rightarrow> spend_db \<Rightarrow> bool" where
  "limits_under B db \<longleftrightarrow> (\<forall>p \<in> set (policies (ledger db)). p_limit p \<le> B (p_id p))"

definition empty_spend :: "membership_row list \<Rightarrow> organisation_row list \<Rightarrow> spend_db" where
  "empty_spend ms os =
     \<lparr>ledger = \<lparr>policies = [], reservations = [], balances = [], holds = [], entries = [],
                memberships = ms, organisations = os, ledger_apply = False\<rparr>,
      commands = []\<rparr>"

text \<open>The states a run reaches in which no policy's limit ever exceeds \<open>B\<close> of its id.\<close>

inductive spend_reachable :: "command_env \<Rightarrow> (string \<Rightarrow> int) \<Rightarrow> spend_db \<Rightarrow> bool" for env B where
  spend_init: "spend_reachable env B (empty_spend ms os)"
| spend_next: "spend_reachable env B db \<Longrightarrow> spend_step env db db' \<Longrightarrow> limits_under B db' \<Longrightarrow>
    spend_reachable env B db'"

section \<open>Every step keeps the invariant\<close>

lemma assertSubmit_amount: "assertSubmit app_now c \<Longrightarrow> 0 < sub_amount c"
  by (simp add: assertSubmit_def)

text \<open>The public methods, once their arguments pass: the transaction they run.\<close>

lemma submit_run:
  assumes "submit env link app_now now c db = (res, db')"
  shows "db' = db \<or> assertSubmit app_now c \<and> (\<exists>out. res = Inr out \<and>
      run_command env link K_SUBMIT (SubmitReq c) (sub_key c) (sub_actor c) (sub_organisation c)
        (reserveNew env now c) db = (out, db'))"
  using assms by (auto simp: submit_def apfst_def map_prod_def split: if_splits prod.splits)

lemma resubmit_run:
  assumes "resubmit env link app_now now c prior db = (res, db')"
  shows "db' = db \<or> assertSubmit app_now c \<and> (\<exists>out. res = Inr out \<and>
      run_command env link K_RESUBMIT (ResubmitReq c prior) (sub_key c) (sub_actor c) (sub_organisation c)
        (resubmit_body env now c prior) db = (out, db'))"
  using assms by (auto simp: resubmit_def apfst_def map_prod_def split: if_splits prod.splits)

lemma commit_run:
  assumes "commitCapacity env link now c m db = (res, db')"
  shows "db' = db \<or> (\<exists>out request. res = Inr out \<and>
      run_command env link K_COMMIT request (cmd_key c) (cmd_actor c) (cmd_organisation c)
        (commit_body env now c m) db = (out, db'))"
  using assms by (auto simp: commitCapacity_def apfst_def map_prod_def split: if_splits prod.splits)

lemma release_run:
  assumes "release env link now c reason db = (res, db')"
  shows "db' = db \<or> (\<exists>out why. res = Inr out \<and>
      run_command env link K_RELEASE (ReleaseReq c reason) (cmd_key c) (cmd_actor c) (cmd_organisation c)
        (close_body env now c why RELEASED False) db = (out, db'))"
  using assms by (auto simp: release_def apfst_def map_prod_def split: if_splits prod.splits)

lemma expire_run:
  assumes "expire env link now c db = (res, db')"
  shows "db' = db \<or> (\<exists>out. res = Inr out \<and>
      run_command env link K_EXPIRE (ExpireReq c) (cmd_key c) (cmd_actor c) (cmd_organisation c)
        (close_body env now c R_EXPIRED EXPIRED True) db = (out, db'))"
  using assms by (auto simp: expire_def apfst_def map_prod_def split: if_splits prod.splits)

lemma rollover_run:
  assumes "rollover env link now c db = (res, db')"
  shows "db' = db \<or> (\<exists>out. res = Inr out \<and>
      run_command env link K_ROLLOVER (RolloverReq c) (cmd_key c) (cmd_actor c) (cmd_organisation c)
        (rollover_body env now c) db = (out, db'))"
  using assms by (auto simp: rollover_def apfst_def map_prod_def split: if_splits prod.splits)

text \<open>Each body keeps the invariant and the limits.\<close>

definition keeps :: "(string \<Rightarrow> int) \<Rightarrow> (spend_db \<Rightarrow> tx_error + applied \<times> spend_db) \<Rightarrow> bool" where
  "keeps B body \<longleftrightarrow> (\<forall>db ok db'. body db = Inr (ok, db') \<longrightarrow> spend_inv db \<longrightarrow>
      spend_inv db' \<and> (within_limits B (ledger db) \<longrightarrow> within_limits B (ledger db')))"

lemma reserveNew_keeps: "assertSubmit app_now c \<Longrightarrow> keeps B (reserveNew env now c)"
  unfolding keeps_def by (auto elim!: reserveNew_effect dest: assertSubmit_amount)

lemma resubmit_keeps: "assertSubmit app_now c \<Longrightarrow> keeps B (resubmit_body env now c prior)"
  unfolding keeps_def by (auto elim!: resubmit_effect dest: assertSubmit_amount)

lemma close_keeps: "status \<noteq> ACTIVE \<Longrightarrow> keeps B (close_body env now c reason status mb)"
  unfolding keeps_def by (auto elim!: close_effect)

lemma rollover_keeps: "keeps B (rollover_body env now c)"
  unfolding keeps_def by (auto elim!: rollover_effect)

lemma foreign_result:
  assumes "foreign_mutation m" and "(case m of None \<Rightarrow> Inr d | Some f \<Rightarrow> db_step (f d)) = Inr d'"
  shows "d' = d"
  using assms by (auto simp: foreign_mutation_def db_step_def split: option.splits sum.splits)

lemma commit_keeps:
  assumes "foreign_mutation m"
  shows "keeps B (commit_body env now c m)"
  unfolding keeps_def
proof (intro allI impI)
  fix db ok db' assume b: "commit_body env now c m db = Inr (ok, db')" and inv: "spend_inv db"
  obtain d where d: "\<And>j. used (ledger d) j = used (ledger db) j" "policies (ledger d) = policies (ledger db)"
    "spend_inv d" "(case m of None \<Rightarrow> Inr d | Some f \<Rightarrow> db_step (f d)) = Inr db'"
    by (rule commit_effect [OF b inv]) (rule that)
  then have "db' = d" using foreign_result [OF assms] by blast
  with d show "spend_inv db' \<and> (within_limits B (ledger db) \<longrightarrow> within_limits B (ledger db'))"
    by (simp add: within_limits_def)
qed

lemma run_keeps:
  assumes "run_command env link kind request key actor organisation execute db = (res, db')"
    and "keeps B execute" and "spend_inv db"
  shows "spend_inv db' \<and> (within_limits B (ledger db) \<longrightarrow> within_limits B (ledger db'))"
proof -
  have k: "spend_inv d \<and> (within_limits B (ledger db) \<longrightarrow> within_limits B (ledger d))"
    if "execute db = Inr (ok, d)" for ok d
    using assms(2) [unfolded keeps_def, rule_format, OF that assms(3)] by blast
  have "spend_inv db'" by (rule run_command_inv [OF assms(1,3)]) (use k in blast)
  moreover have "within_limits B (ledger db')" if w: "within_limits B (ledger db)"
    by (rule run_command_within [OF assms(1) w]) (use k w in blast)
  ultimately show ?thesis by blast
qed

lemma insert_policy_keeps:
  assumes "insert_policy env p l = Inr l'" and "base_inv l"
  shows "base_inv l'" and "reservations l' = reservations l" and "held l' = held l" and "used l' = used l"
proof -
  obtain q where l': "l' = l\<lparr>policies := policies l @ [q]\<rparr>" and new: "p_id q \<notin> p_id ` set (policies l)"
    using assms(1) by (auto simp: insert_policy_def tx_simps find_row_None_iff)
  show "reservations l' = reservations l" "held l' = held l" "used l' = used l"
    by (simp_all add: l' fun_eq_iff held_def used_def bal_reserved_def bal_committed_def)
  show "base_inv l'"
    using assms(2) new ledger_inv_cong [of l' l] by (simp add: base_inv_def l' holds_owned_def)
qed

lemma update_policy_keeps:
  assumes "update_policy env i f l = Inr l'" and "base_inv l"
  shows "base_inv l'" and "reservations l' = reservations l" and "held l' = held l" and "used l' = used l"
proof -
  obtain ps where l': "l' = l\<lparr>policies := ps\<rparr>" and ids: "map p_id ps = map p_id (policies l)"
  proof (cases "find_row p_id i (policies l)")
    case None
    then show ?thesis using assms(1) that [of "policies l"] by (simp add: update_policy_def)
  next
    case (Some old)
    then obtain q where q: "policy_guard_update env old ((f old)\<lparr>p_id := i\<rparr>) = Inr q"
      "l' = l\<lparr>policies := upd_row p_id i (\<lambda>_. q) (policies l)\<rparr>"
      using assms(1) by (auto simp: update_policy_def tx_simps)
    have "p_id q = i" using q(1) by (auto simp: policy_guard_update_def tx_simps split: if_splits)
    then have "map p_id (upd_row p_id i (\<lambda>_. q) (policies l)) = map p_id (policies l)"
      by (intro map_key_upd_row) simp
    with q(2) show ?thesis by (rule that)
  qed
  show "reservations l' = reservations l" "held l' = held l" "used l' = used l"
    by (simp_all add: l' fun_eq_iff held_def used_def bal_reserved_def bal_committed_def)
  show "base_inv l'"
    using assms(2) ids ledger_inv_cong [of l' l] by (simp add: base_inv_def l' holds_owned_def)
qed

text \<open>A step keeps the invariant, and the limits when the policies it leaves do.\<close>

lemma ledger_policy_step:
  assumes "base_inv l'" "reservations l' = reservations (ledger db)" "held l' = held (ledger db)"
    and "used l' = used (ledger db)" and "spend_inv db"
  shows "spend_inv (db\<lparr>ledger := l'\<rparr>) \<and>
    (limits_under B (db\<lparr>ledger := l'\<rparr>) \<longrightarrow> within_limits B (ledger db) \<longrightarrow> within_limits B l')"
  using assms by (simp add: spend_inv_def closed_holds_def holds_bounded_def within_limits_def limits_under_def)

lemma spend_step_keeps:
  assumes "spend_step env db db'" and "spend_inv db"
  shows "spend_inv db' \<and> (limits_under B db' \<longrightarrow> within_limits B (ledger db) \<longrightarrow> within_limits B (ledger db'))"
  using assms
proof (cases rule: spend_step.cases)
  case submit_step
  then show ?thesis using submit_run run_keeps [OF _ reserveNew_keeps] assms(2) by metis
next
  case resubmit_step
  then show ?thesis using resubmit_run run_keeps [OF _ resubmit_keeps] assms(2) by metis
next
  case commit_step
  then show ?thesis using commit_run run_keeps [OF _ commit_keeps] assms(2) by metis
next
  case release_step
  then show ?thesis using release_run run_keeps [OF _ close_keeps] assms(2) by (metis reservation_status.distinct(3))
next
  case expire_step
  then show ?thesis using expire_run run_keeps [OF _ close_keeps] assms(2) by (metis reservation_status.distinct(5))
next
  case rollover_step
  then show ?thesis using rollover_run run_keeps [OF _ rollover_keeps] assms(2) by metis
next
  case (policy_insert_step p l)
  have "base_inv (ledger db)" using assms(2) by (simp add: spend_inv_def)
  note K = insert_policy_keeps [OF policy_insert_step(2) this]
  show ?thesis using ledger_policy_step [OF K assms(2)] policy_insert_step(1) by simp
next
  case (policy_update_step i f l)
  have "base_inv (ledger db)" using assms(2) by (simp add: spend_inv_def)
  note K = update_policy_keeps [OF policy_update_step(2) this]
  show ?thesis using ledger_policy_step [OF K assms(2)] policy_update_step(1) by simp
next
  case (member_step os ms)
  let ?l = "(ledger db)\<lparr>memberships := ms, organisations := os\<rparr>"
  have "ledger_inv ?l = ledger_inv (ledger db)" by (rule ledger_inv_cong) simp_all
  then have "base_inv ?l" using assms(2) by (simp add: spend_inv_def base_inv_def holds_owned_def)
  then show ?thesis
    using member_step ledger_policy_step [of ?l db B] assms(2)
    by (simp add: fun_eq_iff held_def used_def bal_reserved_def bal_committed_def)
qed

lemma empty_spend_inv: "spend_inv (empty_spend ms os)"
  by (simp add: spend_inv_def empty_spend_def base_inv_def ledger_inv_def tables_ok_def reservations_ok_def
      unique_live_def holds_owned_def closed_holds_def holds_bounded_def hold_sum_def bal_reserved_def
      bal_committed_def held_def held_committed_def entry_sum_def)

lemma spend_reachable_inv:
  assumes "spend_reachable env B db"
  shows "spend_inv db" and "within_limits B (ledger db)"
proof -
  have "spend_inv db \<and> within_limits B (ledger db)"
    using assms
  proof induction
    case (spend_init ms os)
    then show ?case
      using empty_spend_inv by (simp add: within_limits_def empty_spend_def used_def bal_reserved_def bal_committed_def)
  next
    case (spend_next db db')
    then show ?case using spend_step_keeps by blast
  qed
  then show "spend_inv db" "within_limits B (ledger db)" by simp_all
qed

end
