(* ===== verification/Spend_History.thy ===== *)
theory Spend_History
  imports Spend_Safety
begin

text \<open>
  What no step of the spend database ever takes back: ledger entries are only appended, a
  reservation keeps its purchase, and a closed one never changes again.
\<close>

definition evolves :: "reservation \<Rightarrow> reservation \<Rightarrow> bool" where
  "evolves r r' \<longleftrightarrow>
     r_id r' = r_id r \<and> purchase_binding r' = purchase_binding r \<and>
     r_hold_revision r \<le> r_hold_revision r' \<and> (r_status r \<noteq> ACTIVE \<longrightarrow> r' = r)"

definition grows :: "ledger_db \<Rightarrow> ledger_db \<Rightarrow> bool" where
  "grows l l' \<longleftrightarrow>
     (\<exists>new. entries l' = entries l @ new) \<and>
     (\<forall>r \<in> set (reservations l). \<exists>r' \<in> set (reservations l'). evolves r r')"

lemma evolves_refl [simp]: "evolves r r"
  by (simp add: evolves_def)

lemma evolves_trans: "evolves a b \<Longrightarrow> evolves b c \<Longrightarrow> evolves a c"
  by (auto simp: evolves_def)

lemma grows_same: "reservations l' = reservations l \<Longrightarrow> entries l' = entries l @ new \<Longrightarrow> grows l l'"
  unfolding grows_def by (metis evolves_refl)

lemma grows_refl [simp]: "grows l l"
  by (rule grows_same [of _ _ "[]"]) simp_all

lemma grows_trans: "grows a b \<Longrightarrow> grows b c \<Longrightarrow> grows a c"
  unfolding grows_def by (metis append.assoc evolves_trans)

lemma post_entry_grows:
  assumes "ledger_inv l" and "post_entry env now l x = Inr l'"
  shows "grows l l'"
proof -
  obtain p r t e where "posted env now x p r t e l l'"
    using post_entry_effect [OF assms(2) ledger_inv_tables [OF assms(1)]] .
  note P = postedD [OF this]
  show ?thesis using P(3,5) by (auto simp: same_base_def intro: grows_same)
qed

lemma posts_grow: "for_each (post_entry env now) l es = Inr l' \<Longrightarrow> ledger_inv l \<Longrightarrow> grows l l'"
proof (induction es arbitrary: l)
  case (Cons x es)
  then show ?case by (auto simp: tx_simps intro: grows_trans post_entry_grows post_entry_inv)
qed simp

lemma inPolicyOrder_grows:
  "inPolicyOrder env now key actor step releases reserves db = Inr db' \<Longrightarrow> base_inv (ledger db) \<Longrightarrow>
   grows (ledger db) (ledger db')"
  by (elim inPolicyOrder_posts) (auto dest: posts_grow base_invD(1))

lemma insertReservation_grows:
  "insertReservation env now c prior db = Inr (r, db') \<Longrightarrow> base_inv (ledger db) \<Longrightarrow>
   grows (ledger db) (ledger db') \<and> base_inv (ledger db')"
  using insertReservation_effect(2,3) [of env now c prior db r db'] by (force simp: grows_def)

lemma update_grows:
  assumes "reservations_ok (reservations l)" and "old \<in> set (reservations l)" and "evolves old new"
  shows "grows l (l\<lparr>reservations := upd_row r_id (r_id old) (\<lambda>_. new) (reservations l)\<rparr>)"
proof -
  have "set (upd_row r_id (r_id old) (\<lambda>_. new) (reservations l)) = insert new (set (reservations l) - {old})"
    using assms reservations_ok_find [OF assms(1,2)]
    by (intro reservation_rows_upd) (auto simp: reservations_ok_def evolves_def)
  then show ?thesis using assms(3) by (auto simp: grows_def intro: evolves_refl)
qed

lemma set_status_grows:
  assumes "set_status (r_id old) s db = Inr db'" and "base_inv (ledger db)" and "old \<in> set (reservations (ledger db))"
  shows "grows (ledger db) (ledger db') \<and> base_inv (ledger db')"
proof -
  have fr: "find_row r_id (r_id old) (reservations (ledger db)) = Some old"
    using reservations_ok_find [OF base_invD(2) [OF assms(2)] assms(3)] .
  note S = set_status_effect [OF assms(1,2) fr]
  have "evolves old (old\<lparr>r_status := s\<rparr>)" using S(3) by (simp add: evolves_def purchase_binding_def)
  then show ?thesis
    using S(1,2) update_grows [OF base_invD(2) [OF assms(2)] assms(3)] by simp
qed

lemma advance_grows:
  assumes "on_ledger (update_reservation (r_id r) (\<lambda>x. x\<lparr>r_hold_revision := r_hold_revision x + 1\<rparr>)) db = Inr db'"
    and "base_inv (ledger db)" and "r \<in> set (reservations (ledger db))" and "r_status r = ACTIVE"
  shows "grows (ledger db) (ledger db')"
proof -
  have "evolves r (r\<lparr>r_hold_revision := r_hold_revision r + 1\<rparr>)"
    using assms(4) by (simp add: evolves_def purchase_binding_def)
  then show ?thesis
    using advance_revision_effect(1) [OF assms(1-3)] update_grows [OF base_invD(2) [OF assms(2)] assms(3)] by simp
qed

lemma order_same_rows:
  "inPolicyOrder env now key actor step releases reserves db = Inr db' \<Longrightarrow> base_inv (ledger db) \<Longrightarrow>
   reservations (ledger db') = reservations (ledger db)"
  by (elim inPolicyOrder_posts) (auto dest!: posts_base base_invD(1) simp: same_base_def)

section \<open>Bodies\<close>

definition body_grows :: "(spend_db \<Rightarrow> tx_error + applied \<times> spend_db) \<Rightarrow> bool" where
  "body_grows body \<longleftrightarrow> (\<forall>db ok db'. body db = Inr (ok, db') \<longrightarrow> spend_inv db \<longrightarrow> grows (ledger db) (ledger db'))"

lemma reserveNew_grows: "body_grows (reserveNew env now c)"
  unfolding body_grows_def reserveNew_def
  by (auto simp: tx_simps spend_inv_def dest!: insertReservation_grows inPolicyOrder_grows intro: grows_trans)

lemma close_grows: "body_grows (close_body env now c reason status mb)"
  unfolding body_grows_def
proof (intro allI impI)
  fix db ok db' assume b: "close_body env now c reason status mb db = Inr (ok, db')" and inv: "spend_inv db"
  obtain r db1 where lk: "lockReservation (cmd_organisation c) (cmd_reservation c) (ledger db) = Inr r"
    and po: "inPolicyOrder env now (cmd_key c) (cmd_actor c) ''release''
       (release_items (r_id r) reason (holds_of (r_id r) (ledger db))) [] db = Inr db1"
    and ss: "set_status (r_id r) status db1 = Inr db'"
    using b unfolding close_body_def by (auto simp: tx_simps split: if_splits)
  have base: "base_inv (ledger db)" using inv by (simp add: spend_inv_def)
  have "r \<in> set (reservations (ledger db1))"
    using lockReservation_facts(1) [OF lk] order_same_rows [OF po base] by simp
  then show "grows (ledger db) (ledger db')"
    using inPolicyOrder_grows [OF po base] set_status_grows [OF ss inPolicyOrder_base_inv [OF po base]]
    by (blast intro: grows_trans)
qed

lemma resubmit_grows: "body_grows (resubmit_body env now c prior)"
  unfolding body_grows_def
proof (intro allI impI)
  fix db ok db' assume b: "resubmit_body env now c prior db = Inr (ok, db')" and inv: "spend_inv db"
  obtain old db1 r db2 releases reserves
    where lk: "lockReservation (sub_organisation c) prior (ledger db) = Inr old"
    and ss: "set_status (r_id old) RELEASED db = Inr db1"
    and ins: "insertReservation env now c (Some (r_id old)) db1 = Inr (r, db2)"
    and po: "inPolicyOrder env now (sub_key c) (sub_actor c) ''resubmit'' releases reserves db2 = Inr db'"
    using b unfolding resubmit_body_def by (auto simp: tx_simps Let_def)
  have base: "base_inv (ledger db)" using inv by (simp add: spend_inv_def)
  note S = set_status_grows [OF ss base lockReservation_facts(1) [OF lk]]
  note I = insertReservation_grows [OF ins S [THEN conjunct2]]
  show "grows (ledger db) (ledger db')"
    using S I inPolicyOrder_grows [OF po] by (blast intro: grows_trans)
qed

lemma commit_grows:
  assumes "foreign_mutation m"
  shows "body_grows (commit_body env now c m)"
  unfolding body_grows_def
proof (intro allI impI)
  fix db ok db' assume b: "commit_body env now c m db = Inr (ok, db')" and inv: "spend_inv db"
  obtain r es db1 db2 where lk: "lockReservation (cmd_organisation c) (cmd_reservation c) (ledger db) = Inr r"
    and po: "on_ledger (post_all env now es) db = Inr db1"
    and ss: "set_status (r_id r) COMMITTED db1 = Inr db2"
    and mu: "(case m of None \<Rightarrow> Inr db2 | Some f \<Rightarrow> db_step (f db2)) = Inr db'"
    using b unfolding commit_body_def by (auto simp: tx_simps)
  have base: "base_inv (ledger db)" using inv by (simp add: spend_inv_def)
  obtain l1 where posts: "for_each (post_entry env now) (ledger db) es = Inr l1" and db1: "db1 = db\<lparr>ledger := l1\<rparr>"
    using po unfolding on_ledger_def post_all_def db_step_def by (auto simp: tx_simps split: sum.splits)
  have "r \<in> set (reservations (ledger db1))"
    using lockReservation_facts(1) [OF lk] posts_base [OF posts base_invD(1) [OF base]] db1 by (simp add: same_base_def)
  then have "grows (ledger db1) (ledger db2)"
    using set_status_grows [OF ss] posts_base_inv [OF posts base] db1 by simp
  moreover have "grows (ledger db) (ledger db1)"
    using posts_grow [OF posts base_invD(1) [OF base]] db1 by simp
  moreover have "db' = db2" using foreign_result [OF assms mu] .
  ultimately show "grows (ledger db) (ledger db')" by (auto intro: grows_trans)
qed

lemma rollover_grows: "body_grows (rollover_body env now c)"
  unfolding body_grows_def
proof (intro allI impI)
  fix db ok db' assume b: "rollover_body env now c db = Inr (ok, db')" and inv: "spend_inv db"
  obtain r db1 releases reserves moved
    where lk: "lockReservation (cmd_organisation c) (cmd_reservation c) (ledger db) = Inr r"
    and st: "r_status r = ACTIVE"
    and po: "inPolicyOrder env now (cmd_key c) (cmd_actor c) ''rollover'' releases reserves db = Inr db1"
    and up: "(if moved then on_ledger (update_reservation (r_id r) (\<lambda>x. x\<lparr>r_hold_revision := r_hold_revision x + 1\<rparr>)) db1
              else Inr db1) = Inr db'"
    using b unfolding rollover_body_def Let_def by (simp add: tx_simps) blast
  have base: "base_inv (ledger db)" using inv by (simp add: spend_inv_def)
  have "r \<in> set (reservations (ledger db1))"
    using lockReservation_facts(1) [OF lk] order_same_rows [OF po base] by simp
  then have "grows (ledger db1) (ledger db')"
    using up advance_grows [OF _ inPolicyOrder_base_inv [OF po base] _ st] by (auto split: if_splits)
  then show "grows (ledger db) (ledger db')"
    using inPolicyOrder_grows [OF po base] by (rule grows_trans [rotated])
qed

section \<open>The command record\<close>

definition body_silent :: "(spend_db \<Rightarrow> tx_error + applied \<times> spend_db) \<Rightarrow> bool" where
  "body_silent body \<longleftrightarrow> (\<forall>db ok db'. body db = Inr (ok, db') \<longrightarrow> commands db' = commands db)"

lemma on_ledger_commands: "on_ledger f db = Inr db' \<Longrightarrow> commands db' = commands db"
  by (auto simp: on_ledger_def tx_simps)

lemma inPolicyOrder_commands:
  "inPolicyOrder env now key actor step releases reserves db = Inr db' \<Longrightarrow> commands db' = commands db"
  unfolding inPolicyOrder_def by (rule on_ledger_commands)

lemma set_status_commands: "set_status i s db = Inr db' \<Longrightarrow> commands db' = commands db"
  unfolding set_status_def by (rule on_ledger_commands)

lemma insertReservation_commands: "insertReservation env now c prior db = Inr (r, db') \<Longrightarrow> commands db' = commands db"
  by (auto simp: insertReservation_def tx_simps split: if_splits)

lemmas command_frames = inPolicyOrder_commands set_status_commands insertReservation_commands on_ledger_commands

lemma bodies_silent:
  "body_silent (reserveNew env now c)" "body_silent (resubmit_body env now c prior)"
  "body_silent (close_body env now c' reason status mb)" "body_silent (rollover_body env now c'')"
  unfolding body_silent_def reserveNew_def resubmit_body_def close_body_def rollover_body_def Let_def
  by (auto simp: tx_simps dest!: command_frames split: if_splits)

lemma commit_silent: "foreign_mutation m \<Longrightarrow> body_silent (commit_body env now c m)"
  unfolding body_silent_def commit_body_def
  by (auto simp: tx_simps dest!: command_frames foreign_result split: if_splits)

lemma run_grows:
  assumes "run_command env link kind request key actor organisation execute db = (res, db')"
    and "body_grows execute" and "body_silent execute" and "spend_inv db"
  shows "grows (ledger db) (ledger db') \<and> (\<exists>new. commands db' = commands db @ new)"
  using assms(1)
proof (cases rule: run_command_cases)
  case kept
  then show ?thesis by simp
next
  case (applied ok)
  obtain db1 row where d: "execute db = Inr (ok, db1)" "db' = db1\<lparr>commands := commands db1 @ [row]\<rparr>"
    using command_tx_facts [OF applied(3)] by metis
  have "grows (ledger db) (ledger db1)" "commands db1 = commands db"
    using assms(2) [unfolded body_grows_def, rule_format, OF d(1) assms(4)]
      assms(3) [unfolded body_silent_def, rule_format, OF d(1)] by simp_all
  then show ?thesis using d(2) by simp
qed

lemma spend_step_grows:
  assumes "spend_step env db db'" and "spend_inv db"
  shows "grows (ledger db) (ledger db') \<and> (\<exists>new. commands db' = commands db @ new)"
  using assms
proof (cases rule: spend_step.cases)
  case submit_step
  then show ?thesis using submit_run run_grows [OF _ reserveNew_grows bodies_silent(1)] assms(2) by (metis append_Nil2 grows_refl)
next
  case resubmit_step
  then show ?thesis using resubmit_run run_grows [OF _ resubmit_grows bodies_silent(2)] assms(2) by (metis append_Nil2 grows_refl)
next
  case commit_step
  then show ?thesis using commit_run run_grows [OF _ commit_grows commit_silent] assms(2) by (metis append_Nil2 grows_refl)
next
  case release_step
  then show ?thesis using release_run run_grows [OF _ close_grows bodies_silent(3)] assms(2) by (metis append_Nil2 grows_refl)
next
  case expire_step
  then show ?thesis using expire_run run_grows [OF _ close_grows bodies_silent(3)] assms(2) by (metis append_Nil2 grows_refl)
next
  case rollover_step
  then show ?thesis using rollover_run run_grows [OF _ rollover_grows bodies_silent(4)] assms(2) by (metis append_Nil2 grows_refl)
next
  case (policy_insert_step p l)
  then have "reservations l = reservations (ledger db) \<and> entries l = entries (ledger db)"
    by (auto simp: insert_policy_def tx_simps)
  then show ?thesis using policy_insert_step grows_same [of l "ledger db" "[]"] by simp
next
  case (policy_update_step i f l)
  then have "reservations l = reservations (ledger db) \<and> entries l = entries (ledger db)"
    by (auto simp: update_policy_def tx_simps split: option.splits)
  then show ?thesis using policy_update_step grows_same [of l "ledger db" "[]"] by simp
next
  case (member_step os ms)
  then show ?thesis by (auto intro: grows_same [of _ _ "[]"])
qed

lemma spend_reachable_steps_grow:
  assumes "(spend_step env)\<^sup>*\<^sup>* db db'" and "spend_inv db"
  shows "spend_inv db' \<and> grows (ledger db) (ledger db') \<and> (\<exists>new. commands db' = commands db @ new)"
  using assms
proof (induction rule: rtranclp_induct)
  case base
  then show ?case by simp
next
  case (step d d')
  then have "spend_inv d" "grows (ledger db) (ledger d)" by auto
  moreover obtain new where "commands d = commands db @ new" using step by blast
  ultimately show ?case
    using spend_step_keeps [OF step.hyps(2)] spend_step_grows [OF step.hyps(2)] grows_trans by fastforce
qed

end
