(* ===== verification/Spend_Example.thy ===== *)
theory Spend_Example
  imports Spend_History
begin

text \<open>
  A small concrete world for the spend commands: a stand-in digest, thirty-day months, one
  Organisation with a member and one budget, and a run of commands over it. The hypotheses the
  properties make of the environment hold here.
\<close>

text \<open>The stand-in keeps the last characters of its input, as hexadecimal digits.\<close>

definition demo_hex :: "char \<Rightarrow> char" where
  "demo_hex c = (if lower_hex_char c then c else CHR ''0'')"

definition demo_sha256 :: "string \<Rightarrow> string" where
  "demo_sha256 s = take 64 (map demo_hex (rev s) @ replicate 64 CHR ''0'')"

fun demo_kind :: "command_kind \<Rightarrow> string" where
  "demo_kind K_SUBMIT = ''SUBMIT''"
| "demo_kind K_RESUBMIT = ''RESUBMIT''"
| "demo_kind K_COMMIT = ''COMMIT''"
| "demo_kind K_RELEASE = ''RELEASE''"
| "demo_kind K_EXPIRE = ''EXPIRE''"
| "demo_kind K_ROLLOVER = ''ROLLOVER''"

fun demo_request :: "spend_request \<Rightarrow> string" where
  "demo_request (SubmitReq c) = sub_key c @ ''|'' @ sub_digest c @ ''|'' @ int_text (sub_amount c)"
| "demo_request (ResubmitReq c prior) = sub_key c @ ''|'' @ sub_digest c @ ''|'' @ prior @ ''|'' @ int_text (sub_amount c)"
| "demo_request (CommitReq c) = cmd_key c @ ''|'' @ cmd_reservation c @ ''|'' @ com_commitment c @ ''|'' @ int_text (com_amount c)"
| "demo_request (MutationReq c) = cmd_key c @ ''|'' @ cmd_reservation c @ ''|'' @ com_commitment c @ ''|mutation''"
| "demo_request (ReleaseReq c reason) = cmd_key c @ ''|'' @ cmd_reservation c @ ''|'' @ reason"
| "demo_request (ExpireReq c) = cmd_key c @ ''|'' @ cmd_reservation c"
| "demo_request (RolloverReq c) = cmd_key c @ ''|'' @ cmd_reservation c"

definition demo_month :: int where
  "demo_month = 2592000000"

definition demo_month_start :: "string \<Rightarrow> instant \<Rightarrow> instant" where
  "demo_month_start z t = (t div demo_month) * demo_month"

definition demo_month_end :: "string \<Rightarrow> instant \<Rightarrow> instant" where
  "demo_month_end z t = (t div demo_month) * demo_month + demo_month"

definition demo_timezone :: "string \<Rightarrow> bool" where
  "demo_timezone z \<longleftrightarrow> z = ''UTC''"

definition demo_request_digest :: "command_kind \<Rightarrow> spend_request \<Rightarrow> string" where
  "demo_request_digest k r = ''sha256:'' @ demo_sha256 (demo_kind k @ ''|'' @ demo_request r)"

definition demo_env :: command_env where
  "demo_env =
     \<lparr>month_start = demo_month_start, month_end = demo_month_end, known_timezone = demo_timezone,
      sha256 = demo_sha256, request_digest = demo_request_digest\<rparr>"

lemma demo_calendar_ok: "calendar_ok demo_env"
proof -
  have "t div 2592000000 * 2592000000 \<le> t \<and> t < t div 2592000000 * 2592000000 + 2592000000" for t :: int
    using div_mult_mod_eq [of t 2592000000] pos_mod_bound [of 2592000000 t] pos_mod_sign [of 2592000000 t] by linarith
  then show ?thesis
    by (simp add: calendar_ok_def demo_env_def demo_month_def demo_month_start_def demo_month_end_def)
qed

definition demo_policy :: "string \<Rightarrow> budget_scope \<Rightarrow> string option \<Rightarrow> int \<Rightarrow> spend_policy" where
  "demo_policy i s m limit =
     \<lparr>p_id = i, p_revision = 1, p_status = POLICY_ACTIVE, p_scope = s, p_tenant = ''ten'',
      p_organisation = ''org'', p_membership = m, p_agreement = None, p_market = ''gh'',
      p_currency = ''GHS'', p_period_kind = CALENDAR_MONTH, p_timezone = ''UTC'', p_limit = limit,
      p_from = 0, p_until = None, p_evidence = ''board minute'', p_deleted = None\<rparr>"

definition demo_members :: "membership_row list" where
  "demo_members = [\<lparr>m_id = ''mem'', m_organisation = ''org'', m_status = M_ACTIVE,
     m_from = None, m_until = None, m_deleted = None\<rparr>]"

definition demo_organisations :: "organisation_row list" where
  "demo_organisations = [\<lparr>o_id = ''org'', o_tenant = ''ten''\<rparr>]"

definition demo_digest :: string where
  "demo_digest = ''sha256:0123456789abcdef0123456789abcdef0123456789abcdef0123456789abcdef''"

definition demo_rid :: string where
  "demo_rid = ''b2bres_10000000e00000b0000000000000000000000000''"

definition demo_now :: int where
  "demo_now = 1000000000"

section \<open>The commands\<close>

definition demo_submit :: submit_command where
  "demo_submit =
     \<lparr>sub_key = ''submit-key-000001'', sub_purchase = ''cart_1'', sub_tenant = ''ten'', sub_organisation = ''org'',
      sub_membership = ''mem'', sub_actor = ''prn_1'', sub_market = ''gh'', sub_currency = ''GHS'',
      sub_agreement = None, sub_digest = demo_digest, sub_version = JInt 1, sub_amount = 500,
      sub_expires = JInt 2000000000\<rparr>"

definition demo_commit :: commit_command where
  "demo_commit =
     \<lparr>cmd_key = ''commit-key-000001'', cmd_organisation = ''org'', cmd_reservation = demo_rid, cmd_actor = ''prn_1'',
      com_hold_revision = JInt 1, com_digest = demo_digest, com_version = JInt 1, com_amount = 500,
      com_commitment = ''order_1''\<rparr>"

definition demo_command :: "string \<Rightarrow> reservation_command" where
  "demo_command key =
     \<lparr>cmd_key = key, cmd_organisation = ''org'', cmd_reservation = demo_rid, cmd_actor = ''prn_1''\<rparr>"

section \<open>The states\<close>

definition demo_policies :: "int \<Rightarrow> int \<Rightarrow> spend_policy list" where
  "demo_policies revision limit =
     [(demo_policy ''pol_mem'' MEMBERSHIP (Some ''mem'') limit)\<lparr>p_revision := revision\<rparr>]"

definition demo_reservation :: "reservation_status \<Rightarrow> int \<Rightarrow> reservation" where
  "demo_reservation status revision =
     \<lparr>r_id = demo_rid, r_tenant = ''ten'', r_organisation = ''org'', r_membership = ''mem'',
      r_submitter = ''prn_1'', r_market = ''gh'', r_currency = ''GHS'', r_agreement = None,
      r_digest = demo_digest, r_version = 1, r_status = status, r_expires = 2000000000,
      r_created = demo_now, r_amount = Some 500, r_purchase = Some ''cart_1'', r_supersedes = None,
      r_hold_revision = revision, r_deleted = None\<rparr>"

definition demo_balance :: "string \<Rightarrow> int \<Rightarrow> int \<Rightarrow> balance" where
  "demo_balance p committed reserved =
     \<lparr>b_policy = p, b_starts = 0, b_ends = demo_month, b_committed = committed, b_reserved = reserved\<rparr>"

definition demo_hold :: "string \<Rightarrow> int \<Rightarrow> int \<Rightarrow> int \<Rightarrow> hold" where
  "demo_hold p revision committed reserved =
     \<lparr>h_reservation = demo_rid, h_policy = p, h_policy_revision = revision, h_starts = 0,
      h_reserved = reserved, h_committed = committed\<rparr>"

definition demo_row :: "string \<Rightarrow> int \<Rightarrow> policy_row" where
  "demo_row p revision = \<lparr>pr_id = p, pr_revision = revision, pr_scope = MEMBERSHIP, pr_starts = 0\<rparr>"

definition stamped :: "instant \<Rightarrow> ledger_entry \<Rightarrow> ledger_entry" where
  "stamped now e = e\<lparr>e_starts := Some 0, e_ends := Some demo_month, e_occurred := now\<rparr>"

definition demo_reserve :: "string \<Rightarrow> int \<Rightarrow> string \<Rightarrow> string \<Rightarrow> instant \<Rightarrow> ledger_entry" where
  "demo_reserve p revision key step now =
     stamped now (reserve_row demo_env demo_rid (demo_row p revision) 500 key ''prn_1'' step)"

definition demo_release :: "string \<Rightarrow> release_reason \<Rightarrow> string \<Rightarrow> instant \<Rightarrow> ledger_entry" where
  "demo_release p reason key now =
     stamped now (release_row demo_env demo_rid (demo_hold p 1 0 500) reason key ''prn_1'')"

definition demo_convert :: "string \<Rightarrow> string \<Rightarrow> instant \<Rightarrow> ledger_entry" where
  "demo_convert p key now =
     stamped now (commit_row demo_env demo_rid (demo_row p 1) 500 ''order_1'' key ''prn_1'')"

definition demo_ledger ::
  "int \<Rightarrow> reservation list \<Rightarrow> balance list \<Rightarrow> hold list \<Rightarrow> ledger_entry list \<Rightarrow> ledger_db" where
  "demo_ledger revision rs bs hs es =
     \<lparr>policies = demo_policies revision (if revision = 1 then 700 else 900), reservations = rs, balances = bs,
      holds = hs, entries = es, memberships = demo_members, organisations = demo_organisations,
      ledger_apply = False\<rparr>"

definition demo_record :: "string \<Rightarrow> command_kind \<Rightarrow> spend_request \<Rightarrow> applied \<Rightarrow> spend_command_row" where
  "demo_record key kind request ok =
     \<lparr>sc_key = key, sc_kind = kind, sc_organisation = ''org'', sc_digest = demo_request_digest kind request,
      sc_reservation = demo_rid, sc_result = ok, sc_actor = ''prn_1''\<rparr>"

definition demo_applied :: "reservation_status \<Rightarrow> int \<Rightarrow> bool option \<Rightarrow> applied" where
  "demo_applied status revision moved =
     \<lparr>a_reservation = demo_rid, a_status = status, a_hold_revision = revision, a_revalidate = moved\<rparr>"

definition demo_ready :: spend_db where
  "demo_ready = \<lparr>ledger = demo_ledger 1 [] [] [] [], commands = []\<rparr>"

definition demo_reserves :: "ledger_entry list" where
  "demo_reserves = [demo_reserve ''pol_mem'' 1 ''submit-key-000001'' ''submit'' demo_now]"

definition demo_submitted :: spend_command_row where
  "demo_submitted = demo_record ''submit-key-000001'' K_SUBMIT (SubmitReq demo_submit) (demo_applied ACTIVE 1 None)"

definition demo_held :: spend_db where
  "demo_held =
     \<lparr>ledger = demo_ledger 1 [demo_reservation ACTIVE 1]
        [demo_balance ''pol_mem'' 0 500]
        [demo_hold ''pol_mem'' 1 0 500] demo_reserves,
      commands = [demo_submitted]\<rparr>"

definition demo_committed :: spend_db where
  "demo_committed =
     \<lparr>ledger = demo_ledger 1 [demo_reservation COMMITTED 1]
        [demo_balance ''pol_mem'' 500 0]
        [demo_hold ''pol_mem'' 1 500 0]
        (demo_reserves @ [demo_convert ''pol_mem'' ''commit-key-000001'' (demo_now + 5)]),
      commands = [demo_submitted,
        demo_record ''commit-key-000001'' K_COMMIT (CommitReq demo_commit) (demo_applied COMMITTED 1 None)]\<rparr>"

definition demo_released :: spend_db where
  "demo_released =
     \<lparr>ledger = demo_ledger 1 [demo_reservation RELEASED 1]
        [demo_balance ''pol_mem'' 0 0]
        [demo_hold ''pol_mem'' 1 0 0]
        (demo_reserves @ [demo_release ''pol_mem'' R_CANCELLED ''release-key-000001'' (demo_now + 5)]),
      commands = [demo_submitted,
        demo_record ''release-key-000001'' K_RELEASE (ReleaseReq (demo_command ''release-key-000001'') ''CANCELLED'')
          (demo_applied RELEASED 1 None)]\<rparr>"

text \<open>The member's budget is raised, which advances its revision and so makes the hold stale.\<close>

definition demo_revised :: spend_db where
  "demo_revised = demo_held\<lparr>ledger := (ledger demo_held)\<lparr>policies := demo_policies 2 900\<rparr>\<rparr>"

definition demo_rolled :: spend_db where
  "demo_rolled =
     \<lparr>ledger = demo_ledger 2 [demo_reservation ACTIVE 2]
        [demo_balance ''pol_mem'' 0 500]
        [demo_hold ''pol_mem'' 2 0 500]
        (demo_reserves @ [demo_release ''pol_mem'' POLICY_REVISED ''rollover-key-00001'' (demo_now + 5),
                          demo_reserve ''pol_mem'' 2 ''rollover-key-00001'' ''rollover'' (demo_now + 5)]),
      commands = [demo_submitted,
        demo_record ''rollover-key-00001'' K_ROLLOVER (RolloverReq (demo_command ''rollover-key-00001''))
          (demo_applied ACTIVE 2 (Some True))]\<rparr>"

section \<open>The run\<close>

lemma demo_submit_run:
  "submit demo_env Up demo_now demo_now demo_submit demo_ready =
     (Inr (APPLIED (demo_applied ACTIVE 1 None)), demo_held)"
  by code_simp

lemma demo_commit_run:
  "commitCapacity demo_env Up (demo_now + 5) demo_commit None demo_held =
     (Inr (APPLIED (demo_applied COMMITTED 1 None)), demo_committed)"
  by code_simp

lemma demo_release_run:
  "release demo_env Up (demo_now + 5) (demo_command ''release-key-000001'') ''CANCELLED'' demo_held =
     (Inr (APPLIED (demo_applied RELEASED 1 None)), demo_released)"
  by code_simp

lemma demo_revise_run:
  "update_policy demo_env ''pol_mem'' (\<lambda>p. p\<lparr>p_limit := 900\<rparr>) (ledger demo_held) = Inr (ledger demo_revised)"
  by code_simp

lemma demo_rollover_run:
  "rollover demo_env Up (demo_now + 5) (demo_command ''rollover-key-00001'') demo_revised =
     (Inr (APPLIED (demo_applied ACTIVE 2 (Some True))), demo_rolled)"
  by code_simp

lemma demo_insert_run:
  "insert_policy demo_env (demo_policy ''pol_mem'' MEMBERSHIP (Some ''mem'') 700)
     (ledger (empty_spend demo_members demo_organisations)) = Inr (ledger demo_ready)"
  by code_simp

definition demo_limits :: "string \<Rightarrow> int" where
  "demo_limits i = 900"

lemma demo_limits_under [simp]:
  "limits_under demo_limits demo_ready" "limits_under demo_limits demo_held"
  "limits_under demo_limits demo_committed" "limits_under demo_limits demo_released"
  "limits_under demo_limits demo_revised" "limits_under demo_limits demo_rolled"
  by (simp_all add: limits_under_def demo_ready_def demo_held_def demo_committed_def demo_released_def
      demo_revised_def demo_rolled_def demo_ledger_def demo_policies_def demo_policy_def demo_limits_def)

lemma demo_ready_reachable: "spend_reachable demo_env demo_limits demo_ready"
proof -
  have "demo_ready = (empty_spend demo_members demo_organisations)\<lparr>ledger := ledger demo_ready\<rparr>"
    by (simp add: demo_ready_def empty_spend_def)
  then show ?thesis
    using spend_next [OF spend_init policy_insert_step [OF demo_insert_run]] demo_limits_under(1) by metis
qed

lemma demo_held_reachable: "spend_reachable demo_env demo_limits demo_held"
  by (rule spend_next [OF demo_ready_reachable submit_step [OF demo_submit_run] demo_limits_under(2)])

lemma demo_committed_reachable: "spend_reachable demo_env demo_limits demo_committed"
  by (rule spend_next [OF demo_held_reachable commit_step [OF _ demo_commit_run] demo_limits_under(3)])
    (simp add: foreign_mutation_def)

lemma demo_released_reachable: "spend_reachable demo_env demo_limits demo_released"
  by (rule spend_next [OF demo_held_reachable release_step [OF demo_release_run] demo_limits_under(4)])

lemma demo_revised_reachable: "spend_reachable demo_env demo_limits demo_revised"
proof -
  have "demo_revised = demo_held\<lparr>ledger := ledger demo_revised\<rparr>" by (simp add: demo_revised_def)
  then show ?thesis
    using spend_next [OF demo_held_reachable policy_update_step [OF demo_revise_run]] demo_limits_under(5) by metis
qed

lemma demo_rolled_reachable: "spend_reachable demo_env demo_limits demo_rolled"
  by (rule spend_next [OF demo_revised_reachable rollover_step [OF demo_rollover_run] demo_limits_under(6)])

end
