(* ===== verification/Spend_Properties.thy ===== *)
theory Spend_Properties
  imports Spend_Example
begin

text \<open>
  The properties of the spend commands, over the states a run reaches; each with a witness on the
  concrete run of \<open>Spend_Example\<close>.
\<close>

section \<open>Holds and balances\<close>

lemma hold_sum_held:
  assumes "tables_ok l" and "finite K" and "h_key ` set (holds l) \<subseteq> K"
  shows "hold_sum h_reserved l j = (\<Sum>k\<in>K. if snd k = j then held l k else 0)"
proof -
  have d: "distinct (map h_key (holds l))" using assms(1) by (simp add: tables_ok_def)
  have at: "(h_policy h, h_starts h) = snd (h_key h)" for h by (simp add: h_key_def)
  have "hold_sum h_reserved l j = (\<Sum>h\<leftarrow>holds l. if snd (h_key h) = j then held l (h_key h) else 0)"
    unfolding hold_sum_def at
    by (intro arg_cong [where f = sum_list] map_cong) (simp_all add: held_row(1) [OF assms(1)])
  also have "\<dots> = (\<Sum>k\<leftarrow>map h_key (holds l). if snd k = j then held l k else 0)"
    by (simp add: comp_def)
  also have "\<dots> = (\<Sum>k\<in>h_key ` set (holds l). if snd k = j then held l k else 0)"
    using sum_list_distinct_conv_sum_set [OF d] by simp
  also have "\<dots> = (\<Sum>k\<in>K. if snd k = j then held l k else 0)"
  proof (rule sum.mono_neutral_left [OF assms(2,3)], rule ballI)
    fix k assume "k \<in> K - h_key ` set (holds l)"
    then have "find_row h_key k (holds l) = None" by (simp add: find_row_None_iff)
    then show "(if snd k = j then held l k else 0) = 0" by (simp add: held_def)
  qed
  finally show ?thesis .
qed

lemma same_held_same_balance:
  assumes "ledger_inv l" and "ledger_inv l'" and "\<And>k. held l' k = held l k"
  shows "bal_reserved l' j = bal_reserved l j"
proof -
  let ?K = "h_key ` set (holds l) \<union> h_key ` set (holds l')"
  have "hold_sum h_reserved l j = (\<Sum>k\<in>?K. if snd k = j then held l k else 0)"
    "hold_sum h_reserved l' j = (\<Sum>k\<in>?K. if snd k = j then held l' k else 0)"
    using assms(1,2) by (intro hold_sum_held; auto simp: ledger_inv_def)+
  moreover have "held l' = held l" using assms(3) by (rule ext)
  ultimately have "hold_sum h_reserved l' j = hold_sum h_reserved l j" by (simp only:)
  then show ?thesis using assms(1,2) unfolding ledger_inv_def by metis
qed

lemma balance_nonneg:
  assumes "tables_ok l"
  shows "0 \<le> bal_reserved l j" and "0 \<le> bal_committed l j"
proof -
  have "0 \<le> b_reserved b \<and> 0 \<le> b_committed b" if "find_row b_key j (balances l) = Some b" for b
  proof -
    have "balance_checks b = Inr ()" using assms find_row_SomeD [OF that] by (simp add: tables_ok_def)
    then show ?thesis by (simp add: balance_checks_def split: if_splits)
  qed
  then show "0 \<le> bal_reserved l j" "0 \<le> bal_committed l j"
    by (simp_all add: bal_reserved_def bal_committed_def split: option.splits)
qed

lemma reachable_base: "spend_reachable env B db \<Longrightarrow> base_inv (ledger db)"
  using spend_reachable_inv(1) by (simp add: spend_inv_def)

section \<open>The ledger\<close>

text \<open>
  C1: in every reachable state the ledger entries account for every amount. Each period's reserved
  and committed balance is the sum of the entries of that period and the sum of the holds of its
  reservations, neither is negative, and each hold is the sum of its own entries.
\<close>

theorem spend_ledger_conserved:
  assumes "spend_reachable env B db"
  shows "bal_reserved (ledger db) j = entry_sum reserved_delta (on_period j) (ledger db) \<and>
     bal_committed (ledger db) j = entry_sum committed_delta (on_period j) (ledger db) \<and>
     bal_reserved (ledger db) j = hold_sum h_reserved (ledger db) j \<and>
     bal_committed (ledger db) j = hold_sum h_committed (ledger db) j \<and>
     0 \<le> bal_reserved (ledger db) j \<and> 0 \<le> bal_committed (ledger db) j \<and>
     held (ledger db) k = entry_sum reserved_delta (on_hold k) (ledger db) \<and>
     held_committed (ledger db) k = entry_sum committed_delta (on_hold k) (ledger db)"
proof -
  have "ledger_inv (ledger db)" using base_invD(1) [OF reachable_base [OF assms]] .
  then show ?thesis
    using balance_nonneg [OF ledger_inv_tables] unfolding ledger_inv_def by metis
qed

theorem spend_ledger_conserved_witness:
  "bal_committed (ledger demo_committed) (''pol_mem'', 0) = 500 \<and>
   entry_sum committed_delta (on_period (''pol_mem'', 0)) (ledger demo_committed) = 500"
  using spend_ledger_conserved [OF demo_committed_reachable, of "(''pol_mem'', 0)"]
  by (simp add: demo_committed_def demo_ledger_def demo_balance_def bal_committed_def b_key_def)

text \<open>
  C2: no budget period is ever overspent. In a run in which no policy's limit exceeds \<open>B\<close> of its
  id, the committed and reserved amounts of a period together never exceed it, whatever commands,
  rollovers, policy revisions and membership changes come in between.
\<close>

theorem spend_never_over_limit:
  assumes "spend_reachable env B db"
  shows "bal_committed (ledger db) (i, t) + bal_reserved (ledger db) (i, t) \<le> max 0 (B i)"
  using spend_reachable_inv(2) [OF assms] by (auto simp: within_limits_def used_def)

theorem spend_never_over_limit_witness:
  "bal_committed (ledger demo_held) (''pol_mem'', 0) + bal_reserved (ledger demo_held) (''pol_mem'', 0)
     \<le> max 0 (demo_limits ''pol_mem'')"
  by (rule spend_never_over_limit [OF demo_held_reachable])

text \<open>
  C3: a closed reservation holds no capacity. Once a reservation is COMMITTED, RELEASED or EXPIRED,
  no budget period keeps anything reserved for it.
\<close>

theorem closed_reservation_holds_nothing:
  assumes "spend_reachable env B db" and "r \<in> set (reservations (ledger db))" and "r_status r \<noteq> ACTIVE"
  shows "held (ledger db) (r_id r, p, t) = 0"
  using spend_reachable_inv(1) [OF assms(1)] assms(2,3) by (simp add: spend_inv_def closed_holds_def)

theorem closed_reservation_holds_nothing_witness:
  "demo_reservation RELEASED 1 \<in> set (reservations (ledger demo_released)) \<and>
   held (ledger demo_released) (demo_rid, ''pol_mem'', 0) = 0"
  using closed_reservation_holds_nothing [OF demo_released_reachable, of "demo_reservation RELEASED 1" "''pol_mem''" 0]
  by (simp add: demo_released_def demo_ledger_def demo_reservation_def)

text \<open>
  one ACTIVE reservation per purchase. Two live reservations of the same Organisation and
  purchase reference in a reachable state are the same reservation.
\<close>

theorem one_live_reservation_per_purchase:
  assumes "spend_reachable env B db"
    and "r \<in> set (reservations (ledger db))" and "s \<in> set (reservations (ledger db))"
    and "live_reservation r" and "live_reservation s"
    and "r_organisation r = r_organisation s" and "r_purchase r = r_purchase s"
  shows "r = s"
proof -
  note L = base_invD(2) [OF reachable_base [OF assms(1)]]
  have "r_purchase r \<noteq> None" using L assms(2) unfolding reservations_ok_def by blast
  then have "same_purchase r s" using assms(6,7) by (simp add: same_purchase_def)
  then have "clash r s" using assms(4,5) unfolding clash_def by blast
  then have "r_id r = r_id s"
    using L assms(2,3) unfolding reservations_ok_def unique_live_def by blast
  then show ?thesis
    using reservations_ok_find [OF L assms(2)] reservations_ok_find [OF L assms(3)] by (metis option.inject)
qed

theorem one_live_reservation_per_purchase_witness:
  "live_reservation (demo_reservation ACTIVE 1) \<and> hd (reservations (ledger demo_held)) = demo_reservation ACTIVE 1"
  using one_live_reservation_per_purchase [OF demo_held_reachable,
      of "hd (reservations (ledger demo_held))" "demo_reservation ACTIVE 1"]
  by (simp add: demo_held_def demo_ledger_def demo_reservation_def live_reservation_def)

section \<open>The commands\<close>

lemma run_applied:
  assumes "run_command env link kind request key actor organisation execute db = (APPLIED ok, db')"
  obtains db1 row where "link = Up" and "execute db = Inr (ok, db1)"
    and "db' = db1\<lparr>commands := commands db1 @ [row]\<rparr>" and "sc_key row = key" and "sc_kind row = kind"
    and "sc_organisation row = organisation" and "sc_digest row = request_digest env kind request"
    and "sc_result row = ok" and "find_row sc_key key (commands db) = None" and "key \<notin> sc_key ` set (commands db1)"
  using assms
proof (cases rule: run_command_cases)
  case kept
  then show ?thesis by blast
next
  case (applied ok')
  then have "ok' = ok" "link = Up" by (auto split: if_splits) (cases link; simp)
  then show ?thesis using command_tx_facts [OF applied(3)] applied(2) that by metis
qed

lemma submit_applied:
  assumes "submit env link app_now now c db = (Inr (APPLIED ok), db')"
  shows "assertSubmit app_now c \<and>
    run_command env link K_SUBMIT (SubmitReq c) (sub_key c) (sub_actor c) (sub_organisation c)
      (reserveNew env now c) db = (APPLIED ok, db')"
  using assms by (auto simp: submit_def apfst_def map_prod_def split: if_splits prod.splits)

lemma commit_applied:
  assumes "commitCapacity env link now c m db = (Inr (APPLIED ok), db')"
  obtains request where
    "run_command env link K_COMMIT request (cmd_key c) (cmd_actor c) (cmd_organisation c)
      (commit_body env now c m) db = (APPLIED ok, db')"
  using assms by (auto simp: commitCapacity_def apfst_def map_prod_def split: if_splits prod.splits)

lemma release_applied:
  assumes "release env link now c reason db = (Inr (APPLIED ok), db')"
  obtains why where
    "run_command env link K_RELEASE (ReleaseReq c reason) (cmd_key c) (cmd_actor c) (cmd_organisation c)
      (close_body env now c why RELEASED False) db = (APPLIED ok, db')"
  using assms by (auto simp: release_def apfst_def map_prod_def split: if_splits prod.splits)

lemma rollover_applied:
  assumes "rollover env link now c db = (Inr (APPLIED ok), db')"
  shows "run_command env link K_ROLLOVER (RolloverReq c) (cmd_key c) (cmd_actor c) (cmd_organisation c)
      (rollover_body env now c) db = (APPLIED ok, db')"
  using assms by (auto simp: rollover_def apfst_def map_prod_def split: if_splits prod.splits)

text \<open>
  C4: a submission takes the full amount from every budget that applies. An applied submission
  leaves a new ACTIVE reservation of the command's amount that holds exactly that amount on each
  applicable budget, among them exactly one MEMBERSHIP budget, and nothing on any other budget or
  period; each such period stays within its policy's limit, and no other reservation's hold moves.
\<close>

theorem submit_takes_full_amount:
  assumes "spend_reachable env B db" and "submit env link app_now now c db = (Inr (APPLIED ok), db')"
  shows "\<exists>r ps. r \<in> set (reservations (ledger db')) \<and> r_id r = a_reservation ok \<and> r_status r = ACTIVE \<and>
     r_amount r = Some (sub_amount c) \<and> r_id r \<notin> r_id ` set (reservations (ledger db)) \<and>
     applicablePolicies env now r (ledger db) = Inr ps \<and> in_scope MEMBERSHIP ps = 1 \<and>
     (\<forall>p \<in> set ps. held (ledger db') (key_at (r_id r) p) = sub_amount c \<and>
        (\<forall>q. find_row p_id (pr_id p) (policies (ledger db)) = Some q \<longrightarrow>
             used (ledger db') (pr_id p, pr_starts p) \<le> p_limit q)) \<and>
     (\<forall>k. held (ledger db') k =
        (if fst k = r_id r then (if k \<in> key_at (r_id r) ` set ps then sub_amount c else 0) else held (ledger db) k))"
proof -
  note inv = spend_reachable_inv(1) [OF assms(1)]
  have as: "assertSubmit app_now c"
    and run: "run_command env link K_SUBMIT (SubmitReq c) (sub_key c) (sub_actor c) (sub_organisation c)
      (reserveNew env now c) db = (APPLIED ok, db')"
    using submit_applied [OF assms(2)] by blast+
  obtain db1 row where ex: "reserveNew env now c db = Inr (ok, db1)"
    and db': "db' = db1\<lparr>commands := commands db1 @ [row]\<rparr>"
    using run_applied [OF run] by metis
  obtain r ps where r: "r = reservation_of env now c None" and fresh: "r_id r \<notin> r_id ` set (reservations (ledger db))"
    and ap: "applicablePolicies env now r (ledger db) = Inr ps" and ok: "a_reservation ok = r_id r"
    and rs: "reservations (ledger db1) = reservations (ledger db) @ [r]"
    and h: "\<And>k. held (ledger db1) k = held (ledger db) k + (if \<exists>p \<in> set ps. key_at (r_id r) p = k then sub_amount c else 0)"
    and lim: "\<And>p q. p \<in> set ps \<Longrightarrow> find_row p_id (pr_id p) (policies (ledger db)) = Some q \<Longrightarrow>
       used (ledger db1) (pr_id p, pr_starts p) \<le> p_limit q"
    by (rule reserveNew_effect [OF ex inv assertSubmit_amount [OF as]]) (rule that; (assumption | simp))
  have zero: "held (ledger db) (key_at (r_id r) p) = 0" for p
    unfolding key_at_def using held_unowned [OF base_invD(4) [OF reachable_base [OF assms(1)]] fresh] .
  have one: "in_scope MEMBERSHIP ps = 1"
    using applicable_policies_facts(5) [OF ap base_invD(3) [OF reachable_base [OF assms(1)]]] .
  show ?thesis
  proof (intro exI [of _ r] exI [of _ ps] conjI ballI allI impI)
    show "r_status r = ACTIVE" "r_amount r = Some (sub_amount c)" by (simp_all add: r reservation_of_def)
    fix p assume p: "p \<in> set ps"
    then show "held (ledger db') (key_at (r_id r) p) = sub_amount c" using h zero db' by auto
    fix q assume "find_row p_id (pr_id p) (policies (ledger db)) = Some q"
    then show "used (ledger db') (pr_id p, pr_starts p) \<le> p_limit q" using lim [OF p] db' by simp
  next
    fix k :: "string \<times> string \<times> instant"
    have "held (ledger db) k = 0" if "fst k = r_id r"
      using that held_unowned [OF base_invD(4) [OF reachable_base [OF assms(1)]] fresh] by (cases k) simp
    then show "held (ledger db') k =
        (if fst k = r_id r then (if k \<in> key_at (r_id r) ` set ps then sub_amount c else 0) else held (ledger db) k)"
      using h [of k] db' by (auto simp: key_at_def)
  qed (use rs db' ok ap one fresh in simp_all)
qed

theorem submit_takes_full_amount_witness:
  "\<exists>r ps. r \<in> set (reservations (ledger demo_held)) \<and> r_id r = demo_rid \<and>
     applicablePolicies demo_env demo_now r (ledger demo_ready) = Inr ps \<and> in_scope MEMBERSHIP ps = 1 \<and>
     (\<forall>k. fst k = r_id r \<and> k \<notin> key_at (r_id r) ` set ps \<longrightarrow> held (ledger demo_held) k = 0)"
  using submit_takes_full_amount [OF demo_ready_reachable demo_submit_run] by (fastforce simp: demo_applied_def)

text \<open>
  a commitment converts exactly what was approved, and spends nothing twice. An applied COMMIT
  names an ACTIVE, unexpired reservation with the same digest, version, amount and hold revision,
  of which every applicable budget held the full amount; it moves that amount from reserved to
  committed on each of them, leaves nothing reserved, closes the reservation, and changes the
  total use of no period.
\<close>

theorem commit_converts_reserved:
  assumes "spend_reachable env B db" and "commitCapacity env link now c None db = (Inr (APPLIED ok), db')"
  shows "\<exists>r ps. r \<in> set (reservations (ledger db)) \<and> r_id r = cmd_reservation c \<and>
     r_organisation r = cmd_organisation c \<and> r_status r = ACTIVE \<and> now < r_expires r \<and>
     r_digest r = com_digest c \<and> com_version c = JInt (r_version r) \<and> r_amount r = Some (com_amount c) \<and>
     com_hold_revision c = JInt (r_hold_revision r) \<and> applicablePolicies env now r (ledger db) = Inr ps \<and>
     (\<forall>p \<in> set ps. held (ledger db) (key_at (r_id r) p) = com_amount c \<and>
        held_committed (ledger db') (key_at (r_id r) p) = held_committed (ledger db) (key_at (r_id r) p) + com_amount c) \<and>
     (\<forall>i t. held (ledger db') (r_id r, i, t) = 0) \<and> (\<forall>j. used (ledger db') j = used (ledger db) j) \<and>
     r\<lparr>r_status := COMMITTED\<rparr> \<in> set (reservations (ledger db'))"
proof -
  note inv = spend_reachable_inv(1) [OF assms(1)]
  note L = base_invD [OF reachable_base [OF assms(1)]]
  obtain request where
    run: "run_command env link K_COMMIT request (cmd_key c) (cmd_actor c) (cmd_organisation c)
      (commit_body env now c None) db = (APPLIED ok, db')"
    using commit_applied [OF assms(2)] .
  obtain db1 row where ex: "commit_body env now c None db = Inr (ok, db1)"
    and db': "db' = db1\<lparr>commands := commands db1 @ [row]\<rparr>"
    using run_applied [OF run] by metis
  obtain r ps d where lk: "lockReservation (cmd_organisation c) (cmd_reservation c) (ledger db) = Inr r"
    and st: "r_status r = ACTIVE" and xp: "\<not> expired now r"
    and bind: "r_digest r = com_digest c" "com_version c = JInt (r_version r)"
      "amount_of r = com_amount c" "com_hold_revision c = JInt (r_hold_revision r)"
    and ap: "applicablePolicies env now r (ledger db) = Inr ps"
    and ns: "\<not> holds_stale ps (holds_of (r_id r) (ledger db)) (amount_of r)"
    and h: "\<And>k. held (ledger d) k = (if fst k = r_id r then 0 else held (ledger db) k)"
    and cm: "\<And>k. held_committed (ledger d) k = held_committed (ledger db) k +
           (if \<exists>p \<in> set ps. key_at (r_id r) p = k then amount_of r else 0)"
    and u: "\<And>j. used (ledger d) j = used (ledger db) j"
    and rs: "reservations (ledger d) = upd_row r_id (r_id r) (\<lambda>_. r\<lparr>r_status := COMMITTED\<rparr>) (reservations (ledger db))"
    and mu: "Inr d = (Inr db1 :: tx_error + spend_db)"
    by (rule commit_effect [OF ex inv]) (rule that; (assumption | simp))
  note F = lockReservation_facts [OF lk]
  have rows: "r\<lparr>r_status := COMMITTED\<rparr> \<in> set (reservations (ledger d))"
    unfolding rs using reservation_rows_upd [OF L(6) reservations_ok_find [OF L(2) F(1)], of "r\<lparr>r_status := COMMITTED\<rparr>"] by simp
  show ?thesis
  proof (intro exI [of _ r] exI [of _ ps] conjI ballI allI)
    show "now < r_expires r" using xp by (simp add: expired_def)
    show "r_amount r = Some (com_amount c)" using F(5) bind(3) by simp
    fix p assume p: "p \<in> set ps"
    show "held (ledger db) (key_at (r_id r) p) = com_amount c" using not_stale_held(1) [OF ns L(5) p] bind(3) by simp
    show "held_committed (ledger db') (key_at (r_id r) p) = held_committed (ledger db) (key_at (r_id r) p) + com_amount c"
      using cm [of "key_at (r_id r) p"] p mu db' bind(3) by auto
  qed (use F st bind ap h u rows mu db' in simp_all)
qed

theorem commit_converts_reserved_witness:
  "\<exists>r ps. applicablePolicies demo_env (demo_now + 5) r (ledger demo_held) = Inr ps \<and>
     (\<forall>p \<in> set ps. held (ledger demo_held) (key_at (r_id r) p) = 500) \<and>
     (\<forall>i t. held (ledger demo_committed) (r_id r, i, t) = 0)"
  using commit_converts_reserved [OF demo_held_reachable demo_commit_run] by (auto simp: demo_commit_def)

text \<open>
  a commitment never moves a hold. If some applicable budget does not hold the full amount at
  its current period and revision, or a hold is kept on a budget that no longer applies, the
  commitment is refused with ROLLOVER_REQUIRED and nothing is written.
\<close>

theorem stale_commit_needs_rollover:
  assumes "assertReservationCommand c" and "assertCommit c" and "find_row sc_key (cmd_key c) (commands db) = None"
    and "lockReservation (cmd_organisation c) (cmd_reservation c) (ledger db) = Inr r"
    and "r_status r = ACTIVE" and "now < r_expires r"
    and "r_digest r = com_digest c" and "com_version c = JInt (r_version r)" and "r_amount r = Some (com_amount c)"
    and "com_hold_revision c = JInt (r_hold_revision r)"
    and "applicablePolicies env now r (ledger db) = Inr ps"
    and "holds_stale ps (holds_of (r_id r) (ledger db)) (com_amount c)"
  shows "commitCapacity env Up now c mutation db = (Inr (REFUSED CONTEXT_NOT_USABLE True), db)"
  using assms
  by (simp add: commitCapacity_def run_command_def command_tx_def commit_body_def expired_def number_is_def amount_of_def)

theorem stale_commit_needs_rollover_witness:
  "commitCapacity demo_env Up (demo_now + 5) demo_commit None demo_revised =
     (Inr (REFUSED CONTEXT_NOT_USABLE True), demo_revised)"
proof -
  have ps: "applicablePolicies demo_env (demo_now + 5) (demo_reservation ACTIVE 1) (ledger demo_revised) =
      Inr [demo_row ''pol_mem'' 2]" by code_simp
  have lk: "lockReservation (cmd_organisation demo_commit) (cmd_reservation demo_commit) (ledger demo_revised) =
      Inr (demo_reservation ACTIVE 1)" by code_simp
  have st: "holds_stale [demo_row ''pol_mem'' 2] (holds_of (r_id (demo_reservation ACTIVE 1)) (ledger demo_revised))
      (com_amount demo_commit)" by code_simp
  have ok: "assertReservationCommand demo_commit" "assertCommit demo_commit" by code_simp+
  have new: "find_row sc_key (cmd_key demo_commit) (commands demo_revised) = None" by code_simp
  show ?thesis
    by (rule stale_commit_needs_rollover [OF ok new lk _ _ _ _ _ _ ps st])
      (simp_all add: demo_reservation_def demo_commit_def demo_now_def)
qed

text \<open>
  a rollover makes the reservation committable again. After an applied rollover every
  applicable budget holds the full amount at its current period and revision and nothing is held
  elsewhere, so a commitment at that instant finds nothing stale; the hold revision advances by one,
  and revalidation is asked for, exactly when something was stale before.
\<close>

theorem rollover_restores_holds:
  assumes "spend_reachable env B db" and "rollover env link now c db = (Inr (APPLIED ok), db')"
  shows "\<exists>r r' ps. r \<in> set (reservations (ledger db)) \<and> r_id r = cmd_reservation c \<and>
     r' \<in> set (reservations (ledger db')) \<and> purchase_binding r' = purchase_binding r \<and> r_status r' = ACTIVE \<and>
     applicablePolicies env now r' (ledger db') = Inr ps \<and>
     \<not> holds_stale ps (holds_of (r_id r) (ledger db')) (amount_of r') \<and>
     a_hold_revision ok = r_hold_revision r' \<and>
     r_hold_revision r' = r_hold_revision r +
       (if holds_stale ps (holds_of (r_id r) (ledger db)) (amount_of r) then 1 else 0) \<and>
     a_revalidate ok = Some (holds_stale ps (holds_of (r_id r) (ledger db)) (amount_of r))"
proof -
  note inv = spend_reachable_inv(1) [OF assms(1)]
  obtain db1 row where ex: "rollover_body env now c db = Inr (ok, db1)"
    and db': "db' = db1\<lparr>commands := commands db1 @ [row]\<rparr>"
    using run_applied [OF rollover_applied [OF assms(2)]] by metis
  obtain r ps moved r' where lk: "lockReservation (cmd_organisation c) (cmd_reservation c) (ledger db) = Inr r"
    and st: "r_status r = ACTIVE" and ap: "applicablePolicies env now r (ledger db) = Inr ps"
    and ok: "ok = \<lparr>a_reservation = r_id r, a_status = ACTIVE,
          a_hold_revision = r_hold_revision r + (if moved then 1 else 0), a_revalidate = Some moved\<rparr>"
    and mv: "moved \<longleftrightarrow> holds_stale ps (holds_of (r_id r) (ledger db)) (amount_of r)"
    and r': "r' = r\<lparr>r_hold_revision := r_hold_revision r + (if moved then 1 else 0)\<rparr>"
    and rows: "set (reservations (ledger db1)) = insert r' (set (reservations (ledger db)) - {r})"
    and pol: "policies (ledger db1) = policies (ledger db)"
    and ns: "\<not> holds_stale ps (holds_of (r_id r) (ledger db1)) (amount_of r)"
    by (rule rollover_effect [OF ex inv]) (rule that; (assumption | simp))
  have "policy_applies now r' = policy_applies now r"
    by (intro ext) (simp add: policy_applies_def r')
  then have "applicablePolicies env now r' (ledger db1) = applicablePolicies env now r (ledger db)"
    unfolding applicablePolicies_def pol r' by simp
  moreover have "amount_of r' = amount_of r" "purchase_binding r' = purchase_binding r" "r_status r' = ACTIVE"
    using st by (simp_all add: r' amount_of_def purchase_binding_def)
  ultimately show ?thesis
    using lockReservation_facts(1,2) [OF lk] ap ns rows db' ok mv r'
    by (intro exI [of _ r] exI [of _ r'] exI [of _ ps]) simp
qed

theorem rollover_restores_holds_witness:
  "\<exists>(r :: reservation) r' ps. applicablePolicies demo_env (demo_now + 5) r' (ledger demo_rolled) = Inr ps \<and>
     r_hold_revision r' = 2 \<and> \<not> holds_stale ps (holds_of (r_id r) (ledger demo_rolled)) (amount_of r')"
proof -
  have two: "a_hold_revision (demo_applied ACTIVE 2 (Some True)) = 2" by (simp add: demo_applied_def)
  show ?thesis
    using rollover_restores_holds [OF demo_revised_reachable demo_rollover_run, unfolded two]
    by (elim exE conjE) (intro exI conjI; (assumption | simp))
qed

end
