(* ===== verification/Spend_Outcomes.thy ===== *)
theory Spend_Outcomes
  imports Spend_Properties
begin

text \<open>
  What a caller can rely on over time: a release undoes a submission, a retried command replays
  its recorded result, a reused key is a conflict, a refusal leaves nothing behind, and nothing
  recorded is taken back.
\<close>

section \<open>Release after submission\<close>

text \<open>
  C5: releasing what was just submitted restores every budget. A submission followed by a release
  of its reservation leaves, for every budget period and every hold key, the reserved amounts
  that were there before.
\<close>

theorem release_undoes_submit:
  assumes "spend_reachable env B db" and "submit env link app_now now c db = (Inr (APPLIED ok), db1)"
    and "release env link' later d reason db1 = (Inr (APPLIED ok'), db2)"
    and "cmd_reservation d = a_reservation ok"
  shows "held (ledger db2) k = held (ledger db) k \<and> bal_reserved (ledger db2) j = bal_reserved (ledger db) j"
proof -
  note inv = spend_reachable_inv(1) [OF assms(1)]
  have as: "assertSubmit app_now c"
    and run: "run_command env link K_SUBMIT (SubmitReq c) (sub_key c) (sub_actor c) (sub_organisation c)
      (reserveNew env now c) db = (APPLIED ok, db1)"
    using submit_applied [OF assms(2)] by blast+
  obtain a row where ex: "reserveNew env now c db = Inr (ok, a)"
    and db1: "db1 = a\<lparr>commands := commands a @ [row]\<rparr>" and unused: "sc_key row \<notin> sc_key ` set (commands a)"
    using run_applied [OF run] by metis
  obtain r ps where "r = reservation_of env now c None" and fresh: "r_id r \<notin> r_id ` set (reservations (ledger db))"
    and ok: "a_reservation ok = r_id r"
    and h1: "\<And>k. held (ledger a) k = held (ledger db) k + (if \<exists>p \<in> set ps. key_at (r_id r) p = k then sub_amount c else 0)"
    and inva: "spend_inv a"
    by (rule reserveNew_effect [OF ex inv assertSubmit_amount [OF as]]) (rule that; (assumption | simp))
  have inv1: "spend_inv db1" using inva unused by (simp add: spend_inv_def db1)
  obtain why where run2: "run_command env link' K_RELEASE (ReleaseReq d reason) (cmd_key d) (cmd_actor d)
      (cmd_organisation d) (close_body env later d why RELEASED False) db1 = (APPLIED ok', db2)"
    using release_applied [OF assms(3)] .
  obtain b row' where ex2: "close_body env later d why RELEASED False db1 = Inr (ok', b)"
    and db2: "db2 = b\<lparr>commands := commands b @ [row']\<rparr>"
    using run_applied [OF run2] by metis
  obtain s where lk: "lockReservation (cmd_organisation d) (cmd_reservation d) (ledger db1) = Inr s"
    and h2: "\<And>k. held (ledger b) k = (if fst k = r_id s then 0 else held (ledger db1) k)"
    and invb: "spend_inv b"
    by (rule close_effect [OF ex2 inv1 reservation_status.distinct(4)]) (rule that; (assumption | simp))
  have id: "r_id s = r_id r" using lockReservation_facts(2) [OF lk] assms(4) ok by simp
  have own: "held (ledger db) (r_id r, x) = 0" for x
    using held_unowned [OF base_invD(4) [OF reachable_base [OF assms(1)]] fresh, of "fst x" "snd x"] by simp
  have same: "held (ledger db2) k = held (ledger db) k" for k
    using h1 [of k] h2 [of k] own [of "snd k"] by (cases k) (auto simp: db1 db2 id key_at_def)
  have "ledger_inv (ledger db)" "ledger_inv (ledger db2)"
    using inv invb by (simp_all add: spend_inv_def base_inv_def db2)
  then show ?thesis using same same_held_same_balance by blast
qed

theorem release_undoes_submit_witness:
  "bal_reserved (ledger demo_released) (''pol_mem'', 0) = bal_reserved (ledger demo_ready) (''pol_mem'', 0)"
proof -
  have "cmd_reservation (demo_command ''release-key-000001'') = a_reservation (demo_applied ACTIVE 1 None)"
    by (simp add: demo_command_def demo_applied_def)
  then show ?thesis
    using release_undoes_submit [OF demo_ready_reachable demo_submit_run demo_release_run] by blast
qed

section \<open>Replay\<close>

lemma recorded_prefix:
  assumes "find_row sc_key k (commands d) = Some row" and "commands d' = commands d @ new"
  shows "find_row sc_key k (commands d') = Some row"
  using assms by simp

text \<open>
  C6: a command is applied once. Whatever happens after an applied command, running it again with
  the same key, kind, request and Organisation reports the recorded result as a replay, runs
  nothing (even if its body would now do something else) and changes nothing.
\<close>

theorem applied_command_replays:
  assumes "spend_reachable env B db'"
    and "run_command env link kind request key actor organisation execute db = (APPLIED ok, db')"
    and "(spend_step env)\<^sup>*\<^sup>* db' db''" and "link' \<noteq> Down"
  shows "run_command env link' kind request key actor' organisation execute' db'' = (REPLAYED ok, db'')"
proof -
  obtain db1 row where db': "db' = db1\<lparr>commands := commands db1 @ [row]\<rparr>"
    and row: "sc_key row = key" "sc_kind row = kind" "sc_organisation row = organisation"
      "sc_digest row = request_digest env kind request" "sc_result row = ok"
    and new: "key \<notin> sc_key ` set (commands db1)"
    by (rule run_applied [OF assms(2)])
  have "find_row sc_key key (commands db1) = None" using new by (simp add: find_row_None_iff)
  then have "find_row sc_key key (commands db') = Some row" using row(1) by (simp add: db')
  moreover obtain later where "commands db'' = commands db' @ later"
    using spend_reachable_steps_grow [OF assms(3) spend_reachable_inv(1) [OF assms(1)]] by blast
  ultimately have "find_row sc_key key (commands db'') = Some row" by (rule recorded_prefix)
  then show ?thesis using assms(4) row by (simp add: run_command_def)
qed

theorem applied_command_replays_witness:
  "run_command demo_env Up K_SUBMIT (SubmitReq demo_submit) (sub_key demo_submit) (sub_actor demo_submit)
     (sub_organisation demo_submit) (reserveNew demo_env (demo_now + 9) demo_submit) demo_released =
     (REPLAYED (demo_applied ACTIVE 1 None), demo_released)"
proof -
  have run: "run_command demo_env Up K_SUBMIT (SubmitReq demo_submit) (sub_key demo_submit) (sub_actor demo_submit)
     (sub_organisation demo_submit) (reserveNew demo_env demo_now demo_submit) demo_ready =
     (APPLIED (demo_applied ACTIVE 1 None), demo_held)"
    using submit_applied [OF demo_submit_run] by blast
  have "(spend_step demo_env)\<^sup>*\<^sup>* demo_held demo_released"
    by (rule r_into_rtranclp) (rule release_step [OF demo_release_run])
  then show ?thesis
    by (rule applied_command_replays [OF demo_held_reachable run]) simp
qed

text \<open>
  an idempotency key belongs to one request. Once a key is recorded, using it for another
  kind of command, another Organisation or a request of another digest is a conflict and changes
  nothing.
\<close>

theorem reused_key_conflicts:
  assumes "find_row sc_key key (commands db) = Some row" and "link \<noteq> Down"
    and "sc_kind row \<noteq> kind \<or> sc_organisation row \<noteq> organisation \<or> sc_digest row \<noteq> request_digest env kind request"
  shows "run_command env link kind request key actor organisation execute db = (CONFLICT, db)"
  using assms by (simp add: run_command_def)

theorem reused_key_conflicts_witness:
  "run_command demo_env Up K_RELEASE (ReleaseReq (demo_command ''submit-key-000001'') ''CANCELLED'')
     ''submit-key-000001'' ''prn_1'' ''org'' (reserveNew demo_env demo_now demo_submit) demo_held = (CONFLICT, demo_held)"
proof -
  have f: "find_row sc_key ''submit-key-000001'' (commands demo_held) = Some demo_submitted"
    by (simp add: demo_held_def demo_submitted_def demo_record_def)
  show ?thesis by (rule reused_key_conflicts [OF f]) (simp_all add: demo_submitted_def demo_record_def)
qed

section \<open>Failures\<close>

text \<open>
  a refusal leaves nothing behind. A command that answers anything but APPLIED, whether
  refused, in conflict, replayed or rejected by the database, leaves every table as it was, as long
  as the reply to the COMMIT itself arrives.
\<close>

theorem failed_command_changes_nothing:
  assumes "run_command env link kind request key actor organisation execute db = (res, db')"
    and "link \<noteq> CommitReplyLost" and "\<And>ok. res \<noteq> APPLIED ok"
  shows "db' = db"
  using assms(1)
proof (cases rule: run_command_cases)
  case (applied ok)
  then show ?thesis using assms(2,3) by simp
qed

theorem failed_command_changes_nothing_witness:
  "snd (run_command demo_env Up K_ROLLOVER (RolloverReq (demo_command ''rollover-key-00009'')) ''rollover-key-00009''
     ''prn_1'' ''org'' (rollover_body demo_env (demo_now + 5) (demo_command ''rollover-key-00009'')) demo_released) =
   demo_released"
proof -
  have run: "run_command demo_env Up K_ROLLOVER (RolloverReq (demo_command ''rollover-key-00009'')) ''rollover-key-00009''
     ''prn_1'' ''org'' (rollover_body demo_env (demo_now + 5) (demo_command ''rollover-key-00009'')) demo_released =
     (REFUSED CONTEXT_NOT_USABLE False, demo_released)" by code_simp
  show ?thesis unfolding run using failed_command_changes_nothing [OF run] by simp
qed

text \<open>
  C7: a lost reply loses nothing. When the reply to the COMMIT of a command is lost, the caller is
  told the source is unavailable although the command was applied; its retry with the same key
  returns the recorded result and applies nothing a second time.
\<close>

theorem lost_reply_is_recorded:
  assumes "run_command env Up kind request key actor organisation execute db = (APPLIED ok, db')"
  shows "run_command env CommitReplyLost kind request key actor organisation execute db =
        (REFUSED SOURCE_UNAVAILABLE False, db') \<and>
      run_command env Up kind request key actor' organisation execute' db' = (REPLAYED ok, db')"
proof -
  obtain db1 row where db': "db' = db1\<lparr>commands := commands db1 @ [row]\<rparr>"
    and row: "sc_key row = key" "sc_kind row = kind" "sc_organisation row = organisation"
      "sc_digest row = request_digest env kind request" "sc_result row = ok"
    and fresh: "find_row sc_key key (commands db) = None" and new: "key \<notin> sc_key ` set (commands db1)"
    by (rule run_applied [OF assms])
  have "find_row sc_key key (commands db') = Some row"
    using new row(1) by (simp add: db' find_row_None_iff [THEN iffD2])
  then have "run_command env Up kind request key actor' organisation execute' db' = (REPLAYED ok, db')"
    using row by (simp add: run_command_def)
  moreover have "run_command env CommitReplyLost kind request key actor organisation execute db =
      (REFUSED SOURCE_UNAVAILABLE False, db')"
    using assms fresh by (auto simp: run_command_def split: sum.splits elim: outcome_of_error.elims)
  ultimately show ?thesis by blast
qed

theorem lost_reply_is_recorded_witness:
  "run_command demo_env CommitReplyLost K_SUBMIT (SubmitReq demo_submit) (sub_key demo_submit) (sub_actor demo_submit)
     (sub_organisation demo_submit) (reserveNew demo_env demo_now demo_submit) demo_ready =
     (REFUSED SOURCE_UNAVAILABLE False, demo_held)"
  using lost_reply_is_recorded [OF submit_applied [OF demo_submit_run, THEN conjunct2]] by blast

section \<open>History\<close>

text \<open>
  nothing recorded is taken back. Along any run from a reachable state the ledger entries and
  the command records are only appended to, and every reservation keeps its id, its purchase, and a
  hold revision that never decreases; once it is closed it never changes again.
\<close>

theorem spend_history_only_grows:
  assumes "spend_reachable env B db" and "(spend_step env)\<^sup>*\<^sup>* db db'"
  shows "(\<exists>new. entries (ledger db') = entries (ledger db) @ new) \<and> (\<exists>new. commands db' = commands db @ new) \<and>
     (\<forall>r \<in> set (reservations (ledger db)). \<exists>r' \<in> set (reservations (ledger db')).
        r_id r' = r_id r \<and> purchase_binding r' = purchase_binding r \<and> r_hold_revision r \<le> r_hold_revision r' \<and>
        (r_status r \<noteq> ACTIVE \<longrightarrow> r' = r))"
  using spend_reachable_steps_grow [OF assms(2) spend_reachable_inv(1) [OF assms(1)]]
  unfolding grows_def evolves_def by blast

theorem spend_history_only_grows_witness:
  "\<exists>new. entries (ledger demo_rolled) = entries (ledger demo_revised) @ new"
proof -
  have "(spend_step demo_env)\<^sup>*\<^sup>* demo_revised demo_rolled"
    by (rule r_into_rtranclp) (rule rollover_step [OF demo_rollover_run])
  then show ?thesis using spend_history_only_grows [OF demo_revised_reachable] by blast
qed

section \<open>Ordering and direct writes\<close>

lemma sorted_wrt_groups:
  assumes "sorted_wrt (<) ids" and "\<And>i. i \<in> set ids \<Longrightarrow> sorted_wrt R (F i)"
    and "\<And>i j x y. i \<in> set ids \<Longrightarrow> j \<in> set ids \<Longrightarrow> i < j \<Longrightarrow> x \<in> set (F i) \<Longrightarrow> y \<in> set (F j) \<Longrightarrow> R x y"
  shows "sorted_wrt R (concat (map F ids))"
  using assms
proof (induction ids)
  case (Cons i ids)
  have "sorted_wrt R (concat (map F ids))"
  proof (rule Cons.IH)
    show "R x y" if "j \<in> set ids" "k \<in> set ids" "j < k" "x \<in> set (F j)" "y \<in> set (F k)" for j k x y
      using Cons.prems(3) [of j k x y] that by simp
  qed (use Cons.prems(1,2) in simp_all)
  moreover have "R x y" if "x \<in> set (F i)" "y \<in> set (concat (map F ids))" for x y
    using Cons.prems(1,3) that by fastforce
  ultimately show ?case using Cons.prems(2) by (simp add: sorted_wrt_append)
qed simp

lemma releaseHold_kind: "e \<in> set (releaseHold env key actor x) \<Longrightarrow> e_kind e = RELEASE"
  by (simp add: releaseHold_def release_row_def split: if_splits)

lemma reserveEntry_kind: "e_kind (reserveEntry env key actor step x) = RESERVE"
  by (simp add: reserveEntry_def reserve_row_def)

definition locks_before :: "ledger_entry \<Rightarrow> ledger_entry \<Rightarrow> bool" where
  "locks_before a b \<longleftrightarrow>
     e_policy a < e_policy b \<or> e_policy a = e_policy b \<and> (e_kind a = RESERVE \<longrightarrow> e_kind b = RESERVE)"

lemma sorted_wrt_all: "(\<And>x y. x \<in> set xs \<Longrightarrow> y \<in> set xs \<Longrightarrow> R x y) \<Longrightarrow> sorted_wrt R xs"
  by (induction xs) auto

text \<open>
  every command locks budgets in one global order. Of the entries a submission, resubmission,
  release or rollover posts, an earlier one is never on a later budget policy id, and on one budget
  no release follows a reservation; a commitment's entries ascend by policy id too. So two commands
  never wait for each other's budgets in opposite orders.
\<close>

theorem commands_lock_in_policy_order:
  assumes "applicablePolicies env now r l = Inr ps"
  shows "sorted_wrt locks_before (ordered_entries cenv key actor step releases reserves) \<and>
     sorted (map e_policy (commit_entries cenv c r' ps))"
proof
  have ids: "sorted_wrt (<) (policy_order releases reserves)"
    by (simp add: policy_order_def strict_sorted_iff)
  show "sorted_wrt locks_before (ordered_entries cenv key actor step releases reserves)"
    unfolding ordered_entries_def
  proof (rule sorted_wrt_groups [OF ids])
    fix i
    have rel: "e_policy e = i \<and> e_kind e = RELEASE"
      if "e \<in> set (concat (map (releaseHold cenv key actor) (filter (\<lambda>x. h_policy (rl_hold x) = i) releases)))" for e
      using that releaseHold_policy releaseHold_kind by fastforce
    have res: "e_policy e = i \<and> e_kind e = RESERVE"
      if "e \<in> set (map (reserveEntry cenv key actor step) (filter (\<lambda>x. pr_id (rs_policy x) = i) reserves))" for e
      using that reserveEntry_policy reserveEntry_kind by fastforce
    show "sorted_wrt locks_before
        (concat (map (releaseHold cenv key actor) (filter (\<lambda>x. h_policy (rl_hold x) = i) releases)) @
         map (reserveEntry cenv key actor step) (filter (\<lambda>x. pr_id (rs_policy x) = i) reserves))"
      unfolding sorted_wrt_append using rel res
      by (intro conjI sorted_wrt_all ballI) (simp_all add: locks_before_def del: set_concat set_map)
  next
    fix i j x y
    assume "i < j"
      and "x \<in> set (concat (map (releaseHold cenv key actor) (filter (\<lambda>x. h_policy (rl_hold x) = i) releases)) @
         map (reserveEntry cenv key actor step) (filter (\<lambda>x. pr_id (rs_policy x) = i) reserves))"
      and "y \<in> set (concat (map (releaseHold cenv key actor) (filter (\<lambda>x. h_policy (rl_hold x) = j) releases)) @
         map (reserveEntry cenv key actor step) (filter (\<lambda>x. pr_id (rs_policy x) = j) reserves))"
    moreover from this have "e_policy x = i" "e_policy y = j"
      using releaseHold_policy reserveEntry_policy by fastforce+
    ultimately show "locks_before x y" by (simp add: locks_before_def)
  qed
  have "sorted (map pr_id ps)"
    using assms by (auto simp: applicablePolicies_def Let_def split: if_splits)
  then show "sorted (map e_policy (commit_entries cenv c r' ps))"
    by (simp add: commit_entries_def commit_row_def comp_def)
qed

theorem commands_lock_in_policy_order_witness:
  "sorted (map e_policy (commit_entries demo_env demo_commit (demo_reservation ACTIVE 1) [demo_row ''pol_mem'' 1]))"
proof -
  have "applicablePolicies demo_env (demo_now + 5) (demo_reservation ACTIVE 1) (ledger demo_held) =
      Inr [demo_row ''pol_mem'' 1]" by code_simp
  then show ?thesis using commands_lock_in_policy_order by blast
qed

text \<open>
  balances and holds move only through the ledger. In a reachable state every direct INSERT
  into the two tables, every UPDATE or DELETE of an existing row of theirs, and every rewrite of a
  ledger entry or command record is refused.
\<close>

theorem ledger_tables_refuse_direct_writes:
  assumes "spend_reachable env B db"
  shows "(\<exists>e. insert_balance b (ledger db) = Inl e) \<and> (\<exists>e. insert_hold h (ledger db) = Inl e) \<and>
     (find_row b_key j (balances (ledger db)) \<noteq> None \<longrightarrow>
        (\<exists>e. update_balance j f (ledger db) = Inl e) \<and> (\<exists>e. delete_balance j (ledger db) = Inl e)) \<and>
     (find_row h_key k (holds (ledger db)) \<noteq> None \<longrightarrow>
        (\<exists>e. update_hold k g (ledger db) = Inl e) \<and> (\<exists>e. delete_hold k (ledger db) = Inl e)) \<and>
     (find_row e_key x (entries (ledger db)) \<noteq> None \<longrightarrow> (\<exists>e. rewrite_entry x (ledger db) = Inl e)) \<and>
     (find_row sc_key y (commands db) \<noteq> None \<longrightarrow> (\<exists>e. rewrite_command y db = Inl e))"
proof -
  have "\<not> ledger_apply (ledger db)"
    using base_invD(1) [OF reachable_base [OF assms]] by (simp add: ledger_inv_def)
  then show ?thesis
    by (auto simp: insert_balance_def insert_hold_def update_balance_def update_hold_def delete_balance_def
        delete_hold_def ledger_table_guard_def rewrite_entry_def rewrite_command_def)
qed

theorem ledger_tables_refuse_direct_writes_witness:
  "\<exists>e. delete_balance (''pol_mem'', 0) (ledger demo_held) = Inl e"
proof -
  have "find_row b_key (''pol_mem'', 0) (balances (ledger demo_held)) \<noteq> None" by code_simp
  then show ?thesis using ledger_tables_refuse_direct_writes [OF demo_held_reachable] by blast
qed

definition refreshed :: "spend_policy \<Rightarrow> hold \<Rightarrow> hold" where
  "refreshed p h = (if h_reserved h = 0 \<and> h_committed h = 0 then h\<lparr>h_policy_revision := p_revision p\<rparr> else h)"

lemma refreshed_fields [simp]:
  "h_key (refreshed p h) = h_key h" "h_reserved (refreshed p h) = h_reserved h"
  "h_committed (refreshed p h) = h_committed h"
  by (simp_all add: refreshed_def h_key_def)

lemma refresh_hold_succeeds:
  assumes "ledger_apply db" and "find_row h_key (h_key h) (holds db) = Some h" and "hold_checks h = Inr ()"
  obtains db1 where "refresh_hold p h db = Inr (refreshed p h, db1)" and "ledger_apply db1"
    and "balances db1 = balances db" and "find_row h_key (h_key h) (holds db1) = Some (refreshed p h)"
proof (cases "h_reserved h = 0 \<and> h_committed h = 0 \<and> h_policy_revision h \<noteq> p_revision p")
  case True
  let ?f = "\<lambda>x. x\<lparr>h_policy_revision := p_revision p\<rparr>"
  have key: "h_key (?f x) = h_key x" for x :: hold by (simp add: h_key_def)
  have "update_hold (h_key h) ?f db = Inr (db\<lparr>holds := upd_row h_key (h_key h) ?f (holds db)\<rparr>)"
    using assms by (simp add: update_hold_def ledger_table_guard_def hold_checks_def)
  moreover have "find_row h_key (h_key h) (upd_row h_key (h_key h) ?f (holds db)) = Some (?f h)"
    using assms(2) by (simp add: find_row_upd_row key)
  ultimately show ?thesis using True assms(1)
    by (intro that [of "db\<lparr>holds := upd_row h_key (h_key h) ?f (holds db)\<rparr>"]) (simp_all add: refresh_hold_def refreshed_def)
next
  case False
  then have "refreshed p h = h" by (auto simp: refreshed_def)
  then show ?thesis using False assms by (intro that [of db]) (auto simp: refresh_hold_def)
qed

lemma move_both_succeeds:
  assumes "ledger_apply db" and "find_row b_key (b_key b) (balances db) = Some b"
    and "find_row h_key (h_key h) (holds db) = Some h" and "hold_checks h = Inr ()" and "balance_checks b = Inr ()"
    and "0 \<le> n"
  shows "\<exists>db'. move_both b (move_reserved n) h (move_hold_reserved n) db = Inr db'"
  using assms
  by (auto simp: move_both_def update_balance_def update_hold_def ledger_table_guard_def move_reserved_def
      move_hold_reserved_def hold_checks_def balance_checks_def split: if_splits)

text \<open>
  the refusal of a reservation names its cause. The caller is told SPEND_LIMIT_EXCEEDED exactly
  when the reservation and the budget are in order and the amount exceeds what is left of the limit;
  a lapsed reservation or a budget not in effect at this revision is CONTEXT_NOT_USABLE.
\<close>

theorem reserve_refusal_names_cause:
  assumes "apply_reserve now p r b h e db = Inl err" and "ledger_apply db"
    and "find_row b_key (b_key b) (balances db) = Some b" and "find_row h_key (h_key h) (holds db) = Some h"
    and "hold_checks h = Inr ()" and "balance_checks b = Inr ()" and "0 < e_amount e"
  shows "outcome_of_error (Native err) =
     REFUSED (if \<not> reservation_lapsed now r \<and> \<not> not_in_effect now p e (refreshed p h)
              then SPEND_LIMIT_EXCEEDED else CONTEXT_NOT_USABLE) False \<and>
     (\<not> reservation_lapsed now r \<and> \<not> not_in_effect now p e (refreshed p h) \<longrightarrow>
        p_limit p < b_committed b + b_reserved b + e_amount e)"
proof -
  have msgs: "refusalFor ''b2b_spend_ledger_entry: insufficient budget capacity'' = SPEND_LIMIT_EXCEEDED"
    "refusalFor ''b2b_spend_ledger_entry: the reservation is not active'' = CONTEXT_NOT_USABLE"
    "refusalFor ''b2b_spend_ledger_entry: the budget is not in effect at this revision'' = CONTEXT_NOT_USABLE"
    by code_simp+
  obtain db1 where rf: "refresh_hold p h db = Inr (refreshed p h, db1)" and d1: "ledger_apply db1"
    "balances db1 = balances db" "find_row h_key (h_key h) (holds db1) = Some (refreshed p h)"
    by (rule refresh_hold_succeeds [OF assms(2,4,5)])
  have "hold_checks (refreshed p h) = Inr ()" using assms(5) by (simp add: hold_checks_def)
  then obtain db2 where mv: "move_both b (move_reserved (e_amount e)) (refreshed p h)
      (move_hold_reserved (e_amount e)) db1 = Inr db2"
    using move_both_succeeds [of db1 b "refreshed p h" "e_amount e"] d1 assms(3,6,7) by auto
  show ?thesis
    using assms(1) by (auto simp: apply_reserve_def rf mv msgs split: if_splits)
qed

theorem reserve_refusal_names_cause_witness:
  "outcome_of_error (Native (RaisedCheck ''b2b_spend_ledger_entry: insufficient budget capacity'')) =
     REFUSED SPEND_LIMIT_EXCEEDED False"
proof -
  define db where "db = (ledger demo_held)\<lparr>ledger_apply := True\<rparr>"
  define e where "e = (demo_reserve ''pol_mem'' 1 ''submit-key-000002'' ''submit'' demo_now)\<lparr>e_amount := 201\<rparr>"
  have run: "apply_reserve demo_now (demo_policy ''pol_mem'' MEMBERSHIP (Some ''mem'') 700) (demo_reservation ACTIVE 1)
      (demo_balance ''pol_mem'' 0 500) (demo_hold ''pol_mem'' 1 0 500) e db =
      Inl (RaisedCheck ''b2b_spend_ledger_entry: insufficient budget capacity'')"
    unfolding db_def e_def by code_simp
  have ok: "\<not> reservation_lapsed demo_now (demo_reservation ACTIVE 1)"
    "\<not> not_in_effect demo_now (demo_policy ''pol_mem'' MEMBERSHIP (Some ''mem'') 700) e
      (refreshed (demo_policy ''pol_mem'' MEMBERSHIP (Some ''mem'') 700) (demo_hold ''pol_mem'' 1 0 500))"
    unfolding e_def by code_simp+
  have at: "ledger_apply db" "find_row b_key (b_key (demo_balance ''pol_mem'' 0 500)) (balances db) = Some (demo_balance ''pol_mem'' 0 500)"
    "find_row h_key (h_key (demo_hold ''pol_mem'' 1 0 500)) (holds db) = Some (demo_hold ''pol_mem'' 1 0 500)"
    "hold_checks (demo_hold ''pol_mem'' 1 0 500) = Inr ()" "balance_checks (demo_balance ''pol_mem'' 0 500) = Inr ()" "0 < e_amount e"
    unfolding db_def e_def by code_simp+
  show ?thesis using reserve_refusal_names_cause [OF run at] ok by (simp only: if_True simp_thms)
qed

end
