(* ===== verification/Buyer_Operation.thy ===== *)
theory Buyer_Operation
  imports Buyer_Reasons Spend_Tables
begin

text \<open>
  The buyer operation policy, \<open>src/src/baobab/b2b/buyer-operation-policy.ts\<close>: the rule of each
  operation, the facts the server loaded, and \<open>evaluateBuyerOperation\<close> with its three helpers.
  A dictionary lookup that misses is \<open>None\<close>; the ECMAScript compiler of the configured purchase-order
  patterns is the parameter \<open>pattern\<close> (\<open>None\<close> where \<open>new RegExp\<close> throws).
\<close>

section \<open>Rules\<close>

definition B2B_ROLES :: "string list" where
  "B2B_ROLES = [''BUYER'', ''SENIOR_BUYER'', ''APPROVER'', ''PROCUREMENT_MANAGER'', ''ACCOUNT_ADMIN'', ''VIEWER'']"

definition BUYER_OPERATION_POLICY_REVISION :: string where
  "BUYER_OPERATION_POLICY_REVISION = ''trade.buyer-operation-policy:v1''"

definition PURCHASING :: "string list" where
  "PURCHASING = [''BUYER'', ''SENIOR_BUYER'', ''PROCUREMENT_MANAGER'', ''ACCOUNT_ADMIN'']"

definition APPROVING :: "string list" where
  "APPROVING = [''APPROVER'', ''PROCUREMENT_MANAGER'', ''ACCOUNT_ADMIN'']"

datatype site_need = SITE_NONE | SITE_IF_REFERENCED | SITE_REQUIRED
datatype operation_kind = READ | CHANGE | COMMITMENT | APPROVAL | GOVERNED

record operation_rule =
  ru_roles :: "string list"
  ru_market :: bool
  ru_site :: site_need
  ru_kind :: operation_kind

definition rule :: "string list \<Rightarrow> bool \<Rightarrow> site_need \<Rightarrow> operation_kind \<Rightarrow> operation_rule" where
  "rule roles market site kind = \<lparr>ru_roles = roles, ru_market = market, ru_site = site, ru_kind = kind\<rparr>"

definition BUYER_OPERATION_RULES :: "(string \<times> operation_rule) list" where
  "BUYER_OPERATION_RULES =
     [(''trade.buyer-context.resolve'', rule B2B_ROLES False SITE_NONE READ),
      (''trade.private-catalogue.view'', rule B2B_ROLES True SITE_IF_REFERENCED READ),
      (''trade.contract-price.view'', rule B2B_ROLES True SITE_IF_REFERENCED READ),
      (''trade.rfq.submit'', rule PURCHASING True SITE_IF_REFERENCED CHANGE),
      (''trade.cart.modify'', rule PURCHASING True SITE_IF_REFERENCED CHANGE),
      (''trade.quotation.accept'', rule PURCHASING True SITE_IF_REFERENCED COMMITMENT),
      (''trade.order.commit'', rule PURCHASING True SITE_REQUIRED COMMITMENT),
      (''trade.order.create'', rule PURCHASING True SITE_REQUIRED COMMITMENT),
      (''trade.draft-order.finalize'', rule PURCHASING True SITE_REQUIRED COMMITMENT),
      (''trade.purchase-approval.decide'', rule APPROVING True SITE_IF_REFERENCED APPROVAL),
      (''trade.buyer-member.manage'', rule [''ACCOUNT_ADMIN''] False SITE_NONE GOVERNED),
      (''trade.buyer-invitation.accept'', rule [] False SITE_NONE GOVERNED)]"

section \<open>Facts\<close>

text \<open>A source that answered, or the word \<open>UNAVAILABLE\<close>.\<close>

datatype 'a source = Loaded 'a | Unloaded

datatype grant_status = GRANT_ACTIVE | GRANT_SUSPENDED | GRANT_REVOKED
datatype site_status = SITE_ACTIVE | SITE_SUSPENDED | SITE_CLOSED
datatype site_use_kind = SHIPPING | BILLING
datatype market_authority = ATTESTED | DENIED | MARKET_UNAVAILABLE
datatype approval_status = PENDING | APPROVED | REJECTED | CANCELLED

record scope_grant =
  g_key :: string
  g_status :: grant_status
  g_from :: "instant option"
  g_until :: "instant option"

record role_assignment =
  ra_id :: string
  ra_role :: string
  ra_markets :: "scope_grant list"
  ra_sites :: "scope_grant list"

record site_use =
  su_site :: string
  su_use :: site_use_kind

record site_record =
  si_id :: string
  si_organisation :: string
  si_market :: string
  si_status :: site_status
  si_shipping :: bool
  si_billing :: bool

record transaction =
  tx_amount :: int
  tx_currency :: string
  tx_digest :: string
  tx_version :: string
  tx_agreement :: "string option"

record budget_fact =
  bf_policy :: string
  bf_revision :: int
  bf_status :: policy_status
  bf_scope :: budget_scope
  bf_membership :: "string option"
  bf_agreement :: "string option"
  bf_market :: string
  bf_currency :: string
  bf_limit :: int
  bf_from :: instant
  bf_until :: "instant option"
  bf_period :: "(instant \<times> instant) option"
  bf_committed :: int
  bf_reserved :: int

record hold_fact =
  hf_policy :: string
  hf_revision :: int
  hf_starts :: instant
  hf_reserved :: int

record reservation_fact =
  rf_status :: reservation_status
  rf_membership :: string
  rf_market :: string
  rf_currency :: string
  rf_agreement :: "string option"
  rf_digest :: string
  rf_version :: string
  rf_expires :: instant
  rf_holds :: "hold_fact list"

record spend_authority =
  sa_market :: "string option"
  sa_currency :: string
  sa_order_limit :: "int option"
  sa_approval_limit :: "int option"
  sa_from :: "instant option"
  sa_until :: "instant option"

record approval_policy =
  ap_market :: "string option"
  ap_currency :: string
  ap_threshold :: "int option"
  ap_enabled :: bool

record po_rule =
  po_required :: bool
  po_pattern :: "string option"

record bound_approval =
  ba_status :: approval_status
  ba_organisation :: string
  ba_initiator :: "string option"
  ba_approver :: "string option"
  ba_market :: "string option"
  ba_amount :: int
  ba_currency :: string
  ba_digest :: "string option"
  ba_version :: "string option"
  ba_policy :: "string option"

record decision =
  d_outcome :: decision_outcome
  d_reasons :: "decision_reason list"

record facts =
  f_operation :: string
  f_now :: instant
  f_principal :: string
  f_organisation :: string
  f_membership :: string
  f_member_status :: string
  f_member_from :: "instant option"
  f_member_until :: "instant option"
  f_roles :: "role_assignment list source"
  f_market :: "string option"
  f_market_authority :: market_authority
  f_sites :: "site_use list"
  f_site_records :: "site_record list source"
  f_transaction :: "transaction option"
  f_spend :: "spend_authority list source"
  f_approval_policies :: "approval_policy list source"
  f_purchase_order :: "(po_rule option \<times> string option) source"
  f_budgets :: "budget_fact list source"
  f_reservation :: "reservation_fact source option"
  f_approval :: "bound_approval option"
  f_reevaluation :: "decision option"

section \<open>Decisions\<close>

definition allow :: decision where
  "allow = \<lparr>d_outcome = ALLOW, d_reasons = []\<rparr>"

definition refuse :: "decision_outcome \<Rightarrow> decision_reason list \<Rightarrow> decision" where
  "refuse outcome reasons = \<lparr>d_outcome = outcome, d_reasons = reasons\<rparr>"

definition deny :: "decision_reason \<Rightarrow> decision" where
  "deny reason = refuse DENY [reason]"

definition unavailable :: decision where
  "unavailable = refuse decision_outcome.UNAVAILABLE [SOURCE_UNAVAILABLE]"

text \<open>\<open>!value\<close> on an optional string: absent or empty.\<close>

definition blank :: "string option \<Rightarrow> bool" where
  "blank x \<longleftrightarrow> x = None \<or> x = Some []"

definition activeGrant :: "scope_grant list \<Rightarrow> string \<Rightarrow> instant \<Rightarrow> bool" where
  "activeGrant grants key now \<longleftrightarrow>
     list_ex (\<lambda>g. g_key g = key \<and> g_status g = GRANT_ACTIVE \<and> in_interval now (g_from g) (g_until g)) grants"

definition isRole :: "string \<Rightarrow> bool" where
  "isRole value \<longleftrightarrow> value \<in> set B2B_ROLES"

datatype 'a selection = One 'a | NONE | AMBIGUOUS

definition single :: "'a list \<Rightarrow> 'a selection" where
  "single records = (case records of [] \<Rightarrow> NONE | [x] \<Rightarrow> One x | _ \<Rightarrow> AMBIGUOUS)"

definition PO_NUMBER :: "string \<Rightarrow> bool" where
  "PO_NUMBER s \<longleftrightarrow>
     1 \<le> length s \<and> length s \<le> 64 \<and> list_all (code_between 32 126) s \<and>
     code_between 33 126 (hd s) \<and> code_between 33 126 (last s)"

definition boundTo :: "bound_approval \<Rightarrow> transaction \<Rightarrow> string \<Rightarrow> bool" where
  "boundTo approval tx market \<longleftrightarrow>
     ba_digest approval = Some (tx_digest tx) \<and> ba_version approval = Some (tx_version tx) \<and>
     ba_amount approval = tx_amount tx \<and> ba_currency approval = tx_currency tx \<and>
     ba_market approval = Some market"

section \<open>Cumulative budgets\<close>

definition current_period :: "instant \<Rightarrow> budget_fact \<Rightarrow> bool" where
  "current_period now b \<longleftrightarrow> (case bf_period b of None \<Rightarrow> False | Some (s, e) \<Rightarrow> s \<le> now \<and> now < e)"

definition own_hold :: "reservation_fact option \<Rightarrow> budget_fact \<Rightarrow> hold_fact option" where
  "own_hold usable b =
     (case usable of
        None \<Rightarrow> None
      | Some r \<Rightarrow>
          List.find (\<lambda>h. hf_policy h = bf_policy b \<and> hf_revision h = bf_revision b \<and>
            (case bf_period b of None \<Rightarrow> False | Some (s, _) \<Rightarrow> hf_starts h = s)) (rf_holds r))"

definition budget_short :: "instant \<Rightarrow> transaction \<Rightarrow> reservation_fact option \<Rightarrow> budget_fact \<Rightarrow> bool" where
  "budget_short now tx usable b \<longleftrightarrow>
     (let current = current_period now b;
          committed = (if current then bf_committed b else 0);
          reserved = (if current then bf_reserved b else 0);
          hold = (if current then own_hold usable b else None);
          needed = tx_amount tx - (case hold of None \<Rightarrow> 0 | Some h \<Rightarrow> hf_reserved h);
          available = bf_limit b - committed - reserved in
      0 < needed \<and> available < needed)"

definition applicable_budgets :: "facts \<Rightarrow> transaction \<Rightarrow> string \<Rightarrow> budget_fact list \<Rightarrow> budget_fact list" where
  "applicable_budgets f tx market bs =
     filter (\<lambda>b. bf_status b = POLICY_ACTIVE \<and> in_interval (f_now f) (Some (bf_from b)) (bf_until b) \<and>
       bf_market b = market \<and> bf_currency b = tx_currency tx) bs"

definition reservation_differs :: "facts \<Rightarrow> transaction \<Rightarrow> string \<Rightarrow> reservation_fact \<Rightarrow> bool" where
  "reservation_differs f tx market r \<longleftrightarrow>
     rf_membership r \<noteq> f_membership f \<or> rf_market r \<noteq> market \<or> rf_currency r \<noteq> tx_currency tx \<or>
     rf_agreement r \<noteq> tx_agreement tx \<or> rf_digest r \<noteq> tx_digest tx \<or> rf_version r \<noteq> tx_version tx"

fun single_list :: "'a selection \<Rightarrow> 'a list" where
  "single_list (One x) = [x]"
| "single_list NONE = []"
| "single_list AMBIGUOUS = []"

definition evaluate_loaded_budgets ::
  "facts \<Rightarrow> transaction \<Rightarrow> string \<Rightarrow> budget_fact list \<Rightarrow> reservation_fact option \<Rightarrow> decision option" where
  "evaluate_loaded_budgets f tx market bs reservation =
     (if case reservation of None \<Rightarrow> False | Some r \<Rightarrow> reservation_differs f tx market r
      then Some (deny TRANSACTION_CHANGED)
      else
        let usable = (case reservation of None \<Rightarrow> None
              | Some r \<Rightarrow> if rf_status r = ACTIVE \<and> f_now f < rf_expires r then Some r else None);
            applicable = applicable_budgets f tx market bs;
            membership = single (filter (\<lambda>b. bf_scope b = MEMBERSHIP \<and> bf_membership b = Some (f_membership f)) applicable);
            organisation = single (filter (\<lambda>b. bf_scope b = ORGANISATION) applicable);
            agreementBudget = single (filter (\<lambda>b. bf_scope b = AGREEMENT \<and> tx_agreement tx \<noteq> None \<and>
              bf_agreement b = tx_agreement tx) applicable) in
        if membership = NONE then Some (deny SPEND_POLICY_NOT_CONFIGURED)
        else if membership = AMBIGUOUS then Some (deny CONTEXT_NOT_USABLE)
        else if organisation = AMBIGUOUS \<or> agreementBudget = AMBIGUOUS then Some (deny CONTEXT_NOT_USABLE)
        else if list_ex (budget_short (f_now f) tx usable)
          (single_list membership @ single_list organisation @ single_list agreementBudget)
        then Some (deny SPEND_LIMIT_EXCEEDED)
        else None)"

definition evaluateBudgets :: "facts \<Rightarrow> transaction \<Rightarrow> string \<Rightarrow> decision option" where
  "evaluateBudgets f tx market =
     (case (f_budgets f, f_reservation f) of
        (Unloaded, _) \<Rightarrow> Some unavailable
      | (_, Some Unloaded) \<Rightarrow> Some unavailable
      | (Loaded bs, None) \<Rightarrow> evaluate_loaded_budgets f tx market bs None
      | (Loaded bs, Some (Loaded r)) \<Rightarrow> evaluate_loaded_budgets f tx market bs (Some r))"

section \<open>Approvals\<close>

definition applyApproval ::
  "facts \<Rightarrow> transaction \<Rightarrow> string \<Rightarrow> bound_approval \<Rightarrow> decision_reason list \<Rightarrow> decision" where
  "applyApproval f tx market approval reasons =
     (if ba_organisation approval \<noteq> f_organisation f then deny BUYER_NOT_AUTHORISED
      else if blank (ba_initiator approval) \<or> blank (ba_approver approval) \<or> ba_policy approval = None
      then deny CONTEXT_NOT_USABLE
      else if ba_initiator approval \<noteq> Some (f_principal f) then deny BUYER_NOT_AUTHORISED
      else if ba_approver approval = ba_initiator approval then deny SEPARATION_OF_DUTIES
      else if \<not> boundTo approval tx market \<or> ba_policy approval \<noteq> Some BUYER_OPERATION_POLICY_REVISION
      then deny TRANSACTION_CHANGED
      else case f_reevaluation f of
        None \<Rightarrow> unavailable
      | Some d \<Rightarrow>
          if d_outcome d = decision_outcome.UNAVAILABLE then unavailable
          else if d_outcome d \<noteq> ALLOW then refuse APPROVAL_REQUIRED reasons
          else allow)"

definition spend_limit :: "facts \<Rightarrow> transaction \<Rightarrow> spend_authority list \<Rightarrow> spend_authority selection" where
  "spend_limit f tx limits =
     single (filter (\<lambda>s. sa_market s = f_market f \<and> sa_currency s = tx_currency tx \<and>
       in_interval (f_now f) (sa_from s) (sa_until s)) limits)"

definition positive_limit :: "int option \<Rightarrow> bool" where
  "positive_limit n \<longleftrightarrow> (case n of None \<Rightarrow> False | Some k \<Rightarrow> 0 < k)"

text \<open>The purchase-order requirement: \<open>None\<close> when it is met or absent.\<close>

definition purchase_order_refusal ::
  "(string \<Rightarrow> (string \<Rightarrow> bool) option) \<Rightarrow> po_rule option \<Rightarrow> string option \<Rightarrow> decision option" where
  "purchase_order_refusal pattern po number =
     (case po of
        None \<Rightarrow> None
      | Some p \<Rightarrow>
          if \<not> po_required p then None
          else case number of
            None \<Rightarrow> Some (deny PURCHASE_ORDER_REQUIRED)
          | Some n \<Rightarrow>
              if n = [] \<or> \<not> PO_NUMBER n then Some (deny PURCHASE_ORDER_REQUIRED)
              else case po_pattern p of
                None \<Rightarrow> None
              | Some text \<Rightarrow>
                  (case pattern text of
                     None \<Rightarrow> Some (deny CONTEXT_NOT_USABLE)
                   | Some matches \<Rightarrow> if matches n then None else Some (deny PURCHASE_ORDER_REQUIRED)))"

definition escalate :: "facts \<Rightarrow> transaction \<Rightarrow> string \<Rightarrow> int \<Rightarrow> approval_policy selection \<Rightarrow> decision" where
  "escalate f tx market limit policy =
     (let overLimit = limit < tx_amount tx in
      if overLimit \<and> policy = NONE then deny SPEND_LIMIT_EXCEEDED
      else
        let overThreshold = (case policy of
              One p \<Rightarrow> (case ap_threshold p of None \<Rightarrow> False | Some t \<Rightarrow> t < tx_amount tx) | _ \<Rightarrow> False) in
        if \<not> overLimit \<and> \<not> overThreshold then allow
        else
          let reasons = (if overLimit then [SPEND_LIMIT_EXCEEDED] else []) @
                (if overThreshold then [APPROVAL_THRESHOLD_EXCEEDED] else []) in
          case f_approval f of
            None \<Rightarrow> refuse APPROVAL_REQUIRED reasons
          | Some approval \<Rightarrow>
              if ba_status approval \<noteq> APPROVED then refuse APPROVAL_REQUIRED reasons
              else applyApproval f tx market approval reasons)"

definition evaluate_spend :: "facts \<Rightarrow> transaction \<Rightarrow> string \<Rightarrow> spend_authority list \<Rightarrow> decision" where
  "evaluate_spend f tx market limits =
     (case spend_limit f tx limits of
        AMBIGUOUS \<Rightarrow> deny CONTEXT_NOT_USABLE
      | NONE \<Rightarrow> deny SPEND_POLICY_NOT_CONFIGURED
      | One limit \<Rightarrow>
          (case sa_order_limit limit of
             None \<Rightarrow> deny SPEND_POLICY_NOT_CONFIGURED
           | Some order_limit \<Rightarrow>
               if order_limit \<le> 0 then deny SPEND_POLICY_NOT_CONFIGURED
               else case evaluateBudgets f tx market of
                 Some refusal \<Rightarrow> refusal
               | None \<Rightarrow>
                   (case f_approval_policies f of
                      Unloaded \<Rightarrow> unavailable
                    | Loaded ps \<Rightarrow>
                        let policy = single (filter (\<lambda>p. ap_enabled p \<and> ap_market p = f_market f \<and>
                              ap_currency p = tx_currency tx) ps) in
                        if policy = AMBIGUOUS then deny CONTEXT_NOT_USABLE
                        else escalate f tx market order_limit policy)))"

definition evaluateCommitment :: "(string \<Rightarrow> (string \<Rightarrow> bool) option) \<Rightarrow> facts \<Rightarrow> decision" where
  "evaluateCommitment pattern f =
     (case (f_transaction f, f_market f) of
        (Some tx, Some market) \<Rightarrow>
          if tx_amount tx \<le> 0 \<or> market = [] then deny CONTEXT_NOT_USABLE
          else
            (case f_purchase_order f of
               Unloaded \<Rightarrow> unavailable
             | Loaded (po, number) \<Rightarrow>
                 (case purchase_order_refusal pattern po number of
                    Some refusal \<Rightarrow> refusal
                  | None \<Rightarrow>
                      (case f_spend f of
                         Unloaded \<Rightarrow> unavailable
                       | Loaded limits \<Rightarrow> evaluate_spend f tx market limits)))
      | _ \<Rightarrow> deny CONTEXT_NOT_USABLE)"

definition evaluateApprovalDecision :: "facts \<Rightarrow> decision" where
  "evaluateApprovalDecision f =
     (case (f_transaction f, f_approval f, f_market f) of
        (Some tx, Some approval, Some market) \<Rightarrow>
          if tx_amount tx \<le> 0 \<or> market = [] then deny CONTEXT_NOT_USABLE
          else if ba_organisation approval \<noteq> f_organisation f then deny BUYER_NOT_AUTHORISED
          else if blank (ba_initiator approval) then deny CONTEXT_NOT_USABLE
          else if ba_initiator approval = Some (f_principal f) then deny SEPARATION_OF_DUTIES
          else if \<not> boundTo approval tx market then deny TRANSACTION_CHANGED
          else
            let reevaluation = (ba_status approval = APPROVED \<and> ba_approver approval = Some (f_principal f)) in
            if ba_status approval \<noteq> PENDING \<and> \<not> reevaluation then deny CONTEXT_NOT_USABLE
            else
              (case f_spend f of
                 Unloaded \<Rightarrow> unavailable
               | Loaded limits \<Rightarrow>
                   (case spend_limit f tx limits of
                      AMBIGUOUS \<Rightarrow> deny CONTEXT_NOT_USABLE
                    | NONE \<Rightarrow> deny APPROVAL_AUTHORITY_NOT_CONFIGURED
                    | One limit \<Rightarrow>
                        (case sa_approval_limit limit of
                           None \<Rightarrow> deny APPROVAL_AUTHORITY_NOT_CONFIGURED
                         | Some n \<Rightarrow>
                             if n \<le> 0 then deny APPROVAL_AUTHORITY_NOT_CONFIGURED
                             else if n < tx_amount tx then deny APPROVAL_THRESHOLD_EXCEEDED
                             else allow)))
      | _ \<Rightarrow> deny CONTEXT_NOT_USABLE)"

section \<open>The operation\<close>

definition site_refusal :: "facts \<Rightarrow> site_record list \<Rightarrow> site_use \<Rightarrow> decision option" where
  "site_refusal f records u =
     (case find_row si_id (su_site u) records of
        None \<Rightarrow> Some (deny BUYER_NOT_AUTHORISED)
      | Some site \<Rightarrow>
          if si_organisation site \<noteq> f_organisation f then Some (deny BUYER_NOT_AUTHORISED)
          else
            let usable = (if su_use u = SHIPPING then si_shipping site else si_billing site) in
            if si_status site \<noteq> SITE_ACTIVE \<or> Some (si_market site) \<noteq> f_market f \<or> \<not> usable
            then Some (deny SITE_NOT_PERMITTED)
            else None)"

fun first_refusal :: "('x \<Rightarrow> decision option) \<Rightarrow> 'x list \<Rightarrow> decision option" where
  "first_refusal f [] = None"
| "first_refusal f (x # xs) = (case f x of Some d \<Rightarrow> Some d | None \<Rightarrow> first_refusal f xs)"

definition market_refusal :: "operation_rule \<Rightarrow> facts \<Rightarrow> decision option" where
  "market_refusal ru f =
     (if \<not> ru_market ru then None
      else if blank (f_market f) then Some (deny CONTEXT_NOT_USABLE)
      else if f_market_authority f = MARKET_UNAVAILABLE then Some unavailable
      else if f_market_authority f \<noteq> ATTESTED then Some (deny MARKET_NOT_PERMITTED)
      else None)"

definition sites_refusal :: "operation_rule \<Rightarrow> facts \<Rightarrow> decision option" where
  "sites_refusal ru f =
     (if ru_site ru = SITE_NONE \<and> f_sites f \<noteq> [] then Some (deny CONTEXT_NOT_USABLE)
      else if ru_site ru = SITE_REQUIRED \<and> \<not> list_ex (\<lambda>s. su_use s = SHIPPING) (f_sites f)
      then Some (deny CONTEXT_NOT_USABLE)
      else if f_sites f \<noteq> [] then
        (case f_site_records f of
           Unloaded \<Rightarrow> Some unavailable
         | Loaded records \<Rightarrow> first_refusal (site_refusal f records) (f_sites f))
      else None)"

definition holds_market :: "operation_rule \<Rightarrow> facts \<Rightarrow> role_assignment \<Rightarrow> bool" where
  "holds_market ru f r \<longleftrightarrow>
     \<not> ru_market ru \<or> (case f_market f of None \<Rightarrow> False | Some m \<Rightarrow> activeGrant (ra_markets r) m (f_now f))"

definition holds_sites :: "facts \<Rightarrow> role_assignment \<Rightarrow> bool" where
  "holds_sites f r \<longleftrightarrow> list_all (\<lambda>s. activeGrant (ra_sites r) (su_site s) (f_now f)) (f_sites f)"

definition permitted_roles :: "operation_rule \<Rightarrow> role_assignment list \<Rightarrow> role_assignment list" where
  "permitted_roles ru rs = filter (\<lambda>r. isRole (ra_role r) \<and> ra_role r \<in> set (ru_roles ru)) rs"

definition evaluateBuyerOperation :: "(string \<Rightarrow> (string \<Rightarrow> bool) option) \<Rightarrow> facts \<Rightarrow> decision" where
  "evaluateBuyerOperation pattern f =
     (case map_of BUYER_OPERATION_RULES (f_operation f) of
        None \<Rightarrow> deny ROLE_NOT_PERMITTED
      | Some ru \<Rightarrow>
          if f_operation f = ''trade.buyer-invitation.accept'' then deny OPERATION_NOT_ACTIVATED
          else if f_member_status f \<noteq> ''ACTIVE'' \<or> \<not> in_interval (f_now f) (f_member_from f) (f_member_until f)
          then deny BUYER_NOT_AUTHORISED
          else
            (case f_roles f of
               Unloaded \<Rightarrow> unavailable
             | Loaded rs \<Rightarrow>
                 let permitted = permitted_roles ru rs in
                 if permitted = [] then deny ROLE_NOT_PERMITTED
                 else if ru_kind ru = GOVERNED then deny OPERATION_NOT_ACTIVATED
                 else
                   (case market_refusal ru f of
                      Some refusal \<Rightarrow> refusal
                    | None \<Rightarrow>
                        (case sites_refusal ru f of
                           Some refusal \<Rightarrow> refusal
                         | None \<Rightarrow>
                             let withMarket = filter (holds_market ru f) permitted in
                             if withMarket = [] then deny MARKET_NOT_PERMITTED
                             else if filter (holds_sites f) withMarket = [] then deny SITE_NOT_PERMITTED
                             else
                               (case ru_kind ru of
                                  COMMITMENT \<Rightarrow> evaluateCommitment pattern f
                                | APPROVAL \<Rightarrow> evaluateApprovalDecision f
                                | _ \<Rightarrow> allow)))))"

end
