(* ===== verification/Buyer_Operation_Properties.thy ===== *)
theory Buyer_Operation_Properties
  imports Buyer_Operation
begin

text \<open>
  What the operation policy promises: the exact scope an ALLOW stands on, what a commitment
  additionally needs, that a budget shortfall is never escalated, and that a source that did not
  answer never allows.
\<close>

named_theorems decision_simps \<open>outcomes of the decision constructors\<close>

lemma decision_outcomes [decision_simps, simp]:
  "d_outcome allow = ALLOW" "d_reasons allow = []"
  "d_outcome (refuse oc rs) = oc" "d_reasons (refuse oc rs) = rs"
  "d_outcome (deny r) = DENY" "d_reasons (deny r) = [r]"
  "d_outcome unavailable = decision_outcome.UNAVAILABLE" "d_reasons unavailable = [SOURCE_UNAVAILABLE]"
  by (simp_all add: allow_def deny_def unavailable_def refuse_def)

lemma single_One_iff: "single xs = One x \<longleftrightarrow> xs = [x]"
  by (auto simp: single_def split: list.splits)

lemma single_NONE_iff: "single xs = NONE \<longleftrightarrow> xs = []"
  by (auto simp: single_def split: list.splits)

lemma single_list_member: "x \<in> set (single_list (single xs)) \<Longrightarrow> x \<in> set xs"
  by (auto simp: single_def split: list.splits)

lemma single_list_all: "single xs \<noteq> AMBIGUOUS \<Longrightarrow> set (single_list (single xs)) = set xs"
  by (auto simp: single_def split: list.splits)

lemma first_refusal_None: "first_refusal f xs = None \<longleftrightarrow> (\<forall>x \<in> set xs. f x = None)"
  by (induction xs) (auto split: option.splits)

section \<open>Reading a chain of refusals\<close>

text \<open>
  An ALLOW passes every guard of a chain of early returns; one equation per shape of guard.
\<close>

named_theorems allow_simps \<open>when a chain of refusals ends in ALLOW\<close>

lemma allow_if_deny [allow_simps]:
  "d_outcome (if c then deny r else d) = ALLOW \<longleftrightarrow> \<not> c \<and> d_outcome d = ALLOW"
  "d_outcome (if c then unavailable else d) = ALLOW \<longleftrightarrow> \<not> c \<and> d_outcome d = ALLOW"
  by simp_all

lemma allow_source [allow_simps]:
  "d_outcome (case x of Unloaded \<Rightarrow> unavailable | Loaded y \<Rightarrow> g y) = ALLOW \<longleftrightarrow> (\<exists>y. x = Loaded y \<and> d_outcome (g y) = ALLOW)"
  by (cases x) simp_all

lemma allow_option_deny [allow_simps]:
  "d_outcome (case x of None \<Rightarrow> deny r | Some y \<Rightarrow> g y) = ALLOW \<longleftrightarrow> (\<exists>y. x = Some y \<and> d_outcome (g y) = ALLOW)"
  by (cases x) simp_all

lemma allow_single [allow_simps]:
  "d_outcome (case x of One y \<Rightarrow> g y | NONE \<Rightarrow> deny r | AMBIGUOUS \<Rightarrow> deny q) = ALLOW \<longleftrightarrow>
     (\<exists>y. x = One y \<and> d_outcome (g y) = ALLOW)"
  by (cases x) simp_all

lemma allow_refusal:
  "(\<And>d. x = Some d \<Longrightarrow> d_outcome d \<noteq> ALLOW) \<Longrightarrow>
   d_outcome (case x of None \<Rightarrow> b | Some d \<Rightarrow> d) = ALLOW \<longleftrightarrow> x = None \<and> d_outcome b = ALLOW"
  by (cases x) simp_all

text \<open>Well-formedness passes through the same shapes.\<close>

section \<open>Well-formed decisions\<close>

definition well_formed :: "decision \<Rightarrow> bool" where
  "well_formed d \<longleftrightarrow>
     (d_outcome d = ALLOW \<and> d_reasons d = []) \<or>
     (d_outcome d = APPROVAL_REQUIRED \<and> d_reasons d \<noteq> [] \<and>
        set (d_reasons d) \<subseteq> {SPEND_LIMIT_EXCEEDED, APPROVAL_THRESHOLD_EXCEEDED}) \<or>
     (d_outcome d = DENY \<and> length (d_reasons d) = 1 \<and> d_reasons d \<noteq> [SOURCE_UNAVAILABLE]) \<or>
     (d_outcome d = decision_outcome.UNAVAILABLE \<and> d_reasons d = [SOURCE_UNAVAILABLE])"

lemma well_formed_decisions [simp]:
  "well_formed allow" "well_formed unavailable" "well_formed (deny r) \<longleftrightarrow> r \<noteq> SOURCE_UNAVAILABLE"
  by (auto simp: well_formed_def)

lemma well_formed_if: "(c \<Longrightarrow> well_formed a) \<Longrightarrow> (\<not> c \<Longrightarrow> well_formed b) \<Longrightarrow> well_formed (if c then a else b)"
  by simp

lemma well_formed_option:
  "(x = None \<Longrightarrow> well_formed a) \<Longrightarrow> (\<And>y. x = Some y \<Longrightarrow> well_formed (g y)) \<Longrightarrow>
   well_formed (case x of None \<Rightarrow> a | Some y \<Rightarrow> g y)"
  by (cases x) simp_all

lemma well_formed_source:
  "well_formed a \<Longrightarrow> (\<And>y. x = Loaded y \<Longrightarrow> well_formed (g y)) \<Longrightarrow>
   well_formed (case x of Unloaded \<Rightarrow> a | Loaded y \<Rightarrow> g y)"
  by (cases x) simp_all

lemma well_formed_kind:
  "well_formed a \<Longrightarrow> well_formed b \<Longrightarrow> well_formed (case k of COMMITMENT \<Rightarrow> a | APPROVAL \<Rightarrow> b | _ \<Rightarrow> allow)"
  by (cases k) simp_all

lemmas well_formed_intros = well_formed_if well_formed_option well_formed_source well_formed_kind

lemma budgets_well_formed: "evaluateBudgets f tx m = Some d \<Longrightarrow> well_formed d \<and> d_outcome d \<notin> {ALLOW, APPROVAL_REQUIRED}"
  by (auto simp: evaluateBudgets_def evaluate_loaded_budgets_def Let_def
      split: source.splits option.splits if_splits)

lemma escalate_well_formed: "well_formed (escalate f tx m limit policy)"
  by (auto simp: escalate_def applyApproval_def Let_def well_formed_def split: option.splits selection.splits)

lemma commitment_well_formed: "well_formed (evaluateCommitment pattern f)"
  by (auto simp: evaluateCommitment_def evaluate_spend_def purchase_order_refusal_def escalate_well_formed Let_def
      dest: budgets_well_formed split: option.splits source.splits selection.splits)

lemma approval_well_formed: "well_formed (evaluateApprovalDecision f)"
  by (auto simp: evaluateApprovalDecision_def Let_def split: option.splits source.splits selection.splits)

lemma market_refusal_well_formed: "market_refusal ru f = Some d \<Longrightarrow> well_formed d \<and> d_outcome d \<noteq> ALLOW"
  by (auto simp: market_refusal_def split: if_splits)

lemma site_refusal_well_formed: "site_refusal f records u = Some d \<Longrightarrow> well_formed d \<and> d_outcome d \<noteq> ALLOW"
  by (auto simp: site_refusal_def Let_def split: option.splits if_splits)

lemma first_refusal_member: "first_refusal g xs = Some d \<Longrightarrow> \<exists>x \<in> set xs. g x = Some d"
  by (induction xs) (auto split: option.splits)

lemma sites_refusal_well_formed: "sites_refusal ru f = Some d \<Longrightarrow> well_formed d \<and> d_outcome d \<noteq> ALLOW"
  by (auto simp: sites_refusal_def dest!: first_refusal_member dest: site_refusal_well_formed
      split: if_splits source.splits)

text \<open>
  every decision is in the closed vocabulary, and only ALLOW carries no reason. ALLOW has no
  reasons, DENY exactly one that is not SOURCE_UNAVAILABLE, UNAVAILABLE only SOURCE_UNAVAILABLE, and
  APPROVAL_REQUIRED only the limit and threshold it exceeded; a selection is never asked for here.
\<close>

theorem decisions_are_well_formed: "well_formed (evaluateBuyerOperation pattern f)"
  unfolding evaluateBuyerOperation_def Let_def
  by (intro well_formed_intros commitment_well_formed approval_well_formed)
    (auto dest: market_refusal_well_formed sites_refusal_well_formed)

lemma allow_market [allow_simps]:
  "d_outcome (case market_refusal ru f of None \<Rightarrow> b | Some d \<Rightarrow> d) = ALLOW \<longleftrightarrow> market_refusal ru f = None \<and> d_outcome b = ALLOW"
  by (rule allow_refusal) (use market_refusal_well_formed in blast)

lemma allow_sites [allow_simps]:
  "d_outcome (case sites_refusal ru f of None \<Rightarrow> b | Some d \<Rightarrow> d) = ALLOW \<longleftrightarrow> sites_refusal ru f = None \<and> d_outcome b = ALLOW"
  by (rule allow_refusal) (use sites_refusal_well_formed in blast)

lemma allow_budgets [allow_simps]:
  "d_outcome (case evaluateBudgets f tx m of None \<Rightarrow> b | Some d \<Rightarrow> d) = ALLOW \<longleftrightarrow> evaluateBudgets f tx m = None \<and> d_outcome b = ALLOW"
  by (rule allow_refusal) (use budgets_well_formed in blast)

section \<open>Scope\<close>

text \<open>What one role assignment must hold by itself, and the Market and Sites behind it.\<close>

definition site_usable :: "facts \<Rightarrow> site_record list \<Rightarrow> site_use \<Rightarrow> bool" where
  "site_usable f records u \<longleftrightarrow>
     (\<exists>s. find_row si_id (su_site u) records = Some s \<and> si_organisation s = f_organisation f \<and>
        si_status s = SITE_ACTIVE \<and> Some (si_market s) = f_market f \<and>
        (case su_use u of SHIPPING \<Rightarrow> si_shipping s | BILLING \<Rightarrow> si_billing s))"

definition scope_authorised :: "operation_rule \<Rightarrow> facts \<Rightarrow> bool" where
  "scope_authorised ru f \<longleftrightarrow>
     f_member_status f = ''ACTIVE'' \<and> in_interval (f_now f) (f_member_from f) (f_member_until f) \<and>
     (ru_market ru \<longrightarrow> (\<exists>m. f_market f = Some m \<and> m \<noteq> []) \<and> f_market_authority f = ATTESTED) \<and>
     (ru_site ru = SITE_NONE \<longrightarrow> f_sites f = []) \<and>
     (ru_site ru = SITE_REQUIRED \<longrightarrow> (\<exists>u \<in> set (f_sites f). su_use u = SHIPPING)) \<and>
     (f_sites f \<noteq> [] \<longrightarrow> (\<exists>records. f_site_records f = Loaded records \<and> (\<forall>u \<in> set (f_sites f). site_usable f records u))) \<and>
     (\<exists>rs. f_roles f = Loaded rs \<and>
        (\<exists>r \<in> set rs. ra_role r \<in> set (ru_roles ru) \<and> holds_market ru f r \<and> holds_sites f r))"

lemma site_refusal_None: "site_refusal f records u = None \<longleftrightarrow> site_usable f records u"
  by (cases "su_use u") (auto simp: site_refusal_def site_usable_def Let_def split: option.splits if_splits)

lemma market_refusal_None:
  "market_refusal ru f = None \<longleftrightarrow>
     (ru_market ru \<longrightarrow> (\<exists>m. f_market f = Some m \<and> m \<noteq> []) \<and> f_market_authority f = ATTESTED)"
  by (cases "f_market f"; cases "f_market_authority f") (auto simp: market_refusal_def blank_def)

lemma sites_refusal_None:
  "sites_refusal ru f = None \<longleftrightarrow>
     (ru_site ru = SITE_NONE \<longrightarrow> f_sites f = []) \<and>
     (ru_site ru = SITE_REQUIRED \<longrightarrow> (\<exists>u \<in> set (f_sites f). su_use u = SHIPPING)) \<and>
     (f_sites f \<noteq> [] \<longrightarrow> (\<exists>records. f_site_records f = Loaded records \<and> (\<forall>u \<in> set (f_sites f). site_usable f records u)))"
  by (auto simp: sites_refusal_def list_ex_iff first_refusal_None site_refusal_None split: source.splits)

lemma rule_roles_known: "map_of BUYER_OPERATION_RULES operation = Some ru \<Longrightarrow> set (ru_roles ru) \<subseteq> set B2B_ROLES"
  by (drule map_of_SomeD) (auto simp: BUYER_OPERATION_RULES_def rule_def B2B_ROLES_def PURCHASING_def APPROVING_def)

lemma invitation_governed:
  "map_of BUYER_OPERATION_RULES ''trade.buyer-invitation.accept'' = Some ru \<Longrightarrow> ru_kind ru = GOVERNED"
  by (auto simp: BUYER_OPERATION_RULES_def rule_def)

lemma scoped_roles:
  assumes "set (ru_roles ru) \<subseteq> set B2B_ROLES"
  shows "filter (holds_sites f) (filter (holds_market ru f) (permitted_roles ru rs)) \<noteq> [] \<longleftrightarrow>
     (\<exists>r \<in> set rs. ra_role r \<in> set (ru_roles ru) \<and> holds_market ru f r \<and> holds_sites f r)"
  using assms by (auto simp: permitted_roles_def isRole_def filter_empty_conv)

lemma allow_kind [allow_simps]:
  "d_outcome (case k of COMMITMENT \<Rightarrow> a | APPROVAL \<Rightarrow> b | _ \<Rightarrow> allow) = ALLOW \<longleftrightarrow>
     (case k of COMMITMENT \<Rightarrow> d_outcome a = ALLOW | APPROVAL \<Rightarrow> d_outcome b = ALLOW | _ \<Rightarrow> True)"
  by (cases k) simp_all

lemma operation_allow_iff:
  assumes "map_of BUYER_OPERATION_RULES (f_operation f) = Some ru" and "f_roles f = Loaded rs"
  shows "d_outcome (evaluateBuyerOperation pattern f) = ALLOW \<longleftrightarrow>
     f_operation f \<noteq> ''trade.buyer-invitation.accept'' \<and>
     \<not> (f_member_status f \<noteq> ''ACTIVE'' \<or> \<not> in_interval (f_now f) (f_member_from f) (f_member_until f)) \<and>
     permitted_roles ru rs \<noteq> [] \<and> ru_kind ru \<noteq> GOVERNED \<and> market_refusal ru f = None \<and> sites_refusal ru f = None \<and>
     filter (holds_market ru f) (permitted_roles ru rs) \<noteq> [] \<and>
     filter (holds_sites f) (filter (holds_market ru f) (permitted_roles ru rs)) \<noteq> [] \<and>
     (case ru_kind ru of COMMITMENT \<Rightarrow> d_outcome (evaluateCommitment pattern f) = ALLOW
        | APPROVAL \<Rightarrow> d_outcome (evaluateApprovalDecision f) = ALLOW | _ \<Rightarrow> True)"
  unfolding evaluateBuyerOperation_def assms option.case source.case Let_def allow_simps ..

lemma operation_allow_roles:
  assumes "d_outcome (evaluateBuyerOperation pattern f) = ALLOW"
  obtains ru rs where "map_of BUYER_OPERATION_RULES (f_operation f) = Some ru" and "f_roles f = Loaded rs"
  using assms unfolding evaluateBuyerOperation_def allow_simps by blast

text \<open>
  C22: an ALLOW stands on exactly this scope. An operation is allowed if and only if it has a rule
  that is not governed elsewhere, the membership is ACTIVE and in effect, the Market and every named
  Site are usable, one role assignment of a permitted role itself holds the Market grant and every
  Site grant, and the commitment or approval evaluation, where the operation has one, allows it.
\<close>

theorem allow_iff_scope_authorised:
  "d_outcome (evaluateBuyerOperation pattern f) = ALLOW \<longleftrightarrow>
     (\<exists>ru. map_of BUYER_OPERATION_RULES (f_operation f) = Some ru \<and> scope_authorised ru f \<and>
        (case ru_kind ru of
           GOVERNED \<Rightarrow> False
         | COMMITMENT \<Rightarrow> d_outcome (evaluateCommitment pattern f) = ALLOW
         | APPROVAL \<Rightarrow> d_outcome (evaluateApprovalDecision f) = ALLOW
         | _ \<Rightarrow> True))"
proof (cases "\<exists>ru rs. map_of BUYER_OPERATION_RULES (f_operation f) = Some ru \<and> f_roles f = Loaded rs")
  case False
  then show ?thesis by (auto simp: scope_authorised_def elim: operation_allow_roles)
next
  case True
  then obtain ru rs where Some: "map_of BUYER_OPERATION_RULES (f_operation f) = Some ru" and Loaded: "f_roles f = Loaded rs"
    by blast
  let ?P = "permitted_roles ru rs"
  let ?S = "filter (holds_sites f) (filter (holds_market ru f) ?P)"
  have empties: "?S \<noteq> [] \<Longrightarrow> ?P \<noteq> [] \<and> filter (holds_market ru f) ?P \<noteq> []"
    using filter.simps(1) by metis
  have inv: "ru_kind ru \<noteq> GOVERNED \<Longrightarrow> f_operation f \<noteq> ''trade.buyer-invitation.accept''"
    using Some invitation_governed by auto
  have sa: "scope_authorised ru f \<longleftrightarrow>
      f_member_status f = ''ACTIVE'' \<and> in_interval (f_now f) (f_member_from f) (f_member_until f) \<and>
      market_refusal ru f = None \<and> sites_refusal ru f = None \<and> ?S \<noteq> []"
    unfolding scope_authorised_def market_refusal_None sites_refusal_None scoped_roles [OF rule_roles_known [OF Some]]
    using Loaded by simp
  have "d_outcome (evaluateBuyerOperation pattern f) = ALLOW \<longleftrightarrow>
      scope_authorised ru f \<and> ru_kind ru \<noteq> GOVERNED \<and>
      (case ru_kind ru of COMMITMENT \<Rightarrow> d_outcome (evaluateCommitment pattern f) = ALLOW
        | APPROVAL \<Rightarrow> d_outcome (evaluateApprovalDecision f) = ALLOW | _ \<Rightarrow> True)"
    unfolding operation_allow_iff [OF Some Loaded] sa using empties inv by blast
  then show ?thesis using Some by (cases "ru_kind ru") simp_all
qed

section \<open>Commitments\<close>

text \<open>An approval that releases a commitment of this buyer, by somebody else and still in force.\<close>

definition released_by_approval :: "facts \<Rightarrow> transaction \<Rightarrow> string \<Rightarrow> bool" where
  "released_by_approval f tx market \<longleftrightarrow>
     (\<exists>a approver d. f_approval f = Some a \<and> ba_status a = APPROVED \<and> ba_organisation a = f_organisation f \<and>
        ba_initiator a = Some (f_principal f) \<and> ba_approver a = Some approver \<and> approver \<noteq> f_principal f \<and>
        boundTo a tx market \<and> ba_policy a = Some BUYER_OPERATION_POLICY_REVISION \<and>
        f_reevaluation f = Some d \<and> d_outcome d = ALLOW)"

lemma applyApproval_allow:
  "ba_status a = APPROVED \<Longrightarrow> f_approval f = Some a \<Longrightarrow> d_outcome (applyApproval f tx m a rs) = ALLOW \<Longrightarrow>
   released_by_approval f tx m"
  by (auto simp: applyApproval_def released_by_approval_def blank_def split: if_splits option.splits)

definition under_threshold :: "transaction \<Rightarrow> approval_policy selection \<Rightarrow> bool" where
  "under_threshold tx policy \<longleftrightarrow>
     (case policy of One p \<Rightarrow> (case ap_threshold p of None \<Rightarrow> True | Some t \<Rightarrow> tx_amount tx \<le> t) | _ \<Rightarrow> True)"

lemma escalate_allow:
  assumes "d_outcome (escalate f tx m limit policy) = ALLOW"
  shows "(tx_amount tx \<le> limit \<and> under_threshold tx policy) \<or> (released_by_approval f tx m \<and> (tx_amount tx \<le> limit \<or> policy \<noteq> NONE))"
  using assms applyApproval_allow [of _ f tx m]
  by (auto simp: escalate_def under_threshold_def Let_def split: if_splits option.splits selection.splits)

lemma allow_purchase_order [allow_simps]:
  "d_outcome (case purchase_order_refusal pattern p n of None \<Rightarrow> b | Some d \<Rightarrow> d) = ALLOW \<longleftrightarrow>
     purchase_order_refusal pattern p n = None \<and> d_outcome b = ALLOW"
  by (rule allow_refusal) (auto simp: purchase_order_refusal_def split: option.splits if_splits)

lemma commitment_allowE:
  assumes "d_outcome (evaluateCommitment pattern f) = ALLOW"
  obtains tx m po limits s limit ps where "f_transaction f = Some tx" and "f_market f = Some m"
    and "0 < tx_amount tx" and "m \<noteq> []" and "f_purchase_order f = Loaded po" and "f_spend f = Loaded limits"
    and "spend_limit f tx limits = One s" and "sa_order_limit s = Some limit" and "0 < limit"
    and "evaluateBudgets f tx m = None" and "f_approval_policies f = Loaded ps"
    and "d_outcome (escalate f tx m limit
      (single (filter (\<lambda>p. ap_enabled p \<and> ap_market p = f_market f \<and> ap_currency p = tx_currency tx) ps))) = ALLOW"
proof -
  obtain tx m where tm: "f_transaction f = Some tx" "f_market f = Some m"
    using assms by (cases "f_transaction f"; cases "f_market f") (auto simp: evaluateCommitment_def)
  obtain p n limits where l: "\<not> (tx_amount tx \<le> 0 \<or> m = [])" "f_purchase_order f = Loaded (p, n)" "f_spend f = Loaded limits"
      "d_outcome (evaluate_spend f tx m limits) = ALLOW"
    using assms unfolding evaluateCommitment_def tm prod.case option.case allow_simps
    by (auto simp: allow_simps split: prod.splits)
  obtain s limit ps where "spend_limit f tx limits = One s" "sa_order_limit s = Some limit" "\<not> limit \<le> 0"
    "evaluateBudgets f tx m = None" "f_approval_policies f = Loaded ps"
    "d_outcome (escalate f tx m limit
      (single (filter (\<lambda>p. ap_enabled p \<and> ap_market p = f_market f \<and> ap_currency p = tx_currency tx) ps))) = ALLOW"
    using l(4) unfolding evaluate_spend_def Let_def allow_simps by blast
  with tm l show thesis by (intro that) simp_all
qed

text \<open>
  C23: a commitment is allowed only with authority for its amount. It then has a positive amount, one
  unambiguous in-effect order limit for its Market and currency, budgets that pass on their own, and
  either stays within the limit and the approval threshold or is released by an approval bound to
  exactly this transaction, of the current policy revision, initiated by this buyer, given by someone
  else, whose authority was just re-evaluated to ALLOW; above the limit an approval policy must exist.
\<close>

theorem commitment_allowed_only_with_authority:
  assumes "d_outcome (evaluateCommitment pattern f) = ALLOW"
  shows "\<exists>tx m limits s limit ps. f_transaction f = Some tx \<and> 0 < tx_amount tx \<and> f_market f = Some m \<and> m \<noteq> [] \<and>
     f_spend f = Loaded limits \<and> spend_limit f tx limits = One s \<and> sa_order_limit s = Some limit \<and> 0 < limit \<and>
     evaluateBudgets f tx m = None \<and> f_approval_policies f = Loaded ps \<and>
     ((tx_amount tx \<le> limit \<and>
        under_threshold tx (single (filter (\<lambda>p. ap_enabled p \<and> ap_market p = f_market f \<and> ap_currency p = tx_currency tx) ps))) \<or>
      (released_by_approval f tx m \<and>
        (tx_amount tx \<le> limit \<or> (\<exists>p \<in> set ps. ap_enabled p \<and> ap_market p = Some m \<and> ap_currency p = tx_currency tx))))"
proof -
  obtain tx m po limits s limit ps where F: "f_transaction f = Some tx" "f_market f = Some m"
    "0 < tx_amount tx" "m \<noteq> []" "f_spend f = Loaded limits" "spend_limit f tx limits = One s"
    "sa_order_limit s = Some limit" "0 < limit" "evaluateBudgets f tx m = None" "f_approval_policies f = Loaded ps"
    and e: "d_outcome (escalate f tx m limit
      (single (filter (\<lambda>p. ap_enabled p \<and> ap_market p = f_market f \<and> ap_currency p = tx_currency tx) ps))) = ALLOW"
    by (rule commitment_allowE [OF assms])
  have "\<exists>p \<in> set ps. ap_enabled p \<and> ap_market p = Some m \<and> ap_currency p = tx_currency tx"
    if "single (filter (\<lambda>p. ap_enabled p \<and> ap_market p = f_market f \<and> ap_currency p = tx_currency tx) ps) \<noteq> NONE"
    using that F(2) by (auto simp: single_NONE_iff filter_empty_conv)
  with escalate_allow [OF e] F show ?thesis
    by (intro exI [of _ tx] exI [of _ m] exI [of _ limits] exI [of _ s] exI [of _ limit] exI [of _ ps] conjI) (assumption | blast)+
qed

definition sample_transaction :: transaction where
  "sample_transaction = \<lparr>tx_amount = 300, tx_currency = ''KES'', tx_digest = ''d'', tx_version = ''1'', tx_agreement = None\<rparr>"

definition sample_facts :: facts where
  "sample_facts =
     \<lparr>f_operation = ''trade.order.commit'', f_now = 50, f_principal = ''prn_1'', f_organisation = ''org'',
      f_membership = ''mem'', f_member_status = ''ACTIVE'', f_member_from = None, f_member_until = None,
      f_roles = Loaded [\<lparr>ra_id = ''r1'', ra_role = ''BUYER'',
         ra_markets = [\<lparr>g_key = ''KE'', g_status = GRANT_ACTIVE, g_from = None, g_until = None\<rparr>],
         ra_sites = [\<lparr>g_key = ''s1'', g_status = GRANT_ACTIVE, g_from = None, g_until = Some 90\<rparr>]\<rparr>],
      f_market = Some ''KE'', f_market_authority = ATTESTED,
      f_sites = [\<lparr>su_site = ''s1'', su_use = SHIPPING\<rparr>],
      f_site_records = Loaded [\<lparr>si_id = ''s1'', si_organisation = ''org'', si_market = ''KE'', si_status = SITE_ACTIVE,
         si_shipping = True, si_billing = False\<rparr>],
      f_transaction = Some sample_transaction,
      f_spend = Loaded [\<lparr>sa_market = Some ''KE'', sa_currency = ''KES'', sa_order_limit = Some 500,
         sa_approval_limit = None, sa_from = None, sa_until = None\<rparr>],
      f_approval_policies = Loaded [], f_purchase_order = Loaded (None, None),
      f_budgets = Loaded [\<lparr>bf_policy = ''p1'', bf_revision = 1, bf_status = POLICY_ACTIVE, bf_scope = MEMBERSHIP,
         bf_membership = Some ''mem'', bf_agreement = None, bf_market = ''KE'', bf_currency = ''KES'', bf_limit = 1000,
         bf_from = 0, bf_until = None, bf_period = Some (0, 100), bf_committed = 600, bf_reserved = 100\<rparr>],
      f_reservation = None, f_approval = None, f_reevaluation = None\<rparr>"

lemma sample_commitment_allowed: "evaluateCommitment (\<lambda>_. None) sample_facts = allow"
  by code_simp

lemma sample_operation_allowed: "evaluateBuyerOperation (\<lambda>_. None) sample_facts = allow"
  by code_simp

theorem commitment_allowed_only_with_authority_witness:
  "\<exists>tx m. f_transaction sample_facts = Some tx \<and> evaluateBudgets sample_facts tx m = None"
proof -
  have "d_outcome (evaluateCommitment (\<lambda>_. None) sample_facts) = ALLOW" by (simp add: sample_commitment_allowed)
  from commitment_allowed_only_with_authority [OF this] show ?thesis by blast
qed

section \<open>Budgets\<close>

lemma budgets_pass:
  assumes "evaluateBudgets f tx m = None"
  shows "\<exists>bs usable b. f_budgets f = Loaded bs \<and>
     filter (\<lambda>b. bf_scope b = MEMBERSHIP \<and> bf_membership b = Some (f_membership f)) (applicable_budgets f tx m bs) = [b] \<and>
     (usable = None \<or> (\<exists>r. f_reservation f = Some (Loaded r) \<and> usable = Some r \<and> rf_status r = ACTIVE \<and>
        f_now f < rf_expires r \<and> \<not> reservation_differs f tx m r)) \<and>
     \<not> budget_short (f_now f) tx usable b \<and>
     list_all (\<lambda>c. (bf_scope c = ORGANISATION \<or> bf_scope c = AGREEMENT \<and> tx_agreement tx \<noteq> None \<and> bf_agreement c = tx_agreement tx) \<longrightarrow>
        \<not> budget_short (f_now f) tx usable c) (applicable_budgets f tx m bs)"
proof -
  obtain bs res where bs: "f_budgets f = Loaded bs"
    and res: "f_reservation f = None \<and> res = None \<or> (\<exists>r. f_reservation f = Some (Loaded r) \<and> res = Some r)"
    and ev: "evaluate_loaded_budgets f tx m bs res = None"
    using assms by (auto simp: evaluateBudgets_def split: source.splits option.splits)
  define usable where "usable = (case res of None \<Rightarrow> None
        | Some r \<Rightarrow> if rf_status r = ACTIVE \<and> f_now f < rf_expires r then Some r else None)"
  let ?A = "applicable_budgets f tx m bs"
  let ?M = "single (filter (\<lambda>b. bf_scope b = MEMBERSHIP \<and> bf_membership b = Some (f_membership f)) ?A)"
  let ?O = "single (filter (\<lambda>b. bf_scope b = ORGANISATION) ?A)"
  let ?G = "single (filter (\<lambda>b. bf_scope b = AGREEMENT \<and> tx_agreement tx \<noteq> None \<and> bf_agreement b = tx_agreement tx) ?A)"
  have "?M \<noteq> NONE" "?M \<noteq> AMBIGUOUS" "?O \<noteq> AMBIGUOUS" "?G \<noteq> AMBIGUOUS"
    and short: "\<not> list_ex (budget_short (f_now f) tx usable) (single_list ?M @ single_list ?O @ single_list ?G)"
    and same: "\<And>r. res = Some r \<Longrightarrow> \<not> reservation_differs f tx m r"
    using ev unfolding evaluate_loaded_budgets_def Let_def usable_def by (auto split: if_splits)
  then obtain b where b: "?M = One b" by (cases ?M) auto
  have fits: "\<not> budget_short (f_now f) tx usable c" if "c \<in> set (single_list ?O) \<union> set (single_list ?G)" for c
    using short that by (auto simp: list_ex_iff)
  have "\<not> budget_short (f_now f) tx usable b" using short b by simp
  moreover have "list_all (\<lambda>c. (bf_scope c = ORGANISATION \<or> bf_scope c = AGREEMENT \<and> tx_agreement tx \<noteq> None \<and> bf_agreement c = tx_agreement tx) \<longrightarrow>
        \<not> budget_short (f_now f) tx usable c) ?A"
    using fits \<open>?O \<noteq> AMBIGUOUS\<close> \<open>?G \<noteq> AMBIGUOUS\<close> by (auto simp: list_all_iff single_list_all)
  moreover have "usable = None \<or> (\<exists>r. f_reservation f = Some (Loaded r) \<and> usable = Some r \<and> rf_status r = ACTIVE \<and>
        f_now f < rf_expires r \<and> \<not> reservation_differs f tx m r)"
    using res same by (auto simp: usable_def split: option.splits)
  ultimately show ?thesis using bs b [unfolded single_One_iff]
    by (intro exI [of _ bs] exI [of _ usable] exI [of _ b] conjI)
qed

text \<open>
  budgets that pass have room for the purchase. When the budget evaluation raises no refusal,
  exactly one applicable MEMBERSHIP budget exists, at most one ORGANISATION and one AGREEMENT budget
  do, and for each of them what this purchase does not already hold in the current period fits in
  limit minus committed minus reserved.
\<close>

theorem passing_budgets_have_room:
  assumes "evaluateBudgets f tx m = None"
  shows "\<exists>bs usable b. f_budgets f = Loaded bs \<and>
     filter (\<lambda>b. bf_scope b = MEMBERSHIP \<and> bf_membership b = Some (f_membership f)) (applicable_budgets f tx m bs) = [b] \<and>
     (usable = None \<or> (\<exists>r. f_reservation f = Some (Loaded r) \<and> usable = Some r \<and> rf_status r = ACTIVE \<and>
        f_now f < rf_expires r \<and> \<not> reservation_differs f tx m r)) \<and>
     \<not> budget_short (f_now f) tx usable b \<and>
     list_all (\<lambda>c. (bf_scope c = ORGANISATION \<or> bf_scope c = AGREEMENT \<and> tx_agreement tx \<noteq> None \<and> bf_agreement c = tx_agreement tx) \<longrightarrow>
        \<not> budget_short (f_now f) tx usable c) (applicable_budgets f tx m bs)"
  by (rule budgets_pass [OF assms])

theorem passing_budgets_have_room_witness:
  "\<exists>bs. f_budgets sample_facts = Loaded bs \<and> bs \<noteq> []"
proof -
  have "evaluateBudgets sample_facts sample_transaction ''KE'' = None" by code_simp
  from passing_budgets_have_room [OF this] show ?thesis by (auto simp: applicable_budgets_def)
qed

text \<open>
  no approval buys budget. When the cumulative budgets refuse a purchase, the commitment is
  neither allowed nor escalated, whatever approval, re-evaluation or approval policies are supplied.
\<close>

theorem budget_refusal_is_never_escalated:
  assumes "f_transaction f = Some tx" and "f_market f = Some m" and "evaluateBudgets f tx m = Some d"
  shows "d_outcome (evaluateCommitment pattern (f\<lparr>f_approval := a, f_reevaluation := e, f_approval_policies := ps\<rparr>))
     \<notin> {ALLOW, APPROVAL_REQUIRED}"
proof -
  let ?g = "f\<lparr>f_approval := a, f_reevaluation := e, f_approval_policies := ps\<rparr>"
  have "evaluate_loaded_budgets ?g tx m bs r = evaluate_loaded_budgets f tx m bs r" for bs r
    by (cases r) (simp_all add: evaluate_loaded_budgets_def applicable_budgets_def reservation_differs_def Let_def)
  then have "evaluateBudgets ?g tx m = Some d"
    using assms(3) by (auto simp: evaluateBudgets_def split: source.splits option.splits)
  then show ?thesis
    using assms(1,2) budgets_well_formed [of ?g tx m d]
    by (auto simp: evaluateCommitment_def evaluate_spend_def purchase_order_refusal_def
        split: option.splits source.splits selection.splits)
qed

theorem budget_refusal_is_never_escalated_witness:
  "d_outcome (evaluateCommitment (\<lambda>_. None) (sample_facts\<lparr>f_budgets := Loaded [], f_approval := None,
      f_reevaluation := Some allow, f_approval_policies := Loaded []\<rparr>)) \<notin> {ALLOW, APPROVAL_REQUIRED}"
proof -
  let ?f = "sample_facts\<lparr>f_budgets := Loaded []\<rparr>"
  have "evaluateBudgets ?f sample_transaction ''KE'' = Some (deny SPEND_POLICY_NOT_CONFIGURED)" by code_simp
  then show ?thesis
    using budget_refusal_is_never_escalated [of ?f sample_transaction "''KE''"] by (simp add: sample_facts_def)
qed

section \<open>Separation of duties and absent sources\<close>

text \<open>
  C24: nobody approves their own purchase. An allowed approval decision is about an approval of this
  Organisation, bound to the transaction, that somebody else initiated, which is PENDING or was
  APPROVED by this same approver, and within exactly one positive approval limit.
\<close>

theorem approvals_keep_duties_separate:
  assumes "d_outcome (evaluateApprovalDecision f) = ALLOW"
  shows "\<exists>tx a m initiator limits s n. f_transaction f = Some tx \<and> f_approval f = Some a \<and> f_market f = Some m \<and>
     boundTo a tx m \<and> ba_organisation a = f_organisation f \<and> ba_initiator a = Some initiator \<and> initiator \<noteq> f_principal f \<and>
     (ba_status a = PENDING \<or> ba_status a = APPROVED \<and> ba_approver a = Some (f_principal f)) \<and>
     f_spend f = Loaded limits \<and> spend_limit f tx limits = One s \<and> sa_approval_limit s = Some n \<and>
     0 < n \<and> tx_amount tx \<le> n"
  using assms
  by (auto simp: evaluateApprovalDecision_def blank_def Let_def not_le not_less split: option.splits source.splits selection.splits if_splits)

definition sample_approval :: bound_approval where
  "sample_approval =
     \<lparr>ba_status = PENDING, ba_organisation = ''org'', ba_initiator = Some ''prn_1'', ba_approver = None,
      ba_market = Some ''KE'', ba_amount = 300, ba_currency = ''KES'', ba_digest = Some ''d'',
      ba_version = Some ''1'', ba_policy = None\<rparr>"

definition sample_approver_facts :: facts where
  "sample_approver_facts = sample_facts\<lparr>f_principal := ''prn_2'', f_approval := Some sample_approval,
      f_spend := Loaded [\<lparr>sa_market = Some ''KE'', sa_currency = ''KES'', sa_order_limit = None,
         sa_approval_limit = Some 300, sa_from = None, sa_until = None\<rparr>]\<rparr>"

theorem approvals_keep_duties_separate_witness:
  "f_approval sample_approver_facts = Some sample_approval \<and> ba_initiator sample_approval \<noteq> Some (f_principal sample_approver_facts)"
proof -
  have al: "d_outcome (evaluateApprovalDecision sample_approver_facts) = ALLOW" by code_simp
  have "f_approval sample_approver_facts = Some sample_approval" by (simp add: sample_approver_facts_def)
  then show ?thesis using approvals_keep_duties_separate [OF al] by auto
qed

text \<open>
  a source that did not answer never allows. If the roles, spend limits, approval policies,
  purchase-order rule or budgets could not be loaded, or a named reservation could not, a commitment
  operation is not allowed.
\<close>

theorem absent_source_never_allows:
  assumes "map_of BUYER_OPERATION_RULES (f_operation f) = Some ru" and "ru_kind ru = COMMITMENT"
    and "f_roles f = Unloaded \<or> f_spend f = Unloaded \<or> f_approval_policies f = Unloaded \<or>
      f_purchase_order f = Unloaded \<or> f_budgets f = Unloaded \<or> f_reservation f = Some Unloaded"
  shows "d_outcome (evaluateBuyerOperation pattern f) \<noteq> ALLOW"
proof
  assume al: "d_outcome (evaluateBuyerOperation pattern f) = ALLOW"
  obtain rs where rs: "f_roles f = Loaded rs" using operation_allow_roles [OF al] by blast
  have co: "d_outcome (evaluateCommitment pattern f) = ALLOW"
    using al assms(2) unfolding operation_allow_iff [OF assms(1) rs] by simp
  obtain tx m po limits ps where F: "f_purchase_order f = Loaded po" "f_spend f = Loaded limits"
    "evaluateBudgets f tx m = None" "f_approval_policies f = Loaded ps"
    by (rule commitment_allowE [OF co])
  have "f_budgets f \<noteq> Unloaded \<and> f_reservation f \<noteq> Some Unloaded"
    using F(3) by (auto simp: evaluateBudgets_def split: source.splits)
  then show False using assms(3) F rs by simp
qed

theorem absent_source_never_allows_witness:
  "d_outcome (evaluateBuyerOperation (\<lambda>_. None) (sample_facts\<lparr>f_budgets := Unloaded\<rparr>)) \<noteq> ALLOW"
  by (rule absent_source_never_allows [of _ "rule PURCHASING True SITE_REQUIRED COMMITMENT"])
    (simp_all add: sample_facts_def BUYER_OPERATION_RULES_def rule_def)

end
