(* ===== verification/Buyer_Source.thy ===== *)
theory Buyer_Source
  imports Buyer_Operation Js_Text
begin

text \<open>
  The loader of the policy facts, \<open>src/src/baobab/b2b/buyer-operation-policy-source.ts\<close>. The module
  service behind \<open>B2BPolicyStore\<close> is a parameter: each list method is a function whose \<open>None\<close> is a
  rejected promise. \<open>attempt\<close> turns a rejection or a malformed row into an unloaded source; a
  timestamp that is not a valid date is \<open>None\<close> where the code tests for it.
\<close>

section \<open>Rows\<close>

text \<open>\<open>Money\<close>: null, a number, a string, a bigint, or an object with a \<open>value\<close> string.\<close>

datatype money = M_Null | M_Number js_number | M_Text string | M_Bigint int | M_Value string

record role_row =
  rr_id :: string
  rr_role :: string

record scope_row =
  sc_role :: string
  sc_scope :: string
  sc_status :: string
  sc_from :: "instant option"
  sc_until :: "instant option"

record site_row =
  sr_id :: string
  sr_organisation :: string
  sr_market :: string
  sr_status :: string
  sr_shipping :: bool
  sr_billing :: bool

record limit_row =
  lr_market :: "string option"
  lr_currency :: string
  lr_order :: money
  lr_approval :: money
  lr_from :: "instant option"
  lr_until :: "instant option"

record approval_row =
  ar_market :: "string option"
  ar_currency :: string
  ar_threshold :: money
  ar_enabled :: bool

record po_row =
  pw_market :: "string option"
  pw_required :: bool
  pw_pattern :: "string option"

record budget_row =
  br_id :: string
  br_revision :: js_number
  br_status :: string
  br_scope :: string
  br_membership :: "string option"
  br_agreement :: "string option"
  br_market :: string
  br_currency :: string
  br_limit :: money
  br_from :: instant
  br_until :: "instant option"

record balance_row =
  bl_policy :: string
  bl_starts :: "instant option"
  bl_ends :: "instant option"
  bl_committed :: money
  bl_reserved :: money

record reservation_row =
  rv_id :: string
  rv_membership :: string
  rv_market :: string
  rv_currency :: string
  rv_agreement :: "string option"
  rv_digest :: string
  rv_version :: int
  rv_status :: string
  rv_expires :: instant

record hold_row =
  hr_policy :: string
  hr_revision :: int
  hr_starts :: instant
  hr_reserved :: money

record policy_store =
  listBuyerRoles :: "string \<Rightarrow> role_row list option"
  listBuyerRoleMarketScopes :: "string list \<Rightarrow> scope_row list option"
  listBuyerRoleSiteScopes :: "string list \<Rightarrow> scope_row list option"
  listDeliverySites :: "string list \<Rightarrow> string \<Rightarrow> site_row list option"
  listSpendLimits :: "string \<Rightarrow> limit_row list option"
  listApprovalPolicies :: "string \<Rightarrow> approval_row list option"
  listPurchaseOrderRequirements :: "string \<Rightarrow> po_row list option"
  listSpendBudgetPolicies :: "string \<Rightarrow> budget_row list option"
  listSpendBudgetBalances :: "string list \<Rightarrow> balance_row list option"
  listSpendReservations :: "string \<Rightarrow> string \<Rightarrow> reservation_row list option"
  listSpendReservationHolds :: "string \<Rightarrow> hold_row list option"

record policy_request =
  q_organisation :: string
  q_membership :: string
  q_market :: "string option"
  q_sites :: "string list"
  q_now :: "instant option"
  q_reservation :: "string option"

record loaded_policy =
  l_roles :: "role_assignment list source"
  l_sites :: "site_record list source"
  l_spend :: "spend_authority list source"
  l_approvals :: "approval_policy list source"
  l_purchase_order :: "po_rule option source"
  l_budgets :: "budget_fact list source"
  l_reservation :: "reservation_fact source option"

section \<open>Minor units\<close>

datatype minor_units = Minor int | NoMinor | Malformed

text \<open>\<open>/^-?(0|[1-9][0-9]{0,30})$/\<close> and \<open>BigInt\<close> of a match.\<close>

definition unsigned_minor_text :: "string \<Rightarrow> bool" where
  "unsigned_minor_text s \<longleftrightarrow>
     s = ''0'' \<or> (case s of [] \<Rightarrow> False | c # cs \<Rightarrow> code_between 49 57 c \<and> length cs \<le> 30 \<and> list_all digit_char cs)"

definition minor_text :: "string \<Rightarrow> bool" where
  "minor_text s \<longleftrightarrow> unsigned_minor_text (case s of [] \<Rightarrow> [] | c # cs \<Rightarrow> if c = CHR ''-'' then cs else s)"

definition bigint_of_text :: "string \<Rightarrow> int" where
  "bigint_of_text s = (case s of [] \<Rightarrow> 0 | c # cs \<Rightarrow> if c = CHR ''-'' then - digits_value cs else digits_value s)"

definition minor_of_text :: "string \<Rightarrow> minor_units" where
  "minor_of_text s = (if minor_text s then Minor (bigint_of_text s) else Malformed)"

fun toMinorUnits :: "money \<Rightarrow> minor_units" where
  "toMinorUnits M_Null = NoMinor"
| "toMinorUnits (M_Bigint n) = Minor n"
| "toMinorUnits (M_Number n) =
     minor_of_text (case n of JInt k \<Rightarrow> if is_safe_int k then int_text k else [] | JNonInt \<Rightarrow> [])"
| "toMinorUnits (M_Text s) = minor_of_text s"
| "toMinorUnits (M_Value s) = minor_of_text s"

text \<open>\<open>strictMinorUnits\<close>: \<open>None\<close> is the thrown \<open>MalformedRow\<close>.\<close>

definition strictMinorUnits :: "money \<Rightarrow> int option" where
  "strictMinorUnits value =
     (case toMinorUnits value of Minor n \<Rightarrow> if n < 0 then None else Some n | _ \<Rightarrow> None)"

text \<open>\<open>number | string | null\<close> columns whose malformed value makes the whole source unavailable.\<close>

definition nullable_minor :: "money \<Rightarrow> int option option" where
  "nullable_minor value =
     (case toMinorUnits value of Minor n \<Rightarrow> Some (Some n) | NoMinor \<Rightarrow> Some None | Malformed \<Rightarrow> None)"

definition attempt :: "'a option \<Rightarrow> 'a source" where
  "attempt x = (case x of None \<Rightarrow> Unloaded | Some y \<Rightarrow> Loaded y)"

section \<open>Budgets\<close>

definition oneOf :: "string \<Rightarrow> (string \<times> 'a) list \<Rightarrow> 'a option" where
  "oneOf v allowed = map_of allowed v"

definition policy_statuses :: "(string \<times> policy_status) list" where
  "policy_statuses = [(''ACTIVE'', POLICY_ACTIVE), (''SUSPENDED'', POLICY_SUSPENDED), (''RETIRED'', POLICY_RETIRED)]"

definition budget_scopes :: "(string \<times> budget_scope) list" where
  "budget_scopes = [(''MEMBERSHIP'', MEMBERSHIP), (''AGREEMENT'', AGREEMENT), (''ORGANISATION'', ORGANISATION)]"

definition reservation_statuses :: "(string \<times> reservation_status) list" where
  "reservation_statuses = [(''ACTIVE'', ACTIVE), (''COMMITTED'', COMMITTED), (''RELEASED'', RELEASED), (''EXPIRED'', EXPIRED)]"

definition valid_period :: "balance_row \<Rightarrow> bool" where
  "valid_period b \<longleftrightarrow> (case (bl_starts b, bl_ends b) of (Some s, Some e) \<Rightarrow> s < e | _ \<Rightarrow> False)"

definition holds_now :: "instant \<Rightarrow> balance_row \<Rightarrow> bool" where
  "holds_now now b \<longleftrightarrow> (case (bl_starts b, bl_ends b) of (Some s, Some e) \<Rightarrow> s \<le> now \<and> now < e | _ \<Rightarrow> False)"

definition balance_amounts :: "balance_row list \<Rightarrow> (int \<times> int) option" where
  "balance_amounts current =
     (case current of
        [] \<Rightarrow> Some (0, 0)
      | b # _ \<Rightarrow>
          (case (strictMinorUnits (bl_committed b), strictMinorUnits (bl_reserved b)) of
             (Some c, Some r) \<Rightarrow> Some (c, r) | _ \<Rightarrow> None))"

definition current_bounds :: "balance_row list \<Rightarrow> (instant \<times> instant) option" where
  "current_bounds current =
     (case current of [] \<Rightarrow> None | b # _ \<Rightarrow> (case (bl_starts b, bl_ends b) of (Some s, Some e) \<Rightarrow> Some (s, e) | _ \<Rightarrow> None))"

definition toBudget :: "budget_row \<Rightarrow> balance_row list \<Rightarrow> instant option \<Rightarrow> budget_fact option" where
  "toBudget row bs instant =
     (case (strictMinorUnits (br_limit row), br_revision row, instant) of
        (Some limit, JInt revision, Some now) \<Rightarrow>
          if limit \<le> 0 \<or> \<not> is_safe_int revision \<or> revision < 1 then None
          else
            let periods = filter (\<lambda>b. bl_policy b = br_id row) bs;
                current = filter (holds_now now) periods in
            if \<not> list_all valid_period periods \<or> 1 < length current then None
            else
              (case (oneOf (br_status row) policy_statuses, oneOf (br_scope row) budget_scopes, balance_amounts current) of
                 (Some status, Some scope, Some (committed, reserved)) \<Rightarrow>
                   Some \<lparr>bf_policy = br_id row, bf_revision = revision, bf_status = status, bf_scope = scope,
                     bf_membership = br_membership row, bf_agreement = br_agreement row, bf_market = br_market row,
                     bf_currency = br_currency row, bf_limit = limit, bf_from = br_from row, bf_until = br_until row,
                     bf_period = current_bounds current, bf_committed = committed, bf_reserved = reserved\<rparr>
               | _ \<Rightarrow> None)
      | _ \<Rightarrow> None)"

definition load_budgets :: "policy_store \<Rightarrow> policy_request \<Rightarrow> budget_fact list option" where
  "load_budgets store q =
     (case listSpendBudgetPolicies store (q_organisation q) of
        None \<Rightarrow> None
      | Some rows \<Rightarrow>
          if rows = [] then Some []
          else case listSpendBudgetBalances store (map br_id rows) of
            None \<Rightarrow> None
          | Some bs \<Rightarrow> those (map (\<lambda>row. toBudget row bs (q_now q)) rows))"

section \<open>Roles and Sites\<close>

definition grant_status_of :: "string \<Rightarrow> grant_status" where
  "grant_status_of s =
     (if s = ''ACTIVE'' then GRANT_ACTIVE else if s = ''REVOKED'' then GRANT_REVOKED else GRANT_SUSPENDED)"

definition toGrant :: "scope_row \<Rightarrow> scope_grant" where
  "toGrant row = \<lparr>g_key = sc_scope row, g_status = grant_status_of (sc_status row), g_from = sc_from row, g_until = sc_until row\<rparr>"

definition toAssignment :: "scope_row list \<Rightarrow> scope_row list \<Rightarrow> role_row \<Rightarrow> role_assignment" where
  "toAssignment markets sites r =
     \<lparr>ra_id = rr_id r, ra_role = rr_role r,
      ra_markets = map toGrant (filter (\<lambda>g. sc_role g = rr_id r) markets),
      ra_sites = map toGrant (filter (\<lambda>g. sc_role g = rr_id r) sites)\<rparr>"

definition load_roles :: "policy_store \<Rightarrow> policy_request \<Rightarrow> role_assignment list option" where
  "load_roles store q =
     (case listBuyerRoles store (q_membership q) of
        None \<Rightarrow> None
      | Some assigned \<Rightarrow>
          let ids = map rr_id assigned in
          if ids = [] then Some []
          else case (listBuyerRoleMarketScopes store ids, listBuyerRoleSiteScopes store ids) of
            (Some markets, Some sites) \<Rightarrow> Some (map (toAssignment markets sites) assigned)
          | _ \<Rightarrow> None)"

definition toSite :: "site_row \<Rightarrow> site_record" where
  "toSite s =
     \<lparr>si_id = sr_id s, si_organisation = sr_organisation s, si_market = sr_market s,
      si_status = (if sr_status s = ''ACTIVE'' then SITE_ACTIVE else if sr_status s = ''CLOSED'' then SITE_CLOSED else SITE_SUSPENDED),
      si_shipping = sr_shipping s, si_billing = sr_billing s\<rparr>"

definition load_sites :: "policy_store \<Rightarrow> policy_request \<Rightarrow> site_record list option" where
  "load_sites store q =
     (if q_sites q = [] then Some []
      else map_option (map toSite) (listDeliverySites store (q_sites q) (q_organisation q)))"

section \<open>Limits, approval policies and the purchase-order rule\<close>

definition toAuthority :: "limit_row \<Rightarrow> spend_authority option" where
  "toAuthority row =
     (case (nullable_minor (lr_order row), nullable_minor (lr_approval row)) of
        (Some order, Some approval) \<Rightarrow>
          Some \<lparr>sa_market = lr_market row, sa_currency = lr_currency row, sa_order_limit = order,
            sa_approval_limit = approval, sa_from = lr_from row, sa_until = lr_until row\<rparr>
      | _ \<Rightarrow> None)"

definition load_spend :: "policy_store \<Rightarrow> policy_request \<Rightarrow> spend_authority list option" where
  "load_spend store q =
     (case listSpendLimits store (q_membership q) of None \<Rightarrow> None | Some rows \<Rightarrow> those (map toAuthority rows))"

definition toApprovalPolicy :: "approval_row \<Rightarrow> approval_policy option" where
  "toApprovalPolicy row =
     map_option (\<lambda>t. \<lparr>ap_market = ar_market row, ap_currency = ar_currency row, ap_threshold = t, ap_enabled = ar_enabled row\<rparr>)
       (nullable_minor (ar_threshold row))"

definition load_approvals :: "policy_store \<Rightarrow> policy_request \<Rightarrow> approval_policy list option" where
  "load_approvals store q =
     (case listApprovalPolicies store (q_organisation q) of None \<Rightarrow> None | Some rows \<Rightarrow> those (map toApprovalPolicy rows))"

definition load_purchase_order :: "policy_store \<Rightarrow> policy_request \<Rightarrow> po_rule option option" where
  "load_purchase_order store q =
     map_option (\<lambda>rows.
       map_option (\<lambda>row. \<lparr>po_required = pw_required row, po_pattern = pw_pattern row\<rparr>)
         (case List.find (\<lambda>r. pw_market r \<noteq> None \<and> pw_market r = q_market q) rows of
            Some r \<Rightarrow> Some r
          | None \<Rightarrow> List.find (\<lambda>r. pw_market r = None) rows))
       (listPurchaseOrderRequirements store (q_organisation q))"

section \<open>The reservation\<close>

definition toHold :: "hold_row \<Rightarrow> hold_fact option" where
  "toHold h =
     map_option (\<lambda>n. \<lparr>hf_policy = hr_policy h, hf_revision = hr_revision h, hf_starts = hr_starts h, hf_reserved = n\<rparr>)
       (strictMinorUnits (hr_reserved h))"

definition toReservation :: "reservation_row \<Rightarrow> hold_row list \<Rightarrow> reservation_fact option" where
  "toReservation row hs =
     (case (oneOf (rv_status row) reservation_statuses, those (map toHold hs)) of
        (Some status, Some held) \<Rightarrow>
          Some \<lparr>rf_status = status, rf_membership = rv_membership row, rf_market = rv_market row,
            rf_currency = rv_currency row, rf_agreement = rv_agreement row, rf_digest = rv_digest row,
            rf_version = int_text (rv_version row), rf_expires = rv_expires row, rf_holds = held\<rparr>
      | _ \<Rightarrow> None)"

definition load_reservation :: "policy_store \<Rightarrow> policy_request \<Rightarrow> reservation_fact source option" where
  "load_reservation store q =
     (case q_reservation q of
        None \<Rightarrow> None
      | Some i \<Rightarrow>
          (case listSpendReservations store i (q_organisation q) of
             None \<Rightarrow> Some Unloaded
           | Some [] \<Rightarrow> None
           | Some (row # _) \<Rightarrow>
               (case listSpendReservationHolds store (rv_id row) of
                  None \<Rightarrow> Some Unloaded
                | Some hs \<Rightarrow> Some (attempt (toReservation row hs)))))"

definition loadBuyerOperationPolicy :: "policy_store \<Rightarrow> policy_request \<Rightarrow> loaded_policy" where
  "loadBuyerOperationPolicy store q =
     \<lparr>l_roles = attempt (load_roles store q), l_sites = attempt (load_sites store q),
      l_spend = attempt (load_spend store q), l_approvals = attempt (load_approvals store q),
      l_purchase_order = attempt (load_purchase_order store q), l_budgets = attempt (load_budgets store q),
      l_reservation = load_reservation store q\<rparr>"

end
