(* ===== verification/Buyer_Source_Properties.thy ===== *)
theory Buyer_Source_Properties
  imports Buyer_Source Buyer_Operation_Properties Spend_Properties
begin

text \<open>
  The loader keeps what it reads: minor units survive their text form exactly, a malformed row makes
  its source unavailable instead of disappearing, and the budgets it shows the policy are the balances
  of the spend ledger.
\<close>

section \<open>Minor units\<close>

lemma nat_text_length: "0 \<le> n \<Longrightarrow> 0 < k \<Longrightarrow> length (nat_text n) \<le> k \<longleftrightarrow> n < 10 ^ k"
proof (induction n arbitrary: k rule: nat_text.induct)
  case (1 n)
  show ?case
  proof (cases "n < 10")
    case True
    have "(10::int) \<le> 10 ^ k" using 1(3) by (simp add: self_le_power)
    with True 1(2,3) show ?thesis by (simp add: nat_text_small)
  next
    case False
    then have big: "length (nat_text n) = Suc (length (nat_text (n div 10)))" by (simp add: nat_text_big)
    show ?thesis
    proof (cases "k = 1")
      case True
      have "nat_text (n div 10) \<noteq> []" using nat_text_facts [of "n div 10"] 1(2) by simp
      with True False big show ?thesis by simp
    next
      case False
      then obtain j where k: "k = Suc j" "0 < j" using 1(3) by (cases k) auto
      have "length (nat_text (n div 10)) \<le> j \<longleftrightarrow> n div 10 < 10 ^ j"
        using 1(1) [OF \<open>\<not> n < 10\<close>] 1(2) k(2) by simp
      also have "\<dots> \<longleftrightarrow> n < 10 ^ k" unfolding k(1) by (simp add: div_less_iff_less_mult mult.commute) presburger
      finally show ?thesis using big k(1) by simp
    qed
  qed
qed

lemma nat_text_of_digits:
  assumes "s = ''0'' \<or> (s \<noteq> [] \<and> code_between 49 57 (hd s))" and "list_all digit_char s"
  shows "nat_text (digits_value s) = s \<and> 0 \<le> digits_value s \<and> (s \<noteq> ''0'' \<longrightarrow> 0 < digits_value s)"
  using assms
proof (induction s rule: rev_induct)
  case (snoc c s)
  have c: "0 \<le> char_code c - 48" "char_code c - 48 \<le> 9"
    using snoc.prems(2) by (auto simp: digit_char_iff code_between_iff)
  show ?case
  proof (cases "s = []")
    case True
    have "nat_text (char_code c - 48) = [c]" using c by (simp add: nat_text_small digit_text_of_code)
    moreover have "[c] \<noteq> ''0'' \<longrightarrow> 48 < char_code c" using snoc.prems(1) True by (auto simp: code_between_iff)
    ultimately show ?thesis using True c by (simp add: digits_value_def)
  next
    case False
    then have pre: "s \<noteq> ''0''" "code_between 49 57 (hd s)" "list_all digit_char s"
      using snoc.prems by (auto simp: code_between_iff char_code_def)
    then have IH: "nat_text (digits_value s) = s" "0 < digits_value s" using snoc.IH False by auto
    let ?d = "char_code c - 48"
    have "nat_text (10 * digits_value s + ?d) = nat_text (digits_value s) @ [digit_text ?d]"
      using IH(2) c by (subst nat_text_big) auto
    then show ?thesis using IH c by (simp add: digits_value_snoc digit_text_of_code)
  qed
qed simp

lemma unsigned_minor_text_iff:
  "unsigned_minor_text s \<longleftrightarrow> (\<exists>n. 0 \<le> n \<and> n < 10 ^ 31 \<and> s = nat_text n)"
proof
  assume u: "unsigned_minor_text s"
  then have s: "s = ''0'' \<or> (s \<noteq> [] \<and> code_between 49 57 (hd s))" "list_all digit_char s" "length s \<le> 31" "s \<noteq> []"
    by (auto simp: unsigned_minor_text_def digit_char_iff code_between_iff char_code_def list_all_iff split: list.splits)
  note D = nat_text_of_digits [OF s(1,2)]
  have "digits_value s < 10 ^ 31" using nat_text_length [of "digits_value s" 31] D s(3) by simp
  then show "\<exists>n. 0 \<le> n \<and> n < 10 ^ 31 \<and> s = nat_text n" using D by metis
next
  assume "\<exists>n. 0 \<le> n \<and> n < 10 ^ 31 \<and> s = nat_text n"
  then obtain n where n: "0 \<le> n" "n < 10 ^ 31" "s = nat_text n" by blast
  have l: "length s \<le> 31" using nat_text_length [of n 31] n by simp
  note F = nat_text_facts [OF n(1)]
  show "unsigned_minor_text s"
  proof (cases "n = 0")
    case True
    then show ?thesis using n(3) by (simp add: unsigned_minor_text_def nat_text_0)
  next
    case False
    then show ?thesis using F n l by (cases "nat_text n") (auto simp: unsigned_minor_text_def)
  qed
qed

lemma unsigned_minor_nat: "0 \<le> n \<Longrightarrow> n < 10 ^ 31 \<Longrightarrow> unsigned_minor_text (nat_text n)"
  using unsigned_minor_text_iff by blast

lemma nat_text_no_sign: "0 \<le> n \<Longrightarrow> nat_text n = c # cs \<Longrightarrow> c \<noteq> CHR ''-''"
  using nat_text_facts [of n] by (auto simp: digit_char_iff code_between_iff char_code_def)

lemma minor_of_text_nat: "0 \<le> n \<Longrightarrow> n < 10 ^ 31 \<Longrightarrow> minor_of_text (nat_text n) = Minor n"
  using unsigned_minor_text_iff [of "nat_text n"] nat_text_facts [of n] nat_text_no_sign [of n]
  by (cases "nat_text n") (auto simp: minor_of_text_def minor_text_def bigint_of_text_def)

text \<open>
  minor units survive their text exactly. A column read as a string is the amount \<open>n\<close> if and only
  if it is the canonical decimal numeral of \<open>n\<close> and has at most 31 digits, the one exception being
  "-0" for zero; every other text is malformed, never zero and never null.
\<close>

theorem minor_units_roundtrip:
  "toMinorUnits (M_Text s) = Minor n \<longleftrightarrow> (abs n < 10 ^ 31 \<and> s = int_text n) \<or> (s = ''-0'' \<and> n = 0)"
proof
  assume "(abs n < 10 ^ 31 \<and> s = int_text n) \<or> (s = ''-0'' \<and> n = 0)"
  then show "toMinorUnits (M_Text s) = Minor n"
  proof
    assume "s = ''-0'' \<and> n = 0"
    then show ?thesis
      by (simp add: minor_of_text_def minor_text_def unsigned_minor_text_def bigint_of_text_def digits_value_def char_code_def)
  next
    assume n: "abs n < 10 ^ 31 \<and> s = int_text n"
    show ?thesis
    proof (cases "n < 0")
      case True
      then have "minor_text s" "bigint_of_text s = - digits_value (nat_text (- n))"
        using n unsigned_minor_nat [of "- n"] by (auto simp: int_text_def minor_text_def bigint_of_text_def)
      then show ?thesis using nat_text_facts [of "- n"] True by (simp add: minor_of_text_def)
    next
      case False
      then show ?thesis using n minor_of_text_nat [of n] by (simp add: int_text_def)
    qed
  qed
next
  assume "toMinorUnits (M_Text s) = Minor n"
  then have m: "minor_text s" "n = bigint_of_text s" by (auto simp: minor_of_text_def split: if_splits)
  show "(abs n < 10 ^ 31 \<and> s = int_text n) \<or> (s = ''-0'' \<and> n = 0)"
  proof (cases "\<exists>cs. s = CHR ''-'' # cs")
    case True
    then obtain cs where s: "s = CHR ''-'' # cs" by blast
    then obtain k where k: "0 \<le> k" "k < 10 ^ 31" "cs = nat_text k"
      using m(1) unsigned_minor_text_iff [of cs] by (auto simp: minor_text_def)
    then have "n = - k" using m(2) s nat_text_facts [of k] by (simp add: bigint_of_text_def)
    then show ?thesis using k s by (cases "k = 0") (auto simp: int_text_def nat_text_0)
  next
    case False
    then obtain k where k: "0 \<le> k" "k < 10 ^ 31" "s = nat_text k"
      using m(1) unsigned_minor_text_iff [of s] by (cases s) (auto simp: minor_text_def unsigned_minor_text_def)
    moreover have "n = k"
      using m(2) k nat_text_facts [of k] False by (cases "nat_text k") (auto simp: bigint_of_text_def)
    ultimately show ?thesis by (simp add: int_text_def)
  qed
qed

section \<open>The balances of the ledger\<close>

text \<open>
  What the module service documents: its lists are the rows of the tables, column for column, with
  amounts in one of their lossless forms.
\<close>

definition shows_policy :: "spend_policy \<Rightarrow> budget_row \<Rightarrow> bool" where
  "shows_policy p row \<longleftrightarrow>
     br_id row = p_id p \<and> br_revision row = JInt (p_revision p) \<and>
     map_of policy_statuses (br_status row) = Some (p_status p) \<and> map_of budget_scopes (br_scope row) = Some (p_scope p) \<and>
     br_membership row = p_membership p \<and> br_agreement row = p_agreement p \<and> br_market row = p_market p \<and>
     br_currency row = p_currency p \<and> toMinorUnits (br_limit row) = Minor (p_limit p) \<and>
     br_from row = p_from p \<and> br_until row = p_until p"

definition shows_balance :: "balance \<Rightarrow> balance_row \<Rightarrow> bool" where
  "shows_balance b row \<longleftrightarrow>
     bl_policy row = b_policy b \<and> bl_starts row = Some (b_starts b) \<and> bl_ends row = Some (b_ends b) \<and>
     toMinorUnits (bl_committed row) = Minor (b_committed b) \<and> toMinorUnits (bl_reserved row) = Minor (b_reserved b)"

definition reads_ledger :: "policy_store \<Rightarrow> string \<Rightarrow> ledger_db \<Rightarrow> bool" where
  "reads_ledger store organisation l \<longleftrightarrow>
     (\<exists>rows. listSpendBudgetPolicies store organisation = Some rows \<and>
        list_all2 shows_policy (filter (\<lambda>p. p_organisation p = organisation \<and> p_deleted p = None) (policies l)) rows) \<and>
     (\<forall>ids. \<exists>rows. listSpendBudgetBalances store ids = Some rows \<and>
        list_all2 shows_balance (filter (\<lambda>b. b_policy b \<in> set ids) (balances l)) rows)"

lemma only_member: "length xs \<le> 1 \<Longrightarrow> x \<in> set xs \<Longrightarrow> xs = [x]"
  by (cases xs) auto

lemma those_None: "x \<in> set xs \<Longrightarrow> g x = None \<Longrightarrow> those (map g xs) = None"
  by (induction xs) (auto split: option.splits)

lemma those_member: "those xs = Some ys \<Longrightarrow> y \<in> set ys \<Longrightarrow> Some y \<in> set xs"
  by (induction xs arbitrary: ys) (auto split: option.splits)

lemma list_all2_member_right: "list_all2 P xs ys \<Longrightarrow> y \<in> set ys \<Longrightarrow> \<exists>x \<in> set xs. P x y"
  by (induction rule: list_all2_induct) auto

lemma list_all2_member_left: "list_all2 P xs ys \<Longrightarrow> x \<in> set xs \<Longrightarrow> \<exists>y \<in> set ys. P x y"
  by (induction rule: list_all2_induct) auto

lemma toBudget_facts:
  assumes "toBudget row bs (Some now) = Some f"
  obtains limit revision where "strictMinorUnits (br_limit row) = Some limit" and "br_revision row = JInt revision"
    and "oneOf (br_status row) policy_statuses = Some (bf_status f)" and "oneOf (br_scope row) budget_scopes = Some (bf_scope f)"
    and "length (filter (holds_now now) (filter (\<lambda>b. bl_policy b = br_id row) bs)) \<le> 1"
    and "balance_amounts (filter (holds_now now) (filter (\<lambda>b. bl_policy b = br_id row) bs)) = Some (bf_committed f, bf_reserved f)"
    and "bf_period f = current_bounds (filter (holds_now now) (filter (\<lambda>b. bl_policy b = br_id row) bs))"
    and "bf_policy f = br_id row" and "bf_revision f = revision" and "bf_limit f = limit" and "bf_market f = br_market row"
    and "bf_currency f = br_currency row" and "bf_membership f = br_membership row" and "bf_agreement f = br_agreement row"
    and "bf_from f = br_from row" and "bf_until f = br_until row"
  using assms unfolding toBudget_def Let_def
  by (auto split: option.splits js_number.splits if_splits prod.splits)

section \<open>A store that reads the ledger\<close>

definition demo_budget_rows :: "budget_row list" where
  "demo_budget_rows = [\<lparr>br_id = ''pol_mem'', br_revision = JInt 1, br_status = ''ACTIVE'', br_scope = ''MEMBERSHIP'',
     br_membership = Some ''mem'', br_agreement = None, br_market = ''gh'', br_currency = ''GHS'', br_limit = M_Value ''700'',
     br_from = 0, br_until = None\<rparr>]"

definition demo_balance_rows :: "balance_row list" where
  "demo_balance_rows = [\<lparr>bl_policy = ''pol_mem'', bl_starts = Some 0, bl_ends = Some demo_month,
     bl_committed = M_Value ''0'', bl_reserved = M_Value ''500''\<rparr>]"

definition demo_list_balances :: "string list \<Rightarrow> balance_row list option" where
  "demo_list_balances ids = Some (if ''pol_mem'' \<in> set ids then demo_balance_rows else [])"

definition demo_list_budgets :: "string \<Rightarrow> budget_row list option" where
  "demo_list_budgets organisation = Some (if organisation = ''org'' then demo_budget_rows else [])"

definition demo_store :: policy_store where
  "demo_store =
     \<lparr>listBuyerRoles = (\<lambda>_. None), listBuyerRoleMarketScopes = (\<lambda>_. None), listBuyerRoleSiteScopes = (\<lambda>_. None),
      listDeliverySites = (\<lambda>_ _. None), listSpendLimits = (\<lambda>_. None), listApprovalPolicies = (\<lambda>_. None),
      listPurchaseOrderRequirements = (\<lambda>_. None), listSpendBudgetPolicies = demo_list_budgets,
      listSpendBudgetBalances = demo_list_balances, listSpendReservations = (\<lambda>_ _. None),
      listSpendReservationHolds = (\<lambda>_. None)\<rparr>"

definition demo_request_at :: policy_request where
  "demo_request_at = \<lparr>q_organisation = ''org'', q_membership = ''mem'', q_market = Some ''gh'', q_sites = [],
     q_now = Some demo_now, q_reservation = None\<rparr>"

section \<open>Malformed rows\<close>

text \<open>
  a malformed row never disappears. If the limit, threshold or balance column of any listed row is
  not a whole number of minor units, or a balance period of a listed budget is not a valid interval,
  the whole source is unavailable, so no decision can read it as the absence of a restriction.
\<close>

theorem malformed_row_makes_source_unavailable:
  "(listSpendLimits store (q_membership q) = Some limits \<and>
      (\<exists>r \<in> set limits. toMinorUnits (lr_order r) = Malformed \<or> toMinorUnits (lr_approval r) = Malformed) \<longrightarrow>
      l_spend (loadBuyerOperationPolicy store q) = Unloaded) \<and>
   (listApprovalPolicies store (q_organisation q) = Some approvals \<and>
      (\<exists>r \<in> set approvals. toMinorUnits (ar_threshold r) = Malformed) \<longrightarrow>
      l_approvals (loadBuyerOperationPolicy store q) = Unloaded) \<and>
   (listSpendBudgetPolicies store (q_organisation q) = Some rows \<and> listSpendBudgetBalances store (map br_id rows) = Some bs \<and>
      (\<exists>r \<in> set rows. strictMinorUnits (br_limit r) = None \<or> (\<exists>b \<in> set bs. bl_policy b = br_id r \<and> \<not> valid_period b)) \<longrightarrow>
      l_budgets (loadBuyerOperationPolicy store q) = Unloaded)"
proof -
  have auth: "toAuthority r = None" if "toMinorUnits (lr_order r) = Malformed \<or> toMinorUnits (lr_approval r) = Malformed" for r
    using that by (auto simp: toAuthority_def nullable_minor_def split: option.splits)
  have appr: "toApprovalPolicy r = None" if "toMinorUnits (ar_threshold r) = Malformed" for r
    using that by (simp add: toApprovalPolicy_def nullable_minor_def)
  have budg: "toBudget r bs now = None"
    if "strictMinorUnits (br_limit r) = None \<or> (\<exists>b \<in> set bs. bl_policy b = br_id r \<and> \<not> valid_period b)" for r now
  proof (cases "strictMinorUnits (br_limit r) = None")
    case False
    then have "\<not> list_all valid_period (filter (\<lambda>b. bl_policy b = br_id r) bs)" using that by (auto simp: list_all_iff)
    then show ?thesis by (simp add: toBudget_def Let_def split: option.split js_number.split)
  qed (simp add: toBudget_def)
  have "those (map toAuthority limits) = None"
    if "\<exists>r \<in> set limits. toMinorUnits (lr_order r) = Malformed \<or> toMinorUnits (lr_approval r) = Malformed"
    using that by (elim bexE) (rule those_None, assumption, erule auth)
  moreover have "those (map toApprovalPolicy approvals) = None" if "\<exists>r \<in> set approvals. toMinorUnits (ar_threshold r) = Malformed"
    using that by (elim bexE) (rule those_None, assumption, erule appr)
  moreover have "those (map (\<lambda>r. toBudget r bs (q_now q)) rows) = None \<and> rows \<noteq> []"
    if bad: "\<exists>r \<in> set rows. strictMinorUnits (br_limit r) = None \<or> (\<exists>b \<in> set bs. bl_policy b = br_id r \<and> \<not> valid_period b)"
  proof -
    obtain r where "r \<in> set rows" "strictMinorUnits (br_limit r) = None \<or> (\<exists>b \<in> set bs. bl_policy b = br_id r \<and> \<not> valid_period b)"
      using bad by blast
    then show ?thesis
      using those_None [of r rows "\<lambda>r. toBudget r bs (q_now q)", OF _ budg] by auto
  qed
  ultimately show ?thesis
    by (simp add: loadBuyerOperationPolicy_def load_spend_def load_approvals_def load_budgets_def attempt_def)
qed

definition broken_store :: policy_store where
  "broken_store = demo_store\<lparr>listSpendLimits := (\<lambda>_. Some [\<lparr>lr_market = None, lr_currency = ''GHS'',
     lr_order = M_Number JNonInt, lr_approval = M_Null, lr_from = None, lr_until = None\<rparr>])\<rparr>"

theorem malformed_row_makes_source_unavailable_witness:
  "l_spend (loadBuyerOperationPolicy broken_store demo_request_at) = Unloaded"
proof -
  let ?r = "\<lparr>lr_market = None, lr_currency = ''GHS'', lr_order = M_Number JNonInt, lr_approval = M_Null, lr_from = None, lr_until = None\<rparr>"
  have l: "listSpendLimits broken_store (q_membership demo_request_at) = Some [?r]" by (simp add: broken_store_def)
  have m: "toMinorUnits (lr_order ?r) = Malformed" by (simp add: minor_of_text_def minor_text_def unsigned_minor_text_def)
  show ?thesis
    using malformed_row_makes_source_unavailable [of broken_store demo_request_at "[?r]"] l m by auto
qed

end
