(* ===== verification/Budget_Agreement.thy ===== *)
theory Budget_Agreement
  imports Buyer_Source_Properties
begin

text \<open>
  Two components test the same capacity: \<open>evaluateBudgets\<close> of \<open>Buyer_Operation\<close>, on what the loader of
  \<open>Buyer_Source\<close> reads, and the RESERVE step of the ledger trigger of \<open>Spend_Ledger\<close>, on the policies
  \<open>applicablePolicies\<close> of \<open>Spend_Commands\<close> selects. On one state of the tables they agree.
\<close>

section \<open>Loaded budgets\<close>

text \<open>A loaded budget is its policy, with the amounts of the balance row of the current period.\<close>

definition shows_budget :: "instant \<Rightarrow> ledger_db \<Rightarrow> spend_policy \<Rightarrow> budget_fact \<Rightarrow> bool" where
  "shows_budget now l p f \<longleftrightarrow>
     bf_policy f = p_id p \<and> bf_revision f = p_revision p \<and> bf_limit f = p_limit p \<and> bf_status f = p_status p \<and>
     bf_scope f = p_scope p \<and> bf_membership f = p_membership p \<and> bf_agreement f = p_agreement p \<and> bf_market f = p_market p \<and>
     bf_currency f = p_currency p \<and> bf_from f = p_from p \<and> bf_until f = p_until p \<and>
     (\<forall>b \<in> set (balances l). b_policy b = p_id p \<longrightarrow> b_starts b \<le> now \<and> now < b_ends b \<longrightarrow>
        bf_period f = Some (b_starts b, b_ends b) \<and> bf_committed f = b_committed b \<and> bf_reserved f = b_reserved b) \<and>
     ((\<forall>b \<in> set (balances l). b_policy b = p_id p \<longrightarrow> \<not> (b_starts b \<le> now \<and> now < b_ends b)) \<longrightarrow> bf_period f = None)"

lemma toBudget_shows:
  assumes "shows_policy p row" and "toBudget row brs (Some now) = Some f" and "row \<in> set rows"
    and brs: "list_all2 shows_balance (filter (\<lambda>b. b_policy b \<in> set (map br_id rows)) (balances l)) brs"
  shows "shows_budget now l p f"
proof -
  let ?cur = "filter (holds_now now) (filter (\<lambda>b. bl_policy b = br_id row) brs)"
  obtain limit revision where T: "strictMinorUnits (br_limit row) = Some limit" "br_revision row = JInt revision"
    "oneOf (br_status row) policy_statuses = Some (bf_status f)" "oneOf (br_scope row) budget_scopes = Some (bf_scope f)"
    and one: "length ?cur \<le> 1" and am: "balance_amounts ?cur = Some (bf_committed f, bf_reserved f)"
    and pe: "bf_period f = current_bounds ?cur"
    and same: "bf_policy f = br_id row" "bf_revision f = revision" "bf_limit f = limit" "bf_market f = br_market row"
    "bf_currency f = br_currency row" "bf_membership f = br_membership row" "bf_agreement f = br_agreement row"
    "bf_from f = br_from row" "bf_until f = br_until row"
    by (rule toBudget_facts [OF assms(2)])
  have limit: "limit = p_limit p" using T(1) assms(1) by (simp add: strictMinorUnits_def shows_policy_def split: if_splits)
  have row: "bf_period f = Some (b_starts b, b_ends b) \<and> bf_committed f = b_committed b \<and> bf_reserved f = b_reserved b"
    if b: "b \<in> set (balances l)" "b_policy b = p_id p" "b_starts b \<le> now" "now < b_ends b" for b
  proof -
    have "b_policy b \<in> set (map br_id rows)" using b(2) assms(1,3) unfolding shows_policy_def by (metis image_eqI set_map)
    then obtain br where br: "br \<in> set brs" "shows_balance b br"
      using list_all2_member_left [OF brs, of b] b(1) by auto
    then have "br \<in> set ?cur" using b assms(1) by (auto simp: shows_balance_def shows_policy_def holds_now_def)
    with one have cur: "?cur = [br]" by (rule only_member)
    show ?thesis
      using am pe br(2) unfolding cur
      by (auto simp: balance_amounts_def current_bounds_def shows_balance_def strictMinorUnits_def split: option.splits if_splits)
  qed
  have none: "bf_period f = None" if no: "\<forall>b \<in> set (balances l). b_policy b = p_id p \<longrightarrow> \<not> (b_starts b \<le> now \<and> now < b_ends b)"
  proof (cases "?cur")
    case (Cons br xs)
    then have "br \<in> set ?cur" by simp
    then have br: "br \<in> set brs" "holds_now now br" "bl_policy br = br_id row" by simp_all
    obtain b where "b \<in> set (balances l)" "shows_balance b br"
      using list_all2_member_right [OF brs br(1)] by auto
    then show ?thesis using no br assms(1) by (auto simp: shows_balance_def shows_policy_def holds_now_def)
  qed (simp add: pe current_bounds_def)
  show ?thesis
    using T same limit assms(1) row none unfolding shows_budget_def by (simp add: shows_policy_def oneOf_def)
qed

lemma those_list_all2: "those (map g xs) = Some ys \<Longrightarrow> list_all2 (\<lambda>x y. g x = Some y) xs ys"
  by (induction xs arbitrary: ys) (auto split: option.splits)

lemma list_all2_filter:
  "list_all2 R xs ys \<Longrightarrow> (\<And>x y. R x y \<Longrightarrow> P x = Q y) \<Longrightarrow> list_all2 R (filter P xs) (filter Q ys)"
  by (induction rule: list_all2_induct) auto

lemma loaded_budgets:
  assumes "reads_ledger store (q_organisation q) l" and "q_now q = Some now" and "load_budgets store q = Some bs"
  shows "list_all2 (shows_budget now l) (filter (\<lambda>p. p_organisation p = q_organisation q \<and> p_deleted p = None) (policies l)) bs"
proof -
  obtain rows where rows: "listSpendBudgetPolicies store (q_organisation q) = Some rows"
    "list_all2 shows_policy (filter (\<lambda>p. p_organisation p = q_organisation q \<and> p_deleted p = None) (policies l)) rows"
    using assms(1) unfolding reads_ledger_def by blast
  obtain brs where brs: "listSpendBudgetBalances store (map br_id rows) = Some brs"
    "list_all2 shows_balance (filter (\<lambda>b. b_policy b \<in> set (map br_id rows)) (balances l)) brs"
    using assms(1) unfolding reads_ledger_def by blast
  have "those (map (\<lambda>row. toBudget row brs (Some now)) rows) = Some bs"
    using assms(2,3) rows(1) brs(1) by (auto simp: load_budgets_def split: if_splits)
  then have b: "list_all2 (\<lambda>row f. toBudget row brs (Some now) = Some f) rows bs" by (rule those_list_all2)
  have r: "list_all2 (\<lambda>p row. shows_policy p row \<and> row \<in> set rows)
      (filter (\<lambda>p. p_organisation p = q_organisation q \<and> p_deleted p = None) (policies l)) rows"
    using rows(2) by (rule list.rel_mono_strong) simp
  show ?thesis
    by (rule list_all2_trans [OF _ r b]) (use toBudget_shows [OF _ _ _ brs(2)] in blast)
qed

section \<open>The two selections\<close>

text \<open>The reservation of the purchase, before anything is held for it.\<close>

definition reserves_for :: "facts \<Rightarrow> transaction \<Rightarrow> string \<Rightarrow> string \<Rightarrow> ledger_db \<Rightarrow> reservation \<Rightarrow> bool" where
  "reserves_for f tx m organisation l r \<longleftrightarrow>
     find_row r_id (r_id r) (reservations l) = Some r \<and> r_status r = ACTIVE \<and> f_now f < r_expires r \<and>
     r_organisation r = organisation \<and> r_membership r = f_membership f \<and> r_market r = m \<and> r_currency r = tx_currency tx \<and>
     r_agreement r = tx_agreement tx \<and> (\<forall>h \<in> set (holds l). h_reservation h \<noteq> r_id r) \<and>
     (\<forall>p \<in> set (policies l). p_organisation p = organisation \<longrightarrow> p_tenant p = r_tenant r)"

text \<open>
  The calendar of the database: the period of a policy that applies has an end and contains the
  instant, and of the balance rows of that policy the current one is the one of this period.
\<close>

definition periods_agree :: "'a db_env_scheme \<Rightarrow> instant \<Rightarrow> reservation \<Rightarrow> ledger_db \<Rightarrow> bool" where
  "periods_agree env now r l \<longleftrightarrow>
     (\<forall>p \<in> set (policies l). policy_applies now r p \<longrightarrow>
        (\<exists>t u. budget_period env now p = (t, Some u) \<and> t \<le> now \<and> now < u \<and>
           (\<forall>b \<in> set (balances l). b_policy b = p_id p \<longrightarrow> (b_starts b \<le> now \<and> now < b_ends b) = (b_starts b = t))))"

definition in_budget_scope :: "budget_scope \<Rightarrow> instant \<Rightarrow> reservation \<Rightarrow> ledger_db \<Rightarrow> spend_policy list" where
  "in_budget_scope s now r l = filter (\<lambda>p. policy_applies now r p \<and> p_scope p = s) (policies l)"

definition scope_budgets :: "budget_scope \<Rightarrow> facts \<Rightarrow> transaction \<Rightarrow> string \<Rightarrow> budget_fact list \<Rightarrow> budget_fact list" where
  "scope_budgets s f tx m bs =
     filter (\<lambda>b. bf_scope b = s \<and>
       (case s of MEMBERSHIP \<Rightarrow> bf_membership b = Some (f_membership f) | ORGANISATION \<Rightarrow> True
        | AGREEMENT \<Rightarrow> tx_agreement tx \<noteq> None \<and> bf_agreement b = tx_agreement tx)) (applicable_budgets f tx m bs)"

lemma scopes_agree:
  assumes l: "list_all2 (shows_budget (f_now f) l) (filter (\<lambda>p. p_organisation p = organisation \<and> p_deleted p = None) (policies l)) bs"
    and r: "reserves_for f tx m organisation l r"
  shows "list_all2 (shows_budget (f_now f) l) (in_budget_scope s (f_now f) r l) (scope_budgets s f tx m bs)"
proof -
  let ?P = "\<lambda>p. p_status p = POLICY_ACTIVE \<and> in_interval (f_now f) (Some (p_from p)) (p_until p) \<and> p_market p = m \<and> p_currency p = tx_currency tx"
  let ?S = "\<lambda>p. p_scope p = s \<and> (case s of MEMBERSHIP \<Rightarrow> p_membership p = Some (f_membership f) | ORGANISATION \<Rightarrow> True
        | AGREEMENT \<Rightarrow> tx_agreement tx \<noteq> None \<and> p_agreement p = tx_agreement tx)"
  have "list_all2 (shows_budget (f_now f) l)
      (filter ?S (filter ?P (filter (\<lambda>p. p_organisation p = organisation \<and> p_deleted p = None) (policies l)))) (scope_budgets s f tx m bs)"
    unfolding scope_budgets_def applicable_budgets_def
    by (intro list_all2_filter l) (auto simp: shows_budget_def split: budget_scope.split)
  moreover have "filter ?S (filter ?P (filter (\<lambda>p. p_organisation p = organisation \<and> p_deleted p = None) (policies l))) =
      in_budget_scope s (f_now f) r l"
    unfolding in_budget_scope_def filter_filter
  proof (rule filter_cong [OF refl])
    fix p assume "p \<in> set (policies l)"
    then show "(((p_organisation p = organisation \<and> p_deleted p = None) \<and> ?P p) \<and> ?S p) = (policy_applies (f_now f) r p \<and> p_scope p = s)"
      using r by (cases s; cases "tx_agreement tx") (auto simp: reserves_for_def policy_applies_def in_interval_def)
  qed
  ultimately show ?thesis by simp
qed

lemma single_cases: "(single xs = NONE) = (xs = [])" "(single xs = AMBIGUOUS) = (1 < length xs)"
  "length xs \<le> 1 \<Longrightarrow> single_list (single xs) = xs"
  by (cases xs; cases "tl xs"; simp add: single_def)+

lemma evaluate_loaded_iff:
  "evaluate_loaded_budgets f tx m bs None = None \<longleftrightarrow>
     length (scope_budgets MEMBERSHIP f tx m bs) = 1 \<and> length (scope_budgets ORGANISATION f tx m bs) \<le> 1 \<and>
     length (scope_budgets AGREEMENT f tx m bs) \<le> 1 \<and>
     (\<forall>s. \<forall>b \<in> set (scope_budgets s f tx m bs). \<not> budget_short (f_now f) tx None b)"
proof -
  let ?M = "scope_budgets MEMBERSHIP f tx m bs" and ?O = "scope_budgets ORGANISATION f tx m bs" and ?A = "scope_budgets AGREEMENT f tx m bs"
  have lists: "filter (\<lambda>b. bf_scope b = MEMBERSHIP \<and> bf_membership b = Some (f_membership f)) (applicable_budgets f tx m bs) = ?M"
    "filter (\<lambda>b. bf_scope b = ORGANISATION) (applicable_budgets f tx m bs) = ?O"
    "filter (\<lambda>b. bf_scope b = AGREEMENT \<and> tx_agreement tx \<noteq> None \<and> bf_agreement b = tx_agreement tx) (applicable_budgets f tx m bs) = ?A"
    by (simp_all add: scope_budgets_def)
  have all: "(\<forall>s. \<forall>b \<in> set (scope_budgets s f tx m bs). \<not> budget_short (f_now f) tx None b) \<longleftrightarrow>
      \<not> list_ex (budget_short (f_now f) tx None) (?M @ ?O @ ?A)"
  proof -
    have "(\<forall>s. Q s) = (Q MEMBERSHIP \<and> Q ORGANISATION \<and> Q AGREEMENT)" for Q by (metis budget_scope.exhaust)
    note every = this [of "\<lambda>s. \<forall>b \<in> set (scope_budgets s f tx m bs). \<not> budget_short (f_now f) tx None b"]
    show ?thesis unfolding every list_ex_iff by auto
  qed
  have ev: "evaluate_loaded_budgets f tx m bs None = None \<longleftrightarrow> single ?M \<noteq> NONE \<and> single ?M \<noteq> AMBIGUOUS \<and> single ?O \<noteq> AMBIGUOUS \<and>
      single ?A \<noteq> AMBIGUOUS \<and> \<not> list_ex (budget_short (f_now f) tx None) (single_list (single ?M) @ single_list (single ?O) @ single_list (single ?A))"
    unfolding evaluate_loaded_budgets_def Let_def lists by simp
  show ?thesis
  proof (cases "length ?M \<le> 1 \<and> length ?O \<le> 1 \<and> length ?A \<le> 1")
    case True
    then have "single_list (single ?M) = ?M" "single_list (single ?O) = ?O" "single_list (single ?A) = ?A"
      by (simp_all only: single_cases(3))
    moreover have "(?M \<noteq> [] \<and> \<not> 1 < length ?M) = (length ?M = 1)" by (cases ?M) auto
    ultimately show ?thesis unfolding ev all single_cases(1,2) using True by auto
  next
    case False
    then show ?thesis unfolding ev single_cases(1,2) by auto
  qed
qed

lemma in_scope_length:
  "in_scope s (sort_key pr_id (map (row_of_policy env now) (filter (policy_applies now r) (policies l)))) = length (in_budget_scope s now r l)"
proof -
  let ?rows = "map (row_of_policy env now) (filter (policy_applies now r) (policies l))"
  have "in_scope s (sort_key pr_id ?rows) = size (filter_mset (\<lambda>p. pr_scope p = s) (mset (sort_key pr_id ?rows)))"
    by (simp only: in_scope_def flip: mset_filter size_mset)
  also have "\<dots> = length (filter (\<lambda>p. pr_scope p = s) ?rows)" by (simp only: mset_sort flip: mset_filter size_mset)
  also have "\<dots> = length (in_budget_scope s now r l)"
    by (simp add: in_budget_scope_def filter_map o_def row_of_policy_def conj_commute)
  finally show ?thesis .
qed

lemma applicable_iff:
  "(\<exists>ps. applicablePolicies env now r l = Inr ps) \<longleftrightarrow>
     length (in_budget_scope MEMBERSHIP now r l) = 1 \<and> length (in_budget_scope ORGANISATION now r l) \<le> 1 \<and>
     length (in_budget_scope AGREEMENT now r l) \<le> 1"
proof -
  have "(length xs \<noteq> 0 \<and> \<not> 1 < length xs) = (length xs = 1)" for xs :: "spend_policy list" by arith
  then show ?thesis unfolding applicablePolicies_def Let_def in_scope_length by auto
qed

section \<open>The reserve step of the ledger\<close>

definition short_of_capacity :: "db_error + 'a \<Rightarrow> bool" where
  "short_of_capacity m \<longleftrightarrow> (\<exists>e. m = Inl e \<and> e = RaisedCheck ''b2b_spend_ledger_entry: insufficient budget capacity'')"

lemma move_both_capacity: "\<not> short_of_capacity (move_both b f h g db)"
  by (auto simp: short_of_capacity_def move_both_def update_balance_def update_hold_def ledger_table_guard_def balance_checks_def
      hold_checks_def ensure_def andThen_Inl_iff split: option.splits if_splits)

lemma post_reserve_capacity:
  assumes "find_row p_id (p_id p) (policies l) = Some p" and "find_row r_id (r_id r) (reservations l) = Some r"
    and "policy_applies now r p" and "r_status r = ACTIVE" and "now < r_expires r"
    and "budget_period env now p = (t, Some u)" and "t \<le> now" and "now < u" and "\<And>h. h \<in> set (holds l) \<Longrightarrow> h_reservation h \<noteq> r_id r"
  shows "short_of_capacity (post_entry env now l (reserve_row cenv (r_id r) (row_of_policy env now p) amount key actor step)) \<longleftrightarrow>
     p_limit p - used l (p_id p, t) < amount"
proof -
  let ?x = "reserve_row cenv (r_id r) (row_of_policy env now p) amount key actor step\<lparr>e_occurred := now\<rparr>"
  let ?e = "?x\<lparr>e_starts := Some t, e_ends := Some u\<rparr>"
  let ?h = "new_hold (r_id r) (p_id p) (p_revision p) t"
  have inside: "\<not> outside_budget p r" using assms(3) by (auto simp: policy_applies_def outside_budget_def)
  obtain db1 b where ib: "insert_balance (new_balance (p_id p) t u) (l\<lparr>ledger_apply := True\<rparr>) = Inr db1"
      and b: "find_row b_key (p_id p, t) (balances db1) = Some b" "b_committed b + b_reserved b = used l (p_id p, t)"
      and same: "holds db1 = holds l" "ledger_apply db1"
    using assms(7,8)
    by (cases "find_row b_key (p_id p, t) (balances l)")
      (auto simp: insert_balance_def ledger_table_guard_def balance_checks_def new_balance_def b_key_def used_def bal_committed_def bal_reserved_def)
  have "find_row h_key (r_id r, p_id p, t) (holds l) = None"
    using assms(9) by (force simp: find_row_None_iff h_key_def)
  then have ih: "insert_hold ?h db1 = Inr (db1\<lparr>holds := holds db1 @ [?h]\<rparr>)"
    and h: "find_row h_key (r_id r, p_id p, t) (holds (db1\<lparr>holds := holds db1 @ [?h]\<rparr>)) = Some ?h"
    using same by (simp_all add: insert_hold_def ledger_table_guard_def hold_checks_def new_hold_def h_key_def)
  let ?db2 = "db1\<lparr>holds := holds db1 @ [?h]\<rparr>"
  have in_effect: "\<not> not_in_effect now p ?e ?h"
    using assms(3) by (auto simp: not_in_effect_def policy_applies_def new_hold_def reserve_row_def row_of_policy_def split: option.splits)
  have ap: "apply_reserve now p r b ?h ?e ?db2 =
      (if amount \<le> p_limit p - b_committed b - b_reserved b then move_both b (move_reserved amount) ?h (move_hold_reserved amount) ?db2
       else Inl (RaisedCheck ''b2b_spend_ledger_entry: insufficient budget capacity''))"
    using in_effect assms(4,5)
    by (simp add: apply_reserve_def reservation_lapsed_def refresh_hold_def new_hold_def reserve_row_def ensure_def)
  have "ledger_entry_apply env now (reserve_row cenv (r_id r) (row_of_policy env now p) amount key actor step) l =
      andThen (apply_reserve now p r b ?h ?e ?db2) (\<lambda>db3. Inr (?e, db3\<lparr>ledger_apply := False\<rparr>))"
    using assms(1,2,6,7,8) inside ib b(1) ih h
    by (simp add: ledger_entry_apply_def apply_in_period_def reserve_row_def row_of_policy_def Let_def del: find_row_append)
  then have "short_of_capacity (post_entry env now l (reserve_row cenv (r_id r) (row_of_policy env now p) amount key actor step)) \<longleftrightarrow>
      \<not> amount \<le> p_limit p - b_committed b - b_reserved b"
    unfolding ap using move_both_capacity [of b "move_reserved amount" ?h "move_hold_reserved amount" ?db2]
    by (auto simp: post_entry_def short_of_capacity_def andThen_Inl_iff entry_checks_def ensure_def split: if_splits)
  then show ?thesis using b(2) by auto
qed

lemma shown_capacity:
  assumes "shows_budget now l p b" and "0 < tx_amount tx" and "budget_period env now p = (t, Some u)" and "t \<le> now" and "now < u"
    and "\<And>c. c \<in> set (balances l) \<Longrightarrow> b_policy c = p_id p \<Longrightarrow> (b_starts c \<le> now \<and> now < b_ends c) = (b_starts c = t)"
  shows "budget_short now tx None b \<longleftrightarrow> p_limit p - used l (p_id p, t) < tx_amount tx"
proof (cases "find_row b_key (p_id p, t) (balances l)")
  case None
  then have no: "b_policy c = p_id p \<longrightarrow> b_starts c \<noteq> t" if "c \<in> set (balances l)" for c
    using that by (force simp: find_row_None_iff b_key_def)
  then have "bf_period b = None" using assms(1,6) unfolding shows_budget_def by metis
  then show ?thesis
    using assms(1,2) None by (simp add: budget_short_def current_period_def shows_budget_def used_def bal_committed_def bal_reserved_def)
next
  case (Some c)
  then have c: "c \<in> set (balances l)" "b_policy c = p_id p" "b_starts c = t" using find_row_SomeD [OF Some] by (auto simp: b_key_def)
  then have "b_starts c \<le> now \<and> now < b_ends c" using assms(6) by blast
  then have "bf_period b = Some (b_starts c, b_ends c) \<and> bf_committed b = b_committed c \<and> bf_reserved b = b_reserved c" and n: "b_starts c \<le> now" "now < b_ends c"
    using assms(1) c(1,2) unfolding shows_budget_def by blast+
  then show ?thesis
    using assms(1,2) Some
    by (auto simp: budget_short_def current_period_def own_hold_def shows_budget_def used_def bal_committed_def bal_reserved_def)
qed

text \<open>
  C25: the evaluation and the ledger agree on capacity, budget by budget. Take the budgets loaded from
  the spend tables, a purchase with no reservation considered, and the ACTIVE reservation of that
  purchase in the same tables with nothing held yet. The budget evaluation passes if and only if the
  reservation commands find their applicable policies (exactly one MEMBERSHIP budget and at most one
  ORGANISATION and one AGREEMENT budget) and the ledger trigger, posting the RESERVE entry of the full
  amount on any of them, does not refuse it for insufficient capacity.
\<close>

theorem evaluation_agrees_with_ledger:
  fixes env :: command_env
  assumes "reads_ledger store (q_organisation q) l" and "q_now q = Some (f_now f)" and "load_budgets store q = Some bs"
    and "f_budgets f = Loaded bs" and "f_reservation f = None" and "0 < tx_amount tx" and "distinct (map p_id (policies l))"
    and "reserves_for f tx m (q_organisation q) l r" and "periods_agree env (f_now f) r l"
  shows "evaluateBudgets f tx m = None \<longleftrightarrow>
     (\<exists>ps. applicablePolicies env (f_now f) r l = Inr ps \<and>
        (\<forall>p \<in> set ps. \<not> short_of_capacity (post_entry env (f_now f) l (reserve_row env (r_id r) p (tx_amount tx) key actor step))))"
proof -
  let ?now = "f_now f"
  let ?fits = "\<lambda>p. \<not> short_of_capacity (post_entry env ?now l (reserve_row env (r_id r) (row_of_policy env ?now p) (tx_amount tx) key actor step))"
  note agree = scopes_agree [OF loaded_budgets [OF assms(1-3)] assms(8)]
  have len: "length (scope_budgets s f tx m bs) = length (in_budget_scope s ?now r l)" for s
    using list_all2_lengthD [OF agree] by simp
  have row: "find_row r_id (r_id r) (reservations l) = Some r" "r_status r = ACTIVE" "?now < r_expires r"
    and fresh: "\<And>h. h \<in> set (holds l) \<Longrightarrow> h_reservation h \<noteq> r_id r"
    using assms(8) by (auto simp: reserves_for_def)
  have short: "budget_short ?now tx None b \<longleftrightarrow> \<not> ?fits p"
    if p: "p \<in> set (policies l)" "policy_applies ?now r p" and b: "shows_budget ?now l p b" for p b
  proof -
    obtain t u where t: "budget_period env ?now p = (t, Some u)" "t \<le> ?now" "?now < u"
      and bal: "\<And>c. c \<in> set (balances l) \<Longrightarrow> b_policy c = p_id p \<Longrightarrow> (b_starts c \<le> ?now \<and> ?now < b_ends c) = (b_starts c = t)"
      using assms(9) p unfolding periods_agree_def by blast
    have "find_row p_id (p_id p) (policies l) = Some p" using assms(7) p(1) by (simp add: find_row_Some_iff)
    then show ?thesis
      using post_reserve_capacity [OF _ row(1) p(2) row(2,3) t fresh] shown_capacity [OF b assms(6) t bal] by simp
  qed
  have every: "(\<forall>s. \<forall>b \<in> set (scope_budgets s f tx m bs). \<not> budget_short ?now tx None b) \<longleftrightarrow>
      (\<forall>p \<in> set (policies l). policy_applies ?now r p \<longrightarrow> ?fits p)"
  proof
    assume all: "\<forall>s. \<forall>b \<in> set (scope_budgets s f tx m bs). \<not> budget_short ?now tx None b"
    show "\<forall>p \<in> set (policies l). policy_applies ?now r p \<longrightarrow> ?fits p"
    proof (intro ballI impI)
      fix p assume p: "p \<in> set (policies l)" "policy_applies ?now r p"
      then have "p \<in> set (in_budget_scope (p_scope p) ?now r l)" by (simp add: in_budget_scope_def)
      from list_all2_member_left [OF agree this] obtain b where b: "b \<in> set (scope_budgets (p_scope p) f tx m bs)" "shows_budget ?now l p b" by blast
      then show "?fits p" using all short [OF p b(2)] by blast
    qed
  next
    assume all: "\<forall>p \<in> set (policies l). policy_applies ?now r p \<longrightarrow> ?fits p"
    show "\<forall>s. \<forall>b \<in> set (scope_budgets s f tx m bs). \<not> budget_short ?now tx None b"
    proof (intro allI ballI)
      fix s b assume "b \<in> set (scope_budgets s f tx m bs)"
      from list_all2_member_right [OF agree this] obtain p where p: "p \<in> set (in_budget_scope s ?now r l)" "shows_budget ?now l p b" by blast
      then show "\<not> budget_short ?now tx None b" using all short [OF _ _ p(2)] by (auto simp: in_budget_scope_def)
    qed
  qed
  have loaded: "evaluateBudgets f tx m = evaluate_loaded_budgets f tx m bs None"
    using assms(4,5) by (simp add: evaluateBudgets_def)
  have "evaluateBudgets f tx m = None \<longleftrightarrow>
      (\<exists>ps. applicablePolicies env ?now r l = Inr ps) \<and> (\<forall>p \<in> set (policies l). policy_applies ?now r p \<longrightarrow> ?fits p)"
    by (simp only: loaded evaluate_loaded_iff applicable_iff [of env] len every conj_assoc)
  moreover have "(\<forall>p \<in> set (policies l). policy_applies ?now r p \<longrightarrow> ?fits p) \<longleftrightarrow>
      (\<forall>p \<in> set ps. \<not> short_of_capacity (post_entry env ?now l (reserve_row env (r_id r) p (tx_amount tx) key actor step)))"
    if "applicablePolicies env ?now r l = Inr ps" for ps
    using applicable_policies_facts(3) [OF that assms(7)] by auto
  ultimately show ?thesis by metis
qed

section \<open>A witness\<close>

text \<open>
  A member with a limit of 700 in an organisation with a limit of 600, of which one reservation holds
  500 on each: a purchase of 90 passes, one of 150 is refused by the organisation's budget alone.
\<close>

definition shared_policies :: "spend_policy list" where
  "shared_policies = [demo_policy ''pol_mem'' MEMBERSHIP (Some ''mem'') 700, demo_policy ''pol_org'' ORGANISATION None 600]"

definition second_reservation :: "int \<Rightarrow> reservation" where
  "second_reservation amount = (demo_reservation ACTIVE 1)\<lparr>r_id := ''b2bres_2'', r_amount := Some amount\<rparr>"

definition shared_ledger :: "int \<Rightarrow> ledger_db" where
  "shared_ledger amount = (ledger demo_held)\<lparr>policies := shared_policies,
     reservations := [demo_reservation ACTIVE 1, second_reservation amount],
     balances := [demo_balance ''pol_mem'' 0 500, demo_balance ''pol_org'' 0 500]\<rparr>"

definition shared_row :: "string \<Rightarrow> string \<Rightarrow> string option \<Rightarrow> string \<Rightarrow> budget_row" where
  "shared_row i s member limit = \<lparr>br_id = i, br_revision = JInt 1, br_status = ''ACTIVE'', br_scope = s, br_membership = member,
     br_agreement = None, br_market = ''gh'', br_currency = ''GHS'', br_limit = M_Value limit, br_from = 0, br_until = None\<rparr>"

definition shared_balance :: "string \<Rightarrow> balance_row" where
  "shared_balance i = \<lparr>bl_policy = i, bl_starts = Some 0, bl_ends = Some demo_month, bl_committed = M_Value ''0'', bl_reserved = M_Value ''500''\<rparr>"

definition shared_store :: policy_store where
  "shared_store = demo_store
     \<lparr>listSpendBudgetPolicies := (\<lambda>organisation. Some (if organisation = ''org''
        then [shared_row ''pol_mem'' ''MEMBERSHIP'' (Some ''mem'') ''700'', shared_row ''pol_org'' ''ORGANISATION'' None ''600''] else [])),
      listSpendBudgetBalances := (\<lambda>ids. Some (filter (\<lambda>b. bl_policy b \<in> set ids) [shared_balance ''pol_mem'', shared_balance ''pol_org'']))\<rparr>"

definition shared_budgets :: "budget_fact list" where
  "shared_budgets = (case load_budgets shared_store demo_request_at of None \<Rightarrow> [] | Some bs \<Rightarrow> bs)"

definition purchase_of :: "int \<Rightarrow> transaction" where
  "purchase_of amount = \<lparr>tx_amount = amount, tx_currency = ''GHS'', tx_digest = demo_digest, tx_version = ''1'', tx_agreement = None\<rparr>"

definition shared_facts :: facts where
  "shared_facts = sample_facts\<lparr>f_now := demo_now, f_budgets := Loaded shared_budgets\<rparr>"

lemma shared_reads_ledger: "reads_ledger shared_store ''org'' (shared_ledger amount)"
proof -
  have money: "toMinorUnits (M_Value ''700'') = Minor 700" "toMinorUnits (M_Value ''600'') = Minor 600" "toMinorUnits (M_Value ''0'') = Minor 0"
    "toMinorUnits (M_Value ''500'') = Minor 500" by code_simp+
  show ?thesis
    unfolding reads_ledger_def
    by (simp add: shared_store_def shared_ledger_def shared_policies_def demo_policy_def shared_row_def shared_balance_def demo_balance_def
        shows_policy_def shows_balance_def policy_statuses_def budget_scopes_def money del: toMinorUnits.simps)
qed

lemma shared_facts_simps:
  "f_now shared_facts = demo_now" "f_budgets shared_facts = Loaded shared_budgets" "f_reservation shared_facts = None"
  "f_membership shared_facts = ''mem''" "q_organisation demo_request_at = ''org''" "q_now demo_request_at = Some demo_now"
  "tx_amount (purchase_of amount) = amount" "r_id (second_reservation amount) = ''b2bres_2''"
  by (simp_all add: shared_facts_def sample_facts_def demo_request_at_def purchase_of_def second_reservation_def)

lemma shared_loads: "load_budgets shared_store demo_request_at = Some shared_budgets"
  unfolding shared_budgets_def by code_simp

lemma shared_instance:
  "distinct (map p_id (policies (shared_ledger amount)))"
  "reserves_for shared_facts (purchase_of amount) ''gh'' ''org'' (shared_ledger amount) (second_reservation amount)"
  "periods_agree demo_env demo_now (second_reservation amount) (shared_ledger amount)"
proof -
  show "distinct (map p_id (policies (shared_ledger amount)))"
    by (simp add: shared_ledger_def shared_policies_def demo_policy_def)
  show "reserves_for shared_facts (purchase_of amount) ''gh'' ''org'' (shared_ledger amount) (second_reservation amount)"
    by (simp add: reserves_for_def shared_facts_simps shared_ledger_def demo_held_def demo_ledger_def second_reservation_def demo_reservation_def
        demo_rid_def demo_hold_def shared_policies_def demo_policy_def purchase_of_def demo_now_def)
  have "demo_now div demo_month = 0" by (simp add: demo_now_def demo_month_def)
  then show "periods_agree demo_env demo_now (second_reservation amount) (shared_ledger amount)"
    by (auto simp: periods_agree_def shared_ledger_def shared_policies_def demo_policy_def budget_period_def demo_env_def demo_month_start_def
        demo_month_end_def demo_balance_def demo_now_def demo_month_def)
qed

lemma shared_evaluations:
  "evaluateBudgets shared_facts (purchase_of 90) ''gh'' = None"
  "evaluateBudgets shared_facts (purchase_of 150) ''gh'' = Some (deny SPEND_LIMIT_EXCEEDED)"
  by code_simp+

theorem evaluation_agrees_with_ledger_witness:
  "(\<exists>ps. applicablePolicies demo_env demo_now (second_reservation 90) (shared_ledger 90) = Inr ps \<and>
      (\<forall>p \<in> set ps. \<not> short_of_capacity (post_entry demo_env demo_now (shared_ledger 90)
         (reserve_row demo_env ''b2bres_2'' p 90 ''key'' ''prn_1'' ''submit'')))) \<and>
   \<not> (\<exists>ps. applicablePolicies demo_env demo_now (second_reservation 150) (shared_ledger 150) = Inr ps \<and>
      (\<forall>p \<in> set ps. \<not> short_of_capacity (post_entry demo_env demo_now (shared_ledger 150)
         (reserve_row demo_env ''b2bres_2'' p 150 ''key'' ''prn_1'' ''submit''))))"
proof -
  note S = shared_facts_simps
  have agree: "evaluateBudgets shared_facts (purchase_of amount) ''gh'' = None \<longleftrightarrow>
     (\<exists>ps. applicablePolicies demo_env demo_now (second_reservation amount) (shared_ledger amount) = Inr ps \<and>
        (\<forall>p \<in> set ps. \<not> short_of_capacity (post_entry demo_env demo_now (shared_ledger amount)
           (reserve_row demo_env ''b2bres_2'' p amount ''key'' ''prn_1'' ''submit''))))" if "0 < amount" for amount
    using evaluation_agrees_with_ledger [where store = shared_store and q = demo_request_at and f = shared_facts and bs = shared_budgets
        and tx = "purchase_of amount" and m = "''gh''" and l = "shared_ledger amount" and r = "second_reservation amount" and env = demo_env
        and key = "''key''" and actor = "''prn_1''" and step = "''submit''", unfolded S, OF shared_reads_ledger refl shared_loads refl refl that
        shared_instance] .
  show ?thesis using agree [of 90] agree [of 150] shared_evaluations by simp
qed

end
