(* ===== verification/Buyer_Assurance.thy ===== *)
theory Buyer_Assurance
  imports Buyer_Reasons
begin

text \<open>
  The authentication evidence an operation needs: \<open>src/src/baobab/auth/buyer-assurance.ts\<close> and the
  loader of an approved policy document, \<open>src/src/baobab/auth/buyer-assurance-policy.ts\<close>. The URL
  parser, the JSON parser with the pinned schema, \<open>Date.parse\<close> and the SHA-256 digest are parameters;
  a bound that is \<open>Infinity\<close> is \<open>None\<close>, and so is a clock that is not finite.
\<close>

datatype assurance_profile = BUYER_SESSION | BUYER_COMMITMENT | BUYER_ADMINISTRATION

definition CANONICAL_OPERATION_PROFILES :: "(string \<times> assurance_profile) list" where
  "CANONICAL_OPERATION_PROFILES =
     [(''trade.buyer-context.resolve'', BUYER_SESSION),
      (''trade.private-catalogue.view'', BUYER_SESSION),
      (''trade.contract-price.view'', BUYER_SESSION),
      (''trade.cart.modify'', BUYER_SESSION),
      (''trade.rfq.submit'', BUYER_COMMITMENT),
      (''trade.quotation.accept'', BUYER_COMMITMENT),
      (''trade.purchase-approval.decide'', BUYER_COMMITMENT),
      (''trade.order.commit'', BUYER_COMMITMENT),
      (''trade.order.create'', BUYER_COMMITMENT),
      (''trade.draft-order.finalize'', BUYER_COMMITMENT),
      (''trade.buyer-invitation.accept'', BUYER_COMMITMENT),
      (''trade.buyer-member.manage'', BUYER_ADMINISTRATION)]"

record requirement =
  rq_acr :: "string list"
  rq_methods :: "string list option"
  rq_max_age :: "js_number option"

record interim_policy =
  ip_issuer :: string
  ip_acr :: "string list"
  ip_approval :: string

record approved_policy =
  pp_issuer :: string
  pp_approval :: string
  pp_revision :: string
  pp_from :: instant
  pp_until :: "instant option"
  pp_profiles :: "(assurance_profile \<times> requirement) list"

datatype assurance_policy = Interim interim_policy | Approved approved_policy

record assurance_token =
  at_issuer :: string
  at_acr :: "string option"
  at_amr :: "string list option"
  at_auth_time :: "instant option"

datatype assurance_outcome = Assured string "instant option" | NotAssured decision_reason

definition INTERIM_POLICY_REVISION :: string where
  "INTERIM_POLICY_REVISION = ''buyer-assurance.interim-acr-allowlist:v1''"

section \<open>The interim policy\<close>

definition accepted_acr_value :: "string \<Rightarrow> bool" where
  "accepted_acr_value v \<longleftrightarrow> v \<noteq> ''*'' \<and> length v \<le> 255 \<and> list_all (\<lambda>c. \<not> js_space c) v"

text \<open>\<open>https_url\<close>: the URL parses, is https, and carries no credentials, query or fragment.\<close>

definition interimAssurancePolicy ::
  "(string \<Rightarrow> bool) \<Rightarrow> string option \<Rightarrow> string list \<Rightarrow> string option \<Rightarrow> interim_policy option" where
  "interimAssurancePolicy https_url issuer acceptedAcr approvalReference =
     (let values = filter (\<lambda>v. v \<noteq> []) (map js_trim acceptedAcr);
          approval = map_option js_trim approvalReference in
      case (issuer, approval) of
        (Some i, Some a) \<Rightarrow>
          if i = [] \<or> values = [] \<or> a = [] then None
          else if \<not> list_all accepted_acr_value values then None
          else if \<not> https_url i \<or> js_trim i \<noteq> i then None
          else Some \<lparr>ip_issuer = i, ip_acr = values, ip_approval = a\<rparr>
      | _ \<Rightarrow> None)"

section \<open>The approved policy document\<close>

datatype policy_document_status = DOC_DRAFT | DOC_APPROVED | DOC_SUSPENDED | DOC_RETIRED

record policy_document =
  pd_status :: policy_document_status
  pd_version :: js_number
  pd_issuer :: string
  pd_approval :: string
  pd_from :: string
  pd_until :: "string option"
  pd_profiles :: "(assurance_profile \<times> requirement) list"

definition utf8_length :: "string \<Rightarrow> nat" where
  "utf8_length s = sum_list (map (\<lambda>c. if char_code c < 128 then 1 else 2) s)"

definition clean_value :: "string \<Rightarrow> bool" where
  "clean_value v \<longleftrightarrow> v \<noteq> ''*'' \<and> js_trim v = v"

definition clean_requirement :: "requirement \<Rightarrow> bool" where
  "clean_requirement r \<longleftrightarrow>
     list_all clean_value (rq_acr r) \<and>
     (case rq_methods r of None \<Rightarrow> True | Some ms \<Rightarrow> list_all clean_value ms) \<and>
     (case rq_max_age r of None \<Rightarrow> True | Some n \<Rightarrow> is_safe_number n)"

record document_env =
  parse_document :: "string \<Rightarrow> policy_document option"
  https_issuer :: "string \<Rightarrow> bool"
  parse_date :: "string \<Rightarrow> instant option"
  document_digest :: "policy_document \<Rightarrow> string"

definition loadBuyerAssurancePolicy :: "document_env \<Rightarrow> string \<Rightarrow> string \<Rightarrow> approved_policy option" where
  "loadBuyerAssurancePolicy env json trustedIssuer =
     (if 64 * 1024 < utf8_length json then None
      else case parse_document env json of
        None \<Rightarrow> None
      | Some doc \<Rightarrow>
          if pd_status doc \<noteq> DOC_APPROVED \<or> pd_issuer doc \<noteq> trustedIssuer \<or> \<not> https_issuer env (pd_issuer doc) \<or>
             js_trim (pd_issuer doc) \<noteq> pd_issuer doc \<or> js_trim (pd_approval doc) = [] \<or> \<not> is_safe_number (pd_version doc)
          then None
          else
            let until = (case pd_until doc of None \<Rightarrow> Some None | Some s \<Rightarrow> map_option Some (parse_date env s)) in
            (case (parse_date env (pd_from doc), until) of
               (Some from, Some u) \<Rightarrow>
                 if (case u of None \<Rightarrow> False | Some t \<Rightarrow> t \<le> from) then None
                 else if \<not> list_all (\<lambda>(_, r). clean_requirement r) (pd_profiles doc) then None
                 else Some \<lparr>pp_issuer = pd_issuer doc, pp_approval = pd_approval doc,
                        pp_revision = ''assurance.sha256:'' @ document_digest env doc,
                        pp_from = from, pp_until = u, pp_profiles = pd_profiles doc\<rparr>
             | _ \<Rightarrow> None))"

section \<open>Evaluation\<close>

definition earliest :: "instant option \<Rightarrow> instant \<Rightarrow> instant option" where
  "earliest bound t = (case bound of None \<Rightarrow> Some t | Some b \<Rightarrow> Some (min b t))"

definition not_before :: "instant \<Rightarrow> instant option \<Rightarrow> bool" where
  "not_before now until \<longleftrightarrow> (case until of None \<Rightarrow> False | Some u \<Rightarrow> u \<le> now)"

definition evidence_accepted :: "requirement \<Rightarrow> assurance_token \<Rightarrow> bool" where
  "evidence_accepted r token \<longleftrightarrow>
     (case at_acr token of None \<Rightarrow> False | Some a \<Rightarrow> a \<noteq> [] \<and> a \<in> set (rq_acr r)) \<and>
     (case rq_methods r of
        None \<Rightarrow> True
      | Some ms \<Rightarrow> list_all (\<lambda>m. case at_amr token of None \<Rightarrow> False | Some amr \<Rightarrow> m \<in> set amr) ms)"

text \<open>The freshness rule: \<open>None\<close> is insufficient, otherwise the expiry it leaves.\<close>

definition fresh_until :: "requirement \<Rightarrow> assurance_token \<Rightarrow> instant \<Rightarrow> instant option \<Rightarrow> instant option option" where
  "fresh_until r token now expiry =
     (case rq_max_age r of
        None \<Rightarrow> Some expiry
      | Some JNonInt \<Rightarrow> None
      | Some (JInt seconds) \<Rightarrow>
          (case at_auth_time token of
             None \<Rightarrow> None
           | Some authenticated \<Rightarrow>
               let age = seconds * 1000 in
               if \<not> is_safe_int age \<or> now < authenticated \<or> age < now - authenticated then None
               else Some (earliest expiry (authenticated + age))))"

definition evaluate_approved :: "approved_policy \<Rightarrow> string \<Rightarrow> assurance_token \<Rightarrow> instant option \<Rightarrow> assurance_outcome" where
  "evaluate_approved policy operation token clock =
     (case clock of
        None \<Rightarrow> NotAssured OPERATION_NOT_ACTIVATED
      | Some now \<Rightarrow>
          if now < pp_from policy \<or> not_before now (pp_until policy) \<or> at_issuer token \<noteq> pp_issuer policy
          then NotAssured OPERATION_NOT_ACTIVATED
          else
            (case Option.bind (map_of CANONICAL_OPERATION_PROFILES operation) (map_of (pp_profiles policy)) of
               None \<Rightarrow> NotAssured OPERATION_NOT_ACTIVATED
             | Some profile \<Rightarrow>
                 if \<not> evidence_accepted profile token then NotAssured ASSURANCE_INSUFFICIENT
                 else
                   (case fresh_until profile token now (pp_until policy) of
                      None \<Rightarrow> NotAssured ASSURANCE_INSUFFICIENT
                    | Some expiry \<Rightarrow> Assured (pp_revision policy) expiry)))"

definition evaluate_interim :: "interim_policy \<Rightarrow> string \<Rightarrow> assurance_token \<Rightarrow> assurance_outcome" where
  "evaluate_interim policy operation token =
     (if map_of CANONICAL_OPERATION_PROFILES operation \<noteq> Some BUYER_SESSION
      then NotAssured OPERATION_NOT_ACTIVATED
      else if at_issuer token \<noteq> ip_issuer policy \<or>
        (case at_acr token of None \<Rightarrow> True | Some a \<Rightarrow> a = [] \<or> a \<notin> set (ip_acr policy))
      then NotAssured ASSURANCE_INSUFFICIENT
      else Assured INTERIM_POLICY_REVISION None)"

definition evaluateAssurance ::
  "assurance_policy option \<Rightarrow> string \<Rightarrow> assurance_token \<Rightarrow> instant option \<Rightarrow> assurance_outcome" where
  "evaluateAssurance policy operation token clock =
     (case policy of
        None \<Rightarrow> NotAssured OPERATION_NOT_ACTIVATED
      | Some (Approved p) \<Rightarrow> evaluate_approved p operation token clock
      | Some (Interim p) \<Rightarrow> evaluate_interim p operation token)"

text \<open>An assured operation rests on the evidence its profile asks for.\<close>

lemma interim_assures_sessions_only:
  "evaluateAssurance (Some (Interim p)) operation token clock = Assured revision expiry \<Longrightarrow>
   map_of CANONICAL_OPERATION_PROFILES operation = Some BUYER_SESSION \<and> at_issuer token = ip_issuer p \<and>
   (\<exists>a \<in> set (ip_acr p). at_acr token = Some a)"
  by (auto simp: evaluateAssurance_def evaluate_interim_def split: if_splits option.splits)

lemma earliest_le: "earliest b t = Some e \<Longrightarrow> e \<le> t \<and> (\<forall>u. b = Some u \<longrightarrow> e \<le> u)"
  by (auto simp: earliest_def split: option.splits)

lemma approved_assures_fresh_evidence:
  assumes "evaluateAssurance (Some (Approved p)) operation token clock = Assured revision expiry"
  obtains now profile r where "clock = Some now" and "pp_from p \<le> now" and "\<not> not_before now (pp_until p)"
    and "at_issuer token = pp_issuer p" and "map_of CANONICAL_OPERATION_PROFILES operation = Some profile"
    and "map_of (pp_profiles p) profile = Some r" and "evidence_accepted r token"
    and "fresh_until r token now (pp_until p) = Some expiry" and "revision = pp_revision p"
  using assms unfolding evaluateAssurance_def evaluate_approved_def
  by (auto split: option.splits if_splits simp: bind_eq_Some_conv)

lemma fresh_until_bound:
  assumes "fresh_until r token now until = Some expiry" and "\<not> not_before now until"
  shows "(expiry = None \<or> (\<exists>e. expiry = Some e \<and> now \<le> e)) \<and> (\<forall>u. until = Some u \<longrightarrow> (\<exists>e. expiry = Some e \<and> e \<le> u))"
  using assms by (auto simp: fresh_until_def earliest_def not_before_def Let_def split: option.splits js_number.splits if_splits)

end
