(* ===== verification/Buyer_Context.thy ===== *)
theory Buyer_Context
  imports Buyer_Assurance Js_Text
begin

text \<open>
  The buyer execution context, \<open>src/src/baobab/b2b/buyer-authority.ts\<close>. The token verifier, the
  Control Plane clients, the B2B module service, the clock, the id generator and the pinned schemas
  are the fields of \<open>authority_deps\<close>; a service that is read twice is a function of the reading, so
  its answers may change in between. A date that does not parse is \<open>InvalidDate\<close>.
\<close>

section \<open>Values\<close>

datatype js_date = NoDate | InvalidDate | At instant

text \<open>\<open>inEffect\<close>: absent bounds are infinite, an invalid bound or clock never is in effect.\<close>

definition inEffect :: "js_date \<Rightarrow> js_date \<Rightarrow> instant option \<Rightarrow> bool" where
  "inEffect from until clock \<longleftrightarrow>
     (case clock of
        None \<Rightarrow> False
      | Some now \<Rightarrow>
          from \<noteq> InvalidDate \<and> until \<noteq> InvalidDate \<and>
          (case (from, until) of (At s, At e) \<Rightarrow> s < e | _ \<Rightarrow> True) \<and>
          (case from of At s \<Rightarrow> s \<le> now | _ \<Rightarrow> True) \<and>
          (case until of At e \<Rightarrow> now < e | _ \<Rightarrow> True))"

record refusal =
  x_outcome :: decision_outcome
  x_reason :: decision_reason
  x_status :: nat

definition deny_with :: "decision_reason \<Rightarrow> nat \<Rightarrow> refusal" where
  "deny_with reason status = \<lparr>x_outcome = DENY, x_reason = reason, x_status = status\<rparr>"

definition denied :: "decision_reason \<Rightarrow> refusal" where
  "denied reason = deny_with reason 403"

definition no_answer :: refusal where
  "no_answer = \<lparr>x_outcome = UNAVAILABLE, x_reason = SOURCE_UNAVAILABLE, x_status = 503\<rparr>"

section \<open>Dependencies\<close>

datatype token_failure = TOKEN_INVALID | TOKEN_UNAVAILABLE
datatype principal_failure =
  PF_IDENTITY_NOT_RESOLVED | PF_PRINCIPAL_NOT_ACTIVE | PF_SUBJECT_TOKEN_INVALID |
  PF_SUBJECT_TOKEN_NOT_CURRENT | PF_SUBJECT_TOKEN_NOT_FOR_CALLER | PF_OTHER
datatype estate_failure = EF_RESOLUTION_UNAVAILABLE | EF_CALLER_NOT_PERMITTED | EF_OTHER
datatype tenant_failure = TENANT_NOT_ATTESTED | TENANT_UNAVAILABLE

record bff_caller =
  cl_issuer :: string
  cl_client :: string
  cl_expires :: "instant option"

record buyer_token = assurance_token +
  bt_party :: string
  bt_expires :: "instant option"

record principal =
  pn_id :: string
  pn_identity :: string
  pn_expires :: "instant option"

record estate =
  es_binding :: string
  es_revision :: int
  es_digital :: string
  es_tenant :: string
  es_engine :: string
  es_expires :: "instant option"

record cp_context =
  cx_id :: string
  cx_market :: "string option"
  cx_country :: "string option"
  cx_currency :: "string option"
  cx_expires :: js_date

record relationship =
  rel_id :: string
  rel_status :: string
  rel_tenant :: string
  rel_canonical :: string
  rel_engine :: string
  rel_revision :: js_number
  rel_provenance :: bool

record buyer_membership =
  mb_id :: string
  mb_principal :: string
  mb_organisation :: string
  mb_status :: string
  mb_revision :: js_number
  mb_from :: js_date
  mb_until :: js_date

record buyer_role =
  bo_membership :: string
  bo_role :: string

record context_request =
  rx_caller :: string
  rx_subject :: string
  rx_organisation :: "string option"
  rx_estate :: "string option"
  rx_country :: "string option"
  rx_correlation :: string

record execution_context =
  ec_context :: string
  ec_decision :: string
  ec_correlation :: string
  ec_principal :: string
  ec_identity :: string
  ec_tenant :: string
  ec_estate :: string
  ec_engine :: string
  ec_market :: "string option"
  ec_canonical :: string
  ec_organisation :: string
  ec_membership :: string
  ec_membership_revision :: int
  ec_roles :: "string list"
  ec_cp_context :: string
  ec_operation :: string
  ec_policy :: string
  ec_evaluated :: string
  ec_expires :: string
  ec_evidence :: "string list"

record authority_deps =
  verifyBffCaller :: "string \<Rightarrow> token_failure + bff_caller"
  verifyToken :: "string \<Rightarrow> token_failure + buyer_token"
  assurance_of :: "assurance_policy option"
  resolvePrincipal :: "string \<Rightarrow> string \<Rightarrow> principal_failure + principal"
  estates_of :: "(string \<Rightarrow> string \<Rightarrow> string option \<Rightarrow> string \<Rightarrow> estate_failure + estate) option"
  tenants_of :: "(string \<Rightarrow> string \<Rightarrow> string \<Rightarrow> string option \<Rightarrow> tenant_failure + cp_context) option"
  listB2BOrganisations :: "nat \<Rightarrow> string \<Rightarrow> string \<Rightarrow> relationship list option"
  listBuyerMemberships :: "nat \<Rightarrow> string \<Rightarrow> string \<Rightarrow> buyer_membership list option"
  listRolesOf :: "string \<Rightarrow> buyer_role list option"
  engineInstanceId :: string
  clock :: "nat \<Rightarrow> instant option"
  newId :: "nat \<Rightarrow> string"
  decision_schema :: "decision_outcome \<Rightarrow> decision_reason list \<Rightarrow> bool"
  context_schema :: "execution_context \<Rightarrow> bool"

definition OPERATION :: string where
  "OPERATION = ''trade.buyer-context.resolve''"

definition CONTEXT_LIFETIME_MS :: int where
  "CONTEXT_LIFETIME_MS = 60000"

definition BUYER_CONTEXT_POLICY_REVISION :: string where
  "BUYER_CONTEXT_POLICY_REVISION = ''trade.buyer-context.resolve:v2''"

definition KNOWN_ROLES :: "string list" where
  "KNOWN_ROLES = [''BUYER'', ''SENIOR_BUYER'', ''APPROVER'', ''PROCUREMENT_MANAGER'', ''ACCOUNT_ADMIN'', ''VIEWER'']"

text \<open>\<open>CANONICAL_ID\<close>: lower-case hexadecimal groups of 8, 4, 4, 4 and 12 joined by hyphens.\<close>

definition CANONICAL_ID :: "string \<Rightarrow> bool" where
  "CANONICAL_ID s \<longleftrightarrow>
     length s = 36 \<and>
     list_all (\<lambda>(i, c). if i \<in> {8, 13, 18, 23} then c = CHR ''-'' else lower_hex_char c) (enumerate 0 s)"

section \<open>Steps\<close>

definition tokenRefusal :: "token_failure \<Rightarrow> refusal" where
  "tokenRefusal e = (if e = TOKEN_INVALID then deny_with BUYER_TOKEN_INVALID 401 else no_answer)"

fun principalRefusal :: "principal_failure \<Rightarrow> refusal" where
  "principalRefusal PF_IDENTITY_NOT_RESOLVED = denied IDENTITY_NOT_RESOLVED"
| "principalRefusal PF_PRINCIPAL_NOT_ACTIVE = denied PRINCIPAL_NOT_ACTIVE"
| "principalRefusal PF_SUBJECT_TOKEN_INVALID = deny_with BUYER_TOKEN_INVALID 401"
| "principalRefusal PF_SUBJECT_TOKEN_NOT_CURRENT = deny_with BUYER_TOKEN_INVALID 401"
| "principalRefusal PF_SUBJECT_TOKEN_NOT_FOR_CALLER = deny_with BUYER_TOKEN_INVALID 401"
| "principalRefusal PF_OTHER = no_answer"

definition estateRefusal :: "estate_failure \<Rightarrow> refusal" where
  "estateRefusal e = (if e = EF_RESOLUTION_UNAVAILABLE \<or> e = EF_CALLER_NOT_PERMITTED then no_answer else denied CONTEXT_NOT_USABLE)"

definition tenantRefusal :: "tenant_failure \<Rightarrow> refusal" where
  "tenantRefusal e = (if e = TENANT_NOT_ATTESTED then denied ORGANISATION_NOT_ATTESTED else no_answer)"

definition catching :: "('e \<Rightarrow> refusal) \<Rightarrow> 'e + 'a \<Rightarrow> refusal + 'a" where
  "catching f m = (case m of Inl e \<Rightarrow> Inl (f e) | Inr x \<Rightarrow> Inr x)"

definition present :: "refusal \<Rightarrow> 'a option \<Rightarrow> refusal + 'a" where
  "present r x = (case x of None \<Rightarrow> Inl r | Some y \<Rightarrow> Inr y)"

definition only_one :: "'a list \<Rightarrow> refusal + 'a" where
  "only_one xs = (case xs of [x] \<Rightarrow> Inr x | _ \<Rightarrow> Inl (denied BUYER_NOT_AUTHORISED))"

definition safe_revision :: "js_number \<Rightarrow> bool" where
  "safe_revision n \<longleftrightarrow> (case n of JInt k \<Rightarrow> is_safe_int k \<and> 1 \<le> k | JNonInt \<Rightarrow> False)"

fun revision_text :: "js_number \<Rightarrow> string" where
  "revision_text (JInt k) = int_text k"
| "revision_text JNonInt = ''NaN''"

fun revision_value :: "js_number \<Rightarrow> int" where
  "revision_value (JInt k) = k"
| "revision_value JNonInt = 0"

definition usable_relationship :: "string \<Rightarrow> estate \<Rightarrow> relationship \<Rightarrow> bool" where
  "usable_relationship requested e o1 \<longleftrightarrow>
     rel_status o1 = ''ACTIVE'' \<and> rel_tenant o1 = es_tenant e \<and> rel_canonical o1 = requested \<and>
     rel_engine o1 = es_engine e \<and> safe_revision (rel_revision o1) \<and> rel_provenance o1"

definition usable_membership :: "relationship \<Rightarrow> principal \<Rightarrow> instant option \<Rightarrow> buyer_membership \<Rightarrow> bool" where
  "usable_membership o1 p readAt m \<longleftrightarrow>
     mb_principal m = pn_id p \<and> mb_organisation m = rel_id o1 \<and> mb_status m = ''ACTIVE'' \<and>
     safe_revision (mb_revision m) \<and> inEffect (mb_from m) (mb_until m) readAt"

definition known_roles :: "buyer_membership \<Rightarrow> buyer_role list \<Rightarrow> string list" where
  "known_roles m rows = filter (\<lambda>r. r \<in> set KNOWN_ROLES) (map bo_role (filter (\<lambda>r. bo_membership r = mb_id m) rows))"

text \<open>The second reading must show the same relationship and membership revisions.\<close>

definition unchanged :: "relationship \<Rightarrow> buyer_membership \<Rightarrow> relationship list \<Rightarrow> buyer_membership list \<Rightarrow> bool" where
  "unchanged o1 m os ms \<longleftrightarrow>
     (case (os, ms) of
        ([o2], [m2]) \<Rightarrow>
          rel_id o2 = rel_id o1 \<and> rel_revision o2 = rel_revision o1 \<and> rel_status o2 = ''ACTIVE'' \<and>
          mb_id m2 = mb_id m \<and> mb_revision m2 = mb_revision m \<and> mb_status m2 = ''ACTIVE''
      | _ \<Rightarrow> False)"

definition market_answered :: "string option \<Rightarrow> cp_context \<Rightarrow> bool" where
  "market_answered country cx \<longleftrightarrow>
     (case country of
        None \<Rightarrow> True
      | Some c \<Rightarrow> cx_country cx = Some c \<and> cx_market cx \<noteq> None \<and> cx_market cx \<noteq> Some [] \<and>
          cx_currency cx \<noteq> None \<and> cx_currency cx \<noteq> Some [])"

definition date_instant :: "js_date \<Rightarrow> instant option" where
  "date_instant d = (case d of At t \<Rightarrow> Some t | _ \<Rightarrow> None)"

text \<open>\<open>Math.min(...expiries)\<close>: \<open>None\<close> is not finite, which one invalid date makes it.\<close>

definition earliest_of :: "instant option list \<Rightarrow> instant option" where
  "earliest_of xs = map_option (\<lambda>ts. foldl min (hd ts) ts) (those xs)"

definition expiries ::
  "instant \<Rightarrow> instant option \<Rightarrow> buyer_token \<Rightarrow> bff_caller \<Rightarrow> principal \<Rightarrow> estate \<Rightarrow> cp_context \<Rightarrow> buyer_membership \<Rightarrow>
     instant option list" where
  "expiries startedAt assured token caller p e cx m =
     [Some (startedAt + CONTEXT_LIFETIME_MS)] @ (case assured of None \<Rightarrow> [] | Some t \<Rightarrow> [Some t]) @
     [bt_expires token, cl_expires caller, pn_expires p, es_expires e, date_instant (cx_expires cx)] @
     (case mb_until m of NoDate \<Rightarrow> [] | d \<Rightarrow> [date_instant d])"

text \<open>\<open>[...new Set(xs)]\<close> keeps the first occurrence of each.\<close>

definition distinct_first :: "'a list \<Rightarrow> 'a list" where
  "distinct_first xs = rev (remdups (rev xs))"

fun approval_reference :: "assurance_policy option \<Rightarrow> string" where
  "approval_reference None = []"
| "approval_reference (Some (Interim p)) = ip_approval p"
| "approval_reference (Some (Approved p)) = pp_approval p"

definition publish ::
  "authority_deps \<Rightarrow> context_request \<Rightarrow> string \<Rightarrow> principal \<Rightarrow> estate \<Rightarrow> string \<Rightarrow> relationship \<Rightarrow> buyer_membership \<Rightarrow>
     string list \<Rightarrow> cp_context \<Rightarrow> instant \<Rightarrow> instant \<Rightarrow> execution_context" where
  "publish deps rx revision p e requested o1 m roles cx now expiresAt =
     \<lparr>ec_context = newId deps 0, ec_decision = newId deps 1, ec_correlation = rx_correlation rx,
      ec_principal = pn_id p, ec_identity = pn_identity p, ec_tenant = es_tenant e, ec_estate = es_digital e,
      ec_engine = es_engine e,
      ec_market = (case cx_market cx of Some x \<Rightarrow> if x = [] then None else Some x | None \<Rightarrow> None),
      ec_canonical = requested, ec_organisation = rel_id o1, ec_membership = mb_id m,
      ec_membership_revision = revision_value (mb_revision m), ec_roles = distinct_first roles,
      ec_cp_context = cx_id cx, ec_operation = OPERATION,
      ec_policy = BUYER_CONTEXT_POLICY_REVISION @ '';'' @ revision,
      ec_evaluated = iso_string now, ec_expires = iso_string expiresAt,
      ec_evidence =
        [''cp-principal-resolution:'' @ pn_identity p,
         ''cp-estate-binding:'' @ es_binding e @ ''@r'' @ int_text (es_revision e),
         ''cp-context:'' @ cx_id cx,
         ''trade-buyer-relationship:'' @ rel_id o1 @ ''@r'' @ revision_text (rel_revision o1),
         ''assurance:'' @ revision @ ''@'' @ approval_reference (assurance_of deps)]\<rparr>"

section \<open>The evaluation\<close>

text \<open>Steps 1 to 5: the caller, the human token, its assurance, the Principal and the estate.\<close>

record identified =
  i_started :: instant
  i_caller :: bff_caller
  i_token :: buyer_token
  i_revision :: string
  i_assured :: "instant option"
  i_principal :: principal
  i_estate :: estate

definition identify :: "authority_deps \<Rightarrow> context_request \<Rightarrow> refusal + identified" where
  "identify deps rx =
     andThen (present no_answer (clock deps 0)) (\<lambda>startedAt.
     andThen (catching tokenRefusal (verifyBffCaller deps (rx_caller rx))) (\<lambda>caller.
     andThen (catching tokenRefusal (verifyToken deps (rx_subject rx))) (\<lambda>token.
     andThen (ensure (\<not> (bt_party token \<noteq> cl_client caller \<or> at_issuer token \<noteq> cl_issuer caller))
       (deny_with BUYER_TOKEN_INVALID 401)) (\<lambda>_.
     case evaluateAssurance (assurance_of deps) OPERATION (assurance_token.truncate token) (Some startedAt) of
       NotAssured reason \<Rightarrow> Inl (denied reason)
     | Assured revision assured \<Rightarrow>
         andThen (catching principalRefusal (resolvePrincipal deps (rx_subject rx) (rx_correlation rx))) (\<lambda>p.
         andThen (present no_answer (estates_of deps)) (\<lambda>resolve.
         andThen (catching estateRefusal (resolve (rx_caller rx) (cl_client caller) (rx_estate rx) (rx_correlation rx))) (\<lambda>e.
         andThen (ensure (es_engine e = engineInstanceId deps) (denied CONTEXT_NOT_USABLE)) (\<lambda>_.
         Inr \<lparr>i_started = startedAt, i_caller = caller, i_token = token, i_revision = revision, i_assured = assured,
              i_principal = p, i_estate = e\<rparr>))))))))"

text \<open>Steps 6 to 8: the selected Organisation, the relationship, the membership and its roles.\<close>

record selected =
  s_requested :: string
  s_relationship :: relationship
  s_membership :: buyer_membership
  s_roles :: "string list"

definition select :: "authority_deps \<Rightarrow> context_request \<Rightarrow> identified \<Rightarrow> refusal + selected" where
  "select deps rx i =
     andThen (present \<lparr>x_outcome = SELECTION_REQUIRED, x_reason = ORGANISATION_SELECTION_REQUIRED, x_status = 409\<rparr>
       (rx_organisation rx)) (\<lambda>requested.
     andThen (ensure (CANONICAL_ID requested) (denied BUYER_NOT_AUTHORISED)) (\<lambda>_.
     andThen (present no_answer (listB2BOrganisations deps 0 requested (es_tenant (i_estate i)))) (\<lambda>os.
     andThen (only_one os) (\<lambda>o1.
     andThen (ensure (usable_relationship requested (i_estate i) o1) (denied BUYER_NOT_AUTHORISED)) (\<lambda>_.
     andThen (present no_answer (listBuyerMemberships deps 0 (rel_id o1) (pn_id (i_principal i)))) (\<lambda>ms.
     andThen (only_one ms) (\<lambda>m.
     andThen (ensure (usable_membership o1 (i_principal i) (clock deps 1) m) (denied BUYER_NOT_AUTHORISED)) (\<lambda>_.
     andThen (present no_answer (listRolesOf deps (mb_id m))) (\<lambda>rows.
     andThen (ensure (known_roles m rows \<noteq> []) (denied ROLE_NOT_PERMITTED)) (\<lambda>_.
     Inr \<lparr>s_requested = requested, s_relationship = o1, s_membership = m, s_roles = known_roles m rows\<rparr>))))))))))"

text \<open>Step 9 and the publication: attestation, the second reading, and the evaluation after all I/O.\<close>

definition confirm :: "authority_deps \<Rightarrow> context_request \<Rightarrow> identified \<Rightarrow> selected \<Rightarrow> refusal + execution_context" where
  "confirm deps rx i s =
     andThen (present no_answer (tenants_of deps)) (\<lambda>verify.
     andThen (catching tenantRefusal (verify (es_tenant (i_estate i)) (s_requested s) (rx_correlation rx) (rx_country rx))) (\<lambda>cx.
     andThen (present no_answer (listB2BOrganisations deps 1 (s_requested s) (es_tenant (i_estate i)))) (\<lambda>os.
     andThen (present no_answer (listBuyerMemberships deps 1 (rel_id (s_relationship s)) (pn_id (i_principal i)))) (\<lambda>ms.
     andThen (ensure (unchanged (s_relationship s) (s_membership s) os ms) (denied BUYER_NOT_AUTHORISED)) (\<lambda>_.
     andThen (present no_answer (clock deps 2)) (\<lambda>now.
     andThen (ensure (\<not> now < i_started i) no_answer) (\<lambda>_.
     andThen (ensure (inEffect (mb_from (s_membership s)) (mb_until (s_membership s)) (Some now)) (denied BUYER_NOT_AUTHORISED)) (\<lambda>_.
     andThen (ensure (cx_expires cx \<noteq> NoDate) no_answer) (\<lambda>_.
     andThen (ensure (market_answered (rx_country rx) cx) (denied MARKET_NOT_PERMITTED)) (\<lambda>_.
     case earliest_of (expiries (i_started i) (i_assured i) (i_token i) (i_caller i) (i_principal i) (i_estate i) cx (s_membership s)) of
       None \<Rightarrow> Inl (denied CONTEXT_NOT_USABLE)
     | Some expiresAt \<Rightarrow>
         if expiresAt \<le> now then Inl (denied CONTEXT_NOT_USABLE)
         else
           let context = publish deps rx (i_revision i) (i_principal i) (i_estate i) (s_requested s) (s_relationship s)
                 (s_membership s) (s_roles s) cx now expiresAt in
           if \<not> context_schema deps context then Inl no_answer else Inr context))))))))))"

definition evaluate :: "authority_deps \<Rightarrow> context_request \<Rightarrow> refusal + execution_context" where
  "evaluate deps rx =
     andThen (identify deps rx) (\<lambda>i. andThen (select deps rx i) (\<lambda>s. confirm deps rx i s))"

datatype context_result =
    Allowed execution_context
  | NotAllowed decision_outcome nat "decision_reason list"

definition resolveBuyerContext :: "authority_deps \<Rightarrow> context_request \<Rightarrow> context_result" where
  "resolveBuyerContext deps rx =
     (case evaluate deps rx of
        Inr context \<Rightarrow> Allowed context
      | Inl r \<Rightarrow>
          if \<not> decision_schema deps (x_outcome r) [x_reason r]
          then NotAllowed UNAVAILABLE 503 [SOURCE_UNAVAILABLE]
          else NotAllowed (x_outcome r) (x_status r) [x_reason r])"

end
