(* ===== verification/Buyer_Context_Properties.thy ===== *)
theory Buyer_Context_Properties
  imports Buyer_Context
begin

text \<open>
  What a published buyer context rests on, how long it lives, and what its refusals disclose.
\<close>

lemma catching_Inr [tx_simps]: "catching f m = Inr x \<longleftrightarrow> m = Inr x"
  by (cases m) (simp_all add: catching_def)

lemma catching_Inl: "catching f m = Inl r \<longleftrightarrow> (\<exists>e. m = Inl e \<and> r = f e)"
  by (cases m) (auto simp: catching_def)

lemma present_Inr [tx_simps]: "present r x = Inr y \<longleftrightarrow> x = Some y"
  by (cases x) (simp_all add: present_def)

lemma present_Inl: "present r x = Inl q \<longleftrightarrow> x = None \<and> q = r"
  by (cases x) (auto simp: present_def)

lemma only_one_Inr [tx_simps]: "only_one xs = Inr x \<longleftrightarrow> xs = [x]"
  by (auto simp: only_one_def split: list.splits)

lemma only_one_Inl: "only_one xs = Inl r \<longleftrightarrow> length xs \<noteq> 1 \<and> r = denied BUYER_NOT_AUTHORISED"
  by (auto simp: only_one_def split: list.splits)

lemma assured_Inr [tx_simps]:
  "(case x of Assured v e \<Rightarrow> f v e | NotAssured r \<Rightarrow> Inl (g r)) = Inr y \<longleftrightarrow> (\<exists>v e. x = Assured v e \<and> f v e = Inr y)"
  by (cases x) simp_all

lemma ensure_Inr_unit [tx_simps]: "ensure c e = Inr () \<longleftrightarrow> c"
  by simp

section \<open>Evidence\<close>

lemma identify_Inr:
  assumes "identify deps rx = Inr i"
  shows "clock deps 0 = Some (i_started i) \<and> verifyBffCaller deps (rx_caller rx) = Inr (i_caller i) \<and>
     verifyToken deps (rx_subject rx) = Inr (i_token i) \<and>
     bt_party (i_token i) = cl_client (i_caller i) \<and> at_issuer (i_token i) = cl_issuer (i_caller i) \<and>
     evaluateAssurance (assurance_of deps) OPERATION (assurance_token.truncate (i_token i)) (Some (i_started i)) =
       Assured (i_revision i) (i_assured i) \<and>
     resolvePrincipal deps (rx_subject rx) (rx_correlation rx) = Inr (i_principal i) \<and>
     (\<exists>resolve. estates_of deps = Some resolve \<and>
        resolve (rx_caller rx) (cl_client (i_caller i)) (rx_estate rx) (rx_correlation rx) = Inr (i_estate i)) \<and>
     es_engine (i_estate i) = engineInstanceId deps"
  using assms unfolding identify_def by (auto simp: tx_simps)

lemma select_Inr:
  assumes "select deps rx i = Inr s"
  shows "rx_organisation rx = Some (s_requested s) \<and> CANONICAL_ID (s_requested s) \<and>
     listB2BOrganisations deps 0 (s_requested s) (es_tenant (i_estate i)) = Some [s_relationship s] \<and>
     usable_relationship (s_requested s) (i_estate i) (s_relationship s) \<and>
     listBuyerMemberships deps 0 (rel_id (s_relationship s)) (pn_id (i_principal i)) = Some [s_membership s] \<and>
     usable_membership (s_relationship s) (i_principal i) (clock deps 1) (s_membership s) \<and>
     (\<exists>rows. listRolesOf deps (mb_id (s_membership s)) = Some rows \<and> s_roles s = known_roles (s_membership s) rows) \<and>
     s_roles s \<noteq> []"
  using assms unfolding select_def by (auto simp: tx_simps)

lemma confirm_Inr:
  assumes "confirm deps rx i s = Inr context"
  obtains verify cx os ms now expiresAt where "tenants_of deps = Some verify"
    and "verify (es_tenant (i_estate i)) (s_requested s) (rx_correlation rx) (rx_country rx) = Inr cx"
    and "listB2BOrganisations deps 1 (s_requested s) (es_tenant (i_estate i)) = Some os"
    and "listBuyerMemberships deps 1 (rel_id (s_relationship s)) (pn_id (i_principal i)) = Some ms"
    and "unchanged (s_relationship s) (s_membership s) os ms" and "clock deps 2 = Some now" and "i_started i \<le> now"
    and "inEffect (mb_from (s_membership s)) (mb_until (s_membership s)) (Some now)" and "market_answered (rx_country rx) cx"
    and "earliest_of (expiries (i_started i) (i_assured i) (i_token i) (i_caller i) (i_principal i) (i_estate i) cx (s_membership s)) =
      Some expiresAt" and "now < expiresAt"
    and "context = publish deps rx (i_revision i) (i_principal i) (i_estate i) (s_requested s) (s_relationship s)
      (s_membership s) (s_roles s) cx now expiresAt" and "context_schema deps context"
  using assms unfolding confirm_def Let_def
  by (auto simp: tx_simps split: option.splits if_splits)

lemma resolve_Allowed:
  assumes "resolveBuyerContext deps rx = Allowed context"
  obtains i s where "identify deps rx = Inr i" and "select deps rx i = Inr s" and "confirm deps rx i s = Inr context"
  using assms unfolding resolveBuyerContext_def evaluate_def
  by (auto simp: andThen_Inr_iff split: sum.splits if_splits)

text \<open>
  C26: a published context rests on independently verified evidence. Its caller and human tokens
  verified and belong together; the operation is assured; the Principal is resolved and the estate
  attested for this engine; exactly one usable relationship and one usable membership of that
  Principal were listed, before and after the tenant attestation, with unchanged revisions; its roles
  are known roles of that membership; and it meets the wire schema.
\<close>

theorem published_context_rests_on_evidence:
  assumes "resolveBuyerContext deps rx = Allowed context"
  shows "\<exists>(i :: identified) (s :: selected). verifyBffCaller deps (rx_caller rx) = Inr (i_caller i) \<and> verifyToken deps (rx_subject rx) = Inr (i_token i) \<and>
     bt_party (i_token i) = cl_client (i_caller i) \<and> at_issuer (i_token i) = cl_issuer (i_caller i) \<and>
     resolvePrincipal deps (rx_subject rx) (rx_correlation rx) = Inr (i_principal i) \<and>
     es_engine (i_estate i) = engineInstanceId deps \<and> rx_organisation rx = Some (s_requested s) \<and>
     listB2BOrganisations deps 0 (s_requested s) (es_tenant (i_estate i)) = Some [s_relationship s] \<and>
     usable_relationship (s_requested s) (i_estate i) (s_relationship s) \<and>
     listBuyerMemberships deps 0 (rel_id (s_relationship s)) (pn_id (i_principal i)) = Some [s_membership s] \<and>
     usable_membership (s_relationship s) (i_principal i) (clock deps 1) (s_membership s) \<and>
     (\<exists>verify cx. tenants_of deps = Some verify \<and>
        verify (es_tenant (i_estate i)) (s_requested s) (rx_correlation rx) (rx_country rx) = Inr cx) \<and>
     (\<exists>os ms. listB2BOrganisations deps 1 (s_requested s) (es_tenant (i_estate i)) = Some os \<and>
        listBuyerMemberships deps 1 (rel_id (s_relationship s)) (pn_id (i_principal i)) = Some ms \<and>
        unchanged (s_relationship s) (s_membership s) os ms) \<and>
     ec_principal context = pn_id (i_principal i) \<and> ec_organisation context = rel_id (s_relationship s) \<and>
     ec_membership context = mb_id (s_membership s) \<and> JInt (ec_membership_revision context) = mb_revision (s_membership s) \<and>
     ec_roles context \<noteq> [] \<and> set (ec_roles context) \<subseteq> set KNOWN_ROLES \<and> distinct (ec_roles context) \<and>
     context_schema deps context"
proof -
  obtain i s where i: "identify deps rx = Inr i" and s: "select deps rx i = Inr s" and c: "confirm deps rx i s = Inr context"
    by (rule resolve_Allowed [OF assms])
  obtain verify cx os ms now expiresAt where v: "tenants_of deps = Some verify"
    "verify (es_tenant (i_estate i)) (s_requested s) (rx_correlation rx) (rx_country rx) = Inr cx"
    and again: "listB2BOrganisations deps 1 (s_requested s) (es_tenant (i_estate i)) = Some os"
      "listBuyerMemberships deps 1 (rel_id (s_relationship s)) (pn_id (i_principal i)) = Some ms"
      "unchanged (s_relationship s) (s_membership s) os ms"
    and p: "context = publish deps rx (i_revision i) (i_principal i) (i_estate i) (s_requested s) (s_relationship s)
      (s_membership s) (s_roles s) cx now expiresAt" and sch: "context_schema deps context"
    by (rule confirm_Inr [OF c])
  note I = identify_Inr [OF i] and S = select_Inr [OF s]
  obtain k where k: "mb_revision (s_membership s) = JInt k"
    using S by (auto simp: usable_membership_def safe_revision_def split: js_number.splits)
  have fields: "ec_principal context = pn_id (i_principal i)" "ec_organisation context = rel_id (s_relationship s)"
    "ec_membership context = mb_id (s_membership s)" "JInt (ec_membership_revision context) = mb_revision (s_membership s)"
    "ec_roles context = distinct_first (s_roles s)"
    by (simp_all add: p publish_def k)
  have roles: "ec_roles context \<noteq> []" "set (ec_roles context) \<subseteq> set KNOWN_ROLES" "distinct (ec_roles context)"
    using S by (auto simp: fields(5) distinct_first_def known_roles_def)
  have attested: "\<exists>verify cx. tenants_of deps = Some verify \<and>
      verify (es_tenant (i_estate i)) (s_requested s) (rx_correlation rx) (rx_country rx) = Inr cx"
    using v by blast
  have reread: "\<exists>os ms. listB2BOrganisations deps 1 (s_requested s) (es_tenant (i_estate i)) = Some os \<and>
      listBuyerMemberships deps 1 (rel_id (s_relationship s)) (pn_id (i_principal i)) = Some ms \<and>
      unchanged (s_relationship s) (s_membership s) os ms"
    using again by blast
  show ?thesis
    by (rule exI [of _ i], rule exI [of _ s]) (use I S attested reread fields(1-4) roles sch in \<open>simp only: simp_thms\<close>)
qed

section \<open>Lifetime\<close>

lemma foldl_min_le:
  fixes a :: int
  shows "foldl min a xs \<le> a \<and> (\<forall>x \<in> set xs. foldl min a xs \<le> x)"
proof (induction xs arbitrary: a)
  case (Cons x xs)
  show ?case using Cons [of "min a x"] by auto
qed simp

lemma those_Some_member: "those xs = Some ys \<Longrightarrow> x \<in> set xs \<Longrightarrow> \<exists>y \<in> set ys. x = Some y"
  by (induction xs arbitrary: ys) (auto split: option.splits)

lemma earliest_of_le:
  assumes "earliest_of xs = Some e" and "x \<in> set xs"
  shows "\<exists>t. x = Some t \<and> e \<le> t"
proof -
  obtain ys where ys: "those xs = Some ys" "e = foldl min (hd ys) ys" using assms(1) by (auto simp: earliest_of_def)
  then show ?thesis using those_Some_member [OF ys(1) assms(2)] foldl_min_le [of "hd ys" ys] by blast
qed

text \<open>
  C27: a context is short-lived and never outlives its evidence. It is published at an instant of the
  deciding clock, expires after it and at most sixty seconds after the evaluation began, and no later
  than any of: the human and the caller token as verified, the Principal evidence as resolved, the
  estate attestation as answered for that caller, the Control Plane context that the tenant
  verification answered for this Organisation and that the published context names, the assurance,
  and the end of the listed membership.
\<close>

theorem published_context_lifetime:
  assumes "resolveBuyerContext deps rx = Allowed context"
  shows "\<exists>started now e caller token p resolve es verify cx m revision assured a b c d x.
     clock deps 0 = Some started \<and> clock deps 2 = Some now \<and> started \<le> now \<and> now < e \<and> e \<le> started + 60000 \<and>
     ec_evaluated context = iso_string now \<and> ec_expires context = iso_string e \<and>
     verifyBffCaller deps (rx_caller rx) = Inr caller \<and> cl_expires caller = Some a \<and> e \<le> a \<and>
     verifyToken deps (rx_subject rx) = Inr token \<and> bt_expires token = Some b \<and> e \<le> b \<and>
     resolvePrincipal deps (rx_subject rx) (rx_correlation rx) = Inr p \<and> ec_principal context = pn_id p \<and>
     pn_expires p = Some c \<and> e \<le> c \<and>
     estates_of deps = Some resolve \<and> resolve (rx_caller rx) (cl_client caller) (rx_estate rx) (rx_correlation rx) = Inr es \<and>
     ec_tenant context = es_tenant es \<and> es_expires es = Some d \<and> e \<le> d \<and>
     tenants_of deps = Some verify \<and> verify (es_tenant es) (ec_canonical context) (rx_correlation rx) (rx_country rx) = Inr cx \<and>
     ec_cp_context context = cx_id cx \<and> cx_expires cx = At x \<and> e \<le> x \<and>
     evaluateAssurance (assurance_of deps) OPERATION (assurance_token.truncate token) (Some started) = Assured revision assured \<and>
     (case assured of None \<Rightarrow> True | Some t \<Rightarrow> e \<le> t) \<and>
     listBuyerMemberships deps 0 (ec_organisation context) (pn_id p) = Some [m] \<and> ec_membership context = mb_id m \<and>
     (case mb_until m of At t \<Rightarrow> e \<le> t | InvalidDate \<Rightarrow> False | NoDate \<Rightarrow> True)"
proof -
  obtain i s where i: "identify deps rx = Inr i" and s: "select deps rx i = Inr s" and c: "confirm deps rx i s = Inr context"
    by (rule resolve_Allowed [OF assms])
  obtain verify cx now e where v: "tenants_of deps = Some verify"
      "verify (es_tenant (i_estate i)) (s_requested s) (rx_correlation rx) (rx_country rx) = Inr cx"
    and now: "clock deps 2 = Some now" "i_started i \<le> now" "now < e"
    and ef: "inEffect (mb_from (s_membership s)) (mb_until (s_membership s)) (Some now)"
    and ex: "earliest_of (expiries (i_started i) (i_assured i) (i_token i) (i_caller i) (i_principal i) (i_estate i) cx (s_membership s)) = Some e"
    and p: "context = publish deps rx (i_revision i) (i_principal i) (i_estate i) (s_requested s) (s_relationship s)
      (s_membership s) (s_roles s) cx now e"
    by (rule confirm_Inr [OF c])
  obtain resolve where r: "estates_of deps = Some resolve"
      "resolve (rx_caller rx) (cl_client (i_caller i)) (rx_estate rx) (rx_correlation rx) = Inr (i_estate i)"
    using identify_Inr [OF i] by blast
  have le: "\<exists>t. y = Some t \<and> e \<le> t"
    if "y \<in> set (expiries (i_started i) (i_assured i) (i_token i) (i_caller i) (i_principal i) (i_estate i) cx (s_membership s))" for y
    using earliest_of_le [OF ex that] .
  note X = le [unfolded expiries_def]
  have start: "e \<le> i_started i + 60000" using X [of "Some (i_started i + CONTEXT_LIFETIME_MS)"] by (simp add: CONTEXT_LIFETIME_MS_def)
  obtain a where a: "cl_expires (i_caller i) = Some a" "e \<le> a" using X [of "cl_expires (i_caller i)"] by auto
  obtain b where b: "bt_expires (i_token i) = Some b" "e \<le> b" using X [of "bt_expires (i_token i)"] by auto
  obtain c where c: "pn_expires (i_principal i) = Some c" "e \<le> c" using X [of "pn_expires (i_principal i)"] by auto
  obtain d where d: "es_expires (i_estate i) = Some d" "e \<le> d" using X [of "es_expires (i_estate i)"] by auto
  obtain x where "date_instant (cx_expires cx) = Some x" "e \<le> x" using X [of "date_instant (cx_expires cx)"] by auto
  then have x: "cx_expires cx = At x" "e \<le> x" by (auto simp: date_instant_def split: js_date.splits)
  have assured: "case i_assured i of None \<Rightarrow> True | Some t \<Rightarrow> e \<le> t"
    using X [of "i_assured i"] by (auto split: option.splits)
  have until: "case mb_until (s_membership s) of At t \<Rightarrow> e \<le> t | InvalidDate \<Rightarrow> False | NoDate \<Rightarrow> True"
    using X [of "date_instant (mb_until (s_membership s))"] ef
    by (auto simp: inEffect_def date_instant_def split: js_date.splits)
  have fields: "ec_evaluated context = iso_string now" "ec_expires context = iso_string e" "ec_principal context = pn_id (i_principal i)"
    "ec_tenant context = es_tenant (i_estate i)" "ec_canonical context = s_requested s" "ec_cp_context context = cx_id cx"
    "ec_organisation context = rel_id (s_relationship s)" "ec_membership context = mb_id (s_membership s)"
    by (simp_all add: p publish_def)
  show ?thesis
    by (rule exI [of _ "i_started i"], rule exI [of _ now], rule exI [of _ e], rule exI [of _ "i_caller i"], rule exI [of _ "i_token i"],
        rule exI [of _ "i_principal i"], rule exI [of _ resolve], rule exI [of _ "i_estate i"], rule exI [of _ verify], rule exI [of _ cx],
        rule exI [of _ "s_membership s"], rule exI [of _ "i_revision i"], rule exI [of _ "i_assured i"], rule exI [of _ a],
        rule exI [of _ b], rule exI [of _ c], rule exI [of _ d], rule exI [of _ x])
      (use identify_Inr [OF i] select_Inr [OF s] v r now start a b c d x assured until fields in \<open>simp only: simp_thms\<close>)
qed

section \<open>Refusals\<close>

definition wire_refusal :: "decision_outcome \<Rightarrow> nat \<Rightarrow> decision_reason \<Rightarrow> bool" where
  "wire_refusal outcome status reason \<longleftrightarrow>
     (outcome = DENY \<and> status = (if reason = BUYER_TOKEN_INVALID then 401 else 403)) \<or>
     (outcome = SELECTION_REQUIRED \<and> status = 409 \<and> reason = ORGANISATION_SELECTION_REQUIRED) \<or>
     (outcome = UNAVAILABLE \<and> status = 503 \<and> reason = SOURCE_UNAVAILABLE)"

definition on_wire :: "refusal \<Rightarrow> bool" where
  "on_wire r \<longleftrightarrow> wire_refusal (x_outcome r) (x_status r) (x_reason r)"

lemma on_wire_simps [simp]:
  "on_wire no_answer" "on_wire (deny_with BUYER_TOKEN_INVALID 401)" "on_wire (denied r) \<longleftrightarrow> r \<noteq> BUYER_TOKEN_INVALID"
  "on_wire (tokenRefusal t)" "on_wire (estateRefusal e)" "on_wire (tenantRefusal n)"
  "on_wire \<lparr>x_outcome = SELECTION_REQUIRED, x_reason = ORGANISATION_SELECTION_REQUIRED, x_status = 409\<rparr>"
  by (auto simp: on_wire_def wire_refusal_def no_answer_def deny_with_def denied_def tokenRefusal_def estateRefusal_def tenantRefusal_def)

lemma on_wire_principal [simp]: "on_wire (principalRefusal e)"
  by (cases e) simp_all

text \<open>A step refuses on the wire when each of its parts does.\<close>

definition refuses_on_wire :: "refusal + 'a \<Rightarrow> bool" where
  "refuses_on_wire m \<longleftrightarrow> (\<forall>r. m = Inl r \<longrightarrow> on_wire r)"

named_theorems wire_intros

lemma refuses_on_wire_parts [wire_intros]:
  "refuses_on_wire (Inr x)"
  "on_wire r \<Longrightarrow> refuses_on_wire (Inl r)"
  "on_wire r \<Longrightarrow> refuses_on_wire (present r y)"
  "on_wire r \<Longrightarrow> refuses_on_wire (ensure c r)"
  "(\<And>e. on_wire (f e)) \<Longrightarrow> refuses_on_wire (catching f m)"
  "refuses_on_wire (only_one xs)"
  by (auto simp: refuses_on_wire_def present_Inl catching_Inl only_one_Inl)

lemma refuses_on_wire_andThen [wire_intros]:
  "refuses_on_wire m \<Longrightarrow> (\<And>x. refuses_on_wire (f x)) \<Longrightarrow> refuses_on_wire (andThen m f)"
  by (auto simp: refuses_on_wire_def andThen_Inl_iff)

lemma refuses_on_wire_cases [wire_intros]:
  "(c \<Longrightarrow> refuses_on_wire m) \<Longrightarrow> (\<not> c \<Longrightarrow> refuses_on_wire k) \<Longrightarrow> refuses_on_wire (if c then m else k)"
  "refuses_on_wire m \<Longrightarrow> (\<And>z. refuses_on_wire (h z)) \<Longrightarrow> refuses_on_wire (case y of None \<Rightarrow> m | Some z \<Rightarrow> h z)"
  by (simp_all split: option.splits)

lemma assurance_reasons:
  "evaluateAssurance policy operation token now = NotAssured reason \<Longrightarrow> reason \<in> {OPERATION_NOT_ACTIVATED, ASSURANCE_INSUFFICIENT}"
  by (auto simp: evaluateAssurance_def evaluate_approved_def evaluate_interim_def
      split: option.splits assurance_policy.splits if_splits)

lemma assurance_on_wire [wire_intros]:
  assumes "\<And>v e. refuses_on_wire (f v e)"
  shows "refuses_on_wire (case evaluateAssurance policy operation token now of Assured v e \<Rightarrow> f v e | NotAssured r \<Rightarrow> Inl (denied r))"
  using assms assurance_reasons [of policy operation token now]
  by (auto simp: refuses_on_wire_def split: assurance_outcome.splits)

lemma identify_refusals: "refuses_on_wire (identify deps rx)"
  unfolding identify_def by (intro wire_intros on_wire_simps on_wire_principal) simp_all

lemma select_on_wire: "refuses_on_wire (select deps rx i)"
  unfolding select_def by (intro wire_intros on_wire_simps) simp_all

lemma confirm_refusals: "refuses_on_wire (confirm deps rx i s)"
  unfolding confirm_def Let_def by (intro wire_intros on_wire_simps) simp_all

lemma select_refusals:
  "select deps rx i = Inl r \<Longrightarrow> rx_organisation rx \<noteq> None \<Longrightarrow> x_reason r \<in> {BUYER_NOT_AUTHORISED, SOURCE_UNAVAILABLE, ROLE_NOT_PERMITTED}"
  unfolding select_def
  by (auto simp: andThen_Inl_iff present_Inl only_one_Inl no_answer_def denied_def deny_with_def split: if_splits)

text \<open>
  every answer is one of the wire's, with its status. A refusal carries exactly one reason; DENY
  is 401 for an invalid token and 403 otherwise, a missing selection is 409, and UNAVAILABLE is 503
  with SOURCE_UNAVAILABLE; nothing is refused as ALLOW or APPROVAL_REQUIRED.
\<close>

theorem refusals_are_on_the_wire:
  assumes "resolveBuyerContext deps rx = NotAllowed outcome status reasons"
  shows "\<exists>reason. reasons = [reason] \<and> wire_refusal outcome status reason"
proof -
  obtain r where r: "evaluate deps rx = Inl r"
    and out: "NotAllowed outcome status reasons = (if \<not> decision_schema deps (x_outcome r) [x_reason r]
      then NotAllowed UNAVAILABLE 503 [SOURCE_UNAVAILABLE] else NotAllowed (x_outcome r) (x_status r) [x_reason r])"
    using assms by (auto simp: resolveBuyerContext_def split: sum.splits)
  have "refuses_on_wire (evaluate deps rx)"
    unfolding evaluate_def by (intro wire_intros identify_refusals select_on_wire confirm_refusals)
  then have "on_wire r" using r by (simp add: refuses_on_wire_def)
  then show ?thesis using out by (auto simp: on_wire_def wire_refusal_def split: if_splits)
qed

text \<open>
  a non-member learns nothing about an Organisation. When an Organisation was selected and the
  relationship and membership checks refuse, the reason is no more specific than BUYER_NOT_AUTHORISED
  (or, for a member without a known role, ROLE_NOT_PERMITTED; or that a source did not answer), and
  the answer is the same whatever the Control Plane would attest about that Organisation.
\<close>

theorem non_member_learns_nothing:
  assumes "identify deps rx = Inr i" and "select deps rx i = Inl r" and "rx_organisation rx = Some requested"
  shows "x_reason r \<in> {BUYER_NOT_AUTHORISED, SOURCE_UNAVAILABLE, ROLE_NOT_PERMITTED} \<and>
     resolveBuyerContext (deps\<lparr>tenants_of := verify\<rparr>) rx = resolveBuyerContext deps rx"
proof -
  have "identify (deps\<lparr>tenants_of := verify\<rparr>) rx = identify deps rx"
    by (simp add: identify_def cong del: assurance_outcome.case_cong_weak)
  moreover have "select (deps\<lparr>tenants_of := verify\<rparr>) rx i = select deps rx i" by (simp add: select_def)
  ultimately have "evaluate (deps\<lparr>tenants_of := verify\<rparr>) rx = Inl r" "evaluate deps rx = Inl r"
    using assms(1,2) by (simp_all add: evaluate_def)
  then show ?thesis using select_refusals [OF assms(2)] assms(3) by (simp add: resolveBuyerContext_def)
qed

section \<open>A buyer that resolves\<close>

text \<open>A deployment with one Organisation and one buyer, and the same with the membership revoked.\<close>

definition demo_org :: string where "demo_org = ''00000000-0000-4000-8000-000000000001''"

definition demo_caller :: "string \<Rightarrow> token_failure + bff_caller" where
  "demo_caller t = (if t = ''caller'' then Inr \<lparr>cl_issuer = ''iss'', cl_client = ''bff'', cl_expires = Some 500000\<rparr> else Inl TOKEN_INVALID)"

definition demo_token :: "string \<Rightarrow> token_failure + buyer_token" where
  "demo_token t = (if t = ''human''
     then Inr \<lparr>at_issuer = ''iss'', at_acr = Some ''gold'', at_amr = None, at_auth_time = None, bt_party = ''bff'', bt_expires = Some 400000\<rparr>
     else Inl TOKEN_INVALID)"

definition demo_principal :: "string \<Rightarrow> string \<Rightarrow> principal_failure + principal" where
  "demo_principal t c = Inr \<lparr>pn_id = ''pn'', pn_identity = ''id'', pn_expires = Some 300000\<rparr>"

definition demo_estate :: "string \<Rightarrow> string \<Rightarrow> string option \<Rightarrow> string \<Rightarrow> estate_failure + estate" where
  "demo_estate caller client requested correlation =
     Inr \<lparr>es_binding = ''bind'', es_revision = 1, es_digital = ''shop'', es_tenant = ''tn'', es_engine = ''eng'', es_expires = Some 200000\<rparr>"

definition demo_tenant :: "string \<Rightarrow> string \<Rightarrow> string \<Rightarrow> string option \<Rightarrow> tenant_failure + cp_context" where
  "demo_tenant tenant org correlation country =
     Inr \<lparr>cx_id = ''cx'', cx_market = Some ''ke'', cx_country = Some ''KE'', cx_currency = Some ''KES'', cx_expires = At 150000\<rparr>"

definition demo_orgs :: "nat \<Rightarrow> string \<Rightarrow> string \<Rightarrow> relationship list option" where
  "demo_orgs reading org tenant =
     Some [\<lparr>rel_id = ''rel'', rel_status = ''ACTIVE'', rel_tenant = ''tn'', rel_canonical = demo_org, rel_engine = ''eng'',
       rel_revision = JInt 3, rel_provenance = True\<rparr>]"

definition demo_members :: "nat \<Rightarrow> string \<Rightarrow> string \<Rightarrow> buyer_membership list option" where
  "demo_members reading org p =
     Some [\<lparr>mb_id = ''mem'', mb_principal = ''pn'', mb_organisation = ''rel'', mb_status = ''ACTIVE'', mb_revision = JInt 2,
       mb_from = NoDate, mb_until = At 90000\<rparr>]"

definition no_members :: "nat \<Rightarrow> string \<Rightarrow> string \<Rightarrow> buyer_membership list option" where "no_members reading org p = Some []"

definition demo_roles :: "string \<Rightarrow> buyer_role list option" where
  "demo_roles m = Some [\<lparr>bo_membership = m, bo_role = ''BUYER''\<rparr>, \<lparr>bo_membership = m, bo_role = ''OTHER''\<rparr>]"

definition demo_clock :: "nat \<Rightarrow> instant option" where "demo_clock n = Some 1000"
definition demo_id :: "nat \<Rightarrow> string" where "demo_id n = (if n = 0 then ''ctx'' else ''dec'')"
definition any_decision :: "decision_outcome \<Rightarrow> decision_reason list \<Rightarrow> bool" where "any_decision d rs = True"
definition any_context :: "execution_context \<Rightarrow> bool" where "any_context c = True"

definition demo_authority :: authority_deps where
  "demo_authority = \<lparr>verifyBffCaller = demo_caller, verifyToken = demo_token,
     assurance_of = Some (Interim \<lparr>ip_issuer = ''iss'', ip_acr = [''gold''], ip_approval = ''ref''\<rparr>),
     resolvePrincipal = demo_principal, estates_of = Some demo_estate, tenants_of = Some demo_tenant,
     listB2BOrganisations = demo_orgs, listBuyerMemberships = demo_members, listRolesOf = demo_roles,
     engineInstanceId = ''eng'', clock = demo_clock, newId = demo_id, decision_schema = any_decision, context_schema = any_context\<rparr>"

definition demo_request_context :: context_request where
  "demo_request_context = \<lparr>rx_caller = ''caller'', rx_subject = ''human'', rx_organisation = Some demo_org, rx_estate = None,
     rx_country = Some ''KE'', rx_correlation = ''corr''\<rparr>"

lemmas demo_context_defs = demo_authority_def demo_request_context_def demo_caller_def demo_token_def demo_principal_def
  demo_estate_def demo_tenant_def demo_orgs_def demo_members_def no_members_def demo_roles_def demo_clock_def any_decision_def any_context_def

definition allowed_context :: "context_result \<Rightarrow> execution_context option" where
  "allowed_context x = (case x of Allowed c \<Rightarrow> Some c | NotAllowed a b c \<Rightarrow> None)"

lemma demo_resolves: "resolveBuyerContext demo_authority demo_request_context = Allowed (the (allowed_context (resolveBuyerContext demo_authority demo_request_context)))"
  by code_simp

definition demo_context :: execution_context where
  "demo_context = the (allowed_context (resolveBuyerContext demo_authority demo_request_context))"

theorem published_context_rests_on_evidence_witness:
  "resolveBuyerContext demo_authority demo_request_context = Allowed demo_context \<and>
   ec_roles demo_context \<noteq> [] \<and> set (ec_roles demo_context) \<subseteq> set KNOWN_ROLES"
  using published_context_rests_on_evidence [OF demo_resolves, folded demo_context_def] demo_resolves [folded demo_context_def]
  by (elim exE conjE) (intro conjI; assumption)

theorem published_context_lifetime_witness:
  "resolveBuyerContext demo_authority demo_request_context = Allowed demo_context \<and>
   (\<exists>e \<le> 61000. ec_expires demo_context = iso_string e \<and> e \<le> 90000)"
proof -
  obtain started e where "clock demo_authority 0 = Some started" "e \<le> started + 60000" "ec_expires demo_context = iso_string e"
    using published_context_lifetime [OF demo_resolves, folded demo_context_def] by (elim exE conjE) (rule that; assumption)
  then have "e \<le> 61000 \<and> ec_expires demo_context = iso_string e" by (simp add: demo_authority_def demo_clock_def)
  then show ?thesis using demo_resolves [folded demo_context_def] by auto
qed

text \<open>With the membership list empty the same request is refused.\<close>

lemma demo_not_a_member:
  "resolveBuyerContext (demo_authority\<lparr>listBuyerMemberships := no_members\<rparr>) demo_request_context =
   NotAllowed DENY 403 [BUYER_NOT_AUTHORISED]"
  by code_simp

theorem refusals_are_on_the_wire_witness:
  "resolveBuyerContext (demo_authority\<lparr>listBuyerMemberships := no_members\<rparr>) demo_request_context =
     NotAllowed DENY 403 [BUYER_NOT_AUTHORISED] \<and> wire_refusal DENY 403 BUYER_NOT_AUTHORISED"
  using refusals_are_on_the_wire [OF demo_not_a_member] demo_not_a_member by simp

definition right_of :: "'a + 'b \<Rightarrow> 'b option" where
  "right_of x = (case x of Inl a \<Rightarrow> None | Inr b \<Rightarrow> Some b)"

definition demo_identified :: identified where
  "demo_identified = the (right_of (identify (demo_authority\<lparr>listBuyerMemberships := no_members\<rparr>) demo_request_context))"

lemma demo_identifies: "identify (demo_authority\<lparr>listBuyerMemberships := no_members\<rparr>) demo_request_context = Inr demo_identified"
  by code_simp

lemma demo_refused:
  "select (demo_authority\<lparr>listBuyerMemberships := no_members\<rparr>) demo_request_context demo_identified = Inl (denied BUYER_NOT_AUTHORISED)"
  by code_simp

lemma demo_selects_org: "rx_organisation demo_request_context = Some demo_org"
  by (simp add: demo_request_context_def)

theorem non_member_learns_nothing_witness:
  "resolveBuyerContext (demo_authority\<lparr>listBuyerMemberships := no_members, tenants_of := None\<rparr>) demo_request_context =
   resolveBuyerContext (demo_authority\<lparr>listBuyerMemberships := no_members\<rparr>) demo_request_context"
  using non_member_learns_nothing [OF demo_identifies demo_refused demo_selects_org, of None] by simp

end
