(* ===== verification/Json_Text.thy ===== *)
theory Json_Text
  imports Js_Text
begin

text \<open>
  JSON values as the sources receive them, the closed-object and text checks of
  \<open>src/src/baobab/b2b/commercial-lifecycle.ts\<close>, and its canonical text. An object is the list of its
  own properties in order, each key once; an absent property is \<open>None\<close>.
\<close>

datatype json =
    JNull
  | JBool bool
  | JNum js_number
  | JStr string
  | JArr "json list"
  | JObj "(string \<times> json) list"

datatype commercial_code =
  INVALID_REQUEST | NOT_FOUND | COMMERCIAL_CONFLICT | AUTHORITY_UNAVAILABLE | AUTHORITY_DENIED | COMMITMENT_NOT_QUALIFIED

text \<open>\<open>xs.map(f)\<close> where \<open>f\<close> may throw: the first failure, from the left.\<close>

fun traverse :: "('a \<Rightarrow> 'e + 'b) \<Rightarrow> 'a list \<Rightarrow> 'e + 'b list" where
  "traverse f [] = Inr []"
| "traverse f (x # xs) = andThen (f x) (\<lambda>y. andThen (traverse f xs) (\<lambda>ys. Inr (y # ys)))"

lemma traverse_cong [fundef_cong]:
  "xs = ys \<Longrightarrow> (\<And>x. x \<in> set ys \<Longrightarrow> f x = g x) \<Longrightarrow> traverse f xs = traverse g ys"
proof (induction xs arbitrary: ys)
  case (Cons x xs)
  then have "f x = g x" "traverse f xs = traverse g xs" by auto
  then show ?case using Cons.prems(1) by (metis traverse.simps(2))
qed simp

lemma traverse_Inr_iff: "traverse f xs = Inr ys \<longleftrightarrow> list_all2 (\<lambda>x y. f x = Inr y) xs ys"
proof (induction xs arbitrary: ys)
  case (Cons x xs)
  then show ?case by (cases ys) (auto simp: andThen_Inr_iff)
qed auto

lemma traverse_member:
  assumes "traverse f xs = Inr ys" and "y \<in> set ys"
  shows "\<exists>x \<in> set xs. f x = Inr y"
  using assms by (auto simp: traverse_Inr_iff list_all2_conv_all_nth in_set_conv_nth) (metis nth_mem)

lemma traverse_length: "traverse f xs = Inr ys \<Longrightarrow> length ys = length xs"
  by (auto simp: traverse_Inr_iff dest: list_all2_lengthD)

definition json_object :: "json \<Rightarrow> string list \<Rightarrow> string list \<Rightarrow> commercial_code + (string \<times> json) list" where
  "json_object value allowed required =
     (case value of
        JObj row \<Rightarrow>
          if list_ex (\<lambda>(k, _). k \<notin> set allowed) row \<or> list_ex (\<lambda>k. map_of row k = None) required
          then Inl INVALID_REQUEST else Inr row
      | _ \<Rightarrow> Inl INVALID_REQUEST)"

definition text_field :: "json option \<Rightarrow> nat \<Rightarrow> (string \<Rightarrow> bool) \<Rightarrow> commercial_code + string" where
  "text_field value limit pattern =
     (case value of
        Some (JStr s) \<Rightarrow> if limit < length s \<or> \<not> pattern s then Inl INVALID_REQUEST else Inr s
      | _ \<Rightarrow> Inl INVALID_REQUEST)"

definition any_text :: "string \<Rightarrow> bool" where
  "any_text s = True"

definition array_field :: "json option \<Rightarrow> commercial_code + json list" where
  "array_field value =
     (case value of
        Some (JArr xs) \<Rightarrow> if length xs < 1 \<or> 100 < length xs then Inl INVALID_REQUEST else Inr xs
      | _ \<Rightarrow> Inl INVALID_REQUEST)"

lemma text_field_Inr [tx_simps]:
  "text_field v n p = Inr s \<longleftrightarrow> v = Some (JStr s) \<and> length s \<le> n \<and> p s"
  by (auto simp: text_field_def split: option.splits json.splits)

lemma array_field_Inr [tx_simps]:
  "array_field v = Inr xs \<longleftrightarrow> v = Some (JArr xs) \<and> 1 \<le> length xs \<and> length xs \<le> 100"
  unfolding array_field_def by (cases v) (auto simp: not_less Suc_le_eq split: json.splits)

section \<open>The canonical text\<close>

text \<open>\<open>JSON.stringify\<close> of a string.\<close>

definition hex_digit :: "int \<Rightarrow> char" where
  "hex_digit d = char_of (if d < 10 then 48 + d else 87 + d)"

definition escape_char :: "char \<Rightarrow> string" where
  "escape_char c =
     (let n = char_code c in
      if n = 34 then [CHR 0x5C, CHR 0x22]
      else if n = 92 then [CHR 0x5C, CHR 0x5C]
      else if n = 8 then CHR 0x5C # ''b''
      else if n = 9 then CHR 0x5C # ''t''
      else if n = 10 then CHR 0x5C # ''n''
      else if n = 12 then CHR 0x5C # ''f''
      else if n = 13 then CHR 0x5C # ''r''
      else if n < 32 then CHR 0x5C # ''u00'' @ [hex_digit (n div 16), hex_digit (n mod 16)]
      else [c])"

definition stringify_text :: "string \<Rightarrow> string" where
  "stringify_text s = CHR 0x22 # concat (map escape_char s) @ [CHR 0x22]"

fun join_with :: "string \<Rightarrow> string list \<Rightarrow> string" where
  "join_with sep [] = []"
| "join_with sep [s] = s"
| "join_with sep (s # t # ts) = s @ sep @ join_with sep (t # ts)"

text \<open>
  \<open>canonical\<close>: object keys in code-unit order; a number that is not a safe integer is refused. The
  values of an object are visited in key order, so which refusal comes first does not matter: there
  is only one.
\<close>

fun canonical :: "json \<Rightarrow> commercial_code + string" where
  "canonical JNull = Inr ''null''"
| "canonical (JBool b) = Inr (if b then ''true'' else ''false'')"
| "canonical (JStr s) = Inr (stringify_text s)"
| "canonical (JNum n) =
     (case n of JInt i \<Rightarrow> if is_safe_int i then Inr (int_text i) else Inl INVALID_REQUEST | JNonInt \<Rightarrow> Inl INVALID_REQUEST)"
| "canonical (JArr xs) = andThen (traverse canonical xs) (\<lambda>ts. Inr (''['' @ join_with '','' ts @ '']''))"
| "canonical (JObj row) =
     andThen (traverse (\<lambda>(k, v). andThen (canonical v) (\<lambda>t. Inr (k, stringify_text k @ '':'' @ t))) row) (\<lambda>ts.
     Inr (''{'' @ join_with '','' (map snd (sort_key fst ts)) @ ''}''))"

definition commercialDigest :: "(string \<Rightarrow> string) \<Rightarrow> json \<Rightarrow> commercial_code + string" where
  "commercialDigest sha256 value = andThen (canonical value) (\<lambda>t. Inr (''sha256:'' @ sha256 t))"

end
