(* ===== verification/Commercial_Kernel.thy ===== *)
theory Commercial_Kernel
  imports Json_Text
begin

text \<open>
  The commercial kernel, \<open>src/src/baobab/b2b/commercial-lifecycle.ts\<close>: requests for quotation and
  quotations, the checks of their input, their exact decimal arithmetic and their transitions. An
  instant of a document is its millisecond (\<open>toISOString\<close> writes it, \<open>iso_string\<close>); an invalid
  \<open>Date\<close> argument is \<open>None\<close>; the random identifier is an argument of the operation that makes one.
\<close>

record commercial_context =
  cc_principal :: string
  cc_tenant :: string
  cc_legal_entity :: string
  cc_estate :: string
  cc_market :: string
  cc_organisation :: string

record quantity_value =
  qv_value :: string
  qv_unit :: string

record money_value =
  mv_amount :: string
  mv_currency :: string

record rfq_line =
  rl_client_line :: string
  rl_variant :: string
  rl_quantity :: quantity_value

datatype rfq_status =
  RFQ_DRAFT | RFQ_SUBMITTED | RFQ_UNDER_REVIEW | RFQ_QUOTED | RFQ_DECLINED | RFQ_WITHDRAWN | RFQ_EXPIRED | RFQ_CLOSED

record rfq =
  rfq_context :: commercial_context
  rfq_lines :: "rfq_line list"
  rfq_id :: string
  rfq_status :: rfq_status
  rfq_version :: int
  rfq_created :: instant
  rfq_updated :: instant
  rfq_reference :: "string option"
  rfq_notes :: "string option"
  rfq_incoterm :: "string option"
  rfq_delivery :: "string option"

record quotation_line =
  ql_line :: string
  ql_variant :: string
  ql_quantity :: quantity_value
  ql_unit_price :: money_value
  ql_total :: money_value

datatype quotation_status =
  QUOTE_DRAFT | QUOTE_ISSUED | QUOTE_ACCEPTED | QUOTE_REJECTED | QUOTE_WITHDRAWN | QUOTE_EXPIRED | QUOTE_CONVERTED

record quotation =
  qt_currency :: string
  qt_lines :: "quotation_line list"
  qt_total :: money_value
  qt_valid_until :: instant
  qt_id :: string
  qt_rfq :: string
  qt_context :: commercial_context
  qt_status :: quotation_status
  qt_version :: int
  qt_created :: instant
  qt_updated :: instant
  qt_incoterm :: "string option"
  qt_terms :: "string option"

section \<open>Texts\<close>

definition id_char :: "char \<Rightarrow> bool" where
  "id_char c \<longleftrightarrow> alnum_char c \<or> in_class ''._:-'' c"

definition ID :: "string \<Rightarrow> bool" where
  "ID s \<longleftrightarrow> (case s of [] \<Rightarrow> False | c # cs \<Rightarrow> alnum_char c \<and> class_range id_char 2 127 cs)"

definition nonzero_digit :: "char \<Rightarrow> bool" where
  "nonzero_digit = code_between 49 57"

definition DECIMAL :: "string \<Rightarrow> bool" where
  "DECIMAL s \<longleftrightarrow>
     (let w = takeWhile (\<lambda>c. c \<noteq> CHR ''.'') s; f = dropWhile (\<lambda>c. c \<noteq> CHR ''.'') s in
      (w = ''0'' \<or> (w \<noteq> [] \<and> nonzero_digit (hd w) \<and> list_all digit_char w)) \<and>
      (f = [] \<or> (2 \<le> length f \<and> list_all digit_char (tl f))))"

definition CURRENCY :: "string \<Rightarrow> bool" where
  "CURRENCY = class_range upper_char 3 3"

definition UNIT :: "string \<Rightarrow> bool" where
  "UNIT s \<longleftrightarrow> (case s of [] \<Rightarrow> False
     | c # cs \<Rightarrow> (upper_char c \<or> digit_char c) \<and> list_all (\<lambda>x. upper_char x \<or> digit_char x \<or> in_class ''._/-'' x) cs)"

definition CONTEXT_FIELDS :: "string list" where
  "CONTEXT_FIELDS = [''principal_id'', ''tenant_id'', ''legal_entity_id'', ''digital_estate_id'', ''market_id'', ''buyer_organisation_id'']"

definition commercialContext :: "json \<Rightarrow> commercial_code + commercial_context" where
  "commercialContext value =
     andThen (json_object value CONTEXT_FIELDS CONTEXT_FIELDS) (\<lambda>row.
     andThen (text_field (map_of row ''principal_id'') 128 ID) (\<lambda>p.
     andThen (text_field (map_of row ''tenant_id'') 128 ID) (\<lambda>t.
     andThen (text_field (map_of row ''legal_entity_id'') 128 ID) (\<lambda>l.
     andThen (text_field (map_of row ''digital_estate_id'') 128 ID) (\<lambda>e.
     andThen (text_field (map_of row ''market_id'') 128 ID) (\<lambda>m.
     andThen (text_field (map_of row ''buyer_organisation_id'') 128 ID) (\<lambda>b.
     Inr \<lparr>cc_principal = p, cc_tenant = t, cc_legal_entity = l, cc_estate = e, cc_market = m, cc_organisation = b\<rparr>)))))))"

text \<open>The JSON of a validated context, which \<open>structuredClone\<close> copies.\<close>

definition context_json :: "commercial_context \<Rightarrow> json" where
  "context_json c = JObj [(''principal_id'', JStr (cc_principal c)), (''tenant_id'', JStr (cc_tenant c)),
     (''legal_entity_id'', JStr (cc_legal_entity c)), (''digital_estate_id'', JStr (cc_estate c)),
     (''market_id'', JStr (cc_market c)), (''buyer_organisation_id'', JStr (cc_organisation c))]"

definition sameCommercialScope :: "commercial_context \<Rightarrow> commercial_context \<Rightarrow> bool" where
  "sameCommercialScope a b \<longleftrightarrow>
     cc_tenant a = cc_tenant b \<and> cc_legal_entity a = cc_legal_entity b \<and> cc_estate a = cc_estate b \<and>
     cc_market a = cc_market b \<and> cc_organisation a = cc_organisation b"

definition decimal_field :: "json option \<Rightarrow> bool \<Rightarrow> commercial_code + string" where
  "decimal_field value positive =
     andThen (text_field value 64 DECIMAL) (\<lambda>s.
     if positive \<and> \<not> list_ex nonzero_digit s then Inl INVALID_REQUEST else Inr s)"

definition quantity_field :: "json option \<Rightarrow> commercial_code + quantity_value" where
  "quantity_field value =
     (case value of
        None \<Rightarrow> Inl INVALID_REQUEST
      | Some v \<Rightarrow>
          andThen (json_object v [''value'', ''unit''] [''value'', ''unit'']) (\<lambda>row.
          andThen (decimal_field (map_of row ''value'') True) (\<lambda>n.
          andThen (text_field (map_of row ''unit'') 24 UNIT) (\<lambda>u.
          Inr \<lparr>qv_value = n, qv_unit = u\<rparr>))))"

definition money_field :: "json option \<Rightarrow> string \<Rightarrow> commercial_code + money_value" where
  "money_field value currency =
     (case value of
        None \<Rightarrow> Inl INVALID_REQUEST
      | Some v \<Rightarrow>
          andThen (json_object v [''amount'', ''currency''] [''amount'', ''currency'']) (\<lambda>row.
          if map_of row ''currency'' \<noteq> Some (JStr currency) then Inl INVALID_REQUEST
          else andThen (decimal_field (map_of row ''amount'') False) (\<lambda>n.
          Inr \<lparr>mv_amount = n, mv_currency = currency\<rparr>)))"

definition unique_ids :: "string list \<Rightarrow> commercial_code + unit" where
  "unique_ids ids = ensure (distinct ids) INVALID_REQUEST"

section \<open>Exact decimals\<close>

record decimal =
  dn :: int
  dscale :: nat

text \<open>\<open>s.replace(".", "")\<close> removes the first point.\<close>

definition scaled :: "string \<Rightarrow> decimal" where
  "scaled s =
     (let w = takeWhile (\<lambda>c. c \<noteq> CHR ''.'') s; f = dropWhile (\<lambda>c. c \<noteq> CHR ''.'') s in
      \<lparr>dn = digits_value (w @ tl f), dscale = length f - 1\<rparr>)"

definition equalDecimal :: "decimal \<Rightarrow> decimal \<Rightarrow> bool" where
  "equalDecimal a b \<longleftrightarrow> dn a * 10 ^ dscale b = dn b * 10 ^ dscale a"

definition times_decimal :: "decimal \<Rightarrow> decimal \<Rightarrow> decimal" where
  "times_decimal q p = \<lparr>dn = dn q * dn p, dscale = dscale q + dscale p\<rparr>"

text \<open>The sum at the largest scale, \<open>Math.max(...sums.map((part) => part.scale))\<close>.\<close>

definition sum_decimals :: "decimal list \<Rightarrow> decimal" where
  "sum_decimals ds =
     (let scale = foldl max 0 (map dscale ds) in
      \<lparr>dn = foldl (\<lambda>sum d. sum + dn d * 10 ^ (scale - dscale d)) 0 ds, dscale = scale\<rparr>)"

section \<open>Dates\<close>

text \<open>\<open>YYYY-MM-DDTHH:MM:SS\<close>, an optional fraction of one to three digits, \<open>Z\<close>.\<close>

definition stamp_layout :: "string \<Rightarrow> bool" where
  "stamp_layout s \<longleftrightarrow>
     list_all (\<lambda>(i, c). if i = 4 \<or> i = 7 then c = CHR ''-'' else if i = 10 then c = CHR ''T''
       else if i = 13 \<or> i = 16 then c = CHR '':'' else digit_char c) (enumerate 0 (take 19 s))"

definition stamp_text :: "string \<Rightarrow> bool" where
  "stamp_text s \<longleftrightarrow>
     20 \<le> length s \<and> stamp_layout s \<and> last s = CHR ''Z'' \<and>
     (length s = 20 \<or>
      22 \<le> length s \<and> length s \<le> 24 \<and> s ! 19 = CHR ''.'' \<and> list_all digit_char (butlast (drop 20 s)))"

definition days_from_civil :: "int \<Rightarrow> int \<Rightarrow> int \<Rightarrow> int" where
  "days_from_civil year m d =
     (let y = (if m \<le> 2 then year - 1 else year);
          yoe = y mod 400;
          doy = (153 * (if 2 < m then m - 3 else m + 9) + 2) div 5 + d - 1;
          doe = yoe * 365 + yoe div 4 - yoe div 100 + doy
      in y div 400 * 146097 + doe - 719468)"

text \<open>\<open>new Date(raw)\<close> of such a text: a month, hour, minute or second out of range is invalid; a day
  past the end of its month falls into the next one.\<close>

definition stamp_instant :: "string \<Rightarrow> instant option" where
  "stamp_instant s =
     (let part = (\<lambda>i n. digits_value (take n (drop i s)));
          month = part 5 2; day = part 8 2; hour = part 11 2; minute = part 14 2; second = part 17 2;
          fraction = butlast (drop 20 s);
          ms = digits_value (take 3 (fraction @ ''000''))
      in if 1 \<le> month \<and> month \<le> 12 \<and> 1 \<le> day \<and> day \<le> 31 \<and> hour \<le> 23 \<and> minute \<le> 59 \<and> second \<le> 59
         then Some (days_from_civil (part 0 4) month day * 86400000 + hour * 3600000 + minute * 60000 + second * 1000 + ms)
         else None)"

definition timestamp_field :: "json option \<Rightarrow> commercial_code + instant" where
  "timestamp_field value =
     andThen (text_field value 40 stamp_text) (\<lambda>raw.
     case stamp_instant raw of
       None \<Rightarrow> Inl INVALID_REQUEST
     | Some t \<Rightarrow> if take 19 (iso_string t) \<noteq> take 19 raw then Inl INVALID_REQUEST else Inr t)"

definition current_instant :: "instant option \<Rightarrow> commercial_code + instant" where
  "current_instant now = (case now of None \<Rightarrow> Inl INVALID_REQUEST | Some t \<Rightarrow> Inr t)"

definition date_text :: "string \<Rightarrow> bool" where
  "date_text s \<longleftrightarrow> length s = 10 \<and>
     list_all (\<lambda>(i, c). if i = 4 \<or> i = 7 then c = CHR ''-'' else digit_char c) (enumerate 0 s)"

text \<open>An optional property: absent is \<open>None\<close>, otherwise it must pass.\<close>

definition optional_field :: "json option \<Rightarrow> (json option \<Rightarrow> commercial_code + 'a) \<Rightarrow> commercial_code + 'a option" where
  "optional_field value check = (case value of None \<Rightarrow> Inr None | Some _ \<Rightarrow> andThen (check value) (\<lambda>x. Inr (Some x)))"

definition delivery_date :: "json option \<Rightarrow> commercial_code + string" where
  "delivery_date value =
     andThen (text_field value 10 date_text) (\<lambda>date.
     andThen (timestamp_field (Some (JStr (date @ ''T00:00:00Z'')))) (\<lambda>t.
     if take 10 (iso_string t) \<noteq> date then Inl INVALID_REQUEST else Inr date))"

section \<open>Requests for quotation\<close>

definition rfq_line_of :: "json \<Rightarrow> commercial_code + rfq_line" where
  "rfq_line_of value =
     andThen (json_object value [''client_line_id'', ''variant_id'', ''quantity''] [''client_line_id'', ''variant_id'', ''quantity'']) (\<lambda>line.
     andThen (text_field (map_of line ''client_line_id'') 128 ID) (\<lambda>c.
     andThen (text_field (map_of line ''variant_id'') 128 ID) (\<lambda>v.
     andThen (quantity_field (map_of line ''quantity'')) (\<lambda>q.
     Inr \<lparr>rl_client_line = c, rl_variant = v, rl_quantity = q\<rparr>))))"

definition RFQ_FIELDS :: "string list" where
  "RFQ_FIELDS = [''context'', ''reference'', ''notes'', ''requested_delivery_date'', ''requested_incoterm'', ''lines'']"

definition createRfq :: "string \<Rightarrow> json \<Rightarrow> commercial_context \<Rightarrow> instant option \<Rightarrow> commercial_code + rfq" where
  "createRfq new_id value resolved now =
     andThen (json_object value RFQ_FIELDS [''context'', ''lines'']) (\<lambda>row.
     andThen (commercialContext (the (map_of row ''context''))) (\<lambda>context.
     if \<not> sameCommercialScope context resolved \<or> cc_principal context \<noteq> cc_principal resolved then Inl AUTHORITY_DENIED
     else
       andThen (array_field (map_of row ''lines'')) (\<lambda>items.
       andThen (traverse rfq_line_of items) (\<lambda>lines.
       andThen (unique_ids (map rl_client_line lines)) (\<lambda>_.
       andThen (current_instant now) (\<lambda>t.
       andThen (optional_field (map_of row ''reference'') (\<lambda>v. text_field v 120 any_text)) (\<lambda>reference.
       andThen (optional_field (map_of row ''notes'') (\<lambda>v. text_field v 4000 any_text)) (\<lambda>notes.
       andThen (optional_field (map_of row ''requested_incoterm'') (\<lambda>v. text_field v 3 CURRENCY)) (\<lambda>incoterm.
       andThen (optional_field (map_of row ''requested_delivery_date'') delivery_date) (\<lambda>delivery.
       Inr \<lparr>rfq_context = context, rfq_lines = lines, rfq_id = ''rfq_'' @ new_id, rfq_status = RFQ_DRAFT, rfq_version = 1,
            rfq_created = t, rfq_updated = t, rfq_reference = reference, rfq_notes = notes, rfq_incoterm = incoterm,
            rfq_delivery = delivery\<rparr>))))))))))"

fun rfq_transitions :: "rfq_status \<Rightarrow> rfq_status list" where
  "rfq_transitions RFQ_DRAFT = [RFQ_SUBMITTED, RFQ_WITHDRAWN]"
| "rfq_transitions RFQ_SUBMITTED = [RFQ_UNDER_REVIEW, RFQ_DECLINED, RFQ_WITHDRAWN, RFQ_EXPIRED]"
| "rfq_transitions RFQ_UNDER_REVIEW = [RFQ_QUOTED, RFQ_DECLINED, RFQ_WITHDRAWN, RFQ_EXPIRED]"
| "rfq_transitions RFQ_QUOTED = [RFQ_UNDER_REVIEW, RFQ_CLOSED, RFQ_WITHDRAWN, RFQ_EXPIRED]"
| "rfq_transitions RFQ_DECLINED = []"
| "rfq_transitions RFQ_WITHDRAWN = []"
| "rfq_transitions RFQ_EXPIRED = []"
| "rfq_transitions RFQ_CLOSED = []"

text \<open>A comparison with an invalid date is false.\<close>

definition clock_before :: "instant option \<Rightarrow> instant \<Rightarrow> bool" where
  "clock_before now t \<longleftrightarrow> (case now of None \<Rightarrow> False | Some n \<Rightarrow> n < t)"

definition clock_reached :: "instant option \<Rightarrow> instant \<Rightarrow> bool" where
  "clock_reached now t \<longleftrightarrow> (case now of None \<Rightarrow> False | Some n \<Rightarrow> t \<le> n)"

definition safe_version :: "js_number \<Rightarrow> int \<Rightarrow> bool" where
  "safe_version version current \<longleftrightarrow> is_safe_number version \<and> version = JInt current"

definition transitionRfq :: "rfq \<Rightarrow> rfq_status \<Rightarrow> js_number \<Rightarrow> instant option \<Rightarrow> commercial_code + rfq" where
  "transitionRfq current next version now =
     (if \<not> safe_version version (rfq_version current) \<or> next \<notin> set (rfq_transitions (rfq_status current)) \<or>
         clock_before now (rfq_updated current)
      then Inl COMMERCIAL_CONFLICT
      else andThen (current_instant now) (\<lambda>t.
        Inr (current\<lparr>rfq_status := next, rfq_version := rfq_version current + 1, rfq_updated := t\<rparr>)))"

section \<open>Quotations\<close>

definition quotation_line_of :: "string \<Rightarrow> rfq \<Rightarrow> json \<Rightarrow> commercial_code + quotation_line" where
  "quotation_line_of currency r value =
     andThen (json_object value [''line_id'', ''variant_id'', ''quantity'', ''unit_price'', ''line_total'']
       [''line_id'', ''variant_id'', ''quantity'', ''unit_price'', ''line_total'']) (\<lambda>line.
     andThen (text_field (map_of line ''line_id'') 128 ID) (\<lambda>l.
     andThen (text_field (map_of line ''variant_id'') 128 ID) (\<lambda>v.
     andThen (quantity_field (map_of line ''quantity'')) (\<lambda>q.
     andThen (money_field (map_of line ''unit_price'') currency) (\<lambda>price.
     andThen (money_field (map_of line ''line_total'') currency) (\<lambda>total.
     if \<not> equalDecimal (times_decimal (scaled (qv_value q)) (scaled (mv_amount price))) (scaled (mv_amount total))
     then Inl INVALID_REQUEST
     else if \<not> list_ex (\<lambda>offered. rl_variant offered = v \<and> qv_unit (rl_quantity offered) = qv_unit q) (rfq_lines r)
     then Inl INVALID_REQUEST
     else Inr \<lparr>ql_line = l, ql_variant = v, ql_quantity = q, ql_unit_price = price, ql_total = total\<rparr>))))))"

definition QUOTATION_FIELDS :: "string list" where
  "QUOTATION_FIELDS = [''currency'', ''lines'', ''total'', ''incoterm'', ''payment_terms'', ''valid_until'']"

definition issueQuotation :: "string \<Rightarrow> json \<Rightarrow> rfq \<Rightarrow> instant option \<Rightarrow> commercial_code + quotation" where
  "issueQuotation new_id value r now =
     (if rfq_status r \<noteq> RFQ_UNDER_REVIEW then Inl COMMERCIAL_CONFLICT
      else
        andThen (json_object value QUOTATION_FIELDS [''currency'', ''lines'', ''total'', ''valid_until'']) (\<lambda>row.
        andThen (text_field (map_of row ''currency'') 3 CURRENCY) (\<lambda>currency.
        andThen (array_field (map_of row ''lines'')) (\<lambda>items.
        andThen (traverse (quotation_line_of currency r) items) (\<lambda>lines.
        andThen (unique_ids (map ql_line lines)) (\<lambda>_.
        andThen (money_field (map_of row ''total'') currency) (\<lambda>total.
        if \<not> equalDecimal (sum_decimals (map (\<lambda>l. scaled (mv_amount (ql_total l))) lines)) (scaled (mv_amount total))
        then Inl INVALID_REQUEST
        else
          andThen (timestamp_field (map_of row ''valid_until'')) (\<lambda>valid.
          if clock_reached now valid then Inl INVALID_REQUEST
          else
            andThen (current_instant now) (\<lambda>t.
            andThen (optional_field (map_of row ''incoterm'') (\<lambda>v. text_field v 3 CURRENCY)) (\<lambda>incoterm.
            andThen (optional_field (map_of row ''payment_terms'') (\<lambda>v. text_field v 500 any_text)) (\<lambda>terms.
            Inr \<lparr>qt_currency = currency, qt_lines = lines, qt_total = total, qt_valid_until = valid,
                 qt_id = ''quote_'' @ new_id, qt_rfq = rfq_id r, qt_context = rfq_context r, qt_status = QUOTE_ISSUED,
                 qt_version = 1, qt_created = t, qt_updated = t, qt_incoterm = incoterm, qt_terms = terms\<rparr>)))))))))))"

definition transitionQuotation ::
  "quotation \<Rightarrow> quotation_status \<Rightarrow> js_number \<Rightarrow> instant option \<Rightarrow> commercial_code + quotation" where
  "transitionQuotation current next version now =
     (if next = QUOTE_ACCEPTED \<or> next = QUOTE_CONVERTED then Inl COMMITMENT_NOT_QUALIFIED
      else if \<not> safe_version version (qt_version current) \<or> qt_status current \<noteq> QUOTE_ISSUED \<or>
        next \<notin> {QUOTE_REJECTED, QUOTE_WITHDRAWN, QUOTE_EXPIRED} \<or> clock_before now (qt_updated current)
      then Inl COMMERCIAL_CONFLICT
      else if (if next = QUOTE_EXPIRED then clock_before now (qt_valid_until current) else clock_reached now (qt_valid_until current))
      then Inl COMMERCIAL_CONFLICT
      else andThen (current_instant now) (\<lambda>t.
        Inr (current\<lparr>qt_status := next, qt_version := qt_version current + 1, qt_updated := t\<rparr>)))"

end
