(* ===== verification/Commercial_Store.thy ===== *)
theory Commercial_Store
  imports Commercial_Kernel
begin

text \<open>
  The tables of \<open>src/src/modules/b2b/migrations/Migration20261029130000.ts\<close> with their constraints
  and triggers, and the two statements by which
  \<open>src/src/baobab/b2b/postgres-commercial-lifecycle.ts\<close> writes them. The instant a trigger reads from
  \<open>clock_timestamp()\<close> is the argument \<open>at\<close> of the write. Event identifiers and times, which no
  statement reads, are left out.
\<close>

section \<open>Documents\<close>

datatype resource_kind = RFQ | QUOTATION

datatype commercial_document = RfqDoc rfq | QuoteDoc quotation

fun rfq_status_text :: "rfq_status \<Rightarrow> string" where
  "rfq_status_text RFQ_DRAFT = ''DRAFT''"
| "rfq_status_text RFQ_SUBMITTED = ''SUBMITTED''"
| "rfq_status_text RFQ_UNDER_REVIEW = ''UNDER_REVIEW''"
| "rfq_status_text RFQ_QUOTED = ''QUOTED''"
| "rfq_status_text RFQ_DECLINED = ''DECLINED''"
| "rfq_status_text RFQ_WITHDRAWN = ''WITHDRAWN''"
| "rfq_status_text RFQ_EXPIRED = ''EXPIRED''"
| "rfq_status_text RFQ_CLOSED = ''CLOSED''"

fun quotation_status_text :: "quotation_status \<Rightarrow> string" where
  "quotation_status_text QUOTE_DRAFT = ''DRAFT''"
| "quotation_status_text QUOTE_ISSUED = ''ISSUED''"
| "quotation_status_text QUOTE_ACCEPTED = ''ACCEPTED''"
| "quotation_status_text QUOTE_REJECTED = ''REJECTED''"
| "quotation_status_text QUOTE_WITHDRAWN = ''WITHDRAWN''"
| "quotation_status_text QUOTE_EXPIRED = ''EXPIRED''"
| "quotation_status_text QUOTE_CONVERTED = ''CONVERTED''"

fun doc_kind :: "commercial_document \<Rightarrow> resource_kind" where
  "doc_kind (RfqDoc r) = RFQ"
| "doc_kind (QuoteDoc q) = QUOTATION"

fun doc_id :: "commercial_document \<Rightarrow> string" where
  "doc_id (RfqDoc r) = rfq_id r"
| "doc_id (QuoteDoc q) = qt_id q"

fun doc_version :: "commercial_document \<Rightarrow> int" where
  "doc_version (RfqDoc r) = rfq_version r"
| "doc_version (QuoteDoc q) = qt_version q"

fun doc_status :: "commercial_document \<Rightarrow> string" where
  "doc_status (RfqDoc r) = rfq_status_text (rfq_status r)"
| "doc_status (QuoteDoc q) = quotation_status_text (qt_status q)"

fun doc_context :: "commercial_document \<Rightarrow> commercial_context" where
  "doc_context (RfqDoc r) = rfq_context r"
| "doc_context (QuoteDoc q) = qt_context q"

text \<open>\<open>document->>'rfq_id'\<close> is the document's own identity or its parent's.\<close>

fun doc_rfq_id :: "commercial_document \<Rightarrow> string" where
  "doc_rfq_id (RfqDoc r) = rfq_id r"
| "doc_rfq_id (QuoteDoc q) = qt_rfq q"

fun doc_valid_until :: "commercial_document \<Rightarrow> instant option" where
  "doc_valid_until (RfqDoc r) = None"
| "doc_valid_until (QuoteDoc q) = Some (qt_valid_until q)"

fun stamp_updated :: "instant \<Rightarrow> commercial_document \<Rightarrow> commercial_document" where
  "stamp_updated at (RfqDoc r) = RfqDoc (r\<lparr>rfq_updated := at\<rparr>)"
| "stamp_updated at (QuoteDoc q) = QuoteDoc (q\<lparr>qt_updated := at\<rparr>)"

fun stamp_created :: "instant \<Rightarrow> commercial_document \<Rightarrow> commercial_document" where
  "stamp_created at (RfqDoc r) = RfqDoc (r\<lparr>rfq_created := at, rfq_updated := at\<rparr>)"
| "stamp_created at (QuoteDoc q) = QuoteDoc (q\<lparr>qt_created := at, qt_updated := at\<rparr>)"

text \<open>\<open>document - 'status' - 'version' - 'updated_at'\<close>, the part that never changes.\<close>

fun frozen_part :: "commercial_document \<Rightarrow> commercial_document" where
  "frozen_part (RfqDoc r) = RfqDoc (r\<lparr>rfq_status := RFQ_DRAFT, rfq_version := 0, rfq_updated := 0\<rparr>)"
| "frozen_part (QuoteDoc q) = QuoteDoc (q\<lparr>qt_status := QUOTE_DRAFT, qt_version := 0, qt_updated := 0\<rparr>)"

definition scopeValues :: "commercial_context \<Rightarrow> string list" where
  "scopeValues s = [cc_tenant s, cc_organisation s, cc_estate s, cc_market s, cc_legal_entity s]"

section \<open>Tables\<close>

record resource_row =
  rr_id :: string
  rr_kind :: resource_kind
  rr_scope :: "string list"
  rr_parent :: "string option"
  rr_version :: int
  rr_status :: string
  rr_document :: commercial_document

record commercial_event =
  ev_resource :: string
  ev_version :: int
  ev_document :: commercial_document

datatype commercial_action =
  RFQ_READ | QUOTATION_READ | RFQ_CREATE | RFQ_SUBMIT | RFQ_REVIEW | RFQ_DECLINE | RFQ_WITHDRAW | RFQ_EXPIRE |
  RFQ_CLOSE | QUOTATION_ISSUE | QUOTATION_REJECT | QUOTATION_WITHDRAW | QUOTATION_EXPIRE

record receipt_row =
  rc_scope :: string
  rc_key :: string
  rc_digest :: string
  rc_response :: commercial_document
  rc_action :: commercial_action
  rc_actor :: string
  rc_decision :: string
  rc_evidence :: string

record trade_organisation =
  to_id :: string
  to_tenant :: string
  to_status :: string
  to_canonical :: "string option"
  to_revision :: int
  to_deleted :: bool

record trade_member =
  tm_id :: string
  tm_organisation :: string
  tm_principal :: string
  tm_status :: string
  tm_revision :: int
  tm_from :: "instant option"
  tm_until :: "instant option"
  tm_deleted :: bool

record commercial_db =
  resources :: "resource_row list"
  resource_events :: "commercial_event list"
  receipts :: "receipt_row list"
  buyer_organisations :: "trade_organisation list"
  buyer_members :: "trade_member list"

datatype commercial_failure = Refusal commercial_code | Database string

section \<open>The resource guard\<close>

fun document_id_as :: "resource_kind \<Rightarrow> commercial_document \<Rightarrow> string option" where
  "document_id_as RFQ d = Some (doc_rfq_id d)"
| "document_id_as QUOTATION (QuoteDoc q) = Some (qt_id q)"
| "document_id_as QUOTATION (RfqDoc r) = None"

definition document_matches :: "resource_row \<Rightarrow> bool" where
  "document_matches row \<longleftrightarrow>
     doc_version (rr_document row) = rr_version row \<and> doc_status (rr_document row) = rr_status row \<and>
     scopeValues (doc_context (rr_document row)) = rr_scope row \<and>
     document_id_as (rr_kind row) (rr_document row) = Some (rr_id row)"

text \<open>The other quotations of a request in one of the given statuses.\<close>

definition has_quote :: "string \<Rightarrow> string list \<Rightarrow> resource_row list \<Rightarrow> bool" where
  "has_quote parent statuses rows \<longleftrightarrow>
     list_ex (\<lambda>x. rr_parent x = Some parent \<and> rr_kind x = QUOTATION \<and> rr_status x \<in> set statuses) rows"

definition quote_parent_ok :: "instant \<Rightarrow> resource_row \<Rightarrow> resource_row list \<Rightarrow> bool" where
  "quote_parent_ok at row rows \<longleftrightarrow>
     (case Option.bind (rr_parent row) (\<lambda>p. find_row rr_id p rows) of
        None \<Rightarrow> False
      | Some parent \<Rightarrow>
          rr_kind parent = RFQ \<and> rr_status parent = ''UNDER_REVIEW'' \<and> rr_scope parent = rr_scope row \<and>
          doc_rfq_id (rr_document row) = rr_id parent \<and>
          doc_context (rr_document row) = doc_context (rr_document parent) \<and>
          (case doc_valid_until (rr_document row) of None \<Rightarrow> True | Some v \<Rightarrow> at < v))"

definition guard_insert :: "instant \<Rightarrow> resource_row \<Rightarrow> commercial_db \<Rightarrow> commercial_failure + resource_row" where
  "guard_insert at row db =
     (if \<not> document_matches row then Inl (Database ''commercial document scope/version mismatch'')
      else if rr_version row \<noteq> 1 \<or> (rr_kind row = RFQ \<and> rr_status row \<noteq> ''DRAFT'') \<or>
        (rr_kind row = QUOTATION \<and> rr_status row \<noteq> ''ISSUED'')
      then Inl (Database ''commercial invalid initial state'')
      else if rr_kind row = QUOTATION \<and> \<not> quote_parent_ok at row (resources db)
      then Inl (Database ''commercial quote parent/scope/expiry mismatch'')
      else Inr (row\<lparr>rr_document := stamp_created at (rr_document row)\<rparr>))"

definition rfq_guard_allows :: "string \<Rightarrow> string \<Rightarrow> bool" where
  "rfq_guard_allows old new \<longleftrightarrow>
     (if old = ''DRAFT'' then new \<in> {''SUBMITTED'', ''WITHDRAWN''}
      else if old = ''SUBMITTED'' then new \<in> {''UNDER_REVIEW'', ''DECLINED'', ''WITHDRAWN'', ''EXPIRED''}
      else if old = ''UNDER_REVIEW'' then new \<in> {''QUOTED'', ''DECLINED'', ''WITHDRAWN'', ''EXPIRED''}
      else if old = ''QUOTED'' then new \<in> {''UNDER_REVIEW'', ''CLOSED'', ''WITHDRAWN'', ''EXPIRED''}
      else False)"

definition quote_guard_allows :: "instant \<Rightarrow> string \<Rightarrow> string \<Rightarrow> instant option \<Rightarrow> bool" where
  "quote_guard_allows at old new valid \<longleftrightarrow>
     old = ''ISSUED'' \<and> new \<in> {''REJECTED'', ''WITHDRAWN'', ''EXPIRED''} \<and>
     (case valid of None \<Rightarrow> False | Some v \<Rightarrow> if new = ''EXPIRED'' then v \<le> at else at < v)"

definition guard_update :: "instant \<Rightarrow> resource_row \<Rightarrow> resource_row \<Rightarrow> commercial_db \<Rightarrow> commercial_failure + resource_row" where
  "guard_update at old row db =
     (if \<not> document_matches row then Inl (Database ''commercial document scope/version mismatch'')
      else if rr_id row \<noteq> rr_id old \<or> rr_kind row \<noteq> rr_kind old \<or> rr_scope row \<noteq> rr_scope old \<or> rr_parent row \<noteq> rr_parent old \<or>
        frozen_part (rr_document row) \<noteq> frozen_part (rr_document old) \<or> rr_version row \<noteq> rr_version old + 1
      then Inl (Database ''commercial immutable content or stale version'')
      else
        let allowed =
          (if rr_kind row = RFQ
           then rfq_guard_allows (rr_status old) (rr_status row) \<and>
             (rr_status row = ''QUOTED'' \<longrightarrow> has_quote (rr_id row) [''ISSUED''] (resources db)) \<and>
             \<not> (rr_status row \<in> {''UNDER_REVIEW'', ''CLOSED'', ''WITHDRAWN'', ''EXPIRED''} \<and>
                has_quote (rr_id row) [''ISSUED'', ''ACCEPTED''] (resources db))
           else quote_guard_allows at (rr_status old) (rr_status row) (doc_valid_until (rr_document old))) in
        if \<not> allowed then Inl (Database ''commercial invalid lifecycle transition'')
        else Inr (row\<lparr>rr_document := stamp_updated at (rr_document row)\<rparr>))"

section \<open>Constraints and events\<close>

definition open_quote :: "resource_row \<Rightarrow> bool" where
  "open_quote row \<longleftrightarrow> rr_kind row = QUOTATION \<and> rr_status row \<in> {''DRAFT'', ''ISSUED'', ''ACCEPTED''}"

text \<open>\<open>trade_commercial_one_open_quote\<close>: no other open quotation of the same request.\<close>

definition one_open_quote :: "resource_row \<Rightarrow> resource_row list \<Rightarrow> bool" where
  "one_open_quote row rows \<longleftrightarrow>
     \<not> (open_quote row \<and> list_ex (\<lambda>x. rr_id x \<noteq> rr_id row \<and> open_quote x \<and> rr_parent x = rr_parent row) rows)"

definition resource_checks :: "resource_row \<Rightarrow> bool" where
  "resource_checks row \<longleftrightarrow> 1 \<le> rr_version row \<and> (rr_kind row = RFQ) = (rr_parent row = None)"

definition organisation_exists :: "resource_row \<Rightarrow> commercial_db \<Rightarrow> bool" where
  "organisation_exists row db \<longleftrightarrow> list_ex (\<lambda>o1. rr_scope row ! 1 = to_id o1) (buyer_organisations db)"

definition event_of :: "resource_row \<Rightarrow> commercial_event" where
  "event_of row = \<lparr>ev_resource = rr_id row, ev_version = rr_version row, ev_document = rr_document row\<rparr>"

definition event_fresh :: "resource_row \<Rightarrow> commercial_db \<Rightarrow> bool" where
  "event_fresh row db \<longleftrightarrow> \<not> list_ex (\<lambda>e. ev_resource e = rr_id row \<and> ev_version e = rr_version row) (resource_events db)"

definition insert_resource :: "instant \<Rightarrow> resource_row \<Rightarrow> commercial_db \<Rightarrow> commercial_failure + commercial_document \<times> commercial_db" where
  "insert_resource at row0 db =
     andThen (guard_insert at row0 db) (\<lambda>row.
     andThen (ensure (resource_checks row) (Database ''trade_commercial_resource_check'')) (\<lambda>_.
     andThen (ensure (find_row rr_id (rr_id row) (resources db) = None) (Database ''trade_commercial_resource_pkey'')) (\<lambda>_.
     andThen (ensure (one_open_quote row (resources db)) (Database ''trade_commercial_one_open_quote'')) (\<lambda>_.
     andThen (ensure (organisation_exists row db) (Database ''trade_commercial_resource_buyer_organisation_id_fkey'')) (\<lambda>_.
     andThen (ensure (event_fresh row db) (Database ''trade_commercial_event_resource_id_version_key'')) (\<lambda>_.
     Inr (rr_document row, db\<lparr>resources := resources db @ [row], resource_events := resource_events db @ [event_of row]\<rparr>)))))))"

definition update_resource :: "instant \<Rightarrow> resource_row \<Rightarrow> resource_row \<Rightarrow> commercial_db \<Rightarrow> commercial_failure + commercial_document \<times> commercial_db" where
  "update_resource at old row0 db =
     andThen (guard_update at old row0 db) (\<lambda>row.
     andThen (ensure (one_open_quote row (resources db)) (Database ''trade_commercial_one_open_quote'')) (\<lambda>_.
     andThen (ensure (event_fresh row db) (Database ''trade_commercial_event_resource_id_version_key'')) (\<lambda>_.
     Inr (rr_document row, db\<lparr>resources := upd_row rr_id (rr_id old) (\<lambda>_. row) (resources db),
       resource_events := resource_events db @ [event_of row]\<rparr>))))"

text \<open>The row and statement triggers that refuse every other write.\<close>

definition delete_resource :: "string \<Rightarrow> commercial_db \<Rightarrow> commercial_failure + commercial_db" where
  "delete_resource k db =
     (case find_row rr_id k (resources db) of None \<Rightarrow> Inr db | Some _ \<Rightarrow> Inl (Database ''commercial resources retain their history''))"

definition rewrite_event :: "string \<Rightarrow> int \<Rightarrow> commercial_db \<Rightarrow> commercial_failure + commercial_db" where
  "rewrite_event k v db =
     (if list_ex (\<lambda>e. ev_resource e = k \<and> ev_version e = v) (resource_events db)
      then Inl (Database ''commercial history and idempotency receipts are immutable'') else Inr db)"

definition rewrite_receipt :: "string \<Rightarrow> string \<Rightarrow> commercial_db \<Rightarrow> commercial_failure + commercial_db" where
  "rewrite_receipt scope k db =
     (if list_ex (\<lambda>c. rc_scope c = scope \<and> rc_key c = k) (receipts db)
      then Inl (Database ''commercial history and idempotency receipts are immutable'') else Inr db)"

text \<open>An event inserted by a statement of its own: the trigger depth is 1.\<close>

definition insert_event :: "commercial_event \<Rightarrow> commercial_db \<Rightarrow> commercial_failure + commercial_db" where
  "insert_event e db = Inl (Database ''commercial events originate in the resource transaction'')"

section \<open>The statements of the service\<close>

text \<open>\<open>insert\<close> and \<open>update\<close>: an update whose version does not follow the stored one is a conflict.\<close>

definition store_insert ::
  "instant \<Rightarrow> resource_kind \<Rightarrow> string option \<Rightarrow> commercial_document \<Rightarrow> commercial_db \<Rightarrow>
     commercial_failure + commercial_document \<times> commercial_db" where
  "store_insert at kind parent d db =
     insert_resource at \<lparr>rr_id = doc_id d, rr_kind = kind, rr_scope = scopeValues (doc_context d), rr_parent = parent,
       rr_version = doc_version d, rr_status = doc_status d, rr_document = d\<rparr> db"

definition store_update :: "instant \<Rightarrow> commercial_document \<Rightarrow> commercial_db \<Rightarrow> commercial_failure + commercial_document \<times> commercial_db" where
  "store_update at d db =
     (case find_row rr_id (doc_id d) (resources db) of
        None \<Rightarrow> Inl (Refusal COMMERCIAL_CONFLICT)
      | Some old \<Rightarrow>
          if rr_version old \<noteq> doc_version d - 1 then Inl (Refusal COMMERCIAL_CONFLICT)
          else update_resource at old (old\<lparr>rr_version := doc_version d, rr_status := doc_status d, rr_document := d\<rparr>) db)"

end
