(* ===== verification/Commercial_Invariant.thy ===== *)
theory Commercial_Invariant
  imports Commercial_Store
begin

text \<open>
  What every write of a commercial resource keeps: rows agree with their documents, a quotation
  belongs to a request of its own scope and context, a request has at most one issued quotation,
  none is ever accepted or converted, and the events of a resource are its versions, complete and
  in order.
\<close>

definition quote_statuses :: "string set" where
  "quote_statuses = {''ISSUED'', ''REJECTED'', ''WITHDRAWN'', ''EXPIRED''}"

definition row_ok :: "resource_row \<Rightarrow> bool" where
  "row_ok row \<longleftrightarrow> document_matches row \<and> rr_kind row = doc_kind (rr_document row) \<and> 1 \<le> rr_version row \<and>
     (rr_kind row = QUOTATION \<longrightarrow> rr_status row \<in> quote_statuses)"

definition parent_of :: "resource_row \<Rightarrow> resource_row \<Rightarrow> bool" where
  "parent_of p row \<longleftrightarrow> rr_parent row = Some (rr_id p) \<and> rr_kind p = RFQ \<and> rr_scope p = rr_scope row \<and>
     doc_context (rr_document p) = doc_context (rr_document row)"

definition parents_ok :: "resource_row list \<Rightarrow> bool" where
  "parents_ok rows \<longleftrightarrow> (\<forall>row \<in> set rows.
     if rr_kind row = RFQ then rr_parent row = None else \<exists>p \<in> set rows. parent_of p row)"

definition one_offer :: "resource_row list \<Rightarrow> bool" where
  "one_offer rows \<longleftrightarrow> (\<forall>a \<in> set rows. \<forall>b \<in> set rows.
     rr_kind a = QUOTATION \<and> rr_kind b = QUOTATION \<and> rr_status a = ''ISSUED'' \<and> rr_status b = ''ISSUED'' \<and>
     rr_parent a = rr_parent b \<longrightarrow> rr_id a = rr_id b)"

definition events_of :: "string \<Rightarrow> commercial_event list \<Rightarrow> commercial_event list" where
  "events_of k events = filter (\<lambda>e. ev_resource e = k) events"

definition row_history :: "commercial_event list \<Rightarrow> resource_row \<Rightarrow> bool" where
  "row_history events row \<longleftrightarrow>
     map ev_version (events_of (rr_id row) events) = [1..rr_version row] \<and>
     ev_document (last (events_of (rr_id row) events)) = rr_document row"

definition history_ok :: "commercial_db \<Rightarrow> bool" where
  "history_ok db \<longleftrightarrow> (\<forall>row \<in> set (resources db). row_history (resource_events db) row) \<and>
     (\<forall>e \<in> set (resource_events db). ev_resource e \<in> rr_id ` set (resources db))"

definition store_inv :: "commercial_db \<Rightarrow> bool" where
  "store_inv db \<longleftrightarrow> distinct (map rr_id (resources db)) \<and> (\<forall>row \<in> set (resources db). row_ok row) \<and>
     parents_ok (resources db) \<and> one_offer (resources db) \<and> history_ok db"

section \<open>Stamped documents\<close>

lemma stamped_simps [simp]:
  "doc_kind (stamp_created at d) = doc_kind d" "doc_kind (stamp_updated at d) = doc_kind d"
  "doc_id (stamp_created at d) = doc_id d" "doc_id (stamp_updated at d) = doc_id d"
  "doc_version (stamp_created at d) = doc_version d" "doc_version (stamp_updated at d) = doc_version d"
  "doc_status (stamp_created at d) = doc_status d" "doc_status (stamp_updated at d) = doc_status d"
  "doc_context (stamp_created at d) = doc_context d" "doc_context (stamp_updated at d) = doc_context d"
  "doc_rfq_id (stamp_created at d) = doc_rfq_id d" "doc_rfq_id (stamp_updated at d) = doc_rfq_id d"
  "doc_valid_until (stamp_created at d) = doc_valid_until d" "doc_valid_until (stamp_updated at d) = doc_valid_until d"
  by (cases d; simp)+

lemma document_id_as_stamped [simp]:
  "document_id_as k (stamp_created at d) = document_id_as k d" "document_id_as k (stamp_updated at d) = document_id_as k d"
  by (cases k; cases d; simp)+

lemma document_matches_stamped [simp]:
  "document_matches (row\<lparr>rr_document := stamp_created at (rr_document row)\<rparr>) = document_matches row"
  "document_matches (row\<lparr>rr_document := stamp_updated at (rr_document row)\<rparr>) = document_matches row"
  by (simp_all add: document_matches_def)

lemma rfq_frozen_context:
  "r\<lparr>rfq_status := a, rfq_version := b, rfq_updated := c\<rparr> = s\<lparr>rfq_status := a, rfq_version := b, rfq_updated := c\<rparr> \<Longrightarrow>
   rfq_context (r :: rfq) = rfq_context s"
  by (cases r, cases s) simp

lemma quote_frozen_context:
  "r\<lparr>qt_status := a, qt_version := b, qt_updated := c\<rparr> = s\<lparr>qt_status := a, qt_version := b, qt_updated := c\<rparr> \<Longrightarrow>
   qt_context (r :: quotation) = qt_context s"
  by (cases r, cases s) simp

lemma frozen_part_eq: "frozen_part a = frozen_part b \<Longrightarrow> doc_kind a = doc_kind b \<and> doc_context a = doc_context b"
  by (cases a; cases b) (auto dest: rfq_frozen_context quote_frozen_context)

section \<open>The effect of a write\<close>

definition inserted_row :: "instant \<Rightarrow> resource_kind \<Rightarrow> string option \<Rightarrow> commercial_document \<Rightarrow> resource_row" where
  "inserted_row at kind parent d = \<lparr>rr_id = doc_id d, rr_kind = kind, rr_scope = scopeValues (doc_context d), rr_parent = parent,
     rr_version = doc_version d, rr_status = doc_status d, rr_document = stamp_created at d\<rparr>"

definition updated_row :: "instant \<Rightarrow> resource_row \<Rightarrow> commercial_document \<Rightarrow> resource_row" where
  "updated_row at old d = old\<lparr>rr_version := doc_version d, rr_status := doc_status d, rr_document := stamp_updated at d\<rparr>"

lemma store_insert_effect:
  assumes "store_insert at kind parent d db = Inr (d', db')"
  shows "d' = stamp_created at d \<and> doc_version d = 1 \<and> find_row rr_id (doc_id d) (resources db) = None \<and>
     document_matches (inserted_row at kind parent d) \<and> one_open_quote (inserted_row at kind parent d) (resources db) \<and>
     resource_checks (inserted_row at kind parent d) \<and>
     (kind = RFQ \<longrightarrow> doc_status d = ''DRAFT'') \<and>
     (kind = QUOTATION \<longrightarrow> doc_status d = ''ISSUED'' \<and> quote_parent_ok at (inserted_row at kind parent d) (resources db)) \<and>
     db' = db\<lparr>resources := resources db @ [inserted_row at kind parent d],
       resource_events := resource_events db @ [event_of (inserted_row at kind parent d)]\<rparr>"
proof -
  let ?row = "\<lparr>rr_id = doc_id d, rr_kind = kind, rr_scope = scopeValues (doc_context d), rr_parent = parent,
     rr_version = doc_version d, rr_status = doc_status d, rr_document = d\<rparr>"
  have row: "?row\<lparr>rr_document := stamp_created at d\<rparr> = inserted_row at kind parent d" by (simp add: inserted_row_def)
  have i: "insert_resource at ?row db = Inr (d', db')" using assms by (simp add: store_insert_def)
  then obtain row where g: "guard_insert at ?row db = Inr row" by (auto simp: insert_resource_def andThen_Inr_iff)
  have r: "row = inserted_row at kind parent d" "document_matches ?row" "doc_version d = 1" "kind = RFQ \<longrightarrow> doc_status d = ''DRAFT''"
    "kind = QUOTATION \<longrightarrow> doc_status d = ''ISSUED'' \<and> quote_parent_ok at ?row (resources db)"
    using g by (auto simp: guard_insert_def inserted_row_def split: if_splits)
  have m: "document_matches (inserted_row at kind parent d)" using r(2) by (simp add: document_matches_def inserted_row_def)
  have q: "quote_parent_ok at (inserted_row at kind parent d) rows = quote_parent_ok at ?row rows" for rows
    by (simp add: quote_parent_ok_def inserted_row_def cong: option.case_cong)
  have fields: "rr_id (inserted_row at kind parent d) = doc_id d" "rr_document (inserted_row at kind parent d) = stamp_created at d"
    by (simp_all add: inserted_row_def)
  show ?thesis
    using i r(3-5) m unfolding insert_resource_def g r(1) andThen_Inr q by (auto simp: fields split: if_splits)
qed

lemma store_update_effect:
  assumes "store_update at d db = Inr (d', db')"
  obtains old where "find_row rr_id (doc_id d) (resources db) = Some old" and "doc_version d = rr_version old + 1"
    and "d' = stamp_updated at d" and "document_matches (updated_row at old d)"
    and "frozen_part d = frozen_part (rr_document old)"
    and "rr_kind old = RFQ \<longrightarrow> rfq_guard_allows (rr_status old) (doc_status d) \<and>
       (doc_status d = ''QUOTED'' \<longrightarrow> has_quote (rr_id old) [''ISSUED''] (resources db)) \<and>
       (doc_status d \<in> {''UNDER_REVIEW'', ''CLOSED'', ''WITHDRAWN'', ''EXPIRED''} \<longrightarrow>
          \<not> has_quote (rr_id old) [''ISSUED'', ''ACCEPTED''] (resources db))"
    and "rr_kind old = QUOTATION \<longrightarrow> quote_guard_allows at (rr_status old) (doc_status d) (doc_valid_until (rr_document old))"
    and "db' = db\<lparr>resources := upd_row rr_id (doc_id d) (\<lambda>_. updated_row at old d) (resources db),
       resource_events := resource_events db @ [event_of (updated_row at old d)]\<rparr>"
proof -
  obtain old where old: "find_row rr_id (doc_id d) (resources db) = Some old" and v: "\<not> rr_version old \<noteq> doc_version d - 1"
    and u: "update_resource at old (old\<lparr>rr_version := doc_version d, rr_status := doc_status d, rr_document := d\<rparr>) db = Inr (d', db')"
    using assms by (auto simp: store_update_def split: option.splits if_splits)
  have k: "rr_id old = doc_id d" by (rule find_row_key [OF old])
  show thesis
    by (rule that [OF old])
      (use u v k in \<open>auto simp: update_resource_def guard_update_def tx_simps Let_def updated_row_def document_matches_def split: if_splits\<close>)
qed

section \<open>Insertions keep the invariant\<close>

lemma has_quote_iff:
  "has_quote k ss rows \<longleftrightarrow> (\<exists>x \<in> set rows. rr_parent x = Some k \<and> rr_kind x = QUOTATION \<and> rr_status x \<in> set ss)"
  by (simp add: has_quote_def Bex_set_list_ex [symmetric])

lemma events_of_append [simp]: "events_of k (xs @ ys) = events_of k xs @ events_of k ys"
  by (simp add: events_of_def)

lemma events_of_event [simp]: "events_of k [event_of row] = (if rr_id row = k then [event_of row] else [])"
  by (simp add: events_of_def event_of_def)

lemma event_of_fields [simp]:
  "ev_resource (event_of row) = rr_id row" "ev_version (event_of row) = rr_version row" "ev_document (event_of row) = rr_document row"
  by (simp_all add: event_of_def)

lemma events_of_absent: "(\<And>e. e \<in> set es \<Longrightarrow> ev_resource e \<noteq> k) \<Longrightarrow> events_of k es = []"
  by (simp add: events_of_def filter_empty_conv)

lemma inserted_row_fields [simp]:
  "rr_id (inserted_row at k p d) = doc_id d" "rr_kind (inserted_row at k p d) = k" "rr_parent (inserted_row at k p d) = p"
  "rr_version (inserted_row at k p d) = doc_version d" "rr_status (inserted_row at k p d) = doc_status d"
  "rr_document (inserted_row at k p d) = stamp_created at d" "rr_scope (inserted_row at k p d) = scopeValues (doc_context d)"
  by (simp_all add: inserted_row_def)

lemma updated_row_fields [simp]:
  "rr_id (updated_row at old d) = rr_id old" "rr_kind (updated_row at old d) = rr_kind old"
  "rr_parent (updated_row at old d) = rr_parent old" "rr_scope (updated_row at old d) = rr_scope old"
  "rr_version (updated_row at old d) = doc_version d" "rr_status (updated_row at old d) = doc_status d"
  "rr_document (updated_row at old d) = stamp_updated at d"
  by (simp_all add: updated_row_def)

lemma quote_parent_found:
  assumes "quote_parent_ok at row rows"
  shows "\<exists>p \<in> set rows. parent_of p row \<and> rr_status p = ''UNDER_REVIEW''"
  using assms
  by (auto simp: quote_parent_ok_def parent_of_def bind_eq_Some_conv split: option.splits dest: find_row_SomeD)

lemma history_insert:
  assumes h: "history_ok db" and new: "rr_id row \<notin> rr_id ` set (resources db)" and v: "rr_version row = 1"
    and db': "resources db' = resources db @ [row]" "resource_events db' = resource_events db @ [event_of row]"
  shows "history_ok db'"
proof -
  have none: "events_of (rr_id row) (resource_events db) = []"
  proof (rule events_of_absent)
    fix e assume "e \<in> set (resource_events db)"
    then have "ev_resource e \<in> rr_id ` set (resources db)" using h by (simp add: history_ok_def)
    then show "ev_resource e \<noteq> rr_id row" using new by metis
  qed
  have "row_history (resource_events db') x" if "x \<in> set (resources db')" for x
  proof (cases "x = row")
    case True
    then show ?thesis using none v by (simp add: row_history_def db')
  next
    case False
    then have "x \<in> set (resources db)" using that by (simp add: db')
    moreover from this have "rr_id x \<noteq> rr_id row" using new by (metis image_eqI)
    ultimately show ?thesis using h by (simp add: history_ok_def row_history_def db')
  qed
  then show ?thesis using h by (auto simp: history_ok_def db')
qed

lemma parents_insert:
  assumes "parents_ok rows" and "if rr_kind row = RFQ then rr_parent row = None else \<exists>p \<in> set rows. parent_of p row"
  shows "parents_ok (rows @ [row])"
  using assms unfolding parents_ok_def by (auto split: if_splits)

lemma offer_insert:
  assumes "one_offer rows" and "one_open_quote row rows" and "rr_id row \<notin> rr_id ` set rows"
  shows "one_offer (rows @ [row])"
proof -
  have clash: "\<not> (rr_kind x = QUOTATION \<and> rr_status x = ''ISSUED'' \<and> rr_parent x = rr_parent row)"
    if "x \<in> set rows" "rr_kind row = QUOTATION" "rr_status row = ''ISSUED''" for x
  proof -
    have "rr_id x \<noteq> rr_id row" using assms(3) that(1) by (metis image_eqI)
    then show ?thesis using assms(2) that unfolding one_open_quote_def open_quote_def Bex_set_list_ex [symmetric] by auto
  qed
  show ?thesis
    unfolding one_offer_def
  proof (intro ballI impI)
    fix a b
    assume ab: "a \<in> set (rows @ [row])" "b \<in> set (rows @ [row])"
      and c: "rr_kind a = QUOTATION \<and> rr_kind b = QUOTATION \<and> rr_status a = ''ISSUED'' \<and> rr_status b = ''ISSUED'' \<and> rr_parent a = rr_parent b"
    show "rr_id a = rr_id b"
    proof (cases "a = row \<or> b = row")
      case True
      have "a \<notin> set rows \<or> b \<noteq> row" "b \<notin> set rows \<or> a \<noteq> row" using clash c by metis+
      then show ?thesis using True ab by auto
    next
      case False
      then have "a \<in> set rows" "b \<in> set rows" using ab by auto
      then show ?thesis using assms(1) c unfolding one_offer_def by blast
    qed
  qed
qed

lemma store_insert_inv:
  assumes "store_insert at (doc_kind d) parent d db = Inr (d', db')" and "store_inv db"
  shows "store_inv db'"
proof -
  let ?row = "inserted_row at (doc_kind d) parent d"
  note E = store_insert_effect [OF assms(1)]
  have db': "resources db' = resources db @ [?row]" "resource_events db' = resource_events db @ [event_of ?row]" using E by simp_all
  have new: "rr_id ?row \<notin> rr_id ` set (resources db)" using E by (simp add: find_row_None_iff)
  have parent: "if rr_kind ?row = RFQ then rr_parent ?row = None else \<exists>p \<in> set (resources db). parent_of p ?row"
  proof (cases "doc_kind d")
    case RFQ
    then show ?thesis using E by (simp add: resource_checks_def)
  next
    case QUOTATION
    then have "quote_parent_ok at ?row (resources db)" using E by simp
    then show ?thesis using quote_parent_found QUOTATION by fastforce
  qed
  have "row_ok ?row" using E by (auto simp: row_ok_def quote_statuses_def)
  moreover have "history_ok db'" using history_insert [OF _ new _ db'] assms(2) E by (simp add: store_inv_def)
  moreover have "parents_ok (resources db')" unfolding db' using parents_insert parent assms(2) by (simp add: store_inv_def)
  moreover have "one_offer (resources db')" unfolding db' using offer_insert [OF _ _ new] E assms(2) by (simp add: store_inv_def)
  ultimately show ?thesis using assms(2) new by (simp add: store_inv_def db' ball_Un)
qed

section \<open>Updates keep the invariant\<close>

text \<open>One row is replaced by a row with its identity, kind, scope and parent.\<close>

definition replaced :: "resource_row \<Rightarrow> resource_row \<Rightarrow> resource_row list \<Rightarrow> resource_row list" where
  "replaced old new rows = upd_row rr_id (rr_id old) (\<lambda>_. new) rows"

definition same_place :: "resource_row \<Rightarrow> resource_row \<Rightarrow> bool" where
  "same_place old new \<longleftrightarrow> rr_id new = rr_id old \<and> rr_kind new = rr_kind old \<and> rr_scope new = rr_scope old \<and>
     rr_parent new = rr_parent old \<and> doc_context (rr_document new) = doc_context (rr_document old)"

lemma in_replaced:
  assumes "distinct (map rr_id rows)" and "old \<in> set rows" and "x \<in> set (replaced old new rows)"
  shows "x = new \<or> (x \<in> set rows \<and> rr_id x \<noteq> rr_id old)"
  using set_upd_row_cases [OF assms(3) [unfolded replaced_def]] by auto

lemma replaced_keeps:
  assumes "x \<in> set rows"
  shows "(if rr_id x = rr_id old then new else x) \<in> set (replaced old new rows)"
  using assms by (auto simp: replaced_def upd_row_def)

lemma parents_replace:
  assumes ok: "parents_ok rows" and d: "distinct (map rr_id rows)" and old: "old \<in> set rows" and same: "same_place old new"
  shows "parents_ok (replaced old new rows)"
  unfolding parents_ok_def
proof
  fix x assume x: "x \<in> set (replaced old new rows)"
  obtain x0 where x0: "x0 \<in> set rows" "same_place x0 x"
    using in_replaced [OF d old x] old same by (auto simp: same_place_def)
  have p: "\<exists>p' \<in> set (replaced old new rows). parent_of p' x" if "parent_of p x0" "p \<in> set rows" for p
  proof -
    let ?p = "if rr_id p = rr_id old then new else p"
    have "p = old" if "rr_id p = rr_id old"
      using d inj_onD [OF _ that \<open>p \<in> set rows\<close> old] by (simp add: distinct_map)
    then have "same_place p ?p" using same by (auto simp: same_place_def)
    then have "parent_of ?p x" using that(1) x0(2) by (auto simp: parent_of_def same_place_def)
    then show ?thesis using replaced_keeps [OF that(2)] by blast
  qed
  show "if rr_kind x = RFQ then rr_parent x = None else \<exists>p \<in> set (replaced old new rows). parent_of p x"
    using ok x0 p unfolding parents_ok_def by (auto simp: same_place_def split: if_splits)
qed

lemma offer_replace:
  assumes ok: "one_offer rows" and d: "distinct (map rr_id rows)" and old: "old \<in> set rows"
    and new: "\<not> (rr_kind new = QUOTATION \<and> rr_status new = ''ISSUED'')"
  shows "one_offer (replaced old new rows)"
proof -
  have keep: "x \<in> set rows" if "x \<in> set (replaced old new rows)" "rr_kind x = QUOTATION" "rr_status x = ''ISSUED''" for x
    using in_replaced [OF d old that(1)] new that(2,3) by auto
  show ?thesis using ok keep unfolding one_offer_def by blast
qed

lemma upto_snoc: "1 \<le> v + 1 \<Longrightarrow> [1..v] @ [v + 1] = [1..v + (1 :: int)]"
  using upto_rec2 [of 1 "v + 1"] by simp

lemma history_replace:
  assumes h: "history_ok db" and d: "distinct (map rr_id (resources db))" and old: "old \<in> set (resources db)"
    and new: "rr_id new = rr_id old" "rr_version new = rr_version old + 1" "1 \<le> rr_version old"
    and db': "resources db' = replaced old new (resources db)" "resource_events db' = resource_events db @ [event_of new]"
  shows "history_ok db'"
proof -
  have "row_history (resource_events db') x" if x: "x \<in> set (resources db')" for x
    using in_replaced [OF d old x [unfolded db']]
  proof
    assume "x = new"
    have "row_history (resource_events db) old" using h old by (simp add: history_ok_def)
    then show ?thesis using \<open>x = new\<close> new upto_snoc [of "rr_version old"] by (simp add: row_history_def db')
  next
    assume x: "x \<in> set (resources db) \<and> rr_id x \<noteq> rr_id old"
    then have "rr_id old \<noteq> rr_id x" by metis
    with x show ?thesis using h new by (simp add: history_ok_def row_history_def db')
  qed
  moreover have "rr_id ` set (resources db') = rr_id ` set (resources db)"
    using arg_cong [OF map_key_upd_row [of rr_id "rr_id old" "\<lambda>_. new" "resources db"], of set] new(1)
    by (simp add: db' replaced_def)
  ultimately show ?thesis using h new(1) old by (auto simp: history_ok_def db'(2))
qed

lemma rfq_status_not_issued: "rfq_status_text s \<noteq> ''ISSUED''"
  by (cases s) simp_all

lemma quote_guard_closes: "quote_guard_allows at old new v \<Longrightarrow> new \<in> {''REJECTED'', ''WITHDRAWN'', ''EXPIRED''}"
  by (simp add: quote_guard_allows_def)

text \<open>The rows before and after an update, under the invariant.\<close>

lemma store_update_rows:
  assumes "store_update at d db = Inr (d', db')" and inv: "store_inv db"
  obtains old where "old \<in> set (resources db)" and "rr_id old = doc_id d" and "same_place old (updated_row at old d)"
    and "doc_version d = rr_version old + 1" and "row_ok (updated_row at old d)" and "row_ok old"
    and "resources db' = replaced old (updated_row at old d) (resources db)"
    and "resource_events db' = resource_events db @ [event_of (updated_row at old d)]"
    and "rr_kind old = QUOTATION \<longrightarrow> doc_status d \<in> {''REJECTED'', ''WITHDRAWN'', ''EXPIRED''}"
    and "doc_kind d = rr_kind old"
    and "rr_kind old = RFQ \<longrightarrow> rfq_guard_allows (rr_status old) (doc_status d) \<and>
       (doc_status d \<in> {''UNDER_REVIEW'', ''CLOSED'', ''WITHDRAWN'', ''EXPIRED''} \<longrightarrow>
          \<not> has_quote (rr_id old) [''ISSUED'', ''ACCEPTED''] (resources db))"
proof -
  obtain old where f: "find_row rr_id (doc_id d) (resources db) = Some old" and v: "doc_version d = rr_version old + 1"
    and m: "document_matches (updated_row at old d)" and fr: "frozen_part d = frozen_part (rr_document old)"
    and rg: "rr_kind old = RFQ \<longrightarrow> rfq_guard_allows (rr_status old) (doc_status d) \<and>
       (doc_status d \<in> {''UNDER_REVIEW'', ''CLOSED'', ''WITHDRAWN'', ''EXPIRED''} \<longrightarrow>
          \<not> has_quote (rr_id old) [''ISSUED'', ''ACCEPTED''] (resources db))"
    and g: "rr_kind old = QUOTATION \<longrightarrow> quote_guard_allows at (rr_status old) (doc_status d) (doc_valid_until (rr_document old))"
    and db': "db' = db\<lparr>resources := upd_row rr_id (doc_id d) (\<lambda>_. updated_row at old d) (resources db),
       resource_events := resource_events db @ [event_of (updated_row at old d)]\<rparr>"
    by (rule store_update_effect [OF assms(1)]) (rule that; (assumption | simp))
  have old: "old \<in> set (resources db)" "rr_id old = doc_id d" using find_row_SomeD [OF f] by auto
  then have ok: "row_ok old" using inv by (simp add: store_inv_def)
  have kind: "doc_kind d = rr_kind old" "doc_context d = doc_context (rr_document old)"
    using frozen_part_eq [OF fr] ok by (simp_all add: row_ok_def)
  have st: "rr_kind old = QUOTATION \<longrightarrow> doc_status d \<in> {''REJECTED'', ''WITHDRAWN'', ''EXPIRED''}"
    using g quote_guard_closes by blast
  have "row_ok (updated_row at old d)"
    using m kind ok v st by (auto simp: row_ok_def quote_statuses_def)
  then show thesis
    using that [OF old] kind v ok st rg by (simp add: same_place_def db' replaced_def old(2))
qed

lemma store_update_inv:
  assumes "store_update at d db = Inr (d', db')" and inv: "store_inv db"
  shows "store_inv db'"
proof -
  obtain old where old: "old \<in> set (resources db)" and same: "same_place old (updated_row at old d)"
    and v: "doc_version d = rr_version old + 1" and ok: "row_ok (updated_row at old d)" "row_ok old"
    and db': "resources db' = replaced old (updated_row at old d) (resources db)"
      "resource_events db' = resource_events db @ [event_of (updated_row at old d)]"
    and st: "rr_kind old = QUOTATION \<longrightarrow> doc_status d \<in> {''REJECTED'', ''WITHDRAWN'', ''EXPIRED''}"
    by (rule store_update_rows [OF assms]) (rule that; assumption)
  have d: "distinct (map rr_id (resources db))" using inv by (simp add: store_inv_def)
  have closed: "\<not> (rr_kind (updated_row at old d) = QUOTATION \<and> rr_status (updated_row at old d) = ''ISSUED'')" using st by auto
  have "parents_ok (resources db')" unfolding db' using parents_replace [OF _ d old same] inv by (simp add: store_inv_def)
  moreover have "one_offer (resources db')" unfolding db' using offer_replace [OF _ d old closed] inv by (simp add: store_inv_def)
  moreover have "history_ok db'"
    using history_replace [OF _ d old _ _ _ db'] inv v ok(2) by (simp add: store_inv_def row_ok_def)
  moreover have "distinct (map rr_id (resources db'))"
    unfolding db' replaced_def using d by (subst map_key_upd_row) simp_all
  moreover have "\<forall>x \<in> set (resources db'). row_ok x"
    using in_replaced [OF d old] ok(1) inv by (auto simp: db' store_inv_def)
  ultimately show ?thesis by (simp add: store_inv_def)
qed

section \<open>Writes as a checked store\<close>

text \<open>The two writes of the service; each insertion stores a document under its own kind.\<close>

datatype resource_write = W_Insert instant "string option" commercial_document | W_Update instant commercial_document

fun commercial_write :: "commercial_db \<Rightarrow> resource_write \<Rightarrow> commercial_failure + commercial_db" where
  "commercial_write db (W_Insert at parent d) = andThen (store_insert at (doc_kind d) parent d db) (\<lambda>(_, db'). Inr db')"
| "commercial_write db (W_Update at d) = andThen (store_update at d db) (\<lambda>(_, db'). Inr db')"

interpretation commercial_store: checked_store commercial_write store_inv
proof
  fix s x s'
  assume "store_inv s" and "commercial_write s x = Inr s'"
  then show "store_inv s'"
    by (cases x) (auto simp: andThen_Inr_iff intro: store_insert_inv store_update_inv)
qed

end
