(* ===== verification/Commercial_Service.thy ===== *)
theory Commercial_Service
  imports Commercial_Invariant
begin

text \<open>
  The commercial service, \<open>PostgresCommercialLifecycle\<close> of
  \<open>src/src/baobab/b2b/postgres-commercial-lifecycle.ts\<close>: one command is one transaction, committed
  whole or rolled back. The authority port, SHA-256, the random identifier and the readings of the
  database clock are the fields of \<open>commercial_env\<close>; the advisory and row locks make commands run
  one after the other, so a command is a function of the tables it finds.
\<close>

section \<open>Commands and authority\<close>

datatype commercial_actor = BuyerActor string int | SellerActor | SystemActor

record commercial_authorization =
  au_action :: commercial_action
  au_context :: commercial_context
  au_decision :: string
  au_evidence :: string
  au_evaluated :: "instant option"
  au_expires :: "instant option"
  au_relationship :: int
  au_canonical :: string
  au_actor :: commercial_actor

record commercial_command =
  co_action :: commercial_action
  co_scope :: json
  co_key :: string
  co_resource :: "string option"
  co_version :: "js_number option"
  co_payload :: "json option"
  co_other_keys :: "string list"

record commercial_env =
  ce_authorize :: "commercial_action \<Rightarrow> commercial_context \<Rightarrow> commercial_document option \<Rightarrow>
     commercial_failure + commercial_authorization option"
  ce_sha256 :: "string \<Rightarrow> string"
  ce_new_id :: string
  ce_first :: instant
  ce_now :: instant
  ce_writes :: "string \<Rightarrow> instant"
  ce_last :: instant

definition lifecycle_key :: "string \<Rightarrow> bool" where
  "lifecycle_key s \<longleftrightarrow> (case s of [] \<Rightarrow> False | c # cs \<Rightarrow> alnum_char c \<and> class_range id_char 15 127 cs)"

definition uuid_text :: "string \<Rightarrow> bool" where
  "uuid_text s \<longleftrightarrow> length s = 36 \<and>
     list_all (\<lambda>(i, c). if i \<in> {8, 13, 18, 23} then c = CHR ''-'' else lower_hex_char c) (enumerate 0 s)"

definition BUYER_ACTIONS :: "commercial_action list" where
  "BUYER_ACTIONS = [RFQ_READ, QUOTATION_READ, RFQ_CREATE, RFQ_SUBMIT, RFQ_WITHDRAW, QUOTATION_REJECT]"

definition SYSTEM_ACTIONS :: "commercial_action list" where
  "SYSTEM_ACTIONS = [RFQ_EXPIRE, QUOTATION_EXPIRE]"

definition COMMANDS :: "commercial_action list" where
  "COMMANDS = [RFQ_CREATE, RFQ_SUBMIT, RFQ_REVIEW, RFQ_DECLINE, RFQ_WITHDRAW, RFQ_EXPIRE, RFQ_CLOSE, QUOTATION_ISSUE,
     QUOTATION_REJECT, QUOTATION_WITHDRAW, QUOTATION_EXPIRE]"

fun action_text :: "commercial_action \<Rightarrow> string" where
  "action_text RFQ_READ = ''RFQ_READ''"
| "action_text QUOTATION_READ = ''QUOTATION_READ''"
| "action_text RFQ_CREATE = ''RFQ_CREATE''"
| "action_text RFQ_SUBMIT = ''RFQ_SUBMIT''"
| "action_text RFQ_REVIEW = ''RFQ_REVIEW''"
| "action_text RFQ_DECLINE = ''RFQ_DECLINE''"
| "action_text RFQ_WITHDRAW = ''RFQ_WITHDRAW''"
| "action_text RFQ_EXPIRE = ''RFQ_EXPIRE''"
| "action_text RFQ_CLOSE = ''RFQ_CLOSE''"
| "action_text QUOTATION_ISSUE = ''QUOTATION_ISSUE''"
| "action_text QUOTATION_REJECT = ''QUOTATION_REJECT''"
| "action_text QUOTATION_WITHDRAW = ''QUOTATION_WITHDRAW''"
| "action_text QUOTATION_EXPIRE = ''QUOTATION_EXPIRE''"

definition lift_code :: "commercial_code + 'a \<Rightarrow> commercial_failure + 'a" where
  "lift_code m = (case m of Inl c \<Rightarrow> Inl (Refusal c) | Inr x \<Rightarrow> Inr x)"

text \<open>The decision itself: for this action and exact context, in its lifetime of at most a minute.\<close>

definition authorization_current ::
  "instant \<Rightarrow> commercial_action \<Rightarrow> commercial_context \<Rightarrow> commercial_authorization \<Rightarrow> bool" where
  "authorization_current now action scope auth \<longleftrightarrow>
     au_action auth = action \<and> sameCommercialScope (au_context auth) scope \<and>
     cc_principal (au_context auth) = cc_principal scope \<and> uuid_text (au_decision auth) \<and> js_trim (au_evidence auth) \<noteq> [] \<and>
     (case (au_evaluated auth, au_expires auth) of
        (Some e, Some x) \<Rightarrow> e \<le> now \<and> now < x \<and> x - e \<le> 60000
      | _ \<Rightarrow> False)"

definition actor_permitted :: "commercial_action \<Rightarrow> commercial_actor \<Rightarrow> bool" where
  "actor_permitted action actor \<longleftrightarrow>
     (if action \<in> set BUYER_ACTIONS then (case actor of BuyerActor _ _ \<Rightarrow> True | _ \<Rightarrow> False)
      else if action \<in> set SYSTEM_ACTIONS then actor = SystemActor
      else actor = SellerActor)"

definition organisation_current :: "commercial_context \<Rightarrow> commercial_authorization \<Rightarrow> commercial_db \<Rightarrow> bool" where
  "organisation_current scope auth db \<longleftrightarrow>
     (case filter (\<lambda>x. to_id x = cc_organisation scope \<and> to_tenant x = cc_tenant scope \<and> \<not> to_deleted x) (buyer_organisations db) of
        [] \<Rightarrow> False
      | row # _ \<Rightarrow> to_status row = ''ACTIVE'' \<and> to_canonical row = Some (au_canonical auth) \<and> to_revision row = au_relationship auth)"

definition member_current :: "instant \<Rightarrow> commercial_context \<Rightarrow> string \<Rightarrow> int \<Rightarrow> commercial_db \<Rightarrow> bool" where
  "member_current now scope membership revision db \<longleftrightarrow>
     (case filter (\<lambda>x. tm_id x = membership \<and> tm_organisation x = cc_organisation scope \<and> tm_principal x = cc_principal scope \<and>
         \<not> tm_deleted x) (buyer_members db) of
        [] \<Rightarrow> False
      | member # _ \<Rightarrow> tm_status member = ''ACTIVE'' \<and> tm_revision member = revision \<and> in_interval now (tm_from member) (tm_until member))"

definition authorized ::
  "instant \<Rightarrow> commercial_action \<Rightarrow> commercial_context \<Rightarrow> commercial_authorization option \<Rightarrow> commercial_db \<Rightarrow>
     commercial_failure + commercial_authorization" where
  "authorized now action scope decision db =
     (case decision of
        None \<Rightarrow> Inl (Refusal AUTHORITY_DENIED)
      | Some auth \<Rightarrow>
          if \<not> authorization_current now action scope auth \<or> \<not> actor_permitted action (au_actor auth) \<or>
             \<not> organisation_current scope auth db \<or>
             (case au_actor auth of BuyerActor m r \<Rightarrow> \<not> member_current now scope m r db | _ \<Rightarrow> False)
          then Inl (Refusal AUTHORITY_DENIED) else Inr auth)"

section \<open>Reading\<close>

definition row_in_scope :: "commercial_context \<Rightarrow> resource_row \<Rightarrow> bool" where
  "row_in_scope scope row \<longleftrightarrow> rr_scope row = scopeValues scope"

definition lock_resource :: "commercial_context \<Rightarrow> string \<Rightarrow> commercial_db \<Rightarrow> commercial_failure + commercial_document" where
  "lock_resource scope k db =
     (case find_row rr_id k (filter (row_in_scope scope) (resources db)) of
        None \<Rightarrow> Inl (Refusal NOT_FOUND)
      | Some row \<Rightarrow> Inr (rr_document row))"

definition read_resources ::
  "commercial_env \<Rightarrow> commercial_context \<Rightarrow> resource_kind \<Rightarrow> string option \<Rightarrow> commercial_db \<Rightarrow>
     commercial_failure + commercial_document list" where
  "read_resources env scope kind k db =
     andThen (lift_code (commercialContext (context_json scope))) (\<lambda>_.
     let action = (if kind = RFQ then RFQ_READ else QUOTATION_READ) in
     andThen (ce_authorize env action scope None) (\<lambda>auth.
     andThen (authorized (ce_first env) action scope auth db) (\<lambda>_.
     let rows = take 100 (sort_key rr_id (filter (\<lambda>row. row_in_scope scope row \<and> rr_kind row = kind \<and>
           (case k of None \<Rightarrow> True | Some i \<Rightarrow> rr_id row = i)) (resources db))) in
     if (case k of None \<Rightarrow> False | Some i \<Rightarrow> i \<noteq> []) \<and> rows = [] then Inl (Refusal NOT_FOUND)
     else andThen (authorized (ce_last env) action scope auth db) (\<lambda>_. Inr (map rr_document rows)))))"

section \<open>The effect of a command\<close>

fun rfq_target :: "commercial_action \<Rightarrow> rfq_status option" where
  "rfq_target RFQ_SUBMIT = Some RFQ_SUBMITTED"
| "rfq_target RFQ_REVIEW = Some RFQ_UNDER_REVIEW"
| "rfq_target RFQ_DECLINE = Some RFQ_DECLINED"
| "rfq_target RFQ_WITHDRAW = Some RFQ_WITHDRAWN"
| "rfq_target RFQ_EXPIRE = Some RFQ_EXPIRED"
| "rfq_target RFQ_CLOSE = Some RFQ_CLOSED"
| "rfq_target _ = None"

fun quotation_target :: "commercial_action \<Rightarrow> quotation_status option" where
  "quotation_target QUOTATION_REJECT = Some QUOTE_REJECTED"
| "quotation_target QUOTATION_WITHDRAW = Some QUOTE_WITHDRAWN"
| "quotation_target QUOTATION_EXPIRE = Some QUOTE_EXPIRED"
| "quotation_target _ = None"

definition write_doc :: "commercial_env \<Rightarrow> commercial_document \<Rightarrow> commercial_db \<Rightarrow> commercial_failure + commercial_document \<times> commercial_db" where
  "write_doc env d db = store_update (ce_writes env (doc_id d)) d db"

definition issued_children :: "string \<Rightarrow> commercial_db \<Rightarrow> commercial_document list" where
  "issued_children parent db =
     map rr_document (sort_key rr_id (filter (\<lambda>row. rr_parent row = Some parent \<and> rr_kind row = QUOTATION \<and>
       rr_status row = ''ISSUED'') (resources db)))"

text \<open>An outstanding offer closes with its request: expired when its time has passed, else withdrawn.\<close>

definition close_child :: "commercial_env \<Rightarrow> commercial_db \<Rightarrow> commercial_document \<Rightarrow> commercial_failure + commercial_db" where
  "close_child env db d =
     (case d of
        RfqDoc _ \<Rightarrow> Inl (Refusal COMMERCIAL_CONFLICT)
      | QuoteDoc q \<Rightarrow>
          andThen (lift_code (transitionQuotation q
            (if qt_valid_until q \<le> ce_now env then QUOTE_EXPIRED else QUOTE_WITHDRAWN) (JInt (qt_version q)) (Some (ce_now env)))) (\<lambda>q'.
          andThen (write_doc env (QuoteDoc q') db) (\<lambda>(_, db'). Inr db')))"

definition apply_rfq ::
  "commercial_env \<Rightarrow> commercial_action \<Rightarrow> rfq \<Rightarrow> commercial_db \<Rightarrow> commercial_failure + commercial_document \<times> commercial_db" where
  "apply_rfq env action r db =
     (case rfq_target action of
        None \<Rightarrow> Inl (Refusal INVALID_REQUEST)
      | Some next \<Rightarrow>
          andThen (if next = RFQ_WITHDRAWN \<or> next = RFQ_EXPIRED
            then for_each (close_child env) db (issued_children (rfq_id r) db) else Inr db) (\<lambda>db1.
          andThen (lift_code (transitionRfq r next (JInt (rfq_version r)) (Some (ce_now env)))) (\<lambda>r'.
          write_doc env (RfqDoc r') db1)))"

definition apply_quotation ::
  "commercial_env \<Rightarrow> commercial_action \<Rightarrow> quotation \<Rightarrow> commercial_db \<Rightarrow> commercial_failure + commercial_document \<times> commercial_db" where
  "apply_quotation env action q db =
     (case quotation_target action of
        None \<Rightarrow> Inl (Refusal INVALID_REQUEST)
      | Some next \<Rightarrow>
          andThen (lift_code (transitionQuotation q next (JInt (qt_version q)) (Some (ce_now env)))) (\<lambda>q'.
          write_doc env (QuoteDoc q') db))"

definition apply_issue ::
  "commercial_env \<Rightarrow> json option \<Rightarrow> rfq \<Rightarrow> commercial_db \<Rightarrow> commercial_failure + commercial_document \<times> commercial_db" where
  "apply_issue env payload r db =
     (case payload of
        None \<Rightarrow> Inl (Refusal INVALID_REQUEST)
      | Some value \<Rightarrow>
          andThen (lift_code (issueQuotation (ce_new_id env) value r (Some (ce_now env)))) (\<lambda>q.
          andThen (store_insert (ce_writes env (qt_id q)) QUOTATION (Some (rfq_id r)) (QuoteDoc q) db) (\<lambda>(result, db1).
          andThen (lift_code (transitionRfq r RFQ_QUOTED (JInt (rfq_version r)) (Some (ce_now env)))) (\<lambda>r'.
          andThen (write_doc env (RfqDoc r') db1) (\<lambda>(_, db2). Inr (result, db2))))))"

definition apply_create ::
  "commercial_env \<Rightarrow> json option \<Rightarrow> commercial_context \<Rightarrow> commercial_db \<Rightarrow> commercial_failure + commercial_document \<times> commercial_db" where
  "apply_create env payload scope db =
     (case payload of
        None \<Rightarrow> Inl (Refusal INVALID_REQUEST)
      | Some value \<Rightarrow>
          andThen (lift_code (createRfq (ce_new_id env) value scope (Some (ce_now env)))) (\<lambda>r.
          store_insert (ce_writes env (rfq_id r)) RFQ None (RfqDoc r) db))"

definition rfq_action :: "commercial_action \<Rightarrow> bool" where
  "rfq_action action \<longleftrightarrow> has_prefix ''RFQ_'' (action_text action)"

definition apply_command ::
  "commercial_env \<Rightarrow> commercial_command \<Rightarrow> commercial_context \<Rightarrow> commercial_document option \<Rightarrow> commercial_db \<Rightarrow>
     commercial_failure + commercial_document \<times> commercial_db" where
  "apply_command env c scope resource db =
     (if co_action c = RFQ_CREATE then apply_create env (co_payload c) scope db
      else case resource of
        None \<Rightarrow> Inl (Refusal COMMERCIAL_CONFLICT)
      | Some d \<Rightarrow>
          if co_version c \<noteq> Some (JInt (doc_version d)) then Inl (Refusal COMMERCIAL_CONFLICT)
          else if co_action c = QUOTATION_ISSUE then
            (case d of QuoteDoc _ \<Rightarrow> Inl (Refusal COMMERCIAL_CONFLICT) | RfqDoc r \<Rightarrow> apply_issue env (co_payload c) r db)
          else if rfq_action (co_action c) then
            (case d of QuoteDoc _ \<Rightarrow> Inl (Refusal COMMERCIAL_CONFLICT) | RfqDoc r \<Rightarrow> apply_rfq env (co_action c) r db)
          else
            (case d of RfqDoc _ \<Rightarrow> Inl (Refusal COMMERCIAL_CONFLICT) | QuoteDoc q \<Rightarrow> apply_quotation env (co_action c) q db))"

section \<open>The transaction\<close>

text \<open>The closed envelope of a command.\<close>

definition valid_envelope :: "commercial_command \<Rightarrow> bool" where
  "valid_envelope c \<longleftrightarrow>
     co_other_keys c = [] \<and>
     \<not> (co_action c = RFQ_CREATE \<and> (co_resource c \<noteq> None \<or> co_version c \<noteq> None)) \<and>
     \<not> (co_action c \<noteq> RFQ_CREATE \<and> co_action c \<noteq> QUOTATION_ISSUE \<and> co_payload c \<noteq> None) \<and>
     \<not> (co_action c = QUOTATION_ISSUE \<and> co_payload c = None)"

definition valid_command :: "commercial_command \<Rightarrow> bool" where
  "valid_command c \<longleftrightarrow>
     co_action c \<in> set COMMANDS \<and> lifecycle_key (co_key c) \<and>
     (co_action c \<noteq> RFQ_CREATE \<longrightarrow>
        (case co_resource c of None \<Rightarrow> False | Some k \<Rightarrow> k \<noteq> []) \<and>
        (case co_version c of Some (JInt v) \<Rightarrow> is_safe_int v \<and> 1 \<le> v | _ \<Rightarrow> False))"

definition json_option :: "('a \<Rightarrow> json) \<Rightarrow> 'a option \<Rightarrow> json" where
  "json_option f x = (case x of None \<Rightarrow> JNull | Some y \<Rightarrow> f y)"

definition request_json :: "commercial_command \<Rightarrow> commercial_context \<Rightarrow> json" where
  "request_json c scope = JObj
     [(''action'', JStr (action_text (co_action c))), (''scope'', context_json scope),
      (''resourceId'', json_option JStr (co_resource c)), (''expectedVersion'', json_option JNum (co_version c)),
      (''payload'', json_option (\<lambda>v. v) (co_payload c))]"

definition find_receipt :: "string \<Rightarrow> string \<Rightarrow> receipt_row list \<Rightarrow> receipt_row option" where
  "find_receipt scope k rows = List.find (\<lambda>x. rc_scope x = scope \<and> rc_key x = k) rows"

definition sha256_text :: "string \<Rightarrow> bool" where
  "sha256_text s \<longleftrightarrow> has_prefix ''sha256:'' s \<and> class_range lower_hex_char 64 64 (drop 7 s)"

definition insert_receipt :: "receipt_row \<Rightarrow> commercial_db \<Rightarrow> commercial_failure + commercial_db" where
  "insert_receipt row db =
     andThen (ensure (lifecycle_key (rc_key row)) (Database ''trade_commercial_command_idempotency_key_check'')) (\<lambda>_.
     andThen (ensure (sha256_text (rc_digest row)) (Database ''trade_commercial_command_request_digest_check'')) (\<lambda>_.
     andThen (ensure (let n = length (dropWhile (\<lambda>c. c = CHR '' '') (rev (dropWhile (\<lambda>c. c = CHR '' '') (rc_evidence row)))) in
         1 \<le> n \<and> n \<le> 500) (Database ''trade_commercial_command_evidence_reference_check'')) (\<lambda>_.
     andThen (ensure (find_receipt (rc_scope row) (rc_key row) (receipts db) = None) (Database ''trade_commercial_command_pkey'')) (\<lambda>_.
     Inr (db\<lparr>receipts := receipts db @ [row]\<rparr>)))))"

datatype commercial_outcome = COMMERCIAL_APPLIED | COMMERCIAL_REPLAYED

definition execute_tx ::
  "commercial_env \<Rightarrow> commercial_command \<Rightarrow> commercial_context \<Rightarrow> string \<Rightarrow> string \<Rightarrow> commercial_db \<Rightarrow>
     commercial_failure + (commercial_outcome \<times> commercial_document) \<times> commercial_db" where
  "execute_tx env c scope scope_digest digest db =
     (let previous = find_receipt scope_digest (co_key c) (receipts db) in
      if (case previous of None \<Rightarrow> False | Some p \<Rightarrow> rc_digest p \<noteq> digest) then Inl (Refusal COMMERCIAL_CONFLICT)
      else
        andThen (case co_resource c of None \<Rightarrow> Inr None
          | Some k \<Rightarrow> andThen (lock_resource scope k db) (\<lambda>d. Inr (Some d))) (\<lambda>resource.
        andThen (ce_authorize env (co_action c) scope resource) (\<lambda>decision.
        andThen (authorized (ce_first env) (co_action c) scope decision db) (\<lambda>auth.
        case previous of
          Some p \<Rightarrow>
            andThen (authorized (ce_last env) (co_action c) scope decision db) (\<lambda>_.
            Inr ((COMMERCIAL_REPLAYED, rc_response p), db))
        | None \<Rightarrow>
            andThen (apply_command env c scope resource db) (\<lambda>(result, db1).
            andThen (authorized (ce_last env) (co_action c) scope decision db1) (\<lambda>_.
            andThen (insert_receipt \<lparr>rc_scope = scope_digest, rc_key = co_key c, rc_digest = digest, rc_response = result,
              rc_action = co_action c, rc_actor = cc_principal scope, rc_decision = au_decision auth,
              rc_evidence = au_evidence auth\<rparr> db1) (\<lambda>db2.
            Inr ((COMMERCIAL_APPLIED, result), db2))))))))"

definition execute_command ::
  "commercial_env \<Rightarrow> commercial_command \<Rightarrow> commercial_db \<Rightarrow>
     commercial_failure + (commercial_outcome \<times> commercial_document) \<times> commercial_db" where
  "execute_command env c db =
     (if \<not> valid_envelope c then Inl (Refusal INVALID_REQUEST)
      else
        andThen (lift_code (commercialContext (co_scope c))) (\<lambda>scope.
        if \<not> valid_command c then Inl (Refusal INVALID_REQUEST)
        else
          andThen (lift_code (commercialDigest (ce_sha256 env) (context_json scope))) (\<lambda>scope_digest.
          andThen (lift_code (commercialDigest (ce_sha256 env) (request_json c scope))) (\<lambda>digest.
          execute_tx env c scope scope_digest digest db))))"

text \<open>\<open>execute\<close>: a refused command rolls back.\<close>

definition execute ::
  "commercial_env \<Rightarrow> commercial_command \<Rightarrow> commercial_db \<Rightarrow>
     (commercial_failure + commercial_outcome \<times> commercial_document) \<times> commercial_db" where
  "execute env c db =
     (case execute_command env c db of Inl e \<Rightarrow> (Inl e, db) | Inr (result, db') \<Rightarrow> (Inr result, db'))"

end
