(* ===== verification/Commercial_Service_Laws.thy ===== *)
theory Commercial_Service_Laws
  imports Commercial_Service
begin

text \<open>
  What a command keeps: the store invariant, and that an outstanding offer belongs to a QUOTED
  request.
\<close>

definition offer_row :: "resource_row \<Rightarrow> bool" where
  "offer_row row \<longleftrightarrow> rr_kind row = QUOTATION \<and> rr_status row = ''ISSUED''"

definition has_quoted_parent :: "resource_row list \<Rightarrow> resource_row \<Rightarrow> bool" where
  "has_quoted_parent rows row \<longleftrightarrow> (\<exists>p \<in> set rows. rr_parent row = Some (rr_id p) \<and> rr_status p = ''QUOTED'')"

definition offers_quoted :: "resource_row list \<Rightarrow> bool" where
  "offers_quoted rows \<longleftrightarrow> (\<forall>row \<in> set rows. offer_row row \<longrightarrow> has_quoted_parent rows row)"

text \<open>The same while the offers of one request are being written.\<close>

definition offers_quoted_but :: "string \<Rightarrow> resource_row list \<Rightarrow> bool" where
  "offers_quoted_but k rows \<longleftrightarrow> (\<forall>row \<in> set rows. offer_row row \<longrightarrow> rr_parent row = Some k \<or> has_quoted_parent rows row)"

definition service_inv :: "commercial_db \<Rightarrow> bool" where
  "service_inv db \<longleftrightarrow> store_inv db \<and> offers_quoted (resources db)"

lemma unique_row:
  assumes "store_inv db" and "a \<in> set (resources db)" and "b \<in> set (resources db)" and "rr_id a = rr_id b"
  shows "a = b"
  using assms by (auto simp: store_inv_def distinct_map inj_on_def)

lemma quoted_is_request:
  assumes "store_inv db" and "p \<in> set (resources db)" and "rr_status p = ''QUOTED''"
  shows "rr_kind p = RFQ"
proof (rule ccontr)
  assume "rr_kind p \<noteq> RFQ"
  then have "rr_kind p = QUOTATION" by (cases "rr_kind p") simp_all
  then have "rr_status p \<in> quote_statuses" using assms(1,2) by (simp add: store_inv_def row_ok_def)
  then show False using assms(3) by (simp add: quote_statuses_def)
qed

section \<open>An update\<close>

lemma no_offers_below:
  assumes inv: "store_inv db" and offers: "offers_quoted (resources db)" and old: "old \<in> set (resources db)"
    and "rr_status old \<noteq> ''QUOTED''" and row: "row \<in> set (resources db)" "offer_row row"
  shows "rr_parent row \<noteq> Some (rr_id old)"
proof
  assume "rr_parent row = Some (rr_id old)"
  moreover obtain p where "p \<in> set (resources db)" "rr_parent row = Some (rr_id p)" "rr_status p = ''QUOTED''"
    using offers row unfolding offers_quoted_def has_quoted_parent_def by blast
  ultimately show False using unique_row [OF inv _ old, of p] assms(4) by auto
qed

lemma offers_after_replace:
  assumes inv: "store_inv db" and offers: "offers_quoted_but (rr_id old) (resources db)" and old: "old \<in> set (resources db)"
    and same: "same_place old new" and closed: "\<not> offer_row new"
    and here: "\<And>row. row \<in> set (resources db) \<Longrightarrow> offer_row row \<Longrightarrow> rr_parent row = Some (rr_id old) \<Longrightarrow> rr_status new = ''QUOTED''"
  shows "offers_quoted (replaced old new (resources db))"
  unfolding offers_quoted_def
proof (intro ballI impI)
  let ?rows = "replaced old new (resources db)"
  have d: "distinct (map rr_id (resources db))" using inv by (simp add: store_inv_def)
  fix row assume "row \<in> set ?rows" and o1: "offer_row row"
  then have row: "row \<in> set (resources db)" using in_replaced [OF d old] closed by blast
  show "has_quoted_parent ?rows row"
  proof (cases "rr_parent row = Some (rr_id old)")
    case True
    have "new \<in> set ?rows" using replaced_keeps [OF old, of old new] by simp
    moreover have "rr_id new = rr_id old" using same by (simp add: same_place_def)
    ultimately show ?thesis
      unfolding has_quoted_parent_def using True here [OF row o1 True] by (intro bexI [of _ new]) simp_all
  next
    case False
    then obtain p where p: "p \<in> set (resources db)" "rr_parent row = Some (rr_id p)" "rr_status p = ''QUOTED''"
      using offers row o1 unfolding offers_quoted_but_def has_quoted_parent_def by blast
    then have "p \<in> set ?rows" using replaced_keeps [OF p(1), of old new] False by auto
    then show ?thesis using p by (auto simp: has_quoted_parent_def)
  qed
qed

lemma store_update_offers:
  assumes u: "store_update at d db = Inr (d', db')" and inv: "service_inv db"
  shows "service_inv db'"
proof -
  have si: "store_inv db" and offers: "offers_quoted (resources db)" using inv by (simp_all add: service_inv_def)
  obtain old where old: "old \<in> set (resources db)" and id: "rr_id old = doc_id d" and same: "same_place old (updated_row at old d)"
    and db': "resources db' = replaced old (updated_row at old d) (resources db)"
    and quote: "rr_kind old = QUOTATION \<longrightarrow> doc_status d \<in> {''REJECTED'', ''WITHDRAWN'', ''EXPIRED''}"
    and rfq: "rr_kind old = RFQ \<longrightarrow> rfq_guard_allows (rr_status old) (doc_status d) \<and>
       (doc_status d \<in> {''UNDER_REVIEW'', ''CLOSED'', ''WITHDRAWN'', ''EXPIRED''} \<longrightarrow>
          \<not> has_quote (rr_id old) [''ISSUED'', ''ACCEPTED''] (resources db))"
    by (rule store_update_rows [OF u si]) (rule that; assumption)
  have closed: "\<not> offer_row (updated_row at old d)" using quote by (auto simp: offer_row_def)
  have here: "doc_status d = ''QUOTED''"
    if row: "row \<in> set (resources db)" "offer_row row" "rr_parent row = Some (rr_id old)" for row
  proof -
    have q: "rr_status old = ''QUOTED''" using no_offers_below [OF si offers old _ row(1,2)] row(3) by blast
    then have "rr_kind old = RFQ" by (rule quoted_is_request [OF si old])
    moreover have "has_quote (rr_id old) [''ISSUED'', ''ACCEPTED''] (resources db)"
      using row by (auto simp: has_quote_iff offer_row_def)
    ultimately show ?thesis using rfq q by (auto simp: rfq_guard_allows_def)
  qed
  have but: "offers_quoted_but (rr_id old) (resources db)" using offers by (simp add: offers_quoted_def offers_quoted_but_def)
  have "offers_quoted (resources db')"
    unfolding db' by (rule offers_after_replace [OF si but old same closed]) (use here in auto)
  then show ?thesis using store_update_inv [OF u si] by (simp add: service_inv_def)
qed

section \<open>The commands\<close>

lemma write_doc_inv: "write_doc env d db = Inr (x, db') \<Longrightarrow> service_inv db \<Longrightarrow> service_inv db'"
  unfolding write_doc_def by (rule store_update_offers)

lemma lift_code_Inr [tx_simps]: "lift_code m = Inr x \<longleftrightarrow> m = Inr x"
  by (cases m) (simp_all add: lift_code_def)

lemma close_child_inv: "close_child env db d = Inr db' \<Longrightarrow> service_inv db \<Longrightarrow> service_inv db'"
  by (auto simp: close_child_def tx_simps split: commercial_document.splits intro: write_doc_inv)

lemma close_children_inv:
  "for_each (close_child env) db ds = Inr db' \<Longrightarrow> service_inv db \<Longrightarrow> service_inv db'"
  by (erule for_each_invariant) (auto intro: close_child_inv)

lemma apply_rfq_inv: "apply_rfq env action r db = Inr (x, db') \<Longrightarrow> service_inv db \<Longrightarrow> service_inv db'"
  unfolding apply_rfq_def
  by (auto simp: tx_simps split: option.splits if_splits intro: write_doc_inv close_children_inv)

lemma apply_quotation_inv: "apply_quotation env action q db = Inr (x, db') \<Longrightarrow> service_inv db \<Longrightarrow> service_inv db'"
  by (auto simp: apply_quotation_def tx_simps split: option.splits intro: write_doc_inv)

lemma store_insert_request_inv:
  assumes i: "store_insert at RFQ None (RfqDoc r) db = Inr (x, db')" and inv: "service_inv db"
  shows "service_inv db'"
proof -
  have "store_inv db'" using store_insert_inv [of at "RfqDoc r" None db x db'] i inv by (simp add: service_inv_def)
  moreover have "offers_quoted (resources db')"
    using store_insert_effect [OF i] inv
    by (auto simp: service_inv_def offers_quoted_def offer_row_def has_quoted_parent_def)
  ultimately show ?thesis by (simp add: service_inv_def)
qed

lemma apply_create_inv: "apply_create env payload scope db = Inr (x, db') \<Longrightarrow> service_inv db \<Longrightarrow> service_inv db'"
  by (auto simp: apply_create_def tx_simps split: option.splits intro: store_insert_request_inv)

lemma apply_issue_inv:
  assumes a: "apply_issue env payload r db = Inr (x, db')" and inv: "service_inv db"
  shows "service_inv db'"
proof -
  obtain q result db1 r' y where i: "store_insert (ce_writes env (qt_id q)) QUOTATION (Some (rfq_id r)) (QuoteDoc q) db = Inr (result, db1)"
    and t: "transitionRfq r RFQ_QUOTED (JInt (rfq_version r)) (Some (ce_now env)) = Inr r'"
    and u: "store_update (ce_writes env (doc_id (RfqDoc r'))) (RfqDoc r') db1 = Inr (y, db')"
    using a unfolding apply_issue_def write_doc_def by (auto simp: tx_simps split: option.splits)
  let ?row = "inserted_row (ce_writes env (qt_id q)) QUOTATION (Some (rfq_id r)) (QuoteDoc q)"
  have si: "store_inv db" using inv by (simp add: service_inv_def)
  have si1: "store_inv db1" using store_insert_inv [of _ "QuoteDoc q" "Some (rfq_id r)" db result db1] i si by simp
  have rows1: "resources db1 = resources db @ [?row]" using store_insert_effect [OF i] by simp
  have r': "rfq_id r' = rfq_id r" "doc_status (RfqDoc r') = ''QUOTED''"
    using t by (auto simp: transitionRfq_def tx_simps current_instant_def split: if_splits)
  obtain old where old: "old \<in> set (resources db1)" and id: "rr_id old = doc_id (RfqDoc r')"
    and same: "same_place old (updated_row (ce_writes env (doc_id (RfqDoc r'))) old (RfqDoc r'))"
    and db': "resources db' = replaced old (updated_row (ce_writes env (doc_id (RfqDoc r'))) old (RfqDoc r')) (resources db1)"
    by (rule store_update_rows [OF u si1]) (rule that; assumption)
  have but: "offers_quoted_but (rr_id old) (resources db1)"
    using inv id r'(1) by (auto simp: rows1 service_inv_def offers_quoted_def offers_quoted_but_def has_quoted_parent_def)
  have "offers_quoted (resources db')"
    unfolding db' by (rule offers_after_replace [OF si1 but old same]) (use r'(2) in \<open>simp_all add: offer_row_def\<close>)
  then show ?thesis using store_update_inv [OF u si1] by (simp add: service_inv_def)
qed

lemma apply_command_inv: "apply_command env c scope resource db = Inr (x, db') \<Longrightarrow> service_inv db \<Longrightarrow> service_inv db'"
  unfolding apply_command_def
  by (auto split: option.splits if_splits commercial_document.splits
      intro: apply_create_inv apply_issue_inv apply_rfq_inv apply_quotation_inv)

end
