(* ===== verification/Commercial_Kernel_Laws.thy ===== *)
theory Commercial_Kernel_Laws
  imports Complex_Main "HOL-Library.Multiset" Commercial_Kernel
begin

text \<open>
  The laws of the commercial kernel: decimals denote rationals and the checks compare those exactly,
  an accepted input is well formed, the canonical text does not depend on key order.
\<close>

section \<open>Decimals as rationals\<close>

definition decimal_rat :: "decimal \<Rightarrow> rat" where
  "decimal_rat d = of_int (dn d) / 10 ^ dscale d"

text \<open>The rational a decimal text denotes: its whole part plus its fraction.\<close>

definition text_value :: "string \<Rightarrow> rat" where
  "text_value s =
     (let w = takeWhile (\<lambda>c. c \<noteq> CHR ''.'') s; f = tl (dropWhile (\<lambda>c. c \<noteq> CHR ''.'') s) in
      of_int (digits_value w) + of_int (digits_value f) / 10 ^ length f)"

lemma digits_value_Nil [simp]: "digits_value [] = 0"
  by (simp add: digits_value_def)

lemma digits_value_append: "digits_value (a @ b) = digits_value a * 10 ^ length b + digits_value b"
proof (induction b rule: rev_induct)
  case (snoc c b)
  have "digits_value (a @ b @ [c]) = 10 * digits_value (a @ b) + (char_code c - 48)"
    using digits_value_snoc [of "a @ b" c] by simp
  then show ?case using snoc by (simp add: digits_value_snoc algebra_simps)
qed simp

lemma digits_value_nonneg: "list_all digit_char s \<Longrightarrow> 0 \<le> digits_value s"
  by (induction s rule: rev_induct) (auto simp: digits_value_snoc digit_char_def code_between_def Let_def)

lemma scaled_value: "decimal_rat (scaled s) = text_value s"
  by (simp add: decimal_rat_def scaled_def text_value_def Let_def digits_value_append field_simps)

lemma equalDecimal_iff: "equalDecimal a b \<longleftrightarrow> decimal_rat a = decimal_rat b"
proof -
  have "decimal_rat a = decimal_rat b \<longleftrightarrow> (of_int (dn a * 10 ^ dscale b) :: rat) = of_int (dn b * 10 ^ dscale a)"
    by (simp add: decimal_rat_def frac_eq_eq)
  then show ?thesis by (simp only: equalDecimal_def of_int_eq_iff)
qed

lemma times_decimal_value: "decimal_rat (times_decimal q p) = decimal_rat q * decimal_rat p"
  by (simp add: decimal_rat_def times_decimal_def power_add)

lemma foldl_max_ge: "(n :: nat) \<le> foldl max n xs \<and> (\<forall>x \<in> set xs. x \<le> foldl max n xs)"
proof (induction xs arbitrary: n)
  case (Cons x xs)
  show ?case using Cons [of "max n x"] by auto
qed simp

lemma foldl_plus_sum: "foldl (\<lambda>sum d. sum + g d) (a :: int) ds = a + (\<Sum>d\<leftarrow>ds. g d)"
  by (induction ds arbitrary: a) (simp_all add: algebra_simps)

lemma rescaled_value:
  assumes "dscale d \<le> k"
  shows "of_int (dn d * 10 ^ (k - dscale d)) / 10 ^ k = decimal_rat d"
proof -
  have "(10 :: rat) ^ k = 10 ^ (k - dscale d) * 10 ^ dscale d" using assms by (simp flip: power_add)
  then show ?thesis by (simp add: decimal_rat_def)
qed

lemma sum_at_scale:
  "\<forall>d \<in> set ds. dscale d \<le> k \<Longrightarrow>
   of_int (\<Sum>d\<leftarrow>ds. dn d * 10 ^ (k - dscale d)) / 10 ^ k = (\<Sum>d\<leftarrow>ds. decimal_rat d)"
proof (induction ds)
  case (Cons d ds)
  then show ?case using rescaled_value [of d k] by (simp add: add_divide_distrib)
qed simp

lemma sum_decimals_value: "decimal_rat (sum_decimals ds) = (\<Sum>d\<leftarrow>ds. decimal_rat d)"
proof -
  have "\<forall>d \<in> set ds. dscale d \<le> foldl max 0 (map dscale ds)" using foldl_max_ge [of 0 "map dscale ds"] by auto
  then show ?thesis
    using sum_at_scale by (simp add: sum_decimals_def Let_def foldl_plus_sum decimal_rat_def)
qed

section \<open>Accepted input\<close>

lemma decimal_field_Inr [tx_simps]:
  "decimal_field v pos = Inr s \<longleftrightarrow> v = Some (JStr s) \<and> length s \<le> 64 \<and> DECIMAL s \<and> (pos \<longrightarrow> list_ex nonzero_digit s)"
  by (auto simp: decimal_field_def tx_simps)

lemma parts_hold:
  "(w = z \<or> (a \<and> b \<and> P w)) \<and> (f = [] \<or> (c \<and> P (tl f))) \<Longrightarrow> P z \<Longrightarrow> P [] \<Longrightarrow> P w \<and> P (tl f)"
  by auto

lemma DECIMAL_parts:
  assumes "DECIMAL s"
  shows "list_all digit_char (takeWhile (\<lambda>c. c \<noteq> CHR ''.'') s) \<and> list_all digit_char (tl (dropWhile (\<lambda>c. c \<noteq> CHR ''.'') s))"
proof -
  have zero: "list_all digit_char ''0''" by code_simp
  show ?thesis by (rule parts_hold [OF assms [unfolded DECIMAL_def Let_def] zero]) simp
qed

lemma digits_value_pos:
  "list_all digit_char s \<Longrightarrow> list_ex nonzero_digit s \<Longrightarrow> 0 < digits_value s"
proof (induction s rule: rev_induct)
  case (snoc c s)
  have "0 \<le> digits_value s" using snoc.prems(1) by (simp add: digits_value_nonneg)
  with snoc show ?case
    by (auto simp: digits_value_snoc digit_char_def nonzero_digit_def code_between_def Let_def)
qed simp

lemma positive_text_value:
  assumes "DECIMAL s" and "list_ex nonzero_digit s"
  shows "0 < text_value s"
proof -
  let ?w = "takeWhile (\<lambda>c. c \<noteq> CHR ''.'') s" and ?f = "dropWhile (\<lambda>c. c \<noteq> CHR ''.'') s"
  have digits: "list_all digit_char ?w" "list_all digit_char (tl ?f)" using DECIMAL_parts [OF assms(1)] by auto
  have point: "\<not> nonzero_digit CHR ''.''" by code_simp
  have dot: "list_ex nonzero_digit ?f \<Longrightarrow> list_ex nonzero_digit (tl ?f)"
  proof (cases ?f)
    case (Cons c cs)
    then have "c = CHR ''.''" using hd_dropWhile [of "\<lambda>c. c \<noteq> CHR ''.''" s] by simp
    then show "list_ex nonzero_digit ?f \<Longrightarrow> list_ex nonzero_digit (tl ?f)" using Cons point by simp
  qed simp
  have "list_ex nonzero_digit (?w @ ?f)" using assms(2) by simp
  then have "list_ex nonzero_digit ?w \<or> list_ex nonzero_digit ?f" by (simp only: list_ex_append)
  then have "list_ex nonzero_digit ?w \<or> list_ex nonzero_digit (tl ?f)" using dot by blast
  then have "(0 :: int) < digits_value ?w \<and> 0 \<le> digits_value (tl ?f) \<or> 0 \<le> digits_value ?w \<and> 0 < digits_value (tl ?f)"
    using digits_value_pos digits_value_nonneg digits by blast
  then have "(0 :: rat) < of_int (digits_value ?w) \<and> 0 \<le> (of_int (digits_value (tl ?f)) :: rat) \<or>
      0 \<le> (of_int (digits_value ?w) :: rat) \<and> (0 :: rat) < of_int (digits_value (tl ?f))"
    by (simp only: of_int_0_less_iff of_int_0_le_iff)
  then show ?thesis
    unfolding text_value_def Let_def by (elim disjE conjE) (simp_all add: add_pos_nonneg add_nonneg_pos)
qed

lemma quantity_field_positive:
  "quantity_field v = Inr q \<Longrightarrow> DECIMAL (qv_value q) \<and> UNIT (qv_unit q) \<and> 0 < text_value (qv_value q)"
  by (auto simp: quantity_field_def tx_simps split: option.splits intro: positive_text_value)

lemma money_field_currency:
  "money_field v c = Inr m \<Longrightarrow> mv_currency m = c \<and> DECIMAL (mv_amount m)"
  by (auto simp: money_field_def tx_simps split: option.splits if_splits)

lemma rfq_line_valid:
  "rfq_line_of v = Inr l \<Longrightarrow> ID (rl_client_line l) \<and> ID (rl_variant l) \<and> 0 < text_value (qv_value (rl_quantity l))"
  by (auto simp: rfq_line_of_def tx_simps dest: quantity_field_positive)

lemma quotation_line_valid:
  assumes "quotation_line_of c r v = Inr l"
  shows "ID (ql_line l) \<and> mv_currency (ql_unit_price l) = c \<and> mv_currency (ql_total l) = c \<and>
     0 < text_value (qv_value (ql_quantity l)) \<and>
     text_value (mv_amount (ql_total l)) = text_value (qv_value (ql_quantity l)) * text_value (mv_amount (ql_unit_price l)) \<and>
     (\<exists>offered \<in> set (rfq_lines r). rl_variant offered = ql_variant l \<and> qv_unit (rl_quantity offered) = qv_unit (ql_quantity l))"
  using assms
  by (auto simp: quotation_line_of_def tx_simps equalDecimal_iff times_decimal_value scaled_value Bex_set_list_ex [symmetric]
      dest!: quantity_field_positive money_field_currency split: if_splits)

section \<open>The canonical text\<close>

lemma traverse_all: "traverse f xs = Inr us \<Longrightarrow> \<forall>x \<in> set xs. \<exists>u. f x = Inr u"
  by (induction xs arbitrary: us) (auto simp: andThen_Inr_iff)

lemma traverse_mset:
  assumes "mset xs = mset ys" and "traverse f xs = Inr us"
  shows "\<exists>vs. traverse f ys = Inr vs \<and> mset vs = mset us"
proof -
  have ok: "\<forall>x \<in> set ys. \<exists>u. f x = Inr u" 
    using traverse_all [OF assms(2)] mset_eq_setD [OF assms(1)] by simp
  have all: "traverse f zs = Inr (map (\<lambda>x. projr (f x)) zs)" if "\<forall>x \<in> set zs. \<exists>u. f x = Inr u" for zs
    using that by (induction zs) auto
  have "us = map (\<lambda>x. projr (f x)) xs" using all [of xs] ok mset_eq_setD [OF assms(1)] assms(2) by simp
  then show ?thesis using all [OF ok] assms(1) by (metis mset_map)
qed

lemma traverse_mset_fails:
  assumes "mset xs = mset ys" and "traverse f xs = Inl e"
  shows "\<exists>e'. traverse f ys = Inl e'"
proof (cases "traverse f ys")
  case (Inr vs)
  then show ?thesis using traverse_mset [OF assms(1) [symmetric] Inr] assms(2) by auto
qed simp

lemma canonical_failure: "canonical v = Inl e \<Longrightarrow> e = INVALID_REQUEST"
proof -
  have trav: "traverse f xs = Inl e \<Longrightarrow> \<exists>x \<in> set xs. f x = Inl e" for f :: "'x \<Rightarrow> commercial_code + 'y" and xs
    by (induction xs) (auto simp: andThen_Inl_iff)
  show "canonical v = Inl e \<Longrightarrow> e = INVALID_REQUEST"
    by (induction v) (auto simp: andThen_Inl_iff split: if_splits js_number.splits dest!: trav)
qed

lemma sort_key_mset_unique:
  fixes us vs :: "('k :: linorder \<times> 'v) list"
  assumes "mset us = mset vs" and "distinct (map fst us)"
  shows "sort_key fst us = sort_key fst vs"
proof (rule properties_for_sort_key [symmetric])
  have d: "distinct (map fst vs)" using assms by (metis mset_eq_imp_distinct_iff mset_map)
  have one: "length (filter (\<lambda>x. fst y = fst x) zs) \<le> 1" if "distinct (map fst zs)" for y and zs :: "('k \<times> 'v) list"
    using that by (induction zs) (auto simp: filter_empty_conv image_iff)
  fix y :: "'k \<times> 'v"
  let ?a = "filter (\<lambda>x. fst y = fst x) (sort_key fst us)" and ?b = "filter (\<lambda>x. fst y = fst x) vs"
  have m: "mset ?a = mset ?b" using assms(1) by simp
  have "length ?b \<le> 1" by (rule one [OF d])
  then show "?a = ?b"
  proof (cases ?b)
    case Nil
    then have "mset ?a = {#}" unfolding m Nil by simp
    then show ?thesis using Nil by (simp only: mset_zero_iff)
  next
    case (Cons z zs)
    with \<open>length ?b \<le> 1\<close> have "?b = [z]" by simp
    then have "mset ?a = {#z#}" unfolding m \<open>?b = [z]\<close> by simp
    then show ?thesis using \<open>?b = [z]\<close> by (simp only: mset_single_iff)
  qed
qed (use assms in simp_all)

text \<open>
  the digest of a request does not depend on the order of its object keys: two objects with the
  same properties have the same canonical text, or are both refused.
\<close>

theorem digest_ignores_key_order:
  assumes "mset row = mset row'" and "distinct (map fst row)"
  shows "commercialDigest sha256 (JObj row) = commercialDigest sha256 (JObj row')"
proof -
  let ?f = "\<lambda>(k, v). andThen (canonical v) (\<lambda>t. Inr (k, stringify_text k @ '':'' @ t))"
  have "canonical (JObj row) = canonical (JObj row')"
  proof (cases "traverse ?f row")
    case (Inl e)
    obtain e' where e': "traverse ?f row' = Inl e'" using traverse_mset_fails [OF assms(1) Inl] ..
    have "canonical (JObj row) = Inl e" unfolding canonical.simps Inl by (rule andThen_Inl)
    moreover have "canonical (JObj row') = Inl e'" unfolding canonical.simps e' by (rule andThen_Inl)
    ultimately show ?thesis using canonical_failure by metis
  next
    case (Inr us)
    obtain vs where vs: "traverse ?f row' = Inr vs" "mset vs = mset us" using traverse_mset [OF assms(1) Inr] by (elim exE conjE)
    have "map fst us = map fst row"
      using Inr by (induction row arbitrary: us) (auto simp: andThen_Inr_iff)
    then have "sort_key fst us = sort_key fst vs" using sort_key_mset_unique [of us vs] vs(2) assms(2) by simp
    then show ?thesis unfolding canonical.simps Inr vs(1) andThen_Inr by (simp only:)
  qed
  then show ?thesis unfolding commercialDigest_def by (simp only:)
qed

theorem digest_ignores_key_order_witness:
  "commercialDigest id (JObj [(''b'', JNull), (''a'', JStr ''x'')]) = commercialDigest id (JObj [(''a'', JStr ''x''), (''b'', JNull)])"
proof (rule digest_ignores_key_order)
  show "mset [(''b'', JNull), (''a'', JStr ''x'')] = mset [(''a'', JStr ''x''), (''b'', JNull)]"
    unfolding mset.simps by (rule add_mset_commute)
qed simp

section \<open>Accepted requests and offers\<close>

text \<open>
  an accepted request for quotation is a DRAFT at version 1 for exactly the resolved context, with
  one to a hundred lines of distinct identifiers and positive quantities.
\<close>

theorem created_rfq_is_well_formed:
  assumes "createRfq new_id value resolved now = Inr r"
  shows "rfq_status r = RFQ_DRAFT \<and> rfq_version r = 1 \<and> rfq_context r = resolved \<and> rfq_id r = ''rfq_'' @ new_id \<and>
     1 \<le> length (rfq_lines r) \<and> length (rfq_lines r) \<le> 100 \<and> distinct (map rl_client_line (rfq_lines r)) \<and>
     (\<forall>l \<in> set (rfq_lines r). ID (rl_client_line l) \<and> ID (rl_variant l) \<and> 0 < text_value (qv_value (rl_quantity l))) \<and>
     now = Some (rfq_created r) \<and> rfq_updated r = rfq_created r"
proof -
  obtain cx items where scope: "sameCommercialScope cx resolved" "cc_principal cx = cc_principal resolved"
    and lines: "traverse rfq_line_of items = Inr (rfq_lines r)" "1 \<le> length items" "length items \<le> 100"
    and rest: "distinct (map rl_client_line (rfq_lines r))" "rfq_context r = cx" "rfq_status r = RFQ_DRAFT"
      "rfq_version r = 1" "rfq_id r = ''rfq_'' @ new_id" "now = Some (rfq_created r)" "rfq_updated r = rfq_created r"
    using assms unfolding createRfq_def
    by (auto simp: tx_simps unique_ids_def current_instant_def split: option.splits if_splits)
  have "rfq_context r = resolved" using scope rest(2) by (simp add: sameCommercialScope_def)
  moreover have "\<forall>l \<in> set (rfq_lines r). ID (rl_client_line l) \<and> ID (rl_variant l) \<and> 0 < text_value (qv_value (rl_quantity l))"
    using traverse_member [OF lines(1)] rfq_line_valid by blast
  ultimately show ?thesis using rest lines(2,3) traverse_length [OF lines(1)] by simp
qed

text \<open>
  C32: an issued quotation is arithmetically exact. It answers an RFQ under review in that RFQ's
  context; every line total is its quantity times its unit price, the total is the sum of the line
  totals, all as rational numbers, in one currency; every line offers an asked variant in its unit;
  and it is valid for some time yet.
\<close>

theorem quotation_totals_are_exact:
  assumes "issueQuotation new_id value r now = Inr q"
  shows "rfq_status r = RFQ_UNDER_REVIEW \<and> qt_status q = QUOTE_ISSUED \<and> qt_version q = 1 \<and> qt_rfq q = rfq_id r \<and>
     qt_context q = rfq_context r \<and> 1 \<le> length (qt_lines q) \<and> length (qt_lines q) \<le> 100 \<and>
     distinct (map ql_line (qt_lines q)) \<and> mv_currency (qt_total q) = qt_currency q \<and>
     text_value (mv_amount (qt_total q)) = (\<Sum>l\<leftarrow>qt_lines q. text_value (mv_amount (ql_total l))) \<and>
     (\<forall>l \<in> set (qt_lines q). mv_currency (ql_unit_price l) = qt_currency q \<and> mv_currency (ql_total l) = qt_currency q \<and>
        0 < text_value (qv_value (ql_quantity l)) \<and>
        text_value (mv_amount (ql_total l)) = text_value (qv_value (ql_quantity l)) * text_value (mv_amount (ql_unit_price l)) \<and>
        (\<exists>offered \<in> set (rfq_lines r). rl_variant offered = ql_variant l \<and> qv_unit (rl_quantity offered) = qv_unit (ql_quantity l))) \<and>
     (\<exists>t. now = Some t \<and> t < qt_valid_until q)"
proof -
  obtain items v where lines: "traverse (quotation_line_of (qt_currency q) r) items = Inr (qt_lines q)" "1 \<le> length items" "length items \<le> 100"
    and rest: "rfq_status r = RFQ_UNDER_REVIEW" "distinct (map ql_line (qt_lines q))" "qt_status q = QUOTE_ISSUED" "qt_version q = 1"
      "qt_rfq q = rfq_id r" "qt_context q = rfq_context r" "\<exists>t. now = Some t \<and> t < qt_valid_until q"
    and total: "money_field v (qt_currency q) = Inr (qt_total q)"
      "equalDecimal (sum_decimals (map (\<lambda>l. scaled (mv_amount (ql_total l))) (qt_lines q))) (scaled (mv_amount (qt_total q)))"
    using assms unfolding issueQuotation_def
    by (auto simp: tx_simps unique_ids_def current_instant_def clock_reached_def split: option.splits if_splits)
  have "text_value (mv_amount (qt_total q)) = (\<Sum>l\<leftarrow>qt_lines q. text_value (mv_amount (ql_total l)))"
    using total(2) by (simp add: equalDecimal_iff sum_decimals_value scaled_value comp_def)
  moreover have "\<forall>l \<in> set (qt_lines q). mv_currency (ql_unit_price l) = qt_currency q \<and> mv_currency (ql_total l) = qt_currency q \<and>
      0 < text_value (qv_value (ql_quantity l)) \<and>
      text_value (mv_amount (ql_total l)) = text_value (qv_value (ql_quantity l)) * text_value (mv_amount (ql_unit_price l)) \<and>
      (\<exists>offered \<in> set (rfq_lines r). rl_variant offered = ql_variant l \<and> qv_unit (rl_quantity offered) = qv_unit (ql_quantity l))"
    using traverse_member [OF lines(1)] quotation_line_valid by blast
  moreover have "mv_currency (qt_total q) = qt_currency q" using total(1) money_field_currency by blast
  ultimately show ?thesis using rest lines(2,3) traverse_length [OF lines(1)] by simp
qed

section \<open>A request and its offer\<close>

definition sample_context :: commercial_context where
  "sample_context = \<lparr>cc_principal = ''prn-1'', cc_tenant = ''tnt-1'', cc_legal_entity = ''ent-1'', cc_estate = ''est-1'',
     cc_market = ''mkt-ke'', cc_organisation = ''org-1''\<rparr>"

definition sample_request :: json where
  "sample_request = JObj [(''context'', context_json sample_context), (''lines'', JArr
     [JObj [(''client_line_id'', JStr ''line-1''), (''variant_id'', JStr ''var-1''),
        (''quantity'', JObj [(''value'', JStr ''2.5''), (''unit'', JStr ''KG'')])]])]"

definition sample_offer :: json where
  "sample_offer = JObj [(''currency'', JStr ''KES''), (''lines'', JArr
     [JObj [(''line_id'', JStr ''quo-1''), (''variant_id'', JStr ''var-1''),
        (''quantity'', JObj [(''value'', JStr ''2.5''), (''unit'', JStr ''KG'')]),
        (''unit_price'', JObj [(''amount'', JStr ''1.20''), (''currency'', JStr ''KES'')]),
        (''line_total'', JObj [(''amount'', JStr ''3''), (''currency'', JStr ''KES'')])]]),
     (''total'', JObj [(''amount'', JStr ''3.00''), (''currency'', JStr ''KES'')]),
     (''valid_until'', JStr ''2024-02-29T12:34:56.789Z'')]"

definition sample_rfq :: rfq where
  "sample_rfq = projr (createRfq ''a'' sample_request sample_context (Some 1000))"

definition sample_reviewed :: rfq where
  "sample_reviewed = sample_rfq\<lparr>rfq_status := RFQ_UNDER_REVIEW, rfq_version := 3\<rparr>"

definition sample_quote :: quotation where
  "sample_quote = projr (issueQuotation ''b'' sample_offer sample_reviewed (Some 2000))"

lemma sample_created: "createRfq ''a'' sample_request sample_context (Some 1000) = Inr sample_rfq"
  by code_simp

lemma sample_issued: "issueQuotation ''b'' sample_offer sample_reviewed (Some 2000) = Inr sample_quote"
  by code_simp

lemma sample_valid_until: "qt_valid_until sample_quote = 1709210096789"
  by code_simp

theorem created_rfq_is_well_formed_witness:
  "rfq_status sample_rfq = RFQ_DRAFT \<and> rfq_context sample_rfq = sample_context \<and> rfq_lines sample_rfq \<noteq> []"
  using created_rfq_is_well_formed [OF sample_created] by auto

theorem quotation_totals_are_exact_witness:
  "text_value (mv_amount (qt_total sample_quote)) = (\<Sum>l\<leftarrow>qt_lines sample_quote. text_value (mv_amount (ql_total l)))"
  using quotation_totals_are_exact [OF sample_issued] by (elim conjE) assumption

end
