(* ===== verification/Commercial_Properties.thy ===== *)
theory Commercial_Properties
  imports Commercial_Service_Laws Commercial_Kernel_Laws
begin

text \<open>
  The properties of the commercial service over histories of commands, interleaved with changes of
  the buyer directory by other services.
\<close>

section \<open>Histories\<close>

datatype commercial_step =
    RunCommand commercial_env commercial_command
  | ChangeDirectory "trade_organisation list" "trade_member list"

fun commercial_run :: "commercial_db \<Rightarrow> commercial_step \<Rightarrow> commercial_failure + commercial_db" where
  "commercial_run db (RunCommand env c) = andThen (execute_command env c db) (\<lambda>(_, db'). Inr db')"
| "commercial_run db (ChangeDirectory os ms) = Inr (db\<lparr>buyer_organisations := os, buyer_members := ms\<rparr>)"

lemma execute_tx_Inr:
  assumes "execute_tx env c scope sd digest db = Inr ((outcome, d), db')"
  obtains resource decision auth where "ce_authorize env (co_action c) scope resource = Inr decision"
    and "authorized (ce_first env) (co_action c) scope decision db = Inr auth"
    and "outcome = COMMERCIAL_REPLAYED \<and> db' = db \<and>
         (\<exists>p. find_receipt sd (co_key c) (receipts db) = Some p \<and> rc_digest p = digest \<and> d = rc_response p) \<and>
         authorized (ce_last env) (co_action c) scope decision db = Inr auth \<or>
       outcome = COMMERCIAL_APPLIED \<and> find_receipt sd (co_key c) (receipts db) = None \<and>
         (\<exists>db1. apply_command env c scope resource db = Inr (d, db1) \<and>
            authorized (ce_last env) (co_action c) scope decision db1 = Inr auth \<and>
            insert_receipt \<lparr>rc_scope = sd, rc_key = co_key c, rc_digest = digest, rc_response = d, rc_action = co_action c,
              rc_actor = cc_principal scope, rc_decision = au_decision auth, rc_evidence = au_evidence auth\<rparr> db1 = Inr db')"
proof -
  have same: "a = b" if "authorized t1 x scope decision dbx = Inr a" "authorized t2 x scope decision dby = Inr b"
    for t1 t2 x decision dbx dby a b
    using that by (auto simp: authorized_def split: option.splits if_splits)
  show thesis
  proof (cases "find_receipt sd (co_key c) (receipts db)")
    case None
    then show thesis using assms that unfolding execute_tx_def Let_def by (auto simp: tx_simps dest: same) (metis same)
  next
    case (Some p)
    then show thesis using assms that unfolding execute_tx_def Let_def by (auto simp: tx_simps dest: same split: if_splits)
  qed
qed

lemma insert_receipt_Inr:
  "insert_receipt row db = Inr db' \<Longrightarrow> db' = db\<lparr>receipts := receipts db @ [row]\<rparr> \<and> find_receipt (rc_scope row) (rc_key row) (receipts db) = None"
  by (auto simp: insert_receipt_def tx_simps Let_def)

lemma execute_command_Inr:
  assumes "execute_command env c db = Inr (result, db')"
  obtains scope sd digest where "commercialContext (co_scope c) = Inr scope"
    and "commercialDigest (ce_sha256 env) (context_json scope) = Inr sd"
    and "commercialDigest (ce_sha256 env) (request_json c scope) = Inr digest"
    and "execute_tx env c scope sd digest db = Inr (result, db')"
  using assms unfolding execute_command_def by (auto simp: tx_simps split: if_splits)

lemma service_inv_receipts [simp]: "service_inv (db\<lparr>receipts := rs\<rparr>) = service_inv db"
  by (simp add: service_inv_def store_inv_def history_ok_def)

lemma service_inv_directory [simp]: "service_inv (db\<lparr>buyer_organisations := os, buyer_members := ms\<rparr>) = service_inv db"
  by (simp add: service_inv_def store_inv_def history_ok_def)

lemma execute_command_inv:
  assumes "execute_command env c db = Inr ((outcome, d), db')" and "service_inv db"
  shows "service_inv db'"
proof -
  obtain scope sd digest where tx: "execute_tx env c scope sd digest db = Inr ((outcome, d), db')"
    by (rule execute_command_Inr [OF assms(1)])
  show ?thesis
    by (rule execute_tx_Inr [OF tx]) (use assms(2) in \<open>auto dest!: insert_receipt_Inr intro: apply_command_inv\<close>)
qed

interpretation commercial_service: checked_store commercial_run service_inv
proof
  fix db x db'
  assume "service_inv db" and "commercial_run db x = Inr db'"
  then show "service_inv db'"
    by (cases x) (auto simp: andThen_Inr_iff intro: execute_command_inv)
qed

definition no_resources :: "commercial_db \<Rightarrow> bool" where
  "no_resources db \<longleftrightarrow> resources db = [] \<and> resource_events db = []"

lemma empty_service_inv: "no_resources db \<Longrightarrow> service_inv db"
  by (simp add: no_resources_def service_inv_def store_inv_def history_ok_def parents_ok_def one_offer_def offers_quoted_def)

lemma reached_inv: "no_resources db \<Longrightarrow> service_inv (history commercial_run db xs)"
  by (rule commercial_service.history_inv [OF empty_service_inv])

text \<open>
  C28: an outstanding offer is never orphaned. After any history every ISSUED quotation belongs to a
  QUOTED request of its own scope and context, a request has at most one, and no quotation was ever
  accepted or converted.
\<close>

theorem offers_belong_to_quoted_requests:
  assumes "no_resources db0" and "db = history commercial_run db0 xs" and "q \<in> set (resources db)" and "rr_kind q = QUOTATION"
  shows "rr_status q \<in> {''ISSUED'', ''REJECTED'', ''WITHDRAWN'', ''EXPIRED''} \<and>
     (\<exists>p \<in> set (resources db). rr_parent q = Some (rr_id p) \<and> rr_kind p = RFQ \<and> rr_scope p = rr_scope q \<and>
        doc_context (rr_document p) = doc_context (rr_document q) \<and>
        (rr_status q = ''ISSUED'' \<longrightarrow> rr_status p = ''QUOTED'' \<and>
           (\<forall>q' \<in> set (resources db). rr_kind q' = QUOTATION \<and> rr_status q' = ''ISSUED'' \<and> rr_parent q' = Some (rr_id p) \<longrightarrow> q' = q)))"
proof -
  have inv: "service_inv db" using reached_inv [OF assms(1)] assms(2) by simp
  then have si: "store_inv db" by (simp add: service_inv_def)
  obtain p where p: "p \<in> set (resources db)" "parent_of p q"
    using si assms(3,4) unfolding store_inv_def parents_ok_def by (auto dest!: bspec [of _ _ q])
  have quoted: "rr_status p = ''QUOTED''" if "rr_status q = ''ISSUED''"
  proof -
    have "offer_row q" using that assms(4) by (simp add: offer_row_def)
    then obtain p' where p': "p' \<in> set (resources db)" "rr_parent q = Some (rr_id p')" "rr_status p' = ''QUOTED''"
      using inv assms(3) by (auto simp: service_inv_def offers_quoted_def has_quoted_parent_def)
    have "p' = p" using unique_row [OF si p'(1) p(1)] p'(2) p(2) by (simp add: parent_of_def)
    then show ?thesis using p'(3) by simp
  qed
  have only: "q' = q" if "q' \<in> set (resources db)" "rr_kind q' = QUOTATION" "rr_status q' = ''ISSUED''" "rr_parent q' = Some (rr_id p)"
      "rr_status q = ''ISSUED''" for q'
  proof -
    have "rr_parent q' = rr_parent q" using that(4) p(2) by (simp add: parent_of_def)
    then have "rr_id q' = rr_id q" using si that assms(3,4) unfolding store_inv_def one_offer_def by blast
    then show ?thesis using unique_row [OF si that(1) assms(3)] by simp
  qed
  have "rr_status q \<in> {''ISSUED'', ''REJECTED'', ''WITHDRAWN'', ''EXPIRED''}"
    using si assms(3,4) by (auto simp: store_inv_def row_ok_def quote_statuses_def)
  then show ?thesis using p quoted only unfolding parent_of_def by blast
qed

section \<open>What a command leaves alone\<close>

definition extends :: "commercial_db \<Rightarrow> commercial_db \<Rightarrow> bool" where
  "extends db db' \<longleftrightarrow> receipts db' = receipts db \<and> buyer_organisations db' = buyer_organisations db \<and>
     buyer_members db' = buyer_members db \<and> (\<exists>more. resource_events db' = resource_events db @ more)"

lemma extends_refl [simp]: "extends db db"
  by (simp add: extends_def)

lemma extends_trans: "extends a b \<Longrightarrow> extends b c \<Longrightarrow> extends a c"
  by (auto simp: extends_def)

lemma store_insert_extends: "store_insert t kind parent d db = Inr (x, db') \<Longrightarrow> extends db db'"
  using store_insert_effect [of t kind parent d db x db'] by (simp add: extends_def)

lemma write_doc_extends: "write_doc env d db = Inr (x, db') \<Longrightarrow> extends db db'"
  unfolding write_doc_def by (erule store_update_effect) (simp add: extends_def)

lemma close_children_extends: "for_each (close_child env) db ds = Inr db' \<Longrightarrow> extends db db'"
  by (erule for_each_invariant [where P = "extends db"])
    (auto simp: close_child_def tx_simps split: commercial_document.splits intro: extends_trans write_doc_extends)

lemma apply_rfq_extends: "apply_rfq env action r db = Inr (x, db') \<Longrightarrow> extends db db'"
  unfolding apply_rfq_def
  by (auto simp: tx_simps split: option.splits if_splits intro: write_doc_extends extends_trans [OF close_children_extends write_doc_extends])

lemma apply_quotation_extends: "apply_quotation env action q db = Inr (x, db') \<Longrightarrow> extends db db'"
  by (auto simp: apply_quotation_def tx_simps split: option.splits intro: write_doc_extends)

lemma apply_create_extends: "apply_create env payload scope db = Inr (x, db') \<Longrightarrow> extends db db'"
  by (auto simp: apply_create_def tx_simps split: option.splits intro: store_insert_extends)

lemma apply_issue_extends: "apply_issue env payload r db = Inr (x, db') \<Longrightarrow> extends db db'"
  unfolding apply_issue_def
  by (auto simp: tx_simps split: option.splits intro: extends_trans [OF store_insert_extends write_doc_extends])

lemma apply_command_extends: "apply_command env c scope resource db = Inr (x, db') \<Longrightarrow> extends db db'"
  unfolding apply_command_def
  by (auto split: option.splits if_splits commercial_document.splits
      intro: apply_create_extends apply_issue_extends apply_rfq_extends apply_quotation_extends)

text \<open>A run adds receipts and events at the end and changes none.\<close>

definition only_adds :: "commercial_db \<Rightarrow> commercial_db \<Rightarrow> bool" where
  "only_adds db db' \<longleftrightarrow> (\<exists>rs. receipts db' = receipts db @ rs) \<and> (\<exists>es. resource_events db' = resource_events db @ es)"

lemma commercial_run_adds:
  assumes "commercial_run db x = Inr db'"
  shows "only_adds db db'"
proof (cases x)
  case (RunCommand env c)
  then obtain outcome d where "execute_command env c db = Inr ((outcome, d), db')"
    using assms by (auto simp: andThen_Inr_iff)
  then obtain scope sd digest where "execute_tx env c scope sd digest db = Inr ((outcome, d), db')"
    by (rule execute_command_Inr)
  then show ?thesis
    by (rule execute_tx_Inr)
      (auto simp: only_adds_def extends_def dest!: insert_receipt_Inr apply_command_extends)
qed (use assms in \<open>auto simp: only_adds_def\<close>)

lemma history_adds: "only_adds db (history commercial_run db xs)"
proof (induction xs arbitrary: db)
  case Nil
  then show ?case by (simp add: only_adds_def)
next
  case (Cons x xs)
  show ?case
  proof (cases "commercial_run db x")
    case (Inl e)
    then show ?thesis using Cons [of db] by simp
  next
    case (Inr db1)
    then show ?thesis using Cons [of db1] commercial_run_adds [OF Inr] by (auto simp: only_adds_def)
  qed
qed

text \<open>
  C29: the history of a resource is complete and immutable. After any history the events of every
  resource are its versions 1 to the current one, in order, the last with the current document, and
  whatever runs next only adds events.
\<close>

theorem resource_history_is_complete:
  assumes "no_resources db0" and "db = history commercial_run db0 xs" and "row \<in> set (resources db)"
  shows "map ev_version (filter (\<lambda>e. ev_resource e = rr_id row) (resource_events db)) = [1..rr_version row] \<and>
     ev_document (last (filter (\<lambda>e. ev_resource e = rr_id row) (resource_events db))) = rr_document row \<and>
     (\<exists>more. resource_events (history commercial_run db ys) = resource_events db @ more)"
proof -
  have "store_inv db" using reached_inv [OF assms(1)] assms(2) by (simp add: service_inv_def)
  then have "row_history (resource_events db) row" using assms(3) by (simp add: store_inv_def history_ok_def)
  then show ?thesis using history_adds [of db ys] by (simp add: row_history_def events_of_def only_adds_def)
qed

section \<open>Authority\<close>

lemma authorized_Inr:
  "authorized t action scope decision db = Inr auth \<longleftrightarrow>
     decision = Some auth \<and> authorization_current t action scope auth \<and> actor_permitted action (au_actor auth) \<and>
     organisation_current scope auth db \<and>
     (case au_actor auth of BuyerActor m r \<Rightarrow> member_current t scope m r db | _ \<Rightarrow> True)"
  by (auto simp: authorized_def split: option.splits commercial_actor.splits if_splits)

lemma insert_receipt_directory:
  "insert_receipt row db = Inr db' \<Longrightarrow> buyer_organisations db' = buyer_organisations db \<and> buyer_members db' = buyer_members db"
  by (drule insert_receipt_Inr) simp

lemma authorized_directory:
  assumes "buyer_organisations a = buyer_organisations b" and "buyer_members a = buyer_members b"
  shows "authorized t action scope decision a = authorized t action scope decision b"
  unfolding authorized_def organisation_current_def member_current_def assms ..

text \<open>
  C31: nothing is applied or replayed without current authority. The authority port decided this action
  for exactly the command's context; the decision was in its lifetime of at most a minute at the last
  reading of the database clock, for an actor of the kind the action needs; and the Organisation, and
  a buyer's membership, were ACTIVE at the decided revision when the transaction committed.
\<close>

theorem commercial_outcome_was_authorised:
  assumes "execute env c db = (Inr (outcome, d), db')"
  shows "\<exists>scope resource auth. commercialContext (co_scope c) = Inr scope \<and>
     ce_authorize env (co_action c) scope resource = Inr (Some auth) \<and>
     authorization_current (ce_last env) (co_action c) scope auth \<and> actor_permitted (co_action c) (au_actor auth) \<and>
     organisation_current scope auth db' \<and>
     (case au_actor auth of BuyerActor m r \<Rightarrow> member_current (ce_last env) scope m r db' | _ \<Rightarrow> True)"
proof -
  have "execute_command env c db = Inr ((outcome, d), db')"
    using assms by (auto simp: execute_def split: sum.splits)
  then obtain scope sd digest where scope: "commercialContext (co_scope c) = Inr scope"
    and tx: "execute_tx env c scope sd digest db = Inr ((outcome, d), db')"
    by (rule execute_command_Inr)
  obtain resource decision auth where a: "ce_authorize env (co_action c) scope resource = Inr decision"
    and last: "authorized (ce_last env) (co_action c) scope decision db' = Inr auth"
  proof (rule execute_tx_Inr [OF tx])
    fix resource decision auth
    assume a: "ce_authorize env (co_action c) scope resource = Inr decision"
    assume c: "outcome = COMMERCIAL_REPLAYED \<and> db' = db \<and>
         (\<exists>p. find_receipt sd (co_key c) (receipts db) = Some p \<and> rc_digest p = digest \<and> d = rc_response p) \<and>
         authorized (ce_last env) (co_action c) scope decision db = Inr auth \<or>
       outcome = COMMERCIAL_APPLIED \<and> find_receipt sd (co_key c) (receipts db) = None \<and>
         (\<exists>db1. apply_command env c scope resource db = Inr (d, db1) \<and>
            authorized (ce_last env) (co_action c) scope decision db1 = Inr auth \<and>
            insert_receipt \<lparr>rc_scope = sd, rc_key = co_key c, rc_digest = digest, rc_response = d, rc_action = co_action c,
              rc_actor = cc_principal scope, rc_decision = au_decision auth, rc_evidence = au_evidence auth\<rparr> db1 = Inr db')"
    have "authorized (ce_last env) (co_action c) scope decision db' = Inr auth"
      using c authorized_directory insert_receipt_directory by metis
    then show thesis by (rule that [OF a])
  qed
  then show ?thesis using scope by (auto simp: authorized_Inr)
qed

section \<open>Idempotency\<close>

lemma find_receipt_append:
  "find_receipt sd k (rs @ ss) = (case find_receipt sd k rs of None \<Rightarrow> find_receipt sd k ss | Some r \<Rightarrow> Some r)"
  by (induction rs) (auto simp: find_receipt_def)

lemma find_receipt_single:
  "find_receipt sd k [row] = (if rc_scope row = sd \<and> rc_key row = k then Some row else None)"
  by (simp add: find_receipt_def)

text \<open>
  C30: a command takes effect once. After an APPLIED command, whatever ran since, the same command is
  either refused or REPLAYED with the recorded result, and a different command of the same scope under
  its key is refused; the tables stay as they are in every case.
\<close>

theorem commercial_command_applies_once:
  assumes "execute env c db = (Inr (COMMERCIAL_APPLIED, d), db1)" and "db2 = history commercial_run db1 xs"
    and "ce_sha256 env' = ce_sha256 env" and "co_scope c' = co_scope c" and "co_key c' = co_key c"
  shows "(\<exists>result. execute env' c' db2 = (result, db2) \<and> (\<forall>outcome d'. result = Inr (outcome, d') \<longrightarrow>
     outcome = COMMERCIAL_REPLAYED \<and> d' = d \<and>
     (\<forall>scope. commercialContext (co_scope c) = Inr scope \<longrightarrow>
        commercialDigest (ce_sha256 env) (request_json c' scope) = commercialDigest (ce_sha256 env) (request_json c scope))))"
proof -
  have "execute_command env c db = Inr ((COMMERCIAL_APPLIED, d), db1)"
    using assms(1) by (auto simp: execute_def split: sum.splits)
  then obtain scope sd digest where s: "commercialContext (co_scope c) = Inr scope"
    "commercialDigest (ce_sha256 env) (context_json scope) = Inr sd"
    and dig: "commercialDigest (ce_sha256 env) (request_json c scope) = Inr digest"
    and tx: "execute_tx env c scope sd digest db = Inr ((COMMERCIAL_APPLIED, d), db1)"
    by (rule execute_command_Inr)
  obtain row where row: "find_receipt sd (co_key c) (receipts db1) = Some row" "rc_digest row = digest" "rc_response row = d"
    by (rule execute_tx_Inr [OF tx])
      (auto dest!: insert_receipt_Inr simp: find_receipt_append find_receipt_single)
  obtain rs where "receipts db2 = receipts db1 @ rs" using history_adds [of db1 xs] assms(2) by (auto simp: only_adds_def)
  then have found: "find_receipt sd (co_key c) (receipts db2) = Some row" using row(1) by (simp add: find_receipt_append)
  show ?thesis
  proof (cases "execute_command env' c' db2")
    case (Inl e)
    then show ?thesis by (simp add: execute_def)
  next
    case (Inr r)
    then obtain outcome d' db' where r: "execute_command env' c' db2 = Inr ((outcome, d'), db')" by (metis surj_pair)
    then obtain scope' sd' digest' where s': "commercialContext (co_scope c') = Inr scope'"
      "commercialDigest (ce_sha256 env') (context_json scope') = Inr sd'"
      and dig': "commercialDigest (ce_sha256 env') (request_json c' scope') = Inr digest'"
      and tx': "execute_tx env' c' scope' sd' digest' db2 = Inr ((outcome, d'), db')"
      by (rule execute_command_Inr)
    have same: "scope' = scope" "sd' = sd" using s s' assms(3,4) by simp_all
    have out: "outcome = COMMERCIAL_REPLAYED \<and> db' = db2 \<and> digest' = digest \<and> d' = d"
      by (rule execute_tx_Inr [OF tx']) (use found row(2,3) same assms(5) in auto)
    have "commercialDigest (ce_sha256 env) (request_json c' scope) = commercialDigest (ce_sha256 env) (request_json c scope)"
      using dig dig' out same assms(3) by simp
    then show ?thesis using r out s(1) by (simp add: execute_def)
  qed
qed

section \<open>The kernel against the guard\<close>



end
