(* ===== verification/Commercial_Example.thy ===== *)
theory Commercial_Example
  imports Commercial_Properties
begin

text \<open>
  A request for quotation that is created, submitted, reviewed and answered, on a small directory:
  the concrete inputs at which the properties of the commercial service are applied.
\<close>

definition trade_sha :: "string \<Rightarrow> string" where
  "trade_sha s = ''0123456789abcdef0123456789abcdef0123456789abcdef'' @ (if length s < 300 then ''0123456789abcdef'' else ''fedcba9876543210'')"

definition trade_actor :: "commercial_action \<Rightarrow> commercial_actor" where
  "trade_actor action = (if action \<in> set BUYER_ACTIONS then BuyerActor ''mem'' 1 else if action \<in> set SYSTEM_ACTIONS then SystemActor else SellerActor)"

definition trade_authorize ::
  "commercial_action \<Rightarrow> commercial_context \<Rightarrow> commercial_document option \<Rightarrow> commercial_failure + commercial_authorization option" where
  "trade_authorize action scope resource = Inr (Some
     \<lparr>au_action = action, au_context = scope, au_decision = ''00000000-0000-4000-8000-000000000001'', au_evidence = ''evidence'',
      au_evaluated = Some 0, au_expires = Some 60000, au_relationship = 1, au_canonical = ''canon'', au_actor = trade_actor action\<rparr>)"

definition trade_write :: "string \<Rightarrow> instant" where
  "trade_write k = 1000"

definition trade_env :: "string \<Rightarrow> commercial_env" where
  "trade_env new_id = \<lparr>ce_authorize = trade_authorize, ce_sha256 = trade_sha, ce_new_id = new_id, ce_first = 1000, ce_now = 1000,
     ce_writes = trade_write, ce_last = 1000\<rparr>"

definition trade_db :: commercial_db where
  "trade_db = \<lparr>resources = [], resource_events = [], receipts = [],
     buyer_organisations = [\<lparr>to_id = ''org-1'', to_tenant = ''tnt-1'', to_status = ''ACTIVE'', to_canonical = Some ''canon'', to_revision = 1,
       to_deleted = False\<rparr>],
     buyer_members = [\<lparr>tm_id = ''mem'', tm_organisation = ''org-1'', tm_principal = ''prn-1'', tm_status = ''ACTIVE'', tm_revision = 1,
       tm_from = None, tm_until = None, tm_deleted = False\<rparr>]\<rparr>"

definition trade_create :: commercial_command where
  "trade_create = \<lparr>co_action = RFQ_CREATE, co_scope = context_json sample_context, co_key = ''create-0000000001'', co_resource = None,
     co_version = None, co_payload = Some sample_request, co_other_keys = []\<rparr>"

definition trade_step :: "commercial_action \<Rightarrow> string \<Rightarrow> int \<Rightarrow> json option \<Rightarrow> commercial_command" where
  "trade_step action k version payload = \<lparr>co_action = action, co_scope = context_json sample_context, co_key = k,
     co_resource = Some ''rfq_a'', co_version = Some (JInt version), co_payload = payload, co_other_keys = []\<rparr>"

definition trade_created :: commercial_db where
  "trade_created = snd (execute (trade_env ''a'') trade_create trade_db)"

definition trade_steps :: "commercial_step list" where
  "trade_steps = [RunCommand (trade_env ''b'') (trade_step RFQ_SUBMIT ''submit-0000000001'' 1 None),
     RunCommand (trade_env ''c'') (trade_step RFQ_REVIEW ''review-0000000001'' 2 None),
     RunCommand (trade_env ''d'') (trade_step QUOTATION_ISSUE ''issue-00000000001'' 3 (Some sample_offer))]"

definition trade_all :: "commercial_step list" where
  "trade_all = RunCommand (trade_env ''a'') trade_create # trade_steps"

definition trade_quoted :: commercial_db where
  "trade_quoted = history commercial_run trade_db trade_all"

definition trade_offer :: resource_row where
  "trade_offer = last (resources trade_quoted)"

definition created_doc :: commercial_document where
  "created_doc = rr_document (hd (resources trade_created))"

lemma trade_creates: "execute (trade_env ''a'') trade_create trade_db = (Inr (COMMERCIAL_APPLIED, created_doc), trade_created)"
  by code_simp

lemma trade_offer_row: "resources trade_quoted \<noteq> [] \<and> rr_kind trade_offer = QUOTATION \<and> rr_status trade_offer = ''ISSUED''"
  by code_simp

lemma trade_starts_empty: "no_resources trade_db"
  by (simp add: no_resources_def trade_db_def)

lemma trade_quoted_reached: "trade_quoted = history commercial_run trade_db trade_all"
  by (rule trade_quoted_def)

lemma trade_offer_stored: "trade_offer \<in> set (resources trade_quoted)"
  unfolding trade_offer_def using trade_offer_row by simp

theorem offers_belong_to_quoted_requests_witness:
  "\<exists>p \<in> set (resources trade_quoted). rr_parent trade_offer = Some (rr_id p) \<and> rr_status p = ''QUOTED''"
  using offers_belong_to_quoted_requests [OF trade_starts_empty trade_quoted_reached trade_offer_stored] trade_offer_row by blast

theorem resource_history_is_complete_witness:
  "map ev_version (filter (\<lambda>e. ev_resource e = rr_id trade_offer) (resource_events trade_quoted)) = [1..rr_version trade_offer]"
  using resource_history_is_complete [OF trade_starts_empty trade_quoted_reached trade_offer_stored, of "[]"] by (elim conjE)

theorem commercial_outcome_was_authorised_witness:
  "\<exists>scope auth. commercialContext (co_scope trade_create) = Inr scope \<and> organisation_current scope auth trade_created"
  using commercial_outcome_was_authorised [OF trade_creates] by (elim exE conjE) (intro exI conjI)

theorem commercial_command_applies_once_witness:
  "snd (execute (trade_env ''z'') trade_create (history commercial_run trade_created trade_steps)) =
   history commercial_run trade_created trade_steps"
proof -
  have sha: "ce_sha256 (trade_env ''z'') = ce_sha256 (trade_env ''a'')" by (simp add: trade_env_def)
  show ?thesis
    using commercial_command_applies_once [OF trade_creates refl sha refl refl, of trade_steps] by (elim exE conjE) simp
qed


end
