(* ===== verification/Status_Trail.thy ===== *)
theory Status_Trail
  imports Trade_Prelude
begin

text \<open>
  Records whose status moves along a table of allowed transitions while a log keeps one row per
  transition, as payments and fulfilments do. \<open>evolves\<close> is the interface: what one operation may do
  to the status and the log of one record. The locale \<open>status_store\<close> draws the consequences for
  histories of operations.
\<close>

section \<open>Paths through a transition table\<close>

fun path :: "('s \<Rightarrow> 's list) \<Rightarrow> 's \<Rightarrow> ('s \<times> 's) list \<Rightarrow> 's \<Rightarrow> bool" where
  "path nxt a [] b = (a = b)"
| "path nxt a ((x, y) # es) b = (x = a \<and> y \<in> set (nxt a) \<and> path nxt y es b)"

lemma path_append [simp]:
  "path nxt a (es @ fs) c \<longleftrightarrow> (\<exists>b. path nxt a es b \<and> path nxt b fs c)"
  by (induction nxt a es c rule: path.induct) auto

lemma path_edge: "path nxt a es b \<Longrightarrow> (x, y) \<in> set es \<Longrightarrow> y \<in> set (nxt x)"
  by (induction nxt a es b rule: path.induct) auto

lemma path_end: "path nxt a es b \<Longrightarrow> es \<noteq> [] \<Longrightarrow> b = snd (last es)"
  by (induction nxt a es b rule: path.induct) (auto split: if_splits)

text \<open>
  One operation on one record: nothing, its creation in the initial status, an allowed move that
  is logged, or, when the operation is interrupted, a logged move that never reaches the record.
\<close>

inductive evolves ::
    "bool \<Rightarrow> ('s \<Rightarrow> 's list) \<Rightarrow> 's \<Rightarrow> 's option \<Rightarrow> ('s \<times> 's) list \<Rightarrow> 's option \<Rightarrow> ('s \<times> 's) list \<Rightarrow> bool"
  for interrupted :: bool and nxt :: "'s \<Rightarrow> 's list" and initial :: 's where
  keep: "evolves interrupted nxt initial s es s es"
| create: "evolves interrupted nxt initial None [] (Some initial) []"
| move: "y \<in> set (nxt x) \<Longrightarrow> evolves interrupted nxt initial (Some x) es (Some y) (es @ [(x, y)])"
| stall: "interrupted \<Longrightarrow> y \<in> set (nxt x) \<Longrightarrow> evolves interrupted nxt initial (Some x) es (Some x) (es @ [(x, y)])"

inductive_cases evolvesE: "evolves interrupted nxt initial s es s' es'"
inductive_cases evolves_SomeE: "evolves interrupted nxt initial (Some x) es s' es'"

lemmas evolves_intros = evolves.keep evolves.create evolves.move evolves.stall

section \<open>Stores of such records\<close>

locale status_store =
  fixes step :: "'db \<Rightarrow> 'op \<Rightarrow> 'db" and good :: "'db \<Rightarrow> bool"
    and status :: "'db \<Rightarrow> string \<Rightarrow> 's option" and trail :: "'db \<Rightarrow> string \<Rightarrow> ('s \<times> 's) list"
    and nxt :: "'s \<Rightarrow> 's list" and initial :: 's and interrupted :: "'op \<Rightarrow> bool"
  assumes step_good: "good db \<Longrightarrow> good (step db op)"
    and step_evolves: "good db \<Longrightarrow>
      evolves (interrupted op) nxt initial (status db i) (trail db i) (status (step db op) i) (trail (step db op) i)"
begin

lemma run_good: "good db \<Longrightarrow> good (foldl step db ops)"
  by (induction ops arbitrary: db) (auto intro: step_good)

definition faithful :: "'db \<Rightarrow> bool" where
  "faithful db \<longleftrightarrow> (\<forall>i. case status db i of None \<Rightarrow> trail db i = [] | Some y \<Rightarrow> path nxt initial (trail db i) y)"

lemma step_faithful:
  assumes "good db" "faithful db" "\<not> interrupted op"
  shows "faithful (step db op)"
  unfolding faithful_def
proof
  fix i
  have "case status db i of None \<Rightarrow> trail db i = [] | Some y \<Rightarrow> path nxt initial (trail db i) y"
    using assms(2) by (simp add: faithful_def)
  with step_evolves [OF assms(1), of op i] assms(3)
  show "case status (step db op) i of None \<Rightarrow> trail (step db op) i = []
      | Some y \<Rightarrow> path nxt initial (trail (step db op) i) y"
    by (elim evolvesE) (auto split: option.splits)
qed

lemma run_faithful:
  "good db \<Longrightarrow> faithful db \<Longrightarrow> list_all (\<lambda>op. \<not> interrupted op) ops \<Longrightarrow> faithful (foldl step db ops)"
  by (induction ops arbitrary: db) (auto intro: step_faithful step_good)

lemma run_path:
  assumes "good db" "faithful db" "list_all (\<lambda>op. \<not> interrupted op) ops"
    and "status (foldl step db ops) i = Some y"
  shows "path nxt initial (trail (foldl step db ops) i) y"
  using run_faithful [OF assms(1-3)] assms(4) unfolding faithful_def by (metis option.simps(5))

lemma run_final:
  assumes "good db" "status db i = Some x" "nxt x = []"
  shows "status (foldl step db ops) i = Some x \<and> trail (foldl step db ops) i = trail db i"
  using assms
proof (induction ops arbitrary: db)
  case (Cons op ops)
  have "status (step db op) i = Some x \<and> trail (step db op) i = trail db i"
    using step_evolves [OF Cons.prems(1), of op i] Cons.prems(2,3) by (auto elim: evolves_SomeE)
  then show ?case
    using Cons.IH [of "step db op"] step_good [OF Cons.prems(1)] Cons.prems(3) by simp
qed simp

text \<open>A record never disappears, and its log only grows.\<close>

lemma run_trail_prefix:
  "good db \<Longrightarrow> \<exists>es. trail (foldl step db ops) i = trail db i @ es"
proof (induction ops arbitrary: db)
  case (Cons op ops)
  have "\<exists>es. trail (step db op) i = trail db i @ es"
    using step_evolves [OF Cons.prems, of op i] by (elim evolvesE) auto
  with Cons.IH [OF step_good [OF Cons.prems]] show ?case by (metis append.assoc foldl_Cons)
qed simp

lemma trail_edges:
  assumes "good db" "\<forall>(x, y) \<in> set (trail db i). y \<in> set (nxt x)"
  shows "\<forall>(x, y) \<in> set (trail (foldl step db ops) i). y \<in> set (nxt x)"
  using assms
proof (induction ops arbitrary: db)
  case (Cons op ops)
  have "\<forall>(x, y) \<in> set (trail (step db op) i). y \<in> set (nxt x)"
    using step_evolves [OF Cons.prems(1), of op i] Cons.prems(2) by (elim evolvesE) auto
  then show ?case using Cons.IH [of "step db op"] step_good [OF Cons.prems(1)] by simp
qed simp

end

end
