(* ===== verification/Trade_Party.thy ===== *)
theory Trade_Party
  imports Status_Trail
begin

text \<open>
  What payments and fulfilments share: the two Digital Estates of
  \<open>src/src/baobab/context/digital-estates.ts\<close>, the one party every record belongs to, and how their
  adapters write: a refused call leaves the database as it was, and a column an update names
  without a value is left to the framework.
\<close>

definition ZURIBEANS_ESTATE :: string where
  "ZURIBEANS_ESTATE = ''estate:zuribeans-b2b''"

definition THAMANI_ESTATE :: string where
  "THAMANI_ESTATE = ''estate:thamani-b2c''"

text \<open>\<open>Boolean(value)\<close> of an optional string.\<close>

definition truthy :: "string option \<Rightarrow> bool" where
  "truthy s \<longleftrightarrow> s \<noteq> None \<and> s \<noteq> Some []"

definition one_party :: "string option \<Rightarrow> string option \<Rightarrow> bool" where
  "one_party organisation customer \<longleftrightarrow>
     (organisation \<noteq> None \<and> customer = None) \<or> (organisation = None \<and> customer \<noteq> None)"

definition keep_db :: "'db \<Rightarrow> 'e + 'db \<times> 'a \<Rightarrow> 'db" where
  "keep_db db r = (case r of Inl _ \<Rightarrow> db | Inr (db', _) \<Rightarrow> db')"

definition assign_column :: "('a option \<Rightarrow> 'a option) \<Rightarrow> 'a option \<Rightarrow> 'a option \<Rightarrow> 'a option" where
  "assign_column absent old given = (case given of None \<Rightarrow> absent old | Some s \<Rightarrow> Some s)"

lemma keep_db_cases: "keep_db db r = db \<or> (\<exists>db' x. r = Inr (db', x) \<and> keep_db db r = db')"
  by (auto simp: keep_db_def split: sum.splits)

lemma truthy_Some: "truthy s \<longleftrightarrow> (\<exists>c cs. s = Some (c # cs))"
  by (cases s) (auto simp: truthy_def neq_Nil_conv)

end
