(* ===== verification/Payments.thy ===== *)
theory Payments
  imports Trade_Party
begin

text \<open>
  Payments: the orchestration port \<open>src/src/baobab/payments/orchestration-port.ts\<close>, its record adapter
  \<open>payment-record-adapter.ts\<close> over the tables of \<open>src/src/modules/payment-bridge/migrations/\<close>, the
  provider policies and the ERP reconciliation. The adapter's locks serialise what they wrap; each
  service call is a transaction of its own, so a process may stop between two of them. Row
  identifiers are generated by the framework and are arguments, as is the value \<open>absent\<close> the
  framework stores for a column an update names without a value. Transition identifiers and times,
  which nothing reads, are left out; rows are never soft-deleted by this code.
\<close>

section \<open>Data\<close>

datatype payment_status =
  CREATED | PENDING | AUTHORIZED | CAPTURED | SETTLED | FAILED | CANCELLED | UNKNOWN

datatype payment_method = BANK_TRANSFER | MANUAL_SETTLEMENT | INVOICE_TERMS | SELECTED_PSP

datatype payment_terms = PREPAID | DUE_ON_RECEIPT | NET_7 | NET_14 | NET_30

record payment_command =
  pc_reference :: string
  pc_order :: string
  pc_organisation :: "string option"
  pc_customer :: "string option"
  pc_market :: string
  pc_seller :: string
  pc_method :: payment_method
  pc_terms :: payment_terms
  pc_provider :: string
  pc_currency :: string
  pc_amount :: js_number
  pc_key :: string
  pc_correlation :: string
  pc_due :: "instant option"

record payment_snapshot = payment_command +
  ps_id :: string
  ps_estate :: string
  ps_status :: payment_status
  ps_provider_reference :: "string option"
  ps_provider_status :: "string option"

datatype payment_error =
    AmountNotPositive
  | NotOneParty
  | TermsNeedInvoice
  | KeyAcrossEstates
  | InvalidTransition payment_status payment_status
  | PaymentMissing
  | KeyReused
  | StateChanged
  | UniqueViolation
  | ConstraintViolation

fun TRANSITIONS :: "payment_status \<Rightarrow> payment_status list" where
  "TRANSITIONS CREATED = [PENDING, AUTHORIZED, FAILED, CANCELLED, UNKNOWN]"
| "TRANSITIONS PENDING = [AUTHORIZED, CAPTURED, FAILED, CANCELLED, UNKNOWN]"
| "TRANSITIONS AUTHORIZED = [CAPTURED, CANCELLED, UNKNOWN]"
| "TRANSITIONS CAPTURED = [SETTLED, UNKNOWN]"
| "TRANSITIONS SETTLED = []"
| "TRANSITIONS FAILED = []"
| "TRANSITIONS CANCELLED = []"
| "TRANSITIONS UNKNOWN = [PENDING, AUTHORIZED, CAPTURED, FAILED, CANCELLED]"

section \<open>Tables\<close>

record payment_row =
  py_id :: string
  py_estate :: string
  py_reference :: string
  py_order :: string
  py_organisation :: "string option"
  py_customer :: "string option"
  py_market :: string
  py_seller :: string
  py_method :: payment_method
  py_terms :: payment_terms
  py_provider :: string
  py_provider_reference :: "string option"
  py_provider_status :: "string option"
  py_currency :: string
  py_amount :: int
  py_status :: payment_status
  py_key :: string
  py_correlation :: string
  py_due :: "instant option"

record payment_transition_row =
  pt_payment :: string
  pt_from :: payment_status
  pt_to :: payment_status
  pt_key :: string
  pt_provider_reference :: "string option"
  pt_provider_status :: "string option"

record payment_db =
  payments :: "payment_row list"
  payment_transitions :: "payment_transition_row list"

definition no_payments :: payment_db where
  "no_payments = \<lparr>payments = [], payment_transitions = []\<rparr>"

text \<open>
  The constraints \<open>commerce_payment_one_party\<close>, \<open>commerce_payment_positive_amount\<close> and
  \<open>commerce_payment_digital_estate_check\<close>, then the primary key and the unique indexes.
\<close>

definition payment_checks :: "payment_row \<Rightarrow> bool" where
  "payment_checks p \<longleftrightarrow> one_party (py_organisation p) (py_customer p) \<and> 0 < py_amount p \<and>
     py_estate p \<in> {ZURIBEANS_ESTATE, THAMANI_ESTATE}"

definition insert_payment :: "payment_row \<Rightarrow> payment_db \<Rightarrow> payment_error + payment_db" where
  "insert_payment p db =
     (if \<not> payment_checks p then Inl ConstraintViolation
      else if list_ex (\<lambda>q. py_id q = py_id p \<or> py_reference q = py_reference p \<or> py_key q = py_key p) (payments db)
      then Inl UniqueViolation
      else Inr (db\<lparr>payments := payments db @ [p]\<rparr>))"

definition insert_payment_transition :: "payment_transition_row \<Rightarrow> payment_db \<Rightarrow> payment_error + payment_db" where
  "insert_payment_transition t db =
     (if find_row pt_key (pt_key t) (payment_transitions db) \<noteq> None then Inl UniqueViolation
      else if find_row py_id (pt_payment t) (payments db) = None then Inl ConstraintViolation
      else Inr (db\<lparr>payment_transitions := payment_transitions db @ [t]\<rparr>))"

definition update_payment :: "string \<Rightarrow> (payment_row \<Rightarrow> payment_row) \<Rightarrow> payment_db \<Rightarrow> payment_db" where
  "update_payment i f db = db\<lparr>payments := upd_row py_id i f (payments db)\<rparr>"

section \<open>The record adapter\<close>

definition payment_snapshot_of :: "payment_row \<Rightarrow> payment_snapshot" where
  "payment_snapshot_of p =
     \<lparr>pc_reference = py_reference p, pc_order = py_order p, pc_organisation = py_organisation p,
      pc_customer = py_customer p, pc_market = py_market p, pc_seller = py_seller p,
      pc_method = py_method p, pc_terms = py_terms p, pc_provider = py_provider p,
      pc_currency = py_currency p, pc_amount = JInt (py_amount p), pc_key = py_key p,
      pc_correlation = py_correlation p, pc_due = py_due p,
      ps_id = py_id p, ps_estate = py_estate p, ps_status = py_status p,
      ps_provider_reference = py_provider_reference p, ps_provider_status = py_provider_status p\<rparr>"

definition findPaymentByKey :: "string \<Rightarrow> payment_db \<Rightarrow> payment_snapshot option" where
  "findPaymentByKey key db = map_option payment_snapshot_of (find_row py_key key (payments db))"

text \<open>
  An amount that is not an integer never gets here through the port; the \<open>bigint\<close> column refuses it.
\<close>

definition new_payment :: "string \<Rightarrow> payment_command \<Rightarrow> string \<Rightarrow> int \<Rightarrow> payment_row" where
  "new_payment i c estate amount =
     \<lparr>py_id = i, py_estate = estate, py_reference = pc_reference c, py_order = pc_order c,
      py_organisation = pc_organisation c, py_customer = pc_customer c, py_market = pc_market c,
      py_seller = pc_seller c, py_method = pc_method c, py_terms = pc_terms c,
      py_provider = pc_provider c, py_provider_reference = None, py_provider_status = None,
      py_currency = pc_currency c, py_amount = amount, py_status = CREATED, py_key = pc_key c,
      py_correlation = pc_correlation c, py_due = pc_due c\<rparr>"

text \<open>
  The locked part of \<open>create\<close> in two halves: the check for an existing payment, and the insert with
  its unique-violation handler, which a lock provider that is not fully distributed may run on
  a later database.
\<close>

definition createPayment_insert ::
    "string \<Rightarrow> payment_command \<Rightarrow> string \<Rightarrow> payment_db \<Rightarrow> payment_error + payment_db \<times> payment_snapshot" where
  "createPayment_insert i c estate db =
     (case pc_amount c of
        JNonInt \<Rightarrow> Inl ConstraintViolation
      | JInt amount \<Rightarrow>
          (case insert_payment (new_payment i c estate amount) db of
             Inr db' \<Rightarrow> Inr (db', payment_snapshot_of (new_payment i c estate amount))
           | Inl e \<Rightarrow>
               if e \<noteq> UniqueViolation then Inl e
               else (case findPaymentByKey (pc_key c) db of None \<Rightarrow> Inl e | Some p \<Rightarrow> Inr (db, p))))"

definition createPayment ::
    "string \<Rightarrow> payment_command \<Rightarrow> string \<Rightarrow> payment_db \<Rightarrow> payment_error + payment_db \<times> payment_snapshot" where
  "createPayment i c estate db =
     (case findPaymentByKey (pc_key c) db of
        Some p \<Rightarrow> Inr (db, p)
      | None \<Rightarrow> createPayment_insert i c estate db)"

text \<open>
  \<open>transition\<close> up to the insert of the transition row: a replay answers with the stored payment,
  anything else has now recorded the transition.
\<close>

definition recordPaymentTransition ::
    "string \<Rightarrow> payment_status \<Rightarrow> payment_status \<Rightarrow> string \<Rightarrow> string option \<Rightarrow> string option \<Rightarrow> payment_db \<Rightarrow>
     payment_error + payment_db \<times> payment_snapshot option" where
  "recordPaymentTransition i from to key reference status db =
     (case find_row py_id i (payments db) of
        None \<Rightarrow> Inl PaymentMissing
      | Some current \<Rightarrow>
          (case find_row pt_key key (payment_transitions db) of
             Some t \<Rightarrow>
               if pt_from t \<noteq> from \<or> pt_to t \<noteq> to then Inl KeyReused
               else Inr (db, Some (payment_snapshot_of current))
           | None \<Rightarrow>
               if py_status current \<noteq> from then Inl StateChanged
               else andThen
                 (insert_payment_transition
                    \<lparr>pt_payment = i, pt_from = from, pt_to = to, pt_key = key,
                     pt_provider_reference = reference, pt_provider_status = status\<rparr> db)
                 (\<lambda>db'. Inr (db', None))))"

definition applyPaymentTransition ::
    "(string option \<Rightarrow> string option) \<Rightarrow> string \<Rightarrow> payment_status \<Rightarrow> string option \<Rightarrow> string option \<Rightarrow> payment_db \<Rightarrow>
     payment_error + payment_db \<times> payment_snapshot" where
  "applyPaymentTransition absent i to reference status db =
     (let db' = update_payment i (\<lambda>p. p\<lparr>py_status := to,
            py_provider_reference := assign_column absent (py_provider_reference p) reference,
            py_provider_status := assign_column absent (py_provider_status p) status\<rparr>) db
      in case find_row py_id i (payments db') of
           None \<Rightarrow> Inl PaymentMissing
         | Some p \<Rightarrow> Inr (db', payment_snapshot_of p))"

definition adapterPaymentTransition ::
    "(string option \<Rightarrow> string option) \<Rightarrow> string \<Rightarrow> payment_status \<Rightarrow> payment_status \<Rightarrow> string \<Rightarrow>
     string option \<Rightarrow> string option \<Rightarrow> payment_db \<Rightarrow> payment_error + payment_db \<times> payment_snapshot" where
  "adapterPaymentTransition absent i from to key reference status db =
     andThen (recordPaymentTransition i from to key reference status db) (\<lambda>(db', replay).
       case replay of
         Some p \<Rightarrow> Inr (db', p)
       | None \<Rightarrow> applyPaymentTransition absent i to reference status db')"

section \<open>The orchestration port\<close>

definition validate_payment :: "payment_command \<Rightarrow> payment_error + unit" where
  "validate_payment c =
     andThen (ensure (is_safe_number (pc_amount c) \<and> (case pc_amount c of JInt n \<Rightarrow> 0 < n | JNonInt \<Rightarrow> False))
       AmountNotPositive) (\<lambda>_.
     andThen (ensure (truthy (pc_organisation c) \<noteq> truthy (pc_customer c)) NotOneParty) (\<lambda>_.
     ensure (pc_terms c = PREPAID \<or> pc_method c = INVOICE_TERMS) TermsNeedInvoice))"

definition payment_estate :: "payment_command \<Rightarrow> string" where
  "payment_estate c = (if truthy (pc_organisation c) then ZURIBEANS_ESTATE else THAMANI_ESTATE)"

text \<open>
  \<open>initiate\<close> up to \<open>records.create\<close>: the checks and the port's own look at the key, which holds no lock.
\<close>

definition initiate_check :: "payment_command \<Rightarrow> payment_db \<Rightarrow> payment_error + payment_snapshot option" where
  "initiate_check c db =
     andThen (validate_payment c) (\<lambda>_.
       case findPaymentByKey (pc_key c) db of
         Some p \<Rightarrow> if ps_estate p \<noteq> payment_estate c then Inl KeyAcrossEstates else Inr (Some p)
       | None \<Rightarrow> Inr None)"

definition initiate :: "string \<Rightarrow> payment_command \<Rightarrow> payment_db \<Rightarrow> payment_error + payment_db \<times> payment_snapshot" where
  "initiate i c db =
     andThen (initiate_check c db) (\<lambda>existing.
       case existing of
         Some p \<Rightarrow> Inr (db, p)
       | None \<Rightarrow> createPayment i c (payment_estate c) db)"

definition payment_transition_guard :: "payment_snapshot \<Rightarrow> payment_status \<Rightarrow> payment_error + unit" where
  "payment_transition_guard p status =
     ensure (status \<in> set (TRANSITIONS (ps_status p))) (InvalidTransition (ps_status p) status)"

definition payment_transition ::
    "(string option \<Rightarrow> string option) \<Rightarrow> payment_snapshot \<Rightarrow> payment_status \<Rightarrow> string \<Rightarrow>
     string option \<Rightarrow> string option \<Rightarrow> payment_db \<Rightarrow> payment_error + payment_db \<times> payment_snapshot" where
  "payment_transition absent p status key reference provider_status db =
     andThen (payment_transition_guard p status) (\<lambda>_.
       adapterPaymentTransition absent (ps_id p) (ps_status p) status key reference provider_status db)"

section \<open>Histories\<close>

text \<open>
  \<open>Create\<close> and \<open>CreateInsert\<close> are the halves of an \<open>initiate\<close> whose check ran on an earlier database;
  \<open>InterruptedTransition\<close> stops after its transition row is written.
\<close>

datatype payment_op =
    Initiate string payment_command
  | Create string payment_command
  | CreateInsert string payment_command
  | Transition payment_snapshot payment_status string "string option" "string option"
  | InterruptedTransition payment_snapshot payment_status string "string option" "string option"

fun payment_step :: "(string option \<Rightarrow> string option) \<Rightarrow> payment_db \<Rightarrow> payment_op \<Rightarrow> payment_db" where
  "payment_step absent db (Initiate i c) = keep_db db (initiate i c db)"
| "payment_step absent db (Create i c) =
     keep_db db (andThen (validate_payment c) (\<lambda>_. createPayment i c (payment_estate c) db))"
| "payment_step absent db (CreateInsert i c) =
     keep_db db (andThen (validate_payment c) (\<lambda>_. createPayment_insert i c (payment_estate c) db))"
| "payment_step absent db (Transition p to key reference status) =
     keep_db db (payment_transition absent p to key reference status db)"
| "payment_step absent db (InterruptedTransition p to key reference status) =
     keep_db db (andThen (payment_transition_guard p to) (\<lambda>_.
       recordPaymentTransition (ps_id p) (ps_status p) to key reference status db))"

fun payment_interrupted :: "payment_op \<Rightarrow> bool" where
  "payment_interrupted (InterruptedTransition _ _ _ _ _) = True"
| "payment_interrupted _ = False"

definition payment_status_of :: "payment_db \<Rightarrow> string \<Rightarrow> payment_status option" where
  "payment_status_of db i = map_option py_status (find_row py_id i (payments db))"

definition payment_trail :: "payment_db \<Rightarrow> string \<Rightarrow> (payment_status \<times> payment_status) list" where
  "payment_trail db i =
     map (\<lambda>t. (pt_from t, pt_to t)) (filter (\<lambda>t. pt_payment t = i) (payment_transitions db))"

end
