(* ===== verification/Payments_Laws.thy ===== *)
theory Payments_Laws
  imports Payments
begin

text \<open>
  The invariant of the payment tables, that every operation keeps it, and the interpretation of
  \<open>status_store\<close> at the operations of \<open>Payments\<close>.
\<close>

section \<open>The invariant\<close>

definition payment_row_ok :: "payment_row \<Rightarrow> bool" where
  "payment_row_ok p \<longleftrightarrow> payment_checks p \<and> is_safe_int (py_amount p) \<and>
     truthy (py_organisation p) \<noteq> truthy (py_customer p) \<and>
     (py_terms p = PREPAID \<or> py_method p = INVOICE_TERMS) \<and>
     py_estate p = (if truthy (py_organisation p) then ZURIBEANS_ESTATE else THAMANI_ESTATE)"

definition payment_inv :: "payment_db \<Rightarrow> bool" where
  "payment_inv db \<longleftrightarrow>
     distinct (map py_id (payments db)) \<and> distinct (map py_reference (payments db)) \<and>
     distinct (map py_key (payments db)) \<and> distinct (map pt_key (payment_transitions db)) \<and>
     (\<forall>p \<in> set (payments db). payment_row_ok p) \<and>
     (\<forall>t \<in> set (payment_transitions db). pt_payment t \<in> py_id ` set (payments db))"

lemma no_payments_inv: "payment_inv no_payments"
  by (simp add: payment_inv_def no_payments_def)

lemma insert_payment_Inr [tx_simps]:
  "insert_payment p db = Inr db' \<longleftrightarrow>
     payment_checks p \<and> (\<forall>q \<in> set (payments db). py_id q \<noteq> py_id p \<and> py_reference q \<noteq> py_reference p \<and> py_key q \<noteq> py_key p) \<and>
     db' = db\<lparr>payments := payments db @ [p]\<rparr>"
  by (auto simp: insert_payment_def list_ex_iff)

lemma insert_payment_transition_Inr [tx_simps]:
  "insert_payment_transition t db = Inr db' \<longleftrightarrow>
     pt_key t \<notin> pt_key ` set (payment_transitions db) \<and> pt_payment t \<in> py_id ` set (payments db) \<and>
     db' = db\<lparr>payment_transitions := payment_transitions db @ [t]\<rparr>"
  by (auto simp: insert_payment_transition_def find_row_None_iff)

lemma insert_payment_inv:
  "payment_inv db \<Longrightarrow> insert_payment p db = Inr db' \<Longrightarrow> payment_row_ok p \<Longrightarrow> payment_inv db'"
  by (auto simp: payment_inv_def insert_payment_Inr)

lemma insert_payment_transition_inv:
  "payment_inv db \<Longrightarrow> insert_payment_transition t db = Inr db' \<Longrightarrow> payment_inv db'"
  by (auto simp: payment_inv_def insert_payment_transition_Inr)

lemma update_payment_inv:
  assumes "payment_inv db"
    and "\<And>p. py_id (f p) = py_id p \<and> py_reference (f p) = py_reference p \<and> py_key (f p) = py_key p"
    and "\<And>p. payment_row_ok (f p) = payment_row_ok p"
  shows "payment_inv (update_payment i f db)"
proof -
  have "map g (upd_row py_id i f (payments db)) = map g (payments db)"
    if "\<And>p. g (f p) = g p" for g :: "payment_row \<Rightarrow> string"
    using that by (simp add: upd_row_def)
  moreover have "payment_row_ok p" if "p \<in> set (upd_row py_id i f (payments db))" for p
    using set_upd_row_cases [OF that] assms(1,3) by (auto simp: payment_inv_def)
  moreover have "py_id ` set (upd_row py_id i f (payments db)) = py_id ` set (payments db)"
    using calculation(1) [of py_id] assms(2) by (metis list.set_map)
  ultimately show ?thesis using assms(1,2) by (simp add: payment_inv_def update_payment_def)
qed

section \<open>Creation\<close>

lemma validate_payment_Inr [tx_simps]:
  "validate_payment c = Inr u \<longleftrightarrow>
     (\<exists>n. pc_amount c = JInt n \<and> is_safe_int n \<and> 0 < n) \<and>
     truthy (pc_organisation c) \<noteq> truthy (pc_customer c) \<and>
     (pc_terms c = PREPAID \<or> pc_method c = INVOICE_TERMS)"
  by (cases "pc_amount c") (auto simp: validate_payment_def)

lemma new_payment_ok:
  assumes "validate_payment c = Inr u" "pc_amount c = JInt n"
    and "payment_checks (new_payment i c (payment_estate c) n)"
  shows "payment_row_ok (new_payment i c (payment_estate c) n)"
  using assms by (auto simp: payment_row_ok_def validate_payment_Inr new_payment_def payment_estate_def)

lemma findPaymentByKey_Some:
  "findPaymentByKey key db = Some s \<longleftrightarrow> (\<exists>p. find_row py_key key (payments db) = Some p \<and> s = payment_snapshot_of p)"
  by (auto simp: findPaymentByKey_def)

lemma findPaymentByKey_None:
  "findPaymentByKey key db = None \<longleftrightarrow> key \<notin> py_key ` set (payments db)"
  by (simp add: findPaymentByKey_def find_row_None_iff)

text \<open>What the insert answers with is a stored payment of the key, new or found.\<close>

lemma createPayment_insert_cases:
  assumes "createPayment_insert i c estate db = Inr (db', s)"
  obtains (made) n where "pc_amount c = JInt n" "insert_payment (new_payment i c estate n) db = Inr db'"
      "s = payment_snapshot_of (new_payment i c estate n)"
    | (found) "db' = db" "findPaymentByKey (pc_key c) db = Some s"
  using assms unfolding createPayment_insert_def
  by (auto split: js_number.splits sum.splits option.splits if_splits)

lemma createPayment_cases:
  assumes "createPayment i c estate db = Inr (db', s)"
  obtains (made) n where "pc_amount c = JInt n" "insert_payment (new_payment i c estate n) db = Inr db'"
      "s = payment_snapshot_of (new_payment i c estate n)"
    | (found) "db' = db" "findPaymentByKey (pc_key c) db = Some s"
  using assms unfolding createPayment_def
  by (auto split: option.splits elim: createPayment_insert_cases)

lemma initiate_check_Inr [tx_simps]:
  "initiate_check c db = Inr r \<longleftrightarrow>
     (\<exists>u. validate_payment c = Inr u) \<and> r = findPaymentByKey (pc_key c) db \<and>
     (\<forall>p. r = Some p \<longrightarrow> ps_estate p = payment_estate c)"
  by (auto simp: initiate_check_def andThen_Inr_iff split: option.splits if_splits)

section \<open>Transitions\<close>

lemma recordPaymentTransition_cases:
  assumes "recordPaymentTransition i from to key reference status db = Inr (db', r)"
  obtains (replayed) p t where "find_row py_id i (payments db) = Some p"
      "find_row pt_key key (payment_transitions db) = Some t" "pt_from t = from" "pt_to t = to"
      "db' = db" "r = Some (payment_snapshot_of p)"
    | (recorded) p where "find_row py_id i (payments db) = Some p" "py_status p = from"
      "find_row pt_key key (payment_transitions db) = None" "r = None"
      "insert_payment_transition \<lparr>pt_payment = i, pt_from = from, pt_to = to, pt_key = key,
         pt_provider_reference = reference, pt_provider_status = status\<rparr> db = Inr db'"
  using assms unfolding recordPaymentTransition_def
  by (auto split: option.splits if_splits simp: andThen_Inr_iff)

lemma recordPaymentTransition_inv:
  "payment_inv db \<Longrightarrow> recordPaymentTransition i from to key reference status db = Inr (db', r) \<Longrightarrow> payment_inv db'"
  by (erule recordPaymentTransition_cases) (auto intro: insert_payment_transition_inv)

lemma applyPaymentTransition_inv:
  assumes "payment_inv db" "applyPaymentTransition absent i to reference status db = Inr (db', s)"
  shows "payment_inv db'"
proof -
  have "db' = update_payment i (\<lambda>p. p\<lparr>py_status := to,
            py_provider_reference := assign_column absent (py_provider_reference p) reference,
            py_provider_status := assign_column absent (py_provider_status p) status\<rparr>) db"
    using assms(2) by (auto simp: applyPaymentTransition_def Let_def split: option.splits)
  then show ?thesis
    by (auto intro!: update_payment_inv assms(1) simp: payment_row_ok_def payment_checks_def)
qed

section \<open>What a step does to one payment\<close>

lemma payment_trail_unknown:
  "payment_inv db \<Longrightarrow> payment_status_of db i = None \<Longrightarrow> payment_trail db i = []"
  by (auto simp: payment_inv_def payment_status_of_def payment_trail_def find_row_None_iff filter_empty_conv)

lemma insert_payment_evolves:
  assumes "payment_inv db" "insert_payment p db = Inr db'" "py_status p = CREATED"
  shows "evolves b TRANSITIONS CREATED (payment_status_of db i) (payment_trail db i)
           (payment_status_of db' i) (payment_trail db' i)"
proof -
  have db': "db' = db\<lparr>payments := payments db @ [p]\<rparr>" and new: "py_id p \<notin> py_id ` set (payments db)"
    using assms(2) by (auto simp: insert_payment_Inr)
  have trail: "payment_trail db' i = payment_trail db i" by (simp add: payment_trail_def db')
  show ?thesis
  proof (cases "py_id p = i")
    case True
    then have "payment_status_of db i = None" using new by (simp add: payment_status_of_def find_row_None_iff)
    moreover have "payment_status_of db' i = Some CREATED"
      using True new assms(3) by (simp add: payment_status_of_def db' find_row_None_iff [THEN iffD2])
    ultimately show ?thesis
      using payment_trail_unknown [OF assms(1)] trail by (auto intro: evolves_intros)
  next
    case False
    then have "payment_status_of db' i = payment_status_of db i"
      by (simp add: payment_status_of_def db' split: option.splits)
    then show ?thesis by (simp add: trail evolves_intros)
  qed
qed

lemma recorded_evolves:
  assumes "find_row py_id i (payments db) = Some p" "y \<in> set (TRANSITIONS (py_status p))"
    and "insert_payment_transition t db = Inr db'" "pt_payment t = i" "pt_from t = py_status p" "pt_to t = y"
  shows "payment_status_of db' j = payment_status_of db j"
    and "payment_trail db' j = payment_trail db j @ (if j = i then [(py_status p, y)] else [])"
  using assms by (auto simp: insert_payment_transition_Inr payment_status_of_def payment_trail_def)

lemma applied_status:
  assumes "applyPaymentTransition absent i to reference status db = Inr (db', s)"
  shows "payment_status_of db' j = (if j = i then Some to else payment_status_of db j)"
    and "payment_trail db' j = payment_trail db j"
    and "find_row py_id i (payments db') = Some p \<Longrightarrow> s = payment_snapshot_of p"
  using assms
  by (auto simp: applyPaymentTransition_def Let_def payment_status_of_def payment_trail_def update_payment_def
      find_row_upd_row split: option.splits)

lemma guard_Inr [tx_simps]:
  "payment_transition_guard p to = Inr u \<longleftrightarrow> to \<in> set (TRANSITIONS (ps_status p))"
  by (simp add: payment_transition_guard_def)

lemma record_step_evolves:
  assumes "recordPaymentTransition i x y key reference status db = Inr (db', r)" "y \<in> set (TRANSITIONS x)"
  shows "evolves True TRANSITIONS CREATED (payment_status_of db j) (payment_trail db j)
           (payment_status_of db' j) (payment_trail db' j)"
  using assms(1)
proof (cases rule: recordPaymentTransition_cases)
  case replayed
  then show ?thesis by (simp add: evolves_intros)
next
  case (recorded p)
  note facts = recorded_evolves [OF recorded(1) _ recorded(5), of y j]
  have "payment_status_of db' j = payment_status_of db j"
    "payment_trail db' j = payment_trail db j @ (if j = i then [(x, y)] else [])"
    using facts assms(2) recorded(2) by simp_all
  moreover have "payment_status_of db i = Some x" using recorded(1,2) by (simp add: payment_status_of_def)
  ultimately show ?thesis using assms(2) by (auto intro: evolves_intros)
qed

lemma transition_step_evolves:
  assumes "adapterPaymentTransition absent i x y key reference status db = Inr (db', s)" "y \<in> set (TRANSITIONS x)"
  shows "evolves b TRANSITIONS CREATED (payment_status_of db j) (payment_trail db j)
           (payment_status_of db' j) (payment_trail db' j)"
proof -
  obtain db1 r where rec: "recordPaymentTransition i x y key reference status db = Inr (db1, r)"
    and rest: "(case r of Some p \<Rightarrow> Inr (db1, p) | None \<Rightarrow> applyPaymentTransition absent i y reference status db1) = Inr (db', s)"
    using assms(1) by (auto simp: adapterPaymentTransition_def andThen_Inr_iff)
  from rec show ?thesis
  proof (cases rule: recordPaymentTransition_cases)
    case replayed
    then show ?thesis using rest by (simp add: evolves_intros)
  next
    case (recorded p)
    note facts = recorded_evolves [OF recorded(1) _ recorded(5), of y j]
    have "applyPaymentTransition absent i y reference status db1 = Inr (db', s)" using rest recorded(4) by simp
    note applied = applied_status(1,2) [OF this, of j]
    have "payment_status_of db i = Some x" using recorded(1,2) by (simp add: payment_status_of_def)
    then show ?thesis using facts applied recorded(2) assms(2) by (auto intro: evolves_intros)
  qed
qed

lemma create_step_evolves:
  assumes "payment_inv db" "createPayment_insert i c estate db = Inr (db', s) \<or> createPayment i c estate db = Inr (db', s)"
  shows "evolves b TRANSITIONS CREATED (payment_status_of db j) (payment_trail db j)
           (payment_status_of db' j) (payment_trail db' j)"
proof -
  have "db' = db \<or> (\<exists>n. insert_payment (new_payment i c estate n) db = Inr db')"
    using assms(2) by (auto elim: createPayment_insert_cases createPayment_cases)
  then show ?thesis
    using insert_payment_evolves [OF assms(1)] by (auto simp: evolves_intros new_payment_def)
qed

section \<open>Every operation\<close>

lemma create_step_inv:
  assumes "payment_inv db" "validate_payment c = Inr u"
    and "createPayment_insert i c (payment_estate c) db = Inr (db', s) \<or> createPayment i c (payment_estate c) db = Inr (db', s)"
  shows "payment_inv db'"
proof -
  have "db' = db \<or> (\<exists>n. pc_amount c = JInt n \<and> insert_payment (new_payment i c (payment_estate c) n) db = Inr db')"
    using assms(3) by (auto elim: createPayment_insert_cases createPayment_cases)
  then show ?thesis
    using assms(1,2) insert_payment_inv new_payment_ok by (metis insert_payment_Inr)
qed

lemma initiate_Inr:
  "initiate i c db = Inr (db', s) \<longleftrightarrow>
     (\<exists>u. validate_payment c = Inr u) \<and>
     (case findPaymentByKey (pc_key c) db of
        Some p \<Rightarrow> ps_estate p = payment_estate c \<and> db' = db \<and> s = p
      | None \<Rightarrow> createPayment i c (payment_estate c) db = Inr (db', s))"
  by (auto simp: initiate_def tx_simps andThen_Inr_iff split: option.splits)

lemma payment_step_cases:
  "payment_step absent db op = db \<or>
   (\<exists>i c s. (\<exists>u. validate_payment c = Inr u) \<and> \<not> payment_interrupted op \<and>
      (createPayment_insert i c (payment_estate c) db = Inr (payment_step absent db op, s) \<or>
       createPayment i c (payment_estate c) db = Inr (payment_step absent db op, s))) \<or>
   (\<exists>i x y key r st s. y \<in> set (TRANSITIONS x) \<and> \<not> payment_interrupted op \<and>
      adapterPaymentTransition absent i x y key r st db = Inr (payment_step absent db op, s)) \<or>
   (\<exists>i x y key r st s. y \<in> set (TRANSITIONS x) \<and> payment_interrupted op \<and>
      recordPaymentTransition i x y key r st db = Inr (payment_step absent db op, s))"
proof (cases op)
  case (Initiate i c)
  have "db' = db \<or> ((\<exists>u. validate_payment c = Inr u) \<and> createPayment i c (payment_estate c) db = Inr (db', s))"
    if "initiate i c db = Inr (db', s)" for db' s
    using that by (auto simp: initiate_Inr split: option.splits)
  with keep_db_cases [of db "initiate i c db"] Initiate show ?thesis
    by (metis payment_interrupted.simps(2) payment_step.simps(1))
next
  case (Create i c)
  then show ?thesis
    using keep_db_cases [of db "andThen (validate_payment c) (\<lambda>_. createPayment i c (payment_estate c) db)"]
    by (auto simp: andThen_Inr_iff)
next
  case (CreateInsert i c)
  then show ?thesis
    using keep_db_cases [of db "andThen (validate_payment c) (\<lambda>_. createPayment_insert i c (payment_estate c) db)"]
    by (auto simp: andThen_Inr_iff)
next
  case (Transition p y key r st)
  then show ?thesis
    using keep_db_cases [of db "payment_transition absent p y key r st db"]
    by (auto simp: payment_transition_def andThen_Inr_iff guard_Inr)
next
  case (InterruptedTransition p y key r st)
  then show ?thesis
    using keep_db_cases [of db "andThen (payment_transition_guard p y) (\<lambda>_.
       recordPaymentTransition (ps_id p) (ps_status p) y key r st db)"]
    by (auto simp: andThen_Inr_iff guard_Inr)
qed

lemma adapterPaymentTransition_inv:
  "payment_inv db \<Longrightarrow> adapterPaymentTransition absent i x y key r st db = Inr (db', s) \<Longrightarrow> payment_inv db'"
  by (auto simp: adapterPaymentTransition_def andThen_Inr_iff split: option.splits
      intro: applyPaymentTransition_inv recordPaymentTransition_inv)

lemma payment_step_inv: "payment_inv db \<Longrightarrow> payment_inv (payment_step absent db op)"
  using payment_step_cases [of absent db op]
  by (elim disjE exE conjE) (auto intro: create_step_inv adapterPaymentTransition_inv recordPaymentTransition_inv)

lemma payment_step_evolves:
  assumes "payment_inv db"
  shows "evolves (payment_interrupted op) TRANSITIONS CREATED (payment_status_of db i) (payment_trail db i)
           (payment_status_of (payment_step absent db op) i) (payment_trail (payment_step absent db op) i)"
  using payment_step_cases [of absent db op]
proof (elim disjE exE conjE)
  assume "payment_step absent db op = db"
  then show ?thesis by (simp add: evolves_intros)
qed (auto intro: create_step_evolves [OF assms disjI1] create_step_evolves [OF assms disjI2]
    transition_step_evolves record_step_evolves)

interpretation payment_store: status_store "payment_step absent" payment_inv payment_status_of payment_trail
    TRANSITIONS CREATED payment_interrupted for absent
  by unfold_locales (auto intro: payment_step_inv payment_step_evolves)

lemma no_payments_faithful: "payment_store.faithful no_payments"
  by (simp add: payment_store.faithful_def payment_status_of_def payment_trail_def no_payments_def)

end
