(* ===== verification/Payments_Properties.thy ===== *)
theory Payments_Properties
  imports Payments_Laws
begin

text \<open>
  The properties of payments: well-formed rows, statuses that follow the transition table, what an
  idempotency key guarantees, and what an interruption or a race leaves behind. Each is evaluated
  on a small concrete history.
\<close>

section \<open>What later operations keep\<close>

lemma adapter_cases:
  assumes "adapterPaymentTransition absent i x y key r st db = Inr (db', s)"
  obtains (replayed) "recordPaymentTransition i x y key r st db = Inr (db', Some s)"
    | (moved) db1 p where "recordPaymentTransition i x y key r st db = Inr (db1, None)"
      "find_row py_id i (payments db') = Some p" "s = payment_snapshot_of p"
      "db' = update_payment i (\<lambda>p. p\<lparr>py_status := y,
            py_provider_reference := assign_column absent (py_provider_reference p) r,
            py_provider_status := assign_column absent (py_provider_status p) st\<rparr>) db1"
proof -
  obtain db1 q where rec: "recordPaymentTransition i x y key r st db = Inr (db1, q)"
    and rest: "(case q of Some p \<Rightarrow> Inr (db1, p) | None \<Rightarrow> applyPaymentTransition absent i y r st db1) = Inr (db', s)"
    using assms by (auto simp: adapterPaymentTransition_def andThen_Inr_iff)
  show thesis
  proof (cases q)
    case None
    with rest obtain p where "find_row py_id i (payments db') = Some p" "s = payment_snapshot_of p"
      "db' = update_payment i (\<lambda>p. p\<lparr>py_status := y,
            py_provider_reference := assign_column absent (py_provider_reference p) r,
            py_provider_status := assign_column absent (py_provider_status p) st\<rparr>) db1"
      by (auto simp: applyPaymentTransition_def Let_def split: option.splits)
    then show thesis using rec None by (intro moved) simp_all
  next
    case (Some p)
    then show thesis using rec rest by (intro replayed) simp
  qed
qed

lemma payment_step_transitions:
  "\<exists>ts. payment_transitions (payment_step absent db op) = payment_transitions db @ ts"
proof -
  have insert: "\<exists>ts. payment_transitions db' = payment_transitions db @ ts"
    if "recordPaymentTransition i x y key r st db = Inr (db', s)" for i x y key r st db' s
    using that by (cases rule: recordPaymentTransition_cases) (auto simp: insert_payment_transition_Inr)
  have create: "payment_transitions db' = payment_transitions db"
    if "createPayment_insert i c e db = Inr (db', s) \<or> createPayment i c e db = Inr (db', s)" for i c e db' s
    using that by (auto elim!: createPayment_insert_cases createPayment_cases simp: insert_payment_Inr)
  have full: "\<exists>ts. payment_transitions db' = payment_transitions db @ ts"
    if "adapterPaymentTransition absent i x y key r st db = Inr (db', s)" for i x y key r st db' s
    using that by (cases rule: adapter_cases) (auto simp: update_payment_def dest: insert)
  show ?thesis
    using payment_step_cases [of absent db op]
    by (elim disjE exE conjE) (auto dest: insert create [OF disjI1] create [OF disjI2] full)
qed

lemma payment_run_transitions:
  "\<exists>ts. payment_transitions (foldl (payment_step absent) db ops) = payment_transitions db @ ts"
proof (induction ops arbitrary: db)
  case (Cons op ops)
  obtain ts where "payment_transitions (payment_step absent db op) = payment_transitions db @ ts"
    using payment_step_transitions by blast
  moreover obtain us where "payment_transitions (foldl (payment_step absent) (payment_step absent db op) ops)
      = payment_transitions (payment_step absent db op) @ us"
    using Cons by blast
  ultimately show ?case by simp
qed simp

text \<open>What a payment keeps for ever: everything but its status and its provider fields.\<close>

definition payment_identity :: "payment_row \<Rightarrow> payment_row" where
  "payment_identity p = p\<lparr>py_status := CREATED, py_provider_reference := None, py_provider_status := None\<rparr>"

lemma payment_identity_eqD:
  assumes "payment_identity p = payment_identity q"
  shows "py_id p = py_id q" and "py_key p = py_key q" and "py_estate p = py_estate q"
    and "payment_command.truncate (payment_snapshot_of p) = payment_command.truncate (payment_snapshot_of q)"
  using assms
  by (cases p; cases q; simp add: payment_identity_def payment_snapshot_of_def payment_command.defs)+

lemma payment_step_keeps:
  assumes "find_row py_id i (payments db) = Some p"
  shows "\<exists>q. find_row py_id i (payments (payment_step absent db op)) = Some q \<and> payment_identity q = payment_identity p"
proof -
  have insert: "find_row py_id i (payments db') = Some p"
    if "recordPaymentTransition j x y key r st db = Inr (db', s)" for j x y key r st db' s
    using that assms by (cases rule: recordPaymentTransition_cases) (auto simp: insert_payment_transition_Inr)
  have create: "find_row py_id i (payments db') = Some p"
    if "createPayment_insert j c e db = Inr (db', s) \<or> createPayment j c e db = Inr (db', s)" for j c e db' s
    using that assms by (auto elim!: createPayment_insert_cases createPayment_cases simp: insert_payment_Inr)
  have full: "\<exists>q. find_row py_id i (payments db') = Some q \<and> payment_identity q = payment_identity p"
    if "adapterPaymentTransition absent j x y key r st db = Inr (db', s)" for j x y key r st db' s
    using that by (cases rule: adapter_cases)
      (auto simp: update_payment_def find_row_upd_row payment_identity_def dest: insert)
  show ?thesis
    using payment_step_cases [of absent db op] assms
    by (elim disjE exE conjE) (auto dest: insert create [OF disjI1] create [OF disjI2] full)
qed

lemma payment_run_keeps:
  "find_row py_id i (payments db) = Some p \<Longrightarrow>
   \<exists>q. find_row py_id i (payments (foldl (payment_step absent) db ops)) = Some q \<and> payment_identity q = payment_identity p"
proof (induction ops arbitrary: db p)
  case (Cons op ops)
  then show ?case using payment_step_keeps [OF Cons.prems, of absent op] by (metis foldl_Cons)
qed simp

lemma find_by_key:
  "payment_inv db \<Longrightarrow> find_row py_id i (payments db) = Some p \<Longrightarrow> findPaymentByKey (py_key p) db = Some (payment_snapshot_of p)"
  using find_row_SomeD [of py_id i "payments db" p] find_row_Some_iff [of py_key "payments db" "py_key p" p]
  by (auto simp: findPaymentByKey_Some payment_inv_def)

lemma find_by_key_id:
  "payment_inv db \<Longrightarrow> findPaymentByKey key db = Some s \<Longrightarrow>
   \<exists>p. find_row py_id (ps_id s) (payments db) = Some p \<and> py_key p = key \<and> s = payment_snapshot_of p"
  by (auto simp: findPaymentByKey_Some payment_inv_def payment_snapshot_of_def find_row_Some_iff)

lemma payment_reachable: "payment_inv (foldl (payment_step absent) no_payments ops)"
  by (rule payment_store.run_good [OF no_payments_inv])

section \<open>Properties\<close>

text \<open>
  Whatever calls were made, checks and inserts of concurrent initiations interleaved and
  transitions interrupted, every stored payment has a positive amount, exactly one party, the
  Digital Estate of that party, terms its method allows, and an idempotency key of its own.
\<close>

theorem stored_payments_are_well_formed:
  assumes "db = foldl (payment_step absent) no_payments ops" and "p \<in> set (payments db)"
  shows "0 < py_amount p \<and> is_safe_int (py_amount p) \<and> (py_terms p = PREPAID \<or> py_method p = INVOICE_TERMS) \<and>
     ((\<exists>g. py_organisation p = Some g \<and> g \<noteq> [] \<and> py_customer p = None \<and> py_estate p = ZURIBEANS_ESTATE) \<or>
      (\<exists>k. py_customer p = Some k \<and> k \<noteq> [] \<and> py_organisation p = None \<and> py_estate p = THAMANI_ESTATE)) \<and>
     (\<forall>q \<in> set (payments db). py_key q = py_key p \<longrightarrow> q = p)"
proof -
  have inv: "payment_inv db" using payment_reachable assms(1) by simp
  then have "payment_row_ok p" using assms(2) by (simp add: payment_inv_def)
  moreover have "q = p" if "q \<in> set (payments db)" "py_key q = py_key p" for q
    using inv assms(2) that by (auto simp: payment_inv_def distinct_map inj_on_def)
  ultimately show ?thesis
    unfolding payment_row_ok_def payment_checks_def one_party_def truthy_def
    by (cases "py_organisation p"; cases "py_customer p") (auto split: if_splits)
qed

text \<open>
  C34: As long as no transition is interrupted, the status of a payment is where its log leads: the
  logged transitions form a path of the transition table from CREATED to the stored status.
\<close>

theorem payment_status_follows_its_log:
  assumes "db = foldl (payment_step absent) no_payments ops" and "list_all (\<lambda>op. \<not> payment_interrupted op) ops"
    and "p \<in> set (payments db)"
  shows "path TRANSITIONS CREATED (payment_trail db (py_id p)) (py_status p)"
proof -
  have "find_row py_id (py_id p) (payments db) = Some p"
    using payment_reachable [of absent ops] assms(1,3) by (simp add: payment_inv_def find_row_Some_iff)
  then have "payment_status_of db (py_id p) = Some (py_status p)" by (simp add: payment_status_of_def)
  then show ?thesis
    using payment_store.run_path [OF no_payments_inv no_payments_faithful assms(2), of absent "py_id p" "py_status p"]
      assms(1) by simp
qed

text \<open>
  A payment that is SETTLED, FAILED or CANCELLED stays so, and its log is closed, whatever
  follows, interrupted or not.
\<close>

theorem final_payment_never_moves:
  assumes "db = foldl (payment_step absent) no_payments ops" and "payment_status_of db i = Some x"
    and "x \<in> {SETTLED, FAILED, CANCELLED}"
  shows "payment_status_of (foldl (payment_step absent) db rest) i = Some x \<and>
     payment_trail (foldl (payment_step absent) db rest) i = payment_trail db i"
proof -
  have "payment_inv db" using payment_reachable assms(1) by simp
  moreover have "TRANSITIONS x = []" using assms(3) by auto
  ultimately show ?thesis using payment_store.run_final [of db i x absent rest] assms(2) by blast
qed

text \<open>
  C35: An idempotency key initiates one payment for good. Once an initiation has succeeded, any later
  valid one with the same key answers, whatever its other contents and whatever happened between,
  with that payment as first commanded and writes nothing; from the other Digital Estate it is refused.
\<close>

theorem initiation_is_idempotent:
  assumes "payment_inv db" and "initiate i c db = Inr (db1, s)"
    and "db2 = foldl (payment_step absent) db1 ops"
    and "pc_key c' = pc_key c" and "validate_payment c' = Inr ()"
  shows "if payment_estate c' = ps_estate s
     then \<exists>s' :: payment_snapshot. initiate j c' db2 = Inr (db2, s') \<and> ps_id s' = ps_id s \<and> ps_estate s' = ps_estate s \<and>
        payment_command.truncate s' = payment_command.truncate s
     else initiate j c' db2 = Inl KeyAcrossEstates"
proof -
  have inv1: "payment_inv db1" using payment_step_inv [OF assms(1), of _ "Initiate i c"] assms(2) by (simp add: keep_db_def)
  have "findPaymentByKey (pc_key c) db1 = Some s"
    using assms(2) by (auto simp: initiate_Inr findPaymentByKey_def new_payment_def insert_payment_Inr
        payment_snapshot_of_def find_row_None_iff [THEN iffD2] split: option.splits
        elim!: createPayment_cases)
  with find_by_key_id [OF inv1] obtain p where p: "find_row py_id (ps_id s) (payments db1) = Some p"
    "py_key p = pc_key c" "s = payment_snapshot_of p" by blast
  obtain q where q: "find_row py_id (ps_id s) (payments db2) = Some q" "payment_identity q = payment_identity p"
    using payment_run_keeps [OF p(1)] assms(3) by blast
  note same = payment_identity_eqD [OF q(2)]
  have "payment_inv db2" using payment_store.run_good [OF inv1] assms(3) by simp
  then have "findPaymentByKey (pc_key c') db2 = Some (payment_snapshot_of q)"
    using find_by_key q(1) same(2) p(2) assms(4) by metis
  then show ?thesis
    using same p(3) assms(5) by (auto simp: initiate_def initiate_check_def payment_snapshot_of_def)
qed

text \<open>
  The port's refusal of another Digital Estate's key does not survive a race. When two valid
  initiations of different estates with one key have both passed their check before either row
  exists, the second \<open>create\<close> answers with the first one's payment.
\<close>

theorem racing_initiation_crosses_estates:
  assumes "initiate_check c db = Inr None" and "initiate_check c' db = Inr None"
    and "pc_key c' = pc_key c" and "payment_estate c' \<noteq> payment_estate c"
    and "createPayment i c (payment_estate c) db = Inr (db1, s)"
  shows "createPayment j c' (payment_estate c') db1 = Inr (db1, s) \<and> ps_estate s \<noteq> payment_estate c'"
proof -
  have "findPaymentByKey (pc_key c) db = None" using assms(1) by (simp add: initiate_check_Inr)
  then have "findPaymentByKey (pc_key c) db1 = Some s \<and> ps_estate s = payment_estate c"
    using assms(5)
    by (auto simp: findPaymentByKey_def new_payment_def insert_payment_Inr payment_snapshot_of_def
        elim!: createPayment_cases)
  then show ?thesis using assms(3,4) by (simp add: createPayment_def)
qed

text \<open>
  A transition that stops after its log row is written is never applied under its key: a retry,
  at once or after any other calls, reports the payment as stored and changes nothing. At once, that
  is the payment in its old status.
\<close>

theorem interrupted_transition_is_never_applied:
  assumes "recordPaymentTransition i x y key r st db = Inr (db1, None)"
    and "db2 = foldl (payment_step absent) db1 ops"
  shows "\<exists>s :: payment_snapshot. adapterPaymentTransition absent i x y key r' st' db2 = Inr (db2, s) \<and>
     (ops = [] \<longrightarrow> ps_status s = x)"
  using assms(1)
proof (cases rule: recordPaymentTransition_cases)
  case (recorded p)
  let ?t = "\<lparr>pt_payment = i, pt_from = x, pt_to = y, pt_key = key, pt_provider_reference = r, pt_provider_status = st\<rparr>"
  have "find_row pt_key key (payment_transitions db1) = Some ?t" and p1: "find_row py_id i (payments db1) = Some p"
    using recorded by (auto simp: insert_payment_transition_Inr find_row_None_iff [THEN iffD2])
  then have t: "find_row pt_key key (payment_transitions db2) = Some ?t"
    using payment_run_transitions [of absent db1 ops] assms(2) by auto
  obtain q where "find_row py_id i (payments db2) = Some q" using payment_run_keeps [OF p1] assms(2) by blast
  moreover have "ops = [] \<Longrightarrow> q = p" using calculation p1 assms(2) by simp
  ultimately show ?thesis
    using t recorded(2)
    by (simp add: adapterPaymentTransition_def recordPaymentTransition_def payment_snapshot_of_def)
qed simp

end
