(* ===== verification/Payments_Example.thy ===== *)
theory Payments_Example
  imports Payments_Properties
begin

text \<open>
  A small history of payments, on which the properties of \<open>Payments_Properties\<close> are evaluated.
\<close>

definition order_payment :: payment_command where
  "order_payment =
     \<lparr>pc_reference = ''pay-ref-1'', pc_order = ''order-1'', pc_organisation = Some ''org-1'', pc_customer = None,
      pc_market = ''zuribeans-ug'', pc_seller = ''zuribeans-uganda'', pc_method = BANK_TRANSFER,
      pc_terms = PREPAID, pc_provider = ''medusa-manual-ug'', pc_currency = ''UGX'', pc_amount = JInt 2500,
      pc_key = ''key-1'', pc_correlation = ''corr-1'', pc_due = None\<rparr>"

definition retail_payment :: payment_command where
  "retail_payment = order_payment\<lparr>pc_reference := ''pay-ref-2'', pc_organisation := None,
     pc_customer := Some ''customer-1'', pc_amount := JInt 90\<rparr>"

definition kept :: "string option \<Rightarrow> string option" where
  "kept old = old"

definition initiated_payment :: payment_row where
  "initiated_payment = new_payment ''pay_1'' order_payment ZURIBEANS_ESTATE 2500"

definition payment_stage :: "payment_status \<Rightarrow> payment_snapshot" where
  "payment_stage x = payment_snapshot_of (initiated_payment\<lparr>py_status := x\<rparr>)"

definition settled_run :: "payment_op list" where
  "settled_run =
     [Initiate ''pay_1'' order_payment,
      Transition (payment_stage CREATED) PENDING ''t1'' None None,
      Transition (payment_stage PENDING) CAPTURED ''t2'' (Some ''psp-9'') None,
      Transition (payment_stage CAPTURED) SETTLED ''t3'' None (Some ''OK'')]"

definition settled_payment :: payment_row where
  "settled_payment = initiated_payment\<lparr>py_status := SETTLED, py_provider_reference := Some ''psp-9'',
     py_provider_status := Some ''OK''\<rparr>"

lemma settled_run_payments: "payments (foldl (payment_step kept) no_payments settled_run) = [settled_payment]"
  by code_simp

lemma stored_payments_are_well_formed_witness:
  "payments (foldl (payment_step kept) no_payments settled_run) = [settled_payment] \<and> 0 < py_amount settled_payment"
  using stored_payments_are_well_formed [OF refl, of settled_payment kept settled_run] settled_run_payments by simp

lemma payment_status_follows_its_log_witness:
  "path TRANSITIONS CREATED (payment_trail (foldl (payment_step kept) no_payments settled_run) ''pay_1'') SETTLED \<and>
   payment_trail (foldl (payment_step kept) no_payments settled_run) ''pay_1'' =
     [(CREATED, PENDING), (PENDING, CAPTURED), (CAPTURED, SETTLED)]"
proof -
  have "list_all (\<lambda>op. \<not> payment_interrupted op) settled_run" by code_simp
  moreover have "settled_payment \<in> set (payments (foldl (payment_step kept) no_payments settled_run))"
    by (simp add: settled_run_payments)
  moreover have "py_id settled_payment = ''pay_1''" "py_status settled_payment = SETTLED" by code_simp+
  moreover have "payment_trail (foldl (payment_step kept) no_payments settled_run) ''pay_1'' =
     [(CREATED, PENDING), (PENDING, CAPTURED), (CAPTURED, SETTLED)]" by code_simp
  ultimately show ?thesis
    using payment_status_follows_its_log [OF refl, of settled_run settled_payment kept] by simp
qed

lemma final_payment_never_moves_witness:
  "payment_status_of (foldl (payment_step kept) (foldl (payment_step kept) no_payments settled_run)
     [Transition (payment_stage CAPTURED) UNKNOWN ''t4'' None None]) ''pay_1'' = Some SETTLED"
proof -
  have "payment_status_of (foldl (payment_step kept) no_payments settled_run) ''pay_1'' = Some SETTLED" by code_simp
  then show ?thesis
    using final_payment_never_moves [OF refl, of kept settled_run "''pay_1''" SETTLED
        "[Transition (payment_stage CAPTURED) UNKNOWN ''t4'' None None]"] by simp
qed

definition one_payment :: payment_db where
  "one_payment = \<lparr>payments = [initiated_payment], payment_transitions = []\<rparr>"

lemma initiate_order_payment:
  "initiate ''pay_1'' order_payment no_payments = Inr (one_payment, payment_stage CREATED)"
  by code_simp

lemma initiation_is_idempotent_witness:
  "\<exists>s :: payment_snapshot. initiate ''pay_7'' order_payment (foldl (payment_step kept) one_payment (tl settled_run)) =
     Inr (foldl (payment_step kept) one_payment (tl settled_run), s) \<and> ps_id s = ''pay_1''"
proof -
  have "validate_payment order_payment = Inr ()" by code_simp
  moreover have "payment_estate order_payment = ps_estate (payment_stage CREATED)" by code_simp
  moreover have "ps_id (payment_stage CREATED) = ''pay_1''" by code_simp
  ultimately show ?thesis
    using initiation_is_idempotent [OF no_payments_inv initiate_order_payment refl refl,
        where absent = kept and ops = "tl settled_run" and j = "''pay_7''"]
    by auto
qed

lemma racing_initiation_crosses_estates_witness:
  "createPayment ''pay_2'' retail_payment THAMANI_ESTATE one_payment = Inr (one_payment, payment_stage CREATED) \<and>
   ps_estate (payment_stage CREATED) = ZURIBEANS_ESTATE"
proof -
  have "initiate_check order_payment no_payments = Inr None" "initiate_check retail_payment no_payments = Inr None"
    "pc_key retail_payment = pc_key order_payment" "payment_estate retail_payment \<noteq> payment_estate order_payment"
    "createPayment ''pay_1'' order_payment (payment_estate order_payment) no_payments = Inr (one_payment, payment_stage CREATED)"
    by code_simp+
  note racing_initiation_crosses_estates [OF this, of "''pay_2''"]
  moreover have "payment_estate retail_payment = THAMANI_ESTATE" "ps_estate (payment_stage CREATED) = ZURIBEANS_ESTATE"
    by code_simp+
  ultimately show ?thesis by simp
qed

lemma interrupted_transition_is_never_applied_witness:
  "\<exists>s :: payment_snapshot. adapterPaymentTransition kept ''pay_1'' CREATED PENDING ''t1'' None None
       (one_payment\<lparr>payment_transitions := [\<lparr>pt_payment = ''pay_1'', pt_from = CREATED, pt_to = PENDING, pt_key = ''t1'',
          pt_provider_reference = None, pt_provider_status = None\<rparr>]\<rparr>) =
     Inr (one_payment\<lparr>payment_transitions := [\<lparr>pt_payment = ''pay_1'', pt_from = CREATED, pt_to = PENDING, pt_key = ''t1'',
          pt_provider_reference = None, pt_provider_status = None\<rparr>]\<rparr>, s) \<and> ps_status s = CREATED"
proof -
  let ?db = "one_payment\<lparr>payment_transitions := [\<lparr>pt_payment = ''pay_1'', pt_from = CREATED, pt_to = PENDING, pt_key = ''t1'',
          pt_provider_reference = None, pt_provider_status = None\<rparr>]\<rparr>"
  have "recordPaymentTransition ''pay_1'' CREATED PENDING ''t1'' None None one_payment = Inr (?db, None)" by code_simp
  then show ?thesis
    using interrupted_transition_is_never_applied [where absent = kept and ops = "[]" and r' = None and st' = None, OF _ refl]
    by fastforce
qed

end
