(* ===== verification/Payments_Policy.thy ===== *)
theory Payments_Policy
  imports Payments
begin

text \<open>
  The provider policies of \<open>src/src/baobab/payments/payment-config.ts\<close> and the comparison with the ERP
  of \<open>reconciliation.ts\<close>.
\<close>

section \<open>Providers\<close>

datatype payment_provider_kind = MEDUSA_NATIVE | REGIONAL_ADAPTER

record payment_provider_binding =
  pb_key :: string
  pb_kind :: payment_provider_kind
  pb_enabled :: bool
  pb_currencies :: "string list"
  pb_methods :: "payment_method list"

record payment_policy =
  pp_market :: string
  pp_currency :: string
  pp_seller :: string
  pp_default_terms :: payment_terms
  pp_allowed_terms :: "payment_terms list"
  pp_providers :: "payment_provider_binding list"

datatype provider_error = CurrencyNotValid | NoProvider

definition resolvePaymentProvider ::
    "payment_policy \<Rightarrow> payment_method \<Rightarrow> string \<Rightarrow> provider_error + payment_provider_binding" where
  "resolvePaymentProvider policy m currency =
     (if currency \<noteq> pp_currency policy then Inl CurrencyNotValid
      else case List.find (\<lambda>b. pb_enabled b \<and> currency \<in> set (pb_currencies b) \<and> m \<in> set (pb_methods b))
               (pp_providers policy) of
             None \<Rightarrow> Inl NoProvider
           | Some b \<Rightarrow> Inr b)"

definition ZURIBEANS_PAYMENT_POLICIES :: "payment_policy list" where
  "ZURIBEANS_PAYMENT_POLICIES =
     [\<lparr>pp_market = ''zuribeans-ug'', pp_currency = ''UGX'', pp_seller = ''zuribeans-uganda'',
       pp_default_terms = PREPAID, pp_allowed_terms = [PREPAID, DUE_ON_RECEIPT, NET_7, NET_14, NET_30],
       pp_providers =
         [\<lparr>pb_key = ''medusa-manual-ug'', pb_kind = MEDUSA_NATIVE, pb_enabled = True, pb_currencies = [''UGX''],
           pb_methods = [BANK_TRANSFER, MANUAL_SETTLEMENT, INVOICE_TERMS]\<rparr>,
          \<lparr>pb_key = ''mtn-momo-uganda'', pb_kind = REGIONAL_ADAPTER, pb_enabled = False, pb_currencies = [''UGX''],
           pb_methods = [SELECTED_PSP]\<rparr>]\<rparr>,
      \<lparr>pp_market = ''zuribeans-za'', pp_currency = ''ZAR'', pp_seller = ''zuribeans-south-africa'',
       pp_default_terms = PREPAID, pp_allowed_terms = [PREPAID, DUE_ON_RECEIPT, NET_7, NET_14, NET_30],
       pp_providers =
         [\<lparr>pb_key = ''medusa-manual-za'', pb_kind = MEDUSA_NATIVE, pb_enabled = True, pb_currencies = [''ZAR''],
           pb_methods = [BANK_TRANSFER, MANUAL_SETTLEMENT, INVOICE_TERMS]\<rparr>,
          \<lparr>pb_key = ''peach-payments-south-africa'', pb_kind = REGIONAL_ADAPTER, pb_enabled = False, pb_currencies = [''ZAR''],
           pb_methods = [SELECTED_PSP]\<rparr>]\<rparr>]"

lemma resolved_provider_serves:
  "resolvePaymentProvider policy m currency = Inr b \<Longrightarrow>
   b \<in> set (pp_providers policy) \<and> pb_enabled b \<and> currency = pp_currency policy \<and>
   currency \<in> set (pb_currencies b) \<and> m \<in> set (pb_methods b)"
  by (auto simp: resolvePaymentProvider_def find_Some_iff split: if_splits option.splits)

lemma no_provider_iff:
  "resolvePaymentProvider policy m (pp_currency policy) = Inl e \<longleftrightarrow>
   e = NoProvider \<and> (\<forall>b \<in> set (pp_providers policy). pb_enabled b \<longrightarrow>
     pp_currency policy \<in> set (pb_currencies b) \<longrightarrow> m \<notin> set (pb_methods b))"
  by (auto simp: resolvePaymentProvider_def find_None_iff find_Some_iff split: option.splits)

text \<open>With the shipped policies every method but a payment service provider has a provider.\<close>

lemma shipped_payment_providers:
  "list_all (\<lambda>p. list_all (\<lambda>m.
     (resolvePaymentProvider p m (pp_currency p) = Inl NoProvider) = (m = SELECTED_PSP))
       [BANK_TRANSFER, MANUAL_SETTLEMENT, INVOICE_TERMS, SELECTED_PSP]) ZURIBEANS_PAYMENT_POLICIES"
  by code_simp

section \<open>Comparison with the ERP\<close>

fun payment_status_text :: "payment_status \<Rightarrow> string" where
  "payment_status_text CREATED = ''CREATED''"
| "payment_status_text PENDING = ''PENDING''"
| "payment_status_text AUTHORIZED = ''AUTHORIZED''"
| "payment_status_text CAPTURED = ''CAPTURED''"
| "payment_status_text SETTLED = ''SETTLED''"
| "payment_status_text FAILED = ''FAILED''"
| "payment_status_text CANCELLED = ''CANCELLED''"
| "payment_status_text UNKNOWN = ''UNKNOWN''"

record erp_view =
  erp_status :: "string option"
  erp_amount :: "int option"
  erp_currency :: "string option"

datatype erp_match = MATCHED | VARIANCE | PENDING_ERP

datatype erp_reason = ERP_MISSING | AMOUNT_MISMATCH | CURRENCY_MISMATCH | STATUS_MISMATCH

record erp_result =
  er_status :: erp_match
  er_delta :: int
  er_reasons :: "erp_reason list"

text \<open>
  \<open>None\<close> is the thrown error of an amount that is not a positive safe integer. The amount the ERP
  reports in minor units is an integer.
\<close>

definition reconcilePaymentWithErp :: "payment_status \<Rightarrow> js_number \<Rightarrow> string \<Rightarrow> erp_view \<Rightarrow> erp_result option" where
  "reconcilePaymentWithErp status amount currency erp =
     (case amount of
        JNonInt \<Rightarrow> None
      | JInt n \<Rightarrow>
          if \<not> is_safe_int n \<or> n \<le> 0 then None
          else if \<not> truthy (erp_status erp) then
            Some \<lparr>er_status = PENDING_ERP, er_delta = n, er_reasons = [ERP_MISSING]\<rparr>
          else
            let erpAmount = (case erp_amount erp of None \<Rightarrow> 0 | Some a \<Rightarrow> a);
                reasons = (if erpAmount \<noteq> n then [AMOUNT_MISMATCH] else []) @
                  (if erp_currency erp \<noteq> Some currency then [CURRENCY_MISMATCH] else []) @
                  (if erp_status erp \<noteq> Some (payment_status_text status) then [STATUS_MISMATCH] else [])
            in Some \<lparr>er_status = (if reasons \<noteq> [] then VARIANCE else MATCHED), er_delta = n - erpAmount,
                     er_reasons = reasons\<rparr>)"

lemma reconciled_iff_equal:
  "(\<exists>r. reconcilePaymentWithErp status amount currency erp = Some r \<and> er_status r = MATCHED) \<longleftrightarrow>
   (\<exists>n. amount = JInt n \<and> is_safe_int n \<and> 0 < n \<and>
     erp = \<lparr>erp_status = Some (payment_status_text status), erp_amount = Some n, erp_currency = Some currency\<rparr>)"
proof (cases amount)
  case (JInt n)
  have named: "payment_status_text status \<noteq> []" by (cases status) simp_all
  show ?thesis
  proof (cases erp)
    case (fields s a c)
    then show ?thesis using JInt named
      by (cases a) (auto simp: reconcilePaymentWithErp_def truthy_def Let_def)
  qed
qed (simp add: reconcilePaymentWithErp_def)

end
