(* ===== verification/Fulfilment.thy ===== *)
theory Fulfilment
  imports Complex_Main Trade_Party
begin

text \<open>
  Fulfilments: the port \<open>src/src/baobab/fulfilment/fulfilment-port.ts\<close>, its record adapter
  \<open>record-adapter.ts\<close> over the tables of \<open>src/src/modules/fulfilment-bridge/migrations/\<close>, the provider
  policies and the comparison with the execution record. As for payments, each service call is a
  transaction of its own; row identifiers and the values stored for a column an update names without
  a value are arguments; transition identifiers and times are left out.
\<close>

section \<open>Data\<close>

datatype incoterm = EXW | FCA | FOB | CFR | CIF | DAP | DPU | DDP

datatype fulfilment_status =
  REQUESTED | ACCEPTED | ALLOCATED | DISPATCHED | DELIVERED | CANCELLED | EXCEPTION | RECONCILIATION_REQUIRED

datatype fulfilment_mode = LOCAL_DELIVERY | PARCEL_SHIPMENT | BULK_FREIGHT | CROSS_BORDER | CUSTOMER_COLLECTION

text \<open>A weight is a finite number or NaN; an infinite one has no JSON text and is left out.\<close>

datatype weight = Kilograms rat | NotANumber

record shipment_metadata =
  sh_origin :: string
  sh_destination :: string
  sh_exporter :: "string option"
  sh_importer :: "string option"
  sh_hs :: "string list option"
  sh_compliance :: "string option"
  sh_incoterm :: "incoterm option"
  sh_weight :: weight
  sh_packages :: js_number
  sh_export :: "string option"
  sh_customs :: "string option"

record fulfilment_command =
  fc_reference :: string
  fc_order :: string
  fc_organisation :: "string option"
  fc_customer :: "string option"
  fc_market :: string
  fc_seller :: string
  fc_location :: string
  fc_mode :: fulfilment_mode
  fc_provider :: string
  fc_shipment :: shipment_metadata
  fc_key :: string
  fc_correlation :: string

record fulfilment_evidence =
  fe_shipment :: "string option"
  fe_carrier :: "string option"
  fe_tracking :: "string option"
  fe_url :: "string option"
  fe_dispatch :: "instant option"
  fe_delivery :: "instant option"

record fulfilment_snapshot = fulfilment_command +
  fs_id :: string
  fs_estate :: string
  fs_status :: fulfilment_status
  fs_evidence :: fulfilment_evidence

datatype fulfilment_error =
    NotOneParty
  | NotPositive
  | SameCountry
  | IncompleteMetadata
  | KeyAcrossEstates
  | InvalidTransition fulfilment_status fulfilment_status
  | DispatchEvidenceMissing
  | DeliveryEvidenceMissing
  | FulfilmentMissing
  | KeyReused
  | StateChanged
  | UniqueViolation
  | ConstraintViolation

fun TRANSITIONS :: "fulfilment_status \<Rightarrow> fulfilment_status list" where
  "TRANSITIONS REQUESTED = [ACCEPTED, CANCELLED, EXCEPTION, RECONCILIATION_REQUIRED]"
| "TRANSITIONS ACCEPTED = [ALLOCATED, CANCELLED, EXCEPTION, RECONCILIATION_REQUIRED]"
| "TRANSITIONS ALLOCATED = [DISPATCHED, EXCEPTION, RECONCILIATION_REQUIRED]"
| "TRANSITIONS DISPATCHED = [DELIVERED, EXCEPTION, RECONCILIATION_REQUIRED]"
| "TRANSITIONS DELIVERED = []"
| "TRANSITIONS CANCELLED = []"
| "TRANSITIONS EXCEPTION = [RECONCILIATION_REQUIRED, ACCEPTED, ALLOCATED, DISPATCHED]"
| "TRANSITIONS RECONCILIATION_REQUIRED = [ACCEPTED, ALLOCATED, DISPATCHED, DELIVERED, CANCELLED]"

section \<open>Tables\<close>

text \<open>The six evidence columns of a row are kept as one \<open>fulfilment_evidence\<close>.\<close>

record fulfilment_row =
  fr_id :: string
  fr_estate :: string
  fr_reference :: string
  fr_order :: string
  fr_organisation :: "string option"
  fr_customer :: "string option"
  fr_market :: string
  fr_seller :: string
  fr_location :: string
  fr_mode :: fulfilment_mode
  fr_provider :: string
  fr_status :: fulfilment_status
  fr_shipment :: shipment_metadata
  fr_evidence :: fulfilment_evidence
  fr_key :: string
  fr_correlation :: string

record fulfilment_transition_row =
  ft_fulfilment :: string
  ft_from :: fulfilment_status
  ft_to :: fulfilment_status
  ft_key :: string
  ft_evidence :: fulfilment_evidence

record fulfilment_db =
  fulfilments :: "fulfilment_row list"
  fulfilment_transitions :: "fulfilment_transition_row list"

definition no_fulfilments :: fulfilment_db where
  "no_fulfilments = \<lparr>fulfilments = [], fulfilment_transitions = []\<rparr>"

definition fulfilment_checks :: "fulfilment_row \<Rightarrow> bool" where
  "fulfilment_checks f \<longleftrightarrow> one_party (fr_organisation f) (fr_customer f) \<and>
     fr_estate f \<in> {ZURIBEANS_ESTATE, THAMANI_ESTATE}"

definition insert_fulfilment :: "fulfilment_row \<Rightarrow> fulfilment_db \<Rightarrow> fulfilment_error + fulfilment_db" where
  "insert_fulfilment f db =
     (if \<not> fulfilment_checks f then Inl ConstraintViolation
      else if list_ex (\<lambda>g. fr_id g = fr_id f \<or> fr_reference g = fr_reference f \<or> fr_key g = fr_key f) (fulfilments db)
      then Inl UniqueViolation
      else Inr (db\<lparr>fulfilments := fulfilments db @ [f]\<rparr>))"

text \<open>
  The unique index is on the fulfilment and the key since \<open>Migration20260909170000\<close>.
\<close>

definition transition_key :: "fulfilment_transition_row \<Rightarrow> string \<times> string" where
  "transition_key t = (ft_fulfilment t, ft_key t)"

definition insert_fulfilment_transition ::
    "fulfilment_transition_row \<Rightarrow> fulfilment_db \<Rightarrow> fulfilment_error + fulfilment_db" where
  "insert_fulfilment_transition t db =
     (if find_row transition_key (transition_key t) (fulfilment_transitions db) \<noteq> None then Inl UniqueViolation
      else if find_row fr_id (ft_fulfilment t) (fulfilments db) = None then Inl ConstraintViolation
      else Inr (db\<lparr>fulfilment_transitions := fulfilment_transitions db @ [t]\<rparr>))"

section \<open>The record adapter\<close>

definition fulfilment_snapshot_of :: "fulfilment_row \<Rightarrow> fulfilment_snapshot" where
  "fulfilment_snapshot_of f =
     \<lparr>fc_reference = fr_reference f, fc_order = fr_order f, fc_organisation = fr_organisation f,
      fc_customer = fr_customer f, fc_market = fr_market f, fc_seller = fr_seller f,
      fc_location = fr_location f, fc_mode = fr_mode f, fc_provider = fr_provider f,
      fc_shipment = fr_shipment f, fc_key = fr_key f, fc_correlation = fr_correlation f,
      fs_id = fr_id f, fs_estate = fr_estate f, fs_status = fr_status f, fs_evidence = fr_evidence f\<rparr>"

definition findFulfilmentByKey :: "string \<Rightarrow> fulfilment_db \<Rightarrow> fulfilment_snapshot option" where
  "findFulfilmentByKey key db = map_option fulfilment_snapshot_of (find_row fr_key key (fulfilments db))"

definition no_evidence :: fulfilment_evidence where
  "no_evidence = \<lparr>fe_shipment = None, fe_carrier = None, fe_tracking = None, fe_url = None,
     fe_dispatch = None, fe_delivery = None\<rparr>"

definition new_fulfilment :: "string \<Rightarrow> fulfilment_command \<Rightarrow> string \<Rightarrow> fulfilment_row" where
  "new_fulfilment i c estate =
     \<lparr>fr_id = i, fr_estate = estate, fr_reference = fc_reference c, fr_order = fc_order c,
      fr_organisation = fc_organisation c, fr_customer = fc_customer c, fr_market = fc_market c,
      fr_seller = fc_seller c, fr_location = fc_location c, fr_mode = fc_mode c,
      fr_provider = fc_provider c, fr_status = REQUESTED, fr_shipment = fc_shipment c,
      fr_evidence = no_evidence, fr_key = fc_key c, fr_correlation = fc_correlation c\<rparr>"

definition createFulfilment_insert ::
    "string \<Rightarrow> fulfilment_command \<Rightarrow> string \<Rightarrow> fulfilment_db \<Rightarrow>
     fulfilment_error + fulfilment_db \<times> fulfilment_snapshot" where
  "createFulfilment_insert i c estate db =
     (case insert_fulfilment (new_fulfilment i c estate) db of
        Inr db' \<Rightarrow> Inr (db', fulfilment_snapshot_of (new_fulfilment i c estate))
      | Inl e \<Rightarrow>
          if e \<noteq> UniqueViolation then Inl e
          else (case findFulfilmentByKey (fc_key c) db of None \<Rightarrow> Inl e | Some f \<Rightarrow> Inr (db, f)))"

definition createFulfilment ::
    "string \<Rightarrow> fulfilment_command \<Rightarrow> string \<Rightarrow> fulfilment_db \<Rightarrow>
     fulfilment_error + fulfilment_db \<times> fulfilment_snapshot" where
  "createFulfilment i c estate db =
     (case findFulfilmentByKey (fc_key c) db of
        Some f \<Rightarrow> Inr (db, f)
      | None \<Rightarrow> createFulfilment_insert i c estate db)"

text \<open>
  \<open>transition\<close> in three parts. The check answers a replay, refuses, or goes on; the write of the
  transition row has its own handler for a unique violation, which only a lock that does not
  exclude can bring about; the last part moves the fulfilment.
\<close>

definition checkFulfilmentTransition ::
    "fulfilment_snapshot \<Rightarrow> fulfilment_status \<Rightarrow> string \<Rightarrow> fulfilment_db \<Rightarrow>
     fulfilment_error + fulfilment_snapshot option" where
  "checkFulfilmentTransition current to key db =
     (case find_row fr_id (fs_id current) (fulfilments db) of
        None \<Rightarrow> Inl FulfilmentMissing
      | Some stored \<Rightarrow>
          (case find_row transition_key (fs_id current, key) (fulfilment_transitions db) of
             Some prior \<Rightarrow>
               if ft_from prior \<noteq> fr_status stored \<or> ft_to prior \<noteq> to then Inl KeyReused
               else Inr (Some (fulfilment_snapshot_of stored))
           | None \<Rightarrow>
               if fr_status stored \<noteq> fs_status current then Inl StateChanged else Inr None))"

definition writeFulfilmentTransition ::
    "fulfilment_snapshot \<Rightarrow> fulfilment_status \<Rightarrow> string \<Rightarrow> fulfilment_evidence \<Rightarrow> fulfilment_db \<Rightarrow>
     fulfilment_error + fulfilment_db \<times> fulfilment_snapshot option" where
  "writeFulfilmentTransition current to key evidence db =
     (case insert_fulfilment_transition
             \<lparr>ft_fulfilment = fs_id current, ft_from = fs_status current, ft_to = to, ft_key = key,
              ft_evidence = evidence\<rparr> db of
        Inr db' \<Rightarrow> Inr (db', None)
      | Inl e \<Rightarrow>
          if e \<noteq> UniqueViolation then Inl e
          else case find_row transition_key (fs_id current, key) (fulfilment_transitions db) of
            None \<Rightarrow> Inl e
          | Some raced \<Rightarrow>
              if ft_from raced \<noteq> fs_status current \<or> ft_to raced \<noteq> to then Inl e
              else case find_row fr_id (fs_id current) (fulfilments db) of
                None \<Rightarrow> Inl e
              | Some stored \<Rightarrow> Inr (db, Some (fulfilment_snapshot_of stored)))"

definition assign_evidence ::
    "(string option \<Rightarrow> string option) \<Rightarrow> (instant option \<Rightarrow> instant option) \<Rightarrow>
     fulfilment_evidence \<Rightarrow> fulfilment_evidence \<Rightarrow> fulfilment_evidence" where
  "assign_evidence no_text no_date old e =
     \<lparr>fe_shipment = assign_column no_text (fe_shipment old) (fe_shipment e),
      fe_carrier = assign_column no_text (fe_carrier old) (fe_carrier e),
      fe_tracking = assign_column no_text (fe_tracking old) (fe_tracking e),
      fe_url = assign_column no_text (fe_url old) (fe_url e),
      fe_dispatch = assign_column no_date (fe_dispatch old) (fe_dispatch e),
      fe_delivery = assign_column no_date (fe_delivery old) (fe_delivery e)\<rparr>"

definition applyFulfilmentTransition ::
    "(string option \<Rightarrow> string option) \<Rightarrow> (instant option \<Rightarrow> instant option) \<Rightarrow> string \<Rightarrow> fulfilment_status \<Rightarrow>
     fulfilment_evidence \<Rightarrow> fulfilment_db \<Rightarrow> fulfilment_error + fulfilment_db \<times> fulfilment_snapshot" where
  "applyFulfilmentTransition no_text no_date i to evidence db =
     (let db' = db\<lparr>fulfilments := upd_row fr_id i (\<lambda>f. f\<lparr>fr_status := to,
            fr_evidence := assign_evidence no_text no_date (fr_evidence f) evidence\<rparr>) (fulfilments db)\<rparr>
      in case find_row fr_id i (fulfilments db') of
           None \<Rightarrow> Inl FulfilmentMissing
         | Some f \<Rightarrow> Inr (db', fulfilment_snapshot_of f))"

text \<open>The check and the write, after which an interruption may fall.\<close>

definition recordFulfilmentTransition ::
    "fulfilment_snapshot \<Rightarrow> fulfilment_status \<Rightarrow> string \<Rightarrow> fulfilment_evidence \<Rightarrow> fulfilment_db \<Rightarrow>
     fulfilment_error + fulfilment_db \<times> fulfilment_snapshot option" where
  "recordFulfilmentTransition current to key evidence db =
     andThen (checkFulfilmentTransition current to key db) (\<lambda>replay.
       case replay of
         Some f \<Rightarrow> Inr (db, Some f)
       | None \<Rightarrow> writeFulfilmentTransition current to key evidence db)"

definition adapterFulfilmentTransition ::
    "(string option \<Rightarrow> string option) \<Rightarrow> (instant option \<Rightarrow> instant option) \<Rightarrow> fulfilment_snapshot \<Rightarrow>
     fulfilment_status \<Rightarrow> string \<Rightarrow> fulfilment_evidence \<Rightarrow> fulfilment_db \<Rightarrow>
     fulfilment_error + fulfilment_db \<times> fulfilment_snapshot" where
  "adapterFulfilmentTransition no_text no_date current to key evidence db =
     andThen (recordFulfilmentTransition current to key evidence db) (\<lambda>(db', replay).
       case replay of
         Some f \<Rightarrow> Inr (db', f)
       | None \<Rightarrow> applyFulfilmentTransition no_text no_date (fs_id current) to evidence db')"

section \<open>The port\<close>

definition positive_weight :: "weight \<Rightarrow> bool" where
  "positive_weight w = (case w of Kilograms k \<Rightarrow> 0 < k | NotANumber \<Rightarrow> False)"

definition positive_count :: "js_number \<Rightarrow> bool" where
  "positive_count n = (case n of JInt k \<Rightarrow> 0 < k | JNonInt \<Rightarrow> False)"

definition validateShipment :: "fulfilment_command \<Rightarrow> fulfilment_error + unit" where
  "validateShipment c =
     (let s = fc_shipment c in
      andThen (ensure (truthy (fc_organisation c) \<noteq> truthy (fc_customer c)) NotOneParty) (\<lambda>_.
      andThen (ensure (positive_weight (sh_weight s) \<and> positive_count (sh_packages s)) NotPositive) (\<lambda>_.
      if fc_mode c \<noteq> CROSS_BORDER then Inr ()
      else
        andThen (ensure (sh_origin s \<noteq> sh_destination s) SameCountry) (\<lambda>_.
        ensure (truthy (sh_exporter s) \<and> truthy (sh_importer s) \<and> sh_incoterm s \<noteq> None \<and>
                sh_hs s \<noteq> None \<and> sh_hs s \<noteq> Some [] \<and> truthy (sh_compliance s)) IncompleteMetadata))))"

definition fulfilment_estate :: "fulfilment_command \<Rightarrow> string" where
  "fulfilment_estate c = (if truthy (fc_organisation c) then ZURIBEANS_ESTATE else THAMANI_ESTATE)"

definition request_check :: "fulfilment_command \<Rightarrow> fulfilment_db \<Rightarrow> fulfilment_error + fulfilment_snapshot option" where
  "request_check c db =
     andThen (validateShipment c) (\<lambda>_.
       case findFulfilmentByKey (fc_key c) db of
         Some f \<Rightarrow> if fs_estate f \<noteq> fulfilment_estate c then Inl KeyAcrossEstates else Inr (Some f)
       | None \<Rightarrow> Inr None)"

definition request ::
    "string \<Rightarrow> fulfilment_command \<Rightarrow> fulfilment_db \<Rightarrow> fulfilment_error + fulfilment_db \<times> fulfilment_snapshot" where
  "request i c db =
     andThen (request_check c db) (\<lambda>existing.
       case existing of
         Some f \<Rightarrow> Inr (db, f)
       | None \<Rightarrow> createFulfilment i c (fulfilment_estate c) db)"

definition fulfilment_transition_guard ::
    "fulfilment_snapshot \<Rightarrow> fulfilment_status \<Rightarrow> fulfilment_evidence \<Rightarrow> fulfilment_error + unit" where
  "fulfilment_transition_guard current to evidence =
     andThen (ensure (to \<in> set (TRANSITIONS (fs_status current))) (InvalidTransition (fs_status current) to)) (\<lambda>_.
     andThen (ensure (to \<noteq> DISPATCHED \<or> (truthy (fe_shipment evidence) \<and> fe_dispatch evidence \<noteq> None))
       DispatchEvidenceMissing) (\<lambda>_.
     ensure (to \<noteq> DELIVERED \<or> fe_delivery evidence \<noteq> None) DeliveryEvidenceMissing))"

definition fulfilment_transition ::
    "(string option \<Rightarrow> string option) \<Rightarrow> (instant option \<Rightarrow> instant option) \<Rightarrow> fulfilment_snapshot \<Rightarrow>
     fulfilment_status \<Rightarrow> string \<Rightarrow> fulfilment_evidence \<Rightarrow> fulfilment_db \<Rightarrow>
     fulfilment_error + fulfilment_db \<times> fulfilment_snapshot" where
  "fulfilment_transition no_text no_date current to key evidence db =
     andThen (fulfilment_transition_guard current to evidence) (\<lambda>_.
       adapterFulfilmentTransition no_text no_date current to key evidence db)"

section \<open>Histories\<close>

datatype fulfilment_op =
    Request string fulfilment_command
  | Create string fulfilment_command
  | CreateInsert string fulfilment_command
  | Transition fulfilment_snapshot fulfilment_status string fulfilment_evidence
  | InterruptedTransition fulfilment_snapshot fulfilment_status string fulfilment_evidence

fun fulfilment_step ::
    "(string option \<Rightarrow> string option) \<Rightarrow> (instant option \<Rightarrow> instant option) \<Rightarrow>
     fulfilment_db \<Rightarrow> fulfilment_op \<Rightarrow> fulfilment_db" where
  "fulfilment_step no_text no_date db (Request i c) = keep_db db (request i c db)"
| "fulfilment_step no_text no_date db (Create i c) =
     keep_db db (andThen (validateShipment c) (\<lambda>_. createFulfilment i c (fulfilment_estate c) db))"
| "fulfilment_step no_text no_date db (CreateInsert i c) =
     keep_db db (andThen (validateShipment c) (\<lambda>_. createFulfilment_insert i c (fulfilment_estate c) db))"
| "fulfilment_step no_text no_date db (Transition f to key evidence) =
     keep_db db (fulfilment_transition no_text no_date f to key evidence db)"
| "fulfilment_step no_text no_date db (InterruptedTransition f to key evidence) =
     keep_db db (andThen (fulfilment_transition_guard f to evidence) (\<lambda>_.
       recordFulfilmentTransition f to key evidence db))"

fun fulfilment_interrupted :: "fulfilment_op \<Rightarrow> bool" where
  "fulfilment_interrupted (InterruptedTransition _ _ _ _) = True"
| "fulfilment_interrupted _ = False"

definition fulfilment_status_of :: "fulfilment_db \<Rightarrow> string \<Rightarrow> fulfilment_status option" where
  "fulfilment_status_of db i = map_option fr_status (find_row fr_id i (fulfilments db))"

definition fulfilment_trail :: "fulfilment_db \<Rightarrow> string \<Rightarrow> (fulfilment_status \<times> fulfilment_status) list" where
  "fulfilment_trail db i =
     map (\<lambda>t. (ft_from t, ft_to t)) (filter (\<lambda>t. ft_fulfilment t = i) (fulfilment_transitions db))"

end
