(* ===== verification/Fulfilment_Laws.thy ===== *)
theory Fulfilment_Laws
  imports Fulfilment
begin

text \<open>
  The invariant of the fulfilment tables, that every operation keeps it, and the interpretation of
  \<open>status_store\<close> at the operations of \<open>Fulfilment\<close>.
\<close>

section \<open>The invariant\<close>

definition shipment_complete :: "fulfilment_row \<Rightarrow> bool" where
  "shipment_complete f \<longleftrightarrow>
     (let s = fr_shipment f in
      positive_weight (sh_weight s) \<and> positive_count (sh_packages s) \<and>
      (fr_mode f = CROSS_BORDER \<longrightarrow> sh_origin s \<noteq> sh_destination s \<and> truthy (sh_exporter s) \<and>
         truthy (sh_importer s) \<and> sh_incoterm s \<noteq> None \<and> sh_hs s \<noteq> None \<and> sh_hs s \<noteq> Some [] \<and>
         truthy (sh_compliance s)))"

definition evidence_present :: "fulfilment_row \<Rightarrow> bool" where
  "evidence_present f \<longleftrightarrow>
     (fr_status f = DISPATCHED \<longrightarrow> truthy (fe_shipment (fr_evidence f)) \<and> fe_dispatch (fr_evidence f) \<noteq> None) \<and>
     (fr_status f = DELIVERED \<longrightarrow> fe_delivery (fr_evidence f) \<noteq> None)"

definition fulfilment_row_ok :: "fulfilment_row \<Rightarrow> bool" where
  "fulfilment_row_ok f \<longleftrightarrow> fulfilment_checks f \<and> truthy (fr_organisation f) \<noteq> truthy (fr_customer f) \<and>
     fr_estate f = (if truthy (fr_organisation f) then ZURIBEANS_ESTATE else THAMANI_ESTATE) \<and>
     shipment_complete f \<and> evidence_present f"

definition fulfilment_inv :: "fulfilment_db \<Rightarrow> bool" where
  "fulfilment_inv db \<longleftrightarrow>
     distinct (map fr_id (fulfilments db)) \<and> distinct (map fr_key (fulfilments db)) \<and>
     (\<forall>f \<in> set (fulfilments db). fulfilment_row_ok f) \<and>
     (\<forall>t \<in> set (fulfilment_transitions db). ft_fulfilment t \<in> fr_id ` set (fulfilments db))"

lemma no_fulfilments_inv: "fulfilment_inv no_fulfilments"
  by (simp add: fulfilment_inv_def no_fulfilments_def)

lemma insert_fulfilment_Inr [tx_simps]:
  "insert_fulfilment f db = Inr db' \<longleftrightarrow>
     fulfilment_checks f \<and>
     (\<forall>g \<in> set (fulfilments db). fr_id g \<noteq> fr_id f \<and> fr_reference g \<noteq> fr_reference f \<and> fr_key g \<noteq> fr_key f) \<and>
     db' = db\<lparr>fulfilments := fulfilments db @ [f]\<rparr>"
  by (auto simp: insert_fulfilment_def list_ex_iff)

lemma insert_fulfilment_transition_Inr [tx_simps]:
  "insert_fulfilment_transition t db = Inr db' \<longleftrightarrow>
     transition_key t \<notin> transition_key ` set (fulfilment_transitions db) \<and>
     ft_fulfilment t \<in> fr_id ` set (fulfilments db) \<and>
     db' = db\<lparr>fulfilment_transitions := fulfilment_transitions db @ [t]\<rparr>"
  by (auto simp: insert_fulfilment_transition_def find_row_None_iff)

lemma insert_fulfilment_inv:
  "fulfilment_inv db \<Longrightarrow> insert_fulfilment f db = Inr db' \<Longrightarrow> fulfilment_row_ok f \<Longrightarrow> fulfilment_inv db'"
  by (auto simp: fulfilment_inv_def insert_fulfilment_Inr)

lemma insert_fulfilment_transition_inv:
  "fulfilment_inv db \<Longrightarrow> insert_fulfilment_transition t db = Inr db' \<Longrightarrow> fulfilment_inv db'"
  by (auto simp: fulfilment_inv_def insert_fulfilment_transition_Inr)

section \<open>Creation\<close>

lemma validateShipment_Inr [tx_simps]:
  "validateShipment c = Inr u \<longleftrightarrow>
     truthy (fc_organisation c) \<noteq> truthy (fc_customer c) \<and>
     shipment_complete (new_fulfilment i c e)"
  by (auto simp: validateShipment_def Let_def shipment_complete_def new_fulfilment_def split: if_splits)

lemma new_fulfilment_ok:
  assumes "validateShipment c = Inr u" "fulfilment_checks (new_fulfilment i c (fulfilment_estate c))"
  shows "fulfilment_row_ok (new_fulfilment i c (fulfilment_estate c))"
  using assms validateShipment_Inr [of c u i "fulfilment_estate c"]
  by (auto simp: fulfilment_row_ok_def evidence_present_def new_fulfilment_def fulfilment_estate_def)

lemma createFulfilment_insert_cases:
  assumes "createFulfilment_insert i c estate db = Inr (db', s)"
  obtains (made) "insert_fulfilment (new_fulfilment i c estate) db = Inr db'"
      "s = fulfilment_snapshot_of (new_fulfilment i c estate)"
    | (found) "db' = db" "findFulfilmentByKey (fc_key c) db = Some s"
  using assms unfolding createFulfilment_insert_def by (auto split: sum.splits option.splits if_splits)

lemma createFulfilment_cases:
  assumes "createFulfilment i c estate db = Inr (db', s)"
  obtains (made) "insert_fulfilment (new_fulfilment i c estate) db = Inr db'"
      "s = fulfilment_snapshot_of (new_fulfilment i c estate)"
    | (found) "db' = db" "findFulfilmentByKey (fc_key c) db = Some s"
  using assms unfolding createFulfilment_def
  by (auto split: option.splits elim: createFulfilment_insert_cases)

lemma request_Inr:
  "request i c db = Inr (db', s) \<longleftrightarrow>
     (\<exists>u. validateShipment c = Inr u) \<and>
     (case findFulfilmentByKey (fc_key c) db of
        Some f \<Rightarrow> fs_estate f = fulfilment_estate c \<and> db' = db \<and> s = f
      | None \<Rightarrow> createFulfilment i c (fulfilment_estate c) db = Inr (db', s))"
  by (auto simp: request_def request_check_def andThen_Inr_iff split: option.splits if_splits)

section \<open>Transitions\<close>

text \<open>
  With the lock held, a write that follows its check is not raced: recording either replays or
  adds the row.
\<close>

lemma recordFulfilmentTransition_cases:
  assumes "recordFulfilmentTransition current to key evidence db = Inr (db', r)"
  obtains (replayed) f t where "find_row fr_id (fs_id current) (fulfilments db) = Some f"
      "find_row transition_key (fs_id current, key) (fulfilment_transitions db) = Some t"
      "ft_from t = fr_status f" "ft_to t = to" "db' = db" "r = Some (fulfilment_snapshot_of f)"
    | (recorded) f where "find_row fr_id (fs_id current) (fulfilments db) = Some f"
      "fr_status f = fs_status current" "r = None"
      "find_row transition_key (fs_id current, key) (fulfilment_transitions db) = None"
      "insert_fulfilment_transition \<lparr>ft_fulfilment = fs_id current, ft_from = fs_status current, ft_to = to,
         ft_key = key, ft_evidence = evidence\<rparr> db = Inr db'"
proof -
  obtain q where check: "checkFulfilmentTransition current to key db = Inr q"
    and wr: "(case q of Some f \<Rightarrow> Inr (db, Some f) | None \<Rightarrow> writeFulfilmentTransition current to key evidence db) = Inr (db', r)"
    using assms by (auto simp: recordFulfilmentTransition_def andThen_Inr_iff)
  show thesis
  proof (cases q)
    case None
    then obtain f where f: "find_row fr_id (fs_id current) (fulfilments db) = Some f" "fr_status f = fs_status current"
      "find_row transition_key (fs_id current, key) (fulfilment_transitions db) = None"
      using check by (auto simp: checkFulfilmentTransition_def split: option.splits if_splits)
    then show thesis
      using wr None by (intro recorded [of f]) (auto simp: writeFulfilmentTransition_def split: sum.splits if_splits)
  next
    case (Some s)
    then obtain f t where "find_row fr_id (fs_id current) (fulfilments db) = Some f"
      "find_row transition_key (fs_id current, key) (fulfilment_transitions db) = Some t"
      "ft_from t = fr_status f" "ft_to t = to" "s = fulfilment_snapshot_of f"
      using check by (auto simp: checkFulfilmentTransition_def split: option.splits if_splits)
    then show thesis using wr Some by (intro replayed [of f t]) simp_all
  qed
qed

lemma recordFulfilmentTransition_inv:
  "fulfilment_inv db \<Longrightarrow> recordFulfilmentTransition f to key e db = Inr (db', r) \<Longrightarrow> fulfilment_inv db'"
  by (erule recordFulfilmentTransition_cases) (auto intro: insert_fulfilment_transition_inv)

lemma fulfilment_guard_Inr [tx_simps]:
  "fulfilment_transition_guard f to e = Inr u \<longleftrightarrow> to \<in> set (TRANSITIONS (fs_status f)) \<and>
     (to = DISPATCHED \<longrightarrow> truthy (fe_shipment e) \<and> fe_dispatch e \<noteq> None) \<and>
     (to = DELIVERED \<longrightarrow> fe_delivery e \<noteq> None)"
  by (auto simp: fulfilment_transition_guard_def)

lemma assigned_evidence:
  "truthy (fe_shipment e) \<Longrightarrow> truthy (fe_shipment (assign_evidence no_text no_date old e))"
  "fe_dispatch e \<noteq> None \<Longrightarrow> fe_dispatch (assign_evidence no_text no_date old e) \<noteq> None"
  "fe_delivery e \<noteq> None \<Longrightarrow> fe_delivery (assign_evidence no_text no_date old e) \<noteq> None"
  by (auto simp: assign_evidence_def assign_column_def truthy_def split: option.splits)

lemma moved_fulfilment_ok:
  assumes "fulfilment_row_ok f" "fulfilment_transition_guard current to e = Inr u"
  shows "fulfilment_row_ok (f\<lparr>fr_status := to, fr_evidence := assign_evidence no_text no_date old e\<rparr>)"
  using assms assigned_evidence [of e no_text no_date old]
  by (simp add: fulfilment_row_ok_def fulfilment_checks_def shipment_complete_def evidence_present_def
      fulfilment_guard_Inr Let_def)

lemma applyFulfilmentTransition_Inr:
  "applyFulfilmentTransition no_text no_date i to e db = Inr (db', s) \<longleftrightarrow>
     (\<exists>f. find_row fr_id i (fulfilments db) = Some f \<and>
       s = fulfilment_snapshot_of (f\<lparr>fr_status := to, fr_evidence := assign_evidence no_text no_date (fr_evidence f) e\<rparr>)) \<and>
     db' = db\<lparr>fulfilments := upd_row fr_id i (\<lambda>f. f\<lparr>fr_status := to,
            fr_evidence := assign_evidence no_text no_date (fr_evidence f) e\<rparr>) (fulfilments db)\<rparr>"
  by (auto simp: applyFulfilmentTransition_def Let_def find_row_upd_row split: option.splits)

lemma applyFulfilmentTransition_inv:
  assumes "fulfilment_inv db" "applyFulfilmentTransition no_text no_date i to e db = Inr (db', s)"
    and "fulfilment_transition_guard current to e = Inr u"
  shows "fulfilment_inv db'"
proof -
  let ?f = "\<lambda>f. f\<lparr>fr_status := to, fr_evidence := assign_evidence no_text no_date (fr_evidence f) e\<rparr>"
  have db': "db' = db\<lparr>fulfilments := upd_row fr_id i ?f (fulfilments db)\<rparr>"
    using assms(2) by (simp add: applyFulfilmentTransition_Inr)
  have ids: "map fr_id (upd_row fr_id i ?f (fulfilments db)) = map fr_id (fulfilments db)"
    and keys: "map fr_key (upd_row fr_id i ?f (fulfilments db)) = map fr_key (fulfilments db)"
    by (simp_all add: upd_row_def)
  from ids have "fr_id ` set (upd_row fr_id i ?f (fulfilments db)) = fr_id ` set (fulfilments db)"
    by (metis list.set_map)
  moreover have "fulfilment_row_ok f" if "f \<in> set (upd_row fr_id i ?f (fulfilments db))" for f
    using set_upd_row_cases [OF that] assms(1) moved_fulfilment_ok [OF _ assms(3)]
    by (auto simp: fulfilment_inv_def)
  ultimately show ?thesis using assms(1) ids keys by (simp add: fulfilment_inv_def db')
qed

section \<open>What a step does to one fulfilment\<close>

lemma fulfilment_trail_unknown:
  "fulfilment_inv db \<Longrightarrow> fulfilment_status_of db i = None \<Longrightarrow> fulfilment_trail db i = []"
  by (auto simp: fulfilment_inv_def fulfilment_status_of_def fulfilment_trail_def find_row_None_iff filter_empty_conv)

lemma insert_fulfilment_evolves:
  assumes "fulfilment_inv db" "insert_fulfilment f db = Inr db'" "fr_status f = REQUESTED"
  shows "evolves b TRANSITIONS REQUESTED (fulfilment_status_of db i) (fulfilment_trail db i)
           (fulfilment_status_of db' i) (fulfilment_trail db' i)"
proof -
  have db': "db' = db\<lparr>fulfilments := fulfilments db @ [f]\<rparr>" and new: "fr_id f \<notin> fr_id ` set (fulfilments db)"
    using assms(2) by (auto simp: insert_fulfilment_Inr)
  have trail: "fulfilment_trail db' i = fulfilment_trail db i" by (simp add: fulfilment_trail_def db')
  show ?thesis
  proof (cases "fr_id f = i")
    case True
    then have "fulfilment_status_of db i = None" using new by (simp add: fulfilment_status_of_def find_row_None_iff)
    moreover have "fulfilment_status_of db' i = Some REQUESTED"
      using True new assms(3) by (simp add: fulfilment_status_of_def db' find_row_None_iff [THEN iffD2])
    ultimately show ?thesis
      using fulfilment_trail_unknown [OF assms(1)] trail by (auto intro: evolves_intros)
  next
    case False
    then have "fulfilment_status_of db' i = fulfilment_status_of db i"
      by (simp add: fulfilment_status_of_def db' split: option.splits)
    then show ?thesis by (simp add: trail evolves_intros)
  qed
qed

lemma recorded_fulfilment:
  assumes "find_row fr_id i (fulfilments db) = Some f" "fr_status f = x"
    and "insert_fulfilment_transition t db = Inr db'" "ft_fulfilment t = i" "ft_from t = x" "ft_to t = y"
  shows "fulfilment_status_of db' j = fulfilment_status_of db j"
    and "fulfilment_trail db' j = fulfilment_trail db j @ (if j = i then [(x, y)] else [])"
  using assms by (auto simp: insert_fulfilment_transition_Inr fulfilment_status_of_def fulfilment_trail_def)

lemma stored_status: "find_row fr_id i (fulfilments db) = Some f \<Longrightarrow> fulfilment_status_of db i = Some (fr_status f)"
  by (simp add: fulfilment_status_of_def)

lemma applied_fulfilment:
  assumes "applyFulfilmentTransition no_text no_date i to e db = Inr (db', s)"
  shows "fulfilment_status_of db' j = (if j = i then Some to else fulfilment_status_of db j)"
    and "fulfilment_trail db' j = fulfilment_trail db j"
  using assms
  by (auto simp: applyFulfilmentTransition_Inr fulfilment_status_of_def fulfilment_trail_def find_row_upd_row)

lemma record_fulfilment_evolves:
  assumes "recordFulfilmentTransition f y key e db = Inr (db', r)" "y \<in> set (TRANSITIONS (fs_status f))"
  shows "evolves True TRANSITIONS REQUESTED (fulfilment_status_of db j) (fulfilment_trail db j)
           (fulfilment_status_of db' j) (fulfilment_trail db' j)"
  using assms(1)
proof (cases rule: recordFulfilmentTransition_cases)
  case replayed
  then show ?thesis by (simp add: evolves_intros)
next
  case (recorded g)
  note facts = recorded_fulfilment [OF recorded(1,2,5), of y j]
  show ?thesis using facts stored_status [OF recorded(1)] recorded(2) assms(2) by (auto intro: evolves_intros)
qed

lemma transition_fulfilment_evolves:
  assumes "adapterFulfilmentTransition no_text no_date f y key e db = Inr (db', s)" "y \<in> set (TRANSITIONS (fs_status f))"
  shows "evolves b TRANSITIONS REQUESTED (fulfilment_status_of db j) (fulfilment_trail db j)
           (fulfilment_status_of db' j) (fulfilment_trail db' j)"
proof -
  obtain db1 r where rec: "recordFulfilmentTransition f y key e db = Inr (db1, r)"
    and rest: "(case r of Some p \<Rightarrow> Inr (db1, p) | None \<Rightarrow> applyFulfilmentTransition no_text no_date (fs_id f) y e db1) = Inr (db', s)"
    using assms(1) by (auto simp: adapterFulfilmentTransition_def andThen_Inr_iff)
  from rec show ?thesis
  proof (cases rule: recordFulfilmentTransition_cases)
    case replayed
    then show ?thesis using rest by (simp add: evolves_intros)
  next
    case (recorded g)
    note facts = recorded_fulfilment [OF recorded(1,2,5), of y j]
    have "applyFulfilmentTransition no_text no_date (fs_id f) y e db1 = Inr (db', s)" using rest recorded(3) by simp
    note applied = applied_fulfilment [OF this, of j]
    show ?thesis
      using facts applied stored_status [OF recorded(1)] recorded(2) assms(2) by (auto intro: evolves_intros)
  qed
qed

lemma create_fulfilment_evolves:
  assumes "fulfilment_inv db"
    and "createFulfilment_insert i c estate db = Inr (db', s) \<or> createFulfilment i c estate db = Inr (db', s)"
  shows "evolves b TRANSITIONS REQUESTED (fulfilment_status_of db j) (fulfilment_trail db j)
           (fulfilment_status_of db' j) (fulfilment_trail db' j)"
proof -
  have "db' = db \<or> insert_fulfilment (new_fulfilment i c estate) db = Inr db'"
    using assms(2) by (auto elim: createFulfilment_insert_cases createFulfilment_cases)
  then show ?thesis
    using insert_fulfilment_evolves [OF assms(1)] by (auto simp: evolves_intros new_fulfilment_def)
qed

section \<open>Every operation\<close>

lemma create_fulfilment_inv:
  assumes "fulfilment_inv db" "validateShipment c = Inr u"
    and "createFulfilment_insert i c (fulfilment_estate c) db = Inr (db', s) \<or>
         createFulfilment i c (fulfilment_estate c) db = Inr (db', s)"
  shows "fulfilment_inv db'"
proof -
  have "db' = db \<or> insert_fulfilment (new_fulfilment i c (fulfilment_estate c)) db = Inr db'"
    using assms(3) by (auto elim: createFulfilment_insert_cases createFulfilment_cases)
  then show ?thesis
    using assms(1,2) insert_fulfilment_inv new_fulfilment_ok by (metis insert_fulfilment_Inr)
qed

lemma adapterFulfilmentTransition_inv:
  "fulfilment_inv db \<Longrightarrow> adapterFulfilmentTransition no_text no_date f y key e db = Inr (db', s) \<Longrightarrow>
   fulfilment_transition_guard f y e = Inr u \<Longrightarrow> fulfilment_inv db'"
  by (auto simp: adapterFulfilmentTransition_def andThen_Inr_iff split: option.splits
      intro: applyFulfilmentTransition_inv recordFulfilmentTransition_inv)

lemma fulfilment_step_cases:
  obtains (keep) "fulfilment_step no_text no_date db op = db"
  | (create) i c s where "validateShipment c = Inr ()" "\<not> fulfilment_interrupted op"
      "createFulfilment_insert i c (fulfilment_estate c) db = Inr (fulfilment_step no_text no_date db op, s) \<or>
       createFulfilment i c (fulfilment_estate c) db = Inr (fulfilment_step no_text no_date db op, s)"
  | (transition) f y key e s where "fulfilment_transition_guard f y e = Inr ()" "\<not> fulfilment_interrupted op"
      "adapterFulfilmentTransition no_text no_date f y key e db = Inr (fulfilment_step no_text no_date db op, s)"
  | (interrupted) f y key e s where "fulfilment_transition_guard f y e = Inr ()" "fulfilment_interrupted op"
      "recordFulfilmentTransition f y key e db = Inr (fulfilment_step no_text no_date db op, s)"
proof (cases op)
  case (Request i c)
  consider "fulfilment_step no_text no_date db op = db"
    | s where "request i c db = Inr (fulfilment_step no_text no_date db op, s)"
    using keep_db_cases [of db "request i c db"] Request by auto
  then show thesis
  proof cases
    case (2 s)
    then show thesis using keep create [of c i s, OF _ _ disjI2] Request by (auto simp: request_Inr split: option.splits)
  qed (rule keep)
next
  case (Create i c)
  then show thesis
    using keep_db_cases [of db "andThen (validateShipment c) (\<lambda>_. createFulfilment i c (fulfilment_estate c) db)"]
      keep create [of c i, OF _ _ disjI1] create [of c i, OF _ _ disjI2] by (auto simp: andThen_Inr_iff)
next
  case (CreateInsert i c)
  then show thesis
    using keep_db_cases [of db "andThen (validateShipment c) (\<lambda>_. createFulfilment_insert i c (fulfilment_estate c) db)"]
      keep create [of c i, OF _ _ disjI1] create [of c i, OF _ _ disjI2] by (auto simp: andThen_Inr_iff)
next
  case (Transition f y key e)
  then show thesis
    using keep_db_cases [of db "fulfilment_transition no_text no_date f y key e db"]
      keep transition [of f y e key] by (auto simp: fulfilment_transition_def andThen_Inr_iff)
next
  case (InterruptedTransition f y key e)
  then show thesis
    using keep_db_cases [of db "andThen (fulfilment_transition_guard f y e) (\<lambda>_. recordFulfilmentTransition f y key e db)"]
      keep interrupted [of f y e key] by (auto simp: andThen_Inr_iff)
qed

lemma fulfilment_step_inv: "fulfilment_inv db \<Longrightarrow> fulfilment_inv (fulfilment_step no_text no_date db op)"
  by (cases rule: fulfilment_step_cases [of no_text no_date db op])
    (auto intro: create_fulfilment_inv adapterFulfilmentTransition_inv recordFulfilmentTransition_inv)

lemma fulfilment_step_evolves:
  assumes "fulfilment_inv db"
  shows "evolves (fulfilment_interrupted op) TRANSITIONS REQUESTED (fulfilment_status_of db i) (fulfilment_trail db i)
     (fulfilment_status_of (fulfilment_step no_text no_date db op) i) (fulfilment_trail (fulfilment_step no_text no_date db op) i)"
proof (cases rule: fulfilment_step_cases [of no_text no_date db op])
  case keep
  then show ?thesis by (simp add: evolves_intros)
next
  case create
  then show ?thesis using create_fulfilment_evolves [OF assms] by simp
next
  case transition
  then show ?thesis using transition_fulfilment_evolves by (simp add: fulfilment_guard_Inr)
next
  case interrupted
  then show ?thesis using record_fulfilment_evolves by (simp add: fulfilment_guard_Inr)
qed

interpretation fulfilment_store: status_store "fulfilment_step no_text no_date" fulfilment_inv fulfilment_status_of
    fulfilment_trail TRANSITIONS REQUESTED fulfilment_interrupted for no_text no_date
  by unfold_locales (auto intro: fulfilment_step_inv fulfilment_step_evolves)

lemma no_fulfilments_faithful: "fulfilment_store.faithful no_fulfilments"
  by (simp add: fulfilment_store.faithful_def fulfilment_status_of_def fulfilment_trail_def no_fulfilments_def)

end
