(* ===== verification/Fulfilment_Properties.thy ===== *)
theory Fulfilment_Properties
  imports Fulfilment_Laws
begin

text \<open>
  The properties of fulfilments: rows that carry the evidence their status asks for, statuses that
  follow the transition table, and what a repeated transition call gets; with a concrete history.
\<close>

lemma one_party_truthy:
  "one_party g c \<Longrightarrow> truthy g \<noteq> truthy c \<Longrightarrow> if truthy g then c = None else truthy c \<and> g = None"
  by (auto simp: one_party_def truthy_def)

lemma fulfilment_reachable: "fulfilment_inv (foldl (fulfilment_step no_text no_date) no_fulfilments ops)"
  by (rule fulfilment_store.run_good [OF no_fulfilments_inv])

text \<open>
  C36: Whatever calls were interleaved or interrupted, a stored fulfilment has one party and that
  party's Digital Estate, a positive weight and a positive whole number of packages; when it crosses a
  border two different countries, an exporter, an importer, an incoterm, at least one HS reference and
  a compliance decision; a shipment reference and a dispatch date when it is DISPATCHED and a delivery
  date when it is DELIVERED.
\<close>

theorem fulfilments_carry_their_evidence:
  assumes "db = foldl (fulfilment_step no_text no_date) no_fulfilments ops" and "f \<in> set (fulfilments db)"
  shows "(if truthy (fr_organisation f) then fr_customer f = None \<and> fr_estate f = ZURIBEANS_ESTATE
      else truthy (fr_customer f) \<and> fr_organisation f = None \<and> fr_estate f = THAMANI_ESTATE) \<and>
     positive_weight (sh_weight (fr_shipment f)) \<and> positive_count (sh_packages (fr_shipment f)) \<and>
     (fr_mode f = CROSS_BORDER \<longrightarrow> sh_origin (fr_shipment f) \<noteq> sh_destination (fr_shipment f) \<and>
        truthy (sh_exporter (fr_shipment f)) \<and> truthy (sh_importer (fr_shipment f)) \<and>
        sh_incoterm (fr_shipment f) \<noteq> None \<and> (\<exists>h hs. sh_hs (fr_shipment f) = Some (h # hs)) \<and>
        truthy (sh_compliance (fr_shipment f))) \<and>
     (fr_status f = DISPATCHED \<longrightarrow> truthy (fe_shipment (fr_evidence f)) \<and> fe_dispatch (fr_evidence f) \<noteq> None) \<and>
     (fr_status f = DELIVERED \<longrightarrow> fe_delivery (fr_evidence f) \<noteq> None)"
proof -
  have "fulfilment_row_ok f" using fulfilment_reachable assms by (simp add: fulfilment_inv_def)
  then show ?thesis
    using one_party_truthy [of "fr_organisation f" "fr_customer f"]
    unfolding fulfilment_row_ok_def fulfilment_checks_def shipment_complete_def evidence_present_def Let_def
    by (cases "the (sh_hs (fr_shipment f))") (auto split: if_splits)
qed

text \<open>Without interruptions the log of a fulfilment is a path of the table to its status.\<close>

lemma fulfilment_status_follows_its_log:
  assumes "list_all (\<lambda>op. \<not> fulfilment_interrupted op) ops"
    and "fulfilment_status_of (foldl (fulfilment_step no_text no_date) no_fulfilments ops) i = Some x"
  shows "path TRANSITIONS REQUESTED (fulfilment_trail (foldl (fulfilment_step no_text no_date) no_fulfilments ops) i) x"
  using fulfilment_store.run_path [OF no_fulfilments_inv no_fulfilments_faithful assms] .

lemma no_self_transition: "x \<notin> set (TRANSITIONS x)"
  by (cases x) simp_all

text \<open>
  C37: A repeated transition call is answered the wrong way round. When the first call was applied,
  the identical call is refused as a reuse of the key for a different transition; when it stopped
  after its log row, the identical call is answered as a success and the status never moves.
\<close>

theorem repeated_fulfilment_transition:
  assumes "fulfilment_transition_guard f y e = Inr ()"
    and "recordFulfilmentTransition f y key e db = Inr (db1, None)"
  shows "(\<exists>s :: fulfilment_snapshot. fulfilment_transition no_text no_date f y key e db =
         Inr (keep_db db1 (applyFulfilmentTransition no_text no_date (fs_id f) y e db1), s) \<and>
         fs_status s = y) \<and>
     fulfilment_transition no_text no_date f y key e (keep_db db1 (applyFulfilmentTransition no_text no_date (fs_id f) y e db1)) =
       Inl KeyReused \<and>
     (\<exists>s :: fulfilment_snapshot. fulfilment_transition no_text no_date f y key e db1 = Inr (db1, s) \<and> fs_status s = fs_status f)"
  using assms(2)
proof (cases rule: recordFulfilmentTransition_cases)
  case (recorded g)
  let ?t = "\<lparr>ft_fulfilment = fs_id f, ft_from = fs_status f, ft_to = y, ft_key = key, ft_evidence = e\<rparr>"
  have "y \<noteq> fs_status f" using assms(1) no_self_transition by (auto simp: fulfilment_guard_Inr)
  have t: "find_row transition_key (fs_id f, key) (fulfilment_transitions db1) = Some ?t"
    and g: "find_row fr_id (fs_id f) (fulfilments db1) = Some g"
    using recorded by (auto simp: insert_fulfilment_transition_Inr transition_key_def)
  let ?g = "g\<lparr>fr_status := y, fr_evidence := assign_evidence no_text no_date (fr_evidence g) e\<rparr>"
  obtain db2 where applied: "applyFulfilmentTransition no_text no_date (fs_id f) y e db1 = Inr (db2, fulfilment_snapshot_of ?g)"
    and db2: "find_row fr_id (fs_id f) (fulfilments db2) = Some ?g" "fulfilment_transitions db2 = fulfilment_transitions db1"
    using g by (simp add: applyFulfilmentTransition_Inr find_row_upd_row)
  have first: "fulfilment_transition no_text no_date f y key e db = Inr (db2, fulfilment_snapshot_of ?g)"
    using assms applied by (simp add: fulfilment_transition_def adapterFulfilmentTransition_def)
  have "checkFulfilmentTransition f y key db2 = Inl KeyReused"
    using t db2 \<open>y \<noteq> fs_status f\<close> by (simp add: checkFulfilmentTransition_def)
  then have again: "fulfilment_transition no_text no_date f y key e db2 = Inl KeyReused"
    using assms(1) by (simp add: fulfilment_transition_def adapterFulfilmentTransition_def recordFulfilmentTransition_def)
  have "checkFulfilmentTransition f y key db1 = Inr (Some (fulfilment_snapshot_of g))"
    using t g recorded(2) by (simp add: checkFulfilmentTransition_def)
  then have "fulfilment_transition no_text no_date f y key e db1 = Inr (db1, fulfilment_snapshot_of g)"
    using assms(1) by (simp add: fulfilment_transition_def adapterFulfilmentTransition_def recordFulfilmentTransition_def)
  then show ?thesis
    using first again applied recorded(2) by (simp add: keep_db_def fulfilment_snapshot_of_def)
qed simp

section \<open>A concrete fulfilment\<close>

definition coffee_shipment :: shipment_metadata where
  "coffee_shipment =
     \<lparr>sh_origin = ''UG'', sh_destination = ''ZA'', sh_exporter = Some ''org-ug'', sh_importer = Some ''org-za'',
      sh_hs = Some [''0901.11''], sh_compliance = Some ''decision-1'', sh_incoterm = Some FCA,
      sh_weight = Kilograms 60, sh_packages = JInt 1, sh_export = None, sh_customs = None\<rparr>"

definition coffee_order :: fulfilment_command where
  "coffee_order =
     \<lparr>fc_reference = ''ful-ref-1'', fc_order = ''order-1'', fc_organisation = Some ''org-1'', fc_customer = None,
      fc_market = ''zuribeans_ug'', fc_seller = ''zuribeans-uganda'', fc_location = ''kampala'',
      fc_mode = CROSS_BORDER, fc_provider = ''idempiere-logistics-ug'', fc_shipment = coffee_shipment,
      fc_key = ''key-1'', fc_correlation = ''corr-1''\<rparr>"

definition shipped :: fulfilment_evidence where
  "shipped = no_evidence\<lparr>fe_shipment := Some ''ship-1'', fe_dispatch := Some 1000\<rparr>"

definition coffee_row :: fulfilment_row where
  "coffee_row = new_fulfilment ''ful_1'' coffee_order ZURIBEANS_ESTATE"

definition coffee_stage :: "fulfilment_status \<Rightarrow> fulfilment_snapshot" where
  "coffee_stage x = fulfilment_snapshot_of (coffee_row\<lparr>fr_status := x\<rparr>)"

definition same_text :: "string option \<Rightarrow> string option" where
  "same_text old = old"

definition same_date :: "instant option \<Rightarrow> instant option" where
  "same_date old = old"

definition dispatch_run :: "fulfilment_op list" where
  "dispatch_run =
     [Request ''ful_1'' coffee_order,
      Transition (coffee_stage REQUESTED) ACCEPTED ''t1'' no_evidence,
      Transition (coffee_stage ACCEPTED) ALLOCATED ''t2'' no_evidence,
      Transition (coffee_stage ALLOCATED) DISPATCHED ''t3'' shipped]"

definition dispatched_row :: fulfilment_row where
  "dispatched_row = coffee_row\<lparr>fr_status := DISPATCHED, fr_evidence := shipped\<rparr>"

lemma coffee_order_valid: "validateShipment coffee_order = Inr ()"
  by (simp add: validateShipment_def coffee_order_def coffee_shipment_def truthy_def positive_weight_def positive_count_def)

lemma coffee_requested:
  "request ''ful_1'' coffee_order no_fulfilments = Inr (\<lparr>fulfilments = [coffee_row], fulfilment_transitions = []\<rparr>, coffee_stage REQUESTED)"
proof -
  have "findFulfilmentByKey (fc_key coffee_order) no_fulfilments = None" by code_simp
  moreover have "fulfilment_estate coffee_order = ZURIBEANS_ESTATE" by code_simp
  moreover have "fulfilment_checks coffee_row" by (simp add: fulfilment_checks_def coffee_row_def new_fulfilment_def coffee_order_def one_party_def)
  moreover have "coffee_row\<lparr>fr_status := REQUESTED\<rparr> = coffee_row" by (simp add: coffee_row_def new_fulfilment_def)
  ultimately show ?thesis
    by (simp add: request_def request_check_def coffee_order_valid createFulfilment_def createFulfilment_insert_def
        insert_fulfilment_def no_fulfilments_def coffee_stage_def flip: coffee_row_def)
qed

lemma coffee_dispatched:
  "foldl (fulfilment_step same_text same_date) \<lparr>fulfilments = [coffee_row], fulfilment_transitions = []\<rparr> (tl dispatch_run) =
   \<lparr>fulfilments = [dispatched_row], fulfilment_transitions =
      [\<lparr>ft_fulfilment = ''ful_1'', ft_from = REQUESTED, ft_to = ACCEPTED, ft_key = ''t1'', ft_evidence = no_evidence\<rparr>,
       \<lparr>ft_fulfilment = ''ful_1'', ft_from = ACCEPTED, ft_to = ALLOCATED, ft_key = ''t2'', ft_evidence = no_evidence\<rparr>,
       \<lparr>ft_fulfilment = ''ful_1'', ft_from = ALLOCATED, ft_to = DISPATCHED, ft_key = ''t3'', ft_evidence = shipped\<rparr>]\<rparr>"
  by code_simp

lemma fulfilments_carry_their_evidence_witness:
  "fulfilments (foldl (fulfilment_step same_text same_date) no_fulfilments dispatch_run) = [dispatched_row] \<and>
   truthy (fe_shipment (fr_evidence dispatched_row)) \<and> fr_status dispatched_row = DISPATCHED \<and>
   fr_mode dispatched_row = CROSS_BORDER \<and> truthy (sh_exporter (fr_shipment dispatched_row))"
proof -
  have run: "dispatch_run = Request ''ful_1'' coffee_order # tl dispatch_run" by (simp add: dispatch_run_def)
  have "fulfilments (foldl (fulfilment_step same_text same_date) no_fulfilments dispatch_run) = [dispatched_row]"
    by (subst run) (simp only: foldl_Cons fulfilment_step.simps keep_db_def coffee_requested sum.case prod.case
        coffee_dispatched fulfilment_db.select_convs)
  moreover from this have "dispatched_row \<in> set (fulfilments (foldl (fulfilment_step same_text same_date) no_fulfilments dispatch_run))"
    by simp
  moreover have "fr_status dispatched_row = DISPATCHED" "fr_mode dispatched_row = CROSS_BORDER"
    by (simp_all add: dispatched_row_def coffee_row_def new_fulfilment_def coffee_order_def)
  ultimately show ?thesis
    using fulfilments_carry_their_evidence [OF refl, of dispatched_row same_text same_date dispatch_run] by blast
qed

lemma repeated_fulfilment_transition_witness:
  "\<exists>db1 db2 (s :: fulfilment_snapshot).
     recordFulfilmentTransition (coffee_stage REQUESTED) ACCEPTED ''t1'' no_evidence
       \<lparr>fulfilments = [coffee_row], fulfilment_transitions = []\<rparr> = Inr (db1, None) \<and>
     fulfilment_transition same_text same_date (coffee_stage REQUESTED) ACCEPTED ''t1'' no_evidence db2 = Inl KeyReused \<and>
     fulfilment_transition same_text same_date (coffee_stage REQUESTED) ACCEPTED ''t1'' no_evidence db1 = Inr (db1, s) \<and>
     fs_status s = REQUESTED"
proof -
  have guard: "fulfilment_transition_guard (coffee_stage REQUESTED) ACCEPTED no_evidence = Inr ()"
    and rec: "recordFulfilmentTransition (coffee_stage REQUESTED) ACCEPTED ''t1'' no_evidence
       \<lparr>fulfilments = [coffee_row], fulfilment_transitions = []\<rparr> =
       Inr (\<lparr>fulfilments = [coffee_row], fulfilment_transitions = [\<lparr>ft_fulfilment = ''ful_1'', ft_from = REQUESTED,
          ft_to = ACCEPTED, ft_key = ''t1'', ft_evidence = no_evidence\<rparr>]\<rparr>, None)"
    by code_simp+
  have "fs_status (coffee_stage REQUESTED) = REQUESTED" by code_simp
  then show ?thesis
    using rec repeated_fulfilment_transition [OF guard rec, of same_text same_date] by auto
qed

end
