(* ===== verification/Fulfilment_Policy.thy ===== *)
theory Fulfilment_Policy
  imports Fulfilment
begin

text \<open>
  The provider policies of \<open>src/src/baobab/fulfilment/fulfilment-config.ts\<close> and the comparison with the
  execution record of \<open>reconciliation.ts\<close>.
\<close>

section \<open>Providers\<close>

datatype fulfilment_provider_kind = MEDUSA_NATIVE | ERP_ADAPTER | THIRD_PARTY

record fulfilment_provider_binding =
  fb_key :: string
  fb_kind :: fulfilment_provider_kind
  fb_enabled :: bool
  fb_modes :: "fulfilment_mode list"

record fulfilment_policy =
  fp_market :: string
  fp_country :: string
  fp_seller :: string
  fp_providers :: "fulfilment_provider_binding list"

text \<open>\<open>None\<close> is the thrown error.\<close>

definition resolveFulfilmentProvider ::
    "fulfilment_policy \<Rightarrow> fulfilment_mode \<Rightarrow> fulfilment_provider_binding option" where
  "resolveFulfilmentProvider policy m =
     List.find (\<lambda>b. fb_enabled b \<and> m \<in> set (fb_modes b)) (fp_providers policy)"

definition ZURIBEANS_FULFILMENT_POLICIES :: "fulfilment_policy list" where
  "ZURIBEANS_FULFILMENT_POLICIES =
     [\<lparr>fp_market = ''zuribeans_ug'', fp_country = ''UG'', fp_seller = ''zuribeans-uganda'',
       fp_providers =
         [\<lparr>fb_key = ''manual-manual-ug'', fb_kind = MEDUSA_NATIVE, fb_enabled = True,
           fb_modes = [LOCAL_DELIVERY, BULK_FREIGHT, CUSTOMER_COLLECTION]\<rparr>,
          \<lparr>fb_key = ''idempiere-logistics-ug'', fb_kind = ERP_ADAPTER, fb_enabled = True, fb_modes = [CROSS_BORDER]\<rparr>]\<rparr>,
      \<lparr>fp_market = ''zuribeans_za'', fp_country = ''ZA'', fp_seller = ''zuribeans-south-africa'',
       fp_providers =
         [\<lparr>fb_key = ''manual-manual-za'', fb_kind = MEDUSA_NATIVE, fb_enabled = True,
           fb_modes = [LOCAL_DELIVERY, BULK_FREIGHT, CUSTOMER_COLLECTION]\<rparr>,
          \<lparr>fb_key = ''idempiere-logistics-za'', fb_kind = ERP_ADAPTER, fb_enabled = True, fb_modes = [CROSS_BORDER]\<rparr>]\<rparr>]"

lemma resolved_fulfilment_provider_serves:
  "resolveFulfilmentProvider policy m = Some b \<Longrightarrow> b \<in> set (fp_providers policy) \<and> fb_enabled b \<and> m \<in> set (fb_modes b)"
  by (auto simp: resolveFulfilmentProvider_def find_Some_iff)

text \<open>With the shipped policies only a parcel shipment has no provider.\<close>

lemma shipped_fulfilment_providers:
  "list_all (\<lambda>p. list_all (\<lambda>m. (resolveFulfilmentProvider p m = None) = (m = PARCEL_SHIPMENT))
     [LOCAL_DELIVERY, PARCEL_SHIPMENT, BULK_FREIGHT, CROSS_BORDER, CUSTOMER_COLLECTION]) ZURIBEANS_FULFILMENT_POLICIES"
  by code_simp

section \<open>Comparison with the execution record\<close>

fun fulfilment_status_text :: "fulfilment_status \<Rightarrow> string" where
  "fulfilment_status_text REQUESTED = ''REQUESTED''"
| "fulfilment_status_text ACCEPTED = ''ACCEPTED''"
| "fulfilment_status_text ALLOCATED = ''ALLOCATED''"
| "fulfilment_status_text DISPATCHED = ''DISPATCHED''"
| "fulfilment_status_text DELIVERED = ''DELIVERED''"
| "fulfilment_status_text CANCELLED = ''CANCELLED''"
| "fulfilment_status_text EXCEPTION = ''EXCEPTION''"
| "fulfilment_status_text RECONCILIATION_REQUIRED = ''RECONCILIATION_REQUIRED''"

datatype execution_match = PENDING_EXECUTION | VARIANCE | MATCHED

datatype execution_reason = EXECUTION_RECORD_MISSING | STATUS_MISMATCH | SHIPMENT_MAPPING_MISSING

definition reconcileFulfilment ::
    "fulfilment_status \<Rightarrow> string option \<Rightarrow> string option \<Rightarrow> execution_match \<times> execution_reason list" where
  "reconcileFulfilment status execution shipment =
     (if \<not> truthy execution then (PENDING_EXECUTION, [EXECUTION_RECORD_MISSING])
      else
        let reasons = (if execution \<noteq> Some (fulfilment_status_text status) then [STATUS_MISMATCH] else []) @
              (if execution \<in> {Some ''DISPATCHED'', Some ''DELIVERED''} \<and> \<not> truthy shipment
               then [SHIPMENT_MAPPING_MISSING] else [])
        in (if reasons \<noteq> [] then VARIANCE else MATCHED, reasons))"

lemma fulfilment_reconciled_iff:
  "fst (reconcileFulfilment status execution shipment) = MATCHED \<longleftrightarrow>
   execution = Some (fulfilment_status_text status) \<and> (status \<in> {DISPATCHED, DELIVERED} \<longrightarrow> truthy shipment)"
  by (cases status) (auto simp: reconcileFulfilment_def truthy_def Let_def)

end
