(* ===== verification/Fulfilment_Lines.thy ===== *)
theory Fulfilment_Lines
  imports Trade_Prelude
begin

text \<open>
  The lines of a fulfilment, their allocation to source locations and their returns: the idempotent
  writers of \<open>src/src/baobab/fulfilment/allocation-record-adapter.ts\<close> over the tables and triggers of
  \<open>src/src/modules/fulfilment-bridge/migrations/Migration20260909010000.ts\<close>. The fulfilments a foreign
  key may name are a list of the tables. Lines and allocations are never soft-deleted; a return may
  be, by direct writes, which the return trigger also guards. Row identifiers are arguments.
\<close>

section \<open>Tables\<close>

record order_line =
  ol_fulfilment :: string
  ol_line :: string
  ol_fulfilled :: int
  ol_returned :: int

record allocation_row =
  al_fulfilment :: string
  al_line :: string
  al_location :: string
  al_quantity :: int
  al_key :: string

datatype return_reason = DAMAGED | WRONG_ITEM | NOT_AS_DESCRIBED | CUSTOMER_REMORSE

datatype return_disposition = RESTOCK | QUARANTINE | DISPOSE | INSPECT

datatype return_status = REQUESTED | AUTHORIZED | RECEIVED | COMPLETED | REJECTED

record return_row =
  rt_id :: string
  rt_reference :: string
  rt_fulfilment :: string
  rt_order :: string
  rt_line :: string
  rt_quantity :: int
  rt_reason :: return_reason
  rt_disposition :: return_disposition
  rt_status :: return_status
  rt_key :: string
  rt_correlation :: string
  rt_deleted :: bool

record line_db =
  known_fulfilments :: "string list"
  order_lines :: "order_line list"
  allocations :: "allocation_row list"
  returns :: "return_row list"

datatype line_error = UniqueViolation | ConstraintViolation | AllocationIncomplete | ReturnMoved | ReturnLimit

type_synonym line_key = "string \<times> string"

definition line_of :: "order_line \<Rightarrow> line_key" where
  "line_of l = (ol_fulfilment l, ol_line l)"

definition allocated_line :: "allocation_row \<Rightarrow> line_key" where
  "allocated_line a = (al_fulfilment a, al_line a)"

definition returned_line :: "return_row \<Rightarrow> line_key" where
  "returned_line r = (rt_fulfilment r, rt_line r)"

text \<open>A quantity column: a positive 32-bit integer.\<close>

definition column_quantity :: "int \<Rightarrow> bool" where
  "column_quantity n \<longleftrightarrow> 0 < n \<and> n < 2 ^ 31"

definition insert_line :: "order_line \<Rightarrow> line_db \<Rightarrow> line_error + line_db" where
  "insert_line l db =
     (if \<not> column_quantity (ol_fulfilled l) \<or> \<not> (0 \<le> ol_returned l \<and> ol_returned l \<le> ol_fulfilled l)
      then Inl ConstraintViolation
      else if find_row line_of (line_of l) (order_lines db) \<noteq> None then Inl UniqueViolation
      else if ol_fulfilment l \<notin> set (known_fulfilments db) then Inl ConstraintViolation
      else Inr (db\<lparr>order_lines := order_lines db @ [l]\<rparr>))"

section \<open>Allocations\<close>

definition insert_allocation :: "line_db \<Rightarrow> allocation_row \<Rightarrow> line_error + line_db" where
  "insert_allocation db a =
     (if \<not> column_quantity (al_quantity a) then Inl ConstraintViolation
      else if find_row al_key (al_key a) (allocations db) \<noteq> None then Inl UniqueViolation
      else Inr (db\<lparr>allocations := allocations db @ [a]\<rparr>))"

definition allocated :: "line_key \<Rightarrow> allocation_row list \<Rightarrow> int" where
  "allocated k as = (\<Sum>a\<leftarrow>as. if allocated_line a = k then al_quantity a else 0)"

text \<open>\<open>check_complete_fulfilment_allocation\<close>, deferred to the end of the transaction.\<close>

definition check_complete_allocation :: "line_db \<Rightarrow> allocation_row \<Rightarrow> line_error + unit" where
  "check_complete_allocation db a =
     (case find_row line_of (allocated_line a) (order_lines db) of
        None \<Rightarrow> Inl AllocationIncomplete
      | Some l \<Rightarrow> ensure (allocated (allocated_line a) (allocations db) = ol_fulfilled l) AllocationIncomplete)"

text \<open>
  One statement: the rows in order, then the foreign keys, then, at its commit, the deferred trigger.
\<close>

definition insert_allocations :: "allocation_row list \<Rightarrow> line_db \<Rightarrow> line_error + line_db" where
  "insert_allocations as db =
     andThen (for_each insert_allocation db as) (\<lambda>db'.
     andThen (ensure (list_all (\<lambda>a. al_fulfilment a \<in> set (known_fulfilments db) \<and>
         find_row line_of (allocated_line a) (order_lines db) \<noteq> None) as) ConstraintViolation) (\<lambda>_.
     andThen (for_each (\<lambda>_. check_complete_allocation db') () as) (\<lambda>_.
     Inr db')))"

section \<open>Returns\<close>

definition counted :: "return_row \<Rightarrow> int" where
  "counted r = (if \<not> rt_deleted r \<and> rt_status r \<noteq> REJECTED then rt_quantity r else 0)"

text \<open>\<open>check_commerce_return_limit\<close>: the row before the write, the row after it, and the lines.\<close>

definition check_return_limit ::
    "return_row option \<Rightarrow> return_row option \<Rightarrow> order_line list \<Rightarrow> line_error + order_line list" where
  "check_return_limit old new lines =
     (let old_quantity = (case old of None \<Rightarrow> 0 | Some r \<Rightarrow> counted r);
          new_quantity = (case new of None \<Rightarrow> 0 | Some r \<Rightarrow> counted r) in
      if (case (old, new) of (Some r, Some s) \<Rightarrow> returned_line s \<noteq> returned_line r | _ \<Rightarrow> False)
      then Inl ReturnMoved
      else case (case new of Some r \<Rightarrow> Some r | None \<Rightarrow> old) of
        None \<Rightarrow> Inr lines
      | Some r \<Rightarrow>
          (case find_row line_of (returned_line r) lines of
             None \<Rightarrow> Inl ReturnLimit
           | Some l \<Rightarrow>
               let returned = ol_returned l + new_quantity - old_quantity in
               if 0 \<le> returned \<and> returned \<le> ol_fulfilled l
               then Inr (upd_row line_of (returned_line r) (\<lambda>l. l\<lparr>ol_returned := returned\<rparr>) lines)
               else Inl ReturnLimit))"

text \<open>The unique indexes are partial: they see only rows that are not soft-deleted.\<close>

definition return_clash :: "return_row \<Rightarrow> return_row \<Rightarrow> bool" where
  "return_clash r s \<longleftrightarrow> rt_id r = rt_id s \<or>
     (\<not> rt_deleted r \<and> \<not> rt_deleted s \<and> (rt_reference r = rt_reference s \<or> rt_key r = rt_key s))"

definition insert_return :: "return_row \<Rightarrow> line_db \<Rightarrow> line_error + line_db" where
  "insert_return r db =
     andThen (check_return_limit None (Some r) (order_lines db)) (\<lambda>lines.
       if \<not> column_quantity (rt_quantity r) then Inl ConstraintViolation
       else if list_ex (return_clash r) (returns db) then Inl UniqueViolation
       else if rt_fulfilment r \<notin> set (known_fulfilments db) then Inl ConstraintViolation
       else Inr (db\<lparr>order_lines := lines, returns := returns db @ [r]\<rparr>))"

text \<open>A direct update writes any row over the one of its identifier; a direct delete removes it.\<close>

definition update_return :: "return_row \<Rightarrow> line_db \<Rightarrow> line_error + line_db" where
  "update_return new db =
     (case find_row rt_id (rt_id new) (returns db) of
        None \<Rightarrow> Inr db
      | Some old \<Rightarrow>
          andThen (check_return_limit (Some old) (Some new) (order_lines db)) (\<lambda>lines.
            if \<not> column_quantity (rt_quantity new) then Inl ConstraintViolation
            else if list_ex (\<lambda>s. rt_id s \<noteq> rt_id new \<and> return_clash new s) (returns db) then Inl UniqueViolation
            else Inr (db\<lparr>order_lines := lines, returns := upd_row rt_id (rt_id new) (\<lambda>_. new) (returns db)\<rparr>)))"

definition delete_return :: "string \<Rightarrow> line_db \<Rightarrow> line_error + line_db" where
  "delete_return i db =
     (case find_row rt_id i (returns db) of
        None \<Rightarrow> Inr db
      | Some old \<Rightarrow>
          andThen (check_return_limit (Some old) None (order_lines db)) (\<lambda>lines.
            Inr (db\<lparr>order_lines := lines, returns := filter (\<lambda>r. rt_id r \<noteq> i) (returns db)\<rparr>)))"

section \<open>The idempotent writers\<close>

definition createIdempotentFulfilmentOrderLine ::
    "string \<Rightarrow> string \<Rightarrow> int \<Rightarrow> line_db \<Rightarrow> line_error + line_db \<times> order_line" where
  "createIdempotentFulfilmentOrderLine fulfilment line quantity db =
     (let find = find_row line_of (fulfilment, line) (order_lines db);
          new = \<lparr>ol_fulfilment = fulfilment, ol_line = line, ol_fulfilled = quantity, ol_returned = 0\<rparr> in
      case find of
        Some l \<Rightarrow> Inr (db, l)
      | None \<Rightarrow>
          (case insert_line new db of
             Inr db' \<Rightarrow> Inr (db', new)
           | Inl e \<Rightarrow>
               if e \<noteq> UniqueViolation then Inl e
               else (case find of None \<Rightarrow> Inl e | Some l \<Rightarrow> Inr (db, l))))"

definition allocations_of :: "string \<Rightarrow> string \<Rightarrow> line_db \<Rightarrow> allocation_row list" where
  "allocations_of fulfilment line db = filter (\<lambda>a. allocated_line a = (fulfilment, line)) (allocations db)"

definition new_allocation :: "string \<Rightarrow> string \<Rightarrow> string \<times> int \<Rightarrow> allocation_row" where
  "new_allocation fulfilment line = (\<lambda>(location, quantity).
     \<lparr>al_fulfilment = fulfilment, al_line = line, al_location = location, al_quantity = quantity,
      al_key = ''fulfilment-allocation:'' @ fulfilment @ '':'' @ line @ '':'' @ location\<rparr>)"

definition missing_allocations ::
    "string \<Rightarrow> string \<Rightarrow> (string \<times> int) list \<Rightarrow> line_db \<Rightarrow> (string \<times> int) list" where
  "missing_allocations fulfilment line wanted db =
     filter (\<lambda>(location, _). location \<notin> set (map al_location (allocations_of fulfilment line db))) wanted"

definition createIdempotentFulfilmentAllocations ::
    "string \<Rightarrow> string \<Rightarrow> (string \<times> int) list \<Rightarrow> line_db \<Rightarrow> line_error + line_db \<times> allocation_row list" where
  "createIdempotentFulfilmentAllocations fulfilment line wanted db =
     (let existing = allocations_of fulfilment line db;
          created = map (new_allocation fulfilment line) (missing_allocations fulfilment line wanted db) in
      if created = [] then Inr (db, existing)
      else case insert_allocations created db of
        Inr db' \<Rightarrow> Inr (db', existing @ created)
      | Inl e \<Rightarrow> if e \<noteq> UniqueViolation then Inl e else Inr (db, allocations_of fulfilment line db))"

definition createIdempotentCommerceReturn :: "return_row \<Rightarrow> line_db \<Rightarrow> line_error + line_db \<times> return_row" where
  "createIdempotentCommerceReturn new db =
     (let find = List.find (\<lambda>r. \<not> rt_deleted r \<and> rt_key r = rt_key new) (returns db) in
      case find of
        Some r \<Rightarrow> Inr (db, r)
      | None \<Rightarrow>
          (case insert_return new db of
             Inr db' \<Rightarrow> Inr (db', new)
           | Inl e \<Rightarrow>
               if e \<noteq> UniqueViolation then Inl e
               else (case find of None \<Rightarrow> Inl e | Some r \<Rightarrow> Inr (db, r))))"

section \<open>Histories\<close>

datatype line_op =
    CreateLine string string int
  | Allocate string string "(string \<times> int) list"
  | CreateReturn return_row
  | WriteReturn return_row
  | RewriteReturn return_row
  | RemoveReturn string

fun line_step :: "line_db \<Rightarrow> line_op \<Rightarrow> line_error + line_db" where
  "line_step db (CreateLine f l n) = andThen (createIdempotentFulfilmentOrderLine f l n db) (\<lambda>(db', _). Inr db')"
| "line_step db (Allocate f l wanted) = andThen (createIdempotentFulfilmentAllocations f l wanted db) (\<lambda>(db', _). Inr db')"
| "line_step db (CreateReturn r) =
     andThen (createIdempotentCommerceReturn (r\<lparr>rt_deleted := False\<rparr>) db) (\<lambda>(db', _). Inr db')"
| "line_step db (WriteReturn r) = insert_return r db"
| "line_step db (RewriteReturn r) = update_return r db"
| "line_step db (RemoveReturn i) = delete_return i db"

end
