(* ===== verification/Fulfilment_Lines_Laws.thy ===== *)
theory Fulfilment_Lines_Laws
  imports Fulfilment_Lines
begin

text \<open>
  The invariant of order lines, allocations and returns, that every write keeps it (an
  interpretation of \<open>checked_store\<close>), and the properties of the idempotent writers.
\<close>

section \<open>The invariant\<close>

definition live_returns :: "line_key \<Rightarrow> return_row list \<Rightarrow> int" where
  "live_returns k rs = (\<Sum>r\<leftarrow>rs. if returned_line r = k then counted r else 0)"

definition allocation_settled :: "line_db \<Rightarrow> order_line \<Rightarrow> bool" where
  "allocation_settled db l \<longleftrightarrow>
     line_of l \<notin> allocated_line ` set (allocations db) \<or> allocated (line_of l) (allocations db) = ol_fulfilled l"

definition line_ok :: "line_db \<Rightarrow> order_line \<Rightarrow> bool" where
  "line_ok db l \<longleftrightarrow> 0 < ol_fulfilled l \<and> 0 \<le> ol_returned l \<and> ol_returned l \<le> ol_fulfilled l \<and>
     ol_returned l = live_returns (line_of l) (returns db) \<and> allocation_settled db l"

definition line_inv :: "line_db \<Rightarrow> bool" where
  "line_inv db \<longleftrightarrow>
     distinct (map line_of (order_lines db)) \<and> distinct (map rt_id (returns db)) \<and>
     (\<forall>l \<in> set (order_lines db). line_ok db l) \<and>
     (\<forall>r \<in> set (returns db). returned_line r \<in> line_of ` set (order_lines db)) \<and>
     (\<forall>a \<in> set (allocations db). allocated_line a \<in> line_of ` set (order_lines db))"

lemma live_returns_unknown: "k \<notin> returned_line ` set rs \<Longrightarrow> live_returns k rs = 0"
  by (induction rs) (auto simp: live_returns_def)

lemma allocated_unknown: "k \<notin> allocated_line ` set as \<Longrightarrow> allocated k as = 0"
  by (induction as) (auto simp: allocated_def)

lemma allocated_append [simp]: "allocated k (as @ bs) = allocated k as + allocated k bs"
  by (simp add: allocated_def)

lemma live_returns_append [simp]: "live_returns k (rs @ ss) = live_returns k rs + live_returns k ss"
  by (simp add: live_returns_def)

lemma live_returns_one [simp]: "live_returns k [r] = (if returned_line r = k then counted r else 0)"
  by (simp add: live_returns_def)

lemma live_returns_rewrite:
  assumes "distinct (map rt_id rs)" "find_row rt_id i rs = Some old"
  shows "live_returns k (upd_row rt_id i (\<lambda>_. new) rs) = live_returns k rs +
     ((if returned_line new = k then counted new else 0) - (if returned_line old = k then counted old else 0))"
  unfolding live_returns_def using sum_upd_row [OF assms] by simp

lemma live_returns_remove:
  assumes "distinct (map rt_id rs)" "find_row rt_id i rs = Some old"
  shows "live_returns k (filter (\<lambda>r. rt_id r \<noteq> i) rs) = live_returns k rs - (if returned_line old = k then counted old else 0)"
  using assms
proof (induction rs)
  case (Cons r rs)
  show ?case
  proof (cases "rt_id r = i")
    case True
    with Cons.prems have "filter (\<lambda>r. rt_id r \<noteq> i) rs = rs" "r = old"
      by (auto simp: filter_id_conv) (metis image_eqI)
    then show ?thesis using True by (simp add: live_returns_def)
  next
    case False
    with Cons show ?thesis by (simp add: live_returns_def)
  qed
qed simp

section \<open>The return trigger\<close>

lemma check_return_limit_Inr:
  assumes "check_return_limit old new lines = Inr lines'"
    and "(case new of Some r \<Rightarrow> Some r | None \<Rightarrow> old) = Some r"
  obtains l where "find_row line_of (returned_line r) lines = Some l"
    "lines' = upd_row line_of (returned_line r) (\<lambda>x. x\<lparr>ol_returned := ol_returned l +
        (case new of None \<Rightarrow> 0 | Some r \<Rightarrow> counted r) - (case old of None \<Rightarrow> 0 | Some r \<Rightarrow> counted r)\<rparr>) lines"
    "0 \<le> ol_returned l + (case new of None \<Rightarrow> 0 | Some r \<Rightarrow> counted r) - (case old of None \<Rightarrow> 0 | Some r \<Rightarrow> counted r)"
    "ol_returned l + (case new of None \<Rightarrow> 0 | Some r \<Rightarrow> counted r) - (case old of None \<Rightarrow> 0 | Some r \<Rightarrow> counted r) \<le> ol_fulfilled l"
  using assms unfolding check_return_limit_def Let_def
  by (simp split: if_splits option.splits)

text \<open>
  A write that changes what one line has live by \<open>d\<close> keeps the invariant when the trigger has
  moved that line's counter by \<open>d\<close> within its bounds.
\<close>

lemma moved_lines_inv:
  assumes "line_inv db" and "find_row line_of k (order_lines db) = Some l"
    and "lines = upd_row line_of k (\<lambda>x. x\<lparr>ol_returned := ol_returned l + d\<rparr>) (order_lines db)"
    and "0 \<le> ol_returned l + d" "ol_returned l + d \<le> ol_fulfilled l"
    and "\<And>j. live_returns j rs = live_returns j (returns db) + (if j = k then d else 0)"
    and "distinct (map rt_id rs)" "\<forall>r \<in> set rs. returned_line r \<in> line_of ` set (order_lines db)"
  shows "line_inv (db\<lparr>order_lines := lines, returns := rs\<rparr>)"
proof -
  have keys: "map line_of lines = map line_of (order_lines db)"
    unfolding assms(3) by (rule map_key_upd_row) (simp add: line_of_def)
  then have images: "line_of ` set lines = line_of ` set (order_lines db)" by (metis list.set_map)
  have "line_ok (db\<lparr>order_lines := lines, returns := rs\<rparr>) m" if "m \<in> set lines" for m
  proof -
    from set_upd_row_cases [OF that [unfolded assms(3)]]
    consider x where "x \<in> set (order_lines db)" "line_of x = k" "m = x\<lparr>ol_returned := ol_returned l + d\<rparr>"
      | "m \<in> set (order_lines db)" "line_of m \<noteq> k" by blast
    then show ?thesis
    proof cases
      case (1 x)
      then have "x = l"
        using assms(1,2) find_row_Some_iff [of line_of "order_lines db" k x] by (simp add: line_inv_def)
      moreover have "line_ok db l" using 1(1) \<open>x = l\<close> assms(1) by (simp add: line_inv_def)
      ultimately show ?thesis using 1 assms(4-6) by (simp add: line_ok_def line_of_def allocation_settled_def)
    next
      case 2
      then have "line_ok db m" using assms(1) by (simp add: line_inv_def)
      then show ?thesis using 2(2) assms(6) by (simp add: line_ok_def allocation_settled_def)
    qed
  qed
  then show ?thesis using assms(1,7,8) keys images by (simp add: line_inv_def)
qed

lemma insert_return_inv:
  assumes "line_inv db" "insert_return r db = Inr db'"
  shows "line_inv db'"
proof -
  obtain lines where trigger: "check_return_limit None (Some r) (order_lines db) = Inr lines"
    and db': "db' = db\<lparr>order_lines := lines, returns := returns db @ [r]\<rparr>"
    and new: "\<forall>s \<in> set (returns db). rt_id r \<noteq> rt_id s"
    using assms(2) by (auto simp: insert_return_def andThen_Inr_iff list_ex_iff return_clash_def split: if_splits)
  obtain l where "find_row line_of (returned_line r) (order_lines db) = Some l"
    "lines = upd_row line_of (returned_line r) (\<lambda>x. x\<lparr>ol_returned := ol_returned l + counted r\<rparr>) (order_lines db)"
    "0 \<le> ol_returned l + counted r" "ol_returned l + counted r \<le> ol_fulfilled l"
    using check_return_limit_Inr [OF trigger, of r] by auto
  then show ?thesis
    unfolding db' using assms(1) new find_row_SomeD [of line_of "returned_line r" "order_lines db" l]
    by (intro moved_lines_inv [where k = "returned_line r" and l = l and d = "counted r"])
      (auto simp: line_inv_def image_iff intro: bexI [of _ l])
qed

lemma update_return_inv:
  assumes "line_inv db" "update_return new db = Inr db'"
  shows "line_inv db'"
proof (cases "find_row rt_id (rt_id new) (returns db)")
  case (Some old)
  then obtain lines where trigger: "check_return_limit (Some old) (Some new) (order_lines db) = Inr lines"
    and db': "db' = db\<lparr>order_lines := lines, returns := upd_row rt_id (rt_id new) (\<lambda>_. new) (returns db)\<rparr>"
    using assms(2) by (auto simp: update_return_def andThen_Inr_iff split: if_splits)
  have same: "returned_line new = returned_line old"
    using trigger by (simp add: check_return_limit_def Let_def split: if_splits)
  obtain l where l: "find_row line_of (returned_line new) (order_lines db) = Some l"
    "lines = upd_row line_of (returned_line new) (\<lambda>x. x\<lparr>ol_returned := ol_returned l + counted new - counted old\<rparr>) (order_lines db)"
    "0 \<le> ol_returned l + counted new - counted old" "ol_returned l + counted new - counted old \<le> ol_fulfilled l"
    using check_return_limit_Inr [OF trigger, of new] by auto
  have known: "returned_line new \<in> line_of ` set (order_lines db)"
    using find_row_SomeD [OF l(1)] by (metis image_eqI)
  have "distinct (map rt_id (upd_row rt_id (rt_id new) (\<lambda>_. new) (returns db)))"
    using assms(1) by (simp add: map_key_upd_row line_inv_def)
  moreover have "returned_line r \<in> line_of ` set (order_lines db)"
    if "r \<in> set (upd_row rt_id (rt_id new) (\<lambda>_. new) (returns db))" for r
    using set_upd_row_cases [OF that] assms(1) known by (auto simp: line_inv_def)
  ultimately show ?thesis
    unfolding db' using assms(1) l same
    by (intro moved_lines_inv [where k = "returned_line new" and l = l and d = "counted new - counted old"])
      (simp_all add: live_returns_rewrite [OF _ Some] line_inv_def add_diff_eq)
qed (use assms in \<open>simp add: update_return_def\<close>)

lemma delete_return_inv:
  assumes "line_inv db" "delete_return i db = Inr db'"
  shows "line_inv db'"
proof (cases "find_row rt_id i (returns db)")
  case (Some old)
  then obtain lines where trigger: "check_return_limit (Some old) None (order_lines db) = Inr lines"
    and db': "db' = db\<lparr>order_lines := lines, returns := filter (\<lambda>r. rt_id r \<noteq> i) (returns db)\<rparr>"
    using assms(2) by (auto simp: delete_return_def andThen_Inr_iff)
  obtain l where l: "find_row line_of (returned_line old) (order_lines db) = Some l"
    "lines = upd_row line_of (returned_line old) (\<lambda>x. x\<lparr>ol_returned := ol_returned l - counted old\<rparr>) (order_lines db)"
    "0 \<le> ol_returned l - counted old" "ol_returned l - counted old \<le> ol_fulfilled l"
    using check_return_limit_Inr [OF trigger, of old] by auto
  have "distinct (map rt_id (filter (\<lambda>r. rt_id r \<noteq> i) (returns db)))"
    using assms(1) by (simp add: line_inv_def distinct_map_filter)
  then show ?thesis
    unfolding db' using assms(1) l
    by (intro moved_lines_inv [where k = "returned_line old" and l = l and d = "- counted old"])
      (simp_all add: live_returns_remove [OF _ Some] line_inv_def)
qed (use assms in \<open>simp add: delete_return_def\<close>)

section \<open>Lines and allocations\<close>

lemma insert_line_inv:
  assumes "line_inv db" "insert_line l db = Inr db'" "ol_returned l = 0"
  shows "line_inv db'"
proof -
  have db': "db' = db\<lparr>order_lines := order_lines db @ [l]\<rparr>"
    and new: "line_of l \<notin> line_of ` set (order_lines db)" and "0 < ol_fulfilled l"
    using assms(2) by (auto simp: insert_line_def find_row_None_iff column_quantity_def split: if_splits)
  moreover have "live_returns (line_of l) (returns db) = 0" "line_of l \<notin> allocated_line ` set (allocations db)"
    using assms(1) new by (auto simp: line_inv_def intro!: live_returns_unknown)
  ultimately have "line_ok db' l" using assms(3) by (simp add: line_ok_def allocation_settled_def)
  then show ?thesis
    using assms(1) new unfolding line_inv_def db' by (auto simp: line_ok_def allocation_settled_def)
qed

lemma insert_allocation_Inr:
  "insert_allocation db a = Inr db' \<longleftrightarrow> column_quantity (al_quantity a) \<and>
     al_key a \<notin> al_key ` set (allocations db) \<and> db' = db\<lparr>allocations := allocations db @ [a]\<rparr>"
  by (auto simp: insert_allocation_def find_row_None_iff)

lemma insert_each_allocation:
  "for_each insert_allocation db as = Inr db' \<Longrightarrow> db' = db\<lparr>allocations := allocations db @ as\<rparr>"
proof (induction as arbitrary: db)
  case (Cons a as)
  then have "for_each insert_allocation (db\<lparr>allocations := allocations db @ [a]\<rparr>) as = Inr db'"
    by (auto simp: andThen_Inr_iff insert_allocation_Inr)
  from Cons.IH [OF this] show ?case by simp
qed simp

lemma for_each_check: "for_each (\<lambda>_. f) () xs = Inr () \<Longrightarrow> x \<in> set xs \<Longrightarrow> f x = Inr ()"
  by (induction xs) (auto simp: andThen_Inr_iff)

lemma insert_allocations_Inr:
  assumes "insert_allocations as db = Inr db'"
  shows "db' = db\<lparr>allocations := allocations db @ as\<rparr>"
    and "a \<in> set as \<Longrightarrow> \<exists>l. find_row line_of (allocated_line a) (order_lines db) = Some l \<and>
           allocated (allocated_line a) (allocations db @ as) = ol_fulfilled l"
proof -
  obtain db1 where each: "for_each insert_allocation db as = Inr db1"
    and complete: "for_each (\<lambda>_. check_complete_allocation db1) () as = Inr ()" and "db' = db1"
    using assms by (auto simp: insert_allocations_def andThen_Inr_iff split: if_splits)
  then show db': "db' = db\<lparr>allocations := allocations db @ as\<rparr>" using insert_each_allocation by blast
  assume "a \<in> set as"
  then show "\<exists>l. find_row line_of (allocated_line a) (order_lines db) = Some l \<and>
           allocated (allocated_line a) (allocations db @ as) = ol_fulfilled l"
    using for_each_check [OF complete, of a] db' \<open>db' = db1\<close>
    by (auto simp: check_complete_allocation_def split: option.splits)
qed

lemma insert_allocations_inv:
  assumes "line_inv db" "insert_allocations as db = Inr db'"
  shows "line_inv db'"
proof -
  note facts = insert_allocations_Inr [OF assms(2)]
  have "allocation_settled db' l" if "l \<in> set (order_lines db)" for l
  proof (cases "line_of l \<in> allocated_line ` set as")
    case True
    then obtain a where a: "a \<in> set as" "allocated_line a = line_of l" by auto
    with facts(2) [OF a(1)] obtain m where m: "find_row line_of (line_of l) (order_lines db) = Some m"
      "allocated (line_of l) (allocations db @ as) = ol_fulfilled m" by auto
    have "m = l"
      using m(1) that assms(1) find_row_Some_iff [of line_of "order_lines db" "line_of l" l] by (simp add: line_inv_def)
    then show ?thesis using m(2) facts(1) by (simp add: allocation_settled_def)
  next
    case False
    moreover have "allocation_settled db l" using that assms(1) by (simp add: line_inv_def line_ok_def)
    ultimately show ?thesis
      using facts(1) allocated_unknown [OF False] by (auto simp: allocation_settled_def)
  qed
  moreover have "allocated_line a \<in> line_of ` set (order_lines db)" if "a \<in> set as" for a
  proof -
    from facts(2) [OF that] obtain l where "find_row line_of (allocated_line a) (order_lines db) = Some l" by blast
    from find_row_SomeD [OF this] show ?thesis by (metis image_eqI)
  qed
  ultimately show ?thesis
    using assms(1) facts(1) by (auto simp: line_inv_def line_ok_def)
qed

section \<open>Every operation\<close>

lemma line_writers_inv:
  assumes "line_inv db"
  shows "createIdempotentFulfilmentOrderLine f l n db = Inr (db', x) \<Longrightarrow> line_inv db'"
    and "createIdempotentFulfilmentAllocations f l wanted db = Inr (db', ys) \<Longrightarrow> line_inv db'"
    and "createIdempotentCommerceReturn r db = Inr (db', y) \<Longrightarrow> line_inv db'"
  using assms
  by (auto simp: createIdempotentFulfilmentOrderLine_def createIdempotentFulfilmentAllocations_def
      createIdempotentCommerceReturn_def Let_def intro: insert_line_inv insert_allocations_inv insert_return_inv
      split: option.splits sum.splits if_splits)

interpretation line_store: checked_store line_step line_inv
proof
  fix db op db'
  assume "line_inv db" "line_step db op = Inr db'"
  then show "line_inv db'"
    by (cases op) (auto simp: andThen_Inr_iff intro: line_writers_inv insert_return_inv update_return_inv delete_return_inv)
qed

definition fresh_lines :: "string list \<Rightarrow> line_db" where
  "fresh_lines known = \<lparr>known_fulfilments = known, order_lines = [], allocations = [], returns = []\<rparr>"

lemma fresh_lines_inv: "line_inv (fresh_lines known)"
  by (simp add: line_inv_def fresh_lines_def)

section \<open>Properties\<close>

text \<open>
  C38: After any history of lines, allocations, returns and direct writes of returns, what is live of
  the returns of a line is its counter and never exceeds what was fulfilled, and a line that is
  allocated at all is allocated exactly.
\<close>

theorem returns_within_fulfilled_quantity:
  assumes "db = history line_step (fresh_lines known) ops" and "l \<in> set (order_lines db)"
  shows "ol_returned l = (\<Sum>r\<leftarrow>returns db. if returned_line r = line_of l \<and> \<not> rt_deleted r \<and> rt_status r \<noteq> REJECTED
        then rt_quantity r else 0) \<and>
     0 \<le> ol_returned l \<and> ol_returned l \<le> ol_fulfilled l \<and>
     ((\<exists>a \<in> set (allocations db). allocated_line a = line_of l) \<longrightarrow>
      (\<Sum>a\<leftarrow>allocations db. if allocated_line a = line_of l then al_quantity a else 0) = ol_fulfilled l)"
proof -
  have "line_inv db" unfolding assms(1) by (rule line_store.history_inv [OF fresh_lines_inv])
  then have ok: "line_ok db l" using assms(2) by (simp add: line_inv_def)
  have "live_returns (line_of l) (returns db) =
      (\<Sum>r\<leftarrow>returns db. if returned_line r = line_of l \<and> \<not> rt_deleted r \<and> rt_status r \<noteq> REJECTED then rt_quantity r else 0)"
    unfolding live_returns_def by (rule arg_cong [where f = sum_list], rule map_cong) (auto simp: counted_def)
  then show ?thesis
    using ok by (auto simp: line_ok_def allocation_settled_def allocated_def image_iff)
qed

text \<open>
  A batch of allocations that names a location twice is reported as a success and writes nothing:
  the unique violation the batch causes against itself is taken for a concurrent writer's.
\<close>

theorem duplicate_location_is_swallowed:
  assumes "\<forall>a \<in> set wanted. column_quantity (snd a)" and "allocations_of f l db = []"
    and "\<not> distinct (map fst wanted)"
  shows "createIdempotentFulfilmentAllocations f l wanted db = Inr (db, [])"
proof -
  let ?p = "''fulfilment-allocation:'' @ f @ '':'' @ l @ '':''"
  have clash: "for_each insert_allocation db' (map (new_allocation f l) ws) = Inl UniqueViolation"
    if "\<forall>a \<in> set ws. column_quantity (snd a)" "\<not> distinct (map fst ws) \<or> (\<exists>w \<in> set ws. \<exists>a \<in> set (allocations db'). al_key a = ?p @ fst w)"
    for ws db'
    using that
  proof (induction ws arbitrary: db')
    case (Cons w ws)
    let ?a = "new_allocation f l w"
    have key: "al_key ?a = ?p @ fst w" "al_quantity ?a = snd w" by (simp_all add: new_allocation_def split: prod.splits)
    show ?case
    proof (cases "al_key ?a \<in> al_key ` set (allocations db')")
      case True
      then show ?thesis
        using Cons.prems(1) key by (auto simp: insert_allocation_def find_row_None_iff)
    next
      case False
      then have "insert_allocation db' ?a = Inr (db'\<lparr>allocations := allocations db' @ [?a]\<rparr>)"
        using Cons.prems(1) key by (simp add: insert_allocation_Inr)
      moreover have "\<not> distinct (map fst ws) \<or> (\<exists>w \<in> set ws. \<exists>a \<in> set (allocations db' @ [?a]). al_key a = ?p @ fst w)"
        using Cons.prems(2) False key by (auto simp: image_iff)
      ultimately show ?thesis using Cons.IH [of "db'\<lparr>allocations := allocations db' @ [?a]\<rparr>"] Cons.prems(1) by simp
    qed
  qed simp
  have "wanted \<noteq> []" using assms(3) by auto
  then show ?thesis
    using clash [OF assms(1), of db] assms(2,3)
    by (simp add: createIdempotentFulfilmentAllocations_def missing_allocations_def insert_allocations_def case_prod_beta')
qed

section \<open>A concrete history\<close>

definition broken_mug :: return_row where
  "broken_mug = \<lparr>rt_id = ''ret_1'', rt_reference = ''ret-ref-1'', rt_fulfilment = ''ful_1'', rt_order = ''order-1'',
     rt_line = ''line-1'', rt_quantity = 2, rt_reason = DAMAGED, rt_disposition = DISPOSE, rt_status = REQUESTED,
     rt_key = ''key-1'', rt_correlation = ''corr-1'', rt_deleted = False\<rparr>"

definition line_run :: "line_op list" where
  "line_run =
     [CreateLine ''ful_1'' ''line-1'' 5,
      Allocate ''ful_1'' ''line-1'' [(''kampala'', 2), (''jinja'', 2)],
      Allocate ''ful_1'' ''line-1'' [(''kampala'', 3), (''jinja'', 2)],
      CreateReturn broken_mug,
      RewriteReturn (broken_mug\<lparr>rt_quantity := 4, rt_status := AUTHORIZED\<rparr>),
      WriteReturn (broken_mug\<lparr>rt_id := ''ret_2'', rt_reference := ''ret-ref-2'', rt_key := ''key-2''\<rparr>)]"

lemma line_run_result:
  "history line_step (fresh_lines [''ful_1'']) line_run =
   \<lparr>known_fulfilments = [''ful_1''],
    order_lines = [\<lparr>ol_fulfilment = ''ful_1'', ol_line = ''line-1'', ol_fulfilled = 5, ol_returned = 4\<rparr>],
    allocations = map (new_allocation ''ful_1'' ''line-1'') [(''kampala'', 3), (''jinja'', 2)],
    returns = [broken_mug\<lparr>rt_quantity := 4, rt_status := AUTHORIZED\<rparr>]\<rparr>"
  by code_simp

lemma returns_within_fulfilled_quantity_witness:
  "ol_returned (hd (order_lines (history line_step (fresh_lines [''ful_1'']) line_run))) = 4 \<and>
   ol_returned (hd (order_lines (history line_step (fresh_lines [''ful_1'']) line_run))) \<le> 5"
  using returns_within_fulfilled_quantity [OF refl, of "hd (order_lines (history line_step (fresh_lines [''ful_1'']) line_run))"
      "[''ful_1'']" line_run]
  by (simp add: line_run_result)

lemma duplicate_location_is_swallowed_witness:
  "createIdempotentFulfilmentAllocations ''ful_1'' ''line-1'' [(''kampala'', 2), (''kampala'', 3)] (fresh_lines [''ful_1'']) =
   Inr (fresh_lines [''ful_1''], [])"
  by (rule duplicate_location_is_swallowed) (simp_all add: column_quantity_def allocations_of_def fresh_lines_def)

end
