(* ===== verification/Event_Envelope.thy ===== *)
theory Event_Envelope
  imports Json_Text
begin

text \<open>
  Event envelopes: \<open>src/src/baobab/events/event-contracts.ts\<close> and the fingerprints of
  \<open>src/src/baobab/events/outbox.ts\<close>. An event is a JavaScript object as the code builds it: unlike a JSON
  text it may hold a property whose value is \<open>undefined\<close>. A number is kept as the text
  \<open>JSON.stringify\<close> gives it, which is all the code reads of one.
\<close>

section \<open>Values\<close>

datatype event_json =
    ENull
  | EUndef
  | EBool bool
  | ENum string
  | EStr string
  | EArr "event_json list"
  | EObj "(string \<times> event_json) list"

text \<open>Property access: an absent property reads as \<open>undefined\<close>.\<close>

definition property :: "event_json \<Rightarrow> string \<Rightarrow> event_json" where
  "property v k =
     (case v of EObj row \<Rightarrow> (case map_of row k of None \<Rightarrow> EUndef | Some x \<Rightarrow> x) | _ \<Rightarrow> EUndef)"

definition text_property :: "event_json \<Rightarrow> string \<Rightarrow> string option" where
  "text_property v k = (case property v k of EStr s \<Rightarrow> Some s | _ \<Rightarrow> None)"

text \<open>Assignment of a property keeps its place; spreading an object assigns its properties in order.\<close>

fun set_property :: "string \<times> event_json \<Rightarrow> (string \<times> event_json) list \<Rightarrow> (string \<times> event_json) list" where
  "set_property (k, v) [] = [(k, v)]"
| "set_property (k, v) ((j, w) # row) = (if j = k then (j, v) # row else (j, w) # set_property (k, v) row)"

definition spread :: "(string \<times> event_json) list \<Rightarrow> (string \<times> event_json) list \<Rightarrow> (string \<times> event_json) list" where
  "spread row props = foldl (\<lambda>r p. set_property p r) row props"

section \<open>Patterns\<close>

text \<open>A text cut at dots and hyphens: each segment with the separator before it.\<close>

fun segments :: "char \<Rightarrow> string \<Rightarrow> string \<Rightarrow> (char \<times> string) list" where
  "segments sep seg [] = [(sep, rev seg)]"
| "segments sep seg (c # cs) =
     (if c = CHR ''.'' \<or> c = CHR ''-'' then (sep, rev seg) # segments c [] cs else segments sep (c # seg) cs)"

definition EVENT_TYPE_PREFIX :: string where
  "EVENT_TYPE_PREFIX = ''com.baobab-platform.''"

definition version_segment :: "char \<times> string \<Rightarrow> bool" where
  "version_segment = (\<lambda>(sep, seg). sep = CHR ''.'' \<and>
     (case seg of v # d # ds \<Rightarrow> v = CHR ''v'' \<and> code_between 49 57 d \<and> list_all digit_char ds | _ \<Rightarrow> False))"

definition EVENT_TYPE_PATTERN :: "string \<Rightarrow> bool" where
  "EVENT_TYPE_PATTERN s \<longleftrightarrow> has_prefix EVENT_TYPE_PREFIX s \<and>
     (let segs = segments CHR ''.'' [] (drop (length EVENT_TYPE_PREFIX) s) in
      2 \<le> length segs \<and>
      list_all (\<lambda>(_, seg). seg \<noteq> [] \<and> list_all (\<lambda>c. lower_char c \<or> digit_char c) seg) segs \<and>
      version_segment (last segs))"

definition hex_char :: "char \<Rightarrow> bool" where
  "hex_char c \<longleftrightarrow> digit_char c \<or> code_between 97 102 c \<or> code_between 65 70 c"

definition UUID_PATTERN :: "string \<Rightarrow> bool" where
  "UUID_PATTERN s \<longleftrightarrow> length s = 36 \<and>
     list_all (\<lambda>(i, c). if i \<in> {8, 13, 18, 23} then c = CHR ''-'' else hex_char c) (enumerate 0 s)"

definition TRACEPARENT_PATTERN :: "string \<Rightarrow> bool" where
  "TRACEPARENT_PATTERN s \<longleftrightarrow> length s = 55 \<and> take 3 s = ''00-'' \<and>
     list_all lower_hex_char (take 32 (drop 3 s)) \<and> \<not> list_all (\<lambda>c. c = CHR ''0'') (take 32 (drop 3 s)) \<and>
     take 1 (drop 35 s) = ''-'' \<and>
     list_all lower_hex_char (take 16 (drop 36 s)) \<and> \<not> list_all (\<lambda>c. c = CHR ''0'') (take 16 (drop 36 s)) \<and>
     drop 52 s \<in> {''-00'', ''-01''}"

section \<open>Construction and validation\<close>

definition TRADE_EVENT_SOURCE :: string where
  "TRADE_EVENT_SOURCE = ''urn:baobab-platform:service:baobab-trade''"

text \<open>
  The event constructors: the input is the properties of \<open>TradeEventInput\<close>, and \<open>generated\<close> is the
  traceparent of the current span, if there is one. \<open>None\<close> is the thrown error.
\<close>

definition generated_trace :: "string option \<Rightarrow> (string \<times> event_json) list \<Rightarrow> (string \<times> event_json) list" where
  "generated_trace generated input =
     (case (property (EObj input) ''traceparent'', generated) of
        (EUndef, Some t) \<Rightarrow> [(''traceparent'', EStr t)]
      | _ \<Rightarrow> [])"

definition assertValidEventType :: "(string \<times> event_json) list \<Rightarrow> bool" where
  "assertValidEventType input \<longleftrightarrow> (case text_property (EObj input) ''type'' of None \<Rightarrow> False | Some t \<Rightarrow> EVENT_TYPE_PATTERN t)"

definition createTenantTradeEvent ::
    "string option \<Rightarrow> string \<Rightarrow> (string \<times> event_json) list \<Rightarrow> event_json option" where
  "createTenantTradeEvent generated tenant input =
     (if \<not> assertValidEventType input then None
      else Some (EObj (spread (spread
        [(''specversion'', EStr ''1.0''), (''datacontenttype'', EStr ''application/json''),
         (''source'', EStr TRADE_EVENT_SOURCE), (''baobabscope'', EStr ''tenant''), (''tenantid'', EStr tenant)]
        input) (generated_trace generated input))))"

definition createPlatformTradeEvent ::
    "string option \<Rightarrow> (string \<times> event_json) list \<Rightarrow> event_json option" where
  "createPlatformTradeEvent generated input =
     (if \<not> assertValidEventType input then None
      else Some (EObj (spread (spread
        [(''specversion'', EStr ''1.0''), (''datacontenttype'', EStr ''application/json''),
         (''source'', EStr TRADE_EVENT_SOURCE), (''baobabscope'', EStr ''platform'')]
        input) (generated_trace generated input))))"

definition is_text :: "(string \<Rightarrow> bool) \<Rightarrow> event_json \<Rightarrow> bool" where
  "is_text p v = (case v of EStr s \<Rightarrow> p s | _ \<Rightarrow> False)"

definition isValidCloudEvent :: "event_json \<Rightarrow> bool" where
  "isValidCloudEvent v \<longleftrightarrow>
     (case v of EObj _ \<Rightarrow> True | EArr _ \<Rightarrow> True | _ \<Rightarrow> False) \<and>
     property v ''specversion'' = EStr ''1.0'' \<and>
     is_text UUID_PATTERN (property v ''id'') \<and>
     is_text EVENT_TYPE_PATTERN (property v ''type'') \<and>
     is_text any_text (property v ''source'') \<and>
     is_text (\<lambda>s. s \<noteq> []) (property v ''subject'') \<and>
     is_text any_text (property v ''time'') \<and>
     property v ''datacontenttype'' = EStr ''application/json'' \<and>
     is_text any_text (property v ''dataschema'') \<and>
     is_text UUID_PATTERN (property v ''correlationid'') \<and>
     (case property v ''data'' of EObj _ \<Rightarrow> True | EArr _ \<Rightarrow> True | _ \<Rightarrow> False) \<and>
     (property v ''traceparent'' = EUndef \<or> is_text TRACEPARENT_PATTERN (property v ''traceparent'')) \<and>
     (if property v ''baobabscope'' = EStr ''tenant'' then is_text (\<lambda>s. s \<noteq> []) (property v ''tenantid'')
      else property v ''baobabscope'' = EStr ''platform'' \<and> property v ''tenantid'' = EUndef)"

section \<open>Fingerprints\<close>

text \<open>
  \<open>stableJson\<close>: \<open>JSON.stringify(undefined)\<close> is \<open>undefined\<close>, which a template prints as its name and
  \<open>join\<close> as nothing. Keys are ordered by the collation key of \<open>localeCompare\<close>, an argument.
\<close>

definition in_template :: "string option \<Rightarrow> string" where
  "in_template t = (case t of None \<Rightarrow> ''undefined'' | Some s \<Rightarrow> s)"

definition in_join :: "string option \<Rightarrow> string" where
  "in_join t = (case t of None \<Rightarrow> [] | Some s \<Rightarrow> s)"

fun stableJson :: "(string \<Rightarrow> string) \<Rightarrow> event_json \<Rightarrow> string option" where
  "stableJson rank ENull = Some ''null''"
| "stableJson rank EUndef = None"
| "stableJson rank (EBool b) = Some (if b then ''true'' else ''false'')"
| "stableJson rank (ENum t) = Some t"
| "stableJson rank (EStr s) = Some (stringify_text s)"
| "stableJson rank (EArr vs) = Some (''['' @ join_with '','' (map (\<lambda>v. in_join (stableJson rank v)) vs) @ '']'')"
| "stableJson rank (EObj row) =
     Some (''{'' @ join_with '','' (map snd (sort_key (\<lambda>(k, _). rank k)
       (map (\<lambda>(k, v). (k, stringify_text k @ '':'' @ in_template (stableJson rank v))) row))) @ ''}'')"

definition canonicalEventFingerprint :: "(string \<Rightarrow> string) \<Rightarrow> (string \<Rightarrow> string) \<Rightarrow> event_json \<Rightarrow> string" where
  "canonicalEventFingerprint sha256 rank event = sha256 (in_template (stableJson rank event))"

definition semantic_part :: "event_json \<Rightarrow> event_json" where
  "semantic_part v =
     (case v of EObj row \<Rightarrow> EObj (filter (\<lambda>(k, _). k \<noteq> ''traceparent'' \<and> k \<noteq> ''tracestate'') row) | _ \<Rightarrow> v)"

definition canonicalEventSemanticFingerprint :: "(string \<Rightarrow> string) \<Rightarrow> (string \<Rightarrow> string) \<Rightarrow> event_json \<Rightarrow> string" where
  "canonicalEventSemanticFingerprint sha256 rank event = sha256 (in_template (stableJson rank (semantic_part event)))"

text \<open>
  What a \<open>jsonb\<close> column gives back: the JSON text of the value, in which an undefined property is
  left out and an undefined element is \<open>null\<close>. The order in which it returns keys is not modelled:
  the fingerprints sort them.
\<close>

fun json_value :: "event_json \<Rightarrow> event_json" where
  "json_value EUndef = ENull"
| "json_value (EArr vs) = EArr (map json_value vs)"
| "json_value (EObj row) = EObj (map (\<lambda>(k, v). (k, json_value v)) (filter (\<lambda>(_, v). v \<noteq> EUndef) row))"
| "json_value v = v"

fun defined_json :: "event_json \<Rightarrow> bool" where
  "defined_json EUndef = False"
| "defined_json (EArr vs) = list_all defined_json vs"
| "defined_json (EObj row) = list_all (\<lambda>(_, v). defined_json v) row"
| "defined_json v = True"

lemma defined_json_value: "defined_json v \<Longrightarrow> json_value v = v"
proof (induction v rule: json_value.induct)
  case (2 vs)
  then show ?case by (auto simp: list_all_iff intro: map_idI)
next
  case (3 row)
  then have "filter (\<lambda>(_, v). v \<noteq> EUndef) row = row" by (auto simp: list_all_iff filter_id_conv)
  then show ?case using 3 by (auto simp: list_all_iff intro!: map_idI)
qed simp_all

end
