(* ===== verification/Outbox.thy ===== *)
theory Outbox
  imports Event_Envelope
begin

text \<open>
  The transactional outbox and its at-least-once dispatcher: \<open>src/src/baobab/events/outbox.ts\<close>, the
  record adapter \<open>outbox-record-adapter.ts\<close> over the tables of
  \<open>src/src/modules/event-outbox/migrations/\<close>, and the publishers of \<open>publisher.ts\<close>. The dispatcher
  and \<open>enqueue\<close> work on any repository, as in the code. Which rows a listing with \<open>take\<close> returns is left
  to the framework: \<open>page n rows\<close> is an argument, as are row identifiers, SHA-256, the collation and
  the bus.
\<close>

section \<open>Records\<close>

datatype outbox_status = PENDING | PUBLISHING | PUBLISHED | RETRY | DEAD_LETTER

record outbox_record =
  or_id :: string
  or_event_id :: string
  or_type :: string
  or_subject :: string
  or_tenant :: "string option"
  or_correlation :: string
  or_causation :: "string option"
  or_key :: string
  or_envelope :: event_json
  or_status :: outbox_status
  or_attempts :: nat
  or_next :: instant
  or_published :: "instant option"
  or_lease :: "instant option"
  or_error :: "string option"

text \<open>A row has the columns of a record and four more, which no statement here reads back.\<close>

record outbox_row = outbox_record +
  ob_owner :: "string option"
  ob_estate :: "string option"
  ob_market :: "string option"
  ob_digest :: string

definition toRecord :: "outbox_row \<Rightarrow> outbox_record" where
  "toRecord = outbox_record.truncate"

record retry_policy =
  maxAttempts :: nat
  initialDelayMs :: int
  maxDelayMs :: int
  leaseDurationMs :: int

definition DEFAULT_RETRY_POLICY :: retry_policy where
  "DEFAULT_RETRY_POLICY = \<lparr>maxAttempts = 8, initialDelayMs = 1000, maxDelayMs = 300000, leaseDurationMs = 60000\<rparr>"

datatype outbox_error = NonConforming | KeyRequired | KeyCollision | UniqueViolation | ScopeViolation | RowMissing

section \<open>The record adapter\<close>

definition findOutboxByKey :: "string \<Rightarrow> outbox_row list \<Rightarrow> outbox_record option" where
  "findOutboxByKey key rows = map_option toRecord (find_row or_key key rows)"

text \<open>
  \<open>event_outbox_thamani_scope_check\<close> of \<open>Migration20260909110000\<close> and the unique columns of the table.
\<close>

definition outbox_scope_check :: "outbox_row \<Rightarrow> bool" where
  "outbox_scope_check r \<longleftrightarrow> has_prefix ''thamani:event:'' (or_key r) \<longrightarrow>
     or_tenant r = Some ''tenant-thamani'' \<and> ob_owner r = Some ''canonical:legal-entity:thamani'' \<and>
     ob_estate r = Some ''estate:thamani-b2c''"

definition insert_outbox :: "outbox_row \<Rightarrow> outbox_row list \<Rightarrow> outbox_error + outbox_row list" where
  "insert_outbox r rows =
     (if \<not> outbox_scope_check r then Inl ScopeViolation
      else if list_ex (\<lambda>q. or_id q = or_id r \<or> or_event_id q = or_event_id r \<or> or_key q = or_key r) rows
      then Inl UniqueViolation
      else Inr (rows @ [r]))"

definition text_or_empty :: "event_json \<Rightarrow> string \<Rightarrow> string" where
  "text_or_empty v k = (case text_property v k of None \<Rightarrow> [] | Some s \<Rightarrow> s)"

definition new_outbox_row ::
    "(string \<Rightarrow> string) \<Rightarrow> (string \<Rightarrow> string) \<Rightarrow> string \<Rightarrow> instant \<Rightarrow> event_json \<Rightarrow> string \<Rightarrow> outbox_row" where
  "new_outbox_row sha256 rank i now event key =
     (let payload = property event ''data'' in
      \<lparr>or_id = i, or_event_id = text_or_empty event ''id'', or_type = text_or_empty event ''type'',
       or_subject = text_or_empty event ''subject'',
       or_tenant = (if property event ''baobabscope'' = EStr ''tenant'' then text_property event ''tenantid'' else None),
       or_correlation = text_or_empty event ''correlationid'', or_causation = text_property event ''causationid'',
       or_key = key, or_envelope = json_value event, or_status = PENDING, or_attempts = 0, or_next = now,
       or_published = None, or_lease = None, or_error = None,
       ob_owner = text_property payload ''owner_legal_entity_id'',
       ob_estate = text_property payload ''digital_estate'',
       ob_market = text_property payload ''market_key'',
       ob_digest = canonicalEventFingerprint sha256 rank event\<rparr>)"

definition createOutbox ::
    "(string \<Rightarrow> string) \<Rightarrow> (string \<Rightarrow> string) \<Rightarrow> string \<Rightarrow> instant \<Rightarrow> event_json \<Rightarrow> string \<Rightarrow> outbox_row list \<Rightarrow>
     outbox_error + outbox_row list \<times> outbox_record" where
  "createOutbox sha256 rank i now event key rows =
     (case findOutboxByKey key rows of
        Some existing \<Rightarrow>
          if canonicalEventSemanticFingerprint sha256 rank (or_envelope existing) \<noteq>
             canonicalEventSemanticFingerprint sha256 rank event
          then Inl KeyCollision else Inr (rows, existing)
      | None \<Rightarrow>
          (let r = new_outbox_row sha256 rank i now event key in
           andThen (insert_outbox r rows) (\<lambda>rows'. Inr (rows', toRecord r))))"

definition outbox_due :: "instant \<Rightarrow> ('a :: type) outbox_record_scheme \<Rightarrow> bool" where
  "outbox_due now r \<longleftrightarrow>
     (or_status r \<in> {PENDING, RETRY} \<and> or_next r \<le> now) \<or>
     (or_status r = PUBLISHING \<and> (case or_lease r of None \<Rightarrow> False | Some l \<Rightarrow> l \<le> now))"

definition listDue ::
    "(nat \<Rightarrow> outbox_row list \<Rightarrow> outbox_row list) \<Rightarrow> instant \<Rightarrow> nat \<Rightarrow> outbox_row list \<Rightarrow> outbox_record list" where
  "listDue page now limit rows = map toRecord (take limit (filter (outbox_due now) (page (limit * 2) rows)))"

definition update_outbox ::
    "string \<Rightarrow> (outbox_row \<Rightarrow> outbox_row) \<Rightarrow> outbox_row list \<Rightarrow> outbox_error + outbox_row list \<times> outbox_record" where
  "update_outbox i f rows =
     (case find_row or_id i rows of
        None \<Rightarrow> Inl RowMissing
      | Some r \<Rightarrow> Inr (upd_row or_id i f rows, toRecord (f r)))"

definition claim ::
    "string \<Rightarrow> instant \<Rightarrow> nat \<Rightarrow> instant \<Rightarrow> outbox_row list \<Rightarrow> outbox_row list \<times> outbox_record option" where
  "claim i now attempt lease rows =
     (case find_row or_id i rows of
        None \<Rightarrow> (rows, None)
      | Some current \<Rightarrow>
          if \<not> outbox_due now current then (rows, None)
          else case update_outbox i (\<lambda>r. r\<lparr>or_status := PUBLISHING, or_attempts := attempt, or_lease := Some lease\<rparr>) rows of
            Inl _ \<Rightarrow> (rows, None)
          | Inr (rows', r) \<Rightarrow> (rows', Some r))"

definition markPublished ::
    "string \<Rightarrow> instant \<Rightarrow> outbox_row list \<Rightarrow> outbox_error + outbox_row list \<times> outbox_record" where
  "markPublished i published rows = update_outbox i (\<lambda>r. r\<lparr>or_status := PUBLISHED,
     or_published := Some published, or_lease := None, or_error := None\<rparr>) rows"

definition markRetry ::
    "string \<Rightarrow> instant \<Rightarrow> string \<Rightarrow> outbox_row list \<Rightarrow> outbox_error + outbox_row list \<times> outbox_record" where
  "markRetry i retry_at code rows = update_outbox i (\<lambda>r. r\<lparr>or_status := RETRY,
     or_next := retry_at, or_lease := None, or_error := Some code\<rparr>) rows"

definition markDeadLetter ::
    "string \<Rightarrow> string \<Rightarrow> outbox_row list \<Rightarrow> outbox_error + outbox_row list \<times> outbox_record" where
  "markDeadLetter i code rows = update_outbox i (\<lambda>r. r\<lparr>or_status := DEAD_LETTER,
     or_lease := None, or_error := Some code\<rparr>) rows"

section \<open>The repository interface\<close>

record 'db outbox_repository =
  repo_find :: "string \<Rightarrow> 'db \<Rightarrow> outbox_record option"
  repo_create :: "string \<Rightarrow> instant \<Rightarrow> event_json \<Rightarrow> string \<Rightarrow> 'db \<Rightarrow> outbox_error + 'db \<times> outbox_record"
  repo_list :: "instant \<Rightarrow> nat \<Rightarrow> 'db \<Rightarrow> outbox_record list"
  repo_claim :: "string \<Rightarrow> instant \<Rightarrow> nat \<Rightarrow> instant \<Rightarrow> 'db \<Rightarrow> 'db \<times> outbox_record option"
  repo_published :: "string \<Rightarrow> instant \<Rightarrow> 'db \<Rightarrow> outbox_error + 'db \<times> outbox_record"
  repo_retry :: "string \<Rightarrow> instant \<Rightarrow> string \<Rightarrow> 'db \<Rightarrow> outbox_error + 'db \<times> outbox_record"
  repo_dead :: "string \<Rightarrow> string \<Rightarrow> 'db \<Rightarrow> outbox_error + 'db \<times> outbox_record"

definition EventOutboxRecordAdapter ::
    "(string \<Rightarrow> string) \<Rightarrow> (string \<Rightarrow> string) \<Rightarrow> (nat \<Rightarrow> outbox_row list \<Rightarrow> outbox_row list) \<Rightarrow>
     outbox_row list outbox_repository" where
  "EventOutboxRecordAdapter sha256 rank page =
     \<lparr>repo_find = findOutboxByKey, repo_create = createOutbox sha256 rank, repo_list = listDue page,
      repo_claim = claim, repo_published = markPublished, repo_retry = markRetry, repo_dead = markDeadLetter\<rparr>"

section \<open>Enqueue\<close>

definition idempotency_key :: "event_json \<Rightarrow> string option" where
  "idempotency_key event = (case text_property event ''idempotencykey'' of Some (c # cs) \<Rightarrow> Some (c # cs) | _ \<Rightarrow> None)"

definition enqueue ::
    "(string \<Rightarrow> string) \<Rightarrow> (string \<Rightarrow> string) \<Rightarrow> 'db outbox_repository \<Rightarrow> string \<Rightarrow> instant \<Rightarrow> event_json \<Rightarrow>
     'db \<Rightarrow> outbox_error + 'db \<times> outbox_record" where
  "enqueue sha256 rank repo i now event db =
     andThen (ensure (isValidCloudEvent event) NonConforming) (\<lambda>_.
       case idempotency_key event of
         None \<Rightarrow> Inl KeyRequired
       | Some key \<Rightarrow>
           (case repo_find repo key db of
              Some existing \<Rightarrow>
                if canonicalEventSemanticFingerprint sha256 rank (or_envelope existing) \<noteq>
                   canonicalEventSemanticFingerprint sha256 rank event
                then Inl KeyCollision else Inr (db, existing)
            | None \<Rightarrow> repo_create repo i now event key db))"

section \<open>Dispatch\<close>

text \<open>
  A publisher either accepts an envelope or throws: an \<open>Error\<close> with its name, or something else. The
  bus publisher refuses an envelope that does not conform.
\<close>

datatype publish_outcome = Accepted | Threw "string option"

definition publish_to_bus :: "(event_json \<Rightarrow> publish_outcome) \<Rightarrow> event_json \<Rightarrow> publish_outcome" where
  "publish_to_bus bus event = (if isValidCloudEvent event then bus event else Threw (Some ''Error''))"

definition errorCode :: "string option \<Rightarrow> string" where
  "errorCode e = (case e of Some (c # cs) \<Rightarrow> take 100 (c # cs) | _ \<Rightarrow> ''PUBLISH_FAILED'')"

definition retry_delay :: "retry_policy \<Rightarrow> nat \<Rightarrow> int" where
  "retry_delay policy attempt = min (initialDelayMs policy * 2 ^ (attempt - 1)) (maxDelayMs policy)"

text \<open>What follows a claim: publish, then mark the record.\<close>

definition finish ::
    "'db outbox_repository \<Rightarrow> retry_policy \<Rightarrow> instant \<Rightarrow> nat \<Rightarrow> publish_outcome \<Rightarrow> string \<Rightarrow> 'db \<Rightarrow>
     outbox_error + 'db \<times> outbox_record" where
  "finish repo policy now attempt outcome i db =
     (case outcome of
        Accepted \<Rightarrow> repo_published repo i now db
      | Threw e \<Rightarrow>
          if maxAttempts policy \<le> attempt then repo_dead repo i (errorCode e) db
          else repo_retry repo i (now + retry_delay policy attempt) (errorCode e) db)"

text \<open>One candidate; a claimed row is there to be marked, so the marks do not fail.\<close>

definition dispatch_one ::
    "'db outbox_repository \<Rightarrow> retry_policy \<Rightarrow> (event_json \<Rightarrow> publish_outcome) \<Rightarrow> instant \<Rightarrow> outbox_record \<Rightarrow> 'db \<Rightarrow>
     'db \<times> outbox_record list" where
  "dispatch_one repo policy publish now candidate db =
     (let attempt = or_attempts candidate + 1 in
      case repo_claim repo (or_id candidate) now attempt (now + leaseDurationMs policy) db of
        (db1, None) \<Rightarrow> (db1, [])
      | (db1, Some claimed) \<Rightarrow>
          (case finish repo policy now attempt (publish (or_envelope claimed)) (or_id claimed) db1 of
             Inl _ \<Rightarrow> (db1, [])
           | Inr (db2, r) \<Rightarrow> (db2, [r])))"

fun dispatch_each ::
    "'db outbox_repository \<Rightarrow> retry_policy \<Rightarrow> (event_json \<Rightarrow> publish_outcome) \<Rightarrow> instant \<Rightarrow> outbox_record list \<Rightarrow> 'db \<Rightarrow>
     'db \<times> outbox_record list" where
  "dispatch_each repo policy publish now [] db = (db, [])"
| "dispatch_each repo policy publish now (c # cs) db =
     (let (db1, r) = dispatch_one repo policy publish now c db;
          (db2, rs) = dispatch_each repo policy publish now cs db1
      in (db2, r @ rs))"

definition dispatchDue ::
    "'db outbox_repository \<Rightarrow> retry_policy \<Rightarrow> (event_json \<Rightarrow> publish_outcome) \<Rightarrow> instant \<Rightarrow> int \<Rightarrow> 'db \<Rightarrow>
     'db \<times> outbox_record list" where
  "dispatchDue repo policy publish now limit db =
     dispatch_each repo policy publish now (repo_list repo now (nat (max 0 (min limit 500))) db) db"

section \<open>Reconciliation and consumption\<close>

datatype outbox_verdict = ActionRequired string | Matched | RetryDue "string option" | Waiting "string option"

definition reconcileOutboxRecord :: "outbox_record \<Rightarrow> instant \<Rightarrow> outbox_verdict" where
  "reconcileOutboxRecord r now =
     (if or_status r = DEAD_LETTER then ActionRequired ''DEAD_LETTER''
      else if or_status r = PUBLISHED then Matched
      else if or_status r = PUBLISHING \<and> (case or_lease r of None \<Rightarrow> False | Some l \<Rightarrow> l \<le> now)
      then RetryDue (Some ''PUBLISH_LEASE_EXPIRED'')
      else if or_next r \<le> now then RetryDue (or_error r)
      else Waiting (or_error r))"

record consumer_receipt =
  cr_id :: string
  cr_consumer :: string
  cr_event :: string
  cr_type :: string
  cr_correlation :: string
  cr_processed :: instant

text \<open>
  The consumer over a receipt repository, of which the repository has only the interface: \<open>lookup\<close> and
  \<open>process\<close>, which runs the handler and records the receipt in one transaction or throws.
\<close>

definition consume ::
    "('s \<Rightarrow> string \<Rightarrow> string \<Rightarrow> consumer_receipt option) \<Rightarrow>
     ('s \<Rightarrow> string \<Rightarrow> event_json \<Rightarrow> 'e + 's \<times> consumer_receipt) \<Rightarrow> 'e \<Rightarrow> string \<Rightarrow> event_json \<Rightarrow> 's \<Rightarrow>
     'e + 's \<times> bool \<times> consumer_receipt" where
  "consume lookup process refusal consumer event s =
     andThen (ensure (isValidCloudEvent event) refusal) (\<lambda>_.
       case lookup s consumer (text_or_empty event ''id'') of
         Some receipt \<Rightarrow> Inr (s, True, receipt)
       | None \<Rightarrow> andThen (process s consumer event) (\<lambda>(s', receipt). Inr (s', False, receipt)))"

end
