(* ===== verification/Outbox_Laws.thy ===== *)
theory Outbox_Laws
  imports Outbox
begin

text \<open>
  What the dispatcher relies on in a repository, as the locale \<open>outbox_delivery\<close>, what a dispatch then
  does to every record, and the interpretation at the record adapter.
\<close>

section \<open>The contract of a repository\<close>

definition claimed_record :: "nat \<Rightarrow> instant \<Rightarrow> outbox_record \<Rightarrow> outbox_record" where
  "claimed_record n lease r = r\<lparr>or_status := PUBLISHING, or_attempts := n, or_lease := Some lease\<rparr>"

definition published_record :: "instant \<Rightarrow> outbox_record \<Rightarrow> outbox_record" where
  "published_record t r = r\<lparr>or_status := PUBLISHED, or_published := Some t, or_lease := None, or_error := None\<rparr>"

definition retried_record :: "instant \<Rightarrow> string \<Rightarrow> outbox_record \<Rightarrow> outbox_record" where
  "retried_record t code r = r\<lparr>or_status := RETRY, or_next := t, or_lease := None, or_error := Some code\<rparr>"

definition dead_record :: "string \<Rightarrow> outbox_record \<Rightarrow> outbox_record" where
  "dead_record code r = r\<lparr>or_status := DEAD_LETTER, or_lease := None, or_error := Some code\<rparr>"

lemmas record_defs = claimed_record_def published_record_def retried_record_def dead_record_def

text \<open>What one delivery makes of a due record.\<close>

definition settled :: "retry_policy \<Rightarrow> instant \<Rightarrow> publish_outcome \<Rightarrow> outbox_record \<Rightarrow> outbox_record" where
  "settled policy now outcome r =
     (let n = or_attempts r + 1 in
      case outcome of
        Accepted \<Rightarrow> r\<lparr>or_attempts := n, or_status := PUBLISHED, or_published := Some now, or_lease := None, or_error := None\<rparr>
      | Threw e \<Rightarrow>
          if maxAttempts policy \<le> n
          then r\<lparr>or_attempts := n, or_status := DEAD_LETTER, or_lease := None, or_error := Some (errorCode e)\<rparr>
          else r\<lparr>or_attempts := n, or_status := RETRY, or_next := now + retry_delay policy n, or_lease := None,
                or_error := Some (errorCode e)\<rparr>)"

lemma settled_id [simp]: "or_id (settled policy now outcome r) = or_id r"
  by (simp add: settled_def Let_def split: publish_outcome.split)

locale outbox_delivery =
  fixes repo :: "'db outbox_repository" and view :: "'db \<Rightarrow> string \<Rightarrow> outbox_record option" and good :: "'db \<Rightarrow> bool"
  assumes view_id: "view db i = Some r \<Longrightarrow> or_id r = i"
    and listed: "good db \<Longrightarrow> r \<in> set (repo_list repo now n db) \<Longrightarrow> view db (or_id r) = Some r \<and> outbox_due now r"
    and listed_once: "good db \<Longrightarrow> distinct (map or_id (repo_list repo now n db)) \<and> length (repo_list repo now n db) \<le> n"
    and claim_due: "good db \<Longrightarrow> view db i = Some r \<Longrightarrow> outbox_due now r \<Longrightarrow>
      \<exists>db'. repo_claim repo i now n lease db = (db', Some (claimed_record n lease r)) \<and> good db' \<and>
        view db' = (view db)(i \<mapsto> claimed_record n lease r)"
    and mark_published: "good db \<Longrightarrow> view db i = Some r \<Longrightarrow>
      \<exists>db'. repo_published repo i t db = Inr (db', published_record t r) \<and> good db' \<and>
        view db' = (view db)(i \<mapsto> published_record t r)"
    and mark_retry: "good db \<Longrightarrow> view db i = Some r \<Longrightarrow>
      \<exists>db'. repo_retry repo i t code db = Inr (db', retried_record t code r) \<and> good db' \<and>
        view db' = (view db)(i \<mapsto> retried_record t code r)"
    and mark_dead: "good db \<Longrightarrow> view db i = Some r \<Longrightarrow>
      \<exists>db'. repo_dead repo i code db = Inr (db', dead_record code r) \<and> good db' \<and>
        view db' = (view db)(i \<mapsto> dead_record code r)"
begin

lemma finish_settles:
  assumes "good db" "view db i = Some (claimed_record (or_attempts r + 1) lease r)"
  shows "\<exists>db'. finish repo policy now (or_attempts r + 1) outcome i db = Inr (db', settled policy now outcome r) \<and>
    good db' \<and> view db' = (view db)(i \<mapsto> settled policy now outcome r)"
proof (cases outcome)
  case Accepted
  then show ?thesis
    using mark_published [OF assms, of now] by (simp add: finish_def settled_def record_defs)
next
  case (Threw e)
  then show ?thesis
    using mark_dead [OF assms, of "errorCode e"]
      mark_retry [OF assms, of "now + retry_delay policy (or_attempts r + 1)" "errorCode e"]
    by (simp add: finish_def settled_def record_defs)
qed

lemma dispatch_one_settles:
  assumes "good db" "view db (or_id c) = Some c" "outbox_due now c"
  shows "\<exists>db'. dispatch_one repo policy publish now c db = (db', [settled policy now (publish (or_envelope c)) c]) \<and>
    good db' \<and> view db' = (view db)(or_id c \<mapsto> settled policy now (publish (or_envelope c)) c)"
proof -
  obtain db1 where claim: "repo_claim repo (or_id c) now (or_attempts c + 1) (now + leaseDurationMs policy) db =
      (db1, Some (claimed_record (or_attempts c + 1) (now + leaseDurationMs policy) c))"
    and db1: "good db1" "view db1 = (view db)(or_id c \<mapsto> claimed_record (or_attempts c + 1) (now + leaseDurationMs policy) c)"
    using claim_due [OF assms] by blast
  obtain db2 where finish: "finish repo policy now (or_attempts c + 1) (publish (or_envelope c)) (or_id c) db1 =
      Inr (db2, settled policy now (publish (or_envelope c)) c)"
    and db2: "good db2" "view db2 = (view db1)(or_id c \<mapsto> settled policy now (publish (or_envelope c)) c)"
    using finish_settles [OF db1(1), of "or_id c" c "now + leaseDurationMs policy" policy now "publish (or_envelope c)"] db1(2) by auto
  have "or_id (claimed_record n l c) = or_id c" "or_envelope (claimed_record n l c) = or_envelope c" for n l
    by (simp_all add: claimed_record_def)
  then show ?thesis
    using claim finish db1 db2 by (auto simp: dispatch_one_def Let_def)
qed

lemma dispatch_each_settles:
  assumes "good db" "distinct (map or_id cs)" "\<forall>c \<in> set cs. view db (or_id c) = Some c \<and> outbox_due now c"
  shows "snd (dispatch_each repo policy publish now cs db) = map (\<lambda>c. settled policy now (publish (or_envelope c)) c) cs \<and>
    good (fst (dispatch_each repo policy publish now cs db)) \<and>
    (\<forall>i. view (fst (dispatch_each repo policy publish now cs db)) i =
      (case find_row or_id i cs of None \<Rightarrow> view db i | Some c \<Rightarrow> Some (settled policy now (publish (or_envelope c)) c)))"
  using assms
proof (induction cs arbitrary: db)
  case (Cons c cs)
  obtain db1 where one: "dispatch_one repo policy publish now c db = (db1, [settled policy now (publish (or_envelope c)) c])"
    and db1: "good db1" "view db1 = (view db)(or_id c \<mapsto> settled policy now (publish (or_envelope c)) c)"
    using dispatch_one_settles [OF Cons.prems(1), of c] Cons.prems(3) by (metis list.set_intros(1))
  have "or_id d \<noteq> or_id c" if "d \<in> set cs" for d using Cons.prems(2) that by (auto simp: image_iff)
  then have IH: "snd (dispatch_each repo policy publish now cs db1) = map (\<lambda>c. settled policy now (publish (or_envelope c)) c) cs \<and>
    good (fst (dispatch_each repo policy publish now cs db1)) \<and>
    (\<forall>i. view (fst (dispatch_each repo policy publish now cs db1)) i =
      (case find_row or_id i cs of None \<Rightarrow> view db1 i | Some c \<Rightarrow> Some (settled policy now (publish (or_envelope c)) c)))"
    using Cons.prems(2,3) db1 by (intro Cons.IH) auto
  have "find_row or_id (or_id c) cs = None" using Cons.prems(2) by (simp add: find_row_None_iff)
  then show ?case using IH one db1(2) by (auto simp: case_prod_beta' split: option.split)
qed simp

lemma dispatchDue_settles:
  assumes "good db" and "due = repo_list repo now (nat (max 0 (min limit 500))) db"
  shows "snd (dispatchDue repo policy publish now limit db) = map (\<lambda>c. settled policy now (publish (or_envelope c)) c) due"
    and "good (fst (dispatchDue repo policy publish now limit db))"
    and "view (fst (dispatchDue repo policy publish now limit db)) i =
      (case find_row or_id i due of None \<Rightarrow> view db i | Some c \<Rightarrow> Some (settled policy now (publish (or_envelope c)) c))"
  using dispatch_each_settles [OF assms(1), of due now policy publish] listed [OF assms(1)] listed_once [OF assms(1)] assms(2)
  by (auto simp: dispatchDue_def)

text \<open>A record a dispatch leaves alone was not listed; one it lists was due.\<close>

lemma dispatchDue_record:
  assumes "good db" "view db i = Some r"
  shows "view (fst (dispatchDue repo policy publish now limit db)) i =
    (if i \<in> or_id ` set (repo_list repo now (nat (max 0 (min limit 500))) db)
     then Some (settled policy now (publish (or_envelope r)) r) else Some r)"
proof -
  let ?due = "repo_list repo now (nat (max 0 (min limit 500))) db"
  note after = dispatchDue_settles(3) [OF assms(1) refl, of policy publish now limit i]
  show ?thesis
  proof (cases "find_row or_id i ?due")
    case None
    then have "i \<notin> or_id ` set ?due" by (simp add: find_row_None_iff)
    then show ?thesis using after assms(2) None by simp
  next
    case (Some c)
    then have "c \<in> set ?due" "or_id c = i" using find_row_SomeD [OF Some] by auto
    then have "c = r" "i \<in> or_id ` set ?due" using listed [OF assms(1)] assms(2) by auto
    then show ?thesis using after Some by simp
  qed
qed

end

section \<open>The adapter keeps the contract\<close>

definition pages :: "(nat \<Rightarrow> outbox_row list \<Rightarrow> outbox_row list) \<Rightarrow> bool" where
  "pages page \<longleftrightarrow> (\<forall>n rows. length (page n rows) \<le> n \<and> set (page n rows) \<subseteq> set rows \<and>
     (distinct (map or_id rows) \<longrightarrow> distinct (map or_id (page n rows))))"

lemma pages_take: "pages take"
  unfolding pages_def by (auto simp: take_map [symmetric] dest: in_set_takeD)

definition outbox_view :: "outbox_row list \<Rightarrow> string \<Rightarrow> outbox_record option" where
  "outbox_view rows i = map_option toRecord (find_row or_id i rows)"

definition outbox_ids :: "outbox_row list \<Rightarrow> bool" where
  "outbox_ids rows \<longleftrightarrow> distinct (map or_id rows)"

lemma toRecord_simps [simp]:
  "or_id (toRecord r) = or_id r" "or_status (toRecord r) = or_status r" "or_next (toRecord r) = or_next r"
  "or_lease (toRecord r) = or_lease r" "or_attempts (toRecord r) = or_attempts r" "or_key (toRecord r) = or_key r"
  "or_envelope (toRecord r) = or_envelope r" "or_published (toRecord r) = or_published r"
  by (simp_all add: toRecord_def outbox_record.defs)

lemma toRecord_due [simp]: "outbox_due now (toRecord r) = outbox_due now r"
  by (simp add: outbox_due_def)

lemma update_outbox_view:
  assumes "outbox_ids rows" "outbox_view rows i = Some r"
    and "\<And>x. toRecord (f x) = g (toRecord x)" "\<And>x. or_id (f x) = or_id x"
  shows "\<exists>rows'. update_outbox i f rows = Inr (rows', g r) \<and> outbox_ids rows' \<and> outbox_view rows' = (outbox_view rows)(i \<mapsto> g r)"
proof -
  obtain x where x: "find_row or_id i rows = Some x" "r = toRecord x" using assms(2) by (auto simp: outbox_view_def)
  have "outbox_ids (upd_row or_id i f rows)"
    using assms(1,4) by (simp add: outbox_ids_def map_key_upd_row)
  moreover have "outbox_view (upd_row or_id i f rows) = (outbox_view rows)(i \<mapsto> g r)"
    using x assms(3,4) by (auto simp: outbox_view_def find_row_upd_row)
  ultimately show ?thesis using x assms(3) by (simp add: update_outbox_def)
qed

lemma adapter_delivers:
  assumes "pages page"
  shows "outbox_delivery (EventOutboxRecordAdapter sha256 rank page) outbox_view outbox_ids"
proof
  show "or_id r = i" if "outbox_view db i = Some r" for db i r
    using that find_row_key by (fastforce simp: outbox_view_def)
next
  fix db :: "outbox_row list" and r now n
  assume "outbox_ids db" "r \<in> set (repo_list (EventOutboxRecordAdapter sha256 rank page) now n db)"
  then obtain x where "x \<in> set (take n (filter (outbox_due now) (page (n * 2) db)))" "r = toRecord x"
    by (auto simp: EventOutboxRecordAdapter_def listDue_def)
  then have "x \<in> set (page (n * 2) db)" "outbox_due now x" "r = toRecord x" by (auto dest: in_set_takeD)
  moreover from this have "find_row or_id (or_id x) db = Some x"
    using assms \<open>outbox_ids db\<close> by (auto simp: pages_def outbox_ids_def find_row_Some_iff)
  ultimately show "outbox_view db (or_id r) = Some r \<and> outbox_due now r" by (simp add: outbox_view_def)
next
  fix db :: "outbox_row list" and now n
  assume "outbox_ids db"
  then have "distinct (map or_id (page (n * 2) db))" using assms by (simp add: pages_def outbox_ids_def)
  then have "distinct (map or_id (take n (filter (outbox_due now) (page (n * 2) db))))"
    by (simp add: distinct_map_filter flip: take_map)
  then show "distinct (map or_id (repo_list (EventOutboxRecordAdapter sha256 rank page) now n db)) \<and>
      length (repo_list (EventOutboxRecordAdapter sha256 rank page) now n db) \<le> n"
    by (simp add: EventOutboxRecordAdapter_def listDue_def comp_def)
next
  fix db :: "outbox_row list" and i r now n lease
  assume "outbox_ids db" "outbox_view db i = Some r" "outbox_due now r"
  moreover from this obtain x where "find_row or_id i db = Some x" "outbox_due now x" by (auto simp: outbox_view_def)
  moreover from calculation obtain rows' where
    "update_outbox i (\<lambda>r. r\<lparr>or_status := PUBLISHING, or_attempts := n, or_lease := Some lease\<rparr>) db =
       Inr (rows', claimed_record n lease r) \<and> outbox_ids rows' \<and> outbox_view rows' = (outbox_view db)(i \<mapsto> claimed_record n lease r)"
    using update_outbox_view [of db i r "\<lambda>r. r\<lparr>or_status := PUBLISHING, or_attempts := n, or_lease := Some lease\<rparr>"
        "claimed_record n lease"]
    by (auto simp: toRecord_def outbox_record.defs claimed_record_def)
  ultimately show "\<exists>db'. repo_claim (EventOutboxRecordAdapter sha256 rank page) i now n lease db =
        (db', Some (claimed_record n lease r)) \<and> outbox_ids db' \<and>
      outbox_view db' = (outbox_view db)(i \<mapsto> claimed_record n lease r)"
    by (simp add: EventOutboxRecordAdapter_def claim_def)
qed (simp_all add: EventOutboxRecordAdapter_def markPublished_def markRetry_def markDeadLetter_def,
    (rule update_outbox_view; (assumption | simp add: toRecord_def outbox_record.defs record_defs))+)

interpretation ordered_outbox: outbox_delivery "EventOutboxRecordAdapter sha256 rank take" outbox_view outbox_ids
  for sha256 rank
  by (rule adapter_delivers [OF pages_take])

end
