(* ===== verification/Outbox_Properties.thy ===== *)
theory Outbox_Properties
  imports Outbox_Laws
begin

text \<open>
  The properties of the outbox: what a dispatch does, that deliveries are bounded, that enqueueing is
  idempotent, and two ways in which concurrent or finished work gets in the way.
\<close>

abbreviation adapter ::
    "(string \<Rightarrow> string) \<Rightarrow> (string \<Rightarrow> string) \<Rightarrow> (nat \<Rightarrow> outbox_row list \<Rightarrow> outbox_row list) \<Rightarrow> outbox_row list outbox_repository" where
  "adapter \<equiv> EventOutboxRecordAdapter"

definition dispatch_limit :: "int \<Rightarrow> nat" where
  "dispatch_limit limit = nat (max 0 (min limit 500))"

section \<open>Runs of dispatches\<close>

type_synonym dispatch_call = "instant \<times> int \<times> (event_json \<Rightarrow> publish_outcome)"

fun dispatch_run :: "'db outbox_repository \<Rightarrow> retry_policy \<Rightarrow> dispatch_call list \<Rightarrow> 'db \<Rightarrow> 'db" where
  "dispatch_run repo policy [] db = db"
| "dispatch_run repo policy ((now, limit, publish) # calls) db =
     dispatch_run repo policy calls (fst (dispatchDue repo policy publish now limit db))"

text \<open>How many of the calls deliver the record \<open>i\<close>.\<close>

fun deliveries :: "'db outbox_repository \<Rightarrow> retry_policy \<Rightarrow> string \<Rightarrow> dispatch_call list \<Rightarrow> 'db \<Rightarrow> nat" where
  "deliveries repo policy i [] db = 0"
| "deliveries repo policy i ((now, limit, publish) # calls) db =
     (if i \<in> or_id ` set (repo_list repo now (nat (max 0 (min limit 500))) db) then 1 else 0) +
     deliveries repo policy i calls (fst (dispatchDue repo policy publish now limit db))"

definition finished :: "outbox_record \<Rightarrow> bool" where
  "finished r \<longleftrightarrow> or_status r \<in> {PUBLISHED, DEAD_LETTER}"

lemma due_not_finished: "outbox_due now r \<Longrightarrow> \<not> finished r"
  by (auto simp: outbox_due_def finished_def)

lemma settled_progress:
  "finished (settled policy now outcome r) \<or>
   (or_attempts (settled policy now outcome r) = or_attempts r + 1 \<and> or_attempts r + 1 < maxAttempts policy)"
  by (auto simp: settled_def finished_def Let_def split: publish_outcome.split)

context outbox_delivery
begin

lemma finished_stays:
  assumes "good db" "view db i = Some r" "finished r"
  shows "deliveries repo policy i calls db = 0 \<and> view (dispatch_run repo policy calls db) i = Some r"
  using assms
proof (induction calls arbitrary: db)
  case (Cons call calls)
  obtain now limit publish where call: "call = (now, limit, publish)" by (cases call)
  have not_listed: "i \<notin> or_id ` set (repo_list repo now n db)" for n
    using listed [OF Cons.prems(1)] Cons.prems(2,3) due_not_finished by fastforce
  then have "view (fst (dispatchDue repo policy publish now limit db)) i = Some r"
    using dispatchDue_record [OF Cons.prems(1,2)] by simp
  then show ?case
    using Cons.IH [OF dispatchDue_settles(2) [OF Cons.prems(1) refl]] Cons.prems(3) not_listed by (simp add: call)
qed simp

lemma deliveries_bounded:
  assumes "good db" "view db i = Some r" "\<not> finished r" "or_attempts r < maxAttempts policy"
  shows "\<exists>r'. view (dispatch_run repo policy calls db) i = Some r' \<and>
    deliveries repo policy i calls db \<le> maxAttempts policy - or_attempts r \<and>
    (finished r' \<or> or_attempts r' = or_attempts r + deliveries repo policy i calls db \<and> or_attempts r' < maxAttempts policy)"
  using assms
proof (induction calls arbitrary: db r)
  case (Cons call calls)
  obtain now limit publish where call: "call = (now, limit, publish)" by (cases call)
  let ?db = "fst (dispatchDue repo policy publish now limit db)"
  note good = dispatchDue_settles(2) [OF Cons.prems(1) refl, of policy publish now limit]
  show ?case
  proof (cases "i \<in> or_id ` set (repo_list repo now (nat (max 0 (min limit 500))) db)")
    case False
    then have "view ?db i = Some r" using dispatchDue_record [OF Cons.prems(1,2)] by simp
    then show ?thesis using Cons.IH [OF good _ Cons.prems(3,4)] False by (simp add: call)
  next
    case True
    let ?r = "settled policy now (publish (or_envelope r)) r"
    have view: "view ?db i = Some ?r" using dispatchDue_record [OF Cons.prems(1,2)] True by simp
    show ?thesis
    proof (cases "finished ?r")
      case True
      then show ?thesis
        using finished_stays [OF good view True, of policy calls] Cons.prems(4) by (simp add: call Suc_le_eq)
    next
      case unfinished: False
      then have attempts: "or_attempts ?r = or_attempts r + 1" "or_attempts ?r < maxAttempts policy"
        using settled_progress [of policy now "publish (or_envelope r)" r] by auto
      from Cons.IH [OF good view unfinished attempts(2)] show ?thesis
        using attempts True by (auto simp: call)
    qed
  qed
qed (use assms in simp)

end

section \<open>What the adapter keeps\<close>

definition outbox_identity :: "outbox_row \<Rightarrow> string \<times> string \<times> event_json" where
  "outbox_identity r = (or_id r, or_key r, or_envelope r)"

lemma update_outbox_identity:
  "update_outbox i f rows = Inr (rows', r) \<Longrightarrow> (\<And>x. outbox_identity (f x) = outbox_identity x) \<Longrightarrow>
   map outbox_identity rows' = map outbox_identity rows"
  by (auto simp: update_outbox_def upd_row_def split: option.splits)

lemma claim_identity: "claim i now n lease rows = (rows', r) \<Longrightarrow> map outbox_identity rows' = map outbox_identity rows"
  by (auto simp: claim_def outbox_identity_def dest!: update_outbox_identity split: option.splits if_splits sum.splits)

lemma finish_identity:
  "finish (adapter sha256 rank page) policy now n outcome i rows = Inr (rows', r) \<Longrightarrow>
   map outbox_identity rows' = map outbox_identity rows"
  by (auto simp: finish_def EventOutboxRecordAdapter_def markPublished_def markRetry_def markDeadLetter_def
      outbox_identity_def dest!: update_outbox_identity split: publish_outcome.splits if_splits)

lemma dispatch_one_identity:
  "map outbox_identity (fst (dispatch_one (adapter sha256 rank page) policy publish now c rows)) = map outbox_identity rows"
proof -
  obtain rows1 r where claim: "claim (or_id c) now (or_attempts c + 1) (now + leaseDurationMs policy) rows = (rows1, r)"
    by (cases "claim (or_id c) now (or_attempts c + 1) (now + leaseDurationMs policy) rows")
  have "map outbox_identity rows1 = map outbox_identity rows" by (rule claim_identity [OF claim])
  moreover have "repo_claim (adapter sha256 rank page) = claim" by (simp add: EventOutboxRecordAdapter_def)
  ultimately show ?thesis
    using claim by (auto simp: dispatch_one_def Let_def finish_identity split: option.split sum.split)
qed

lemma dispatch_each_identity:
  "map outbox_identity (fst (dispatch_each (adapter sha256 rank page) policy publish now cs rows)) = map outbox_identity rows"
  by (induction cs arbitrary: rows) (simp_all add: case_prod_beta' Let_def dispatch_one_identity)

lemma dispatch_run_identity:
  "map outbox_identity (dispatch_run (adapter sha256 rank page) policy calls rows) = map outbox_identity rows"
proof (induction calls arbitrary: rows)
  case (Cons call calls)
  then show ?case by (cases call) (simp add: dispatchDue_def dispatch_each_identity)
qed simp

lemma find_by_identity:
  "map outbox_identity rows' = map outbox_identity rows \<Longrightarrow>
   map_option outbox_identity (find_row or_key k rows') = map_option outbox_identity (find_row or_key k rows)"
proof (induction rows arbitrary: rows')
  case (Cons r rows)
  then obtain r' rs' where "rows' = r' # rs'" "outbox_identity r' = outbox_identity r"
    "map outbox_identity rs' = map outbox_identity rows" by (cases rows') auto
  moreover from this have "or_key r' = or_key r" by (simp add: outbox_identity_def)
  ultimately show ?case using Cons.IH [of rs'] by simp
qed simp

lemma dispatch_run_ids: "outbox_ids rows \<Longrightarrow> outbox_ids (dispatch_run (adapter sha256 rank page) policy calls rows)"
proof -
  have "map or_id rows' = map (fst \<circ> outbox_identity) rows'" for rows' by (simp add: outbox_identity_def)
  then show "outbox_ids rows \<Longrightarrow> outbox_ids (dispatch_run (adapter sha256 rank page) policy calls rows)"
    unfolding outbox_ids_def by (metis dispatch_run_identity map_map)
qed

lemma enqueued_row:
  assumes "enqueue sha256 rank (adapter sha256 rank page) i now event rows = Inr (rows1, r)"
    and "idempotency_key event = Some key" and "defined_json event"
  shows "\<exists>x. find_row or_key key rows1 = Some x \<and> r = toRecord x \<and>
    canonicalEventSemanticFingerprint sha256 rank (or_envelope x) = canonicalEventSemanticFingerprint sha256 rank event"
proof (cases "find_row or_key key rows")
  case None
  let ?x = "new_outbox_row sha256 rank i now event key"
  have "createOutbox sha256 rank i now event key rows = Inr (rows1, r)"
    using assms(1,2) None by (simp add: enqueue_def EventOutboxRecordAdapter_def findOutboxByKey_def split: if_splits)
  then have "rows1 = rows @ [?x]" "r = toRecord ?x"
    using None by (auto simp: createOutbox_def findOutboxByKey_def Let_def andThen_Inr_iff insert_outbox_def split: if_splits)
  moreover have "or_key ?x = key" "or_envelope ?x = event"
    using defined_json_value [OF assms(3)] by (simp_all add: new_outbox_row_def Let_def)
  ultimately show ?thesis using None by simp
next
  case (Some x)
  then show ?thesis
    using assms(1,2) by (auto simp: enqueue_def EventOutboxRecordAdapter_def findOutboxByKey_def split: if_splits)
qed

section \<open>Properties\<close>

text \<open>
  C39: A dispatch delivers exactly the records it lists, each once, and the listed ones were due. It
  answers with them settled and leaves every other record as it was: PUBLISHED when the publisher
  accepted, DEAD_LETTER when the last attempt was used up, otherwise RETRY after a delay that is at
  most the maximum and positive.
\<close>

theorem dispatch_settles_listed_records:
  assumes "pages page" and "outbox_ids rows" and "0 < initialDelayMs policy" and "0 < maxDelayMs policy"
    and "dispatchDue (adapter sha256 rank page) policy publish now limit rows = (rows', results)"
    and "outbox_view rows i = Some r"
  shows "results = map (\<lambda>c. settled policy now (publish (or_envelope c)) c) (listDue page now (dispatch_limit limit) rows) \<and>
     (if i \<in> or_id ` set (listDue page now (dispatch_limit limit) rows)
      then outbox_due now r \<and>
        (\<exists>r'. outbox_view rows' i = Some r' \<and> or_attempts r' = or_attempts r + 1 \<and> or_lease r' = None \<and>
           (case publish (or_envelope r) of
              Accepted \<Rightarrow> or_status r' = PUBLISHED \<and> or_published r' = Some now
            | Threw e \<Rightarrow>
                if maxAttempts policy \<le> or_attempts r' then or_status r' = DEAD_LETTER
                else or_status r' = RETRY \<and> now < or_next r' \<and> or_next r' \<le> now + maxDelayMs policy))
      else outbox_view rows' i = Some r)"
proof -
  note delivers = adapter_delivers [OF assms(1), of sha256 rank]
  have due: "repo_list (adapter sha256 rank page) now (nat (max 0 (min limit 500))) rows = listDue page now (dispatch_limit limit) rows"
    by (simp add: EventOutboxRecordAdapter_def dispatch_limit_def)
  have delay: "0 < retry_delay policy n" "retry_delay policy n \<le> maxDelayMs policy" for n
    using assms(3,4) by (simp_all add: retry_delay_def)
  have results: "results = map (\<lambda>c. settled policy now (publish (or_envelope c)) c) (listDue page now (dispatch_limit limit) rows)"
    using outbox_delivery.dispatchDue_settles(1) [OF delivers assms(2) refl, of policy publish now limit] assms(5) due by simp
  note after = outbox_delivery.dispatchDue_record [OF delivers assms(2,6), of policy publish now limit, unfolded assms(5) due fst_conv]
  show ?thesis
  proof (cases "i \<in> or_id ` set (listDue page now (dispatch_limit limit) rows)")
    case True
    then obtain c where "c \<in> set (listDue page now (dispatch_limit limit) rows)" "or_id c = i" by auto
    then have "outbox_due now r"
      using outbox_delivery.listed [OF delivers assms(2), of c now "nat (max 0 (min limit 500))"] assms(6) due by simp
    then show ?thesis
      using results after True delay [of "or_attempts r + 1"]
      by (cases "publish (or_envelope r)") (auto simp: settled_def Let_def)
  next
    case False
    then show ?thesis using results after by simp
  qed
qed

text \<open>
  C40: Deliveries by one uninterrupted dispatcher end. In a sequence of dispatches, each run to its end
  before the next begins, whatever the publisher does, a record with attempts left is delivered at most
  that many more times; when it has been, it is PUBLISHED or DEAD_LETTER, and no later dispatch of the
  sequence delivers or changes it. The condition is needed: a dispatcher that stops between its claim
  and its mark leaves an attempt without an outcome, and one that outlives its lease may reopen a
  PUBLISHED record (\<open>late_failure_reopens_published_record\<close>).
\<close>

theorem deliveries_end:
  assumes "pages page" and "outbox_ids rows" and "outbox_view rows i = Some r"
    and "or_attempts r < maxAttempts policy" and "\<not> finished r"
  shows "deliveries (adapter sha256 rank page) policy i calls rows \<le> maxAttempts policy - or_attempts r \<and>
     (deliveries (adapter sha256 rank page) policy i calls rows = maxAttempts policy - or_attempts r \<longrightarrow>
      (\<exists>r'. finished r' \<and> outbox_view (dispatch_run (adapter sha256 rank page) policy calls rows) i = Some r' \<and>
        (\<forall>later. outbox_view (dispatch_run (adapter sha256 rank page) policy later
           (dispatch_run (adapter sha256 rank page) policy calls rows)) i = Some r')))"
proof -
  note delivers = adapter_delivers [OF assms(1), of sha256 rank]
  obtain r' where r': "outbox_view (dispatch_run (adapter sha256 rank page) policy calls rows) i = Some r'"
    and bound: "deliveries (adapter sha256 rank page) policy i calls rows \<le> maxAttempts policy - or_attempts r"
    and left: "finished r' \<or> or_attempts r' = or_attempts r + deliveries (adapter sha256 rank page) policy i calls rows \<and>
      or_attempts r' < maxAttempts policy"
    using outbox_delivery.deliveries_bounded [OF delivers assms(2,3,5,4), of calls] by blast
  have "outbox_ids (dispatch_run (adapter sha256 rank page) policy calls rows)"
    using assms(2) dispatch_run_ids by blast
  then show ?thesis
    using bound left r' outbox_delivery.finished_stays [OF delivers _ r'] by auto
qed

text \<open>
  The rows a listing returns are filtered only afterwards. When they are all finished, no due
  record is delivered, however many there are behind them, now or by any number of dispatches of
  the same limit.
\<close>

theorem finished_rows_starve_due_ones:
  assumes "\<forall>r \<in> set (page (dispatch_limit limit * 2) rows). or_status r \<in> {PUBLISHED, DEAD_LETTER}"
  shows "dispatch_run (adapter sha256 rank page) policy (map (\<lambda>(now, publish). (now, limit, publish)) calls) rows = rows"
proof -
  have "listDue page now (dispatch_limit limit) rows = []" for now
  proof -
    have "filter (outbox_due now) (page (dispatch_limit limit * 2) rows) = []"
      using assms by (auto simp: filter_empty_conv outbox_due_def)
    then show ?thesis by (simp add: listDue_def)
  qed
  then have "dispatchDue (adapter sha256 rank page) policy publish now limit rows = (rows, [])" for publish now
    by (simp add: dispatchDue_def EventOutboxRecordAdapter_def dispatch_limit_def)
  then show ?thesis by (induction calls) auto
qed

text \<open>
  A dispatcher that outlives its lease undoes a delivery. After it has claimed a due record and its
  lease has run out, another delivers and publishes the record; when the first then fails, its mark
  makes the PUBLISHED record due for a RETRY or a DEAD_LETTER.
\<close>

theorem late_failure_reopens_published_record:
  assumes "outbox_ids rows" and "outbox_view rows i = Some r" and "outbox_due now r"
    and "claim i now (or_attempts r + 1) (now + leaseDurationMs policy) rows = (rows1, Some c)"
    and "now + leaseDurationMs policy \<le> later" and "publish (or_envelope r) = Accepted"
    and "dispatch_one (adapter sha256 rank take) policy publish later c rows1 = (rows2, results)"
  shows "(\<exists>p. results = [p] \<and> or_status p = PUBLISHED \<and> outbox_view rows2 i = Some p) \<and>
     (\<exists>rows3 q. finish (adapter sha256 rank take) policy now (or_attempts r + 1) (Threw e) i rows2 = Inr (rows3, q) \<and>
        outbox_view rows3 i = Some q \<and> or_published q = Some later \<and>
        or_status q = (if maxAttempts policy \<le> or_attempts r + 1 then DEAD_LETTER else RETRY))"
proof -
  let ?c = "claimed_record (or_attempts r + 1) (now + leaseDurationMs policy) r"
  have "repo_claim (adapter sha256 rank take) = claim" by (simp add: EventOutboxRecordAdapter_def)
  then have c: "c = ?c" "outbox_ids rows1" "outbox_view rows1 i = Some ?c"
    using ordered_outbox.claim_due [OF assms(1-3), of sha256 rank "or_attempts r + 1" "now + leaseDurationMs policy"] assms(4)
    by auto
  have "or_id r = i" using ordered_outbox.view_id [OF assms(2)] .
  then have "or_id c = i" "or_envelope c = or_envelope r" "outbox_due later c"
    using c(1) assms(5) by (simp_all add: claimed_record_def outbox_due_def)
  then have p: "results = [settled policy later Accepted c]" "outbox_ids rows2"
      "outbox_view rows2 i = Some (settled policy later Accepted c)"
    using ordered_outbox.dispatch_one_settles [OF c(2), of c later sha256 rank policy publish] c(1,3) assms(6,7) by auto
  obtain rows3 where "repo_dead (adapter sha256 rank take) i (errorCode e) rows2 =
      Inr (rows3, dead_record (errorCode e) (settled policy later Accepted c)) \<and>
      outbox_view rows3 i = Some (dead_record (errorCode e) (settled policy later Accepted c))"
    using ordered_outbox.mark_dead [OF p(2,3), of sha256 rank "errorCode e"] by auto
  moreover obtain rows4 where "repo_retry (adapter sha256 rank take) i (now + retry_delay policy (or_attempts r + 1)) (errorCode e) rows2 =
      Inr (rows4, retried_record (now + retry_delay policy (or_attempts r + 1)) (errorCode e) (settled policy later Accepted c)) \<and>
      outbox_view rows4 i = Some (retried_record (now + retry_delay policy (or_attempts r + 1)) (errorCode e) (settled policy later Accepted c))"
    using ordered_outbox.mark_retry [OF p(2,3), of sha256 rank] by fastforce
  ultimately show ?thesis
    using p by (auto simp: finish_def settled_def Let_def dead_record_def retried_record_def)
qed

text \<open>
  Enqueueing is idempotent. Once an event without undefined properties is enqueued under a key,
  any later conforming event with that key, after any dispatches, is answered with the stored
  record when its fingerprint without the trace headers is the same, and refused otherwise; either
  way nothing is written.
\<close>

theorem enqueue_is_idempotent:
  assumes "enqueue sha256 rank (adapter sha256 rank page) i now event rows = Inr (rows1, r)" and "defined_json event"
    and "rows2 = dispatch_run (adapter sha256 rank page) policy calls rows1"
    and "isValidCloudEvent event'" and "idempotency_key event' = idempotency_key event"
  shows "if canonicalEventSemanticFingerprint sha256 rank event' = canonicalEventSemanticFingerprint sha256 rank event
     then \<exists>r' :: outbox_record. enqueue sha256 rank (adapter sha256 rank page) j now' event' rows2 = Inr (rows2, r') \<and> or_id r' = or_id r
     else enqueue sha256 rank (adapter sha256 rank page) j now' event' rows2 = Inl KeyCollision"
proof -
  obtain key where key: "idempotency_key event = Some key"
    using assms(1) by (auto simp: enqueue_def split: if_splits option.splits)
  obtain x where x: "find_row or_key key rows1 = Some x" "r = toRecord x"
    "canonicalEventSemanticFingerprint sha256 rank (or_envelope x) = canonicalEventSemanticFingerprint sha256 rank event"
    using enqueued_row [OF assms(1) key assms(2)] by blast
  have "map_option outbox_identity (find_row or_key key rows2) = Some (outbox_identity x)"
    using find_by_identity [OF dispatch_run_identity] x(1) assms(3) by simp
  then obtain y where y: "find_row or_key key rows2 = Some y" "or_id y = or_id x" "or_envelope y = or_envelope x"
    by (auto simp: outbox_identity_def)
  then have "repo_find (adapter sha256 rank page) key rows2 = Some (toRecord y)"
    by (simp add: EventOutboxRecordAdapter_def findOutboxByKey_def)
  then show ?thesis
    using y x(2,3) key assms(4,5) by (simp add: enqueue_def)
qed

end
