(* ===== verification/Outbox_Example.thy ===== *)
theory Outbox_Example
  imports Outbox_Properties
begin

text \<open>Small outboxes on which the properties of \<open>Outbox_Properties\<close> are evaluated.\<close>

definition same_string :: "string \<Rightarrow> string" where
  "same_string s = s"

definition order_event_input :: "(string \<times> event_json) list" where
  "order_event_input =
     [(''id'', EStr ''0f8fad5b-d9cb-469f-a165-70867728950e''),
      (''type'', EStr ''com.baobab-platform.commerce.order-payment.initiated.v1''),
      (''subject'', EStr ''order/1''), (''time'', EStr ''2026-01-01T00:00:00.000Z''),
      (''dataschema'', EStr ''urn:schema''), (''correlationid'', EStr ''7C9E6679-7425-40DE-944B-E07FC1F90AE7''),
      (''idempotencykey'', EStr ''key-1''), (''data'', EObj [(''market_key'', EStr ''zuribeans-ug'')])]"

definition order_event :: event_json where
  "order_event = (case createTenantTradeEvent None ''tenant-1'' order_event_input of Some e \<Rightarrow> e | None \<Rightarrow> ENull)"

lemma order_event_valid: "isValidCloudEvent order_event"
  by code_simp

lemma order_event_defined: "defined_json order_event"
  by code_simp

definition due_row :: "string \<Rightarrow> outbox_row" where
  "due_row i = \<lparr>or_id = i, or_event_id = i, or_type = ''t'', or_subject = ''s'', or_tenant = None,
     or_correlation = ''c'', or_causation = None, or_key = i, or_envelope = order_event, or_status = PENDING,
     or_attempts = 0, or_next = 0, or_published = None, or_lease = None, or_error = None,
     ob_owner = None, ob_estate = None, ob_market = None, ob_digest = []\<rparr>"

definition bus_down :: "event_json \<Rightarrow> publish_outcome" where
  "bus_down e = Threw (Some ''TimeoutError'')"

definition bus_up :: "event_json \<Rightarrow> publish_outcome" where
  "bus_up e = Accepted"

definition two_attempts :: retry_policy where
  "two_attempts = DEFAULT_RETRY_POLICY\<lparr>maxAttempts := 2\<rparr>"

lemma one_row:
  "outbox_ids [due_row i]" "outbox_view [due_row i] i = Some (toRecord (due_row i))"
  "or_attempts (toRecord (due_row i)) = 0" "\<not> finished (toRecord (due_row i))" "outbox_due now (toRecord (due_row i)) = (0 \<le> now)"
  by (simp_all add: outbox_ids_def outbox_view_def due_row_def finished_def toRecord_def outbox_record.defs outbox_due_def)

lemma one_row_listed: "listDue take 5 (dispatch_limit 10) [due_row i] = [toRecord (due_row i)]"
  by (simp add: listDue_def dispatch_limit_def due_row_def outbox_due_def)

lemma dispatch_settles_listed_records_witness:
  "\<exists>r'. outbox_view (fst (dispatchDue (adapter same_string same_string take) two_attempts bus_down 5 10 [due_row ''a''])) ''a'' = Some r' \<and>
     or_attempts r' = 1 \<and> or_status r' = RETRY \<and> 5 < or_next r'"
proof -
  obtain rows' results where run: "dispatchDue (adapter same_string same_string take) two_attempts bus_down 5 10 [due_row ''a''] = (rows', results)"
    by (cases "dispatchDue (adapter same_string same_string take) two_attempts bus_down 5 10 [due_row ''a'']")
  have policy: "0 < initialDelayMs two_attempts" "0 < maxDelayMs two_attempts" "maxAttempts two_attempts = 2"
    by (simp_all add: two_attempts_def DEFAULT_RETRY_POLICY_def)
  have listed: "''a'' \<in> or_id ` set (listDue take 5 (dispatch_limit 10) [due_row ''a''])"
    unfolding one_row_listed by (simp add: due_row_def)
  have "bus_down (or_envelope (toRecord (due_row ''a''))) = Threw (Some ''TimeoutError'')" by (simp add: bus_down_def)
  then obtain r' where "outbox_view rows' ''a'' = Some r'" "or_attempts r' = 1" "or_status r' = RETRY \<and> 5 < or_next r'"
    using dispatch_settles_listed_records [OF pages_take one_row(1) policy(1,2) run one_row(2), simplified listed if_True]
      one_row(3) policy(3) by auto
  then show ?thesis using run by auto
qed

lemma deliveries_end_witness:
  "\<exists>r'. finished r' \<and> outbox_view (dispatch_run (adapter same_string same_string take) two_attempts
     [(5, 10, bus_down), (2000, 10, bus_down)] [due_row ''a'']) ''a'' = Some r'"
proof -
  have "deliveries (adapter same_string same_string take) two_attempts ''a'' [(5, 10, bus_down), (2000, 10, bus_down)] [due_row ''a''] = 2"
    by code_simp
  moreover have "maxAttempts two_attempts = 2" by (simp add: two_attempts_def)
  ultimately show ?thesis
    using deliveries_end [OF pages_take one_row(1,2), of "''a''" two_attempts same_string same_string
        "[(5, 10, bus_down), (2000, 10, bus_down)]"] one_row(3,4) by auto
qed

lemma finished_rows_starve_due_ones_witness:
  "dispatch_run (adapter same_string same_string take) DEFAULT_RETRY_POLICY [(5, 1, bus_up), (9, 1, bus_up)]
     [due_row ''a''\<lparr>or_status := PUBLISHED\<rparr>, due_row ''b''\<lparr>or_status := DEAD_LETTER\<rparr>, due_row ''c''] =
     [due_row ''a''\<lparr>or_status := PUBLISHED\<rparr>, due_row ''b''\<lparr>or_status := DEAD_LETTER\<rparr>, due_row ''c''] \<and>
   outbox_due 5 (due_row ''c'')"
  using finished_rows_starve_due_ones [of take 1
      "[due_row ''a''\<lparr>or_status := PUBLISHED\<rparr>, due_row ''b''\<lparr>or_status := DEAD_LETTER\<rparr>, due_row ''c'']"
      same_string same_string DEFAULT_RETRY_POLICY "[(5, bus_up), (9, bus_up)]"]
  by (simp add: dispatch_limit_def due_row_def outbox_due_def numeral_2_eq_2)

lemma late_failure_reopens_published_record_witness:
  "\<exists>rows1 c rows2 p rows3 q.
     claim ''a'' 5 1 60005 [due_row ''a''] = (rows1, Some c) \<and>
     dispatch_one (adapter same_string same_string take) DEFAULT_RETRY_POLICY bus_up 70000 c rows1 = (rows2, [p]) \<and>
     or_status p = PUBLISHED \<and>
     finish (adapter same_string same_string take) DEFAULT_RETRY_POLICY 5 1 (Threw None) ''a'' rows2 = Inr (rows3, q) \<and>
     or_status q = RETRY"
proof -
  let ?c = "claimed_record 1 60005 (toRecord (due_row ''a''))"
  have policy: "leaseDurationMs DEFAULT_RETRY_POLICY = 60000" "maxAttempts DEFAULT_RETRY_POLICY = 8"
    by (simp_all add: DEFAULT_RETRY_POLICY_def)
  have due: "outbox_due 5 (toRecord (due_row ''a''))" by (simp add: one_row(5) del: toRecord_due)
  obtain rows1 where claim: "claim ''a'' 5 (or_attempts (toRecord (due_row ''a'')) + 1)
      (5 + leaseDurationMs DEFAULT_RETRY_POLICY) [due_row ''a''] = (rows1, Some ?c)"
    using ordered_outbox.claim_due [OF one_row(1,2) due, of same_string same_string 1 60005] policy(1) one_row(3)
    by (auto simp: EventOutboxRecordAdapter_def)
  obtain rows2 results where one: "dispatch_one (adapter same_string same_string take) DEFAULT_RETRY_POLICY bus_up 70000 ?c rows1 = (rows2, results)"
    by (cases "dispatch_one (adapter same_string same_string take) DEFAULT_RETRY_POLICY bus_up 70000 ?c rows1")
  have late: "5 + leaseDurationMs DEFAULT_RETRY_POLICY \<le> 70000" by (simp add: policy)
  show ?thesis
    using late_failure_reopens_published_record [OF one_row(1,2) due claim late _ one, of None] claim one policy one_row(3)
    by (fastforce simp: bus_up_def)
qed

lemma enqueue_is_idempotent_witness:
  "\<exists>rows1 r r' :: outbox_record.
     enqueue same_string same_string (adapter same_string same_string take) ''evtout_1'' 5 order_event [] = Inr (rows1, r) \<and>
     enqueue same_string same_string (adapter same_string same_string take) ''evtout_2'' 9 order_event
       (dispatch_run (adapter same_string same_string take) DEFAULT_RETRY_POLICY [(7, 10, bus_up)] rows1) =
     Inr (dispatch_run (adapter same_string same_string take) DEFAULT_RETRY_POLICY [(7, 10, bus_up)] rows1, r') \<and>
     or_id r' = or_id r"
proof -
  let ?x = "new_outbox_row same_string same_string ''evtout_1'' 5 order_event ''key-1''"
  have key: "idempotency_key order_event = Some ''key-1''" by code_simp
  have "outbox_scope_check ?x" by (simp add: outbox_scope_check_def new_outbox_row_def Let_def has_prefix_def)
  then have first: "enqueue same_string same_string (adapter same_string same_string take) ''evtout_1'' 5 order_event [] = Inr ([?x], toRecord ?x)"
    by (simp add: enqueue_def order_event_valid key EventOutboxRecordAdapter_def createOutbox_def findOutboxByKey_def
        insert_outbox_def Let_def)
  show ?thesis
    using enqueue_is_idempotent [OF first order_event_defined refl order_event_valid refl,
        where policy = DEFAULT_RETRY_POLICY and calls = "[(7, 10, bus_up)]" and j = "''evtout_2''" and now' = 9] first
    by auto
qed

text \<open>
  An explicitly undefined property is enough for the second enqueue of the same object to be refused:
  it is in the fingerprint of the object and not in that of the stored envelope.
\<close>

definition event_without_cause :: event_json where
  "event_without_cause =
     (case createTenantTradeEvent None ''tenant-1'' ((''causationid'', EUndef) # order_event_input) of
        Some e \<Rightarrow> e | None \<Rightarrow> ENull)"

lemma undefined_property_collides:
  "isValidCloudEvent event_without_cause \<and>
   canonicalEventSemanticFingerprint same_string same_string (json_value event_without_cause) \<noteq>
   canonicalEventSemanticFingerprint same_string same_string event_without_cause"
  by code_simp

end
