(* ===== verification/Json_Parse.thy ===== *)
theory Json_Parse
  imports Json_Text
begin

text \<open>
  \<open>JSON.parse\<close> and \<open>JSON.stringify\<close> of the language, as the native seller configuration uses them: a
  text is parsed by recursive descent, each call on a shorter rest, and printed with the keys of an
  object in their own order. A numeral with a fraction, an exponent or a magnitude over \<open>2^53 - 1\<close>
  is \<open>JNonInt\<close>, as no source reads the value of such a number; an escape of a code unit above 255 is
  outside the strings modelled and does not parse.
\<close>

section \<open>Printing\<close>

fun json_text :: "json \<Rightarrow> string" where
  "json_text JNull = ''null''"
| "json_text (JBool b) = (if b then ''true'' else ''false'')"
| "json_text (JStr s) = stringify_text s"
| "json_text (JNum (JInt i)) = int_text i"
| "json_text (JNum JNonInt) = ''null''"
| "json_text (JArr xs) = ''['' @ join_with '','' (map json_text xs) @ '']''"
| "json_text (JObj row) = ''{'' @ join_with '','' (map (\<lambda>(k, v). stringify_text k @ '':'' @ json_text v) row) @ ''}''"

section \<open>Lexical elements\<close>

definition json_space :: "char \<Rightarrow> bool" where
  "json_space c \<longleftrightarrow> (let n = char_code c in n = 9 \<or> n = 10 \<or> n = 13 \<or> n = 32)"

definition skip_space :: "string \<Rightarrow> string" where
  "skip_space s = dropWhile json_space s"

definition hex_value :: "char \<Rightarrow> int option" where
  "hex_value c =
     (let n = char_code c in
      if 48 \<le> n \<and> n \<le> 57 then Some (n - 48)
      else if 97 \<le> n \<and> n \<le> 102 then Some (n - 87)
      else if 65 \<le> n \<and> n \<le> 70 then Some (n - 55)
      else None)"

text \<open>The escapes after a backslash, and the rest of a string after its opening quote.\<close>

definition unescape :: "char \<Rightarrow> char option" where
  "unescape c =
     (let n = char_code c in
      if n = 34 \<or> n = 92 \<or> n = 47 then Some c
      else if n = 98 then Some (char_of (8 :: int))
      else if n = 116 then Some (char_of (9 :: int))
      else if n = 110 then Some (char_of (10 :: int))
      else if n = 102 then Some (char_of (12 :: int))
      else if n = 114 then Some (char_of (13 :: int))
      else None)"

definition code_unit :: "char \<Rightarrow> char \<Rightarrow> char \<Rightarrow> char \<Rightarrow> char option" where
  "code_unit a b c d =
     (case (hex_value a, hex_value b, hex_value c, hex_value d) of
        (Some i, Some j, Some k, Some l) \<Rightarrow>
          if i = 0 \<and> j = 0 then Some (char_of (16 * k + l)) else None
      | _ \<Rightarrow> None)"

definition put_char :: "char \<Rightarrow> (string \<times> string) option \<Rightarrow> (string \<times> string) option" where
  "put_char c r = map_option (\<lambda>(s, rest). (c # s, rest)) r"

fun string_body :: "string \<Rightarrow> (string \<times> string) option" where
  "string_body [] = None"
| "string_body [c] = (if c = CHR 0x22 then Some ([], []) else None)"
| "string_body (c # d # cs) =
     (if c = CHR 0x22 then Some ([], d # cs)
      else if c = CHR 0x5C then
        (if d = CHR ''u'' then
           (case cs of
              e # f # g # h # rest \<Rightarrow>
                (case code_unit e f g h of None \<Rightarrow> None | Some u \<Rightarrow> put_char u (string_body rest))
            | _ \<Rightarrow> None)
         else (case unescape d of None \<Rightarrow> None | Some u \<Rightarrow> put_char u (string_body cs)))
      else if char_code c < 32 then None
      else put_char c (string_body (d # cs)))"

text \<open>A numeral: an integer part without leading zeros, and optionally a fraction and an exponent.\<close>

definition digits_of :: "string \<Rightarrow> string \<times> string" where
  "digits_of s = (takeWhile digit_char s, dropWhile digit_char s)"

definition fraction_part :: "string \<Rightarrow> (bool \<times> string) option" where
  "fraction_part s =
     (case s of
        c # cs \<Rightarrow>
          if c = CHR ''.'' then (case digits_of cs of (ds, rest) \<Rightarrow> if ds = [] then None else Some (True, rest))
          else Some (False, s)
      | [] \<Rightarrow> Some (False, []))"

definition exponent_part :: "string \<Rightarrow> (bool \<times> string) option" where
  "exponent_part s =
     (case s of
        c # cs \<Rightarrow>
          if c = CHR ''e'' \<or> c = CHR ''E'' then
            (let cs' = (case cs of d # ds \<Rightarrow> if d = CHR ''+'' \<or> d = CHR ''-'' then ds else cs | [] \<Rightarrow> []) in
             case digits_of cs' of (ds, rest) \<Rightarrow> if ds = [] then None else Some (True, rest))
          else Some (False, s)
      | [] \<Rightarrow> Some (False, []))"

definition number_value :: "bool \<Rightarrow> string \<Rightarrow> bool \<Rightarrow> json" where
  "number_value negative ds inexact =
     (let i = (if negative then - digits_value ds else digits_value ds) in
      JNum (if inexact \<or> \<not> is_safe_int i then JNonInt else JInt i))"

definition parse_number :: "string \<Rightarrow> (json \<times> string) option" where
  "parse_number s =
     (let negative = (take 1 s = ''-'');
          (ds, rest) = digits_of (if negative then drop 1 s else s) in
      if ds = [] \<or> (hd ds = CHR ''0'' \<and> tl ds \<noteq> []) then None
      else (case fraction_part rest of
              None \<Rightarrow> None
            | Some (f, rest') \<Rightarrow>
                (case exponent_part rest' of
                   None \<Rightarrow> None
                 | Some (e, rest'') \<Rightarrow> Some (number_value negative ds (f \<or> e), rest''))))"

definition parse_literal :: "string \<Rightarrow> json \<Rightarrow> string \<Rightarrow> (json \<times> string) option" where
  "parse_literal word v s = (if has_prefix word s then Some (v, drop (length word) s) else None)"

section \<open>Values\<close>

text \<open>A key given twice keeps its place and takes the later value.\<close>

fun put_field :: "string \<Rightarrow> json \<Rightarrow> (string \<times> json) list \<Rightarrow> (string \<times> json) list" where
  "put_field k v [] = [(k, v)]"
| "put_field k v ((k', v') # row) = (if k = k' then (k, v) # row else (k', v') # put_field k v row)"

definition expect :: "char \<Rightarrow> string \<Rightarrow> string option" where
  "expect c s = (case skip_space s of d # ds \<Rightarrow> if d = c then Some ds else None | [] \<Rightarrow> None)"

text \<open>
  A call goes on only with a rest shorter than its text, which every rest is.
\<close>

function parse_value :: "string \<Rightarrow> (json \<times> string) option"
  and parse_items :: "json list \<Rightarrow> string \<Rightarrow> (json \<times> string) option"
  and parse_fields :: "(string \<times> json) list \<Rightarrow> string \<Rightarrow> (json \<times> string) option" where
  "parse_value s =
     (case skip_space s of
        [] \<Rightarrow> None
      | c # cs \<Rightarrow>
          if c = CHR 0x22 then map_option (\<lambda>(t, rest). (JStr t, rest)) (string_body cs)
          else if c = CHR 0x5B then
            (case expect CHR 0x5D cs of
               Some rest \<Rightarrow> Some (JArr [], rest)
             | None \<Rightarrow> if length cs < length s then parse_items [] cs else None)
          else if c = CHR 0x7B then
            (case expect CHR 0x7D cs of
               Some rest \<Rightarrow> Some (JObj [], rest)
             | None \<Rightarrow> if length cs < length s then parse_fields [] cs else None)
          else if c = CHR ''t'' then parse_literal ''true'' (JBool True) (c # cs)
          else if c = CHR ''f'' then parse_literal ''false'' (JBool False) (c # cs)
          else if c = CHR ''n'' then parse_literal ''null'' JNull (c # cs)
          else parse_number (c # cs))"
| "parse_items done s =
     (case parse_value s of
        None \<Rightarrow> None
      | Some (v, rest) \<Rightarrow>
          (case skip_space rest of
             c # cs \<Rightarrow>
               if c = CHR 0x5D then Some (JArr (done @ [v]), cs)
               else if c = CHR '','' \<and> length cs < length s then parse_items (done @ [v]) cs
               else None
           | [] \<Rightarrow> None))"
| "parse_fields done s =
     (case expect CHR 0x22 s of
        None \<Rightarrow> None
      | Some ks \<Rightarrow>
          (case string_body ks of
             None \<Rightarrow> None
           | Some (k, rest) \<Rightarrow>
               (case expect CHR '':'' rest of
                  None \<Rightarrow> None
                | Some vs \<Rightarrow>
                    if length vs < length s then
                      (case parse_value vs of
                         None \<Rightarrow> None
                       | Some (v, rest') \<Rightarrow>
                           (case skip_space rest' of
                              c # cs \<Rightarrow>
                                if c = CHR 0x7D then Some (JObj (put_field k v done), cs)
                                else if c = CHR '','' \<and> length cs < length s then parse_fields (put_field k v done) cs
                                else None
                            | [] \<Rightarrow> None))
                    else None)))"
  by pat_completeness auto

termination
  by (relation "measures [\<lambda>x. case x of Inl s \<Rightarrow> length s | Inr (Inl (_, s)) \<Rightarrow> length s | Inr (Inr (_, s)) \<Rightarrow> length s,
        \<lambda>x. case x of Inl s \<Rightarrow> 0 | Inr _ \<Rightarrow> 1]") auto

declare parse_value.simps [simp del] parse_items.simps [simp del] parse_fields.simps [simp del]

definition json_parse :: "string \<Rightarrow> json option" where
  "json_parse s =
     (case parse_value s of
        Some (v, rest) \<Rightarrow> if skip_space rest = [] then Some v else None
      | None \<Rightarrow> None)"

section \<open>What is printed parses back\<close>

definition escape_ok :: "char \<Rightarrow> bool" where
  "escape_ok c \<longleftrightarrow>
     (case escape_char c of
        [a] \<Rightarrow> a = c \<and> c \<noteq> CHR 0x22 \<and> c \<noteq> CHR 0x5C \<and> \<not> char_code c < 32
      | [a, d] \<Rightarrow> a = CHR 0x5C \<and> d \<noteq> CHR ''u'' \<and> unescape d = Some c
      | [a, u, e, f, g, h] \<Rightarrow> a = CHR 0x5C \<and> u = CHR ''u'' \<and> code_unit e f g h = Some c
      | _ \<Rightarrow> False)"

lemma escape_ok_control: "list_all (\<lambda>n. escape_ok (char_of n)) ([34, 92] @ [0..31 :: int])"
  by code_simp

lemma char_code_nonneg: "0 \<le> char_code c"
  by (simp add: char_code_def of_char_def)

lemma char_of_code [simp]: "char_of (char_code c) = c"
  by (simp add: char_code_def)

lemma escape_ok: "escape_ok c"
proof (cases "char_code c < 32 \<or> char_code c = 34 \<or> char_code c = 92")
  case True
  then have "char_code c \<in> set ([34, 92] @ [0..31])"
    using char_code_nonneg [of c] by (auto simp: set_upto)
  then have "escape_ok (char_of (char_code c))" using escape_ok_control unfolding list_all_iff by blast
  then show ?thesis by simp
next
  case False
  then have "escape_char c = [c]" by (simp add: escape_char_def)
  moreover have "c \<noteq> CHR 0x22" "c \<noteq> CHR 0x5C" using False by (auto simp: char_code_def)
  ultimately show ?thesis using False by (simp add: escape_ok_def)
qed

lemma escape_cases:
  obtains "escape_char c = [c]" "c \<noteq> CHR 0x22" "c \<noteq> CHR 0x5C" "\<not> char_code c < 32"
  | d where "escape_char c = [CHR 0x5C, d]" "d \<noteq> CHR ''u''" "unescape d = Some c"
  | e f g h where "escape_char c = [CHR 0x5C, CHR ''u'', e, f, g, h]" "code_unit e f g h = Some c"
  using escape_ok [of c] unfolding escape_ok_def by (auto split: list.splits)

lemma string_body_escape: "string_body (escape_char c @ d # s) = put_char c (string_body (d # s))"
proof (cases c rule: escape_cases)
  case 1
  then show ?thesis by simp
next
  case (2 d')
  then show ?thesis by (simp del: string_body.simps add: string_body.simps(3))
next
  case (3 e f g h)
  then show ?thesis by (simp del: string_body.simps add: string_body.simps(3))
qed

lemma string_body_text: "string_body (concat (map escape_char s) @ CHR 0x22 # rest) = Some (s, rest)"
proof (induction s)
  case Nil
  then show ?case by (cases rest) simp_all
next
  case (Cons c s)
  obtain d t where dt: "concat (map escape_char s) @ CHR 0x22 # rest = d # t"
    by (cases "concat (map escape_char s) @ CHR 0x22 # rest") auto
  show ?case using Cons.IH string_body_escape [of c d t] by (simp add: put_char_def dt)
qed

text \<open>Numerals.\<close>

definition stops :: "string \<Rightarrow> bool" where
  "stops rest \<longleftrightarrow> (case rest of [] \<Rightarrow> True | c # cs \<Rightarrow> c = CHR '','' \<or> c = CHR 0x5D \<or> c = CHR 0x7D)"

lemma digits_of_append: "list_all digit_char ds \<Longrightarrow> stops rest \<Longrightarrow> digits_of (ds @ rest) = (ds, rest)"
proof -
  assume ds: "list_all digit_char ds" and "stops rest"
  then have "takeWhile digit_char rest = []" "dropWhile digit_char rest = rest"
    by (auto simp: stops_def digit_char_def code_between_def char_code_def split: list.splits)
  with ds show "digits_of (ds @ rest) = (ds, rest)"
    by (simp add: digits_of_def list_all_iff takeWhile_append2 dropWhile_append2)
qed

lemma parse_number_digits:
  assumes "0 \<le> n" and "stops rest"
  shows "nat_text n \<noteq> []" and "digit_char (hd (nat_text n))"
    and "parse_number (nat_text n @ rest) = Some (number_value False (nat_text n) False, rest)"
    and "parse_number (CHR ''-'' # nat_text n @ rest) = Some (number_value True (nat_text n) False, rest)"
proof -
  note f = nat_text_facts [OF assms(1)]
  show ne: "nat_text n \<noteq> []" using f by simp
  then show hd: "digit_char (hd (nat_text n))" using f by (cases "nat_text n") auto
  have zero: "\<not> (hd (nat_text n) = CHR ''0'' \<and> tl (nat_text n) \<noteq> [])"
  proof (cases "n = 0")
    case True
    then show ?thesis by (simp add: nat_text_0)
  next
    case False
    with f assms(1) show ?thesis by (auto simp: code_between_def char_code_def)
  qed
  have tail: "fraction_part rest = Some (False, rest)" "exponent_part rest = Some (False, rest)"
    using assms(2) by (auto simp: stops_def fraction_part_def exponent_part_def split: list.splits)
  have dig: "digits_of (nat_text n @ rest) = (nat_text n, rest)"
    using f assms(2) by (simp add: digits_of_append)
  have "take 1 (nat_text n @ rest) \<noteq> ''-''"
    using ne hd by (cases "nat_text n") (auto simp: digit_char_def code_between_def char_code_def)
  then show "parse_number (nat_text n @ rest) = Some (number_value False (nat_text n) False, rest)"
    using ne zero by (simp add: parse_number_def dig tail)
  show "parse_number (CHR ''-'' # nat_text n @ rest) = Some (number_value True (nat_text n) False, rest)"
    using ne zero by (simp add: parse_number_def dig tail)
qed

text \<open>
  Values that print exactly: no fraction and no integer out of the safe range, and every key of an
  object once.
\<close>

fun printable :: "json \<Rightarrow> bool" where
  "printable (JNum n) = is_safe_number n"
| "printable (JArr xs) = list_all printable xs"
| "printable (JObj row) = (distinct (map fst row) \<and> list_all (\<lambda>(k, v). printable v) row)"
| "printable _ = True"

lemma skip_space_Cons: "\<not> json_space c \<Longrightarrow> skip_space (c # cs) = c # cs"
  by (simp add: skip_space_def)

lemma punctuation_no_space [simp]:
  "\<not> json_space CHR 0x22" "\<not> json_space CHR '',''" "\<not> json_space CHR '':''" "\<not> json_space CHR 0x5B"
  "\<not> json_space CHR 0x5D" "\<not> json_space CHR 0x7B" "\<not> json_space CHR 0x7D" "\<not> json_space CHR ''-''"
  "\<not> json_space CHR ''t''" "\<not> json_space CHR ''f''" "\<not> json_space CHR ''n''"
  by (simp_all add: json_space_def char_code_def)

lemma digit_no_space: "digit_char c \<Longrightarrow> \<not> json_space c"
  by (auto simp: digit_char_iff json_space_def Let_def)

lemma stops_skip: "stops rest \<Longrightarrow> skip_space rest = rest"
  by (auto simp: stops_def skip_space_def split: list.splits)

lemma int_text_head:
  obtains c cs where "int_text i = c # cs" "digit_char c \<or> c = CHR ''-''"
proof (cases "i < 0")
  case True
  then show ?thesis by (intro that [of "CHR ''-''"]) (auto simp: int_text_def)
next
  case False
  then have "nat_text i \<noteq> [] \<and> digit_char (hd (nat_text i))"
    using parse_number_digits(1, 2) [of i "[]"] by (simp add: stops_def)
  then show ?thesis using False by (cases "nat_text i") (auto simp: int_text_def intro: that)
qed

lemma json_text_head:
  obtains c cs where "json_text j = c # cs" "\<not> json_space c" "c \<noteq> CHR 0x5D" "c \<noteq> CHR 0x7D"
proof (cases j rule: json_text.cases)
  case (2 b)
  then show ?thesis by (cases b) (auto intro: that)
next
  case (4 i)
  obtain c cs where c: "int_text i = c # cs" "digit_char c \<or> c = CHR ''-''" by (rule int_text_head)
  from c(2) have "\<not> json_space c" by (auto dest: digit_no_space)
  moreover from c(2) have "c \<noteq> CHR 0x5D" "c \<noteq> CHR 0x7D" by (auto simp: digit_char_iff char_code_def)
  ultimately show ?thesis using c(1) 4 by (intro that) auto
qed (auto simp: stringify_text_def intro: that split: if_splits)

lemma skip_json_text [simp]: "skip_space (json_text j @ rest) = json_text j @ rest"
  by (cases rule: json_text_head [of j]) (simp add: skip_space_Cons)

lemma parse_int_text:
  assumes "is_safe_int i" and "stops rest"
  shows "parse_number (int_text i @ rest) = Some (JNum (JInt i), rest)"
proof (cases "i < 0")
  case True
  then have "parse_number (int_text i @ rest) = Some (number_value True (nat_text (- i)) False, rest)"
    using parse_number_digits(4) [of "- i" rest] assms(2) by (simp add: int_text_def)
  then show ?thesis using True assms(1) nat_text_facts [of "- i"] by (simp add: number_value_def)
next
  case False
  then have "parse_number (int_text i @ rest) = Some (number_value False (nat_text i) False, rest)"
    using parse_number_digits(3) [of i rest] assms(2) by (simp add: int_text_def)
  then show ?thesis using False assms(1) nat_text_facts [of i] by (simp add: number_value_def)
qed

lemma parse_value_int:
  assumes "is_safe_int i" and "stops rest"
  shows "parse_value (int_text i @ rest) = Some (JNum (JInt i), rest)"
proof -
  obtain c cs where c: "int_text i = c # cs" "digit_char c \<or> c = CHR ''-''" by (rule int_text_head)
  then have "\<not> json_space c" by (auto dest: digit_no_space)
  moreover have "c \<notin> {CHR 0x22, CHR 0x5B, CHR 0x7B, CHR ''t'', CHR ''f'', CHR ''n''}"
    using c(2) by (auto simp: digit_char_iff char_code_def)
  moreover have "parse_number (c # cs @ rest) = Some (JNum (JInt i), rest)"
    using parse_int_text [OF assms] c(1) by simp
  ultimately show ?thesis using c(1) by (simp add: parse_value.simps skip_space_Cons)
qed

lemma parse_value_string: "parse_value (stringify_text t @ rest) = Some (JStr t, rest)"
  by (simp add: parse_value.simps skip_space_Cons stringify_text_def string_body_text)

lemma parse_items_text:
  assumes "\<forall>y \<in> set (x # xs). \<forall>rest. stops rest \<longrightarrow> parse_value (json_text y @ rest) = Some (y, rest)"
  shows "parse_items done (join_with '','' (map json_text (x # xs)) @ CHR 0x5D # rest) = Some (JArr (done @ x # xs), rest)"
  using assms
proof (induction xs arbitrary: x "done")
  case Nil
  then have "parse_value (json_text x @ CHR 0x5D # rest) = Some (x, CHR 0x5D # rest)" by (simp add: stops_def)
  then show ?case by (simp add: parse_items.simps skip_space_Cons)
next
  case (Cons y ys)
  let ?more = "join_with '','' (map json_text (y # ys)) @ CHR 0x5D # rest"
  have "parse_value (json_text x @ CHR '','' # ?more) = Some (x, CHR '','' # ?more)"
    using Cons.prems by (simp add: stops_def)
  moreover have "parse_items (done @ [x]) ?more = Some (JArr ((done @ [x]) @ y # ys), rest)"
    using Cons.prems by (intro Cons.IH) auto
  ultimately show ?case
    by (simp add: parse_items.simps [of "done" "json_text x @ _"] skip_space_Cons)
qed

lemma put_field_new: "k \<notin> fst ` set row \<Longrightarrow> put_field k v row = row @ [(k, v)]"
  by (induction row) auto

definition field_text :: "string \<times> json \<Rightarrow> string" where
  "field_text f = stringify_text (fst f) @ '':'' @ json_text (snd f)"

lemma json_text_object: "json_text (JObj row) = ''{'' @ join_with '','' (map field_text row) @ ''}''"
  by (simp add: field_text_def [abs_def] case_prod_beta')

lemma parse_fields_text:
  assumes "\<forall>f \<in> set (x # xs). \<forall>rest. stops rest \<longrightarrow> parse_value (json_text (snd f) @ rest) = Some (snd f, rest)"
    and "distinct (map fst (done @ x # xs))"
  shows "parse_fields done (join_with '','' (map field_text (x # xs)) @ CHR 0x7D # rest) = Some (JObj (done @ x # xs), rest)"
  using assms
proof (induction xs arbitrary: x "done")
  case Nil
  then have "parse_value (json_text (snd x) @ CHR 0x7D # rest) = Some (snd x, CHR 0x7D # rest)" by (simp add: stops_def)
  with Nil(2) show ?case
    by (simp add: parse_fields.simps field_text_def expect_def skip_space_Cons stringify_text_def string_body_text
        put_field_new)
next
  case (Cons y ys)
  let ?more = "join_with '','' (map field_text (y # ys)) @ CHR 0x7D # rest"
  have "parse_value (json_text (snd x) @ CHR '','' # ?more) = Some (snd x, CHR '','' # ?more)"
    using Cons.prems(1) by (simp add: stops_def)
  moreover have "parse_fields (done @ [x]) ?more = Some (JObj ((done @ [x]) @ y # ys), rest)"
    using Cons.prems by (intro Cons.IH) auto
  moreover have "put_field (fst x) (snd x) done = done @ [x]" using Cons.prems(2) by (simp add: put_field_new)
  ultimately have "parse_fields done (field_text x @ CHR '','' # ?more) = Some (JObj (done @ x # y # ys), rest)"
    by (subst parse_fields.simps)
      (simp add: field_text_def [of x] expect_def skip_space_Cons stringify_text_def string_body_text)
  then show ?case by simp
qed

lemma parse_value_text:
  "printable j \<Longrightarrow> stops rest \<Longrightarrow> parse_value (json_text j @ rest) = Some (j, rest)"
proof (induction j arbitrary: rest)
  case (JArr xs)
  show ?case
  proof (cases xs)
    case Nil
    then show ?thesis by (simp add: parse_value.simps skip_space_Cons expect_def)
  next
    case (Cons y ys)
    obtain c cs where c: "json_text y = c # cs" "\<not> json_space c" "c \<noteq> CHR 0x5D" by (rule json_text_head)
    have "parse_items [] (join_with '','' (map json_text (y # ys)) @ CHR 0x5D # rest) = Some (JArr ([] @ y # ys), rest)"
      using JArr Cons by (intro parse_items_text) (auto simp: list_all_iff)
    moreover have "expect CHR 0x5D (join_with '','' (map json_text (y # ys)) @ CHR 0x5D # rest) = None"
      using c by (cases ys) (simp_all add: expect_def skip_space_Cons)
    ultimately show ?thesis using Cons by (simp add: parse_value.simps skip_space_Cons)
  qed
next
  case (JObj row)
  show ?case
  proof (cases row)
    case Nil
    then show ?thesis by (simp add: parse_value.simps skip_space_Cons expect_def)
  next
    case (Cons y ys)
    have "parse_fields [] (join_with '','' (map field_text (y # ys)) @ CHR 0x7D # rest) = Some (JObj ([] @ y # ys), rest)"
      using JObj Cons by (intro parse_fields_text) (fastforce simp: list_all_iff)+
    moreover have "expect CHR 0x7D (join_with '','' (map field_text (y # ys)) @ CHR 0x7D # rest) = None"
      by (cases ys) (simp_all add: expect_def field_text_def stringify_text_def skip_space_Cons)
    ultimately show ?thesis
      unfolding Cons json_text_object by (simp add: parse_value.simps skip_space_Cons)
  qed
next
  case (JNum n)
  then show ?case by (cases n) (simp_all add: parse_value_int)
next
  case (JStr t)
  then show ?case by (simp add: parse_value_string)
qed (simp_all add: parse_value.simps skip_space_Cons parse_literal_def has_prefix_def)

lemma json_parse_text: "printable j \<Longrightarrow> json_parse (json_text j) = Some j"
  using parse_value_text [of j "[]"] by (simp add: json_parse_def stops_def skip_space_def)

lemma json_text_eq_iff: "printable j \<Longrightarrow> printable k \<Longrightarrow> json_text j = json_text k \<longleftrightarrow> j = k"
  by (metis json_parse_text option.inject)

end
