(* ===== verification/Native_Configuration.thy ===== *)
theory Native_Configuration
  imports Json_Parse
begin

text \<open>
  The native seller configuration: its canonical document and digest
  (\<open>src/src/baobab/orders/native-seller-configuration.ts\<close>) and the resolver that finds the one attested
  configuration covering a native record and recomputes its digest from live facts
  (\<open>native-configuration-resolver.ts\<close>). SHA-256, the live facts and the attested rows are arguments; a
  reader that fails is a left value. A denial carries the reason the source throws, without the
  identifier it may name. A field of a stored
  document that is not a text is refused where the source would coerce it.
\<close>

section \<open>JavaScript texts\<close>

text \<open>\<open>toUpperCase\<close> on code units below 256; the upper cases of two of them lie above.\<close>

definition upper_unit :: "char \<Rightarrow> string" where
  "upper_unit c =
     (let n = char_code c in
      if (97 \<le> n \<and> n \<le> 122) \<or> (224 \<le> n \<and> n \<le> 254 \<and> n \<noteq> 247) then [char_of (n - 32)]
      else if n = 223 then ''SS''
      else [c])"

definition js_upper :: "string \<Rightarrow> string" where
  "js_upper s = concat (map upper_unit s)"

text \<open>\<open>prefix[a-z0-9]{m,n}\<close> as a whole, and the texts of this kind the sources test.\<close>

definition lower_alnum :: "char \<Rightarrow> bool" where
  "lower_alnum c \<longleftrightarrow> lower_char c \<or> digit_char c"

definition prefixed :: "string \<Rightarrow> nat \<Rightarrow> string \<Rightarrow> bool" where
  "prefixed p m s \<longleftrightarrow> has_prefix p s \<and> m \<le> length s - length p \<and> list_all lower_alnum (drop (length p) s)"

definition uuid_pattern :: "string \<Rightarrow> bool" where
  "uuid_pattern s \<longleftrightarrow> length s = 36 \<and>
     list_all (\<lambda>i. if i \<in> {8, 13, 18, 23} then s ! i = CHR ''-'' else lower_hex_char (s ! i)) [0..<36]"

definition reference_pattern :: "string \<Rightarrow> bool" where
  "reference_pattern s \<longleftrightarrow>
     (case s of [] \<Rightarrow> False | c # cs \<Rightarrow> alnum_char c \<and> list_all (\<lambda>x. alnum_char x \<or> in_class ''._:/-'' x) cs)"

definition market_pattern :: "string \<Rightarrow> bool" where
  "market_pattern = class_range upper_char 2 2"

definition currency_pattern :: "string \<Rightarrow> bool" where
  "currency_pattern = class_range upper_char 3 3"

definition engine_pattern :: "string \<Rightarrow> bool" where
  "engine_pattern = prefixed ''ei_'' 1"

section \<open>The canonical configuration\<close>

definition NATIVE_CONFIGURATION_CANONICALIZATION :: string where
  "NATIVE_CONFIGURATION_CANONICALIZATION = ''baobab-trade/native-seller-configuration/v1''"

record seller_scope =
  sc_reference :: string
  sc_tenant :: string
  sc_organisation :: string
  sc_market :: string
  sc_engine :: string
  sc_currencies :: "string list"
  sc_channels :: "string list"
  sc_regions :: "string list"

record channel_fact =
  cf_id :: string
  cf_disabled :: bool

record region_fact =
  rf_id :: string
  rf_currency :: string
  rf_countries :: "string list"

record seller_configuration =
  sf_reference :: string
  sf_canonical :: string
  sf_digest :: string
  sf_currencies :: "string list"

definition distinct_ids :: "string list \<Rightarrow> string \<Rightarrow> string + string list" where
  "distinct_ids values what =
     andThen (ensure (values \<noteq> []) (what @ '' is empty'')) (\<lambda>_.
     andThen (ensure (list_all (\<lambda>v. js_trim v \<noteq> [] \<and> v = js_trim v) values) (what @ '' has a blank identifier'')) (\<lambda>_.
     andThen (ensure (distinct values) (what @ '' has duplicates'')) (\<lambda>_.
     Inr (sort values))))"

definition byId :: "('f \<Rightarrow> string) \<Rightarrow> 'f list \<Rightarrow> string list \<Rightarrow> string \<Rightarrow> string + 'f list" where
  "byId key facts ids what =
     andThen (ensure (distinct (map key facts)) (what @ '' read more than once'')) (\<lambda>_.
     andThen (ensure (length facts = length ids \<and> list_all (\<lambda>i. find_row key i facts \<noteq> None) ids)
       (what @ '' set does not match the declared configuration'')) (\<lambda>_.
     Inr (map (\<lambda>i. the (find_row key i facts)) ids)))"

definition channel_json :: "channel_fact \<Rightarrow> string + json" where
  "channel_json c =
     (if cf_disabled c then Inl ''sales channel is disabled''
      else Inr (JObj [(''id'', JStr (cf_id c)), (''is_disabled'', JBool False)]))"

definition region_json :: "string list \<Rightarrow> string \<Rightarrow> region_fact \<Rightarrow> string + json" where
  "region_json currencies market r =
     (let currency = js_upper (rf_currency r);
          countries = sort (remdups (map js_upper (rf_countries r))) in
      if currency \<notin> set currencies then Inl ''region currency is outside the scope''
      else if countries = [] \<or> list_ex (\<lambda>c. c \<noteq> market) countries then Inl ''region serves a country outside the market''
      else Inr (JObj [(''id'', JStr (rf_id r)), (''currency_code'', JStr currency), (''countries'', JArr (map JStr countries))]))"

definition configuration_json :: "seller_scope \<Rightarrow> string list \<Rightarrow> json list \<Rightarrow> json list \<Rightarrow> json" where
  "configuration_json scope currencies channels regions = JObj
     [(''canonicalization'', JStr NATIVE_CONFIGURATION_CANONICALIZATION),
      (''tenant_id'', JStr (sc_tenant scope)),
      (''operating_organisation_id'', JStr (sc_organisation scope)),
      (''market'', JStr (sc_market scope)),
      (''engine_instance_id'', JStr (sc_engine scope)),
      (''native_configuration_reference'', JStr (sc_reference scope)),
      (''currency_scope'', JArr (map JStr currencies)),
      (''sales_channels'', JArr channels),
      (''regions'', JArr regions)]"

text \<open>The checks on the declared scope, before any fact is read; they give the sorted sets.\<close>

definition checked_scope :: "seller_scope \<Rightarrow> string + string list \<times> string list \<times> string list" where
  "checked_scope scope =
     andThen (ensure (length (sc_reference scope) \<le> 128 \<and> reference_pattern (sc_reference scope)) ''invalid configuration reference'') (\<lambda>_.
     andThen (ensure (prefixed ''tn_'' 3 (sc_tenant scope) \<and> length (sc_tenant scope) \<le> 63) ''invalid tenant'') (\<lambda>_.
     andThen (ensure (uuid_pattern (sc_organisation scope)) ''invalid operating Organisation'') (\<lambda>_.
     andThen (ensure (market_pattern (sc_market scope)) ''invalid market'') (\<lambda>_.
     andThen (ensure (prefixed ''ei_'' 3 (sc_engine scope) \<and> length (sc_engine scope) \<le> 63) ''invalid engine instance'') (\<lambda>_.
     andThen (distinct_ids (sc_currencies scope) ''currency scope'') (\<lambda>currencies.
     andThen (ensure (list_all currency_pattern currencies) ''invalid currency'') (\<lambda>_.
     andThen (distinct_ids (sc_channels scope) ''sales channel set'') (\<lambda>channels.
     andThen (distinct_ids (sc_regions scope) ''region set'') (\<lambda>regions.
     Inr (currencies, channels, regions))))))))))"

definition canonicalNativeSellerConfiguration ::
    "(string \<Rightarrow> string) \<Rightarrow> seller_scope \<Rightarrow> channel_fact list \<Rightarrow> region_fact list \<Rightarrow> string + seller_configuration" where
  "canonicalNativeSellerConfiguration sha256 scope salesChannels regions =
     andThen (checked_scope scope) (\<lambda>(currencies, channelIds, regionIds).
     andThen (byId cf_id salesChannels channelIds ''sales channel'') (\<lambda>cs.
     andThen (traverse channel_json cs) (\<lambda>channels.
     andThen (byId rf_id regions regionIds ''region'') (\<lambda>rs.
     andThen (traverse (region_json currencies (sc_market scope)) rs) (\<lambda>regionFacts.
     andThen (ensure (list_all (\<lambda>c. c \<in> set (map (\<lambda>r. js_upper (rf_currency r)) rs)) currencies)
       ''a scoped currency is served by no region'') (\<lambda>_.
     let canonical = json_text (configuration_json scope currencies channels regionFacts) in
     Inr \<lparr>sf_reference = sc_reference scope, sf_canonical = canonical, sf_digest = sha256 canonical,
          sf_currencies = currencies\<rparr>))))))"

text \<open>The reader of the live facts answers for the declared identifiers, or fails.\<close>

type_synonym facts_reader = "string list \<Rightarrow> string list \<Rightarrow> string + channel_fact list \<times> region_fact list"

definition currentNativeSellerConfiguration ::
    "(string \<Rightarrow> string) \<Rightarrow> seller_scope \<Rightarrow> facts_reader \<Rightarrow> string + seller_configuration" where
  "currentNativeSellerConfiguration sha256 scope reader =
     andThen (reader (sc_channels scope) (sc_regions scope)) (\<lambda>(salesChannels, regions).
     canonicalNativeSellerConfiguration sha256 scope salesChannels regions)"

section \<open>The resolver\<close>

record commitment_scope =
  ns_channel :: string
  ns_region :: string
  ns_currency :: string

record resolved_configuration =
  rs_reference :: string
  rs_digest :: string
  rs_currency :: string
  rs_tenant :: string
  rs_organisation :: string
  rs_market :: string
  rs_engine :: string
  rs_attestation :: string

record attested_configuration =
  ac_id :: string
  ac_reference :: string
  ac_canonical :: string

text \<open>\<open>v.k\<close>: null throws, any value but an object has no such property.\<close>

definition js_member :: "json \<Rightarrow> string \<Rightarrow> string + json option" where
  "js_member v k =
     (case v of JNull \<Rightarrow> Inl ''TypeError'' | JObj row \<Rightarrow> Inr (map_of row k) | _ \<Rightarrow> Inr None)"

definition member_is :: "string \<Rightarrow> string \<Rightarrow> json \<Rightarrow> string + bool" where
  "member_is k s v = andThen (js_member v k) (\<lambda>x. Inr (x = Some (JStr s)))"

text \<open>\<open>xs.some(f)\<close>, where \<open>f\<close> may throw, stops at the first match.\<close>

fun some_of :: "('a \<Rightarrow> 'e + bool) \<Rightarrow> 'a list \<Rightarrow> 'e + bool" where
  "some_of f [] = Inr False"
| "some_of f (x # xs) = andThen (f x) (\<lambda>b. if b then Inr True else some_of f xs)"

definition doc_text :: "(string \<times> json) list \<Rightarrow> string \<Rightarrow> string + string" where
  "doc_text row k = (case map_of row k of Some (JStr s) \<Rightarrow> Inr s | _ \<Rightarrow> Inl (k @ '' is not a text''))"

fun json_string :: "json \<Rightarrow> string + string" where
  "json_string (JStr s) = Inr s"
| "json_string _ = Inl ''not a text''"

definition id_of :: "json \<Rightarrow> string + string" where
  "id_of v = andThen (js_member v ''id'') (\<lambda>x. case x of Some (JStr s) \<Rightarrow> Inr s | _ \<Rightarrow> Inl ''id is not a text'')"

definition parseCanonical :: "attested_configuration \<Rightarrow> string \<Rightarrow> string + (string \<times> json) list \<times> json list \<times> json list \<times> json list" where
  "parseCanonical a engine =
     (case json_parse (ac_canonical a) of
        None \<Rightarrow> Inl ''attestation is not a canonical document''
      | Some (JObj row) \<Rightarrow>
          (if map_of row ''canonicalization'' = Some (JStr NATIVE_CONFIGURATION_CANONICALIZATION) \<and>
              map_of row ''native_configuration_reference'' = Some (JStr (ac_reference a)) \<and>
              map_of row ''engine_instance_id'' = Some (JStr engine)
           then (case (map_of row ''sales_channels'', map_of row ''regions'', map_of row ''currency_scope'') of
                   (Some (JArr channels), Some (JArr regions), Some (JArr currencies)) \<Rightarrow>
                     Inr (row, channels, regions, currencies)
                 | _ \<Rightarrow> Inl ''attestation is not a canonical v1 document for this engine'')
           else Inl ''attestation is not a canonical v1 document for this engine'')
      | Some _ \<Rightarrow> Inl ''attestation is not a canonical v1 document for this engine'')"

definition both :: "'e + bool \<Rightarrow> 'e + bool \<Rightarrow> 'e + bool" where
  "both a b = andThen a (\<lambda>x. if x then b else Inr False)"

definition covers :: "commitment_scope \<Rightarrow> string \<Rightarrow> (string \<times> json) list \<times> json list \<times> json list \<times> json list \<Rightarrow> string + bool" where
  "covers native currency doc =
     (case doc of (row, channels, regions, currencies) \<Rightarrow>
        both (some_of (member_is ''id'' (ns_channel native)) channels)
       (both (some_of (\<lambda>r. both (member_is ''id'' (ns_region native) r) (member_is ''currency_code'' currency r)) regions)
             (Inr (JStr currency \<in> set currencies))))"

definition document_scope :: "(string \<times> json) list \<times> json list \<times> json list \<times> json list \<Rightarrow> string + seller_scope" where
  "document_scope doc =
     (case doc of (row, channels, regions, currencies) \<Rightarrow>
        andThen (doc_text row ''native_configuration_reference'') (\<lambda>reference.
        andThen (doc_text row ''tenant_id'') (\<lambda>tenant.
        andThen (doc_text row ''operating_organisation_id'') (\<lambda>organisation.
        andThen (doc_text row ''market'') (\<lambda>market.
        andThen (doc_text row ''engine_instance_id'') (\<lambda>engine.
        andThen (traverse json_string currencies) (\<lambda>cs.
        andThen (traverse id_of channels) (\<lambda>chs.
        andThen (traverse id_of regions) (\<lambda>rgs.
        Inr \<lparr>sc_reference = reference, sc_tenant = tenant, sc_organisation = organisation, sc_market = market,
             sc_engine = engine, sc_currencies = cs, sc_channels = chs, sc_regions = rgs\<rparr>)))))))))"

definition resolveNativeConfiguration ::
    "(string \<Rightarrow> string) \<Rightarrow> commitment_scope \<Rightarrow> string \<Rightarrow> (string \<Rightarrow> string + attested_configuration list) \<Rightarrow> facts_reader
      \<Rightarrow> string + resolved_configuration" where
  "resolveNativeConfiguration sha256 native engine attested facts =
     andThen (ensure (js_trim (ns_channel native) \<noteq> [] \<and> js_trim (ns_region native) \<noteq> []) ''native channel and region required'') (\<lambda>_.
     let currency = js_upper (ns_currency native) in
     andThen (ensure (currency_pattern currency) ''native currency required'') (\<lambda>_.
     andThen (ensure (engine_pattern engine) ''engine instance required'') (\<lambda>_.
     andThen (attested engine) (\<lambda>rows.
     andThen (traverse (\<lambda>a. andThen (parseCanonical a engine) (\<lambda>doc. Inr (a, doc))) rows) (\<lambda>docs.
     andThen (traverse (\<lambda>(a, doc). andThen (covers native currency doc) (\<lambda>b. Inr (b, a, doc))) docs) (\<lambda>judged.
     (case map snd (filter fst judged) of
        [] \<Rightarrow> Inl ''no attested native configuration covers this record''
      | _ # _ # _ \<Rightarrow> Inl ''several attested native configurations cover this record''
      | [(a, doc)] \<Rightarrow>
          andThen (document_scope doc) (\<lambda>scope.
          andThen (currentNativeSellerConfiguration sha256 scope facts) (\<lambda>current.
          Inr \<lparr>rs_reference = sf_reference current, rs_digest = sf_digest current, rs_currency = currency,
               rs_tenant = sc_tenant scope, rs_organisation = sc_organisation scope, rs_market = sc_market scope,
               rs_engine = sc_engine scope, rs_attestation = ac_id a\<rparr>)))))))))"

end
