(* ===== verification/Trade_A_Tables.thy ===== *)
theory Trade_A_Tables
  imports Native_Configuration Complex_Main
begin

text \<open>
  The tables behind the authority to commit a native order, with the constraints and triggers of
  \<open>src/src/modules/legal-seller-checkout/migrations/\<close>: what Trade attested
  (\<open>Migration20261016090000.ts\<close>), the seller each native record is attributed to
  (\<open>Migration20261016120000.ts\<close>), the receipts of order authority (\<open>Migration20261016140000.ts\<close> and
  \<open>Migration20261021090000.ts\<close>), the Control Plane's commerce profile answers and the classifications
  that rest on them (\<open>Migration20261022210000.ts\<close>, \<open>Migration20261023090000.ts\<close>). A table is the list of its
  rows; a refused write is a left value. An instant read from \<open>clock_timestamp()\<close> is an argument of the
  write. Identifiers are the texts the code passes; a row's own identifier and time of recording, which
  the database draws, are in the row already. Advisory locks make the writes sequential.
\<close>

section \<open>Refusals\<close>

datatype classification_refusal =
  CLASSIFICATION_ABSENT | PROFILE_NOT_ACTIVE | CLASSIFICATION_CONFLICT | CLASSIFICATION_CHANGED |
  PROFILE_UNAVAILABLE | BUYER_AUTHORITY_ABSENT

datatype write_refusal =
  CHECK_VIOLATION | UNIQUE_VIOLATION | FOREIGN_KEY_VIOLATION | INVALID_TEXT | APPEND_ONLY_HISTORY |
  CONFIGURATION_NOT_ATTESTED | SELLER_BINDING_CHANGED | BINDING_VERSION_REGRESSED |
  RECEIPT_NOT_CURRENT | DECISION_WITHOUT_ATTRIBUTION | LEASE_EXPIRED | NOT_AT_THE_FENCE |
  ATTESTATION_EXPIRED | ATTESTATION_FROM_THE_FUTURE | PROFILE_CONTRADICTED | PROFILE_REVISION_STALE |
  CLASSIFICATION_FIXED | CLASSIFICATION_NOT_FRESH | QUOTATION_NOT_CLASSIFIABLE | NO_LIVE_PROFILE |
  NOT_CURRENT_ATTRIBUTION | REPLACEMENT_REFUSED | ALREADY_CLASSIFIED | CONVERSION_REFUSED |
  POSTURE_FIXED | GATE_CHANGE_REFUSED | GATE_MISSING |
  NO_ORDER_AUTHORITY | AMBIGUOUS_ORDER_AUTHORITY | NO_DRAFT_AUTHORITY | ORDER_NOT_ITS_CART |
  ORDER_LINES_DIFFER | COMPLETION_WITHOUT_ORDER | COMMITMENT_REFUSED classification_refusal

section \<open>Column texts\<close>

definition text_between :: "nat \<Rightarrow> nat \<Rightarrow> string \<Rightarrow> bool" where
  "text_between m n s \<longleftrightarrow> m \<le> length (btrim s) \<and> length (btrim s) \<le> n"

definition hex64 :: "string \<Rightarrow> bool" where
  "hex64 = class_range lower_hex_char 64 64"

text \<open>\<open>^[a-z][a-z0-9]*(_[a-z0-9]+)*$\<close>.\<close>

fun slug_rest :: "bool \<Rightarrow> string \<Rightarrow> bool" where
  "slug_rest after_mark [] = (\<not> after_mark)"
| "slug_rest after_mark (c # cs) =
     (if c = CHR ''_'' then \<not> after_mark \<and> slug_rest True cs else lower_alnum c \<and> slug_rest False cs)"

definition slug :: "string \<Rightarrow> bool" where
  "slug s \<longleftrightarrow> (case s of [] \<Rightarrow> False | c # cs \<Rightarrow> lower_char c \<and> slug_rest False cs)"

definition visible_text :: "string \<Rightarrow> bool" where
  "visible_text s \<longleftrightarrow> 1 \<le> length s \<and> length s \<le> 256 \<and> list_all (code_between 33 126) s"

section \<open>Rows\<close>

record attestation_row =
  na_id :: string
  na_reference :: string
  na_digest :: string
  na_canonical :: string
  na_tenant :: string
  na_organisation :: string
  na_market :: string
  na_engine :: string
  na_currencies :: "string list"
  na_context :: string
  na_attested :: instant
  na_cp_recorded :: instant
  na_correlation :: string
  na_recorded :: instant

record attribution_row =
  at_id :: string
  at_subject_type :: string
  at_subject :: string
  at_attestation :: string
  at_reference :: string
  at_digest :: string
  at_currency :: string
  at_tenant :: string
  at_organisation :: string
  at_market :: string
  at_engine :: string
  at_binding :: string
  at_version :: int
  at_resolution :: string
  at_context :: string
  at_resolved :: instant
  at_correlation :: string
  at_recorded :: instant

record receipt_row =
  ar_id :: string
  ar_attribution :: string
  ar_class :: string
  ar_reference :: string
  ar_decision :: string
  ar_binding :: string
  ar_version :: int
  ar_digest :: string
  ar_currency :: string
  ar_context :: string
  ar_tenant :: string
  ar_organisation :: string
  ar_market :: string
  ar_mandate :: string
  ar_entity :: string
  ar_policy :: string
  ar_evaluated :: instant
  ar_received :: instant
  ar_lease :: instant
  ar_consumed :: "instant option"
  ar_recorded :: instant

record commitment_row =
  cm_receipt :: string
  cm_class :: string
  cm_subject_type :: string
  cm_subject :: string
  cm_order :: string

text \<open>
  The columns of an attestation are all present in an \<open>ATTESTED\<close> observation and all absent in any
  other, by the CHECK of the table: they are one optional value.
\<close>

record profile_fact =
  pf_attestation :: string
  pf_profile :: string
  pf_revision :: int
  pf_tenant :: string
  pf_model :: string
  pf_issued :: instant
  pf_expires :: instant
  pf_until :: "instant option"
  pf_evidence :: string

record observation_row =
  ob_id :: string
  ob_estate :: string
  ob_engine :: string
  ob_market :: string
  ob_kind :: string
  ob_reference :: string
  ob_outcome :: string
  ob_fact :: "profile_fact option"
  ob_observed :: instant

record classification_row =
  cl_id :: string
  cl_type :: string
  cl_resource :: string
  cl_origin :: string
  cl_parent :: "string option"
  cl_relation :: "string option"
  cl_estate :: string
  cl_tenant :: string
  cl_engine :: string
  cl_market :: string
  cl_model :: string
  cl_profile :: string
  cl_profile_revision :: int
  cl_attestation :: string
  cl_attribution :: string
  cl_binding :: string
  cl_binding_version :: int
  cl_context :: string
  cl_buyer_model :: string
  cl_organisation :: "string option"
  cl_membership :: "string option"
  cl_mandate :: "string option"
  cl_consumer :: "string option"
  cl_buyer_context :: "string option"
  cl_status :: string
  cl_revision :: int
  cl_classified :: instant
  cl_evidence :: "string list"

record gate_row =
  gt_mode :: string
  gt_revision :: int
  gt_reference :: string

record fence_decision =
  fd_subject_type :: string
  fd_subject :: string
  fd_receipt :: string
  fd_classification :: "string option"
  fd_model :: "string option"
  fd_outcome :: "classification_refusal option"
  fd_mode :: string
  fd_revision :: int

text \<open>The native tables of the engine, as far as the triggers read them.\<close>

record cart_row =
  ct_id :: string
  ct_channel :: "string option"
  ct_region :: "string option"
  ct_currency :: string
  ct_customer :: "string option"
  ct_email :: "string option"
  ct_completed :: "instant option"
  ct_deleted :: bool

record order_row =
  od_id :: string
  od_channel :: "string option"
  od_region :: "string option"
  od_currency :: string
  od_customer :: "string option"
  od_email :: "string option"
  od_draft :: bool
  od_version :: int
  od_deleted :: bool

record cart_item =
  ci_cart :: string
  ci_variant :: "string option"
  ci_quantity :: rat
  ci_price :: "rat option"
  ci_deleted :: bool

record order_item =
  oi_order :: string
  oi_version :: int
  oi_item :: string
  oi_quantity :: rat
  oi_deleted :: bool

record order_line =
  ol_id :: string
  ol_variant :: "string option"
  ol_price :: "rat option"
  ol_deleted :: bool

record trade_a =
  attestations :: "attestation_row list"
  attributions :: "attribution_row list"
  receipts :: "receipt_row list"
  commitments :: "commitment_row list"
  posture :: "string option"
  observations :: "observation_row list"
  classifications :: "classification_row list"
  gate :: "gate_row option"
  decisions :: "fence_decision list"
  carts :: "cart_row list"
  cart_items :: "cart_item list"
  orders :: "order_row list"
  order_items :: "order_item list"
  order_lines :: "order_line list"

section \<open>The latest row\<close>

text \<open>\<open>ORDER BY recorded_at DESC, id DESC LIMIT 1\<close>, and the row comparison \<open>(a, b) > (c, d)\<close>.\<close>

definition after :: "('r \<Rightarrow> instant) \<Rightarrow> ('r \<Rightarrow> string) \<Rightarrow> 'r \<Rightarrow> 'r \<Rightarrow> bool" where
  "after time key a b \<longleftrightarrow> time b < time a \<or> (time a = time b \<and> key b < key a)"

fun latest :: "('r \<Rightarrow> instant) \<Rightarrow> ('r \<Rightarrow> string) \<Rightarrow> 'r list \<Rightarrow> 'r option" where
  "latest time key [] = None"
| "latest time key (r # rs) =
     (case latest time key rs of None \<Rightarrow> Some r | Some s \<Rightarrow> if after time key r s then Some r else Some s)"

lemma latest_None [simp]: "latest time key rs = None \<longleftrightarrow> rs = []"
  by (cases rs) (auto split: option.splits)

lemma latest_member: "latest time key rs = Some r \<Longrightarrow> r \<in> set rs"
  by (induction rs arbitrary: r) (auto split: option.splits if_splits)

lemma after_trans: "after time key a b \<Longrightarrow> after time key b c \<Longrightarrow> after time key a c"
  by (auto simp: after_def)

lemma after_irrefl: "\<not> after time key a a"
  by (simp add: after_def)

lemma latest_greatest: "latest time key rs = Some r \<Longrightarrow> s \<in> set rs \<Longrightarrow> \<not> after time key s r"
proof (induction rs arbitrary: r s)
  case (Cons x xs)
  show ?case
  proof (cases "latest time key xs")
    case None
    with Cons.prems show ?thesis by (simp add: after_irrefl)
  next
    case (Some y)
    consider "after time key x y" "r = x" | "\<not> after time key x y" "r = y"
      using Cons.prems(1) Some by (auto split: if_splits)
    then show ?thesis
    proof cases
      case 1
      then show ?thesis
        using Cons.prems(2) Cons.IH [OF Some, of s] after_trans [of time key s x y] after_irrefl [of time key x] by auto
    next
      case 2
      then show ?thesis using Cons.prems(2) Cons.IH [OF Some, of s] by auto
    qed
  qed
qed simp

section \<open>What Trade attested\<close>

definition json_column :: "(string \<times> json) list \<Rightarrow> string \<Rightarrow> string \<Rightarrow> bool" where
  "json_column row k v = (case map_of row k of None \<Rightarrow> True | Some JNull \<Rightarrow> True | Some (JStr s) \<Rightarrow> s = v | _ \<Rightarrow> False)"

definition json_columns :: "json \<Rightarrow> attestation_row \<Rightarrow> bool" where
  "json_columns doc a =
     (case doc of
        JObj row \<Rightarrow>
          json_column row ''native_configuration_reference'' (na_reference a) \<and>
          json_column row ''tenant_id'' (na_tenant a) \<and>
          json_column row ''operating_organisation_id'' (na_organisation a) \<and>
          json_column row ''market'' (na_market a) \<and>
          json_column row ''engine_instance_id'' (na_engine a) \<and>
          (case map_of row ''currency_scope'' of None \<Rightarrow> True | Some v \<Rightarrow> v = JArr (map JStr (na_currencies a)))
      | _ \<Rightarrow> True)"

definition insert_attestation :: "(string \<Rightarrow> string) \<Rightarrow> attestation_row \<Rightarrow> trade_a \<Rightarrow> write_refusal + trade_a" where
  "insert_attestation sha256 a db =
     (case json_parse (na_canonical a) of
        None \<Rightarrow> Inl INVALID_TEXT
      | Some doc \<Rightarrow>
          andThen (ensure (reference_pattern (na_reference a) \<and> length (na_reference a) \<le> 128 \<and> hex64 (na_digest a) \<and>
            prefixed ''tn_'' 1 (na_tenant a) \<and> market_pattern (na_market a) \<and> engine_pattern (na_engine a) \<and>
            na_currencies a \<noteq> [] \<and> btrim (na_correlation a) \<noteq> [] \<and> na_digest a = sha256 (na_canonical a) \<and>
            json_columns doc a \<and> na_attested a \<le> na_cp_recorded a + 5000) CHECK_VIOLATION) (\<lambda>_.
          andThen (ensure (find_row na_id (na_id a) (attestations db) = None) UNIQUE_VIOLATION) (\<lambda>_.
          Inr (db\<lparr>attestations := attestations db @ [a]\<rparr>))))"

definition rewrite_attestation :: "trade_a \<Rightarrow> write_refusal + trade_a" where
  "rewrite_attestation db = Inl APPEND_ONLY_HISTORY"

text \<open>\<open>latestForEngine\<close>: the latest attestation of each reference.\<close>

definition latestForEngine :: "trade_a \<Rightarrow> string \<Rightarrow> attested_configuration list" where
  "latestForEngine db engine =
     (let rows = filter (\<lambda>a. na_engine a = engine) (attestations db) in
      map (\<lambda>a. \<lparr>ac_id = na_id a, ac_reference = na_reference a, ac_canonical = na_canonical a\<rparr>)
        (concat (map (\<lambda>k. case latest na_recorded na_id (filter (\<lambda>a. na_reference a = k) rows) of None \<Rightarrow> [] | Some a \<Rightarrow> [a])
          (sort (remdups (map na_reference rows))))))"

section \<open>The seller of a native record\<close>

definition attributions_of :: "trade_a \<Rightarrow> string \<Rightarrow> string \<Rightarrow> attribution_row list" where
  "attributions_of db type subject = filter (\<lambda>a. at_subject_type a = type \<and> at_subject a = subject) (attributions db)"

definition current_attribution :: "trade_a \<Rightarrow> string \<Rightarrow> string \<Rightarrow> attribution_row option" where
  "current_attribution db type subject = latest at_recorded at_id (attributions_of db type subject)"

definition attested_for :: "attribution_row \<Rightarrow> attestation_row \<Rightarrow> bool" where
  "attested_for n a \<longleftrightarrow>
     na_id a = at_attestation n \<and> na_reference a = at_reference n \<and> na_digest a = at_digest n \<and>
     na_tenant a = at_tenant n \<and> na_organisation a = at_organisation n \<and> na_market a = at_market n \<and>
     na_engine a = at_engine n \<and> at_currency n \<in> set (na_currencies a)"

definition attribution_check :: "attribution_row \<Rightarrow> bool" where
  "attribution_check n \<longleftrightarrow>
     at_subject_type n \<in> {''cart'', ''draft_order'', ''order''} \<and> text_between 1 200 (at_subject n) \<and>
     hex64 (at_digest n) \<and> currency_pattern (at_currency n) \<and> prefixed ''tn_'' 1 (at_tenant n) \<and>
     market_pattern (at_market n) \<and> engine_pattern (at_engine n) \<and> 1 \<le> at_version n \<and>
     btrim (at_correlation n) \<noteq> [] \<and> at_resolved n \<le> at_recorded n + 5000"

definition insert_attribution :: "attribution_row \<Rightarrow> trade_a \<Rightarrow> write_refusal + trade_a" where
  "insert_attribution n db =
     andThen (ensure (list_ex (attested_for n) (attestations db)) CONFIGURATION_NOT_ATTESTED) (\<lambda>_.
     andThen (case current_attribution db (at_subject_type n) (at_subject n) of
                None \<Rightarrow> Inr ()
              | Some p \<Rightarrow>
                  andThen (ensure (at_binding p = at_binding n) SELLER_BINDING_CHANGED) (\<lambda>_.
                  ensure (at_version p \<le> at_version n) BINDING_VERSION_REGRESSED)) (\<lambda>_.
     andThen (ensure (attribution_check n) CHECK_VIOLATION) (\<lambda>_.
     andThen (ensure (find_row at_id (at_id n) (attributions db) = None \<and>
       find_row at_resolution (at_resolution n) (attributions db) = None) UNIQUE_VIOLATION) (\<lambda>_.
     Inr (db\<lparr>attributions := attributions db @ [n]\<rparr>)))))"

definition rewrite_attribution :: "trade_a \<Rightarrow> write_refusal + trade_a" where
  "rewrite_attribution db = Inl APPEND_ONLY_HISTORY"

section \<open>Receipts of order authority\<close>

definition class_subject :: "string \<Rightarrow> string option" where
  "class_subject c =
     (if c = ''trade.order.commit'' then Some ''cart''
      else if c = ''trade.order.create'' then Some ''order''
      else if c = ''trade.draft-order.finalize'' then Some ''draft_order''
      else None)"

definition receipt_for :: "receipt_row \<Rightarrow> attribution_row \<Rightarrow> bool" where
  "receipt_for r a \<longleftrightarrow>
     at_id a = ar_attribution r \<and> at_binding a = ar_binding r \<and> at_version a = ar_version r \<and>
     at_digest a = ar_digest r \<and> at_currency a = ar_currency r \<and> at_context a = ar_context r \<and>
     at_tenant a = ar_tenant r \<and> at_organisation a = ar_organisation r \<and> at_market a = ar_market r \<and>
     class_subject (ar_class r) = Some (at_subject_type a)"

definition receipt_check :: "receipt_row \<Rightarrow> bool" where
  "receipt_check r \<longleftrightarrow>
     class_subject (ar_class r) \<noteq> None \<and> visible_text (ar_reference r) \<and> 1 \<le> ar_version r \<and>
     hex64 (ar_digest r) \<and> currency_pattern (ar_currency r) \<and> btrim (ar_entity r) \<noteq> [] \<and> btrim (ar_policy r) \<noteq> [] \<and>
     ar_evaluated r \<le> ar_received r + 1000 \<and>
     ar_received r < ar_lease r \<and> ar_lease r \<le> ar_received r + 30000 \<and> ar_lease r \<le> ar_evaluated r + 30000 \<and>
     (case ar_consumed r of None \<Rightarrow> True | Some t \<Rightarrow> t \<le> ar_lease r)"

definition live_twin :: "receipt_row \<Rightarrow> receipt_row \<Rightarrow> bool" where
  "live_twin r s \<longleftrightarrow> ar_class s = ar_class r \<and> ar_reference s = ar_reference r \<and> ar_consumed s = None"

definition insert_receipt :: "instant \<Rightarrow> receipt_row \<Rightarrow> trade_a \<Rightarrow> write_refusal + trade_a" where
  "insert_receipt now r db =
     andThen (ensure (ar_consumed r = None \<and> now < ar_lease r) RECEIPT_NOT_CURRENT) (\<lambda>_.
     andThen (ensure (list_ex (receipt_for r) (attributions db)) DECISION_WITHOUT_ATTRIBUTION) (\<lambda>_.
     andThen (ensure (receipt_check r) CHECK_VIOLATION) (\<lambda>_.
     andThen (ensure (find_row ar_id (ar_id r) (receipts db) = None \<and> find_row ar_decision (ar_decision r) (receipts db) = None \<and>
       \<not> list_ex (live_twin r) (receipts db)) UNIQUE_VIOLATION) (\<lambda>_.
     Inr (db\<lparr>receipts := receipts db @ [r]\<rparr>)))))"

text \<open>
  An UPDATE of a receipt: only from inside another trigger, only to consume it, and the database
  stamps the time.
\<close>

definition receipt_update :: "nat \<Rightarrow> instant \<Rightarrow> receipt_row \<Rightarrow> receipt_row \<Rightarrow> write_refusal + receipt_row" where
  "receipt_update depth now old new =
     (if 2 \<le> depth \<and> ar_consumed old = None \<and> ar_consumed new \<noteq> None \<and>
         new\<lparr>ar_consumed := None\<rparr> = old\<lparr>ar_consumed := None\<rparr>
      then (if ar_lease old < now then Inl LEASE_EXPIRED else Inr (new\<lparr>ar_consumed := Some now\<rparr>))
      else Inl NOT_AT_THE_FENCE)"

definition update_receipts ::
    "nat \<Rightarrow> instant \<Rightarrow> (receipt_row \<Rightarrow> bool) \<Rightarrow> (receipt_row \<Rightarrow> receipt_row) \<Rightarrow> trade_a \<Rightarrow> write_refusal + trade_a" where
  "update_receipts depth now sel f db =
     andThen (traverse (\<lambda>r. if sel r then receipt_update depth now r (f r) else Inr r) (receipts db)) (\<lambda>rs.
     Inr (db\<lparr>receipts := rs\<rparr>))"

end
