(* ===== verification/Classification_Tables.thy ===== *)
theory Classification_Tables
  imports Trade_A_Tables
begin

text \<open>
  The commerce profile answers of the Control Plane and the native commitment classifications, with the
  triggers of \<open>src/src/modules/legal-seller-checkout/migrations/Migration20261022210000.ts\<close> and the
  provenance columns of \<open>Migration20261023090000.ts\<close>. The readings of the clock inside one trigger are
  one instant.
\<close>

section \<open>Profile observations\<close>

definition PROFILE_OUTCOMES :: "string list" where
  "PROFILE_OUTCOMES = [''ATTESTED'', ''PROFILE_NOT_REGISTERED'', ''PROFILE_NOT_ACTIVE'', ''PROFILE_AMBIGUOUS'',
     ''ESTATE_PROVENANCE_INVALID'', ''ENGINE_INSTANCE_NOT_PERMITTED'']"

definition fact_check :: "profile_fact \<Rightarrow> bool" where
  "fact_check f \<longleftrightarrow>
     1 \<le> pf_revision f \<and> prefixed ''tn_'' 1 (pf_tenant f) \<and> 6 \<le> length (pf_tenant f) \<and> length (pf_tenant f) \<le> 63 \<and>
     pf_model f \<in> {''B2B'', ''B2C''} \<and> text_between 1 500 (pf_evidence f) \<and>
     pf_issued f < pf_expires f \<and> pf_expires f \<le> pf_issued f + 60000 \<and>
     (case pf_until f of None \<Rightarrow> True | Some u \<Rightarrow> pf_expires f \<le> u)"

definition observation_check :: "observation_row \<Rightarrow> bool" where
  "observation_check n \<longleftrightarrow>
     slug (ob_estate n) \<and> 3 \<le> length (ob_estate n) \<and> length (ob_estate n) \<le> 63 \<and>
     engine_pattern (ob_engine n) \<and> length (ob_engine n) \<le> 63 \<and>
     slug (ob_market n) \<and> 3 \<le> length (ob_market n) \<and> length (ob_market n) \<le> 63 \<and>
     ob_kind n \<in> {''ESTATE_CLIENT_BINDING'', ''GOVERNED_RESOURCE_ASSIGNMENT''} \<and>
     ob_outcome n \<in> set PROFILE_OUTCOMES \<and>
     (case ob_fact n of None \<Rightarrow> ob_outcome n \<noteq> ''ATTESTED'' | Some f \<Rightarrow> ob_outcome n = ''ATTESTED'' \<and> fact_check f)"

definition attested_fact :: "observation_row \<Rightarrow> profile_fact option" where
  "attested_fact n = (if ob_outcome n = ''ATTESTED'' then ob_fact n else None)"

text \<open>An earlier attestation of the same profile, and one that speaks against the new one.\<close>

definition contradicts :: "observation_row \<Rightarrow> profile_fact \<Rightarrow> observation_row \<Rightarrow> bool" where
  "contradicts n f old \<longleftrightarrow>
     (case attested_fact old of
        None \<Rightarrow> False
      | Some g \<Rightarrow> pf_profile g = pf_profile f \<and>
          (ob_estate old \<noteq> ob_estate n \<or> pf_tenant g \<noteq> pf_tenant f \<or> ob_engine old \<noteq> ob_engine n \<or> pf_model g \<noteq> pf_model f))"

definition newer_than :: "profile_fact \<Rightarrow> observation_row \<Rightarrow> bool" where
  "newer_than f old \<longleftrightarrow>
     (case attested_fact old of None \<Rightarrow> False | Some g \<Rightarrow> pf_profile g = pf_profile f \<and> pf_revision f < pf_revision g)"

definition observation_guard :: "instant \<Rightarrow> observation_row \<Rightarrow> trade_a \<Rightarrow> write_refusal + unit" where
  "observation_guard now n db =
     (case attested_fact n of
        None \<Rightarrow> Inr ()
      | Some f \<Rightarrow>
          andThen (ensure (now < pf_expires f) ATTESTATION_EXPIRED) (\<lambda>_.
          andThen (ensure (pf_issued f \<le> now + 5000) ATTESTATION_FROM_THE_FUTURE) (\<lambda>_.
          andThen (ensure (\<not> list_ex (contradicts n f) (observations db)) PROFILE_CONTRADICTED) (\<lambda>_.
          ensure (\<not> list_ex (newer_than f) (observations db)) PROFILE_REVISION_STALE))))"

definition same_attestation :: "observation_row \<Rightarrow> observation_row \<Rightarrow> bool" where
  "same_attestation n old \<longleftrightarrow>
     (case (ob_fact n, ob_fact old) of (Some f, Some g) \<Rightarrow> pf_attestation f = pf_attestation g | _ \<Rightarrow> False)"

definition insert_observation :: "instant \<Rightarrow> observation_row \<Rightarrow> trade_a \<Rightarrow> write_refusal + trade_a" where
  "insert_observation now n db =
     andThen (observation_guard now n db) (\<lambda>_.
     andThen (ensure (observation_check n) CHECK_VIOLATION) (\<lambda>_.
     andThen (ensure (find_row ob_id (ob_id n) (observations db) = None \<and>
       \<not> list_ex (same_attestation n) (observations db)) UNIQUE_VIOLATION) (\<lambda>_.
     Inr (db\<lparr>observations := observations db @ [n]\<rparr>))))"

definition rewrite_observation :: "trade_a \<Rightarrow> write_refusal + trade_a" where
  "rewrite_observation db = Inl APPEND_ONLY_HISTORY"

section \<open>Classifications\<close>

definition buyer_id :: "string \<Rightarrow> string \<Rightarrow> string \<Rightarrow> bool" where
  "buyer_id p q s \<longleftrightarrow> (prefixed p 1 s \<or> prefixed q 1 s) \<and> 10 \<le> length s \<and> length s \<le> 63"

definition if_present :: "('a \<Rightarrow> bool) \<Rightarrow> 'a option \<Rightarrow> bool" where
  "if_present p x = (case x of None \<Rightarrow> True | Some v \<Rightarrow> p v)"

text \<open>The lineage an origin demands, and the buyer columns a model demands.\<close>

definition lineage_check :: "classification_row \<Rightarrow> bool" where
  "lineage_check n \<longleftrightarrow>
     (if cl_origin n = ''DIRECT'' then cl_parent n = None \<and> cl_relation n = None
      else if cl_origin n = ''CONVERTED'' then cl_parent n \<noteq> None \<and> cl_relation n = Some ''CONVERTED_FROM''
      else cl_parent n \<noteq> None \<and> cl_relation n = Some ''REPLACES'')"

definition buyer_check :: "classification_row \<Rightarrow> bool" where
  "buyer_check n \<longleftrightarrow>
     (if cl_model n = ''B2B''
      then cl_buyer_model n = ''BUYER_ORGANISATION'' \<and> cl_organisation n \<noteq> None \<and> cl_buyer_context n \<noteq> None \<and>
           cl_consumer n = None \<and> (cl_membership n = None) \<noteq> (cl_mandate n = None)
      else cl_buyer_model n = ''CONSUMER'' \<and> cl_consumer n \<noteq> None \<and> cl_organisation n = None \<and>
           cl_membership n = None \<and> cl_mandate n = None \<and> cl_buyer_context n = None)"

definition classification_check :: "classification_row \<Rightarrow> bool" where
  "classification_check n \<longleftrightarrow>
     cl_type n \<in> {''cart'', ''quotation'', ''draft_order'', ''order''} \<and> text_between 1 200 (cl_resource n) \<and>
     cl_origin n \<in> {''DIRECT'', ''CONVERTED'', ''REPLACEMENT''} \<and> cl_model n \<in> {''B2B'', ''B2C''} \<and>
     1 \<le> cl_profile_revision n \<and> 1 \<le> cl_binding_version n \<and>
     cl_buyer_model n \<in> {''BUYER_ORGANISATION'', ''CONSUMER''} \<and>
     if_present (buyer_id ''buyerorg_'' ''b2borg_'') (cl_organisation n) \<and>
     if_present (buyer_id ''buyermem_'' ''b2bmem_'') (cl_membership n) \<and>
     if_present (text_between 1 200) (cl_mandate n) \<and> if_present (text_between 1 200) (cl_consumer n) \<and>
     cl_status n \<in> {''ACTIVE'', ''SUPERSEDED'', ''QUARANTINED''} \<and> 1 \<le> cl_revision n \<and> cl_evidence n \<noteq> [] \<and>
     lineage_check n \<and> buyer_check n"

definition live_profile :: "classification_row \<Rightarrow> observation_row \<Rightarrow> bool" where
  "live_profile n o' \<longleftrightarrow>
     (case attested_fact o' of
        None \<Rightarrow> False
      | Some f \<Rightarrow>
          cl_classified n < pf_expires f \<and> ob_estate o' = cl_estate n \<and> pf_tenant f = cl_tenant n \<and>
          ob_engine o' = cl_engine n \<and> ob_market o' = cl_market n \<and> pf_profile f = cl_profile n \<and>
          pf_revision f = cl_profile_revision n \<and> pf_model f = cl_model n)"

definition find_attestation :: "trade_a \<Rightarrow> string \<Rightarrow> observation_row option" where
  "find_attestation db i = List.find (\<lambda>ob. map_option pf_attestation (ob_fact ob) = Some i) (observations db)"

definition classified_for :: "trade_a \<Rightarrow> classification_row \<Rightarrow> attribution_row \<Rightarrow> bool" where
  "classified_for db n a \<longleftrightarrow>
     at_subject_type a = cl_type n \<and> at_subject a = cl_resource n \<and> at_tenant a = cl_tenant n \<and>
     at_engine a = cl_engine n \<and> at_binding a = cl_binding n \<and> at_version a = cl_binding_version n \<and>
     at_context a = cl_context n \<and>
     \<not> list_ex (\<lambda>later. at_subject_type later = at_subject_type a \<and> at_subject later = at_subject a \<and>
        after at_recorded at_id later a) (attributions db)"

definition continues :: "classification_row \<Rightarrow> classification_row \<Rightarrow> bool" where
  "continues n p \<longleftrightarrow>
     cl_status p \<noteq> ''QUARANTINED'' \<and> \<not> (cl_type p = cl_type n \<and> cl_resource p = cl_resource n) \<and>
     cl_estate p = cl_estate n \<and> cl_tenant p = cl_tenant n \<and> cl_engine p = cl_engine n \<and> cl_market p = cl_market n \<and>
     cl_model p = cl_model n \<and> cl_buyer_model p = cl_buyer_model n \<and> cl_organisation p = cl_organisation n \<and>
     cl_consumer p = cl_consumer n"

definition resource_rows :: "trade_a \<Rightarrow> string \<Rightarrow> string \<Rightarrow> classification_row list" where
  "resource_rows db type resource = filter (\<lambda>c. cl_type c = type \<and> cl_resource c = resource) (classifications db)"

definition find_parent :: "trade_a \<Rightarrow> classification_row \<Rightarrow> classification_row option" where
  "find_parent db n = (case cl_parent n of None \<Rightarrow> None | Some p \<Rightarrow> find_row cl_id p (classifications db))"

definition lineage_guard :: "classification_row \<Rightarrow> trade_a \<Rightarrow> write_refusal + unit" where
  "lineage_guard n db =
     andThen (if cl_origin n = ''REPLACEMENT''
              then (case find_parent db n of
                      None \<Rightarrow> Inl REPLACEMENT_REFUSED
                    | Some p \<Rightarrow> ensure (cl_type p = cl_type n \<and> cl_resource p = cl_resource n \<and> cl_status p \<noteq> ''ACTIVE'') REPLACEMENT_REFUSED)
              else ensure (resource_rows db (cl_type n) (cl_resource n) = []) ALREADY_CLASSIFIED) (\<lambda>_.
     if cl_origin n = ''CONVERTED''
     then (case find_parent db n of None \<Rightarrow> Inl CONVERSION_REFUSED | Some p \<Rightarrow> ensure (continues n p) CONVERSION_REFUSED)
     else Inr ())"

definition classification_guard :: "classification_row \<Rightarrow> trade_a \<Rightarrow> write_refusal + unit" where
  "classification_guard n db =
     andThen (ensure (cl_status n = ''ACTIVE'' \<and> cl_revision n = 1) CLASSIFICATION_NOT_FRESH) (\<lambda>_.
     andThen (ensure (cl_type n \<noteq> ''quotation'') QUOTATION_NOT_CLASSIFIABLE) (\<lambda>_.
     andThen (case find_attestation db (cl_attestation n) of
                None \<Rightarrow> Inl NO_LIVE_PROFILE
              | Some o' \<Rightarrow> ensure (live_profile n o') NO_LIVE_PROFILE) (\<lambda>_.
     andThen (case find_row at_id (cl_attribution n) (attributions db) of
                None \<Rightarrow> Inl NOT_CURRENT_ATTRIBUTION
              | Some a \<Rightarrow> ensure (classified_for db n a) NOT_CURRENT_ATTRIBUTION) (\<lambda>_.
     lineage_guard n db))))"

text \<open>The trigger stamps \<open>classified_at\<close>; the indexes allow one active row per resource and one conversion per parent.\<close>

definition classification_unique :: "classification_row \<Rightarrow> trade_a \<Rightarrow> bool" where
  "classification_unique n db \<longleftrightarrow>
     find_row cl_id (cl_id n) (classifications db) = None \<and>
     \<not> list_ex (\<lambda>c. cl_status c = ''ACTIVE'') (resource_rows db (cl_type n) (cl_resource n)) \<and>
     \<not> (cl_origin n = ''CONVERTED'' \<and> list_ex (\<lambda>c. cl_origin c = ''CONVERTED'' \<and> cl_parent c = cl_parent n) (classifications db))"

definition insert_classification :: "instant \<Rightarrow> classification_row \<Rightarrow> trade_a \<Rightarrow> write_refusal + trade_a" where
  "insert_classification now n0 db =
     (let n = n0\<lparr>cl_classified := now\<rparr> in
      andThen (classification_guard n db) (\<lambda>_.
      andThen (ensure (classification_check n) CHECK_VIOLATION) (\<lambda>_.
      andThen (ensure (classification_unique n db) UNIQUE_VIOLATION) (\<lambda>_.
      Inr (db\<lparr>classifications := classifications db @ [n]\<rparr>)))))"

text \<open>The one change: an active row is retired, at the next revision.\<close>

definition classification_update :: "classification_row \<Rightarrow> classification_row \<Rightarrow> write_refusal + classification_row" where
  "classification_update old new =
     (if cl_status old = ''ACTIVE'' \<and> cl_status new \<in> {''SUPERSEDED'', ''QUARANTINED''} \<and>
         cl_revision new = cl_revision old + 1 \<and>
         new\<lparr>cl_status := cl_status old, cl_revision := cl_revision old\<rparr> = old
      then Inr new else Inl CLASSIFICATION_FIXED)"

definition update_classifications ::
    "(classification_row \<Rightarrow> bool) \<Rightarrow> (classification_row \<Rightarrow> classification_row) \<Rightarrow> trade_a \<Rightarrow> write_refusal + trade_a" where
  "update_classifications sel f db =
     andThen (traverse (\<lambda>c. if sel c then classification_update c (f c) else Inr c) (classifications db)) (\<lambda>cs.
     Inr (db\<lparr>classifications := cs\<rparr>))"

definition delete_classification :: "trade_a \<Rightarrow> write_refusal + trade_a" where
  "delete_classification db = Inl CLASSIFICATION_FIXED"

end
