(* ===== verification/Commit_Fence.thy ===== *)
theory Commit_Fence
  imports Classification_Tables
begin

text \<open>
  The commit fences: the triggers that stand before every native order, whatever path writes it
  (\<open>src/src/modules/legal-seller-checkout/migrations/Migration20261021090000.ts\<close>), and the check of the
  classification at COMMIT behind its enforcement gate (\<open>Migration20261023120000.ts\<close>). A transaction is a
  list of native writes followed by the deferred checks of the commitments it recorded; a refusal rolls
  it back. The readings of the clock inside one statement are one instant.
\<close>

section \<open>Posture and gate\<close>

text \<open>A missing posture row is ENFORCED; a session can only strengthen it.\<close>

definition trade_a_persistence_enforced :: "bool \<Rightarrow> trade_a \<Rightarrow> bool" where
  "trade_a_persistence_enforced session db \<longleftrightarrow>
     session \<or> (case posture db of None \<Rightarrow> ''ENFORCED'' | Some p \<Rightarrow> p) = ''ENFORCED''"

definition update_posture :: "string \<Rightarrow> trade_a \<Rightarrow> write_refusal + trade_a" where
  "update_posture p db =
     (case posture db of
        None \<Rightarrow> Inr db
      | Some old \<Rightarrow> if old = ''SANDBOX'' \<and> p = ''ENFORCED'' then Inr (db\<lparr>posture := Some p\<rparr>) else Inl POSTURE_FIXED)"

definition update_gate :: "gate_row \<Rightarrow> trade_a \<Rightarrow> write_refusal + trade_a" where
  "update_gate new db =
     (case gate db of
        None \<Rightarrow> Inr db
      | Some old \<Rightarrow>
          andThen (ensure (gt_revision new = gt_revision old + 1 \<and> gt_reference new \<noteq> gt_reference old) GATE_CHANGE_REFUSED) (\<lambda>_.
          andThen (ensure (gt_mode new \<in> {''SHADOW'', ''ENFORCED''} \<and> 1 \<le> gt_revision new \<and> text_between 1 500 (gt_reference new))
            CHECK_VIOLATION) (\<lambda>_.
          Inr (db\<lparr>gate := Some new\<rparr>))))"

section \<open>The order fence\<close>

record fence_readings =
  fr_count :: instant
  fr_choose :: instant
  fr_consume :: instant
  fr_void :: instant

definition pg_upper :: "string \<Rightarrow> string" where
  "pg_upper s = map (\<lambda>c. if lower_char c then char_of (char_code c - 32) else c) s"

text \<open>A live receipt for an open cart with the scope of the new order.\<close>

definition open_cart_for :: "order_row \<Rightarrow> cart_row \<Rightarrow> bool" where
  "open_cart_for n c \<longleftrightarrow>
     \<not> ct_deleted c \<and> ct_completed c = None \<and> ct_channel c = od_channel n \<and> ct_region c = od_region n \<and>
     pg_upper (ct_currency c) = pg_upper (od_currency n) \<and> ct_customer c = od_customer n \<and> ct_email c = od_email n"

definition live_receipt :: "instant \<Rightarrow> string \<Rightarrow> receipt_row \<Rightarrow> bool" where
  "live_receipt now cls r \<longleftrightarrow> ar_class r = cls \<and> ar_consumed r = None \<and> now < ar_lease r"

definition order_candidates :: "instant \<Rightarrow> order_row \<Rightarrow> trade_a \<Rightarrow> (receipt_row \<times> string) list" where
  "order_candidates now n db =
     [(r, at_subject a). r \<leftarrow> receipts db, live_receipt now ''trade.order.commit'' r \<and> ar_currency r = pg_upper (od_currency n),
        a \<leftarrow> attributions db, at_id a = ar_attribution r \<and> at_subject_type a = ''cart'',
        c \<leftarrow> carts db, ct_id c = at_subject a \<and> open_cart_for n c]"

definition attributed_to :: "trade_a \<Rightarrow> string \<Rightarrow> string \<Rightarrow> receipt_row \<Rightarrow> bool" where
  "attributed_to db type subject r \<longleftrightarrow>
     list_ex (\<lambda>a. at_id a = ar_attribution r \<and> at_subject_type a = type \<and> at_subject a = subject) (attributions db)"

definition stamp_receipt :: "instant \<Rightarrow> receipt_row \<Rightarrow> receipt_row" where
  "stamp_receipt now r = r\<lparr>ar_consumed := Some now\<rparr>"

definition commitment_check :: "commitment_row \<Rightarrow> bool" where
  "commitment_check k \<longleftrightarrow>
     text_between 1 200 (cm_subject k) \<and> text_between 1 200 (cm_order k) \<and>
     ((cm_class k = ''trade.order.commit'' \<and> cm_subject_type k = ''cart'') \<or>
      (cm_class k = ''trade.draft-order.finalize'' \<and> cm_subject_type k = ''draft_order'' \<and> cm_subject k = cm_order k))"

definition insert_commitment :: "nat \<Rightarrow> commitment_row \<Rightarrow> trade_a \<Rightarrow> write_refusal + trade_a" where
  "insert_commitment depth k db =
     andThen (ensure (2 \<le> depth) APPEND_ONLY_HISTORY) (\<lambda>_.
     andThen (ensure (commitment_check k) CHECK_VIOLATION) (\<lambda>_.
     andThen (ensure (find_row cm_receipt (cm_receipt k) (commitments db) = None) UNIQUE_VIOLATION) (\<lambda>_.
     andThen (ensure (find_row ar_id (cm_receipt k) (receipts db) \<noteq> None) FOREIGN_KEY_VIOLATION) (\<lambda>_.
     Inr (db\<lparr>commitments := commitments db @ [k]\<rparr>)))))"

text \<open>
  The chosen receipt is consumed, every other unconsumed receipt of the same record and class after it,
  and the commitment is written: all from inside the fence, at trigger depth 2.
\<close>

definition consume_for ::
    "fence_readings \<Rightarrow> string \<Rightarrow> string \<Rightarrow> string \<Rightarrow> string \<Rightarrow> string \<Rightarrow> trade_a \<Rightarrow> write_refusal + trade_a" where
  "consume_for t cls type subject chosen order db =
     andThen (update_receipts 2 (fr_consume t) (\<lambda>r. ar_id r = chosen) (stamp_receipt (fr_consume t)) db) (\<lambda>db1.
     andThen (update_receipts 2 (fr_void t)
       (\<lambda>r. ar_class r = cls \<and> ar_consumed r = None \<and> attributed_to db1 type subject r) (stamp_receipt (fr_void t)) db1) (\<lambda>db2.
     insert_commitment 2 \<lparr>cm_receipt = chosen, cm_class = cls, cm_subject_type = type, cm_subject = subject, cm_order = order\<rparr> db2))"

definition order_insert_fence :: "bool \<Rightarrow> fence_readings \<Rightarrow> order_row \<Rightarrow> trade_a \<Rightarrow> write_refusal + trade_a" where
  "order_insert_fence session t n db =
     (if od_draft n then Inr db
      else
        (case remdups (map snd (order_candidates (fr_count t) n db)) of
           [] \<Rightarrow> if trade_a_persistence_enforced session db then Inl NO_ORDER_AUTHORITY else Inr db
         | _ # _ # _ \<Rightarrow> Inl AMBIGUOUS_ORDER_AUTHORITY
         | [_] \<Rightarrow>
             (let candidates = order_candidates (fr_choose t) n db in
              case latest (ar_recorded \<circ> fst) (ar_id \<circ> fst) candidates of
                None \<Rightarrow> Inl CHECK_VIOLATION
              | Some (r, subject) \<Rightarrow> consume_for t ''trade.order.commit'' ''cart'' subject (ar_id r) (od_id n) db)))"

definition draft_candidates :: "instant \<Rightarrow> order_row \<Rightarrow> trade_a \<Rightarrow> receipt_row list" where
  "draft_candidates now n db =
     filter (\<lambda>r. live_receipt now ''trade.draft-order.finalize'' r \<and> ar_currency r = pg_upper (od_currency n) \<and>
       attributed_to db ''draft_order'' (od_id n) r) (receipts db)"

definition draft_finalise_fence :: "bool \<Rightarrow> fence_readings \<Rightarrow> order_row \<Rightarrow> order_row \<Rightarrow> trade_a \<Rightarrow> write_refusal + trade_a" where
  "draft_finalise_fence session t old n db =
     (if od_draft old \<and> \<not> od_draft n then
        (case latest ar_recorded ar_id (draft_candidates (fr_choose t) n db) of
           None \<Rightarrow>
             if trade_a_persistence_enforced session db \<or> attributions_of db ''draft_order'' (od_id n) \<noteq> []
             then Inl NO_DRAFT_AUTHORITY else Inr db
         | Some r \<Rightarrow> consume_for t ''trade.draft-order.finalize'' ''draft_order'' (od_id n) (ar_id r) (od_id n) db)
      else Inr db)"

definition committed_order_exists :: "trade_a \<Rightarrow> string \<Rightarrow> bool" where
  "committed_order_exists db cart \<longleftrightarrow>
     list_ex (\<lambda>k. cm_class k = ''trade.order.commit'' \<and> cm_subject k = cart \<and>
       list_ex (\<lambda>n. od_id n = cm_order k \<and> \<not> od_deleted n) (orders db)) (commitments db)"

definition cart_completion_fence :: "bool \<Rightarrow> cart_row \<Rightarrow> cart_row \<Rightarrow> trade_a \<Rightarrow> write_refusal + unit" where
  "cart_completion_fence session old n db =
     (if ct_completed old = None \<and> ct_completed n \<noteq> None then
        (if committed_order_exists db (ct_id n) then Inr ()
         else if trade_a_persistence_enforced session db \<or> attributions_of db ''cart'' (ct_id n) \<noteq> []
         then Inl COMPLETION_WITHOUT_ORDER else Inr ())
      else Inr ())"

section \<open>Native writes\<close>

text \<open>
  What Medusa, or direct SQL, writes. The rows of the native tables are the engine's own business: only
  the columns the fences watch are guarded.
\<close>

datatype native_write =
    Insert_order fence_readings order_row
  | Update_order fence_readings order_row
  | Delete_order string
  | Insert_cart cart_row
  | Update_cart cart_row
  | Set_cart_items "cart_item list"
  | Set_order_items "order_item list"
  | Set_order_lines "order_line list"
  | Forge_commitment commitment_row
  | Forge_consumption instant string

fun native_step :: "bool \<Rightarrow> trade_a \<Rightarrow> native_write \<Rightarrow> write_refusal + trade_a" where
  "native_step session db (Insert_order t n) =
     andThen (order_insert_fence session t n db) (\<lambda>db1.
     andThen (ensure (find_row od_id (od_id n) (orders db) = None) UNIQUE_VIOLATION) (\<lambda>_.
     Inr (db1\<lparr>orders := orders db1 @ [n]\<rparr>)))"
| "native_step session db (Update_order t n) =
     (case find_row od_id (od_id n) (orders db) of
        None \<Rightarrow> Inr db
      | Some old \<Rightarrow>
          andThen (draft_finalise_fence session t old n db) (\<lambda>db1.
          Inr (db1\<lparr>orders := upd_row od_id (od_id n) (\<lambda>_. n) (orders db1)\<rparr>)))"
| "native_step session db (Delete_order i) = Inr (db\<lparr>orders := filter (\<lambda>n. od_id n \<noteq> i) (orders db)\<rparr>)"
| "native_step session db (Insert_cart n) =
     andThen (ensure (find_row ct_id (ct_id n) (carts db) = None) UNIQUE_VIOLATION) (\<lambda>_.
     Inr (db\<lparr>carts := carts db @ [n]\<rparr>))"
| "native_step session db (Update_cart n) =
     (case find_row ct_id (ct_id n) (carts db) of
        None \<Rightarrow> Inr db
      | Some old \<Rightarrow>
          andThen (cart_completion_fence session old n db) (\<lambda>_.
          Inr (db\<lparr>carts := upd_row ct_id (ct_id n) (\<lambda>_. n) (carts db)\<rparr>)))"
| "native_step session db (Set_cart_items xs) = Inr (db\<lparr>cart_items := xs\<rparr>)"
| "native_step session db (Set_order_items xs) = Inr (db\<lparr>order_items := xs\<rparr>)"
| "native_step session db (Set_order_lines xs) = Inr (db\<lparr>order_lines := xs\<rparr>)"
| "native_step session db (Forge_commitment k) = insert_commitment 1 k db"
| "native_step session db (Forge_consumption now i) = update_receipts 1 now (\<lambda>r. ar_id r = i) (stamp_receipt now) db"

section \<open>The checks at COMMIT\<close>

text \<open>\<open>EXCEPT ALL\<close>: what is left of a list when each row of another is taken away once.\<close>

fun except_all :: "'a list \<Rightarrow> 'a list \<Rightarrow> 'a list" where
  "except_all xs [] = xs"
| "except_all xs (y # ys) = except_all (remove1 y xs) ys"

type_synonym content = "(string option \<times> rat \<times> rat option) list"

definition order_content :: "trade_a \<Rightarrow> order_row \<Rightarrow> content" where
  "order_content db n =
     [(ol_variant l, oi_quantity i, ol_price l).
        i \<leftarrow> order_items db, oi_order i = od_id n \<and> oi_version i = od_version n \<and> \<not> oi_deleted i,
        l \<leftarrow> order_lines db, ol_id l = oi_item i \<and> \<not> ol_deleted l]"

definition cart_content :: "trade_a \<Rightarrow> cart_row \<Rightarrow> content" where
  "cart_content db c =
     [(ci_variant i, ci_quantity i, ci_price i). i \<leftarrow> cart_items db, ci_cart i = ct_id c \<and> \<not> ci_deleted i]"

definition same_scope :: "order_row \<Rightarrow> cart_row \<Rightarrow> bool" where
  "same_scope n c \<longleftrightarrow>
     od_channel n = ct_channel c \<and> od_region n = ct_region c \<and> pg_upper (od_currency n) = pg_upper (ct_currency c) \<and>
     od_customer n = ct_customer c \<and> od_email n = ct_email c"

definition trade_order_commitment_content :: "commitment_row \<Rightarrow> trade_a \<Rightarrow> write_refusal + unit" where
  "trade_order_commitment_content k db =
     (if cm_class k \<noteq> ''trade.order.commit'' then Inr ()
      else
        (case (find_row od_id (cm_order k) (orders db), find_row ct_id (cm_subject k) (carts db)) of
           (Some n, Some c) \<Rightarrow>
             andThen (ensure (same_scope n c) ORDER_NOT_ITS_CART) (\<lambda>_.
             ensure (except_all (order_content db n) (cart_content db c) = [] \<and>
               except_all (cart_content db c) (order_content db n) = []) ORDER_LINES_DIFFER)
         | _ \<Rightarrow> Inl ORDER_NOT_ITS_CART))"

definition active_classification :: "trade_a \<Rightarrow> string \<Rightarrow> string \<Rightarrow> classification_row option" where
  "active_classification db type resource =
     List.find (\<lambda>c. cl_status c = ''ACTIVE'') (resource_rows db type resource)"

definition latest_observation :: "trade_a \<Rightarrow> classification_row \<Rightarrow> observation_row option" where
  "latest_observation db c =
     latest ob_observed ob_id
       (filter (\<lambda>ob. ob_estate ob = cl_estate c \<and> ob_engine ob = cl_engine c \<and> ob_market ob = cl_market c) (observations db))"

definition profile_current :: "instant \<Rightarrow> classification_row \<Rightarrow> observation_row option \<Rightarrow> bool" where
  "profile_current now c latest_ob \<longleftrightarrow>
     (case Option.bind latest_ob attested_fact of
        None \<Rightarrow> False
      | Some f \<Rightarrow>
          pf_profile f = cl_profile c \<and> cl_profile_revision c \<le> pf_revision f \<and> pf_model f = cl_model c \<and>
          pf_tenant f = cl_tenant c \<and> now < pf_expires f)"

definition receipt_agrees :: "trade_a \<Rightarrow> string \<Rightarrow> classification_row \<Rightarrow> bool" where
  "receipt_agrees db i c \<longleftrightarrow>
     (case find_row ar_id i (receipts db) of
        None \<Rightarrow> False
      | Some r \<Rightarrow> ar_tenant r = cl_tenant c \<and> ar_binding r = cl_binding c \<and> ar_version r = cl_binding_version c)"

definition commitment_verdict :: "instant \<Rightarrow> commitment_row \<Rightarrow> trade_a \<Rightarrow> classification_refusal option" where
  "commitment_verdict now k db =
     (case active_classification db (cm_subject_type k) (cm_subject k) of
        None \<Rightarrow> Some (if resource_rows db (cm_subject_type k) (cm_subject k) \<noteq> [] then CLASSIFICATION_CHANGED else CLASSIFICATION_ABSENT)
      | Some c \<Rightarrow>
          if \<not> receipt_agrees db (cm_receipt k) c then Some CLASSIFICATION_CONFLICT
          else if \<not> profile_current now c (latest_observation db c) then Some PROFILE_NOT_ACTIVE
          else if cl_model c = ''B2B'' then Some BUYER_AUTHORITY_ABSENT
          else None)"

definition insert_decision :: "nat \<Rightarrow> fence_decision \<Rightarrow> trade_a \<Rightarrow> write_refusal + trade_a" where
  "insert_decision depth d db =
     andThen (ensure (2 \<le> depth \<and> list_ex (\<lambda>k. cm_receipt k = fd_receipt d \<and> cm_subject_type k = fd_subject_type d \<and>
       cm_subject k = fd_subject d) (commitments db)) NOT_AT_THE_FENCE) (\<lambda>_.
     andThen (ensure (fd_outcome d = None \<longrightarrow> fd_classification d \<noteq> None \<and> fd_model d \<noteq> None) CHECK_VIOLATION) (\<lambda>_.
     Inr (db\<lparr>decisions := decisions db @ [d]\<rparr>)))"

definition trade_order_commitment_classification :: "instant \<Rightarrow> commitment_row \<Rightarrow> trade_a \<Rightarrow> write_refusal + trade_a" where
  "trade_order_commitment_classification now k db =
     (case gate db of
        None \<Rightarrow> Inl GATE_MISSING
      | Some g \<Rightarrow>
          (let c = active_classification db (cm_subject_type k) (cm_subject k);
               reason = commitment_verdict now k db in
           andThen (insert_decision 2 \<lparr>fd_subject_type = cm_subject_type k, fd_subject = cm_subject k, fd_receipt = cm_receipt k,
             fd_classification = map_option cl_id c, fd_model = map_option cl_model c, fd_outcome = reason,
             fd_mode = gt_mode g, fd_revision = gt_revision g\<rparr> db) (\<lambda>db'.
           (case reason of
              None \<Rightarrow> Inr db'
            | Some x \<Rightarrow> if gt_mode g = ''ENFORCED'' then Inl (COMMITMENT_REFUSED x) else Inr db'))))"

text \<open>Deferred triggers fire per commitment, in the order of their names.\<close>

definition deferred_checks :: "instant \<Rightarrow> trade_a \<Rightarrow> commitment_row \<Rightarrow> write_refusal + trade_a" where
  "deferred_checks now db k =
     andThen (trade_order_commitment_classification now k db) (\<lambda>db'.
     andThen (trade_order_commitment_content k db') (\<lambda>_. Inr db'))"

definition native_transaction :: "bool \<Rightarrow> instant \<Rightarrow> native_write list \<Rightarrow> trade_a \<Rightarrow> write_refusal + trade_a" where
  "native_transaction session now writes db =
     andThen (for_each (native_step session) db writes) (\<lambda>db1.
     for_each (deferred_checks now) db1 (drop (length (commitments db)) (commitments db1)))"

end
