(* ===== verification/Trade_A_Laws.thy ===== *)
theory Trade_A_Laws
  imports Commit_Fence "HOL-Library.Multiset"
begin

text \<open>
  The writes of the order authority tables as one store: what every row keeps to, that each write keeps
  it, and what a commitment consumes. The interpretations of \<open>checked_store\<close> give the same for every
  transaction and every history.
\<close>

section \<open>Histories\<close>

datatype trade_a_op =
    Attest attestation_row
  | Attribute attribution_row
  | Authorise instant receipt_row
  | Observe instant observation_row
  | Classify instant classification_row
  | Retire string string
  | Rewrite_classification string classification_row
  | Move_posture string
  | Change_gate gate_row
  | Native bool instant "native_write list"

definition retire_row :: "string \<Rightarrow> classification_row \<Rightarrow> classification_row" where
  "retire_row status c = c\<lparr>cl_status := status, cl_revision := cl_revision c + 1\<rparr>"

fun trade_a_step :: "(string \<Rightarrow> string) \<Rightarrow> trade_a \<Rightarrow> trade_a_op \<Rightarrow> write_refusal + trade_a" where
  "trade_a_step sha256 db (Attest a) = insert_attestation sha256 a db"
| "trade_a_step sha256 db (Attribute a) = insert_attribution a db"
| "trade_a_step sha256 db (Authorise now r) = insert_receipt now r db"
| "trade_a_step sha256 db (Observe now ob) = insert_observation now ob db"
| "trade_a_step sha256 db (Classify now c) = insert_classification now c db"
| "trade_a_step sha256 db (Retire i status) = update_classifications (\<lambda>c. cl_id c = i \<and> cl_status c = ''ACTIVE'') (retire_row status) db"
| "trade_a_step sha256 db (Rewrite_classification i c) = update_classifications (\<lambda>d. cl_id d = i) (\<lambda>_. c) db"
| "trade_a_step sha256 db (Move_posture p) = update_posture p db"
| "trade_a_step sha256 db (Change_gate g) = update_gate g db"
| "trade_a_step sha256 db (Native session now writes) = native_transaction session now writes db"

definition trade_a_start :: "string \<Rightarrow> trade_a" where
  "trade_a_start p = \<lparr>attestations = [], attributions = [], receipts = [], commitments = [], posture = Some p,
     observations = [], classifications = [],
     gate = Some \<lparr>gt_mode = ''SHADOW'', gt_revision = 1,
       gt_reference = ''Migration20261023120000: implemented behind an inactive enforcement gate''\<rparr>,
     decisions = [], carts = [], cart_items = [], orders = [], order_items = [], order_lines = []\<rparr>"

section \<open>Updates row by row\<close>

lemma list_all2_partner: "list_all2 R xs ys \<Longrightarrow> x \<in> set xs \<Longrightarrow> \<exists>y \<in> set ys. R x y"
  by (metis in_set_conv_nth list_all2_conv_all_nth)

lemma list_all2_origin: "list_all2 R xs ys \<Longrightarrow> y \<in> set ys \<Longrightarrow> \<exists>x \<in> set xs. R x y"
  by (metis in_set_conv_nth list_all2_conv_all_nth)

lemma traverse_upd:
  assumes "traverse (\<lambda>r. if sel r then g r else Inr r) rs = Inr rs'"
  shows "list_all2 (\<lambda>r r'. if sel r then g r = Inr r' else r' = r) rs rs'"
  using assms unfolding traverse_Inr_iff by (rule list_all2_mono) (auto split: if_splits)

definition consumed_row :: "nat \<Rightarrow> instant \<Rightarrow> (receipt_row \<Rightarrow> bool) \<Rightarrow> receipt_row \<Rightarrow> receipt_row \<Rightarrow> bool" where
  "consumed_row depth now sel r r' \<longleftrightarrow>
     (if sel r then 2 \<le> depth \<and> ar_consumed r = None \<and> now \<le> ar_lease r \<and> r' = r\<lparr>ar_consumed := Some now\<rparr> else r' = r)"

lemma update_receipts_Inr:
  assumes "update_receipts depth now sel (stamp_receipt now) db = Inr db'"
  obtains rs where "db' = db\<lparr>receipts := rs\<rparr>" and "list_all2 (consumed_row depth now sel) (receipts db) rs"
proof -
  obtain rs where rs: "traverse (\<lambda>r. if sel r then receipt_update depth now r (stamp_receipt now r) else Inr r) (receipts db) = Inr rs"
    and db': "db' = db\<lparr>receipts := rs\<rparr>"
    using assms by (auto simp: update_receipts_def andThen_Inr_iff)
  have "list_all2 (consumed_row depth now sel) (receipts db) rs"
    using traverse_upd [OF rs]
    by (rule list_all2_mono) (auto simp: consumed_row_def receipt_update_def stamp_receipt_def tx_simps split: if_splits)
  with db' show thesis by (rule that)
qed

text \<open>A receipt only ever changes by being consumed, once.\<close>

definition spent :: "receipt_row \<Rightarrow> receipt_row \<Rightarrow> bool" where
  "spent r r' \<longleftrightarrow> r' = r \<or> (ar_consumed r = None \<and> (\<exists>t \<le> ar_lease r. r' = r\<lparr>ar_consumed := Some t\<rparr>))"

lemma spent_refl: "spent r r"
  by (simp add: spent_def)

lemma spent_trans: "spent a b \<Longrightarrow> spent b c \<Longrightarrow> spent a c"
  by (auto simp: spent_def)

lemma spent_key: "spent r r' \<Longrightarrow> ar_id r' = ar_id r \<and> ar_class r' = ar_class r \<and> ar_attribution r' = ar_attribution r \<and>
    ar_lease r' = ar_lease r \<and> (ar_consumed r \<noteq> None \<longrightarrow> r' = r)"
  by (auto simp: spent_def)

definition receipts_spent :: "trade_a \<Rightarrow> trade_a \<Rightarrow> bool" where
  "receipts_spent db db' \<longleftrightarrow> list_all2 spent (receipts db) (receipts db')"

lemma receipts_spent_refl: "receipts_spent db db"
  by (simp add: receipts_spent_def list_all2_refl spent_refl)

lemma receipts_spent_trans: "receipts_spent a b \<Longrightarrow> receipts_spent b c \<Longrightarrow> receipts_spent a c"
  unfolding receipts_spent_def by (rule list_all2_trans [of spent spent spent]) (auto intro: spent_trans)

lemma update_receipts_spent:
  assumes "update_receipts depth now sel (stamp_receipt now) db = Inr db'"
  shows "receipts_spent db db'"
proof (rule update_receipts_Inr [OF assms])
  fix rs
  assume "db' = db\<lparr>receipts := rs\<rparr>" and "list_all2 (consumed_row depth now sel) (receipts db) rs"
  then show ?thesis
    unfolding receipts_spent_def by (auto elim!: list_all2_mono simp: consumed_row_def spent_def split: if_splits)
qed

lemma receipts_spent_ids: "receipts_spent db db' \<Longrightarrow> map ar_id (receipts db') = map ar_id (receipts db)"
  unfolding receipts_spent_def by (induction rule: list_all2_induct) (auto dest: spent_key)

section \<open>What the fence consumes\<close>

definition fence_effect ::
    "fence_readings \<Rightarrow> string \<Rightarrow> string \<Rightarrow> string \<Rightarrow> string \<Rightarrow> trade_a \<Rightarrow> receipt_row \<Rightarrow> receipt_row \<Rightarrow> bool" where
  "fence_effect t cls type subject chosen db r r' \<longleftrightarrow>
     (if ar_id r = chosen
      then ar_consumed r = None \<and> fr_consume t \<le> ar_lease r \<and> r' = r\<lparr>ar_consumed := Some (fr_consume t)\<rparr>
      else if ar_class r = cls \<and> ar_consumed r = None \<and> attributed_to db type subject r
      then fr_void t \<le> ar_lease r \<and> r' = r\<lparr>ar_consumed := Some (fr_void t)\<rparr>
      else r' = r)"

lemma fence_effect_spent: "fence_effect t cls type subject chosen db r r' \<Longrightarrow> spent r r'"
  by (auto simp: fence_effect_def spent_def split: if_splits)

lemma attributed_to_stable:
  "attributions db' = attributions db \<Longrightarrow> ar_attribution r' = ar_attribution r \<Longrightarrow>
     attributed_to db' type subject r' = attributed_to db type subject r"
  by (simp add: attributed_to_def)

lemma insert_commitment_Inr [tx_simps]:
  "insert_commitment depth k db = Inr db' \<longleftrightarrow>
     2 \<le> depth \<and> commitment_check k \<and> cm_receipt k \<notin> cm_receipt ` set (commitments db) \<and>
     cm_receipt k \<in> ar_id ` set (receipts db) \<and> db' = db\<lparr>commitments := commitments db @ [k]\<rparr>"
  by (auto simp: insert_commitment_def andThen_Inr_iff find_row_None_iff simp del: andThen_ensure not_None_eq)

lemma consume_for_Inr:
  assumes "consume_for t cls type subject chosen order db = Inr db'"
  obtains rs where "list_all2 (fence_effect t cls type subject chosen db) (receipts db) rs"
    and "db' = db\<lparr>receipts := rs, commitments := commitments db @
      [\<lparr>cm_receipt = chosen, cm_class = cls, cm_subject_type = type, cm_subject = subject, cm_order = order\<rparr>]\<rparr>"
    and "chosen \<notin> cm_receipt ` set (commitments db)" and "chosen \<in> ar_id ` set (receipts db)"
    and "commitment_check \<lparr>cm_receipt = chosen, cm_class = cls, cm_subject_type = type, cm_subject = subject, cm_order = order\<rparr>"
proof -
  let ?k = "\<lparr>cm_receipt = chosen, cm_class = cls, cm_subject_type = type, cm_subject = subject, cm_order = order\<rparr>"
  obtain db1 db2 where u1: "update_receipts 2 (fr_consume t) (\<lambda>r. ar_id r = chosen) (stamp_receipt (fr_consume t)) db = Inr db1"
    and u2: "update_receipts 2 (fr_void t) (\<lambda>r. ar_class r = cls \<and> ar_consumed r = None \<and> attributed_to db1 type subject r)
      (stamp_receipt (fr_void t)) db1 = Inr db2"
    and u3: "insert_commitment 2 ?k db2 = Inr db'"
    using assms by (auto simp: consume_for_def andThen_Inr_iff)
  obtain rs1 where r1: "db1 = db\<lparr>receipts := rs1\<rparr>"
      "list_all2 (consumed_row 2 (fr_consume t) (\<lambda>r. ar_id r = chosen)) (receipts db) rs1"
    by (rule update_receipts_Inr [OF u1])
  obtain rs2 where r2: "db2 = db1\<lparr>receipts := rs2\<rparr>"
      "list_all2 (consumed_row 2 (fr_void t) (\<lambda>r. ar_class r = cls \<and> ar_consumed r = None \<and> attributed_to db1 type subject r))
        (receipts db1) rs2"
    by (rule update_receipts_Inr [OF u2])
  have "list_all2 (fence_effect t cls type subject chosen db) (receipts db) rs2"
    by (rule list_all2_trans [OF _ r1(2)], use r2(2) r1(1) in simp_all)
      (auto simp: fence_effect_def consumed_row_def attributed_to_def r1(1) split: if_splits)
  moreover have "receipts_spent db db2"
    using update_receipts_spent [OF u1] update_receipts_spent [OF u2] by (rule receipts_spent_trans)
  then have "ar_id ` set rs2 = ar_id ` set (receipts db)"
    using r2(1) receipts_spent_ids [of db db2] by (metis list.set_map trade_a.select_convs(3) trade_a.surjective trade_a.update_convs(3))
  ultimately show thesis using u3 r1(1) r2(1) that [of rs2] by (auto simp: insert_commitment_Inr)
qed

section \<open>What one native write does to the authority tables\<close>

definition authority where
  "authority db = (attestations db, attributions db, receipts db, commitments db, posture db, observations db,
     classifications db, gate db, decisions db)"

text \<open>A fence took a live receipt attributed to the record.\<close>

definition fence_took :: "fence_readings \<Rightarrow> string \<Rightarrow> string \<Rightarrow> string \<Rightarrow> string \<Rightarrow> receipt_row \<Rightarrow> trade_a \<Rightarrow> trade_a \<Rightarrow> bool" where
  "fence_took t cls type subject order r db db' \<longleftrightarrow>
     consume_for t cls type subject (ar_id r) order db = Inr db' \<and> r \<in> set (receipts db) \<and>
     live_receipt (fr_choose t) cls r \<and> attributed_to db type subject r"

lemma order_candidatesD:
  assumes "(r, subject) \<in> set (order_candidates now n db)"
  shows "r \<in> set (receipts db)" and "live_receipt now ''trade.order.commit'' r" and "attributed_to db ''cart'' subject r"
    and "\<exists>c \<in> set (carts db). ct_id c = subject \<and> open_cart_for n c"
  using assms by (auto simp: order_candidates_def attributed_to_def list_ex_iff)

lemma order_insert_fence_Inr:
  assumes "order_insert_fence session t n db = Inr db'"
  shows "(db' = db \<and> (od_draft n \<or> \<not> trade_a_persistence_enforced session db)) \<or>
    (\<not> od_draft n \<and> (\<exists>r subject. fence_took t ''trade.order.commit'' ''cart'' subject (od_id n) r db db' \<and>
       (\<exists>c \<in> set (carts db). ct_id c = subject \<and> open_cart_for n c)))"
proof (cases "od_draft n \<or> db' = db \<and> \<not> trade_a_persistence_enforced session db")
  case True
  then show ?thesis using assms by (auto simp: order_insert_fence_def)
next
  case False
  then obtain r subject where l: "latest (ar_recorded \<circ> fst) (ar_id \<circ> fst) (order_candidates (fr_choose t) n db) = Some (r, subject)"
    and c: "consume_for t ''trade.order.commit'' ''cart'' subject (ar_id r) (od_id n) db = Inr db'"
    using assms unfolding order_insert_fence_def by (auto simp: Let_def split: if_splits list.splits option.splits)
  note m = order_candidatesD [OF latest_member [OF l]]
  with c have "fence_took t ''trade.order.commit'' ''cart'' subject (od_id n) r db db'" by (simp add: fence_took_def)
  with False m(4) show ?thesis by blast
qed

lemma draft_finalise_fence_Inr:
  assumes "draft_finalise_fence session t old n db = Inr db'"
  shows "(db' = db \<and> (od_draft old \<longrightarrow> od_draft n \<or> \<not> trade_a_persistence_enforced session db)) \<or>
    (od_draft old \<and> \<not> od_draft n \<and>
     (\<exists>r. fence_took t ''trade.draft-order.finalize'' ''draft_order'' (od_id n) (od_id n) r db db'))"
proof (cases "od_draft old \<and> \<not> od_draft n")
  case False
  then show ?thesis using assms by (auto simp: draft_finalise_fence_def)
next
  case True
  show ?thesis
  proof (cases "latest ar_recorded ar_id (draft_candidates (fr_choose t) n db)")
    case None
    then show ?thesis using assms True by (auto simp: draft_finalise_fence_def simp del: latest_None split: if_splits)
  next
    case (Some r)
    then have "fence_took t ''trade.draft-order.finalize'' ''draft_order'' (od_id n) (od_id n) r db db'"
      using assms True latest_member [OF Some] by (auto simp: draft_finalise_fence_def fence_took_def draft_candidates_def)
    with True show ?thesis by blast
  qed
qed

inductive native_effect :: "trade_a \<Rightarrow> trade_a \<Rightarrow> bool" for db db' where
  quiet: "authority db' = authority db \<Longrightarrow> native_effect db db'"
| fenced: "fence_took t cls type subject order r db db1 \<Longrightarrow> authority db' = authority db1 \<Longrightarrow> native_effect db db'"

inductive_cases native_effectE: "native_effect db db'"

lemma native_step_effect: "native_step session db w = Inr db' \<Longrightarrow> native_effect db db'"
proof (induction session db w rule: native_step.induct)
  case (1 session db t n)
  then obtain db1 where f: "order_insert_fence session t n db = Inr db1" and db': "authority db' = authority db1"
    by (auto simp: andThen_Inr_iff authority_def split: if_splits)
  from order_insert_fence_Inr [OF f] show ?case using db' by (auto intro: native_effect.intros)
next
  case (2 session db t n)
  show ?case
  proof (cases "find_row od_id (od_id n) (orders db)")
    case None
    with 2 show ?thesis by (auto intro: native_effect.quiet)
  next
    case (Some old)
    with 2 obtain db1 where f: "draft_finalise_fence session t old n db = Inr db1" and db': "authority db' = authority db1"
      by (auto simp: andThen_Inr_iff authority_def)
    from draft_finalise_fence_Inr [OF f] show ?thesis using db' by (auto intro: native_effect.intros)
  qed
next
  case (10 session db now i)
  then obtain rs where rs: "db' = db\<lparr>receipts := rs\<rparr>" "list_all2 (consumed_row 1 now (\<lambda>r. ar_id r = i)) (receipts db) rs"
    by (auto elim: update_receipts_Inr)
  have "rs = receipts db"
    using rs(2) by (intro list_all2_eq [THEN iffD2, symmetric] list_all2_mono [OF rs(2)])
      (auto simp: consumed_row_def split: if_splits)
  with rs(1) show ?case by (intro native_effect.quiet) (simp add: authority_def)
qed (auto simp: authority_def tx_simps intro!: native_effect.quiet split: option.splits if_splits)

end
