(* ===== verification/Trade_A_Invariant.thy ===== *)
theory Trade_A_Invariant
  imports Trade_A_Laws
begin

text \<open>
  The invariant of the order authority tables and its proof: each part speaks of the tables it relates,
  and each write is a few facts on how the parts react to a new row or a changed one. The
  interpretations of \<open>checked_store\<close> give the same for the writes of a transaction and for histories.
\<close>

section \<open>The invariant\<close>

text \<open>Every attribution rests on an attestation, and one record has one seller binding.\<close>

definition same_seller :: "attribution_row \<Rightarrow> attribution_row \<Rightarrow> bool" where
  "same_seller a b \<longleftrightarrow>
     (at_subject_type a = at_subject_type b \<and> at_subject a = at_subject b \<longrightarrow> at_binding a = at_binding b)"

definition one_seller :: "attribution_row list \<Rightarrow> bool" where
  "one_seller as \<longleftrightarrow> (\<forall>a \<in> set as. \<forall>b \<in> set as. same_seller a b)"

definition attributions_ok :: "attestation_row list \<Rightarrow> attribution_row list \<Rightarrow> bool" where
  "attributions_ok nas as \<longleftrightarrow>
     distinct (map at_id as) \<and> (\<forall>a \<in> set as. attribution_check a \<and> list_ex (attested_for a) nas) \<and> one_seller as"

definition receipts_ok :: "attribution_row list \<Rightarrow> receipt_row list \<Rightarrow> bool" where
  "receipts_ok as rs \<longleftrightarrow>
     distinct (map ar_id rs) \<and> (\<forall>r \<in> set rs. receipt_check r \<and> list_ex (receipt_for r) as)"

text \<open>Every commitment consumed a receipt of its own, of its class and attributed to its record.\<close>

definition backed :: "attribution_row list \<Rightarrow> commitment_row \<Rightarrow> receipt_row \<Rightarrow> bool" where
  "backed as k r \<longleftrightarrow>
     ar_id r = cm_receipt k \<and> ar_class r = cm_class k \<and> ar_consumed r \<noteq> None \<and>
     list_ex (\<lambda>a. at_id a = ar_attribution r \<and> at_subject_type a = cm_subject_type k \<and> at_subject a = cm_subject k) as"

definition commitments_ok :: "attribution_row list \<Rightarrow> receipt_row list \<Rightarrow> commitment_row list \<Rightarrow> bool" where
  "commitments_ok as rs ks \<longleftrightarrow> distinct (map cm_receipt ks) \<and> (\<forall>k \<in> set ks. list_ex (backed as k) rs)"

definition same_profile_scope :: "observation_row \<Rightarrow> observation_row \<Rightarrow> bool" where
  "same_profile_scope a b \<longleftrightarrow>
     (\<forall>f g. attested_fact a = Some f \<longrightarrow> attested_fact b = Some g \<longrightarrow> pf_profile f = pf_profile g \<longrightarrow>
        ob_estate a = ob_estate b \<and> pf_tenant f = pf_tenant g \<and> ob_engine a = ob_engine b \<and> pf_model f = pf_model g)"

definition observations_ok :: "observation_row list \<Rightarrow> bool" where
  "observations_ok obs \<longleftrightarrow>
     (\<forall>a \<in> set obs. observation_check a) \<and> (\<forall>a \<in> set obs. \<forall>b \<in> set obs. same_profile_scope a b)"

definition attributed_like :: "classification_row \<Rightarrow> attribution_row \<Rightarrow> bool" where
  "attributed_like n a \<longleftrightarrow>
     at_id a = cl_attribution n \<and> at_subject_type a = cl_type n \<and> at_subject a = cl_resource n \<and>
     at_tenant a = cl_tenant n \<and> at_engine a = cl_engine n \<and> at_binding a = cl_binding n \<and>
     at_version a = cl_binding_version n \<and> at_context a = cl_context n"

definition classification_ok :: "observation_row list \<Rightarrow> attribution_row list \<Rightarrow> classification_row \<Rightarrow> bool" where
  "classification_ok obs as c \<longleftrightarrow>
     classification_check c \<and> list_ex (live_profile c) obs \<and> list_ex (attributed_like c) as"

definition active :: "classification_row \<Rightarrow> bool" where
  "active c \<longleftrightarrow> cl_status c = ''ACTIVE''"

definition classifications_ok :: "observation_row list \<Rightarrow> attribution_row list \<Rightarrow> classification_row list \<Rightarrow> bool" where
  "classifications_ok obs as cs \<longleftrightarrow>
     distinct (map cl_id cs) \<and> distinct (map (\<lambda>c. (cl_type c, cl_resource c)) (filter active cs)) \<and>
     (\<forall>c \<in> set cs. classification_ok obs as c)"

definition decision_ok :: "commitment_row list \<Rightarrow> fence_decision \<Rightarrow> bool" where
  "decision_ok ks d \<longleftrightarrow>
     (fd_outcome d = None \<longrightarrow> fd_classification d \<noteq> None \<and> fd_model d \<noteq> None) \<and>
     list_ex (\<lambda>k. cm_receipt k = fd_receipt d \<and> cm_subject_type k = fd_subject_type d \<and> cm_subject k = fd_subject d) ks"

definition trade_a_ok :: "trade_a \<Rightarrow> bool" where
  "trade_a_ok db \<longleftrightarrow>
     attributions_ok (attestations db) (attributions db) \<and>
     receipts_ok (attributions db) (receipts db) \<and>
     commitments_ok (attributions db) (receipts db) (commitments db) \<and>
     observations_ok (observations db) \<and>
     classifications_ok (observations db) (attributions db) (classifications db) \<and>
     (\<forall>d \<in> set (decisions db). decision_ok (commitments db) d)"

lemma trade_a_ok_start: "trade_a_ok (trade_a_start p)"
  by (simp add: trade_a_ok_def trade_a_start_def attributions_ok_def receipts_ok_def commitments_ok_def
      observations_ok_def classifications_ok_def one_seller_def)

lemma authority_ok: "authority db' = authority db \<Longrightarrow> trade_a_ok db' = trade_a_ok db"
  by (simp add: authority_def trade_a_ok_def)

section \<open>How the parts react to a new row\<close>

named_theorems grows \<open>parts of the invariant under a new row of a table they read\<close>

lemma attributions_ok_attested [grows]: "attributions_ok nas as \<Longrightarrow> attributions_ok (nas @ [x]) as"
  by (auto simp: attributions_ok_def)

lemma same_seller_refl: "same_seller a a"
  by (simp add: same_seller_def)

lemma same_seller_sym: "same_seller a b \<Longrightarrow> same_seller b a"
  unfolding same_seller_def by metis

lemma one_seller_snoc:
  assumes "one_seller as" and "\<And>a. a \<in> set as \<Longrightarrow> same_seller a n"
  shows "one_seller (as @ [n])"
  unfolding one_seller_def
proof (intro ballI)
  fix a b
  assume "a \<in> set (as @ [n])" "b \<in> set (as @ [n])"
  then consider "a \<in> set as" "b \<in> set as" | "a = n" "b \<in> set as" | "a \<in> set as" "b = n" | "a = n" "b = n" by auto
  then show "same_seller a b"
    by cases (use assms same_seller_sym same_seller_refl in \<open>auto simp: one_seller_def\<close>)
qed

lemma attributions_ok_snoc:
  "attributions_ok nas as \<Longrightarrow> attribution_check n \<Longrightarrow> list_ex (attested_for n) nas \<Longrightarrow> at_id n \<notin> at_id ` set as \<Longrightarrow>
   (\<And>a. a \<in> set as \<Longrightarrow> same_seller a n) \<Longrightarrow> attributions_ok nas (as @ [n])"
  by (auto simp: attributions_ok_def intro: one_seller_snoc)

lemma receipts_ok_attributed [grows]: "receipts_ok as rs \<Longrightarrow> receipts_ok (as @ [a]) rs"
  by (auto simp: receipts_ok_def)

lemma receipts_ok_snoc:
  "receipts_ok as rs \<Longrightarrow> receipt_check r \<Longrightarrow> list_ex (receipt_for r) as \<Longrightarrow> ar_id r \<notin> ar_id ` set rs \<Longrightarrow> receipts_ok as (rs @ [r])"
  by (auto simp: receipts_ok_def)

lemma backed_append: "backed as k r \<Longrightarrow> backed (as @ bs) k r"
  by (auto simp: backed_def)

lemma commitments_ok_attributed [grows]: "commitments_ok as rs ks \<Longrightarrow> commitments_ok (as @ [a]) rs ks"
  by (auto simp: commitments_ok_def list_ex_iff intro: backed_append)

lemma commitments_ok_receipt [grows]: "commitments_ok as rs ks \<Longrightarrow> commitments_ok as (rs @ [r]) ks"
  by (auto simp: commitments_ok_def)

lemma commitments_ok_snoc:
  "commitments_ok as rs ks \<Longrightarrow> list_ex (backed as k) rs \<Longrightarrow> cm_receipt k \<notin> cm_receipt ` set ks \<Longrightarrow> commitments_ok as rs (ks @ [k])"
  by (auto simp: commitments_ok_def)

lemma classifications_ok_attributed [grows]:
  "classifications_ok obs as cs \<Longrightarrow> classifications_ok obs (as @ [a]) cs"
  by (auto simp: classifications_ok_def classification_ok_def)

lemma classifications_ok_observed [grows]:
  "classifications_ok obs as cs \<Longrightarrow> classifications_ok (obs @ [ob]) as cs"
  by (auto simp: classifications_ok_def classification_ok_def)

lemma decision_ok_committed [grows]: "decision_ok ks d \<Longrightarrow> decision_ok (ks @ [k]) d"
  by (auto simp: decision_ok_def)

section \<open>The writes keep it\<close>

lemma insert_attestation_ok:
  "trade_a_ok db \<Longrightarrow> insert_attestation sha256 a db = Inr db' \<Longrightarrow> trade_a_ok db'"
  by (auto simp: insert_attestation_def trade_a_ok_def intro: grows split: option.splits if_splits)

lemma current_attribution_binding:
  assumes "attributions_ok nas (attributions db)" and "a \<in> set (attributions db)"
    and "at_subject_type a = type" "at_subject a = subject"
  obtains p where "current_attribution db type subject = Some p" "at_binding p = at_binding a"
proof -
  have "a \<in> set (attributions_of db type subject)" using assms by (simp add: attributions_of_def)
  then obtain p where p: "current_attribution db type subject = Some p"
    unfolding current_attribution_def by (metis latest_None list.distinct(1) list.set_cases option.exhaust)
  then have "p \<in> set (attributions_of db type subject)"
    unfolding current_attribution_def by (rule latest_member)
  then have "p \<in> set (attributions db)" "at_subject_type p = type" "at_subject p = subject"
    by (auto simp: attributions_of_def)
  then have "same_seller p a" using assms(1, 2) by (simp add: attributions_ok_def one_seller_def)
  then have "at_binding p = at_binding a" using \<open>at_subject_type p = type\<close> \<open>at_subject p = subject\<close> assms(3, 4)
    by (simp add: same_seller_def)
  with p show thesis by (rule that)
qed

lemma insert_attribution_Inr:
  assumes "insert_attribution n db = Inr db'"
  shows "db' = db\<lparr>attributions := attributions db @ [n]\<rparr>" and "list_ex (attested_for n) (attestations db)"
    and "attribution_check n" and "at_id n \<notin> at_id ` set (attributions db)"
    and "\<And>p. current_attribution db (at_subject_type n) (at_subject n) = Some p \<Longrightarrow>
      at_binding p = at_binding n \<and> at_version p \<le> at_version n"
  using assms
  by (auto simp: insert_attribution_def andThen_Inr_iff find_row_None_iff simp del: andThen_ensure not_None_eq
      split: option.splits)

lemma insert_attribution_ok:
  assumes ok: "trade_a_ok db" and i: "insert_attribution n db = Inr db'"
  shows "trade_a_ok db'"
proof -
  note n = insert_attribution_Inr [OF i]
  have ao: "attributions_ok (attestations db) (attributions db)" using ok by (simp add: trade_a_ok_def)
  have "same_seller a n" if "a \<in> set (attributions db)" for a
    using current_attribution_binding [OF ao that] n(5) unfolding same_seller_def by metis
  then have "attributions_ok (attestations db) (attributions db @ [n])"
    using ao n(2-4) by (intro attributions_ok_snoc) auto
  with ok n(1) show ?thesis by (simp add: trade_a_ok_def grows)
qed

lemma insert_authority_receipt_Inr:
  assumes "insert_receipt now r db = Inr db'"
  shows "db' = db\<lparr>receipts := receipts db @ [r]\<rparr>" and "receipt_check r" and "list_ex (receipt_for r) (attributions db)"
    and "ar_id r \<notin> ar_id ` set (receipts db)" and "ar_consumed r = None" and "now < ar_lease r"
  using assms
  by (auto simp: insert_receipt_def andThen_Inr_iff find_row_None_iff simp del: andThen_ensure not_None_eq)

lemma insert_receipt_ok: "trade_a_ok db \<Longrightarrow> insert_receipt now r db = Inr db' \<Longrightarrow> trade_a_ok db'"
  by (frule insert_authority_receipt_Inr(1)) (simp add: trade_a_ok_def grows receipts_ok_snoc insert_authority_receipt_Inr)

lemma insert_observation_Inr:
  assumes "insert_observation now n db = Inr db'"
  shows "db' = db\<lparr>observations := observations db @ [n]\<rparr>" and "observation_check n"
    and "attested_fact n = Some f \<Longrightarrow> b \<in> set (observations db) \<Longrightarrow> \<not> contradicts n f b"
  using assms
  by (auto simp: insert_observation_def observation_guard_def andThen_Inr_iff list_ex_iff
      simp del: andThen_ensure not_None_eq)

lemma not_contradicts: "attested_fact n = Some f \<Longrightarrow> \<not> contradicts n f b \<Longrightarrow> same_profile_scope n b \<and> same_profile_scope b n"
  by (auto simp: same_profile_scope_def contradicts_def)

lemma insert_observation_ok:
  assumes ok: "trade_a_ok db" and i: "insert_observation now n db = Inr db'"
  shows "trade_a_ok db'"
proof -
  note n = insert_observation_Inr [OF i]
  have "same_profile_scope n b \<and> same_profile_scope b n" if "b \<in> set (observations db)" for b
  proof (cases "attested_fact n")
    case None
    then show ?thesis by (simp add: same_profile_scope_def)
  next
    case (Some f)
    then show ?thesis using not_contradicts n(3) that by blast
  qed
  moreover have "same_profile_scope n n" by (simp add: same_profile_scope_def)
  ultimately have "observations_ok (observations db @ [n])" using ok n(2) by (simp add: trade_a_ok_def observations_ok_def)
  with ok n(1) show ?thesis by (simp add: trade_a_ok_def grows)
qed

text \<open>Classifications.\<close>

lemma insert_classification_Inr:
  assumes "insert_classification now n0 db = Inr db'"
  obtains n where "n = n0\<lparr>cl_classified := now\<rparr>" and "db' = db\<lparr>classifications := classifications db @ [n]\<rparr>"
    and "classification_guard n db = Inr ()" and "classification_check n" and "classification_unique n db"
proof -
  let ?n = "n0\<lparr>cl_classified := now\<rparr>"
  have "classification_guard ?n db = Inr ()" "classification_check ?n" "classification_unique ?n db"
    and "db' = db\<lparr>classifications := classifications db @ [?n]\<rparr>"
    using assms by (auto simp: insert_classification_def Let_def andThen_Inr_iff simp del: andThen_ensure)
  then show thesis by (intro that [of ?n]) simp_all
qed

lemma find_attestationD: "find_attestation db i = Some ob \<Longrightarrow> ob \<in> set (observations db)"
  by (auto simp: find_attestation_def find_Some_iff)

lemma classification_guardD:
  assumes "classification_guard n db = Inr ()"
  shows "list_ex (live_profile n) (observations db)" and "list_ex (attributed_like n) (attributions db)"
    and "active n" and "cl_revision n = 1"
    and "cl_origin n \<noteq> ''REPLACEMENT'' \<Longrightarrow> resource_rows db (cl_type n) (cl_resource n) = []"
  using assms
  by (auto simp: classification_guard_def lineage_guard_def andThen_Inr_iff list_ex_iff active_def classified_for_def
      attributed_like_def simp del: andThen_ensure split: option.splits if_splits
      dest: find_attestationD find_row_SomeD)

lemma insert_classification_ok:
  assumes ok: "trade_a_ok db" and i: "insert_classification now n0 db = Inr db'"
  shows "trade_a_ok db'"
  using i
proof (rule insert_classification_Inr)
  fix n
  assume n: "db' = db\<lparr>classifications := classifications db @ [n]\<rparr>" "classification_guard n db = Inr ()"
    "classification_check n" "classification_unique n db"
  have "classification_ok (observations db) (attributions db) n"
    using n(3) classification_guardD [OF n(2)] by (simp add: classification_ok_def)
  moreover have "cl_id n \<notin> cl_id ` set (classifications db)"
    using n(4) by (auto simp: classification_unique_def find_row_None_iff simp del: not_None_eq)
  moreover have "(cl_type n, cl_resource n) \<notin> (\<lambda>c. (cl_type c, cl_resource c)) ` set (filter active (classifications db))"
    using n(4) by (auto simp: classification_unique_def resource_rows_def list_ex_iff active_def)
  ultimately have "classifications_ok (observations db) (attributions db) (classifications db @ [n])"
    using ok by (auto simp: trade_a_ok_def classifications_ok_def)
  with ok n(1) show ?thesis by (simp add: trade_a_ok_def)
qed

definition retired :: "classification_row \<Rightarrow> classification_row \<Rightarrow> bool" where
  "retired c c' \<longleftrightarrow>
     c' = c \<or> (active c \<and> (\<exists>s \<in> {''SUPERSEDED'', ''QUARANTINED''}. c' = c\<lparr>cl_status := s, cl_revision := cl_revision c + 1\<rparr>))"

lemma retired_refl: "retired c c"
  by (simp add: retired_def)

lemma classification_update_Inr: "classification_update c new = Inr c' \<Longrightarrow> retired c c'"
proof -
  assume a: "classification_update c new = Inr c'"
  then have "c' = new" "active c" "cl_status new \<in> {''SUPERSEDED'', ''QUARANTINED''}" "cl_revision new = cl_revision c + 1"
    and "new\<lparr>cl_status := cl_status c, cl_revision := cl_revision c\<rparr> = c"
    by (auto simp: classification_update_def active_def split: if_splits)
  moreover from this(5) have "new = c\<lparr>cl_status := cl_status new, cl_revision := cl_revision new\<rparr>"
    by (metis (mono_tags, lifting) classification_row.surjective classification_row.update_convs(25, 26))
  ultimately show ?thesis unfolding retired_def by metis
qed

lemma update_classifications_Inr:
  assumes "update_classifications sel f db = Inr db'"
  obtains cs where "db' = db\<lparr>classifications := cs\<rparr>" and "list_all2 retired (classifications db) cs"
proof -
  obtain cs where t: "traverse (\<lambda>c. if sel c then classification_update c (f c) else Inr c) (classifications db) = Inr cs"
    and db': "db' = db\<lparr>classifications := cs\<rparr>"
    using assms by (auto simp: update_classifications_def andThen_Inr_iff)
  have "list_all2 retired (classifications db) cs"
    using traverse_upd [OF t]
    by (rule list_all2_mono) (auto intro: retired_refl dest: classification_update_Inr split: if_splits)
  with db' show thesis by (rule that)
qed

lemma retired_key: "retired c c' \<Longrightarrow> cl_id c' = cl_id c \<and> cl_type c' = cl_type c \<and> cl_resource c' = cl_resource c"
  by (auto simp: retired_def)

lemma retired_active: "retired c c' \<Longrightarrow> active c' \<Longrightarrow> c' = c"
  by (auto simp: retired_def active_def)

lemma retired_classification_ok: "retired c c' \<Longrightarrow> classification_ok obs as c \<Longrightarrow> classification_ok obs as c'"
proof (cases "c' = c")
  case False
  assume "retired c c'" "classification_ok obs as c"
  with False obtain s where "s \<in> {''SUPERSEDED'', ''QUARANTINED''}" "c' = c\<lparr>cl_status := s, cl_revision := cl_revision c + 1\<rparr>"
    unfolding retired_def by auto
  then have "live_profile c' = live_profile c" "attributed_like c' = attributed_like c"
    and "lineage_check c' = lineage_check c" "buyer_check c' = buyer_check c"
    by (simp_all add: fun_eq_iff live_profile_def attributed_like_def lineage_check_def buyer_check_def cong: option.case_cong)
  moreover have "classification_check c \<Longrightarrow> classification_check c'"
    using \<open>s \<in> _\<close> \<open>c' = _\<close> calculation(3, 4) unfolding classification_check_def by auto
  ultimately show ?thesis using \<open>classification_ok obs as c\<close> by (simp add: classification_ok_def)
qed simp

lemma active_retired:
  "list_all2 retired cs cs' \<Longrightarrow> set (filter active cs') \<subseteq> set (filter active cs) \<and>
     (distinct (map f (filter active cs)) \<longrightarrow> distinct (map f (filter active cs')))"
proof (induction rule: list_all2_induct)
  case (Cons c cs c' cs')
  show ?case
  proof (cases "active c'")
    case True
    then have "c' = c" using retired_active Cons(1) by blast
    with True Cons.IH show ?thesis by auto
  next
    case False
    with Cons.IH show ?thesis by auto
  qed
qed simp

lemma classifications_ok_retired:
  assumes ok: "classifications_ok obs as cs" and r: "list_all2 retired cs cs'"
  shows "classifications_ok obs as cs'"
proof -
  have "map cl_id cs' = map cl_id cs"
    using r by (induction rule: list_all2_induct) (auto dest: retired_key)
  moreover have "\<forall>c' \<in> set cs'. classification_ok obs as c'"
  proof
    fix c'
    assume "c' \<in> set cs'"
    then obtain c where "c \<in> set cs" "retired c c'" using list_all2_origin [OF r] by blast
    then show "classification_ok obs as c'"
      using ok retired_classification_ok by (simp add: classifications_ok_def)
  qed
  ultimately show ?thesis
    using ok active_retired [OF r, of "\<lambda>c. (cl_type c, cl_resource c)"] by (simp add: classifications_ok_def)
qed

lemma update_classifications_ok:
  assumes "trade_a_ok db" and "update_classifications sel f db = Inr db'"
  shows "trade_a_ok db'"
  using assms(2)
proof (rule update_classifications_Inr)
  fix cs
  assume "db' = db\<lparr>classifications := cs\<rparr>" "list_all2 retired (classifications db) cs"
  then show ?thesis using assms(1) classifications_ok_retired by (auto simp: trade_a_ok_def)
qed

text \<open>Receipts are spent.\<close>

lemma spent_check: "spent r r' \<Longrightarrow> receipt_check r \<Longrightarrow> receipt_check r'"
  by (auto simp: spent_def receipt_check_def)

lemma spent_for: "spent r r' \<Longrightarrow> receipt_for r = receipt_for r'"
  by (auto simp: spent_def receipt_for_def fun_eq_iff)

lemma receipts_ok_spent:
  assumes ok: "receipts_ok as rs" and s: "list_all2 spent rs rs'"
  shows "receipts_ok as rs'"
proof -
  have "map ar_id rs' = map ar_id rs"
    using s by (induction rule: list_all2_induct) (auto dest: spent_key)
  moreover have "\<forall>r' \<in> set rs'. receipt_check r' \<and> list_ex (receipt_for r') as"
  proof
    fix r'
    assume "r' \<in> set rs'"
    then obtain r where "r \<in> set rs" "spent r r'" using list_all2_origin [OF s] by blast
    then show "receipt_check r' \<and> list_ex (receipt_for r') as"
      using ok spent_check spent_for by (metis receipts_ok_def)
  qed
  ultimately show ?thesis using ok by (simp add: receipts_ok_def)
qed

lemma commitments_ok_spent:
  assumes ok: "commitments_ok as rs ks" and s: "list_all2 spent rs rs'"
  shows "commitments_ok as rs' ks"
proof -
  have "list_ex (backed as k) rs'" if k: "k \<in> set ks" for k
  proof -
    obtain r where r: "r \<in> set rs" "backed as k r" using ok k by (auto simp: commitments_ok_def list_ex_iff)
    then obtain r' where "r' \<in> set rs'" "spent r r'" using list_all2_partner [OF s] by blast
    moreover from this r(2) have "r' = r" using spent_key by (auto simp: backed_def)
    ultimately show ?thesis using r(2) by (auto simp: list_ex_iff)
  qed
  then show ?thesis using ok by (simp add: commitments_ok_def)
qed

lemma fence_took_ok:
  assumes ok: "trade_a_ok db" and f: "fence_took t cls type subject order r db db'"
  shows "trade_a_ok db'"
proof -
  let ?k = "\<lparr>cm_receipt = ar_id r, cm_class = cls, cm_subject_type = type, cm_subject = subject, cm_order = order\<rparr>"
  have c: "consume_for t cls type subject (ar_id r) order db = Inr db'" and r: "r \<in> set (receipts db)"
    and l: "live_receipt (fr_choose t) cls r" and a: "attributed_to db type subject r"
    using f by (auto simp: fence_took_def)
  obtain rs where e: "list_all2 (fence_effect t cls type subject (ar_id r) db) (receipts db) rs"
    and db': "db' = db\<lparr>receipts := rs, commitments := commitments db @ [?k]\<rparr>"
    and fresh: "ar_id r \<notin> cm_receipt ` set (commitments db)"
    by (rule consume_for_Inr [OF c])
  have s: "list_all2 spent (receipts db) rs" using e by (rule list_all2_mono) (rule fence_effect_spent)
  obtain r' where r': "r' \<in> set rs" "fence_effect t cls type subject (ar_id r) db r r'"
    using list_all2_partner [OF e r] by blast
  then have "backed (attributions db) ?k r'"
    using a l by (auto simp: backed_def fence_effect_def live_receipt_def attributed_to_def)
  then have "list_ex (backed (attributions db) ?k) rs" using r'(1) by (auto simp: list_ex_iff)
  then have "commitments_ok (attributions db) rs (commitments db @ [?k])"
    using ok fresh commitments_ok_spent [OF _ s] by (intro commitments_ok_snoc) (auto simp: trade_a_ok_def)
  moreover have "receipts_ok (attributions db) rs" using ok receipts_ok_spent [OF _ s] by (simp add: trade_a_ok_def)
  ultimately show ?thesis using ok db' by (simp add: trade_a_ok_def grows)
qed

lemma native_step_ok: "trade_a_ok db \<Longrightarrow> native_step session db w = Inr db' \<Longrightarrow> trade_a_ok db'"
  by (drule native_step_effect, erule native_effectE) (use authority_ok fence_took_ok in blast)+

lemma deferred_checks_Inr:
  assumes "deferred_checks now db k = Inr db'"
  obtains g d where "gate db = Some g" and "db' = db\<lparr>decisions := decisions db @ [d]\<rparr>"
    and "decision_ok (commitments db) d" and "trade_order_commitment_content k db' = Inr ()"
    and "d = \<lparr>fd_subject_type = cm_subject_type k, fd_subject = cm_subject k, fd_receipt = cm_receipt k,
      fd_classification = map_option cl_id (active_classification db (cm_subject_type k) (cm_subject k)),
      fd_model = map_option cl_model (active_classification db (cm_subject_type k) (cm_subject k)),
      fd_outcome = commitment_verdict now k db, fd_mode = gt_mode g, fd_revision = gt_revision g\<rparr>"
    and "gt_mode g = ''ENFORCED'' \<Longrightarrow> commitment_verdict now k db = None"
  using assms
  by (auto simp: deferred_checks_def trade_order_commitment_classification_def insert_decision_def andThen_Inr_iff
      decision_ok_def Let_def simp del: andThen_ensure not_None_eq split: option.splits if_splits)

lemma deferred_checks_ok: "trade_a_ok db \<Longrightarrow> deferred_checks now db k = Inr db' \<Longrightarrow> trade_a_ok db'"
  by (erule deferred_checks_Inr) (auto simp: trade_a_ok_def)

interpretation native_writes: checked_store "native_step session" trade_a_ok for session
  by unfold_locales (rule native_step_ok)

interpretation commit_checks: checked_store "deferred_checks now" trade_a_ok for now
  by unfold_locales (rule deferred_checks_ok)

lemma native_transaction_ok: "trade_a_ok db \<Longrightarrow> native_transaction session now writes db = Inr db' \<Longrightarrow> trade_a_ok db'"
  by (auto simp: native_transaction_def andThen_Inr_iff intro: native_writes.steps_inv commit_checks.steps_inv)

lemma update_posture_ok: "trade_a_ok db \<Longrightarrow> update_posture p db = Inr db' \<Longrightarrow> trade_a_ok db'"
  by (auto simp: update_posture_def trade_a_ok_def split: option.splits if_splits)

lemma update_gate_Inr: "update_gate g db = Inr db' \<Longrightarrow> db' = db \<or> db' = db\<lparr>gate := Some g\<rparr>"
  by (auto simp: update_gate_def andThen_Inr_iff simp del: andThen_ensure split: option.splits)

lemma update_gate_ok: "trade_a_ok db \<Longrightarrow> update_gate g db = Inr db' \<Longrightarrow> trade_a_ok db'"
  by (drule update_gate_Inr) (auto simp: trade_a_ok_def)

lemmas write_ok = insert_attestation_ok insert_attribution_ok insert_receipt_ok insert_observation_ok
  insert_classification_ok update_classifications_ok update_posture_ok update_gate_ok native_transaction_ok

lemma trade_a_step_ok: "trade_a_ok db \<Longrightarrow> trade_a_step sha256 db op = Inr db' \<Longrightarrow> trade_a_ok db'"
  by (cases op) (simp_all only: trade_a_step.simps; erule (1) write_ok)+

interpretation order_authority: checked_store "trade_a_step sha256" trade_a_ok for sha256
  by unfold_locales (rule trade_a_step_ok)

end
