(* ===== verification/Trade_A_History.thy ===== *)
theory Trade_A_History
  imports Trade_A_Invariant
begin

text \<open>
  How the order authority tables evolve: evidence is only added, a receipt changes once, when it is
  consumed, a classification once, when it is retired, and a new commitment takes a receipt nobody had
  taken.
\<close>

section \<open>Growth\<close>

definition extends :: "('r \<Rightarrow> 'r \<Rightarrow> bool) \<Rightarrow> 'r list \<Rightarrow> 'r list \<Rightarrow> bool" where
  "extends R xs ys \<longleftrightarrow> length xs \<le> length ys \<and> list_all2 R xs (take (length xs) ys)"

lemma extends_append: "list_all2 R xs ys \<Longrightarrow> extends R xs (ys @ zs)"
  by (simp add: extends_def list_all2_lengthD)

lemma extends_same: "list_all2 R xs ys \<Longrightarrow> extends R xs ys"
  using extends_append [of R xs ys "[]"] by simp

lemma list_extends_refl: "(\<And>x. R x x) \<Longrightarrow> extends R xs xs"
  by (simp add: extends_same list_all2_refl)

lemma extends_snoc: "(\<And>x. R x x) \<Longrightarrow> extends R xs (xs @ ys)"
  by (simp add: extends_append list_all2_refl)

lemma list_extends_trans:
  assumes "\<And>a b c. R a b \<Longrightarrow> R b c \<Longrightarrow> R a c" and "extends R xs ys" and "extends R ys zs"
  shows "extends R xs zs"
proof -
  have "list_all2 R xs (take (length xs) ys)" using assms(2) by (simp add: extends_def)
  moreover have "list_all2 R (take (length xs) ys) (take (length xs) zs)"
    using assms(2, 3) list_all2_takeI [of R ys "take (length ys) zs" "length xs"] by (simp add: extends_def min_def)
  ultimately show ?thesis using assms by (auto simp: extends_def intro: list_all2_trans)
qed

lemma extends_member: "extends R xs ys \<Longrightarrow> x \<in> set xs \<Longrightarrow> \<exists>y \<in> set ys. R x y"
  unfolding extends_def by (metis in_set_conv_nth in_set_takeD list_all2_conv_all_nth)

lemma extends_eq: "extends (=) xs ys \<longleftrightarrow> (\<exists>zs. ys = xs @ zs)"
proof
  assume "extends (=) xs ys"
  then have "ys = xs @ drop (length xs) ys"
    by (metis append_take_drop_id extends_def list.rel_eq)
  then show "\<exists>zs. ys = xs @ zs" by blast
qed (auto simp: extends_def list.rel_eq)

definition new_commitments :: "trade_a \<Rightarrow> trade_a \<Rightarrow> commitment_row list" where
  "new_commitments db db' = drop (length (commitments db)) (commitments db')"

definition evidence_grows :: "trade_a \<Rightarrow> trade_a \<Rightarrow> bool" where
  "evidence_grows db db' \<longleftrightarrow>
     extends (=) (attestations db) (attestations db') \<and> extends (=) (attributions db) (attributions db') \<and>
     extends (=) (commitments db) (commitments db') \<and> extends (=) (observations db) (observations db') \<and>
     extends (=) (decisions db) (decisions db') \<and>
     extends spent (receipts db) (receipts db') \<and> extends retired (classifications db) (classifications db')"

lemma retired_trans: "retired a b \<Longrightarrow> retired b c \<Longrightarrow> retired a c"
  by (auto simp: retired_def active_def)

lemma evidence_refl: "evidence_grows db db"
  by (simp add: evidence_grows_def list_extends_refl spent_refl retired_refl)

lemma evidence_trans: "evidence_grows a b \<Longrightarrow> evidence_grows b c \<Longrightarrow> evidence_grows a c"
  unfolding evidence_grows_def
  by (intro conjI; elim conjE; (rule list_extends_trans [OF spent_trans] | rule list_extends_trans [OF retired_trans] | rule list_extends_trans [OF trans]); assumption)

lemma authority_grows: "authority db' = authority db1 \<Longrightarrow> evidence_grows db db1 \<Longrightarrow> evidence_grows db db'"
  by (simp add: authority_def evidence_grows_def)

lemma fence_took_grows: "fence_took t cls type subject order r db db' \<Longrightarrow> evidence_grows db db'"
  unfolding fence_took_def
  by (elim conjE, erule consume_for_Inr)
    (auto simp: evidence_grows_def list_extends_refl extends_snoc retired_refl intro!: extends_same
      elim!: list_all2_mono intro: fence_effect_spent)

lemma native_step_grows: "native_step session db w = Inr db' \<Longrightarrow> evidence_grows db db'"
  by (drule native_step_effect, erule native_effectE)
    (use authority_grows evidence_refl fence_took_grows in blast)+

lemma deferred_checks_grows: "deferred_checks now db k = Inr db' \<Longrightarrow> evidence_grows db db'"
  by (erule deferred_checks_Inr) (simp add: evidence_grows_def list_extends_refl extends_snoc spent_refl retired_refl)

lemma for_each_grows:
  assumes "for_each f db xs = Inr db'" and "\<And>db x db'. f db x = Inr db' \<Longrightarrow> evidence_grows db db'"
  shows "evidence_grows db db'"
  using for_each_invariant [OF assms(1), of "evidence_grows db"] evidence_refl assms(2) evidence_trans by blast

lemma native_transaction_grows:
  "native_transaction session now writes db = Inr db' \<Longrightarrow> evidence_grows db db'"
  by (auto simp: native_transaction_def andThen_Inr_iff
      intro: evidence_trans for_each_grows [OF _ native_step_grows] for_each_grows [OF _ deferred_checks_grows])

lemma plain_insert_grows:
  "evidence_grows db (db\<lparr>attestations := attestations db @ as\<rparr>)"
  "evidence_grows db (db\<lparr>attributions := attributions db @ bs\<rparr>)"
  "evidence_grows db (db\<lparr>receipts := receipts db @ rs\<rparr>)"
  "evidence_grows db (db\<lparr>observations := observations db @ obs\<rparr>)"
  "evidence_grows db (db\<lparr>classifications := classifications db @ cs\<rparr>)"
  "evidence_grows db (db\<lparr>posture := p\<rparr>)" "evidence_grows db (db\<lparr>gate := g\<rparr>)"
  by (simp_all add: evidence_grows_def list_extends_refl extends_snoc spent_refl retired_refl)

lemma update_classifications_grows:
  "update_classifications sel f db = Inr db' \<Longrightarrow> evidence_grows db db'"
  by (erule update_classifications_Inr)
    (simp add: evidence_grows_def list_extends_refl extends_same spent_refl)

lemma trade_a_step_grows: "trade_a_step sha256 db op = Inr db' \<Longrightarrow> evidence_grows db db'"
proof (cases op)
  case (Attest a)
  then show "trade_a_step sha256 db op = Inr db' \<Longrightarrow> ?thesis"
    by (auto simp: insert_attestation_def plain_insert_grows split: option.splits if_splits)
next
  case (Attribute a)
  then show "trade_a_step sha256 db op = Inr db' \<Longrightarrow> ?thesis"
    by (auto dest: insert_attribution_Inr(1) simp: plain_insert_grows)
next
  case (Authorise now r)
  then show "trade_a_step sha256 db op = Inr db' \<Longrightarrow> ?thesis"
    by (auto dest: insert_authority_receipt_Inr(1) simp: plain_insert_grows)
next
  case (Observe now ob)
  then show "trade_a_step sha256 db op = Inr db' \<Longrightarrow> ?thesis"
    by (auto dest: insert_observation_Inr(1) simp: plain_insert_grows)
next
  case (Classify now c)
  then show "trade_a_step sha256 db op = Inr db' \<Longrightarrow> ?thesis"
    by (auto elim: insert_classification_Inr simp: plain_insert_grows)
next
  case (Move_posture p)
  then show "trade_a_step sha256 db op = Inr db' \<Longrightarrow> ?thesis"
    by (auto simp: update_posture_def plain_insert_grows evidence_refl split: option.splits if_splits)
next
  case (Change_gate g)
  then show "trade_a_step sha256 db op = Inr db' \<Longrightarrow> ?thesis"
    by (auto dest: update_gate_Inr simp: plain_insert_grows evidence_refl)
qed (auto intro: update_classifications_grows native_transaction_grows)

lemma history_grows: "evidence_grows db (history (trade_a_step sha256) db ops)"
proof (induction ops arbitrary: db)
  case (Cons op ops)
  show ?case
  proof (cases "trade_a_step sha256 db op")
    case (Inr db')
    then show ?thesis using Cons.IH trade_a_step_grows evidence_trans by fastforce
  qed (simp add: Cons.IH)
qed (simp add: evidence_refl)

section \<open>A new commitment takes a receipt nobody had taken\<close>

lemma new_commitments_append: "evidence_grows a b \<Longrightarrow> evidence_grows b c \<Longrightarrow>
    new_commitments a c = new_commitments a b @ new_commitments b c"
  by (auto simp: new_commitments_def evidence_grows_def extends_eq)

definition takes_fresh :: "trade_a \<Rightarrow> trade_a \<Rightarrow> bool" where
  "takes_fresh db db' \<longleftrightarrow>
     (\<forall>k \<in> set (new_commitments db db'). \<forall>r \<in> set (receipts db). ar_id r = cm_receipt k \<longrightarrow> ar_consumed r = None)"

lemma takes_fresh_trans:
  assumes "evidence_grows a b" "evidence_grows b c" "takes_fresh a b" "takes_fresh b c"
  shows "takes_fresh a c"
  unfolding takes_fresh_def
proof (intro ballI impI)
  fix k r
  assume k: "k \<in> set (new_commitments a c)" and r: "r \<in> set (receipts a)" "ar_id r = cm_receipt k"
  consider "k \<in> set (new_commitments a b)" | "k \<in> set (new_commitments b c)"
    using k new_commitments_append [OF assms(1, 2)] by auto
  then show "ar_consumed r = None"
  proof cases
    case 1
    then show ?thesis using assms(3) r unfolding takes_fresh_def by blast
  next
    case 2
    obtain r' where r': "r' \<in> set (receipts b)" "spent r r'"
      using assms(1) r(1) extends_member [of spent "receipts a" "receipts b" r] by (auto simp: evidence_grows_def)
    have "ar_id r' = cm_receipt k" using spent_key [OF r'(2)] r(2) by simp
    then have "ar_consumed r' = None" using assms(4) 2 r'(1) unfolding takes_fresh_def by blast
    then show ?thesis using spent_key [OF r'(2)] by metis
  qed
qed

lemma native_step_fresh:
  assumes "native_step session db w = Inr db'"
  shows "takes_fresh db db'"
  using native_step_effect [OF assms]
proof (rule native_effectE)
  assume "authority db' = authority db"
  then show ?thesis by (simp add: takes_fresh_def new_commitments_def authority_def)
next
  fix t cls type subject order r db1
  assume f: "fence_took t cls type subject order r db db1" and a: "authority db' = authority db1"
  from f have "consume_for t cls type subject (ar_id r) order db = Inr db1" by (simp add: fence_took_def)
  then show ?thesis
  proof (rule consume_for_Inr)
    fix rs
    assume e: "list_all2 (fence_effect t cls type subject (ar_id r) db) (receipts db) rs"
      and db1: "db1 = db\<lparr>receipts := rs, commitments := commitments db @
        [\<lparr>cm_receipt = ar_id r, cm_class = cls, cm_subject_type = type, cm_subject = subject, cm_order = order\<rparr>]\<rparr>"
    have "ar_consumed s = None" if s: "s \<in> set (receipts db)" "ar_id s = ar_id r" for s
    proof -
      obtain s' where "fence_effect t cls type subject (ar_id r) db s s'"
        using list_all2_partner [OF e s(1)] by blast
      then show ?thesis using s(2) by (simp add: fence_effect_def)
    qed
    then show ?thesis using a db1 by (simp add: takes_fresh_def new_commitments_def authority_def)
  qed
qed

lemma native_steps_fresh:
  "for_each (native_step session) db ws = Inr db' \<Longrightarrow> takes_fresh db db' \<and> evidence_grows db db'"
proof (induction ws arbitrary: db)
  case Nil
  then show ?case by (simp add: takes_fresh_def new_commitments_def evidence_refl)
next
  case (Cons w ws)
  then obtain db1 where "native_step session db w = Inr db1" "for_each (native_step session) db1 ws = Inr db'"
    by (auto simp: andThen_Inr_iff)
  then show ?case
    using Cons.IH native_step_fresh native_step_grows takes_fresh_trans evidence_trans by blast
qed

end
