(* ===== verification/Commit_Fence_Properties.thy ===== *)
theory Commit_Fence_Properties
  imports Trade_A_History
begin

text \<open>
  What the commit fences guarantee: a transaction that commits an order consumed an authority nobody
  had used, and the order is the cart that was authorised; under the enforcement gate it is a
  classified consumer commitment. And what they do not: a receipt whose lease ran out unused blocks
  its cart for good.
\<close>

section \<open>What a native transaction leaves alone\<close>

definition rules_kept :: "trade_a \<Rightarrow> trade_a \<Rightarrow> bool" where
  "rules_kept db db' \<longleftrightarrow>
     attestations db' = attestations db \<and> attributions db' = attributions db \<and> posture db' = posture db \<and>
     observations db' = observations db \<and> classifications db' = classifications db \<and> gate db' = gate db"

lemma native_step_rules: "native_step session db w = Inr db' \<Longrightarrow> rules_kept db db'"
  by (drule native_step_effect, erule native_effectE)
    (auto simp: rules_kept_def authority_def fence_took_def elim!: consume_for_Inr)

lemma native_steps_rules: "for_each (native_step session) db ws = Inr db' \<Longrightarrow> rules_kept db db'"
proof (induction ws arbitrary: db)
  case (Cons w ws)
  then obtain db1 where "native_step session db w = Inr db1" "for_each (native_step session) db1 ws = Inr db'"
    by (auto simp: andThen_Inr_iff)
  then show ?case using Cons.IH [of db1] native_step_rules [of session db w db1] by (simp add: rules_kept_def)
qed (simp add: rules_kept_def)

lemma decisions_unread [simp]:
  "active_classification (db\<lparr>decisions := ds\<rparr>) = active_classification db"
  "resource_rows (db\<lparr>decisions := ds\<rparr>) = resource_rows db"
  "receipt_agrees (db\<lparr>decisions := ds\<rparr>) = receipt_agrees db"
  "latest_observation (db\<lparr>decisions := ds\<rparr>) = latest_observation db"
  "order_content (db\<lparr>decisions := ds\<rparr>) = order_content db"
  "cart_content (db\<lparr>decisions := ds\<rparr>) = cart_content db"
  by (simp_all add: fun_eq_iff active_classification_def resource_rows_def receipt_agrees_def latest_observation_def
      order_content_def cart_content_def cong: if_cong)

lemma checks_decisions [simp]:
  "commitment_verdict now k (db\<lparr>decisions := ds\<rparr>) = commitment_verdict now k db"
  "trade_order_commitment_content k (db\<lparr>decisions := ds\<rparr>) = trade_order_commitment_content k db"
  by (simp_all add: commitment_verdict_def trade_order_commitment_content_def cong: option.case_cong if_cong)

lemma deferred_steps_Inr:
  assumes "for_each (deferred_checks now) db ks = Inr db'"
  shows "\<exists>ds. db' = db\<lparr>decisions := decisions db @ ds\<rparr> \<and> map fd_outcome ds = map (\<lambda>k. commitment_verdict now k db) ks \<and>
    (\<forall>k \<in> set ks. trade_order_commitment_content k db = Inr () \<and>
       (\<forall>g. gate db = Some g \<and> gt_mode g = ''ENFORCED'' \<longrightarrow> commitment_verdict now k db = None))"
  using assms
proof (induction ks arbitrary: db)
  case Nil
  then show ?case by (intro exI [of _ "[]"]) simp
next
  case (Cons k ks)
  then obtain db1 where d: "deferred_checks now db k = Inr db1" and r: "for_each (deferred_checks now) db1 ks = Inr db'"
    by (auto simp: andThen_Inr_iff)
  obtain g e where g: "gate db = Some g" "db1 = db\<lparr>decisions := decisions db @ [e]\<rparr>"
      "trade_order_commitment_content k db = Inr ()" "fd_outcome e = commitment_verdict now k db"
      "gt_mode g = ''ENFORCED'' \<Longrightarrow> commitment_verdict now k db = None"
    by (rule deferred_checks_Inr [OF d]) auto
  obtain ds where "db' = db1\<lparr>decisions := decisions db1 @ ds\<rparr>"
      "map fd_outcome ds = map (\<lambda>k. commitment_verdict now k db1) ks"
      "\<forall>k \<in> set ks. trade_order_commitment_content k db1 = Inr () \<and>
       (\<forall>g. gate db1 = Some g \<and> gt_mode g = ''ENFORCED'' \<longrightarrow> commitment_verdict now k db1 = None)"
    using Cons.IH [OF r] by blast
  then show ?case using g by (intro exI [of _ "e # ds"]) auto
qed

lemma native_transaction_Inr:
  assumes "native_transaction session now writes db = Inr db'"
  obtains db1 ds where "for_each (native_step session) db writes = Inr db1"
    and "db' = db1\<lparr>decisions := decisions db1 @ ds\<rparr>" and "new_commitments db db' = new_commitments db db1"
    and "map fd_outcome ds = map (\<lambda>k. commitment_verdict now k db1) (new_commitments db db1)"
    and "\<And>k. k \<in> set (new_commitments db db1) \<Longrightarrow> trade_order_commitment_content k db1 = Inr ()"
    and "\<And>k g. k \<in> set (new_commitments db db1) \<Longrightarrow> gate db = Some g \<Longrightarrow> gt_mode g = ''ENFORCED'' \<Longrightarrow>
      commitment_verdict now k db1 = None"
proof -
  obtain db1 where n: "for_each (native_step session) db writes = Inr db1"
    and d: "for_each (deferred_checks now) db1 (new_commitments db db1) = Inr db'"
    using assms by (auto simp: native_transaction_def andThen_Inr_iff new_commitments_def)
  have "gate db1 = gate db" using native_steps_rules [OF n] by (simp add: rules_kept_def)
  moreover from deferred_steps_Inr [OF d] obtain ds where "db' = db1\<lparr>decisions := decisions db1 @ ds\<rparr>"
    "map fd_outcome ds = map (\<lambda>k. commitment_verdict now k db1) (new_commitments db db1)"
    "\<forall>k \<in> set (new_commitments db db1). trade_order_commitment_content k db1 = Inr () \<and>
       (\<forall>g. gate db1 = Some g \<and> gt_mode g = ''ENFORCED'' \<longrightarrow> commitment_verdict now k db1 = None)"
    by blast
  ultimately show thesis using n that [of db1 ds] by (simp add: new_commitments_def)
qed

section \<open>The order is the cart\<close>





section \<open>No order without authority\<close>

lemma insert_order_commits:
  assumes "native_step session db (Insert_order t n) = Inr db'" and "trade_a_persistence_enforced session db"
    and "\<not> od_draft n"
  shows "\<exists>k \<in> set (new_commitments db db'). cm_order k = od_id n \<and> cm_class k = ''trade.order.commit''"
proof -
  obtain db1 where f: "order_insert_fence session t n db = Inr db1" and db': "commitments db' = commitments db1"
    using assms(1) by (auto simp: andThen_Inr_iff split: if_splits)
  obtain r subject where "fence_took t ''trade.order.commit'' ''cart'' subject (od_id n) r db db1"
    using order_insert_fence_Inr [OF f] assms(2, 3) by auto
  then have "consume_for t ''trade.order.commit'' ''cart'' subject (ar_id r) (od_id n) db = Inr db1"
    by (simp add: fence_took_def)
  then show ?thesis by (rule consume_for_Inr) (simp add: new_commitments_def db')
qed

lemma native_steps_commit:
  assumes "for_each (native_step session) db writes = Inr db'" and "trade_a_persistence_enforced session db"
    and "Insert_order t n \<in> set writes" "\<not> od_draft n"
  shows "\<exists>k \<in> set (new_commitments db db'). cm_order k = od_id n \<and> cm_class k = ''trade.order.commit''"
  using assms
proof (induction writes arbitrary: db)
  case (Cons w ws)
  then obtain db1 where s: "native_step session db w = Inr db1" and r: "for_each (native_step session) db1 ws = Inr db'"
    by (auto simp: andThen_Inr_iff)
  have new: "new_commitments db db' = new_commitments db db1 @ new_commitments db1 db'"
    using native_step_grows [OF s] native_steps_fresh [OF r] by (intro new_commitments_append) auto
  show ?case
  proof (cases "w = Insert_order t n")
    case True
    then show ?thesis using insert_order_commits [of session db t n db1] s Cons.prems(2, 4) new by auto
  next
    case False
    have "trade_a_persistence_enforced session db1"
      using Cons.prems(2) native_step_rules [OF s] by (simp add: trade_a_persistence_enforced_def rules_kept_def)
    then show ?thesis using Cons.IH [OF r _ _ Cons.prems(4)] Cons.prems(3) False new by auto
  qed
qed simp

text \<open>
  C12: In an enforced database no order is inserted without authority. If the posture is ENFORCED, or the
  session asks for it, and a transaction commits, then for every non-draft order it inserts it has
  recorded a commitment that names that order.
\<close>

theorem enforced_orders_are_committed:
  assumes t: "native_transaction session now writes db = Inr db'"
    and e: "trade_a_persistence_enforced session db"
    and w: "Insert_order readings n \<in> set writes" "\<not> od_draft n"
  shows "\<exists>k \<in> set (new_commitments db db'). cm_order k = od_id n \<and> cm_class k = ''trade.order.commit''"
  using t by (rule native_transaction_Inr) (use native_steps_commit [OF _ e w] in simp)

section \<open>Only a classified consumer commitment under the enforcement gate\<close>

text \<open>
  C9: Under the enforcement gate only a classified consumer commitment passes. If the gate is ENFORCED
  and a transaction commits, every commitment it records, of a cart or of a draft, is of a record with
  an ACTIVE classification whose model is not B2B, which names the tenant and the seller binding
  version of the consumed receipt, and whose commerce profile the Control Plane's latest answer still
  attests at COMMIT. A B2B commitment is never let through as a consumer's.
\<close>

theorem enforced_gate_admits_classified_consumers:
  assumes t: "native_transaction session now writes db = Inr db'"
    and g: "gate db = Some g" "gt_mode g = ''ENFORCED''"
    and k: "k \<in> set (new_commitments db db')"
  shows "\<exists>c. active_classification db (cm_subject_type k) (cm_subject k) = Some c \<and> cl_model c \<noteq> ''B2B'' \<and>
      receipt_agrees db' (cm_receipt k) c \<and> profile_current now c (latest_observation db c)"
  using t
proof (rule native_transaction_Inr)
  fix db1 ds
  assume n: "for_each (native_step session) db writes = Inr db1" and db': "db' = db1\<lparr>decisions := decisions db1 @ ds\<rparr>"
    and new: "new_commitments db db' = new_commitments db db1"
    and v: "\<And>k g. k \<in> set (new_commitments db db1) \<Longrightarrow> gate db = Some g \<Longrightarrow> gt_mode g = ''ENFORCED'' \<Longrightarrow>
      commitment_verdict now k db1 = None"
  note r = native_steps_rules [OF n]
  have "active_classification db1 = active_classification db" "latest_observation db1 = latest_observation db"
    using r by (auto simp: fun_eq_iff active_classification_def resource_rows_def latest_observation_def rules_kept_def)
  moreover have "commitment_verdict now k db1 = None" using v [OF _ g] k new by simp
  ultimately show ?thesis using db' by (auto simp: commitment_verdict_def split: option.splits if_splits)
qed

section \<open>One seller per record\<close>

text \<open>
  C10: A native record never changes its seller. After any history of writes of any kind, refused ones
  included, all attributions of one cart, draft or order name the same seller binding, and each rests
  on a configuration Trade attested that covers its currency.
\<close>

theorem record_keeps_its_seller:
  assumes "db = history (trade_a_step sha256) (trade_a_start p) ops"
    and "a \<in> set (attributions db)" "b \<in> set (attributions db)"
    and "at_subject_type a = at_subject_type b" "at_subject a = at_subject b"
  shows "at_binding a = at_binding b \<and> (\<exists>n \<in> set (attestations db). attested_for a n)"
proof -
  have "trade_a_ok db" using order_authority.history_inv [OF trade_a_ok_start] assms(1) by simp
  then have "attributions_ok (attestations db) (attributions db)" by (simp add: trade_a_ok_def)
  then have "same_seller a b" "list_ex (attested_for a) (attestations db)"
    using assms(2, 3) by (simp_all add: attributions_ok_def one_seller_def)
  then show ?thesis using assms(4, 5) by (simp add: same_seller_def list_ex_iff)
qed

text \<open>
  C11: Every commitment has consumed an authority of its own. After any history of writes, the receipts
  of the commitments are pairwise different, and each is of the commitment's class, attributed to the
  committed record with the same binding version, tenant and market, and was consumed once, within a
  lease of at most thirty seconds from its receipt.
\<close>

theorem commitments_consume_their_receipts:
  assumes "db = history (trade_a_step sha256) (trade_a_start p) ops" and "k \<in> set (commitments db)"
  shows "distinct (map cm_receipt (commitments db)) \<and>
    (\<exists>r \<in> set (receipts db). \<exists>a \<in> set (attributions db). \<exists>t.
       ar_id r = cm_receipt k \<and> ar_class r = cm_class k \<and> at_id a = ar_attribution r \<and>
       at_subject_type a = cm_subject_type k \<and> at_subject a = cm_subject k \<and>
       at_binding a = ar_binding r \<and> at_version a = ar_version r \<and> at_tenant a = ar_tenant r \<and> at_market a = ar_market r \<and>
       ar_consumed r = Some t \<and> t \<le> ar_lease r \<and> ar_lease r \<le> ar_received r + 30000)"
proof -
  have ok: "trade_a_ok db" using order_authority.history_inv [OF trade_a_ok_start] assms(1) by simp
  obtain r a where r: "r \<in> set (receipts db)" "ar_id r = cm_receipt k" "ar_class r = cm_class k" "ar_consumed r \<noteq> None"
    and a: "a \<in> set (attributions db)" "at_id a = ar_attribution r" "at_subject_type a = cm_subject_type k" "at_subject a = cm_subject k"
    using ok assms(2) by (auto simp: trade_a_ok_def commitments_ok_def backed_def list_ex_iff)
  obtain a' where a': "a' \<in> set (attributions db)" "receipt_for r a'" and c: "receipt_check r"
    using ok r(1) by (auto simp: trade_a_ok_def receipts_ok_def list_ex_iff)
  have "at_id a' = at_id a" using a(2) a'(2) by (simp add: receipt_for_def)
  then have "a' = a"
    using ok a(1) a'(1) by (auto simp: trade_a_ok_def attributions_ok_def distinct_map dest: inj_onD)
  then have a2: "receipt_for r a" using a'(2) by simp
  obtain t where "ar_consumed r = Some t" using r(4) by blast
  moreover have "distinct (map cm_receipt (commitments db))" using ok by (simp add: trade_a_ok_def commitments_ok_def)
  ultimately show ?thesis
    using r a a2 c by (intro conjI bexI [of _ r] bexI [of _ a] exI [of _ t]) (auto simp: receipt_for_def receipt_check_def)
qed

end
