(* ===== verification/Commit_Fence_Outcomes.thy ===== *)
theory Commit_Fence_Outcomes
  imports Commit_Fence_Properties
begin

text \<open>
  Two consequences of how the fences are built: the verdicts recorded while the gate is in SHADOW are
  exactly what enforcing it would have decided, and a receipt that expires unused closes its cart to
  every later order.
\<close>

section \<open>The gate plays no part before COMMIT\<close>

abbreviation with_gate :: "gate_row option \<Rightarrow> 'e + trade_a \<Rightarrow> 'e + trade_a" where
  "with_gate g r \<equiv> map_sum id (\<lambda>db. db\<lparr>gate := g\<rparr>) r"

named_theorems ungated \<open>operations commute with a change of the gate\<close>

lemma andThen_gate:
  "(\<And>db. m = Inr db \<Longrightarrow> f (db\<lparr>gate := g\<rparr>) = with_gate g (f' db)) \<Longrightarrow> andThen (with_gate g m) f = with_gate g (andThen m f')"
  by (cases m) auto

lemma update_receipts_gate [ungated]:
  "update_receipts depth now sel f (db\<lparr>gate := g\<rparr>) = with_gate g (update_receipts depth now sel f db)"
  by (simp add: update_receipts_def)
    (cases "traverse (\<lambda>r. if sel r then receipt_update depth now r (f r) else Inr r) (receipts db)", simp_all)

lemma insert_commitment_gate [ungated]:
  "insert_commitment depth k (db\<lparr>gate := g\<rparr>) = with_gate g (insert_commitment depth k db)"
  by (simp add: insert_commitment_def)

lemma gate_unread [ungated]:
  "attributed_to (db\<lparr>gate := g\<rparr>) = attributed_to db"
  "attributions_of (db\<lparr>gate := g\<rparr>) = attributions_of db"
  "order_candidates now n (db\<lparr>gate := g\<rparr>) = order_candidates now n db"
  "trade_a_persistence_enforced session (db\<lparr>gate := g\<rparr>) = trade_a_persistence_enforced session db"
  "committed_order_exists (db\<lparr>gate := g\<rparr>) = committed_order_exists db"
  by (simp_all add: fun_eq_iff attributed_to_def attributions_of_def order_candidates_def
      trade_a_persistence_enforced_def committed_order_exists_def cong: if_cong)

lemma draft_candidates_gate [ungated]: "draft_candidates now n (db\<lparr>gate := g\<rparr>) = draft_candidates now n db"
  by (simp add: draft_candidates_def ungated)

lemma consume_for_gate [ungated]:
  "consume_for t cls type subject chosen order (db\<lparr>gate := g\<rparr>) = with_gate g (consume_for t cls type subject chosen order db)"
  unfolding consume_for_def by (simp only: ungated) (intro andThen_gate, simp only: ungated, intro andThen_gate, simp only: ungated)

lemma order_insert_fence_gate [ungated]:
  "order_insert_fence session t n (db\<lparr>gate := g\<rparr>) = with_gate g (order_insert_fence session t n db)"
  by (simp add: order_insert_fence_def ungated Let_def split: list.splits option.splits prod.splits)

lemma draft_finalise_fence_gate [ungated]:
  "draft_finalise_fence session t old n (db\<lparr>gate := g\<rparr>) = with_gate g (draft_finalise_fence session t old n db)"
  by (simp add: draft_finalise_fence_def ungated split: option.splits)

lemma cart_completion_fence_gate [ungated]:
  "cart_completion_fence session old n (db\<lparr>gate := g\<rparr>) = cart_completion_fence session old n db"
  by (simp add: cart_completion_fence_def ungated)

lemma native_step_gate: "native_step session (db\<lparr>gate := g\<rparr>) w = with_gate g (native_step session db w)"
proof (cases w)
  case (Insert_order t n)
  then show ?thesis by (simp add: ungated) (cases "order_insert_fence session t n db", simp_all)
next
  case (Update_order t n)
  show ?thesis
  proof (cases "find_row od_id (od_id n) (orders db)")
    case (Some old)
    then show ?thesis using Update_order by (simp add: ungated) (cases "draft_finalise_fence session t old n db", simp_all)
  qed (simp add: Update_order)
next
  case (Update_cart n)
  show ?thesis
  proof (cases "find_row ct_id (ct_id n) (carts db)")
    case (Some old)
    then show ?thesis using Update_cart by (simp add: ungated) (cases "cart_completion_fence session old n db", simp_all)
  qed (simp add: Update_cart)
qed (simp_all add: ungated)

lemma native_steps_gate:
  "for_each (native_step session) (db\<lparr>gate := g\<rparr>) ws = with_gate g (for_each (native_step session) db ws)"
proof (induction ws arbitrary: db)
  case (Cons w ws)
  show ?case unfolding for_each.simps native_step_gate by (rule andThen_gate) (rule Cons.IH)
qed simp

section \<open>When the checks at COMMIT pass\<close>

definition check_passes :: "instant \<Rightarrow> string \<Rightarrow> trade_a \<Rightarrow> commitment_row \<Rightarrow> bool" where
  "check_passes now mode db k \<longleftrightarrow>
     trade_order_commitment_content k db = Inr () \<and> (mode = ''ENFORCED'' \<longrightarrow> commitment_verdict now k db = None)"

lemma deferred_checks_pass:
  assumes "k \<in> set (commitments db)" and "gate db = Some g"
  shows "(\<exists>db'. deferred_checks now db k = Inr db') \<longleftrightarrow> check_passes now (gt_mode g) db k"
proof -
  have "commitment_verdict now k db = None \<Longrightarrow> active_classification db (cm_subject_type k) (cm_subject k) \<noteq> None"
    by (auto simp: commitment_verdict_def split: option.splits)
  moreover have "list_ex (\<lambda>k'. cm_receipt k' = cm_receipt k \<and> cm_subject_type k' = cm_subject_type k \<and> cm_subject k' = cm_subject k)
      (commitments db)"
    using assms(1) by (auto simp: list_ex_iff)
  ultimately show ?thesis
    using assms(2)
    by (cases "trade_order_commitment_content k db"; cases "commitment_verdict now k db")
      (auto simp: deferred_checks_def trade_order_commitment_classification_def insert_decision_def check_passes_def Let_def)
qed

lemma deferred_steps_pass:
  assumes "set ks \<subseteq> set (commitments db)" and "gate db = Some g"
  shows "(\<exists>db'. for_each (deferred_checks now) db ks = Inr db') \<longleftrightarrow> (\<forall>k \<in> set ks. check_passes now (gt_mode g) db k)"
  using assms
proof (induction ks arbitrary: db)
  case (Cons k ks)
  show ?case
  proof (cases "deferred_checks now db k")
    case (Inl e)
    then show ?thesis using deferred_checks_pass [of k db g now] Cons.prems by auto
  next
    case (Inr db1)
    have p: "check_passes now (gt_mode g) db k" using deferred_checks_pass [of k db g now] Cons.prems Inr by auto
    obtain d where d: "db1 = db\<lparr>decisions := decisions db @ [d]\<rparr>" by (rule deferred_checks_Inr [OF Inr])
    have "check_passes now (gt_mode g) db1 = check_passes now (gt_mode g) db" by (simp add: fun_eq_iff check_passes_def d)
    then show ?thesis using Cons.IH [of db1] Cons.prems d Inr p by simp
  qed
qed simp

lemma native_transaction_pass:
  assumes "gate db = Some g"
  shows "(\<exists>db'. native_transaction session now ws db = Inr db') \<longleftrightarrow>
    (\<exists>db1. for_each (native_step session) db ws = Inr db1 \<and>
       (\<forall>k \<in> set (new_commitments db db1). check_passes now (gt_mode g) db1 k))"
proof (cases "for_each (native_step session) db ws")
  case (Inr db1)
  have "gate db1 = Some g" using native_steps_rules [OF Inr] assms by (simp add: rules_kept_def)
  then show ?thesis
    using deferred_steps_pass [of "new_commitments db db1" db1 g now] Inr
    by (simp add: native_transaction_def new_commitments_def set_drop_subset)
qed (simp add: native_transaction_def)

lemma native_steps_decisions: "for_each (native_step session) db ws = Inr db' \<Longrightarrow> decisions db' = decisions db"
proof (induction ws arbitrary: db)
  case (Cons w ws)
  then obtain db1 where s: "native_step session db w = Inr db1" and r: "for_each (native_step session) db1 ws = Inr db'"
    by (auto simp: andThen_Inr_iff)
  have "decisions db1 = decisions db"
    using native_step_effect [OF s] by (auto elim!: native_effectE consume_for_Inr simp: authority_def fence_took_def)
  with Cons.IH [OF r] show ?case by simp
qed simp

text \<open>
  C17: Shadow evidence predicts enforcement exactly. While the gate is in SHADOW, a transaction would have
  committed under ENFORCED if and only if it commits now and every verdict it records is ALLOWED: so
  the decisions gathered before activation neither miss a refusal nor announce one that would not
  come.
\<close>

theorem shadow_predicts_enforcement:
  assumes g: "gate db = Some g" "gt_mode g = ''SHADOW''"
  shows "(\<exists>x. native_transaction session now ws (db\<lparr>gate := Some (g\<lparr>gt_mode := ''ENFORCED''\<rparr>)\<rparr>) = Inr x) \<longleftrightarrow>
    (\<exists>y. native_transaction session now ws db = Inr y \<and>
       (\<forall>d \<in> set (drop (length (decisions db)) (decisions y)). fd_outcome d = None))"
    (is "?enforced \<longleftrightarrow> ?shadow")
proof -
  let ?g = "Some (g\<lparr>gt_mode := ''ENFORCED''\<rparr>)"
  have content: "trade_order_commitment_content k (x\<lparr>gate := h\<rparr>) = trade_order_commitment_content k x"
    and verdict: "commitment_verdict now k (x\<lparr>gate := h\<rparr>) = commitment_verdict now k x" for k x h
    by (simp_all add: trade_order_commitment_content_def order_content_def cart_content_def commitment_verdict_def
        active_classification_def resource_rows_def receipt_agrees_def latest_observation_def cong: option.case_cong if_cong)
  have "?enforced \<longleftrightarrow> (\<exists>db1. for_each (native_step session) db ws = Inr db1 \<and>
      (\<forall>k \<in> set (new_commitments db db1). trade_order_commitment_content k db1 = Inr () \<and> commitment_verdict now k db1 = None))"
    by (cases "for_each (native_step session) db ws")
      (simp_all add: native_transaction_pass native_steps_gate check_passes_def content verdict new_commitments_def)
  also have "\<dots> \<longleftrightarrow> ?shadow"
  proof
    assume "\<exists>db1. for_each (native_step session) db ws = Inr db1 \<and>
      (\<forall>k \<in> set (new_commitments db db1). trade_order_commitment_content k db1 = Inr () \<and> commitment_verdict now k db1 = None)"
    then obtain db1 where n: "for_each (native_step session) db ws = Inr db1"
      and p: "\<forall>k \<in> set (new_commitments db db1). trade_order_commitment_content k db1 = Inr () \<and> commitment_verdict now k db1 = None"
      by blast
    then obtain y where y: "native_transaction session now ws db = Inr y"
      using native_transaction_pass [OF g(1), of session now ws] by (auto simp: check_passes_def)
    then show ?shadow
    proof (rule native_transaction_Inr)
      fix db2 ds
      assume s: "for_each (native_step session) db ws = Inr db2" "y = db2\<lparr>decisions := decisions db2 @ ds\<rparr>"
        "map fd_outcome ds = map (\<lambda>k. commitment_verdict now k db2) (new_commitments db db2)"
      have "decisions db1 = decisions db" using native_steps_decisions [OF n] .
      moreover have "\<forall>x \<in> set (map fd_outcome ds). x = None" unfolding s(3) using s(1) n p by simp
      then have "\<forall>d \<in> set ds. fd_outcome d = None" by simp
      ultimately show ?shadow using y s(1, 2) n by simp
    qed
  next
    assume ?shadow
    then obtain y where y: "native_transaction session now ws db = Inr y"
      and d: "\<forall>d \<in> set (drop (length (decisions db)) (decisions y)). fd_outcome d = None" by blast
    from y show "\<exists>db1. for_each (native_step session) db ws = Inr db1 \<and>
      (\<forall>k \<in> set (new_commitments db db1). trade_order_commitment_content k db1 = Inr () \<and> commitment_verdict now k db1 = None)"
    proof (rule native_transaction_Inr)
      fix db1 ds
      assume n: "for_each (native_step session) db ws = Inr db1" and s: "y = db1\<lparr>decisions := decisions db1 @ ds\<rparr>"
        "map fd_outcome ds = map (\<lambda>k. commitment_verdict now k db1) (new_commitments db db1)"
        "\<And>k. k \<in> set (new_commitments db db1) \<Longrightarrow> trade_order_commitment_content k db1 = Inr ()"
      have "decisions db1 = decisions db" using native_steps_decisions [OF n] .
      then have "\<forall>x \<in> set (map fd_outcome ds). x = None" using d s(1) by simp
      then show ?thesis using n s(3) unfolding s(2) by auto
    qed
  qed
  finally show ?thesis .
qed

section \<open>A lapsed receipt\<close>

text \<open>An unconsumed cart receipt, and writes that all happen after its lease.\<close>

definition lapsed :: "string \<Rightarrow> receipt_row \<Rightarrow> trade_a \<Rightarrow> bool" where
  "lapsed cart r db \<longleftrightarrow>
     r \<in> set (receipts db) \<and> ar_consumed r = None \<and> ar_class r = ''trade.order.commit'' \<and> attributed_to db ''cart'' cart r"

fun write_after :: "instant \<Rightarrow> native_write \<Rightarrow> bool" where
  "write_after lease (Insert_order t n) = (lease < fr_consume t \<and> lease < fr_void t)"
| "write_after lease (Update_order t n) = (lease < fr_consume t \<and> lease < fr_void t)"
| "write_after lease w = True"

fun op_after :: "instant \<Rightarrow> trade_a_op \<Rightarrow> bool" where
  "op_after lease (Native session now ws) = list_all (write_after lease) ws"
| "op_after lease op = True"

definition for_cart :: "string \<Rightarrow> commitment_row \<Rightarrow> bool" where
  "for_cart cart k \<longleftrightarrow> cm_subject_type k = ''cart'' \<and> cm_subject k = cart"

lemma fence_misses_lapsed:
  assumes c: "consume_for t cls type subject chosen order db = Inr db'"
    and l: "lapsed cart r db" and after: "ar_lease r < fr_consume t" "ar_lease r < fr_void t"
  shows "lapsed cart r db' \<and> filter (for_cart cart) (commitments db') = filter (for_cart cart) (commitments db)"
  using c
proof (rule consume_for_Inr)
  let ?k = "\<lparr>cm_receipt = chosen, cm_class = cls, cm_subject_type = type, cm_subject = subject, cm_order = order\<rparr>"
  fix rs
  assume e: "list_all2 (fence_effect t cls type subject chosen db) (receipts db) rs"
    and db': "db' = db\<lparr>receipts := rs, commitments := commitments db @ [?k]\<rparr>" and k: "commitment_check ?k"
  obtain r' where r': "r' \<in> set rs" "fence_effect t cls type subject chosen db r r'"
    using list_all2_partner [OF e] l by (auto simp: lapsed_def)
  then have same: "r' = r" and other: "\<not> (ar_class r = cls \<and> attributed_to db type subject r)"
    using l after by (auto simp: fence_effect_def lapsed_def split: if_splits)
  then have "\<not> for_cart cart ?k" using l k by (auto simp: lapsed_def for_cart_def commitment_check_def)
  with same r'(1) l db' show ?thesis by (simp add: lapsed_def attributed_to_def)
qed

lemma lapsed_authority:
  "authority db' = authority db \<Longrightarrow> lapsed cart r db' = lapsed cart r db \<and> commitments db' = commitments db"
  by (simp add: authority_def lapsed_def attributed_to_def)

lemma native_step_quiet:
  assumes s: "native_step session db w = Inr db'" and "\<And>t n. w \<noteq> Insert_order t n" and "\<And>t n. w \<noteq> Update_order t n"
  shows "authority db' = authority db"
proof (cases w)
  case (Forge_consumption now i)
  with s obtain rs where rs: "db' = db\<lparr>receipts := rs\<rparr>" "list_all2 (consumed_row 1 now (\<lambda>r. ar_id r = i)) (receipts db) rs"
    by (auto elim: update_receipts_Inr)
  have "list_all2 (=) (receipts db) rs" using rs(2) by (rule list_all2_mono) (auto simp: consumed_row_def split: if_splits)
  with rs(1) show ?thesis by (simp add: authority_def list.rel_eq)
qed (use assms in \<open>auto simp: authority_def tx_simps split: option.splits if_splits\<close>)

lemma native_step_lapsed:
  assumes s: "native_step session db w = Inr db'" and l: "lapsed cart r db" and a: "write_after (ar_lease r) w"
  shows "lapsed cart r db' \<and> filter (for_cart cart) (commitments db') = filter (for_cart cart) (commitments db)"
proof -
  have after: "ar_lease r < fr_consume t \<and> ar_lease r < fr_void t" if "w = Insert_order t n \<or> w = Update_order t n" for t n
    using that a by auto
  consider t n where "w = Insert_order t n" | t n where "w = Update_order t n" | "authority db' = authority db"
    using native_step_quiet [OF s] by blast
  then show ?thesis
  proof cases
    case (1 t n)
    then obtain db1 where f: "order_insert_fence session t n db = Inr db1" and db': "authority db' = authority db1"
      using s by (auto simp: andThen_Inr_iff authority_def split: if_splits)
    from order_insert_fence_Inr [OF f] have "lapsed cart r db1 \<and> filter (for_cart cart) (commitments db1) = filter (for_cart cart) (commitments db)"
      using l after 1 fence_misses_lapsed unfolding fence_took_def by blast
    with lapsed_authority [OF db'] show ?thesis by simp
  next
    case (2 t n)
    show ?thesis
    proof (cases "find_row od_id (od_id n) (orders db)")
      case None
      with s l 2 show ?thesis by simp
    next
      case (Some old)
      with s 2 obtain db1 where f: "draft_finalise_fence session t old n db = Inr db1" and db': "authority db' = authority db1"
        by (auto simp: andThen_Inr_iff authority_def)
      from draft_finalise_fence_Inr [OF f] have "lapsed cart r db1 \<and> filter (for_cart cart) (commitments db1) = filter (for_cart cart) (commitments db)"
        using l after 2 fence_misses_lapsed unfolding fence_took_def by blast
      with lapsed_authority [OF db'] show ?thesis by simp
    qed
  next
    case 3
    show ?thesis using l lapsed_authority [OF 3] by simp
  qed
qed

lemma native_steps_lapsed:
  "for_each (native_step session) db ws = Inr db' \<Longrightarrow> lapsed cart r db \<Longrightarrow> list_all (write_after (ar_lease r)) ws \<Longrightarrow>
   lapsed cart r db' \<and> filter (for_cart cart) (commitments db') = filter (for_cart cart) (commitments db)"
proof (induction ws arbitrary: db)
  case (Cons w ws)
  then obtain db1 where "native_step session db w = Inr db1" "for_each (native_step session) db1 ws = Inr db'"
    by (auto simp: andThen_Inr_iff)
  with Cons native_step_lapsed [of session db w db1 cart r] show ?case by simp
qed simp

lemma lapsed_grows:
  "lapsed cart r db \<Longrightarrow> receipts db' = receipts db @ rs \<Longrightarrow> attributions db' = attributions db @ as \<Longrightarrow> lapsed cart r db'"
  by (simp add: lapsed_def attributed_to_def)

lemma trade_a_step_lapsed:
  assumes s: "trade_a_step sha256 db op = Inr db'" and l: "lapsed cart r db" and a: "op_after (ar_lease r) op"
  shows "lapsed cart r db' \<and> filter (for_cart cart) (commitments db') = filter (for_cart cart) (commitments db)"
proof (cases "\<exists>session now ws. op = Native session now ws")
  case True
  then obtain session now ws where "op = Native session now ws" by blast
  with s a have t: "native_transaction session now ws db = Inr db'" "list_all (write_after (ar_lease r)) ws" by auto
  from t(1) show ?thesis
  proof (rule native_transaction_Inr)
    fix db1 ds
    assume "for_each (native_step session) db ws = Inr db1" "db' = db1\<lparr>decisions := decisions db1 @ ds\<rparr>"
    with native_steps_lapsed [OF _ l t(2)] show ?thesis by (simp add: lapsed_def attributed_to_def)
  qed
next
  case False
  have "commitments db' = commitments db \<and> (\<exists>rs. receipts db' = receipts db @ rs) \<and> (\<exists>as. attributions db' = attributions db @ as)"
    using s False by (cases op) (auto dest!: insert_attribution_Inr(1) insert_authority_receipt_Inr(1) insert_observation_Inr(1) update_gate_Inr
        elim!: insert_classification_Inr update_classifications_Inr
        simp: insert_attestation_def update_posture_def split: option.splits if_splits)
  with lapsed_grows [OF l] show ?thesis by auto
qed

text \<open>
  C18: An expired receipt closes its cart for good. The fence voids every other unconsumed receipt of a
  cart when it consumes one, but the receipt table refuses to consume a receipt whose lease has
  passed. So once a receipt of a cart has expired unused, as when a first checkout attempt fails after
  authority was obtained, no later write of any kind, with however fresh an authority, ever records a
  commitment of that cart: every attempt is refused, and the receipt stays where it is.
\<close>

theorem lapsed_receipt_closes_its_cart:
  assumes "lapsed cart r db" and "list_all (op_after (ar_lease r)) ops"
    and "db' = history (trade_a_step sha256) db ops"
  shows "lapsed cart r db' \<and> filter (for_cart cart) (commitments db') = filter (for_cart cart) (commitments db)"
  using assms
proof (induction ops arbitrary: db)
  case (Cons op ops)
  show ?case
  proof (cases "trade_a_step sha256 db op")
    case (Inr db1)
    with Cons trade_a_step_lapsed [OF Inr, of cart r] show ?thesis by simp
  qed (use Cons in simp)
qed simp

end
