(* ===== verification/Order_Authority.thy ===== *)
theory Order_Authority
  imports Trade_A_Tables Js_Text
begin

text \<open>
  The order authority enforcement point: the checks on the Control Plane's answers
  (\<open>src/src/baobab/control-plane/trade-order-authority.ts\<close>), the attribution of a native record to one
  seller binding (\<open>src/src/baobab/orders/commitment-attribution.ts\<close>), the enforcement itself
  (\<open>order-authority-enforcement.ts\<close>), the persistence posture (\<open>persistence-posture.ts\<close>) and the gate
  before every entry point (\<open>trade-a-entry-points.ts\<close>). The Control Plane, the token provider, the live
  facts, \<open>Date.parse\<close>, the pinned schemas, the identifiers the database draws and the readings of the
  clocks are fields of \<open>enforcement_deps\<close>; a call that throws is a left value. A dependency that is
  missing altogether is refused by the source before anything else and is not modelled.
\<close>

section \<open>Answers of the Control Plane\<close>

record binding_ref =
  br_id :: string
  br_version :: int

record resolve_request =
  rq_context :: string
  rq_engine :: string
  rq_reference :: string
  rq_digest :: string
  rq_currency :: string

record binding_resolution =
  bs_context :: string
  bs_engine :: string
  bs_reference :: string
  bs_digest :: string
  bs_currency :: string
  bs_resolution :: string
  bs_outcome :: string
  bs_binding :: "binding_ref option"
  bs_resolved :: string
  bs_permissions :: bool

record authority_request =
  oq_context :: string
  oq_engine :: string
  oq_class :: string
  oq_binding :: binding_ref
  oq_digest :: string
  oq_currency :: string
  oq_reference :: string

record authority_decision =
  dc_context :: string
  dc_engine :: string
  dc_class :: string
  dc_binding :: "binding_ref option"
  dc_digest :: string
  dc_currency :: string
  dc_reference :: string
  dc_id :: string
  dc_outcome :: string
  dc_tenant :: "string option"
  dc_organisation :: "string option"
  dc_market :: "string option"
  dc_role :: "string option"
  dc_mandate :: "string option"
  dc_entity :: "string option"
  dc_evaluated :: string
  dc_expires :: "string option"
  dc_policy :: string
  dc_permissions :: bool

definition sameBinding :: "binding_ref option \<Rightarrow> binding_ref option \<Rightarrow> bool" where
  "sameBinding a b =
     (case (a, b) of (Some x, Some y) \<Rightarrow> br_id x = br_id y \<and> br_version x = br_version y | _ \<Rightarrow> False)"

text \<open>The schemas are decoders: \<open>None\<close> is a payload they refuse.\<close>

definition isResolutionFor :: "('v \<Rightarrow> binding_resolution option) \<Rightarrow> 'v \<Rightarrow> resolve_request \<Rightarrow> bool" where
  "isResolutionFor bindingResolutionSchema v q =
     (case bindingResolutionSchema v of
        None \<Rightarrow> False
      | Some r \<Rightarrow>
          bs_context r = rq_context q \<and> bs_engine r = rq_engine q \<and> bs_reference r = rq_reference q \<and>
          bs_digest r = rq_digest q \<and> bs_currency r = rq_currency q \<and> \<not> bs_permissions r \<and>
          (bs_outcome r = ''RESOLVED'') = (bs_binding r \<noteq> None))"

definition isDecisionFor :: "('v \<Rightarrow> authority_decision option) \<Rightarrow> 'v \<Rightarrow> authority_request \<Rightarrow> bool" where
  "isDecisionFor orderAuthorityDecisionSchema v q =
     (case orderAuthorityDecisionSchema v of
        None \<Rightarrow> False
      | Some d \<Rightarrow>
          dc_context d = oq_context q \<and> dc_engine d = oq_engine q \<and> dc_class d = oq_class q \<and>
          sameBinding (dc_binding d) (Some (oq_binding q)) \<and> dc_digest d = oq_digest q \<and>
          dc_currency d = oq_currency q \<and> dc_reference d = oq_reference q \<and> \<not> dc_permissions d)"

definition RECEIPT_LEASE :: int where
  "RECEIPT_LEASE = 30000"

definition present :: "string option \<Rightarrow> bool" where
  "present x \<longleftrightarrow> (case x of None \<Rightarrow> False | Some s \<Rightarrow> s \<noteq> [])"

definition isCurrentOrderAuthority :: "(string \<Rightarrow> instant option) \<Rightarrow> authority_decision \<Rightarrow> instant \<Rightarrow> instant \<Rightarrow> bool" where
  "isCurrentOrderAuthority parse_date d receivedAt now =
     (if dc_outcome d \<noteq> ''AUTHORIZED'' \<or> \<not> present (dc_expires d) \<or> \<not> present (dc_mandate d) then False
      else (case (parse_date (dc_evaluated d), Option.bind (dc_expires d) parse_date) of
              (Some evaluated, Some expires) \<Rightarrow>
                if receivedAt + 1000 < evaluated \<or> RECEIPT_LEASE < expires - evaluated then False
                else now < min expires (receivedAt + RECEIPT_LEASE)
            | _ \<Rightarrow> False))"

section \<open>Dependencies\<close>

record platform_context =
  pc_context :: string
  pc_tenant :: string
  pc_organisation :: string
  pc_type :: string
  pc_country :: "string option"
  pc_expires :: "string option"

text \<open>
  \<open>resolveBinding\<close> and \<open>resolveOrderAuthority\<close> are the HTTP exchanges; the client keeps an answer only if
  it is for the request. \<open>clock n\<close> is the n-th reading of one enforcement.
\<close>

record 'v enforcement_deps =
  engine_of :: string
  sha_of :: "string \<Rightarrow> string"
  reads_attested :: bool
  facts_of :: facts_reader
  parse_instant :: "string \<Rightarrow> instant option"
  access_token :: "nat \<Rightarrow> string option"
  correlation :: "nat \<Rightarrow> string"
  platform_of :: "string \<Rightarrow> string \<Rightarrow> string \<Rightarrow> string \<Rightarrow> platform_context option"
  resolve_schema :: "'v \<Rightarrow> binding_resolution option"
  resolve_call :: "resolve_request \<Rightarrow> 'v option"
  decision_schema :: "'v \<Rightarrow> authority_decision option"
  decision_call :: "authority_request \<Rightarrow> 'v option"
  received_at :: instant
  clock :: "nat \<Rightarrow> instant"
  store_up :: "nat \<Rightarrow> bool"
  new_attribution :: string
  attribution_time :: instant
  new_receipt :: string
  receipt_time :: instant
  receipt_clock :: instant

definition resolveBinding :: "'v enforcement_deps \<Rightarrow> resolve_request \<Rightarrow> binding_resolution option" where
  "resolveBinding deps q =
     (case resolve_call deps q of
        None \<Rightarrow> None
      | Some v \<Rightarrow> if isResolutionFor (resolve_schema deps) v q then resolve_schema deps v else None)"

definition resolveOrderAuthority :: "'v enforcement_deps \<Rightarrow> authority_request \<Rightarrow> authority_decision option" where
  "resolveOrderAuthority deps q =
     (case decision_call deps q of
        None \<Rightarrow> None
      | Some v \<Rightarrow> if isDecisionFor (decision_schema deps) v q then decision_schema deps v else None)"

section \<open>Attribution\<close>

record commitment_subject =
  cs_type :: string
  cs_id :: string

datatype attribution_failure = Denied string | Thrown

definition SUBJECT :: "string \<Rightarrow> bool" where
  "SUBJECT s \<longleftrightarrow> length s \<le> 200 \<and>
     (case s of [] \<Rightarrow> False | c # cs \<Rightarrow> alnum_char c \<and> list_all (\<lambda>x. alnum_char x \<or> in_class ''_:.-'' x) cs)"

definition or_fail :: "'e \<Rightarrow> 'a option \<Rightarrow> 'e + 'a" where
  "or_fail e x = (case x of None \<Rightarrow> Inl e | Some v \<Rightarrow> Inr v)"

definition context_usable :: "'v enforcement_deps \<Rightarrow> resolved_configuration \<Rightarrow> platform_context \<Rightarrow> instant option" where
  "context_usable deps c x =
     (case (if present (pc_expires x) then Option.bind (pc_expires x) (parse_instant deps) else None) of
        None \<Rightarrow> None
      | Some expires \<Rightarrow>
          if pc_tenant x = rs_tenant c \<and> pc_organisation x = rs_organisation c \<and> pc_type x = ''ORGANISATION'' \<and>
             pc_country x = Some (rs_market c) \<and> clock deps 0 < expires
          then Some expires else None)"

definition attribution_of ::
    "'v enforcement_deps \<Rightarrow> commitment_subject \<Rightarrow> resolved_configuration \<Rightarrow> platform_context \<Rightarrow> binding_resolution \<Rightarrow> binding_ref
      \<Rightarrow> instant \<Rightarrow> attribution_row" where
  "attribution_of deps s c x r b resolved =
     \<lparr>at_id = new_attribution deps, at_subject_type = cs_type s, at_subject = cs_id s, at_attestation = rs_attestation c,
      at_reference = rs_reference c, at_digest = rs_digest c, at_currency = rs_currency c, at_tenant = rs_tenant c,
      at_organisation = rs_organisation c, at_market = rs_market c, at_engine = rs_engine c, at_binding = br_id b,
      at_version = br_version b, at_resolution = bs_resolution r, at_context = pc_context x, at_resolved = resolved,
      at_correlation = correlation deps 0, at_recorded = attribution_time deps\<rparr>"

text \<open>The row the attribution inserts, and the expiry of the context it was resolved under.\<close>

definition attributeCommitment ::
    "'v enforcement_deps \<Rightarrow> trade_a \<Rightarrow> commitment_subject \<Rightarrow> commitment_scope
      \<Rightarrow> attribution_failure + trade_a \<times> attribution_row \<times> instant" where
  "attributeCommitment deps db s native =
     andThen (ensure (cs_type s \<in> {''cart'', ''draft_order'', ''order''} \<and> SUBJECT (cs_id s)) (Denied ''INVALID_SUBJECT'')) (\<lambda>_.
     andThen (case resolveNativeConfiguration (sha_of deps) native (engine_of deps)
                (\<lambda>e. if reads_attested deps then Inr (latestForEngine db e) else Inl ''unavailable'') (facts_of deps) of
                Inl e \<Rightarrow> Inl (Denied ''NATIVE_CONFIGURATION_UNRESOLVED'') | Inr c \<Rightarrow> Inr c) (\<lambda>c.
     andThen (or_fail Thrown (access_token deps 0)) (\<lambda>token.
     andThen (or_fail Thrown (platform_of deps (rs_tenant c) (rs_organisation c) (rs_market c) token)) (\<lambda>x.
     andThen (or_fail (Denied ''CONTEXT_NOT_USABLE'') (context_usable deps c x)) (\<lambda>expires.
     andThen (or_fail Thrown (resolveBinding deps
       \<lparr>rq_context = pc_context x, rq_engine = rs_engine c, rq_reference = rs_reference c, rq_digest = rs_digest c,
        rq_currency = rs_currency c\<rparr>)) (\<lambda>r.
     andThen (if bs_outcome r \<noteq> ''RESOLVED'' then Inl (Denied (bs_outcome r))
              else or_fail (Denied (bs_outcome r)) (bs_binding r)) (\<lambda>b.
     andThen (ensure (store_up deps 0) Thrown) (\<lambda>_.
     andThen (case current_attribution db (cs_type s) (cs_id s) of
                None \<Rightarrow> Inr () | Some p \<Rightarrow> ensure (at_binding p = br_id b) (Denied ''SELLER_CHANGED'')) (\<lambda>_.
     andThen (ensure (store_up deps 1) Thrown) (\<lambda>_.
     andThen (or_fail Thrown (parse_instant deps (bs_resolved r))) (\<lambda>resolved.
     let a = attribution_of deps s c x r b resolved in
     (case insert_attribution a db of Inl e \<Rightarrow> Inl Thrown | Inr db' \<Rightarrow> Inr (db', a, expires)))))))))))))"

section \<open>Enforcement\<close>

record authority_environment =
  env_node :: "string option"
  env_baobab :: "string option"
  env_deployment :: "string option"
  env_enabled :: "string option"

text \<open>\<open>resolveNativeCheckoutEnvironment\<close>: whether the profile is production, and whether it is staging.\<close>

definition resolveNativeCheckoutEnvironment :: "authority_environment \<Rightarrow> bool \<times> bool" where
  "resolveNativeCheckoutEnvironment env =
     (let declared = [s. v \<leftarrow> [env_node env, env_baobab env, env_deployment env], s \<leftarrow> (case v of None \<Rightarrow> [] | Some t \<Rightarrow> [t]), s \<noteq> []];
          local = [''development'', ''test'', ''integration''];
          recognised = local @ [''staging'', ''production''];
          contradictoryLocal = (list_all (\<lambda>v. v \<in> set local) declared \<and> 1 < length (remdups declared));
          production = (declared = [] \<or> ''production'' \<in> set declared \<or> contradictoryLocal \<or>
            list_ex (\<lambda>v. v \<notin> set recognised) declared)
      in (production, \<not> production \<and> ''staging'' \<in> set declared))"

definition authority_request_for :: "string \<Rightarrow> string \<Rightarrow> attribution_row \<Rightarrow> authority_request" where
  "authority_request_for cls reference a =
     \<lparr>oq_context = at_context a, oq_engine = at_engine a, oq_class = cls,
      oq_binding = \<lparr>br_id = at_binding a, br_version = at_version a\<rparr>, oq_digest = at_digest a,
      oq_currency = at_currency a, oq_reference = reference\<rparr>"

definition decision_usable :: "'v enforcement_deps \<Rightarrow> attribution_row \<Rightarrow> authority_decision \<Rightarrow> bool" where
  "decision_usable deps a d \<longleftrightarrow>
     isCurrentOrderAuthority (parse_instant deps) d (received_at deps) (clock deps 2) \<and>
     dc_tenant d = Some (at_tenant a) \<and> dc_organisation d = Some (at_organisation a) \<and> dc_market d = Some (at_market a) \<and>
     dc_role d = Some ''SELLER_OF_RECORD''"

definition receipt_of ::
    "'v enforcement_deps \<Rightarrow> string \<Rightarrow> string \<Rightarrow> attribution_row \<Rightarrow> authority_decision \<Rightarrow> string \<Rightarrow> string \<Rightarrow> instant \<Rightarrow> instant
      \<Rightarrow> receipt_row" where
  "receipt_of deps cls reference a d mandate entity evaluated lease =
     \<lparr>ar_id = new_receipt deps, ar_attribution = at_id a, ar_class = cls, ar_reference = reference, ar_decision = dc_id d,
      ar_binding = at_binding a, ar_version = at_version a, ar_digest = at_digest a, ar_currency = at_currency a,
      ar_context = at_context a, ar_tenant = at_tenant a, ar_organisation = at_organisation a, ar_market = at_market a,
      ar_mandate = mandate, ar_entity = entity, ar_policy = dc_policy d, ar_evaluated = evaluated,
      ar_received = received_at deps, ar_lease = lease, ar_consumed = None, ar_recorded = receipt_time deps\<rparr>"

definition record_receipt :: "'v enforcement_deps \<Rightarrow> receipt_row \<Rightarrow> trade_a \<Rightarrow> string + trade_a" where
  "record_receipt deps r db =
     (if \<not> store_up deps 2 then Inl ''UNAVAILABLE''
      else (case insert_receipt (receipt_clock deps) r db of Inl e \<Rightarrow> Inl ''UNAVAILABLE'' | Inr db' \<Rightarrow> Inr db'))"

definition denied_with :: "trade_a \<Rightarrow> string \<Rightarrow> trade_a \<times> (string + receipt_row)" where
  "denied_with db outcome = (db, Inl outcome)"

text \<open>The decision for an attributed record: a denial after this point leaves the attribution behind.\<close>

definition enforce_decision ::
    "'v enforcement_deps \<Rightarrow> trade_a \<Rightarrow> string \<Rightarrow> string \<Rightarrow> attribution_row \<Rightarrow> trade_a \<times> (string + receipt_row)" where
  "enforce_decision deps db cls reference a =
     (case (if access_token deps 1 = None then None else resolveOrderAuthority deps (authority_request_for cls reference a)) of
        None \<Rightarrow> denied_with db ''UNAVAILABLE''
      | Some d \<Rightarrow>
          if dc_outcome d \<noteq> ''AUTHORIZED'' then denied_with db (dc_outcome d)
          else if \<not> decision_usable deps a d then denied_with db ''REVOKED_OR_EXPIRED''
          else (case (dc_mandate d, dc_entity d, Option.bind (dc_expires d) (parse_instant deps), parse_instant deps (dc_evaluated d)) of
                  (Some mandate, Some entity, Some expires, Some evaluated) \<Rightarrow>
                    if mandate = [] \<or> entity = [] then denied_with db ''ACTOR_NOT_VERIFIED''
                    else (let r = receipt_of deps cls reference a d mandate entity evaluated
                                    (min expires (received_at deps + RECEIPT_LEASE)) in
                          (case record_receipt deps r db of Inl e \<Rightarrow> denied_with db e | Inr db' \<Rightarrow> (db', Inr r)))
                | _ \<Rightarrow> denied_with db ''ACTOR_NOT_VERIFIED''))"

definition enforceOrderAuthority ::
    "'v enforcement_deps \<Rightarrow> authority_environment \<Rightarrow> trade_a \<Rightarrow> string \<Rightarrow> commitment_subject \<Rightarrow> commitment_scope \<Rightarrow> string
      \<Rightarrow> trade_a \<times> (string + receipt_row)" where
  "enforceOrderAuthority deps env db cls s native reference =
     (if fst (resolveNativeCheckoutEnvironment env) \<or> env_enabled env \<noteq> Some ''true'' then denied_with db ''PROTECTED_RUNTIME''
      else if class_subject cls = None \<or> class_subject cls \<noteq> Some (cs_type s) then denied_with db ''UNCATALOGUED_OPERATION''
      else if \<not> visible_text reference then denied_with db ''INVALID_OPERATION_REFERENCE''
      else (case attributeCommitment deps db s native of
              Inl (Denied outcome) \<Rightarrow> denied_with db outcome
            | Inl Thrown \<Rightarrow> denied_with db ''UNAVAILABLE''
            | Inr (db', a, expires) \<Rightarrow>
                if \<not> clock deps 1 < expires then denied_with db' ''CONTEXT_NOT_USABLE''
                else enforce_decision deps db' cls reference a))"

text \<open>The RFC 9457 mapping of an outcome.\<close>

record authority_problem =
  ap_status :: nat
  ap_code :: string
  ap_detail :: string

definition NOT_AUTHORISED :: "string list" where
  "NOT_AUTHORISED = [''OPERATION_NOT_ACTIVATED'', ''PROTECTED_RUNTIME'', ''UNCATALOGUED_OPERATION'',
     ''PERSISTENCE_BOUNDARY_NOT_CERTIFIED'', ''NO_GOVERNED_COMMIT_POINT'', ''PERSISTENCE_POSTURE_NOT_ENFORCED'',
     ''PERSISTENCE_FENCE_REFUSED'']"

definition tradeAuthorityProblem :: "string \<Rightarrow> authority_problem" where
  "tradeAuthorityProblem outcome =
     (if outcome \<in> {''UNAVAILABLE'', ''CP_UNAVAILABLE''} then
        \<lparr>ap_status = 503, ap_code = ''TRADE_AUTHORITY_UNAVAILABLE'',
         ap_detail = ''order authority or its durable receipt is temporarily unavailable''\<rparr>
      else if outcome \<in> set NOT_AUTHORISED then
        \<lparr>ap_status = 403, ap_code = ''TRADE_OPERATION_NOT_AUTHORISED'',
         ap_detail = ''operation is not catalogued, activated or permitted here''\<rparr>
      else if outcome = ''INVALID_LIFECYCLE_STATE'' then
        \<lparr>ap_status = 409, ap_code = ''TRADE_INVALID_LIFECYCLE_STATE'',
         ap_detail = ''operation is invalid in the record'' @ [CHR 0x27] @ ''s current state''\<rparr>
      else
        \<lparr>ap_status = 403, ap_code = ''TRADE_'' @ outcome,
         ap_detail = ''no current seller binding and mandate authorise this operation''\<rparr>)"

section \<open>The posture of the database and the entry gate\<close>

record posture_row =
  ps_posture :: "string option"
  ps_superuser :: "bool option"
  ps_fences :: string

datatype posture_verdict = Enforced | POSTURE_NOT_ENFORCED | FENCE_NOT_ACTIVE | SUPERUSER_RUNTIME_ROLE

definition TRADE_A_FENCE_TRIGGERS :: "(string \<times> string) list" where
  "TRADE_A_FENCE_TRIGGERS =
     [(''public.\"order\"'', ''trade_a_order_commit_fence''),
      (''public.cart'', ''trade_a_cart_commit_fence''),
      (''public.trade_order_commitment'', ''trade_order_commitment_guard''),
      (''public.trade_order_commitment'', ''trade_order_commitment_no_truncate''),
      (''public.trade_order_commitment'', ''trade_order_commitment_content''),
      (''public.trade_order_authority_receipt'', ''trade_order_authority_receipt_guard''),
      (''public.trade_order_authority_receipt'', ''trade_order_authority_receipt_no_truncate''),
      (''public.trade_a_persistence_posture'', ''trade_a_persistence_posture_guard''),
      (''public.trade_a_persistence_posture'', ''trade_a_persistence_posture_no_truncate'')]"

text \<open>The count arrives as the decimal text of a bigint.\<close>

definition judgePosture :: "posture_row option \<Rightarrow> posture_verdict" where
  "judgePosture row =
     (case row of
        None \<Rightarrow> POSTURE_NOT_ENFORCED
      | Some p \<Rightarrow>
          if ps_posture p \<noteq> Some ''ENFORCED'' then POSTURE_NOT_ENFORCED
          else if ps_superuser p \<noteq> Some False then SUPERUSER_RUNTIME_ROLE
          else if digits_value (ps_fences p) \<noteq> int (length TRADE_A_FENCE_TRIGGERS) then FENCE_NOT_ACTIVE
          else Enforced)"

datatype trade_a_runtime = PRODUCTION | PROTECTED | LOCAL_ENFORCED | LOCAL_SANDBOX

definition tradeARuntime :: "authority_environment \<Rightarrow> trade_a_runtime" where
  "tradeARuntime env =
     (case resolveNativeCheckoutEnvironment env of (production, staging) \<Rightarrow>
        if production then PRODUCTION
        else if staging then PROTECTED
        else if env_enabled env = Some ''true'' then LOCAL_ENFORCED else LOCAL_SANDBOX)"

definition PERSISTENCE_FENCED_CLASSES :: "string list" where
  "PERSISTENCE_FENCED_CLASSES = [''trade.order.commit'', ''trade.draft-order.finalize'']"

text \<open>\<open>assertPersistenceEnforced\<close>: the reader may be missing, its query may fail.\<close>

definition assertPersistenceEnforced :: "(posture_row option) option option \<Rightarrow> string + unit" where
  "assertPersistenceEnforced reader =
     (case reader of
        None \<Rightarrow> Inl ''UNAVAILABLE''
      | Some None \<Rightarrow> Inl ''UNAVAILABLE''
      | Some (Some row) \<Rightarrow> ensure (judgePosture row = Enforced) ''PERSISTENCE_POSTURE_NOT_ENFORCED'')"

definition governOrderEntry ::
    "('v enforcement_deps \<times> (posture_row option) option option) option \<Rightarrow> authority_environment \<Rightarrow> trade_a \<Rightarrow> string
      \<Rightarrow> commitment_subject \<Rightarrow> commitment_scope \<Rightarrow> string \<Rightarrow> trade_a \<times> (string + receipt_row option)" where
  "governOrderEntry resolved env db cls s native reference =
     (let runtime = tradeARuntime env in
      if runtime = PRODUCTION then (db, Inl ''PROTECTED_RUNTIME'')
      else if runtime = PROTECTED \<and> cls \<notin> set PERSISTENCE_FENCED_CLASSES then (db, Inl ''PERSISTENCE_BOUNDARY_NOT_CERTIFIED'')
      else if runtime = PROTECTED \<and> env_enabled env \<noteq> Some ''true'' then (db, Inl ''PROTECTED_RUNTIME'')
      else if runtime = LOCAL_SANDBOX then (db, Inr None)
      else (case resolved of
              None \<Rightarrow> (db, Inl ''UNAVAILABLE'')
            | Some (deps, reader) \<Rightarrow>
                (case (if runtime = PROTECTED then assertPersistenceEnforced reader else Inr ()) of
                   Inl outcome \<Rightarrow> (db, Inl outcome)
                 | Inr _ \<Rightarrow>
                     (case enforceOrderAuthority deps env db cls s native reference of
                        (db', Inl outcome) \<Rightarrow> (db', Inl outcome)
                      | (db', Inr r) \<Rightarrow> (db', Inr (Some r))))))"

definition assertUngovernedOrderCreationDenied :: "authority_environment \<Rightarrow> string + unit" where
  "assertUngovernedOrderCreationDenied env =
     (case tradeARuntime env of
        PRODUCTION \<Rightarrow> Inl ''PROTECTED_RUNTIME''
      | LOCAL_SANDBOX \<Rightarrow> Inr ()
      | _ \<Rightarrow> Inl ''NO_GOVERNED_COMMIT_POINT'')"

definition tradeAOperationReference :: "commitment_subject \<Rightarrow> string \<Rightarrow> string \<Rightarrow> string" where
  "tradeAOperationReference s action uuid = cs_type s @ ''/'' @ cs_id s @ ''/'' @ action @ ''/'' @ uuid"

end
