(* ===== verification/Order_Authority_Properties.thy ===== *)
theory Order_Authority_Properties
  imports Order_Authority Trade_A_History
begin

text \<open>
  What the enforcement point promises. Whatever the Control Plane answers, the database only moves by
  the writes of the attribution and the receipt tables (so the invariant of the store carries over); a
  denial leaves no receipt; a permission is a receipt of an AUTHORIZED decision about the attributed
  seller, with a lease that ends with the decision or thirty seconds after it arrived; and nothing is
  permitted in production.
\<close>

lemma or_fail_Inr [tx_simps]: "or_fail e x = Inr y \<longleftrightarrow> x = Some y"
  by (auto simp: or_fail_def split: option.splits)

section \<open>Attribution\<close>

lemma inserted_row:
  "(case insert_attribution x db of Inl e \<Rightarrow> Inl Thrown | Inr db' \<Rightarrow> Inr (db', x, t)) = Inr (db2, a, expires) \<longleftrightarrow>
    insert_attribution x db = Inr db2 \<and> x = a \<and> t = expires"
  by (auto split: sum.splits)

lemma attributeCommitment_Inr:
  assumes "attributeCommitment deps db s native = Inr (db', a, expires)"
  shows "insert_attribution a db = Inr db' \<and> at_subject_type a = cs_type s \<and> at_subject a = cs_id s"
proof -
  obtain c x r b resolved where
    a: "a = attribution_of deps s c x r b resolved" and i: "insert_attribution a db = Inr db'"
    using assms unfolding attributeCommitment_def andThen_Inr_iff Let_def
      inserted_row by blast
  then show ?thesis by (simp add: attribution_of_def)
qed

section \<open>Enforcement\<close>

inductive enforced ::
    "'v enforcement_deps \<Rightarrow> string \<Rightarrow> commitment_subject \<Rightarrow> string \<Rightarrow> trade_a \<Rightarrow> trade_a \<Rightarrow> string + receipt_row \<Rightarrow> bool"
    for deps cls s reference db where
  refused: "enforced deps cls s reference db db (Inl outcome)"
| attributed: "insert_attribution a db = Inr db' \<Longrightarrow> at_subject_type a = cs_type s \<Longrightarrow> at_subject a = cs_id s \<Longrightarrow>
    enforced deps cls s reference db db' (Inl outcome)"
| permitted: "insert_attribution a db = Inr db1 \<Longrightarrow> at_subject_type a = cs_type s \<Longrightarrow> at_subject a = cs_id s \<Longrightarrow>
    resolveOrderAuthority deps (authority_request_for cls reference a) = Some d \<Longrightarrow>
    dc_outcome d = ''AUTHORIZED'' \<Longrightarrow> decision_usable deps a d \<Longrightarrow>
    dc_mandate d = Some mandate \<Longrightarrow> mandate \<noteq> [] \<Longrightarrow> dc_entity d = Some entity \<Longrightarrow> entity \<noteq> [] \<Longrightarrow>
    Option.bind (dc_expires d) (parse_instant deps) = Some expires \<Longrightarrow> parse_instant deps (dc_evaluated d) = Some evaluated \<Longrightarrow>
    r = receipt_of deps cls reference a d mandate entity evaluated (min expires (received_at deps + RECEIPT_LEASE)) \<Longrightarrow>
    insert_receipt (receipt_clock deps) r db1 = Inr db' \<Longrightarrow> enforced deps cls s reference db db' (Inr r)"

lemma enforce_decision_enforced:
  assumes "insert_attribution a db = Inr db1" "at_subject_type a = cs_type s" "at_subject a = cs_id s"
    and "enforce_decision deps db1 cls reference a = (db', res)"
  shows "enforced deps cls s reference db db' res"
proof (cases res)
  case (Inl outcome)
  then have "db' = db1"
    using assms(4) by (auto simp: enforce_decision_def denied_with_def Let_def split: if_splits option.splits sum.splits)
  then show ?thesis using Inl enforced.attributed [OF assms(1-3)] by simp
next
  case (Inr r)
  obtain d mandate entity expires evaluated where d:
    "resolveOrderAuthority deps (authority_request_for cls reference a) = Some d"
    "dc_outcome d = ''AUTHORIZED''" "decision_usable deps a d"
    "dc_mandate d = Some mandate" "mandate \<noteq> []" "dc_entity d = Some entity" "entity \<noteq> []"
    "Option.bind (dc_expires d) (parse_instant deps) = Some expires" "parse_instant deps (dc_evaluated d) = Some evaluated"
    "r = receipt_of deps cls reference a d mandate entity evaluated (min expires (received_at deps + RECEIPT_LEASE))"
    and rec: "record_receipt deps r db1 = Inr db'"
    using assms(4) Inr
    by (auto simp: enforce_decision_def denied_with_def Let_def split: if_splits option.splits sum.splits)
  have "insert_receipt (receipt_clock deps) r db1 = Inr db'"
    using rec by (auto simp: record_receipt_def split: if_splits sum.splits)
  with d show ?thesis using Inr enforced.permitted [OF assms(1-3)] by blast
qed

lemma enforceOrderAuthority_enforced:
  assumes "enforceOrderAuthority deps env db cls s native reference = (db', res)"
  shows "enforced deps cls s reference db db' res"
proof (cases "attributeCommitment deps db s native")
  case (Inl e)
  then have "db' = db \<and> (\<exists>outcome. res = Inl outcome)"
    using assms by (cases e) (auto simp: enforceOrderAuthority_def denied_with_def split: if_splits)
  then show ?thesis using enforced.refused by auto
next
  case (Inr v)
  obtain db1 a expires where v: "v = (db1, a, expires)" by (cases v)
  note a = attributeCommitment_Inr [OF Inr [unfolded v]]
  consider "db' = db" "\<exists>outcome. res = Inl outcome" | "db' = db1" "\<exists>outcome. res = Inl outcome"
    | "enforce_decision deps db1 cls reference a = (db', res)"
    using assms Inr v by (auto simp: enforceOrderAuthority_def denied_with_def split: if_splits)
  then show ?thesis
  proof cases
    case 3
    then show ?thesis using a enforce_decision_enforced by blast
  qed (use a enforced.refused enforced.attributed in auto)
qed

lemma enforceOrderAuthority_active:
  "enforceOrderAuthority deps env db cls s native reference = (db', Inr r) \<Longrightarrow>
    \<not> fst (resolveNativeCheckoutEnvironment env) \<and> env_enabled env = Some ''true'' \<and>
    class_subject cls = Some (cs_type s) \<and> visible_text reference"
  by (auto simp: enforceOrderAuthority_def denied_with_def split: if_splits)

text \<open>What a permission writes: one attribution of the subject and one receipt under it.\<close>

definition permission_recorded :: "string \<Rightarrow> commitment_subject \<Rightarrow> string \<Rightarrow> receipt_row \<Rightarrow> trade_a \<Rightarrow> trade_a \<Rightarrow> bool" where
  "permission_recorded cls s reference r db db' \<longleftrightarrow>
     (\<exists>a. attributions db' = attributions db @ [a] \<and> at_subject_type a = cs_type s \<and> at_subject a = cs_id s \<and>
        receipts db' = receipts db @ [r] \<and> ar_id r \<notin> ar_id ` set (receipts db) \<and> ar_attribution r = at_id a \<and>
        ar_class r = cls \<and> ar_reference r = reference \<and> ar_consumed r = None)"

lemma permitted_receipt:
  assumes "enforceOrderAuthority deps env db cls s native reference = (db', Inr r)"
  shows "permission_recorded cls s reference r db db'"
  using enforceOrderAuthority_enforced [OF assms]
proof cases
  case (permitted a db1 d mandate entity expires evaluated)
  have a: "db1 = db\<lparr>attributions := attributions db @ [a]\<rparr>"
    using permitted(1) by (auto simp: insert_attribution_def split: option.splits if_splits)
  have "attributions db' = attributions db1" "receipts db' = receipts db1 @ [r]" "ar_consumed r = None"
      "ar_id r \<notin> ar_id ` set (receipts db1)"
    using permitted(14) by (auto simp: insert_receipt_def find_row_None_iff split: if_splits)
  then show ?thesis using a permitted(2,3,13) by (simp add: permission_recorded_def receipt_of_def)
qed

section \<open>The enforcement as a history of the store\<close>

text \<open>
  The enforcement point writes nothing but an attribution and a receipt, through the tables' own
  guards. Whatever the Control Plane, the token provider and the live facts answer, a denial leaves the
  database as it was or with one accepted attribution of the record, and a permission is one accepted
  attribution followed by one accepted receipt, the receipt it returns.
\<close>

theorem enforcement_is_a_history:
  assumes "enforceOrderAuthority deps env db cls s native reference = (db', res)"
  shows "(\<exists>outcome. res = Inl outcome \<and>
       (db' = db \<or> (\<exists>a. at_subject_type a = cs_type s \<and> at_subject a = cs_id s \<and> trade_a_step sha256 db (Attribute a) = Inr db'))) \<or>
    (\<exists>a r. res = Inr r \<and> at_subject_type a = cs_type s \<and> at_subject a = cs_id s \<and>
       for_each (trade_a_step sha256) db [Attribute a, Authorise (receipt_clock deps) r] = Inr db')"
  using enforceOrderAuthority_enforced [OF assms]
  by cases (auto simp: andThen_Inr_iff simp del: andThen_ensure)

text \<open>
  C15: A permission rests on an AUTHORIZED decision about the attributed seller, and ends with it. When
  the enforcement returns a receipt, enforcement is activated outside production; the decision answers
  the request made for the record's attribution, is AUTHORIZED and for the same tenant, organisation,
  market and binding version; the receipt is unconsumed, its lease has not passed and ends no later
  than the decision's expiry nor thirty seconds after the answer arrived; and the seller is the one the
  record was attributed to before, at no older version.
\<close>

theorem permission_is_an_authorised_decision:
  assumes "enforceOrderAuthority deps env db cls s native reference = (db', Inr r)"
  shows "\<not> fst (resolveNativeCheckoutEnvironment env) \<and> env_enabled env = Some ''true'' \<and>
    class_subject cls = Some (cs_type s) \<and>
    (\<exists>a d expires. a \<in> set (attributions db') \<and> list_ex (attested_for a) (attestations db) \<and>
       resolveOrderAuthority deps (authority_request_for cls reference a) = Some d \<and> dc_outcome d = ''AUTHORIZED'' \<and>
       dc_tenant d = Some (ar_tenant r) \<and> dc_organisation d = Some (ar_organisation r) \<and> dc_market d = Some (ar_market r) \<and>
       ar_binding r = at_binding a \<and> ar_version r = at_version a \<and> ar_decision r = dc_id d \<and>
       Option.bind (dc_expires d) (parse_instant deps) = Some expires \<and> ar_lease r \<le> expires) \<and>
    r \<in> set (receipts db') \<and> ar_class r = cls \<and> ar_reference r = reference \<and> ar_consumed r = None \<and>
    clock deps 2 < ar_lease r \<and> receipt_clock deps < ar_lease r \<and> ar_lease r \<le> received_at deps + 30000 \<and>
    (\<forall>p. current_attribution db (cs_type s) (cs_id s) = Some p \<longrightarrow> at_binding p = ar_binding r \<and> at_version p \<le> ar_version r)"
  using enforceOrderAuthority_enforced [OF assms]
proof cases
  case (permitted a db1 d mandate entity expires evaluated)
  note fields = receipt_of_def attribution_of_def authority_request_for_def
  have a: "db1 = db\<lparr>attributions := attributions db @ [a]\<rparr>" "list_ex (attested_for a) (attestations db)"
    "\<forall>p. current_attribution db (cs_type s) (cs_id s) = Some p \<longrightarrow> at_binding p = at_binding a \<and> at_version p \<le> at_version a"
    using permitted(1-3) by (auto simp: insert_attribution_def split: option.splits if_splits)
  have r: "db' = db1\<lparr>receipts := receipts db1 @ [r]\<rparr>" "ar_consumed r = None" "receipt_clock deps < ar_lease r"
    using permitted(14) by (auto simp: insert_receipt_def split: if_splits)
  have u: "clock deps 2 < min expires (received_at deps + RECEIPT_LEASE)" "dc_tenant d = Some (at_tenant a)"
    "dc_organisation d = Some (at_organisation a)" "dc_market d = Some (at_market a)"
    using permitted(6, 11) by (auto simp: decision_usable_def isCurrentOrderAuthority_def split: if_splits option.splits)
  have "\<exists>a d expires. a \<in> set (attributions db') \<and> list_ex (attested_for a) (attestations db) \<and>
       resolveOrderAuthority deps (authority_request_for cls reference a) = Some d \<and> dc_outcome d = ''AUTHORIZED'' \<and>
       dc_tenant d = Some (ar_tenant r) \<and> dc_organisation d = Some (ar_organisation r) \<and> dc_market d = Some (ar_market r) \<and>
       ar_binding r = at_binding a \<and> ar_version r = at_version a \<and> ar_decision r = dc_id d \<and>
       Option.bind (dc_expires d) (parse_instant deps) = Some expires \<and> ar_lease r \<le> expires"
    using permitted u a r(1) by (intro exI [of _ a] exI [of _ d] exI [of _ expires]) (simp add: fields)
  moreover have "ar_class r = cls \<and> ar_reference r = reference \<and> ar_lease r \<le> received_at deps + 30000 \<and> clock deps 2 < ar_lease r
      \<and> ar_binding r = at_binding a \<and> ar_version r = at_version a"
    using permitted(13) u(1) by (simp add: fields RECEIPT_LEASE_def)
  ultimately show ?thesis using enforceOrderAuthority_active [OF assms] a(3) r by simp
qed

section \<open>The entry gate\<close>

text \<open>
  The gate before every entry point. In production it denies and writes nothing. It lets an
  operation through with no receipt only in a local sandbox that has not opted in, and then writes
  nothing either. In staging a receipt is only ever issued for the two classes a database fence commits,
  on a database read as ENFORCED by a role that is no superuser with every fence active.
\<close>

theorem entry_gate:
  assumes "governOrderEntry resolved env db cls s native reference = (db', res)"
  shows "(tradeARuntime env = PRODUCTION \<longrightarrow> db' = db \<and> res = Inl ''PROTECTED_RUNTIME'') \<and>
    (res = Inr None \<longrightarrow> tradeARuntime env = LOCAL_SANDBOX \<and> db' = db) \<and>
    (\<forall>r. res = Inr (Some r) \<longrightarrow> tradeARuntime env \<in> {PROTECTED, LOCAL_ENFORCED} \<and> env_enabled env = Some ''true'' \<and>
       (tradeARuntime env = PROTECTED \<longrightarrow> cls \<in> {''trade.order.commit'', ''trade.draft-order.finalize''} \<and>
          (\<exists>deps row. resolved = Some (deps, Some (Some (Some row))) \<and> ps_posture row = Some ''ENFORCED'' \<and>
             ps_superuser row = Some False \<and> digits_value (ps_fences row) = 9)))"
proof -
  have posture: "\<exists>row. reader = Some (Some (Some row)) \<and> ps_posture row = Some ''ENFORCED'' \<and> ps_superuser row = Some False \<and>
      digits_value (ps_fences row) = 9" if "assertPersistenceEnforced reader = Inr ()" for reader
    using that by (auto simp: assertPersistenceEnforced_def judgePosture_def TRADE_A_FENCE_TRIGGERS_def split: option.splits if_splits)
  have "tradeARuntime env \<in> {PRODUCTION, PROTECTED, LOCAL_ENFORCED, LOCAL_SANDBOX}"
    by (cases "tradeARuntime env") simp_all
  then show ?thesis
    using assms posture enforceOrderAuthority_active [of _ env db cls s native reference]
    by (auto simp: governOrderEntry_def Let_def PERSISTENCE_FENCED_CLASSES_def split: if_splits option.splits sum.splits prod.splits)
qed

end
