(* ===== verification/Order_Authority_Commit.thy ===== *)
theory Order_Authority_Commit
  imports Order_Authority_Properties
begin

text \<open>
  The enforcement point and the order fence together: the receipt a permission left behind is what the
  database consumes when the order is inserted, as long as its lease lasts.
\<close>

section \<open>A consumption goes through\<close>

lemma traverse_total: "(\<And>x. x \<in> set xs \<Longrightarrow> \<exists>y. f x = Inr y) \<Longrightarrow> \<exists>ys. traverse f xs = Inr ys"
proof (induction xs)
  case (Cons x xs)
  then obtain y ys where "f x = Inr y" "traverse f xs = Inr ys" by (meson list.set_intros)
  then show ?case by simp
qed simp

lemma update_receipts_total:
  assumes "\<And>r. r \<in> set (receipts db) \<Longrightarrow> sel r \<Longrightarrow> ar_consumed r = None \<and> now \<le> ar_lease r"
  shows "\<exists>db'. update_receipts 2 now sel (stamp_receipt now) db = Inr db'"
proof -
  have "\<exists>rs. traverse (\<lambda>r. if sel r then receipt_update 2 now r (stamp_receipt now r) else Inr r) (receipts db) = Inr rs"
  proof (rule traverse_total)
    fix r assume "r \<in> set (receipts db)"
    then show "\<exists>r'. (if sel r then receipt_update 2 now r (stamp_receipt now r) else Inr r) = Inr r'"
      using assms [of r] by (cases "sel r") (simp_all add: receipt_update_def stamp_receipt_def not_less [symmetric])
  qed
  then show ?thesis by (auto simp: update_receipts_def)
qed

definition consumable :: "fence_readings \<Rightarrow> string \<Rightarrow> string \<Rightarrow> string \<Rightarrow> trade_a \<Rightarrow> bool" where
  "consumable t cls type subject db \<longleftrightarrow>
     (\<forall>q \<in> set (receipts db). ar_class q = cls \<and> ar_consumed q = None \<and> attributed_to db type subject q \<longrightarrow>
        fr_consume t \<le> ar_lease q \<and> fr_void t \<le> ar_lease q)"

lemma consume_for_total:
  assumes c: "consumable t cls type subject db" and d: "distinct (map ar_id (receipts db))"
    and r: "r \<in> set (receipts db)" "ar_class r = cls" "ar_consumed r = None" "attributed_to db type subject r"
    and n: "ar_id r \<notin> cm_receipt ` set (commitments db)"
    and k: "commitment_check \<lparr>cm_receipt = ar_id r, cm_class = cls, cm_subject_type = type, cm_subject = subject, cm_order = order\<rparr>"
  shows "\<exists>db'. consume_for t cls type subject (ar_id r) order db = Inr db'"
proof -
  have "ar_consumed q = None \<and> fr_consume t \<le> ar_lease q" if "q \<in> set (receipts db)" "ar_id q = ar_id r" for q
  proof -
    have "q = r" using that d r(1) by (auto simp: distinct_map dest: inj_onD)
    then show ?thesis using r c by (auto simp: consumable_def)
  qed
  then obtain db1 where u1: "update_receipts 2 (fr_consume t) (\<lambda>q. ar_id q = ar_id r) (stamp_receipt (fr_consume t)) db = Inr db1"
    using update_receipts_total [of db "\<lambda>q. ar_id q = ar_id r"] by blast
  obtain rs where rs: "db1 = db\<lparr>receipts := rs\<rparr>"
      "list_all2 (consumed_row 2 (fr_consume t) (\<lambda>q. ar_id q = ar_id r)) (receipts db) rs"
    by (rule update_receipts_Inr [OF u1])
  have "fr_void t \<le> ar_lease q"
    if q: "q \<in> set (receipts db1)" "ar_class q = cls" "ar_consumed q = None" "attributed_to db1 type subject q" for q
  proof -
    obtain p where "p \<in> set (receipts db)" "consumed_row 2 (fr_consume t) (\<lambda>q. ar_id q = ar_id r) p q"
      using list_all2_origin [OF rs(2)] q(1) rs(1) by auto
    then have "q \<in> set (receipts db)" using q(3) by (auto simp: consumed_row_def split: if_splits)
    then show ?thesis using c q rs(1) by (auto simp: consumable_def attributed_to_def)
  qed
  then obtain db2 where u2: "update_receipts 2 (fr_void t) (\<lambda>q. ar_class q = cls \<and> ar_consumed q = None \<and> attributed_to db1 type subject q)
      (stamp_receipt (fr_void t)) db1 = Inr db2"
    using update_receipts_total [of db1 "\<lambda>q. ar_class q = cls \<and> ar_consumed q = None \<and> attributed_to db1 type subject q"] by blast
  obtain rs2 where rs2: "db2 = db1\<lparr>receipts := rs2\<rparr>" by (rule update_receipts_Inr [OF u2])
  have "map ar_id (receipts db2) = map ar_id (receipts db)"
    using update_receipts_spent [OF u1] update_receipts_spent [OF u2] by (metis receipts_spent_ids receipts_spent_trans)
  then have "ar_id r \<in> ar_id ` set (receipts db2)" using r(1) by (metis image_eqI list.set_map)
  moreover have "commitments db2 = commitments db" using rs(1) rs2 by simp
  ultimately show ?thesis using u1 u2 n k by (auto simp: consume_for_def insert_commitment_Inr)
qed

section \<open>The permitted order\<close>

lemma order_candidatesI:
  assumes "r \<in> set (receipts db)" "live_receipt now ''trade.order.commit'' r" "ar_currency r = pg_upper (od_currency n)"
    and "attributed_to db ''cart'' subject r" and "c \<in> set (carts db)" "ct_id c = subject" "open_cart_for n c"
  shows "(r, subject) \<in> set (order_candidates now n db)"
proof -
  obtain a where "a \<in> set (attributions db)" "at_id a = ar_attribution r" "at_subject_type a = ''cart''" "at_subject a = subject"
    using assms(4) by (auto simp: attributed_to_def list_ex_iff)
  with assms show ?thesis by (auto simp: order_candidates_def intro!: bexI [of _ r] bexI [of _ a])
qed

lemma unconsumed_uncommitted:
  assumes ok: "trade_a_ok db" and q: "q \<in> set (receipts db)" "ar_consumed q = None"
  shows "ar_id q \<notin> cm_receipt ` set (commitments db)"
proof
  assume "ar_id q \<in> cm_receipt ` set (commitments db)"
  then obtain k p where "k \<in> set (commitments db)" "ar_id q = cm_receipt k" "p \<in> set (receipts db)" "backed (attributions db) k p"
    using ok unfolding trade_a_ok_def commitments_ok_def list_ex_iff by blast
  moreover from this have "ar_id p = ar_id q" by (simp add: backed_def)
  then have "p = q"
    using ok q(1) calculation(3) inj_onD [of ar_id "set (receipts db)" p q]
    by (simp add: trade_a_ok_def receipts_ok_def distinct_map)
  ultimately show False using q(2) by (simp add: backed_def)
qed

lemma attributed_subject:
  assumes "trade_a_ok db" and "attributed_to db type subject q"
  shows "text_between 1 200 subject"
  using assms by (auto simp: trade_a_ok_def attributions_ok_def attributed_to_def list_ex_iff attribution_check_def)

lemma order_insert_fence_total:
  assumes ok: "trade_a_ok db" and draft: "\<not> od_draft n" and n: "text_between 1 200 (od_id n)"
    and cand: "(r, subject) \<in> set (order_candidates (fr_count t) n db)" "(r, subject) \<in> set (order_candidates (fr_choose t) n db)"
    and one: "\<forall>x \<in> set (order_candidates (fr_count t) n db) \<union> set (order_candidates (fr_choose t) n db). snd x = subject"
    and c: "consumable t ''trade.order.commit'' ''cart'' subject db"
  shows "\<exists>(q :: receipt_row) db'. order_insert_fence session t n db = Inr db' \<and>
    consume_for t ''trade.order.commit'' ''cart'' subject (ar_id q) (od_id n) db = Inr db'"
proof -
  have "set (map snd (order_candidates (fr_count t) n db)) = {subject}"
    using cand(1) one by force
  then have "length (remdups (map snd (order_candidates (fr_count t) n db))) = 1"
    by (simp add: length_remdups_card_conv)
  then obtain x where "remdups (map snd (order_candidates (fr_count t) n db)) = [x]" by (auto simp: length_Suc_conv)
  moreover from this have "x = subject"
    using \<open>set (map snd _) = {subject}\<close> by (metis set_remdups list.set(1,2) singleton_inject)
  ultimately have subjects: "remdups (map snd (order_candidates (fr_count t) n db)) = [subject]" by simp
  have "order_candidates (fr_choose t) n db \<noteq> []" using cand(2) by auto
  then obtain q s where l: "latest (ar_recorded \<circ> fst) (ar_id \<circ> fst) (order_candidates (fr_choose t) n db) = Some (q, s)"
    by (metis latest_None option.exhaust surj_pair)
  have s: "s = subject" using one latest_member [OF l] by force
  note m = order_candidatesD [OF latest_member [OF l], unfolded s]
  have q: "ar_class q = ''trade.order.commit''" "ar_consumed q = None" using m(2) by (simp_all add: live_receipt_def)
  have "distinct (map ar_id (receipts db))" using ok by (simp add: trade_a_ok_def receipts_ok_def)
  moreover have "ar_id q \<notin> cm_receipt ` set (commitments db)" by (rule unconsumed_uncommitted [OF ok m(1) q(2)])
  moreover have "text_between 1 200 subject" by (rule attributed_subject [OF ok m(3)])
  then have "commitment_check \<lparr>cm_receipt = ar_id q, cm_class = ''trade.order.commit'', cm_subject_type = ''cart'',
      cm_subject = subject, cm_order = od_id n\<rparr>"
    using n by (simp add: commitment_check_def)
  ultimately obtain db' where "consume_for t ''trade.order.commit'' ''cart'' subject (ar_id q) (od_id n) db = Inr db'"
    using consume_for_total [OF c _ m(1) q m(3)] by blast
  then show ?thesis using draft subjects l s by (intro exI [of _ q] exI [of _ db']) (simp add: order_insert_fence_def)
qed

text \<open>
  C16: A permission can be used. When the enforcement point has permitted the commitment of a cart in a
  reachable database, an order for that cart that is inserted within the lease is accepted, with a
  commitment that names it and the cart: the cart is still open with the order's scope and the receipt's
  currency, no other cart is a candidate for the order, and no unused receipt of the cart has lapsed.
\<close>

theorem permission_commits_its_cart:
  assumes db: "db = history (trade_a_step sha256) (trade_a_start p) ops"
    and permitted: "enforceOrderAuthority deps env db ''trade.order.commit'' s native reference = (db', Inr r)"
    and order: "\<not> od_draft n" "text_between 1 200 (od_id n)" "find_row od_id (od_id n) (orders db') = None"
    and cart: "c \<in> set (carts db')" "ct_id c = cs_id s" "open_cart_for n c" "ar_currency r = pg_upper (od_currency n)"
    and lease: "fr_count t < ar_lease r" "fr_choose t < ar_lease r"
    and alone: "\<forall>x \<in> set (order_candidates (fr_count t) n db') \<union> set (order_candidates (fr_choose t) n db'). snd x = cs_id s"
    and unlapsed: "consumable t ''trade.order.commit'' ''cart'' (cs_id s) db'"
  shows "\<exists>db''. native_step session db' (Insert_order t n) = Inr db'' \<and>
    (\<exists>k \<in> set (new_commitments db' db''). cm_order k = od_id n \<and> cm_subject k = cs_id s)"
  using enforceOrderAuthority_enforced [OF permitted]
proof cases
  case (permitted a db1 d mandate entity expires evaluated)
  have "trade_a_ok db" using order_authority.history_inv [OF trade_a_ok_start] db by simp
  then have ok: "trade_a_ok db'"
    using insert_receipt_ok [OF insert_attribution_ok [OF _ permitted(1)] permitted(14)] by simp
  note i = insert_authority_receipt_Inr [OF permitted(14)]
  have r: "r \<in> set (receipts db')" "ar_class r = ''trade.order.commit''" "ar_attribution r = at_id a"
    using i(1) permitted(13) by (simp_all add: receipt_of_def)
  have "a \<in> set (attributions db')" "at_subject_type a = ''cart''"
    using i(1) insert_attribution_Inr(1) [OF permitted(1)] permitted(2)
      enforceOrderAuthority_active [OF assms(2)] by (simp_all add: class_subject_def)
  then have "attributed_to db' ''cart'' (cs_id s) r"
    using r(3) permitted(3) by (auto simp: attributed_to_def list_ex_iff)
  then have "(r, cs_id s) \<in> set (order_candidates now n db')" if "now < ar_lease r" for now
    using order_candidatesI [OF r(1) _ cart(4) _ cart(1-3), of now] r(2) i(5) that by (simp add: live_receipt_def)
  then obtain q :: receipt_row and db2 where f: "order_insert_fence session t n db' = Inr db2"
      "consume_for t ''trade.order.commit'' ''cart'' (cs_id s) (ar_id q) (od_id n) db' = Inr db2"
    using order_insert_fence_total [OF ok order(1, 2) _ _ alone unlapsed, of r session] lease by blast
  have "\<exists>k \<in> set (new_commitments db' (db2\<lparr>orders := orders db2 @ [n]\<rparr>)). cm_order k = od_id n \<and> cm_subject k = cs_id s"
    by (rule consume_for_Inr [OF f(2)]) (simp add: new_commitments_def)
  then show ?thesis using f(1) order(3) by simp
qed

end
