(* ===== verification/Control_Plane_Attestations.thy ===== *)
theory Control_Plane_Attestations
  imports Native_Configuration
begin

text \<open>
  The two clients that ask the Control Plane what a digital estate may commit: its commerce profile
  (\<open>src/src/baobab/control-plane/estate-commerce-profile.ts\<close>) and the governed assignment of a native
  resource (\<open>estate-resource-assignment.ts\<close>). The token provider, the HTTP exchange, the pinned schemas
  (decoders: \<open>None\<close> is a payload they refuse), the clock and \<open>Date.parse\<close> are fields of the client; a
  call that throws is \<open>None\<close>. The body a schema checks is determined by the request and the engine.
\<close>

section \<open>The window of an attestation\<close>

definition MAXIMUM_ATTESTATION_MS :: int where
  "MAXIMUM_ATTESTATION_MS = 60000"

definition CLOCK_SKEW_MS :: int where
  "CLOCK_SKEW_MS = 5000"

definition current_window :: "instant \<Rightarrow> instant \<Rightarrow> instant \<Rightarrow> instant option \<Rightarrow> bool" where
  "current_window now issuedAt expiresAt until \<longleftrightarrow>
     \<not> (expiresAt \<le> now \<or> expiresAt \<le> issuedAt \<or> now + CLOCK_SKEW_MS < issuedAt \<or>
        MAXIMUM_ATTESTATION_MS < expiresAt - issuedAt \<or> (case until of None \<Rightarrow> False | Some u \<Rightarrow> u < expiresAt))"

definition attested_window ::
    "(string \<Rightarrow> instant option) \<Rightarrow> instant \<Rightarrow> string \<Rightarrow> string \<Rightarrow> string option \<Rightarrow> (instant \<times> instant \<times> instant option) option" where
  "attested_window parse_date now issued expires until =
     (case (parse_date issued, parse_date expires, map_option parse_date until) of
        (Some i, Some e, None) \<Rightarrow> if current_window now i e None then Some (i, e, None) else None
      | (Some i, Some e, Some (Some u)) \<Rightarrow> if current_window now i e (Some u) then Some (i, e, Some u) else None
      | _ \<Rightarrow> None)"

section \<open>The exchange both clients make\<close>

text \<open>\<open>response.ok\<close> with the parsed body, or nothing where a step of the exchange throws.\<close>

type_synonym 'v exchange = "(bool \<times> 'v) option"

definition denial_code :: "string list \<Rightarrow> string option \<Rightarrow> string" where
  "denial_code KNOWN code = (case code of None \<Rightarrow> ''RESOLUTION_UNAVAILABLE'' | Some c \<Rightarrow> if c \<in> set KNOWN then c else ''RESOLUTION_UNAVAILABLE'')"

section \<open>The commerce profile of an estate\<close>

definition PROFILE_FAILURES :: "string list" where
  "PROFILE_FAILURES = [''PROFILE_NOT_REGISTERED'', ''PROFILE_NOT_ACTIVE'', ''PROFILE_AMBIGUOUS'', ''ESTATE_PROVENANCE_INVALID'',
     ''ENGINE_INSTANCE_NOT_PERMITTED'', ''CALLER_NOT_PERMITTED'', ''RESOLUTION_UNAVAILABLE'']"

record estate_provenance =
  ep_kind :: string
  ep_reference :: string

record profile_request =
  pq_estate :: string
  pq_market :: string
  pq_provenance :: estate_provenance
  pq_correlation :: string

record profile_payload =
  wp_attestation :: string
  wp_profile :: string
  wp_revision :: int
  wp_estate :: string
  wp_tenant :: string
  wp_engine :: string
  wp_market :: string
  wp_model :: string
  wp_issued :: string
  wp_expires :: string
  wp_until :: "string option"
  wp_evidence :: string

record profile_attestation =
  pa_attestation :: string
  pa_profile :: string
  pa_revision :: int
  pa_estate :: string
  pa_tenant :: string
  pa_engine :: string
  pa_market :: string
  pa_model :: string
  pa_issued :: instant
  pa_expires :: instant
  pa_until :: "instant option"
  pa_evidence :: string

record ('q, 'v, 'p) cp_client =
  own_engine :: string
  request_schema :: "'q \<Rightarrow> bool"
  token_obtained :: bool
  exchange_of :: "'q \<Rightarrow> 'v exchange"
  code_of :: "'v \<Rightarrow> string option"
  answer_schema :: "'v \<Rightarrow> 'p option"
  client_now :: instant
  client_parse :: "string \<Rightarrow> instant option"

text \<open>Everything up to the payload: what is never sent, what never arrives, and what the Control Plane denies.\<close>

definition exchanged :: "string list \<Rightarrow> ('q, 'v, 'p) cp_client \<Rightarrow> 'q \<Rightarrow> bool \<Rightarrow> string + 'p" where
  "exchanged KNOWN client q well_formed =
     (if \<not> well_formed \<or> \<not> request_schema client q \<or> \<not> token_obtained client then Inl ''RESOLUTION_UNAVAILABLE''
      else (case exchange_of client q of
              None \<Rightarrow> Inl ''RESOLUTION_UNAVAILABLE''
            | Some (ok, v) \<Rightarrow>
                if \<not> ok then Inl (denial_code KNOWN (code_of client v))
                else (case answer_schema client v of None \<Rightarrow> Inl ''RESOLUTION_UNAVAILABLE'' | Some p \<Rightarrow> Inr p)))"

definition provenance_ok :: "estate_provenance \<Rightarrow> bool" where
  "provenance_ok p \<longleftrightarrow>
     ep_kind p \<in> {''ESTATE_CLIENT_BINDING'', ''GOVERNED_RESOURCE_ASSIGNMENT''} \<and> uuid_pattern (ep_reference p)"

definition profile_answer :: "(profile_request, 'v, profile_payload) cp_client \<Rightarrow> profile_request \<Rightarrow> profile_payload \<Rightarrow> profile_attestation option" where
  "profile_answer client q v =
     (if wp_estate v \<noteq> pq_estate q \<or> wp_engine v \<noteq> own_engine client \<or> wp_market v \<noteq> pq_market q then None
      else map_option (\<lambda>(issuedAt, expiresAt, until).
        \<lparr>pa_attestation = wp_attestation v, pa_profile = wp_profile v, pa_revision = wp_revision v, pa_estate = wp_estate v,
         pa_tenant = wp_tenant v, pa_engine = wp_engine v, pa_market = wp_market v, pa_model = wp_model v,
         pa_issued = issuedAt, pa_expires = expiresAt, pa_until = until, pa_evidence = wp_evidence v\<rparr>)
        (attested_window (client_parse client) (client_now client) (wp_issued v) (wp_expires v) (wp_until v)))"

definition resolve_profile :: "(profile_request, 'v, profile_payload) cp_client \<Rightarrow> profile_request \<Rightarrow> string + profile_attestation" where
  "resolve_profile client q =
     (case exchanged PROFILE_FAILURES client q (provenance_ok (pq_provenance q)) of
        Inl code \<Rightarrow> Inl code
      | Inr v \<Rightarrow> (case profile_answer client q v of None \<Rightarrow> Inl ''RESOLUTION_UNAVAILABLE'' | Some a \<Rightarrow> Inr a))"

section \<open>The assignment of a native resource\<close>

definition ASSIGNMENT_FAILURES :: "string list" where
  "ASSIGNMENT_FAILURES = [''CALLER_NOT_PERMITTED'', ''WORKLOAD_EVIDENCE_INVALID'', ''NATIVE_RESOURCE_NOT_ATTESTED'',
     ''ASSIGNMENT_NOT_FOUND'', ''ASSIGNMENT_NOT_ACTIVE'', ''OPERATION_NOT_PERMITTED'', ''MARKET_NOT_PERMITTED'',
     ''ENGINE_INSTANCE_NOT_PERMITTED'', ''ASSIGNMENT_AMBIGUOUS'', ''RESOLUTION_UNAVAILABLE'']"

datatype assignment_subject =
    WORKLOAD string
  | NATIVE_RESOURCE string string

fun subject_scope :: "assignment_subject \<Rightarrow> string" where
  "subject_scope (WORKLOAD token) = ''WORKLOAD''"
| "subject_scope (NATIVE_RESOURCE reference digest) = ''NATIVE_RESOURCE''"

record assignment_request =
  gq_subject :: assignment_subject
  gq_estate :: string
  gq_market :: string
  gq_operation :: string
  gq_correlation :: string

record assignment_payload =
  gp_attestation :: string
  gp_assignment :: string
  gp_revision :: int
  gp_scope :: string
  gp_workload :: "string option"
  gp_estate :: string
  gp_tenant :: string
  gp_engine :: string
  gp_market :: string
  gp_operation :: string
  gp_issued :: string
  gp_expires :: string
  gp_until :: "string option"
  gp_evidence :: string

record resource_assignment =
  ga_attestation :: string
  ga_assignment :: string
  ga_revision :: int
  ga_scope :: string
  ga_workload :: "string option"
  ga_estate :: string
  ga_tenant :: string
  ga_engine :: string
  ga_market :: string
  ga_operation :: string
  ga_issued :: instant
  ga_expires :: instant
  ga_until :: "instant option"
  ga_evidence :: string

definition assignment_answer ::
    "(assignment_request, 'v, assignment_payload) cp_client \<Rightarrow> assignment_request \<Rightarrow> assignment_payload \<Rightarrow> resource_assignment option" where
  "assignment_answer client q v =
     (if gp_scope v \<noteq> subject_scope (gq_subject q) \<or> gp_estate v \<noteq> gq_estate q \<or> gp_engine v \<noteq> own_engine client \<or>
         gp_market v \<noteq> gq_market q \<or> gp_operation v \<noteq> gq_operation q then None
      else map_option (\<lambda>(issuedAt, expiresAt, until).
        \<lparr>ga_attestation = gp_attestation v, ga_assignment = gp_assignment v, ga_revision = gp_revision v, ga_scope = gp_scope v,
         ga_workload = gp_workload v, ga_estate = gp_estate v, ga_tenant = gp_tenant v, ga_engine = gp_engine v,
         ga_market = gp_market v, ga_operation = gp_operation v, ga_issued = issuedAt, ga_expires = expiresAt,
         ga_until = until, ga_evidence = gp_evidence v\<rparr>)
        (attested_window (client_parse client) (client_now client) (gp_issued v) (gp_expires v) (gp_until v)))"

definition resolve_assignment ::
    "(assignment_request, 'v, assignment_payload) cp_client \<Rightarrow> assignment_request \<Rightarrow> string + resource_assignment" where
  "resolve_assignment client q =
     (case exchanged ASSIGNMENT_FAILURES client q True of
        Inl code \<Rightarrow> Inl code
      | Inr v \<Rightarrow> (case assignment_answer client q v of None \<Rightarrow> Inl ''RESOLUTION_UNAVAILABLE'' | Some a \<Rightarrow> Inr a))"

section \<open>What an accepted attestation is\<close>

lemma attested_window_current:
  "attested_window parse_date now issued expires until = Some (i, e, u) \<Longrightarrow> current_window now i e u"
  by (auto simp: attested_window_def split: option.splits if_splits)

lemma exchanged_Inr:
  "exchanged KNOWN client q w = Inr p \<longleftrightarrow>
    w \<and> request_schema client q \<and> token_obtained client \<and>
    (\<exists>v. exchange_of client q = Some (True, v) \<and> answer_schema client v = Some p)"
  by (auto simp: exchanged_def split: option.splits if_splits)

lemma resolve_profile_Inr:
  assumes "resolve_profile client q = Inr a"
  shows "pa_estate a = pq_estate q \<and> pa_engine a = own_engine client \<and> pa_market a = pq_market q \<and>
    provenance_ok (pq_provenance q) \<and> current_window (client_now client) (pa_issued a) (pa_expires a) (pa_until a)"
proof -
  obtain v where "provenance_ok (pq_provenance q)" "profile_answer client q v = Some a"
    using assms unfolding resolve_profile_def by (auto simp: exchanged_Inr split: sum.splits option.splits)
  then show ?thesis by (auto simp: profile_answer_def dest: attested_window_current split: if_splits)
qed

lemma resolve_assignment_Inr:
  assumes "resolve_assignment client q = Inr a"
  shows "ga_scope a = subject_scope (gq_subject q) \<and> ga_estate a = gq_estate q \<and> ga_engine a = own_engine client \<and>
    ga_market a = gq_market q \<and> ga_operation a = gq_operation q \<and>
    current_window (client_now client) (ga_issued a) (ga_expires a) (ga_until a)"
proof -
  obtain v where "assignment_answer client q v = Some a"
    using assms unfolding resolve_assignment_def by (auto split: sum.splits option.splits)
  then show ?thesis by (auto simp: assignment_answer_def dest: attested_window_current split: if_splits)
qed

end
