(* ===== verification/Commitment_Classification.thy ===== *)
theory Commitment_Classification
  imports Buyer_Context Classification_Tables Control_Plane_Attestations
begin

text \<open>
  Whether a native commitment is B2B or B2C, \<open>src/src/baobab/orders/native-commitment-classification.ts\<close>:
  the provenance of its estate, the checks of the request, the Control Plane's profile, the buyer
  relationship, and the PostgreSQL store that records the answer once. The profile resolver, the clock,
  \<open>Date.parse\<close>, the pinned schema, the identifiers and times the database draws and whether a statement
  reaches it are fields of \<open>classification_deps\<close>.
\<close>

section \<open>Provenance\<close>

record estate_binding =
  eb_id :: string
  eb_revision :: int
  eb_estate :: string
  eb_tenant :: string
  eb_engine :: string
  eb_expires :: instant

datatype estate_proof =
    ESTATE_CLIENT_BINDING estate_binding
  | GOVERNED_RESOURCE_ASSIGNMENT resource_assignment

record proven_statement =
  pv_provenance :: estate_provenance
  pv_estate :: string
  pv_tenant :: string
  pv_engine :: string
  pv_expires :: instant
  pv_market :: "string option"
  pv_operation :: "string option"
  pv_evidence :: "string list"

fun proven :: "estate_proof option \<Rightarrow> proven_statement option" where
  "proven (Some (ESTATE_CLIENT_BINDING b)) = Some
     \<lparr>pv_provenance = \<lparr>ep_kind = ''ESTATE_CLIENT_BINDING'', ep_reference = eb_id b\<rparr>, pv_estate = eb_estate b,
      pv_tenant = eb_tenant b, pv_engine = eb_engine b, pv_expires = eb_expires b, pv_market = None, pv_operation = None,
      pv_evidence = [''cp-estate-binding:'' @ eb_id b @ ''@r'' @ int_text (eb_revision b)]\<rparr>"
| "proven (Some (GOVERNED_RESOURCE_ASSIGNMENT a)) = Some
     \<lparr>pv_provenance = \<lparr>ep_kind = ''GOVERNED_RESOURCE_ASSIGNMENT'', ep_reference = ga_attestation a\<rparr>, pv_estate = ga_estate a,
      pv_tenant = ga_tenant a, pv_engine = ga_engine a, pv_expires = ga_expires a, pv_market = Some (ga_market a),
      pv_operation = Some (ga_operation a),
      pv_evidence = [''cp-resource-assignment:'' @ ga_assignment a @ ''@r'' @ int_text (ga_revision a),
        ''cp-resource-assignment-attestation:'' @ ga_attestation a]\<rparr>"
| "proven None = None"

section \<open>Requests and answers\<close>

datatype classification_buyer =
    BUYER_ORGANISATION execution_context
  | CONSUMER string

record classify_request =
  kq_type :: string
  kq_id :: string
  kq_attribution :: attribution_row
  kq_context :: string
  kq_market :: "string option"
  kq_estate :: "estate_proof option"
  kq_operation :: "string option"
  kq_buyer :: "classification_buyer option"
  kq_correlation :: string

text \<open>The wire record; the columns only Trade keeps are not part of it.\<close>

record wire_classification =
  wc_id :: string
  wc_type :: string
  wc_resource :: string
  wc_origin :: string
  wc_lineage :: "(string \<times> string option) option"
  wc_estate :: string
  wc_tenant :: string
  wc_engine :: string
  wc_market :: string
  wc_model :: string
  wc_profile :: string
  wc_profile_revision :: int
  wc_attestation :: string
  wc_binding :: string
  wc_binding_version :: int
  wc_buyer_model :: string
  wc_organisation :: "string option"
  wc_membership :: "string option"
  wc_consumer :: "string option"
  wc_status :: string
  wc_revision :: int
  wc_classified :: string
  wc_evidence :: "string list"

datatype classification_result = CLASSIFIED wire_classification | REFUSED classification_refusal

definition CLASSIFICATION_DECISION_REASON :: "classification_refusal \<Rightarrow> string" where
  "CLASSIFICATION_DECISION_REASON r =
     (case r of PROFILE_UNAVAILABLE \<Rightarrow> ''SOURCE_UNAVAILABLE'' | BUYER_AUTHORITY_ABSENT \<Rightarrow> ''BUYER_NOT_AUTHORISED''
      | _ \<Rightarrow> ''CONTEXT_NOT_USABLE'')"

definition CP_REFUSAL :: "string \<Rightarrow> classification_refusal" where
  "CP_REFUSAL code =
     (if code \<in> {''PROFILE_NOT_REGISTERED'', ''ESTATE_PROVENANCE_INVALID''} then CLASSIFICATION_ABSENT
      else if code = ''PROFILE_NOT_ACTIVE'' then PROFILE_NOT_ACTIVE
      else if code \<in> {''PROFILE_AMBIGUOUS'', ''ENGINE_INSTANCE_NOT_PERMITTED''} then CLASSIFICATION_CONFLICT
      else PROFILE_UNAVAILABLE)"

record classification_deps =
  cd_engine :: string
  cd_profiles :: "(profile_request \<Rightarrow> string + profile_attestation) option"
  cd_now :: instant
  cd_id :: string
  cd_parse :: "string \<Rightarrow> instant option"
  cd_schema :: "wire_classification \<Rightarrow> bool"
  cd_store :: "nat \<Rightarrow> bool"
  cd_observation :: string
  cd_observed :: instant
  cd_clock :: "nat \<Rightarrow> instant"

section \<open>The store\<close>

definition non_empty :: "string option \<Rightarrow> string option" where
  "non_empty x = (case x of None \<Rightarrow> None | Some s \<Rightarrow> if s = [] then None else Some s)"

definition fromRow :: "classification_row \<Rightarrow> wire_classification" where
  "fromRow c =
     \<lparr>wc_id = cl_id c, wc_type = cl_type c, wc_resource = cl_resource c, wc_origin = cl_origin c,
      wc_lineage = map_option (\<lambda>p. (p, cl_relation c)) (non_empty (cl_parent c)), wc_estate = cl_estate c,
      wc_tenant = cl_tenant c, wc_engine = cl_engine c, wc_market = cl_market c, wc_model = cl_model c,
      wc_profile = cl_profile c, wc_profile_revision = cl_profile_revision c, wc_attestation = cl_attestation c,
      wc_binding = cl_binding c, wc_binding_version = cl_binding_version c, wc_buyer_model = cl_buyer_model c,
      wc_organisation = non_empty (cl_organisation c), wc_membership = non_empty (cl_membership c),
      wc_consumer = non_empty (cl_consumer c), wc_status = cl_status c, wc_revision = cl_revision c,
      wc_classified = iso_string (cl_classified c), wc_evidence = cl_evidence c\<rparr>"

text \<open>The wire fields of a new row, completed as the check against the schema completes them.\<close>

definition wireFields :: "instant \<Rightarrow> classification_row \<Rightarrow> wire_classification" where
  "wireFields now n =
     \<lparr>wc_id = cl_id n, wc_type = cl_type n, wc_resource = cl_resource n, wc_origin = cl_origin n, wc_lineage = None,
      wc_estate = cl_estate n, wc_tenant = cl_tenant n, wc_engine = cl_engine n, wc_market = cl_market n, wc_model = cl_model n,
      wc_profile = cl_profile n, wc_profile_revision = cl_profile_revision n, wc_attestation = cl_attestation n,
      wc_binding = cl_binding n, wc_binding_version = cl_binding_version n, wc_buyer_model = cl_buyer_model n,
      wc_organisation = cl_organisation n, wc_membership = cl_membership n, wc_consumer = cl_consumer n,
      wc_status = ''ACTIVE'', wc_revision = 1, wc_classified = iso_string now, wc_evidence = cl_evidence n\<rparr>"

definition sameCommitment :: "wire_classification \<Rightarrow> classification_row \<Rightarrow> bool" where
  "sameCommitment current row \<longleftrightarrow>
     wc_estate current = cl_estate row \<and> wc_tenant current = cl_tenant row \<and> wc_market current = cl_market row \<and>
     wc_model current = cl_model row \<and> wc_profile current = cl_profile row \<and>
     wc_binding current = cl_binding row \<and> wc_binding_version current = cl_binding_version row \<and>
     wc_buyer_model current = cl_buyer_model row \<and> wc_organisation current = cl_organisation row \<and>
     wc_consumer current = cl_consumer row"

definition observation_of :: "classification_deps \<Rightarrow> profile_request \<Rightarrow> string + profile_attestation \<Rightarrow> observation_row" where
  "observation_of deps q answer =
     \<lparr>ob_id = cd_observation deps, ob_estate = pq_estate q, ob_engine = cd_engine deps, ob_market = pq_market q,
      ob_kind = ep_kind (pq_provenance q), ob_reference = ep_reference (pq_provenance q),
      ob_outcome = (case answer of Inl code \<Rightarrow> code | Inr _ \<Rightarrow> ''ATTESTED''),
      ob_fact = (case answer of
         Inl _ \<Rightarrow> None
       | Inr a \<Rightarrow> Some \<lparr>pf_attestation = pa_attestation a, pf_profile = pa_profile a, pf_revision = pa_revision a,
           pf_tenant = pa_tenant a, pf_model = pa_model a, pf_issued = pa_issued a, pf_expires = pa_expires a,
           pf_until = pa_until a, pf_evidence = pa_evidence a\<rparr>),
      ob_observed = cd_observed deps\<rparr>"

definition store_observe :: "classification_deps \<Rightarrow> observation_row \<Rightarrow> trade_a \<Rightarrow> trade_a option" where
  "store_observe deps n db =
     (if cd_store deps 0 then (case insert_observation (cd_clock deps 0) n db of Inl _ \<Rightarrow> None | Inr db' \<Rightarrow> Some db') else None)"

datatype stored_classification = CREATED wire_classification | EXISTING wire_classification | CHANGED

definition quarantine :: "classification_row \<Rightarrow> classification_row" where
  "quarantine c = c\<lparr>cl_status := ''QUARANTINED'', cl_revision := cl_revision c + 1\<rparr>"

text \<open>
  Rows are read newest first, so the first active one is the latest of the active ones. A statement that
  fails rolls the transaction back and the call throws: \<open>None\<close>.
\<close>

definition store_classify :: "classification_deps \<Rightarrow> classification_row \<Rightarrow> trade_a \<Rightarrow> (trade_a \<times> stored_classification) option" where
  "store_classify deps row db =
     (if \<not> cd_store deps 1 then None
      else (case resource_rows db (cl_type row) (cl_resource row) of
              [] \<Rightarrow>
                (case insert_classification (cd_clock deps 1) row db of
                   Inl _ \<Rightarrow> None
                 | Inr db' \<Rightarrow> Some (db', CREATED (fromRow (row\<lparr>cl_classified := cd_clock deps 1\<rparr>))))
            | rows \<Rightarrow>
                (case latest cl_classified cl_id (filter (\<lambda>c. cl_status c = ''ACTIVE'') rows) of
                   None \<Rightarrow> Some (db, CHANGED)
                 | Some c \<Rightarrow>
                     if sameCommitment (fromRow c) row then Some (db, EXISTING (fromRow c))
                     else (case update_classifications (\<lambda>d. cl_id d = cl_id c \<and> cl_status d = ''ACTIVE'') quarantine db of
                             Inl _ \<Rightarrow> None
                           | Inr db' \<Rightarrow> Some (db', CHANGED)))))"

section \<open>The classification\<close>

definition MARKET :: "string \<Rightarrow> bool" where
  "MARKET = slug"

definition RESOURCE :: "string \<Rightarrow> bool" where
  "RESOURCE s \<longleftrightarrow> length s \<le> 200 \<and>
     (case s of [] \<Rightarrow> False | c # cs \<Rightarrow> alnum_char c \<and> list_all (\<lambda>x. alnum_char x \<or> in_class ''_:.-'' x) cs)"

definition request_belongs :: "classification_deps \<Rightarrow> classify_request \<Rightarrow> bool" where
  "request_belongs deps q \<longleftrightarrow>
     kq_type q \<in> {''cart'', ''draft_order'', ''order''} \<and> RESOURCE (kq_id q) \<and>
     at_subject_type (kq_attribution q) = kq_type q \<and> at_subject (kq_attribution q) = kq_id q \<and>
     at_engine (kq_attribution q) = cd_engine deps \<and> kq_context q = at_context (kq_attribution q)"

definition provenance_fits :: "classification_deps \<Rightarrow> classify_request \<Rightarrow> string \<Rightarrow> proven_statement \<Rightarrow> bool" where
  "provenance_fits deps q market e \<longleftrightarrow>
     pv_engine e = cd_engine deps \<and> pv_tenant e = at_tenant (kq_attribution q) \<and>
     (pv_market e = None \<or> pv_market e = Some market) \<and>
     (pv_operation e = None \<or> pv_operation e = kq_operation q) \<and> cd_now deps < pv_expires e"

definition buyer_problem :: "classification_deps \<Rightarrow> proven_statement \<Rightarrow> classification_buyer option \<Rightarrow> classification_refusal option" where
  "buyer_problem deps e buyer =
     (case buyer of
        Some (BUYER_ORGANISATION c) \<Rightarrow>
          if ec_estate c = pv_estate e \<and> ec_tenant c = pv_tenant e \<and> ec_engine c = cd_engine deps \<and>
             (ep_kind (pv_provenance e) = ''ESTATE_CLIENT_BINDING'' \<longrightarrow> hd (pv_evidence e) \<in> set (ec_evidence c)) \<and>
             (case cd_parse deps (ec_expires c) of None \<Rightarrow> False | Some t \<Rightarrow> cd_now deps < t)
          then None else Some CLASSIFICATION_CONFLICT
      | Some (CONSUMER r) \<Rightarrow> if js_trim r \<noteq> [] then None else Some CLASSIFICATION_ABSENT
      | None \<Rightarrow> Some CLASSIFICATION_ABSENT)"

definition model_problem :: "string \<Rightarrow> classification_buyer \<Rightarrow> classification_refusal option" where
  "model_problem model buyer =
     (case buyer of
        BUYER_ORGANISATION _ \<Rightarrow> if model = ''B2C'' then Some CLASSIFICATION_CONFLICT else None
      | CONSUMER _ \<Rightarrow> if model = ''B2B'' then Some BUYER_AUTHORITY_ABSENT else None)"

definition new_classification ::
    "classification_deps \<Rightarrow> classify_request \<Rightarrow> string \<Rightarrow> proven_statement \<Rightarrow> profile_attestation \<Rightarrow> classification_buyer \<Rightarrow> classification_row" where
  "new_classification deps q market e a buyer =
     \<lparr>cl_id = cd_id deps, cl_type = kq_type q, cl_resource = kq_id q, cl_origin = ''DIRECT'', cl_parent = None, cl_relation = None,
      cl_estate = pv_estate e, cl_tenant = pa_tenant a, cl_engine = cd_engine deps, cl_market = market, cl_model = pa_model a,
      cl_profile = pa_profile a, cl_profile_revision = pa_revision a, cl_attestation = pa_attestation a,
      cl_attribution = at_id (kq_attribution q), cl_binding = at_binding (kq_attribution q),
      cl_binding_version = at_version (kq_attribution q), cl_context = at_context (kq_attribution q),
      cl_buyer_model = (case buyer of BUYER_ORGANISATION _ \<Rightarrow> ''BUYER_ORGANISATION'' | CONSUMER _ \<Rightarrow> ''CONSUMER''),
      cl_organisation = (case buyer of BUYER_ORGANISATION c \<Rightarrow> Some (ec_organisation c) | CONSUMER _ \<Rightarrow> None),
      cl_membership = (case buyer of BUYER_ORGANISATION c \<Rightarrow> Some (ec_membership c) | CONSUMER _ \<Rightarrow> None),
      cl_mandate = None,
      cl_consumer = (case buyer of BUYER_ORGANISATION _ \<Rightarrow> None | CONSUMER r \<Rightarrow> Some r),
      cl_buyer_context = (case buyer of BUYER_ORGANISATION c \<Rightarrow> Some (ec_context c) | CONSUMER _ \<Rightarrow> None),
      cl_status = ''ACTIVE'', cl_revision = 1, cl_classified = cd_now deps,
      cl_evidence =
        [''cp-commerce-profile:'' @ pa_profile a @ ''@r'' @ int_text (pa_revision a),
         ''cp-commerce-profile-attestation:'' @ pa_attestation a] @ pv_evidence e @
        [''trade-attribution:'' @ at_id (kq_attribution q)] @
        (case buyer of BUYER_ORGANISATION c \<Rightarrow> [''trade-buyer-context:'' @ ec_context c] | CONSUMER _ \<Rightarrow> [])\<rparr>"

text \<open>From the Control Plane's attestation on: its evidence is recorded first.\<close>

definition classify_attested ::
    "classification_deps \<Rightarrow> classify_request \<Rightarrow> string \<Rightarrow> proven_statement \<Rightarrow> classification_buyer \<Rightarrow> profile_request \<Rightarrow> profile_attestation
      \<Rightarrow> trade_a \<Rightarrow> trade_a \<times> classification_result" where
  "classify_attested deps q market e buyer p a db =
     (case store_observe deps (observation_of deps p (Inr a)) db of
        None \<Rightarrow> (db, REFUSED CLASSIFICATION_CONFLICT)
      | Some db1 \<Rightarrow>
          if pa_tenant a \<noteq> pv_tenant e then (db1, REFUSED CLASSIFICATION_CONFLICT)
          else (case model_problem (pa_model a) buyer of
                  Some reason \<Rightarrow> (db1, REFUSED reason)
                | None \<Rightarrow>
                    (let row = new_classification deps q market e a buyer in
                     if \<not> cd_schema deps (wireFields (cd_now deps) row) then (db1, REFUSED CLASSIFICATION_CONFLICT)
                     else (case store_classify deps row db1 of
                             None \<Rightarrow> (db1, REFUSED PROFILE_UNAVAILABLE)
                           | Some (db2, CHANGED) \<Rightarrow> (db2, REFUSED CLASSIFICATION_CHANGED)
                           | Some (db2, CREATED w) \<Rightarrow> (db2, CLASSIFIED w)
                           | Some (db2, EXISTING w) \<Rightarrow> (db2, CLASSIFIED w)))))"

definition resolve_and_classify ::
    "classification_deps \<Rightarrow> classify_request \<Rightarrow> string \<Rightarrow> proven_statement \<Rightarrow> classification_buyer \<Rightarrow> trade_a
      \<Rightarrow> trade_a \<times> classification_result" where
  "resolve_and_classify deps q market e buyer db =
     (case cd_profiles deps of
        None \<Rightarrow> (db, REFUSED PROFILE_UNAVAILABLE)
      | Some resolve \<Rightarrow>
          (let p = \<lparr>pq_estate = pv_estate e, pq_market = market, pq_provenance = pv_provenance e, pq_correlation = kq_correlation q\<rparr> in
           case resolve p of
             Inl code \<Rightarrow>
               ((if code \<in> {''RESOLUTION_UNAVAILABLE'', ''CALLER_NOT_PERMITTED''} then db
                 else (case store_observe deps (observation_of deps p (Inl code)) db of None \<Rightarrow> db | Some db1 \<Rightarrow> db1)),
                REFUSED (CP_REFUSAL code))
           | Inr a \<Rightarrow> classify_attested deps q market e buyer p a db))"

definition classifyNativeCommitment :: "classification_deps \<Rightarrow> classify_request \<Rightarrow> trade_a \<Rightarrow> trade_a \<times> classification_result" where
  "classifyNativeCommitment deps q db =
     (if \<not> request_belongs deps q then (db, REFUSED CLASSIFICATION_ABSENT)
      else (case (kq_market q, proven (kq_estate q)) of
              (Some market, Some e) \<Rightarrow>
                if \<not> MARKET market then (db, REFUSED CLASSIFICATION_ABSENT)
                else if \<not> provenance_fits deps q market e then (db, REFUSED CLASSIFICATION_CONFLICT)
                else (case (buyer_problem deps e (kq_buyer q), kq_buyer q) of
                        (Some reason, _) \<Rightarrow> (db, REFUSED reason)
                      | (None, Some buyer) \<Rightarrow> resolve_and_classify deps q market e buyer db
                      | (None, None) \<Rightarrow> (db, REFUSED CLASSIFICATION_ABSENT))
            | _ \<Rightarrow> (db, REFUSED CLASSIFICATION_ABSENT)))"

end
