(* ===== verification/Classification_Properties.thy ===== *)
theory Classification_Properties
  imports Commitment_Classification Trade_A_History
begin

text \<open>
  What the classification of a native commitment promises: it writes only what the tables accept, an
  answer rests on a provenance, an attestation and a buyer that agree, and once a record is classified
  the classification stands or is quarantined, and is never replaced by another.
\<close>

lemma quarantine_retire: "quarantine = retire_row ''QUARANTINED''"
  by (simp add: fun_eq_iff quarantine_def retire_row_def)

lemma store_observe_Some:
  "store_observe deps n db = Some db' \<longleftrightarrow> cd_store deps 0 \<and> insert_observation (cd_clock deps 0) n db = Inr db'"
  by (auto simp: store_observe_def split: sum.splits)

section \<open>The store\<close>




lemma store_classify_effect:
  assumes "store_classify deps row db = Some (db', out)"
  shows "db' = db \<or> trade_a_step sha256 db (Classify (cd_clock deps 1) row) = Inr db' \<or>
    (\<exists>i. trade_a_step sha256 db (Retire i ''QUARANTINED'') = Inr db')"
  using assms
  by (auto simp: store_classify_def quarantine_retire split: if_splits list.splits option.splits sum.splits)

lemma store_classify_answer:
  assumes "store_classify deps row db = Some (db', out)" and "out \<in> {CREATED w, EXISTING w}"
  shows "\<exists>c \<in> set (classifications db'). fromRow c = w \<and> cl_type c = cl_type row \<and> cl_resource c = cl_resource row \<and>
    active c \<and> (sameCommitment w row \<or> c = row\<lparr>cl_classified := cd_clock deps 1\<rparr>)"
proof (cases "resource_rows db (cl_type row) (cl_resource row)")
  case Nil
  let ?c = "row\<lparr>cl_classified := cd_clock deps 1\<rparr>"
  have "insert_classification (cd_clock deps 1) row db = Inr db'" and w: "w = fromRow ?c"
    using assms Nil by (auto simp: store_classify_def split: if_splits sum.splits)
  then have "?c \<in> set (classifications db')" "active ?c"
    by (auto elim!: insert_classification_Inr dest: classification_guardD(3))
  then show ?thesis using w by (intro bexI [of _ ?c]) (simp_all add: active_def)
next
  case (Cons a rows)
  then obtain c where l: "latest cl_classified cl_id (filter (\<lambda>c. cl_status c = ''ACTIVE'') (a # rows)) = Some c"
    and "sameCommitment (fromRow c) row" "db' = db" "w = fromRow c"
    using assms by (auto simp: store_classify_def simp del: latest.simps filter.simps split: if_splits option.splits sum.splits)
  moreover have "c \<in> set (resource_rows db (cl_type row) (cl_resource row))" "active c"
    using latest_member [OF l] Cons by (auto simp: active_def split: if_splits)
  ultimately show ?thesis by (auto simp: resource_rows_def)
qed


section \<open>The outcome of a request\<close>

text \<open>What stood before an answer was recorded.\<close>

definition evidence_agrees :: "classification_deps \<Rightarrow> classify_request \<Rightarrow> string \<Rightarrow> proven_statement \<Rightarrow> classification_buyer \<Rightarrow>
    profile_request \<Rightarrow> profile_attestation \<Rightarrow> bool" where
  "evidence_agrees deps q market e buyer p a \<longleftrightarrow>
     request_belongs deps q \<and> kq_market q = Some market \<and> MARKET market \<and> proven (kq_estate q) = Some e \<and>
     provenance_fits deps q market e \<and> kq_buyer q = Some buyer \<and> buyer_problem deps e (Some buyer) = None \<and>
     p = \<lparr>pq_estate = pv_estate e, pq_market = market, pq_provenance = pv_provenance e, pq_correlation = kq_correlation q\<rparr> \<and>
     (\<exists>resolve. cd_profiles deps = Some resolve \<and> resolve p = Inr a)"

inductive classified ::
    "classification_deps \<Rightarrow> classify_request \<Rightarrow> trade_a \<Rightarrow> trade_a \<Rightarrow> classification_result \<Rightarrow> bool" for deps q db where
  unseen: "classified deps q db db (REFUSED reason)"
| observed: "insert_observation (cd_clock deps 0) n db = Inr db' \<Longrightarrow> classified deps q db db' (REFUSED reason)"
| decided: "evidence_agrees deps q market e buyer p a \<Longrightarrow>
    insert_observation (cd_clock deps 0) (observation_of deps p (Inr a)) db = Inr db1 \<Longrightarrow>
    pa_tenant a = pv_tenant e \<Longrightarrow> model_problem (pa_model a) buyer = None \<Longrightarrow>
    store_classify deps (new_classification deps q market e a buyer) db1 = Some (db', out) \<Longrightarrow>
    result = (case out of CHANGED \<Rightarrow> REFUSED CLASSIFICATION_CHANGED | CREATED w \<Rightarrow> CLASSIFIED w | EXISTING w \<Rightarrow> CLASSIFIED w) \<Longrightarrow>
    classified deps q db db' result"

lemma classify_attested_classified:
  assumes "evidence_agrees deps q market e buyer p a"
    and "classify_attested deps q market e buyer p a db = (db', result)"
  shows "classified deps q db db' result"
proof (cases "store_observe deps (observation_of deps p (Inr a)) db")
  case None
  then show ?thesis using assms(2) by (auto simp: classify_attested_def intro: classified.unseen)
next
  case (Some db1)
  then have o1: "insert_observation (cd_clock deps 0) (observation_of deps p (Inr a)) db = Inr db1"
    by (simp add: store_observe_Some)
  let ?row = "new_classification deps q market e a buyer"
  consider "db' = db1" "\<exists>reason. result = REFUSED reason"
    | out where "pa_tenant a = pv_tenant e" "model_problem (pa_model a) buyer = None" "store_classify deps ?row db1 = Some (db', out)"
      "result = (case out of CHANGED \<Rightarrow> REFUSED CLASSIFICATION_CHANGED | CREATED w \<Rightarrow> CLASSIFIED w | EXISTING w \<Rightarrow> CLASSIFIED w)"
    using assms(2) Some
    by (auto simp: classify_attested_def Let_def split: if_splits option.splits prod.splits stored_classification.splits)
  then show ?thesis
    by cases (use o1 assms(1) in \<open>auto intro: classified.intros\<close>)
qed

lemma classifyNativeCommitment_classified:
  assumes "classifyNativeCommitment deps q db = (db', result)"
  shows "classified deps q db db' result"
proof (cases "\<exists>reason. db' = db \<and> result = REFUSED reason")
  case True
  then show ?thesis using classified.unseen by blast
next
  case False
  then obtain market e buyer where m: "request_belongs deps q" "kq_market q = Some market" "MARKET market"
      "proven (kq_estate q) = Some e" "provenance_fits deps q market e" "kq_buyer q = Some buyer"
      "buyer_problem deps e (Some buyer) = None"
    and r: "resolve_and_classify deps q market e buyer db = (db', result)"
    using assms by (auto simp: classifyNativeCommitment_def split: if_splits option.splits)
  let ?p = "\<lparr>pq_estate = pv_estate e, pq_market = market, pq_provenance = pv_provenance e, pq_correlation = kq_correlation q\<rparr>"
  obtain resolve where resolve: "cd_profiles deps = Some resolve"
    using r False by (auto simp: resolve_and_classify_def split: option.splits)
  show ?thesis
  proof (cases "resolve ?p")
    case (Inl code)
    then show ?thesis
      using r resolve False
      by (auto simp: resolve_and_classify_def Let_def store_observe_Some intro: classified.observed split: if_splits option.splits)
  next
    case (Inr a)
    have "evidence_agrees deps q market e buyer ?p a" using m resolve Inr by (simp add: evidence_agrees_def)
    then show ?thesis
      by (rule classify_attested_classified) (use r resolve Inr in \<open>simp add: resolve_and_classify_def\<close>)
  qed
qed

text \<open>
  The classification writes nothing but evidence. Whatever the Control Plane and the buyer evaluation
  answer, the effect of one request on the database is at most two writes the tables' own guards accept:
  an observation of the Control Plane's answer, then a new classification or the quarantine of an old
  one.
\<close>

theorem classification_is_a_history:
  assumes "classifyNativeCommitment deps q db = (db', result)"
  shows "\<exists>ops. for_each (trade_a_step sha256) db ops = Inr db' \<and>
    (ops = [] \<or> (\<exists>n. ops = [Observe (cd_clock deps 0) n]) \<or>
     (\<exists>n c. ops = [Observe (cd_clock deps 0) n, Classify (cd_clock deps 1) c]) \<or>
     (\<exists>n i. ops = [Observe (cd_clock deps 0) n, Retire i ''QUARANTINED'']))"
  using classifyNativeCommitment_classified [OF assms]
proof cases
  case unseen
  then show ?thesis by (intro exI [of _ "[]"]) simp
next
  case (observed n)
  then show ?thesis by (intro exI [of _ "[Observe (cd_clock deps 0) n]"]) simp
next
  case (decided market e buyer p a db1 out)
  let ?n = "observation_of deps p (Inr a)" and ?row = "new_classification deps q market e a buyer"
  consider "db' = db1" | "trade_a_step sha256 db1 (Classify (cd_clock deps 1) ?row) = Inr db'"
    | i where "trade_a_step sha256 db1 (Retire i ''QUARANTINED'') = Inr db'"
    using store_classify_effect [OF decided(5)] by blast
  then show ?thesis
  proof cases
    case 1
    then show ?thesis using decided(2) by (intro exI [of _ "[Observe (cd_clock deps 0) ?n]"]) simp
  next
    case 2
    then show ?thesis
      using decided(2) by (intro exI [of _ "[Observe (cd_clock deps 0) ?n, Classify (cd_clock deps 1) ?row]"]) simp
  next
    case (3 i)
    then show ?thesis using decided(2) by (intro exI [of _ "[Observe (cd_clock deps 0) ?n, Retire i ''QUARANTINED'']"]) simp
  qed
qed

text \<open>
  C13: A classification rests on evidence that agrees. When a request is answered CLASSIFIED, the estate
  has an unexpired provenance for this engine and the tenant of the record's seller attribution, the
  Control Plane attested a commerce profile for that very provenance, estate and Market, the model is the
  attested one, and Trade established the matching buyer itself: for B2B a buyer execution context of the
  same estate, tenant and engine that has not expired, for B2C a consumer that is named. The answer is an
  active row of the record, with the seller binding and version of the attribution.
\<close>

theorem classified_rests_on_evidence:
  assumes "classifyNativeCommitment deps q db = (db', CLASSIFIED w)"
  shows "\<exists>e buyer a p resolve. proven (kq_estate q) = Some e \<and> kq_buyer q = Some buyer \<and>
    cd_profiles deps = Some resolve \<and> resolve p = Inr a \<and> pq_estate p = pv_estate e \<and> pq_provenance p = pv_provenance e \<and>
    kq_market q = Some (pq_market p) \<and>
    pv_engine e = cd_engine deps \<and> cd_now deps < pv_expires e \<and> pv_tenant e = at_tenant (kq_attribution q) \<and>
    pa_tenant a = pv_tenant e \<and>
    (pa_model a = ''B2B'' \<longrightarrow> (\<exists>c t. buyer = BUYER_ORGANISATION c \<and> ec_estate c = pv_estate e \<and> ec_tenant c = pv_tenant e \<and>
       ec_engine c = cd_engine deps \<and> cd_parse deps (ec_expires c) = Some t \<and> cd_now deps < t)) \<and>
    (pa_model a = ''B2C'' \<longrightarrow> (\<exists>r. buyer = CONSUMER r \<and> js_trim r \<noteq> [])) \<and>
    (\<exists>c \<in> set (classifications db'). fromRow c = w \<and> cl_status c = ''ACTIVE'' \<and> cl_type c = kq_type q \<and> cl_resource c = kq_id q \<and>
       cl_model c = pa_model a \<and> cl_estate c = pv_estate e \<and> cl_tenant c = pa_tenant a \<and>
       cl_binding c = at_binding (kq_attribution q) \<and> cl_binding_version c = at_version (kq_attribution q))"
  using classifyNativeCommitment_classified [OF assms]
proof cases
  case (decided market e buyer p a db1 out)
  let ?row = "new_classification deps q market e a buyer"
  have "out \<in> {CREATED w, EXISTING w}" using decided(6) by (auto split: stored_classification.splits)
  then obtain c where c: "c \<in> set (classifications db')" "fromRow c = w" "cl_type c = cl_type ?row" "cl_resource c = cl_resource ?row"
      "active c" "sameCommitment w ?row \<or> c = ?row\<lparr>cl_classified := cd_clock deps 1\<rparr>"
    using store_classify_answer [OF decided(5)] by blast
  have row: "\<exists>c \<in> set (classifications db'). fromRow c = w \<and> cl_status c = ''ACTIVE'' \<and> cl_type c = kq_type q \<and> cl_resource c = kq_id q \<and>
       cl_model c = pa_model a \<and> cl_estate c = pv_estate e \<and> cl_tenant c = pa_tenant a \<and>
       cl_binding c = at_binding (kq_attribution q) \<and> cl_binding_version c = at_version (kq_attribution q)"
    using c by (intro bexI [of _ c]) (auto simp: sameCommitment_def new_classification_def fromRow_def active_def)
  have b2b: "pa_model a = ''B2B'' \<longrightarrow> (\<exists>c t. buyer = BUYER_ORGANISATION c \<and> ec_estate c = pv_estate e \<and> ec_tenant c = pv_tenant e \<and>
       ec_engine c = cd_engine deps \<and> cd_parse deps (ec_expires c) = Some t \<and> cd_now deps < t)"
    using decided(1, 4)
    by (auto simp: model_problem_def evidence_agrees_def buyer_problem_def split: classification_buyer.splits if_splits option.splits)
  have b2c: "pa_model a = ''B2C'' \<longrightarrow> (\<exists>r. buyer = CONSUMER r \<and> js_trim r \<noteq> [])"
    using decided(1, 4)
    by (auto simp: model_problem_def evidence_agrees_def buyer_problem_def split: classification_buyer.splits if_splits)
  obtain resolve where resolve: "cd_profiles deps = Some resolve" "resolve p = Inr a"
    using decided(1) unfolding evidence_agrees_def by blast
  have rest: "proven (kq_estate q) = Some e" "kq_buyer q = Some buyer" "pq_estate p = pv_estate e"
      "pq_provenance p = pv_provenance e" "kq_market q = Some (pq_market p)" "pv_engine e = cd_engine deps"
      "cd_now deps < pv_expires e" "pv_tenant e = at_tenant (kq_attribution q)"
    using decided(1) unfolding evidence_agrees_def provenance_fits_def by auto
  show ?thesis
    by (intro exI [of _ e] exI [of _ buyer] exI [of _ a] exI [of _ p] exI [of _ resolve] conjI)
      (fact resolve rest decided(3) b2b b2c row)+
qed


end
