(* ===== verification/Trade_Route.thy ===== *)
theory Trade_Route
  imports Order_Authority
begin

text \<open>
  The HTTP boundary of the native order routes: the classification of a request
  (\<open>src/src/baobab/orders/trade-a-entry-points.ts\<close>), the problem document of a denial, and the guard
  that stands before every native handler (\<open>trade-order-route-guard.ts\<close>). A regular expression is the
  check of the segments between slashes; letters are ASCII. The lookup of a draft order and the random
  identifier of a document are arguments.
\<close>

section \<open>Paths\<close>

definition ascii_lower :: "string \<Rightarrow> string" where
  "ascii_lower = map (\<lambda>c. if upper_char c then char_of (char_code c + 32) else c)"

definition ascii_upper :: "string \<Rightarrow> string" where
  "ascii_upper = map (\<lambda>c. if lower_char c then char_of (char_code c - 32) else c)"

fun split_slash :: "string \<Rightarrow> string list" where
  "split_slash [] = [[]]"
| "split_slash (c # cs) =
     (if c = CHR ''/'' then [] # split_slash cs
      else (case split_slash cs of [] \<Rightarrow> [[c]] | s # ss \<Rightarrow> (c # s) # ss))"

fun collapse :: "string \<Rightarrow> string" where
  "collapse (c # d # cs) = (if c = CHR ''/'' \<and> d = CHR ''/'' then collapse (d # cs) else c # collapse (d # cs))"
| "collapse s = s"

definition strip_slashes :: "string \<Rightarrow> string" where
  "strip_slashes s = rev (dropWhile (\<lambda>c. c = CHR ''/'') (rev s))"

definition normalise :: "string \<Rightarrow> string" where
  "normalise path =
     (let collapsed = collapse (takeWhile (\<lambda>c. c \<noteq> CHR ''?'' \<and> c \<noteq> CHR ''#'') path) in
      if 1 < length collapsed then strip_slashes collapsed else collapsed)"

section \<open>The classification of a route\<close>

datatype enforcement = Workflow | Route

datatype route_decision =
    Pass
  | Trade_A string enforcement string
  | Denied_route string

definition MUTATIONS :: "string list" where
  "MUTATIONS = [''POST'', ''PUT'', ''PATCH'', ''DELETE'']"

definition PROTECTED_ORDER_PREFIXES :: "string list" where
  "PROTECTED_ORDER_PREFIXES =
     [''/admin/orders'', ''/admin/draft-orders'', ''/admin/order-edits'', ''/admin/order-changes'', ''/admin/claims'',
      ''/admin/exchanges'', ''/admin/returns'', ''/admin/payments'', ''/admin/payment-collections'', ''/admin/fulfillments'',
      ''/admin/reservations'', ''/store/carts'', ''/store/orders'', ''/store/returns'', ''/store/payment-collections'']"

text \<open>\<open>route(pattern).exec(path)\<close>: the segment named by \<open>:id\<close>, or the empty text where the pattern names none.\<close>

fun captured :: "string list \<Rightarrow> string list \<Rightarrow> string" where
  "captured (p # ps) (s # ss) = (if p = '':id'' then s else captured ps ss)"
| "captured _ _ = []"

definition route_exec :: "string \<Rightarrow> string \<Rightarrow> string option" where
  "route_exec pattern path =
     (if list_all2 (\<lambda>p s. if p = '':id'' then s \<noteq> [] else ascii_lower s = p) (split_slash pattern) (split_slash path)
      then Some (captured (split_slash pattern) (split_slash path)) else None)"

record classified_route =
  cr_method :: string
  cr_path :: string
  cr_class :: "(string \<times> enforcement) option"

definition CLASSIFIED_ROUTES :: "classified_route list" where
  "CLASSIFIED_ROUTES =
     [\<lparr>cr_method = ''POST'', cr_path = ''/store/carts/:id/complete'', cr_class = Some (''trade.order.commit'', Workflow)\<rparr>,
      \<lparr>cr_method = ''POST'', cr_path = ''/admin/draft-orders/:id/convert-to-order'',
       cr_class = Some (''trade.draft-order.finalize'', Route)\<rparr>,
      \<lparr>cr_method = ''POST'', cr_path = ''/admin/orders/export'', cr_class = None\<rparr>]"

fun classified_route_for :: "classified_route list \<Rightarrow> string \<Rightarrow> string \<Rightarrow> route_decision option" where
  "classified_route_for [] verb path = None"
| "classified_route_for (c # cs) verb path =
     (case (if cr_method c = verb then route_exec (cr_path c) path else None) of
        None \<Rightarrow> classified_route_for cs verb path
      | Some i \<Rightarrow> Some (case cr_class c of None \<Rightarrow> Pass | Some (cls, by) \<Rightarrow> Trade_A cls by i))"

text \<open>The last segment after the cart's is not \<open>complete\<close>.\<close>

fun cart_segments :: "string list \<Rightarrow> bool" where
  "cart_segments (s0 # s1 # s2 # rest) =
     (s0 = [] \<and> ascii_lower s1 = ''store'' \<and> ascii_lower s2 = ''carts'' \<and>
      list_all (\<lambda>s. s \<noteq> []) rest \<and> (length rest \<le> 1 \<or> ascii_lower (last rest) \<noteq> ''complete''))"
| "cart_segments _ = False"

definition CART_BUILDING :: "string \<Rightarrow> bool" where
  "CART_BUILDING path = cart_segments (split_slash path)"

definition protected_path :: "string \<Rightarrow> bool" where
  "protected_path p \<longleftrightarrow>
     list_ex (\<lambda>prefix. ascii_lower p = prefix \<or> has_prefix (prefix @ ''/'') (ascii_lower p)) PROTECTED_ORDER_PREFIXES"

definition classifyTradeRoute :: "string \<Rightarrow> string \<Rightarrow> route_decision" where
  "classifyTradeRoute meth path =
     (let verb = ascii_upper meth; p = normalise path in
      if \<not> protected_path p then Pass
      else if verb \<notin> set MUTATIONS then Pass
      else (case classified_route_for CLASSIFIED_ROUTES verb p of
              Some d \<Rightarrow> d
            | None \<Rightarrow> if CART_BUILDING p then Pass else Denied_route ''UNCATALOGUED_OPERATION''))"

section \<open>A denial as an answer\<close>

text \<open>What reaches an error handler: a denial, an object with a message, or anything else.\<close>

datatype thrown_error = Order_authority_denied string | With_message string | Other_error

fun drop_prefix :: "string \<Rightarrow> string \<Rightarrow> string option" where
  "drop_prefix [] s = Some s"
| "drop_prefix (p # ps) s = (case s of [] \<Rightarrow> None | c # cs \<Rightarrow> if c = p then drop_prefix ps cs else None)"

definition DENIAL :: "string \<Rightarrow> string option" where
  "DENIAL message =
     (case drop_prefix ''Trade-A order authority denied ('' message of
        None \<Rightarrow> None
      | Some t \<Rightarrow>
          (let code = takeWhile (\<lambda>c. upper_char c \<or> digit_char c \<or> c = CHR ''_'') t in
           case code of
             [] \<Rightarrow> None
           | c # _ \<Rightarrow>
               if upper_char c \<and> length code \<le> 64 \<and> has_prefix '')'' (drop (length code) t) then Some code else None))"

definition word_char :: "char \<Rightarrow> bool" where
  "word_char c \<longleftrightarrow> alnum_char c \<or> c = CHR ''_''"

text \<open>\<open>\b\<close> before the mark: it starts the message or follows a character that is no word character.\<close>

fun FENCE_after :: "bool \<Rightarrow> string \<Rightarrow> bool" where
  "FENCE_after word [] = False"
| "FENCE_after word (c # cs) = ((\<not> word \<and> has_prefix ''Trade-A denied:'' (c # cs)) \<or> FENCE_after (word_char c) cs)"

definition FENCE :: "string \<Rightarrow> bool" where
  "FENCE = FENCE_after False"

fun tradeADenialOf :: "thrown_error \<Rightarrow> string option" where
  "tradeADenialOf (Order_authority_denied outcome) = Some outcome"
| "tradeADenialOf (With_message message) =
     (case DENIAL message of Some outcome \<Rightarrow> Some outcome
      | None \<Rightarrow> if FENCE message then Some ''PERSISTENCE_FENCE_REFUSED'' else None)"
| "tradeADenialOf Other_error = None"

record problem_document =
  pd_type :: string
  pd_title :: string
  pd_status :: nat
  pd_detail :: string
  pd_instance :: string
  pd_code :: string
  pd_correlation :: string
  pd_retryable :: bool

definition correlation_uuid :: "string \<Rightarrow> bool" where
  "correlation_uuid s \<longleftrightarrow> length s = 36 \<and>
     list_all (\<lambda>i. if i \<in> {8, 13, 18, 23} then s ! i = CHR ''-''
       else if i = 14 then code_between 49 56 (s ! i)
       else if i = 19 then s ! i \<in> set ''89abAB''
       else lower_hex_char (s ! i) \<or> code_between 65 70 (s ! i)) [0..<36]"

definition tradeProblemDocument :: "thrown_error \<Rightarrow> string \<Rightarrow> string option \<Rightarrow> string \<Rightarrow> problem_document" where
  "tradeProblemDocument error path correlationId random =
     (let problem = tradeAuthorityProblem (case error of Order_authority_denied outcome \<Rightarrow> outcome | _ \<Rightarrow> ''UNAVAILABLE'') in
      \<lparr>pd_type = ''https://problems.baobab-platform.com/trade/'' @
         map (\<lambda>c. if c = CHR ''_'' then CHR ''-'' else c) (ascii_lower (ap_code problem)),
       pd_title = (if ap_status problem = 503 then ''Trade authority unavailable''
         else if ap_status problem = 409 then ''Invalid order lifecycle state'' else ''Trade operation not authorised''),
       pd_status = ap_status problem, pd_detail = ap_detail problem, pd_instance = take 512 (normalise path),
       pd_code = ap_code problem,
       pd_correlation = (case correlationId of Some c \<Rightarrow> if correlation_uuid c then c else random | None \<Rightarrow> random),
       pd_retryable = (ap_status problem = 503)\<rparr>)"

section \<open>The guard\<close>

record draft_record =
  dr_draft :: bool
  dr_channel :: "string option"
  dr_region :: "string option"
  dr_currency :: "string option"

definition text_or_empty :: "string option \<Rightarrow> string" where
  "text_or_empty x = (case x of None \<Rightarrow> [] | Some s \<Rightarrow> s)"

text \<open>\<open>draftScope\<close>: the lookup may throw, and may find nothing or an order that is no draft.\<close>

definition draftScope :: "(string \<Rightarrow> draft_record option option) \<Rightarrow> string \<Rightarrow> thrown_error + commitment_scope" where
  "draftScope retrieve i =
     (case retrieve i of
        None \<Rightarrow> Inl Other_error
      | Some None \<Rightarrow> Inl (Order_authority_denied ''INVALID_LIFECYCLE_STATE'')
      | Some (Some d) \<Rightarrow>
          if \<not> dr_draft d then Inl (Order_authority_denied ''INVALID_LIFECYCLE_STATE'')
          else Inr \<lparr>ns_channel = text_or_empty (dr_channel d), ns_region = text_or_empty (dr_region d),
                 ns_currency = text_or_empty (dr_currency d)\<rparr>)"

datatype guard_outcome = Next_handler | Respond thrown_error

definition route_guard ::
    "('v enforcement_deps \<times> (posture_row option) option option) option \<Rightarrow> (string \<Rightarrow> draft_record option option) \<Rightarrow> string
      \<Rightarrow> authority_environment \<Rightarrow> trade_a \<Rightarrow> string \<Rightarrow> string \<Rightarrow> trade_a \<times> guard_outcome" where
  "route_guard resolved retrieve uuid env db meth path =
     (let runtime = tradeARuntime env; local = runtime \<in> {LOCAL_SANDBOX, LOCAL_ENFORCED} in
      case classifyTradeRoute meth path of
        Pass \<Rightarrow> (db, Next_handler)
      | Denied_route outcome \<Rightarrow>
          if local then (db, Next_handler)
          else (db, Respond (Order_authority_denied (if runtime = PRODUCTION then ''PROTECTED_RUNTIME'' else outcome)))
      | Trade_A cls Workflow i \<Rightarrow>
          if runtime = PRODUCTION then (db, Respond (Order_authority_denied ''PROTECTED_RUNTIME''))
          else if \<not> local \<and> cls \<notin> set PERSISTENCE_FENCED_CLASSES
          then (db, Respond (Order_authority_denied ''PERSISTENCE_BOUNDARY_NOT_CERTIFIED''))
          else (db, Next_handler)
      | Trade_A cls Route i \<Rightarrow>
          if runtime = LOCAL_SANDBOX then (db, Next_handler)
          else
            (case (if runtime = PRODUCTION \<or> (\<not> local \<and> cls \<notin> set PERSISTENCE_FENCED_CLASSES)
                   then Inr \<lparr>ns_channel = [], ns_region = [], ns_currency = []\<rparr> else draftScope retrieve i) of
               Inl error \<Rightarrow> (db, Respond error)
             | Inr native \<Rightarrow>
                 (let s = \<lparr>cs_type = ''draft_order'', cs_id = i\<rparr> in
                  case governOrderEntry resolved env db cls s native (tradeAOperationReference s ''finalize'' uuid) of
                    (db', Inl outcome) \<Rightarrow> (db', Respond (Order_authority_denied outcome))
                  | (db', Inr _) \<Rightarrow> (db', Next_handler))))"

text \<open>\<open>createTradeAErrorHandler\<close>: the answer to a denial, unless the headers are out.\<close>

definition tradeAErrorHandler :: "thrown_error \<Rightarrow> bool \<Rightarrow> guard_outcome option" where
  "tradeAErrorHandler error headersSent =
     (case tradeADenialOf error of
        None \<Rightarrow> None
      | Some outcome \<Rightarrow> if headersSent then None else Some (Respond (Order_authority_denied outcome)))"

end
