(* ===== verification/Trade_Route_Properties.thy ===== *)
theory Trade_Route_Properties
  imports Trade_Route Order_Authority_Properties
begin

text \<open>
  What the HTTP boundary promises: no spelling of a path escapes its classification, outside a local
  runtime a mutation of an order surface goes on only where the authority lets it, and a denial is
  recognised again after a workflow has turned it into a message.
\<close>

section \<open>Spellings of a path\<close>

definition plain_char :: "char \<Rightarrow> bool" where
  "plain_char c \<longleftrightarrow> c \<noteq> CHR ''/'' \<and> c \<noteq> CHR ''?'' \<and> c \<noteq> CHR ''#''"

definition segment :: "string \<Rightarrow> bool" where
  "segment s \<longleftrightarrow> s \<noteq> [] \<and> list_all plain_char s"

fun path_of :: "string list \<Rightarrow> string" where
  "path_of [] = []"
| "path_of (s # ss) = CHR ''/'' # s @ path_of ss"

lemma split_slash_plain: "list_all plain_char s \<Longrightarrow> split_slash (s @ t) = (s @ hd (split_slash t)) # tl (split_slash t)"
proof (induction s)
  case Nil
  have "split_slash t \<noteq> []" by (cases t) (auto split: list.splits)
  then show ?case by simp
next
  case (Cons c s)
  then show ?case by (simp add: plain_char_def)
qed

lemma split_slash_path: "list_all segment ss \<Longrightarrow> split_slash (path_of ss) = [] # ss"
  by (induction ss) (simp_all add: segment_def split_slash_plain)

lemma collapse_plain: "list_all plain_char s \<Longrightarrow> collapse (s @ t) = s @ collapse t"
proof (induction s)
  case (Cons c s)
  then show ?case by (cases "s @ t") (auto simp: plain_char_def)
qed simp

lemma collapse_slashes: "collapse (CHR ''/'' # replicate n (CHR ''/'')) = [CHR ''/'']"
  by (induction n) simp_all

lemma collapse_path:
  assumes "list_all segment ss" and "ss \<noteq> []"
  shows "collapse (path_of ss @ replicate n (CHR ''/'')) = path_of ss @ (if n = 0 then [] else [CHR ''/''])"
  using assms
proof (induction ss)
  case (Cons s ss)
  then obtain c s' where s: "s = c # s'" "c \<noteq> CHR ''/''" "list_all plain_char s"
    by (auto simp: segment_def plain_char_def neq_Nil_conv)
  have "collapse (path_of ss @ replicate n (CHR ''/'')) = path_of ss @ (if n = 0 then [] else [CHR ''/''])"
    using Cons collapse_slashes [of "n - 1"] by (cases "ss = []") (auto simp: gr0_conv_Suc split: nat.splits)
  then show ?case using s(1, 2) collapse_plain [OF s(3), of "path_of ss @ replicate n (CHR ''/'')"] by simp
qed simp

lemma strip_path:
  assumes "list_all segment ss" and "ss \<noteq> []"
  shows "strip_slashes (path_of ss @ (if n = 0 then [] else [CHR ''/''])) = path_of ss"
proof -
  obtain ts s where ts: "ss = ts @ [s]" using assms(2) by (metis rev_exhaust)
  then have s: "s \<noteq> []" "last s \<noteq> CHR ''/''" using assms(1) by (auto simp: segment_def list_all_iff plain_char_def)
  have "path_of ss = path_of ts @ CHR ''/'' # s" unfolding ts by (induction ts) simp_all
  then have p: "path_of ss = (path_of ts @ CHR ''/'' # butlast s) @ [last s]" using s(1) by simp
  have "rev (path_of ss) = last s # rev (path_of ts @ CHR ''/'' # butlast s)" unfolding p by simp
  then have "dropWhile (\<lambda>c. c = CHR ''/'') (rev (path_of ss)) = rev (path_of ss)" using s(2) by simp
  then show ?thesis by (simp add: strip_slashes_def)
qed

text \<open>What follows the path in the request: slashes, then a query or a fragment.\<close>

lemma plain_unmarked: "list_all plain_char s \<Longrightarrow> \<forall>c \<in> set s. c \<noteq> CHR ''?'' \<and> c \<noteq> CHR ''#''"
  unfolding list_all_iff plain_char_def by blast

lemma path_unmarked: "list_all segment ss \<Longrightarrow> \<forall>c \<in> set (path_of ss). c \<noteq> CHR ''?'' \<and> c \<noteq> CHR ''#''"
  by (induction ss) (auto simp: segment_def dest: plain_unmarked)

lemma normalise_path:
  assumes "list_all segment ss" and "ss \<noteq> []" and "q = [] \<or> hd q \<in> {CHR ''?'', CHR ''#''}"
  shows "normalise (path_of ss @ replicate n (CHR ''/'') @ q) = path_of ss"
proof -
  let ?p = "\<lambda>c. c \<noteq> CHR ''?'' \<and> c \<noteq> CHR ''#''"
  have "\<forall>c \<in> set (path_of ss @ replicate n (CHR ''/'')). ?p c"
    using path_unmarked [OF assms(1)] by (simp add: ball_Un)
  then have "takeWhile ?p ((path_of ss @ replicate n (CHR ''/'')) @ q) = (path_of ss @ replicate n (CHR ''/'')) @ takeWhile ?p q"
    by (intro takeWhile_append2) blast
  moreover have "takeWhile ?p q = []" using assms(3) by (cases q) auto
  ultimately have t: "takeWhile ?p (path_of ss @ replicate n (CHR ''/'') @ q) = path_of ss @ replicate n (CHR ''/'')" by simp
  obtain s ts where ts: "ss = s # ts" using assms(2) by (cases ss) auto
  have "1 < length (path_of ss @ (if n = 0 then [] else [CHR ''/'']))" using assms(1) ts by (cases s) (auto simp: segment_def)
  then show ?thesis
    using t collapse_path [OF assms(1, 2), of n] strip_path [OF assms(1, 2), of n] by (simp add: normalise_def Let_def)
qed

section \<open>Letter case\<close>

definition lower_unit :: "char \<Rightarrow> char" where
  "lower_unit c = (if upper_char c then char_of (char_code c + 32) else c)"

lemma ascii_lower_map: "ascii_lower = map lower_unit"
  by (simp add: fun_eq_iff ascii_lower_def lower_unit_def)

lemma lower_unit_code: "char_code (lower_unit c) = (if upper_char c then char_code c + 32 else char_code c)"
  by (auto simp: lower_unit_def char_code_def upper_char_def code_between_iff of_char_of take_bit_int_eq_self)

lemma lower_unit_idem: "lower_unit (lower_unit c) = lower_unit c"
proof -
  have "\<not> upper_char (lower_unit c)"
    by (auto simp: upper_char_def code_between_iff lower_unit_code)
  then show ?thesis by (simp add: lower_unit_def [of "lower_unit c"])
qed

lemma lower_lower [simp]: "ascii_lower (ascii_lower s) = ascii_lower s"
  by (simp add: ascii_lower_map lower_unit_idem)

lemma char_code_inject: "char_code c = char_code d \<longleftrightarrow> c = d"
  by (simp add: char_code_def)

lemma lower_unit_mark: "\<not> lower_char d \<Longrightarrow> \<not> upper_char d \<Longrightarrow> lower_unit c = d \<longleftrightarrow> c = d"
  by (auto simp: char_code_inject [symmetric] lower_unit_code upper_char_def lower_char_def code_between_iff)

lemma lower_unit_plain: "plain_char (lower_unit c) = plain_char c"
  by (simp add: plain_char_def lower_unit_mark lower_char_def upper_char_def code_between_iff char_code_def)

lemma lower_segment: "list_all segment ss \<Longrightarrow> list_all segment (map ascii_lower ss)"
  by (auto simp: list_all_iff segment_def ascii_lower_map lower_unit_plain)

lemma lower_unit_slash: "lower_unit (CHR ''/'') = CHR ''/''"
  by (simp add: lower_unit_mark lower_char_def upper_char_def code_between_iff char_code_def)

lemma lower_path: "ascii_lower (path_of ss) = path_of (map ascii_lower ss)"
  by (induction ss) (simp_all add: ascii_lower_map lower_unit_slash)

lemma lower_split: "split_slash (ascii_lower p) = map ascii_lower (split_slash p)"
proof (induction p)
  case (Cons c p)
  have "lower_unit c = CHR ''/'' \<longleftrightarrow> c = CHR ''/''"
    by (simp add: lower_unit_mark lower_char_def upper_char_def code_between_iff char_code_def)
  with Cons show ?case by (auto simp: ascii_lower_map split: list.splits)
qed (simp add: ascii_lower_def)

lemma captured_lower: "captured ps (map ascii_lower ss) = ascii_lower (captured ps ss)"
  by (induction ps ss rule: captured.induct) (simp_all add: ascii_lower_def)

lemma route_exec_lower: "route_exec pattern (ascii_lower p) = map_option ascii_lower (route_exec pattern p)"
proof -
  have "(ascii_lower s \<noteq> []) = (s \<noteq> [])" for s by (simp add: ascii_lower_def)
  then show ?thesis by (simp add: route_exec_def lower_split list_all2_map2 captured_lower cong: if_cong)
qed

definition lower_subject :: "route_decision \<Rightarrow> route_decision" where
  "lower_subject d = (case d of Trade_A cls by i \<Rightarrow> Trade_A cls by (ascii_lower i) | _ \<Rightarrow> d)"

lemma classified_route_lower:
  "classified_route_for cs verb (ascii_lower p) = map_option lower_subject (classified_route_for cs verb p)"
  by (induction cs) (auto simp: route_exec_lower lower_subject_def split: option.splits)

lemma lower_Nil: "ascii_lower s = [] \<longleftrightarrow> s = []"
  by (simp add: ascii_lower_def)

lemma cart_segments_lower: "cart_segments (map ascii_lower ss) = cart_segments ss"
proof (cases ss rule: cart_segments.cases)
  case (1 s0 s1 s2 rest)
  then show ?thesis
    by (cases "rest = []") (simp_all add: lower_Nil list.pred_map comp_def last_map)
qed simp_all

lemma CART_BUILDING_lower: "CART_BUILDING (ascii_lower p) = CART_BUILDING p"
  by (simp add: CART_BUILDING_def lower_split cart_segments_lower)

text \<open>
  C20: No spelling of a path escapes its classification. A path of segments, written in any letter case,
  with any number of slashes after it and then any query or fragment, is classified as the same path in
  lower case with none of them, for the method in any letter case; only the subject keeps its spelling.
\<close>

theorem no_spelling_escapes:
  assumes "list_all segment ss" and "ss \<noteq> []" and "query = [] \<or> hd query \<in> {CHR ''?'', CHR ''#''}"
  shows "lower_subject (classifyTradeRoute meth (path_of ss @ replicate n (CHR ''/'') @ query)) =
    classifyTradeRoute meth (path_of (map ascii_lower ss))"
proof -
  have "normalise (path_of ss @ replicate n (CHR ''/'') @ query) = path_of ss"
    using assms by (rule normalise_path)
  moreover have "normalise (path_of (map ascii_lower ss)) = ascii_lower (path_of ss)"
    using normalise_path [OF lower_segment [OF assms(1)], of "[]" 0] assms(2) by (simp add: lower_path)
  ultimately show ?thesis
    by (auto simp: classifyTradeRoute_def Let_def protected_path_def classified_route_lower CART_BUILDING_lower
        lower_subject_def split: option.splits)
qed

section \<open>The guard\<close>

lemma classified_route_Trade_A:
  "classified_route_for CLASSIFIED_ROUTES verb p = Some d \<Longrightarrow>
    (d = Pass \<and> verb = ''POST'' \<and> route_exec ''/admin/orders/export'' p \<noteq> None) \<or>
    (\<exists>i. d = Trade_A ''trade.order.commit'' Workflow i) \<or> (\<exists>i. d = Trade_A ''trade.draft-order.finalize'' Route i)"
  by (auto simp: CLASSIFIED_ROUTES_def split: option.splits if_splits)

text \<open>
  C19: Outside a local runtime a mutation of an order surface goes on to the native handler only where
  authority lets it. If the guard calls the next handler in staging or production, the request is no
  mutation under a protected prefix, or it builds a cart, or exports orders; or, in staging only, it
  completes a cart, which the workflow's own gate decides, or it finalises a draft: then the order named
  in the path was found and is a draft, the fences were read as enforced, the enforcement point
  permitted this class for this very draft with its sales channel, region and currency, and all the
  request wrote is one attribution of that draft and one new unconsumed receipt under it. In production
  it is one of the first three and nothing is written.
\<close>

theorem guard_lets_only_authority_through:
  fixes resolved :: "('v enforcement_deps \<times> (posture_row option) option option) option"
  assumes g: "route_guard resolved retrieve uuid env db meth path = (db', Next_handler)"
    and run: "tradeARuntime env \<in> {PRODUCTION, PROTECTED}"
  shows "(db' = db \<and> (\<not> protected_path (normalise path) \<or> ascii_upper meth \<notin> set MUTATIONS \<or>
      CART_BUILDING (normalise path) \<or> (ascii_upper meth = ''POST'' \<and> route_exec ''/admin/orders/export'' (normalise path) \<noteq> None))) \<or>
    (tradeARuntime env = PROTECTED \<and> db' = db \<and> (\<exists>i. classifyTradeRoute meth path = Trade_A ''trade.order.commit'' Workflow i)) \<or>
    (tradeARuntime env = PROTECTED \<and>
      (\<exists>i d deps reader reference r. classifyTradeRoute meth path = Trade_A ''trade.draft-order.finalize'' Route i \<and>
         retrieve i = Some (Some d) \<and> dr_draft d \<and> resolved = Some (deps, reader) \<and> assertPersistenceEnforced reader = Inr () \<and>
         reference = tradeAOperationReference \<lparr>cs_type = ''draft_order'', cs_id = i\<rparr> ''finalize'' uuid \<and>
         enforceOrderAuthority deps env db ''trade.draft-order.finalize'' \<lparr>cs_type = ''draft_order'', cs_id = i\<rparr>
           \<lparr>ns_channel = text_or_empty (dr_channel d), ns_region = text_or_empty (dr_region d), ns_currency = text_or_empty (dr_currency d)\<rparr>
           reference = (db', Inr r) \<and>
         permission_recorded ''trade.draft-order.finalize'' \<lparr>cs_type = ''draft_order'', cs_id = i\<rparr> reference r db db'))"
proof (cases "classifyTradeRoute meth path")
  case Pass
  then have "\<not> protected_path (normalise path) \<or> ascii_upper meth \<notin> set MUTATIONS \<or>
      CART_BUILDING (normalise path) \<or> (ascii_upper meth = ''POST'' \<and> route_exec ''/admin/orders/export'' (normalise path) \<noteq> None)"
    using classified_route_Trade_A [of "ascii_upper meth" "normalise path"]
    by (auto simp: classifyTradeRoute_def Let_def simp del: not_None_eq split: if_splits option.splits)
  then show ?thesis using g Pass by (simp add: route_guard_def)
next
  case (Denied_route outcome)
  then show ?thesis using g run by (auto simp: route_guard_def Let_def split: if_splits)
next
  case (Trade_A cls pep i)
  then have cls: "(pep = Workflow \<and> cls = ''trade.order.commit'') \<or> (pep = Route \<and> cls = ''trade.draft-order.finalize'')"
    using classified_route_Trade_A [of "ascii_upper meth" "normalise path"]
    by (auto simp: classifyTradeRoute_def Let_def split: if_splits option.splits)
  then show ?thesis
  proof
    assume "pep = Workflow \<and> cls = ''trade.order.commit''"
    then show ?thesis using g run Trade_A by (auto simp: route_guard_def Let_def split: if_splits)
  next
    assume c: "pep = Route \<and> cls = ''trade.draft-order.finalize''"
    let ?s = "\<lparr>cs_type = ''draft_order'', cs_id = i\<rparr>" and ?u = "tradeAOperationReference \<lparr>cs_type = ''draft_order'', cs_id = i\<rparr> ''finalize'' uuid"
    have prot: "tradeARuntime env = PROTECTED"
      using g run Trade_A c by (auto simp: route_guard_def Let_def governOrderEntry_def split: if_splits sum.splits prod.splits)
    have "\<not> (''trade.draft-order.finalize'' \<notin> set PERSISTENCE_FENCED_CLASSES)" by (simp add: PERSISTENCE_FENCED_CLASSES_def)
    then obtain native res where sc: "draftScope retrieve i = Inr native"
      and n: "governOrderEntry resolved env db cls ?s native ?u = (db', Inr res)"
      using g prot Trade_A c
      by (auto simp: route_guard_def Let_def split: if_splits sum.splits prod.splits)
    obtain d where d: "retrieve i = Some (Some d)" "dr_draft d"
      "native = \<lparr>ns_channel = text_or_empty (dr_channel d), ns_region = text_or_empty (dr_region d), ns_currency = text_or_empty (dr_currency d)\<rparr>"
      using sc by (auto simp: draftScope_def split: option.splits if_splits)
    obtain deps :: "'v enforcement_deps" and reader r where p: "resolved = Some (deps, reader)" "assertPersistenceEnforced reader = Inr ()"
        "enforceOrderAuthority deps env db cls ?s native ?u = (db', Inr r)"
      using n prot by (auto simp: governOrderEntry_def Let_def split: if_splits option.splits sum.splits prod.splits)
    have "permission_recorded cls ?s ?u r db db'" by (rule permitted_receipt [OF p(3)])
    then show ?thesis using prot d p c Trade_A by auto
  qed
qed

section \<open>Denials\<close>

definition outcome_text :: "string \<Rightarrow> bool" where
  "outcome_text s \<longleftrightarrow> length s \<le> 64 \<and>
     (case s of [] \<Rightarrow> False | c # _ \<Rightarrow> upper_char c \<and> list_all (\<lambda>x. upper_char x \<or> digit_char x \<or> x = CHR ''_'') s)"

text \<open>The message of \<open>OrderAuthorityDenied\<close>.\<close>

definition denial_message :: "string \<Rightarrow> string" where
  "denial_message outcome =
     ''Trade-A order authority denied ('' @ outcome @ ''): '' @ ap_detail (tradeAuthorityProblem outcome)"

lemma drop_prefix_append: "drop_prefix p (p @ s) = Some s"
  by (induction p) simp_all

text \<open>
  A denial survives the workflow engine. The message of a denial, which is all that is left of it when
  a workflow has rethrown it, is recognised as a denial with the same outcome, and so answered with the
  same problem document.
\<close>

theorem denial_survives_serialisation:
  assumes "outcome_text outcome"
  shows "tradeADenialOf (With_message (denial_message outcome)) = tradeADenialOf (Order_authority_denied outcome)"
proof -
  let ?p = "\<lambda>c. upper_char c \<or> digit_char c \<or> c = CHR ''_''"
  let ?rest = "''): '' @ ap_detail (tradeAuthorityProblem outcome)"
  obtain c cs where o1: "outcome = c # cs" "upper_char c" "list_all ?p outcome" "length outcome \<le> 64"
    using assms by (auto simp: outcome_text_def split: list.splits)
  have "\<not> ?p (CHR '')'')" by (simp add: upper_char_def digit_char_def code_between_iff char_code_def)
  then have "takeWhile ?p (outcome @ ?rest) = outcome"
    using o1(3) takeWhile_append2 [of outcome ?p ?rest] by (auto simp: list_all_iff)
  then have "DENIAL (denial_message outcome) = Some outcome"
    using o1 by (simp add: DENIAL_def denial_message_def drop_prefix_append has_prefix_def del: append_Cons) 
  then show ?thesis by simp
qed

end
