(* ===== verification/Native_Configuration_Laws.thy ===== *)
theory Native_Configuration_Laws
  imports Native_Configuration
begin

text \<open>
  What the canonical document of a seller configuration says: it is a normal form of the declared scope
  and the live facts, it parses back, and under an injective digest two configurations have the same
  digest exactly when they serve the same channels, regions and currencies for the same seller.
\<close>

section \<open>The pieces of a canonical document\<close>

lemma distinct_ids_Inr [tx_simps]:
  "distinct_ids xs what = Inr ys \<longleftrightarrow>
     xs \<noteq> [] \<and> list_all (\<lambda>v. js_trim v \<noteq> [] \<and> v = js_trim v) xs \<and> distinct xs \<and> ys = sort xs"
  unfolding distinct_ids_def by (auto simp: tx_simps)

lemma byId_Inr [tx_simps]:
  "byId key facts ids what = Inr fs \<longleftrightarrow>
     distinct (map key facts) \<and> length facts = length ids \<and> list_all (\<lambda>i. find_row key i facts \<noteq> None) ids \<and>
     fs = map (\<lambda>i. the (find_row key i facts)) ids"
  unfolding byId_def by (auto simp: tx_simps)

lemma byId_found:
  assumes "byId key facts ids what = Inr fs" and "i \<in> set ids"
  shows "key (the (find_row key i facts)) = i \<and> the (find_row key i facts) \<in> set facts"
proof -
  obtain f where "find_row key i facts = Some f" using assms by (auto simp: byId_Inr list_all_iff)
  then show ?thesis using find_row_SomeD [of key i facts f] by simp
qed

lemma byId_eq: "byId key facts ids what = Inr fs \<Longrightarrow> fs = map (\<lambda>i. the (find_row key i facts)) ids"
  by (simp add: byId_Inr)

lemma byId_keys: "byId key facts ids what = Inr fs \<Longrightarrow> map key fs = ids"
  using byId_found [of key facts ids what fs] byId_eq [of key facts ids what fs] by (simp add: map_idI)

lemma byId_member: "byId key facts ids what = Inr fs \<Longrightarrow> f \<in> set fs \<Longrightarrow> f \<in> set facts"
  using byId_found [of key facts ids what fs] byId_eq [of key facts ids what fs] by auto

lemma byId_set:
  assumes "byId key facts ids what = Inr fs" and "distinct ids"
  shows "set fs = set facts"
proof (rule card_seteq)
  show "set fs \<subseteq> set facts" using byId_member [OF assms(1)] by blast
  have "distinct fs" using byId_keys [OF assms(1)] assms(2) by (metis distinct_map)
  moreover have "length fs = length ids" using byId_keys [OF assms(1)] by (metis length_map)
  ultimately have "card (set fs) = length ids" by (simp add: distinct_card)
  moreover have "card (set facts) \<le> length ids" using assms(1) card_length [of facts] by (simp add: byId_Inr)
  ultimately show "card (set facts) \<le> card (set fs)" by simp
qed simp

definition channel_doc :: "string \<Rightarrow> json" where
  "channel_doc i = JObj [(''id'', JStr i), (''is_disabled'', JBool False)]"

definition region_doc :: "string \<Rightarrow> string \<times> string \<Rightarrow> json" where
  "region_doc market r = JObj [(''id'', JStr (fst r)), (''currency_code'', JStr (snd r)), (''countries'', JArr [JStr market])]"

definition region_key :: "region_fact \<Rightarrow> string \<times> string" where
  "region_key r = (rf_id r, js_upper (rf_currency r))"

lemma channel_json_Inr: "channel_json c = Inr j \<longleftrightarrow> \<not> cf_disabled c \<and> j = channel_doc (cf_id c)"
  by (auto simp: channel_json_def channel_doc_def)

lemma only_value: "xs \<noteq> [] \<Longrightarrow> distinct xs \<Longrightarrow> \<forall>x \<in> set xs. x = m \<Longrightarrow> xs = [m]"
  by (cases xs; cases "tl xs") auto

definition region_ok :: "string list \<Rightarrow> string \<Rightarrow> region_fact \<Rightarrow> bool" where
  "region_ok cs m r \<longleftrightarrow>
     js_upper (rf_currency r) \<in> set cs \<and> rf_countries r \<noteq> [] \<and> (\<forall>c \<in> set (rf_countries r). js_upper c = m)"

lemma region_json_Inr: "region_json cs m r = Inr j \<longleftrightarrow> region_ok cs m r \<and> j = region_doc m (region_key r)"
proof -
  let ?cs = "sort (remdups (map js_upper (rf_countries r)))"
  have "?cs = [m]" if "rf_countries r \<noteq> []" "\<forall>c \<in> set (rf_countries r). js_upper c = m"
    using that by (intro only_value) (auto simp: set_empty2 [symmetric] simp del: set_empty2)
  moreover have "?cs \<noteq> [] \<longleftrightarrow> rf_countries r \<noteq> []"
    by (metis length_0_conv length_sort map_is_Nil_conv remdups_eq_nil_iff)
  ultimately show ?thesis
    by (auto simp: region_json_def Let_def region_doc_def region_key_def region_ok_def list_ex_iff)
qed

lemma traverse_map_Inr:
  "(\<And>x y. f x = Inr y \<longleftrightarrow> P x \<and> y = g x) \<Longrightarrow> traverse f xs = Inr ys \<longleftrightarrow> (\<forall>x \<in> set xs. P x) \<and> ys = map g xs"
proof (induction xs arbitrary: ys)
  case (Cons x xs)
  then show ?case by (auto simp: andThen_Inr_iff)
qed auto

lemmas traverse_channels = traverse_map_Inr [of channel_json, OF channel_json_Inr]
lemmas traverse_regions = traverse_map_Inr [of "region_json cs m" for cs m, OF region_json_Inr]

definition scope_ok :: "seller_scope \<Rightarrow> bool" where
  "scope_ok scope \<longleftrightarrow> (\<exists>x. checked_scope scope = Inr x)"

definition seller_document :: "seller_scope \<Rightarrow> (string \<times> string) list \<Rightarrow> json" where
  "seller_document scope regions =
     configuration_json scope (sort (sc_currencies scope)) (map channel_doc (sort (sc_channels scope)))
       (map (region_doc (sc_market scope)) regions)"

lemma checked_scope_Inr:
  "checked_scope scope = Inr x \<longleftrightarrow>
     scope_ok scope \<and> x = (sort (sc_currencies scope), sort (sc_channels scope), sort (sc_regions scope))"
  unfolding scope_ok_def checked_scope_def by (auto simp: tx_simps)

lemma scope_ok_distinct:
  "scope_ok scope \<Longrightarrow> distinct (sc_currencies scope) \<and> distinct (sc_channels scope) \<and> distinct (sc_regions scope)"
  unfolding scope_ok_def checked_scope_def by (auto simp: tx_simps)

text \<open>The region facts in the order of the document.\<close>

definition listed_regions :: "seller_scope \<Rightarrow> region_fact list \<Rightarrow> region_fact list" where
  "listed_regions scope rgs = map (\<lambda>i. the (find_row rf_id i rgs)) (sort (sc_regions scope))"

text \<open>What a successful canonicalisation has established.\<close>

definition serves :: "seller_scope \<Rightarrow> channel_fact list \<Rightarrow> region_fact list \<Rightarrow> bool" where
  "serves scope chs rgs \<longleftrightarrow>
     distinct (map cf_id chs) \<and> cf_id ` set chs = set (sc_channels scope) \<and> (\<forall>c \<in> set chs. \<not> cf_disabled c) \<and>
     distinct (map rf_id rgs) \<and> rf_id ` set rgs = set (sc_regions scope) \<and>
     (\<forall>r \<in> set rgs. rf_countries r \<noteq> [] \<and> (\<forall>c \<in> set (rf_countries r). js_upper c = sc_market scope)) \<and>
     (\<lambda>r. js_upper (rf_currency r)) ` set rgs = set (sc_currencies scope)"

lemma canonical_Inr:
  assumes "canonicalNativeSellerConfiguration sha256 scope chs rgs = Inr cfg"
  shows "scope_ok scope" and "serves scope chs rgs"
    and "cfg = (let t = json_text (seller_document scope (map region_key (listed_regions scope rgs))) in
      \<lparr>sf_reference = sc_reference scope, sf_canonical = t, sf_digest = sha256 t, sf_currencies = sort (sc_currencies scope)\<rparr>)"
proof -
  obtain cs rs where ok: "scope_ok scope"
    and c: "byId cf_id chs (sort (sc_channels scope)) ''sales channel'' = Inr cs" "\<forall>c \<in> set cs. \<not> cf_disabled c"
    and r: "byId rf_id rgs (sort (sc_regions scope)) ''region'' = Inr rs"
      "\<forall>r \<in> set rs. region_ok (sort (sc_currencies scope)) (sc_market scope) r"
    and served: "list_all (\<lambda>c. c \<in> set (map (\<lambda>r. js_upper (rf_currency r)) rs)) (sort (sc_currencies scope))"
    and cfg: "cfg = (let t = json_text (configuration_json scope (sort (sc_currencies scope)) (map (\<lambda>c. channel_doc (cf_id c)) cs)
        (map (\<lambda>r. region_doc (sc_market scope) (region_key r)) rs)) in
      \<lparr>sf_reference = sc_reference scope, sf_canonical = t, sf_digest = sha256 t, sf_currencies = sort (sc_currencies scope)\<rparr>)"
    using assms unfolding canonicalNativeSellerConfiguration_def
    by (auto simp: andThen_Inr_iff checked_scope_Inr traverse_channels traverse_regions Let_def split: if_splits)
  note d = scope_ok_distinct [OF ok]
  show "scope_ok scope" by (rule ok)
  have cset: "set cs = set chs" and rset: "set rs = set rgs" using byId_set [OF c(1)] byId_set [OF r(1)] d by auto
  have ckeys: "map cf_id cs = sort (sc_channels scope)" and rkeys: "map rf_id rs = sort (sc_regions scope)"
    using byId_keys [OF c(1)] byId_keys [OF r(1)] by auto
  then have "cf_id ` set chs = set (sc_channels scope)" "rf_id ` set rgs = set (sc_regions scope)"
    using cset rset by (metis list.set_map set_sort)+
  moreover have "distinct (map cf_id chs)" "distinct (map rf_id rgs)" using c(1) r(1) by (simp_all add: byId_Inr)
  ultimately show "serves scope chs rgs"
    using c(2) r(2) served by (auto simp: serves_def cset rset list_all_iff region_ok_def)
  have "rs = listed_regions scope rgs" using r(1) by (simp add: byId_Inr listed_regions_def)
  moreover have "map (\<lambda>c. channel_doc (cf_id c)) cs = map channel_doc (sort (sc_channels scope))"
    using ckeys by (metis (no_types) comp_apply map_map map_cong)
  ultimately show "cfg = (let t = json_text (seller_document scope (map region_key (listed_regions scope rgs))) in
      \<lparr>sf_reference = sc_reference scope, sf_canonical = t, sf_digest = sha256 t, sf_currencies = sort (sc_currencies scope)\<rparr>)"
    using cfg by (simp add: seller_document_def comp_def)
qed

lemma canonical_unique:
  assumes "canonicalNativeSellerConfiguration sha256 scope chs rgs = Inr cfg"
  shows "sf_canonical cfg = json_text (seller_document scope (map region_key (listed_regions scope rgs)))"
    and "sf_digest cfg = sha256 (sf_canonical cfg)" and "sf_reference cfg = sc_reference scope"
  using canonical_Inr(3) [OF assms] by (simp_all add: Let_def)

lemma byId_ok:
  assumes "distinct (map key facts)" and "key ` set facts = set ids" and "distinct ids"
  shows "byId key facts ids what = Inr (map (\<lambda>i. the (find_row key i facts)) ids)"
proof -
  have "length facts = card (key ` set facts)" using assms(1) by (metis distinct_card length_map list.set_map)
  then have "length facts = length ids" using assms(2, 3) by (simp add: distinct_card)
  moreover have "list_all (\<lambda>i. find_row key i facts \<noteq> None) ids"
    using assms(2) by (auto simp: list_all_iff find_row_None_iff)
  ultimately show ?thesis using assms(1) by (simp add: byId_Inr)
qed

text \<open>Conversely a checked scope that the facts serve has a canonical document.\<close>

lemma canonical_serves:
  assumes "scope_ok scope" and "serves scope chs rgs"
  obtains cfg where "canonicalNativeSellerConfiguration sha256 scope chs rgs = Inr cfg"
proof -
  note d = scope_ok_distinct [OF assms(1)]
  have c: "byId cf_id chs (sort (sc_channels scope)) ''sales channel'' =
      Inr (map (\<lambda>i. the (find_row cf_id i chs)) (sort (sc_channels scope)))" (is "_ = Inr ?cs")
    using assms(2) d by (intro byId_ok) (auto simp: serves_def)
  have r: "byId rf_id rgs (sort (sc_regions scope)) ''region'' =
      Inr (map (\<lambda>i. the (find_row rf_id i rgs)) (sort (sc_regions scope)))" (is "_ = Inr ?rs")
    using assms(2) d by (intro byId_ok) (auto simp: serves_def)
  have sets: "set ?cs = set chs" "set ?rs = set rgs" using byId_set [OF c] byId_set [OF r] d by auto
  have "\<forall>c \<in> set ?cs. \<not> cf_disabled c" unfolding sets using assms(2) by (simp add: serves_def)
  then obtain cj where cj: "traverse channel_json ?cs = Inr cj" by (simp add: traverse_channels)
  have "\<forall>r \<in> set ?rs. region_ok (sort (sc_currencies scope)) (sc_market scope) r"
    unfolding sets using assms(2) by (auto simp: serves_def region_ok_def)
  then obtain rj where rj: "traverse (region_json (sort (sc_currencies scope)) (sc_market scope)) ?rs = Inr rj"
    by (simp add: traverse_regions)
  have "list_all (\<lambda>x. x \<in> set (map (\<lambda>r. js_upper (rf_currency r)) ?rs)) (sort (sc_currencies scope))"
    unfolding list_all_iff set_map [of "\<lambda>r. js_upper (rf_currency r)"] sets(2)
    using assms(2) by (simp add: serves_def)
  moreover have "checked_scope scope = Inr (sort (sc_currencies scope), sort (sc_channels scope), sort (sc_regions scope))"
    using assms(1) by (simp add: checked_scope_Inr)
  ultimately show ?thesis
    using that unfolding canonicalNativeSellerConfiguration_def by (simp add: c r cj rj Let_def del: set_map)
qed

section \<open>The declared order of a scope does not matter\<close>

definition sorted_scope :: "seller_scope \<Rightarrow> seller_scope" where
  "sorted_scope scope = scope\<lparr>sc_currencies := sort (sc_currencies scope), sc_channels := sort (sc_channels scope),
     sc_regions := sort (sc_regions scope)\<rparr>"

lemma sort_sort: "sort (sort xs) = sort (xs :: 'a :: linorder list)"
  by (rule sorted_sort_id [OF sorted_sort])

lemma sorted_scope_ok: "scope_ok scope \<Longrightarrow> scope_ok (sorted_scope scope)"
  unfolding scope_ok_def checked_scope_def sorted_scope_def
  by (auto simp: tx_simps list_all_iff set_empty2 [symmetric] simp del: set_empty2)

lemma canonical_sorted:
  assumes "canonicalNativeSellerConfiguration sha256 scope chs rgs = Inr cfg"
  shows "canonicalNativeSellerConfiguration sha256 (sorted_scope scope) chs rgs = Inr cfg"
proof -
  have "serves (sorted_scope scope) chs rgs"
    using canonical_Inr(2) [OF assms] by (simp add: serves_def sorted_scope_def)
  then obtain cfg' where c': "canonicalNativeSellerConfiguration sha256 (sorted_scope scope) chs rgs = Inr cfg'"
    using canonical_serves [OF sorted_scope_ok [OF canonical_Inr(1) [OF assms]]] by blast
  have "seller_document (sorted_scope scope) = seller_document scope" "listed_regions (sorted_scope scope) = listed_regions scope"
    by (auto simp: seller_document_def listed_regions_def sorted_scope_def configuration_json_def fun_eq_iff sort_sort)
  then have "cfg' = cfg"
    using canonical_Inr(3) [OF assms] canonical_Inr(3) [OF c']
    by (simp add: sorted_scope_def sort_sort del: json_text.simps)
  with c' show ?thesis by simp
qed

section \<open>The document parses back\<close>

lemma printable_seller_document: "printable (seller_document scope regions)"
  by (simp add: seller_document_def configuration_json_def list_all_iff channel_doc_def region_doc_def)

lemma parse_seller_document:
  "json_parse (json_text (seller_document scope regions)) = Some (seller_document scope regions)"
  by (rule json_parse_text [OF printable_seller_document])

lemma seller_document_inject:
  "seller_document s rs = seller_document s' rs' \<longleftrightarrow>
     sc_reference s = sc_reference s' \<and> sc_tenant s = sc_tenant s' \<and> sc_organisation s = sc_organisation s' \<and>
     sc_market s = sc_market s' \<and> sc_engine s = sc_engine s' \<and> sort (sc_currencies s) = sort (sc_currencies s') \<and>
     sort (sc_channels s) = sort (sc_channels s') \<and> rs = rs'"
proof -
  have "inj channel_doc" "inj (region_doc m)" "inj JStr" for m
    by (auto intro!: injI simp: channel_doc_def region_doc_def prod_eq_iff)
  then show ?thesis
    by (auto simp: seller_document_def configuration_json_def map_injective inj_map_eq_map)
qed

section \<open>What the digest says\<close>

lemma listed_region_keys:
  assumes "scope_ok scope" and "serves scope chs rgs"
  shows "set (map region_key (listed_regions scope rgs)) = region_key ` set rgs"
    and "map fst (map region_key (listed_regions scope rgs)) = sort (sc_regions scope)"
proof -
  have b: "byId rf_id rgs (sort (sc_regions scope)) ''region'' = Inr (listed_regions scope rgs)"
    unfolding listed_regions_def
    using assms scope_ok_distinct by (intro byId_ok) (auto simp: serves_def)
  show "set (map region_key (listed_regions scope rgs)) = region_key ` set rgs"
    using byId_set [OF b] scope_ok_distinct [OF assms(1)] by simp
  show "map fst (map region_key (listed_regions scope rgs)) = sort (sc_regions scope)"
    using byId_keys [OF b] by (simp add: comp_def region_key_def)
qed

lemma sort_eq_iff: "distinct xs \<Longrightarrow> distinct ys \<Longrightarrow> sort xs = sort ys \<longleftrightarrow> set xs = set (ys :: 'a :: linorder list)"
  by (metis distinct_sort set_sort sorted_distinct_set_unique sorted_sort)

lemma listed_regions_eq_iff:
  assumes "scope_ok scope" "serves scope chs rgs" and "scope_ok scope'" "serves scope' chs' rgs'"
  shows "map region_key (listed_regions scope rgs) = map region_key (listed_regions scope' rgs') \<longleftrightarrow>
    region_key ` set rgs = region_key ` set rgs'"
proof
  assume "map region_key (listed_regions scope rgs) = map region_key (listed_regions scope' rgs')"
  then show "region_key ` set rgs = region_key ` set rgs'"
    using listed_region_keys(1) [OF assms(1, 2)] listed_region_keys(1) [OF assms(3, 4)] by metis
next
  assume e: "region_key ` set rgs = region_key ` set rgs'"
  let ?l = "map region_key (listed_regions scope rgs)" and ?l' = "map region_key (listed_regions scope' rgs')"
  have s: "set ?l = set ?l'" using e listed_region_keys(1) [OF assms(1, 2)] listed_region_keys(1) [OF assms(3, 4)] by simp
  have "set (map fst ?l) = set (map fst ?l')" using s by (metis list.set_map)
  moreover have "map fst ?l = sort (sc_regions scope)" "map fst ?l' = sort (sc_regions scope')"
    using listed_region_keys(2) [OF assms(1, 2)] listed_region_keys(2) [OF assms(3, 4)] by auto
  ultimately have fst: "map fst ?l = map fst ?l'" and d: "distinct (map fst ?l)"
    using scope_ok_distinct [OF assms(1)] scope_ok_distinct [OF assms(3)] sort_eq_iff by (metis set_sort, metis distinct_sort)
  have "inj_on fst (set ?l)" using d distinct_map [of fst ?l] by blast
  then have "inj_on fst (set ?l \<union> set ?l')" unfolding s by simp
  with fst show "?l = ?l'" using map_inj_on [OF fst] by blast
qed

text \<open>
  The digest of a seller configuration is a fingerprint of exactly what it serves. As long as SHA-256
  does not collide on the two documents, two configurations have the same digest if and only if they
  name the same reference, tenant, Organisation, market and engine instance, the same currencies and
  sales channels, and regions with the same identifiers and currencies; the order of the declared lists
  and of the facts read, and the case of codes, do not matter.
\<close>

theorem digest_is_fingerprint:
  assumes c: "canonicalNativeSellerConfiguration sha256 scope chs rgs = Inr cfg"
    and c': "canonicalNativeSellerConfiguration sha256 scope' chs' rgs' = Inr cfg'"
    and sha: "sha256 (sf_canonical cfg) = sha256 (sf_canonical cfg') \<Longrightarrow> sf_canonical cfg = sf_canonical cfg'"
  shows "sf_digest cfg = sf_digest cfg' \<longleftrightarrow>
    sc_reference scope = sc_reference scope' \<and> sc_tenant scope = sc_tenant scope' \<and>
    sc_organisation scope = sc_organisation scope' \<and> sc_market scope = sc_market scope' \<and>
    sc_engine scope = sc_engine scope' \<and> set (sc_currencies scope) = set (sc_currencies scope') \<and>
    cf_id ` set chs = cf_id ` set chs' \<and>
    (\<lambda>r. (rf_id r, js_upper (rf_currency r))) ` set rgs = (\<lambda>r. (rf_id r, js_upper (rf_currency r))) ` set rgs'"
proof -
  note ok = canonical_Inr(1, 2) [OF c] and ok' = canonical_Inr(1, 2) [OF c']
  note d = scope_ok_distinct [OF ok(1)] and d' = scope_ok_distinct [OF ok'(1)]
  let ?doc = "seller_document scope (map region_key (listed_regions scope rgs))"
  let ?doc' = "seller_document scope' (map region_key (listed_regions scope' rgs'))"
  have "sf_digest cfg = sf_digest cfg' \<longleftrightarrow> sf_canonical cfg = sf_canonical cfg'"
    using canonical_unique(2) [OF c] canonical_unique(2) [OF c'] sha by metis
  also have "\<dots> \<longleftrightarrow> ?doc = ?doc'"
    unfolding canonical_unique(1) [OF c] canonical_unique(1) [OF c']
    by (rule json_text_eq_iff [OF printable_seller_document printable_seller_document])
  also have "\<dots> \<longleftrightarrow> sc_reference scope = sc_reference scope' \<and> sc_tenant scope = sc_tenant scope' \<and>
    sc_organisation scope = sc_organisation scope' \<and> sc_market scope = sc_market scope' \<and>
    sc_engine scope = sc_engine scope' \<and> set (sc_currencies scope) = set (sc_currencies scope') \<and>
    set (sc_channels scope) = set (sc_channels scope') \<and> region_key ` set rgs = region_key ` set rgs'"
    unfolding seller_document_inject listed_regions_eq_iff [OF ok ok'] using d d' by (simp add: sort_eq_iff)
  finally show ?thesis
    using ok(2) ok'(2) by (simp add: serves_def region_key_def [abs_def])
qed

section \<open>What the resolver reads of it\<close>

lemma some_of_Inr: "(\<And>x. x \<in> set xs \<Longrightarrow> f x = Inr (P x)) \<Longrightarrow> some_of f xs = Inr (\<exists>x \<in> set xs. P x)"
  by (induction xs) auto

lemma some_channel: "some_of (member_is ''id'' x) (map channel_doc ids) = Inr (x \<in> set ids)"
proof -
  have "some_of (member_is ''id'' x) (map channel_doc ids) = Inr (\<exists>d \<in> set (map channel_doc ids). d = channel_doc x)"
    by (rule some_of_Inr) (auto simp: member_is_def js_member_def channel_doc_def)
  also have "(\<exists>d \<in> set (map channel_doc ids). d = channel_doc x) \<longleftrightarrow> x \<in> set ids"
    by (auto simp: channel_doc_def)
  finally show ?thesis .
qed

lemma some_region:
  "some_of (\<lambda>v. both (member_is ''id'' x v) (member_is ''currency_code'' y v)) (map (region_doc m) rs) = Inr ((x, y) \<in> set rs)"
proof -
  have "some_of (\<lambda>v. both (member_is ''id'' x v) (member_is ''currency_code'' y v)) (map (region_doc m) rs) =
      Inr (\<exists>d \<in> set (map (region_doc m) rs). d = region_doc m (x, y))"
    by (rule some_of_Inr) (auto simp: member_is_def js_member_def region_doc_def both_def)
  also have "(\<exists>d \<in> set (map (region_doc m) rs). d = region_doc m (x, y)) \<longleftrightarrow> (x, y) \<in> set rs"
    by (force simp: region_doc_def)
  finally show ?thesis .
qed

definition parsed_document where
  "parsed_document scope rs =
     ((case seller_document scope rs of JObj row \<Rightarrow> row | _ \<Rightarrow> []), map channel_doc (sort (sc_channels scope)),
      map (region_doc (sc_market scope)) rs, map JStr (sort (sc_currencies scope)))"

lemma parse_own_document:
  "parseCanonical \<lparr>ac_id = i, ac_reference = sc_reference scope, ac_canonical = json_text (seller_document scope rs)\<rparr>
     (sc_engine scope) = Inr (parsed_document scope rs)"
  unfolding parseCanonical_def attested_configuration.simps parse_seller_document
  by (simp add: parsed_document_def seller_document_def configuration_json_def)

lemma traverse_ids: "traverse id_of (map f xs) = Inr (map g xs)" if "\<And>x. id_of (f x) = Inr (g x)"
  by (induction xs) (simp_all add: that)

lemma traverse_json_string: "traverse json_string (map JStr xs) = Inr xs"
  by (induction xs) simp_all

lemma document_scope_own:
  assumes "map fst rs = sort (sc_regions scope)"
  shows "document_scope (parsed_document scope rs) = Inr (sorted_scope scope)"
proof -
  have "traverse id_of (map channel_doc xs) = Inr (map (\<lambda>x. x) xs)" for xs
    by (rule traverse_ids) (simp add: id_of_def js_member_def channel_doc_def)
  moreover have "traverse id_of (map (region_doc (sc_market scope)) rs) = Inr (map fst rs)"
    by (rule traverse_ids) (simp add: id_of_def js_member_def region_doc_def)
  ultimately show ?thesis
    by (simp add: document_scope_def parsed_document_def seller_document_def configuration_json_def doc_text_def
        traverse_json_string sorted_scope_def assms)
qed

lemma covers_own:
  "covers native y (parsed_document scope rs) =
     Inr (ns_channel native \<in> set (sc_channels scope) \<and> (ns_region native, y) \<in> set rs \<and> y \<in> set (sc_currencies scope))"
  unfolding covers_def parsed_document_def prod.case some_channel some_region
  by (simp add: both_def image_iff)

lemma scope_ok_ids: "scope_ok scope \<Longrightarrow> x \<in> set (sc_channels scope) \<union> set (sc_regions scope) \<Longrightarrow> js_trim x \<noteq> []"
  unfolding scope_ok_def checked_scope_def by (auto simp: tx_simps list_all_iff)

lemma scope_ok_currency: "scope_ok scope \<Longrightarrow> x \<in> set (sc_currencies scope) \<Longrightarrow> currency_pattern x"
  unfolding scope_ok_def checked_scope_def by (auto simp: tx_simps list_all_iff)

lemma scope_ok_engine: "scope_ok scope \<Longrightarrow> engine_pattern (sc_engine scope)"
  unfolding scope_ok_def checked_scope_def engine_pattern_def by (auto simp: tx_simps prefixed_def)

text \<open>
  C21: Resolution reproduces an attestation. If Trade has attested one configuration to the Control
  Plane and the live facts of its channels and regions are still the ones attested, then for every
  native record in one of its channels and regions the resolver finds it, through the stored text of
  the document, and returns the attested reference, digest and seller. The reader must answer the
  identifiers in the order of the document.
\<close>

theorem resolution_reproduces_attestation:
  assumes c: "canonicalNativeSellerConfiguration sha256 scope chs rgs = Inr cfg"
    and rows: "attested (sc_engine scope) =
      Inr [\<lparr>ac_id = i, ac_reference = sf_reference cfg, ac_canonical = sf_canonical cfg\<rparr>]"
    and facts: "facts (sort (sc_channels scope)) (sort (sc_regions scope)) = Inr (chs, rgs)"
    and channel: "ns_channel native \<in> set (sc_channels scope)"
    and region: "r \<in> set rgs" "rf_id r = ns_region native" "js_upper (rf_currency r) = js_upper (ns_currency native)"
  shows "resolveNativeConfiguration sha256 native (sc_engine scope) attested facts =
    Inr \<lparr>rs_reference = sc_reference scope, rs_digest = sf_digest cfg, rs_currency = js_upper (ns_currency native),
         rs_tenant = sc_tenant scope, rs_organisation = sc_organisation scope, rs_market = sc_market scope,
         rs_engine = sc_engine scope, rs_attestation = i\<rparr>"
proof -
  note ok = canonical_Inr(1, 2) [OF c]
  let ?rs = "map region_key (listed_regions scope rgs)"
  have key: "(ns_region native, js_upper (ns_currency native)) \<in> set ?rs"
    using listed_region_keys(1) [OF ok] region by (force simp: region_key_def)
  have currency: "js_upper (ns_currency native) \<in> set (sc_currencies scope)"
    using ok(2) region(1, 3) unfolding serves_def by (metis imageI)
  have "ns_region native \<in> set (sc_regions scope)" using ok(2) region(1, 2) unfolding serves_def by (metis imageI)
  then have "js_trim (ns_channel native) \<noteq> []" "js_trim (ns_region native) \<noteq> []"
    using scope_ok_ids [OF ok(1)] channel by blast+
  moreover have "parseCanonical \<lparr>ac_id = i, ac_reference = sf_reference cfg, ac_canonical = sf_canonical cfg\<rparr> (sc_engine scope) =
      Inr (parsed_document scope ?rs)"
    unfolding canonical_unique [OF c] by (rule parse_own_document)
  moreover have "covers native (js_upper (ns_currency native)) (parsed_document scope ?rs) = Inr True"
    using channel key currency by (simp add: covers_own)
  moreover have "document_scope (parsed_document scope ?rs) = Inr (sorted_scope scope)"
    by (rule document_scope_own [OF listed_region_keys(2) [OF ok]])
  moreover have "currentNativeSellerConfiguration sha256 (sorted_scope scope) facts = Inr cfg"
    using facts canonical_sorted [OF c] by (simp add: currentNativeSellerConfiguration_def sorted_scope_def)
  ultimately show ?thesis
    using scope_ok_currency [OF ok(1) currency] scope_ok_engine [OF ok(1)] canonical_unique(3) [OF c]
    by (simp add: resolveNativeConfiguration_def rows Let_def sorted_scope_def)
qed

end
