(* ===== verification/Trade_A_Example.thy ===== *)
theory Trade_A_Example
  imports Commit_Fence_Outcomes Order_Authority_Commit Classification_Properties Trade_Route_Properties Native_Configuration_Laws
begin

text \<open>
  One shop from its attestation to its first committed order, evaluated: the configuration Trade
  attests, the cart, the authority the enforcement point obtains, the classification of the cart, the
  enforcement gate, and the order. The properties of the order authority apply to it at each step.
\<close>

section \<open>The shop\<close>

definition some_hash :: "string \<Rightarrow> string" where
  "some_hash s = replicate 64 (CHR ''a'')"

definition shop_scope :: seller_scope where
  "shop_scope = \<lparr>sc_reference = ''shop/main'', sc_tenant = ''tn_acme'', sc_organisation = ''0f0f0f0f-0f0f-0f0f-0f0f-0f0f0f0f0f0f'',
     sc_market = ''ZA'', sc_engine = ''ei_trade'', sc_currencies = [''ZAR''], sc_channels = [''sc_web''], sc_regions = [''reg_za'']\<rparr>"

definition shop_channels :: "channel_fact list" where
  "shop_channels = [\<lparr>cf_id = ''sc_web'', cf_disabled = False\<rparr>]"

definition shop_regions :: "region_fact list" where
  "shop_regions = [\<lparr>rf_id = ''reg_za'', rf_currency = ''zar'', rf_countries = [''za'']\<rparr>]"

definition seller_text :: "string \<Rightarrow> string" where
  "seller_text reference = json_text (JObj
     [(''canonicalization'', JStr NATIVE_CONFIGURATION_CANONICALIZATION),
      (''tenant_id'', JStr ''tn_acme''),
      (''operating_organisation_id'', JStr ''0f0f0f0f-0f0f-0f0f-0f0f-0f0f0f0f0f0f''),
      (''market'', JStr ''ZA''),
      (''engine_instance_id'', JStr ''ei_trade''),
      (''native_configuration_reference'', JStr reference),
      (''currency_scope'', JArr [JStr ''ZAR'']),
      (''sales_channels'', JArr [JObj [(''id'', JStr ''sc_web''), (''is_disabled'', JBool False)]]),
      (''regions'', JArr [JObj [(''id'', JStr ''reg_za''), (''currency_code'', JStr ''ZAR''), (''countries'', JArr [JStr ''ZA''])]])])"

definition shop_document :: string where
  "shop_document = seller_text ''shop/main''"

lemma shop_configuration:
  "canonicalNativeSellerConfiguration sha shop_scope shop_channels shop_regions =
     Inr \<lparr>sf_reference = ''shop/main'', sf_canonical = shop_document, sf_digest = sha shop_document, sf_currencies = [''ZAR'']\<rparr>"
  unfolding shop_document_def seller_text_def by code_simp

definition shop_native :: commitment_scope where
  "shop_native = \<lparr>ns_channel = ''sc_web'', ns_region = ''reg_za'', ns_currency = ''zar''\<rparr>"

definition shop_facts :: facts_reader where
  "shop_facts channels regions = Inr (shop_channels, shop_regions)"


definition other_scope :: seller_scope where
  "other_scope = shop_scope\<lparr>sc_reference := ''shop/other''\<rparr>"

lemma other_configuration:
  "canonicalNativeSellerConfiguration sha other_scope shop_channels shop_regions =
     Inr \<lparr>sf_reference = ''shop/other'', sf_canonical = seller_text ''shop/other'', sf_digest = sha (seller_text ''shop/other''),
       sf_currencies = [''ZAR'']\<rparr>"
  unfolding seller_text_def by code_simp

lemma digest_is_fingerprint_witness: "shop_document \<noteq> seller_text ''shop/other''"
proof -
  have "sc_reference shop_scope \<noteq> sc_reference other_scope" by code_simp
  then show ?thesis
    using digest_is_fingerprint [OF shop_configuration other_configuration, of "\<lambda>s. s"] by auto
qed

definition shop_resolved :: resolved_configuration where
  "shop_resolved = \<lparr>rs_reference = ''shop/main'', rs_digest = shop_document, rs_currency = ''ZAR'', rs_tenant = ''tn_acme'',
     rs_organisation = ''0f0f0f0f-0f0f-0f0f-0f0f-0f0f0f0f0f0f'', rs_market = ''ZA'', rs_engine = ''ei_trade'', rs_attestation = ''att-1''\<rparr>"

lemma resolution_reproduces_attestation_witness:
  "resolveNativeConfiguration (\<lambda>s. s) shop_native ''ei_trade''
     (\<lambda>_. Inr [\<lparr>ac_id = ''att-1'', ac_reference = ''shop/main'', ac_canonical = shop_document\<rparr>]) shop_facts = Inr shop_resolved"
proof -
  have "ns_channel shop_native \<in> set (sc_channels shop_scope)" "\<lparr>rf_id = ''reg_za'', rf_currency = ''zar'', rf_countries = [''za'']\<rparr> \<in> set shop_regions"
    by (simp_all add: shop_native_def shop_scope_def shop_regions_def)
  moreover have "js_upper ''zar'' = ''ZAR''" by code_simp
  ultimately show ?thesis
    using resolution_reproduces_attestation [OF shop_configuration [of "\<lambda>s. s"], where attested = "\<lambda>_. Inr [\<lparr>ac_id = ''att-1'', ac_reference = ''shop/main'', ac_canonical = shop_document\<rparr>]"
        and i = "''att-1''" and facts = shop_facts and native = shop_native and r = "\<lparr>rf_id = ''reg_za'', rf_currency = ''zar'', rf_countries = [''za'']\<rparr>"]
    by (simp add: shop_facts_def shop_scope_def shop_native_def shop_resolved_def)
qed


section \<open>From the attestation to the permission\<close>

definition shop_attestation :: attestation_row where
  "shop_attestation = \<lparr>na_id = ''att-1'', na_reference = ''shop/main'', na_digest = some_hash shop_document,
     na_canonical = shop_document, na_tenant = ''tn_acme'', na_organisation = ''0f0f0f0f-0f0f-0f0f-0f0f-0f0f0f0f0f0f'',
     na_market = ''ZA'', na_engine = ''ei_trade'', na_currencies = [''ZAR''], na_context = ''ctx-0'', na_attested = 1000,
     na_cp_recorded = 1000, na_correlation = ''corr-0'', na_recorded = 1000\<rparr>"

definition shop_cart :: cart_row where
  "shop_cart = \<lparr>ct_id = ''cart-1'', ct_channel = Some ''sc_web'', ct_region = Some ''reg_za'', ct_currency = ''zar'',
     ct_customer = Some ''cus-1'', ct_email = None, ct_completed = None, ct_deleted = False\<rparr>"

definition shop_items :: "cart_item list" where
  "shop_items = [\<lparr>ci_cart = ''cart-1'', ci_variant = Some ''v-1'', ci_quantity = 2, ci_price = Some 30, ci_deleted = False\<rparr>]"

definition enforced_gate :: gate_row where
  "enforced_gate = \<lparr>gt_mode = ''ENFORCED'', gt_revision = 2, gt_reference = ''TA-09''\<rparr>"

definition shop_ops :: "trade_a_op list" where
  "shop_ops = [Attest shop_attestation, Native False 0 [Insert_cart shop_cart, Set_cart_items shop_items], Move_posture ''ENFORCED'']"

definition shop_db :: trade_a where
  "shop_db = (trade_a_start ''ENFORCED'')\<lparr>attestations := [shop_attestation], carts := [shop_cart], cart_items := shop_items\<rparr>"

lemma shop_history: "history (trade_a_step some_hash) (trade_a_start ''SANDBOX'') shop_ops = shop_db"
  unfolding shop_attestation_def shop_document_def by code_simp


type_synonym answer = "binding_resolution + authority_decision"

definition shop_binding :: binding_ref where
  "shop_binding = \<lparr>br_id = ''binding-1'', br_version = 3\<rparr>"

text \<open>The Control Plane of the example answers every request about this shop.\<close>

definition shop_resolution :: "resolve_request \<Rightarrow> binding_resolution" where
  "shop_resolution q = \<lparr>bs_context = rq_context q, bs_engine = rq_engine q, bs_reference = rq_reference q, bs_digest = rq_digest q,
     bs_currency = rq_currency q, bs_resolution = ''res-1'', bs_outcome = ''RESOLVED'', bs_binding = Some shop_binding,
     bs_resolved = ''T2'', bs_permissions = False\<rparr>"

definition shop_decision :: "authority_request \<Rightarrow> authority_decision" where
  "shop_decision q = \<lparr>dc_context = oq_context q, dc_engine = oq_engine q, dc_class = oq_class q, dc_binding = Some (oq_binding q),
     dc_digest = oq_digest q, dc_currency = oq_currency q, dc_reference = oq_reference q, dc_id = ''dec-1'', dc_outcome = ''AUTHORIZED'',
     dc_tenant = Some ''tn_acme'', dc_organisation = Some ''0f0f0f0f-0f0f-0f0f-0f0f-0f0f0f0f0f0f'', dc_market = Some ''ZA'',
     dc_role = Some ''SELLER_OF_RECORD'', dc_mandate = Some ''mandate-1'', dc_entity = Some ''entity-1'', dc_evaluated = ''T2'',
     dc_expires = Some ''T3'', dc_policy = ''policy-1'', dc_permissions = False\<rparr>"

definition shop_instant :: "string \<Rightarrow> instant option" where
  "shop_instant s = (if s = ''T2'' then Some 2000 else if s = ''T3'' then Some 20000 else None)"

definition shop_authority :: "answer enforcement_deps" where
  "shop_authority = \<lparr>engine_of = ''ei_trade'', sha_of = some_hash, reads_attested = True, facts_of = shop_facts,
     parse_instant = shop_instant, access_token = (\<lambda>n. Some ''token''), correlation = (\<lambda>n. ''corr-1''),
     platform_of = (\<lambda>tenant organisation market token. Some \<lparr>pc_context = ''ctx-1'', pc_tenant = tenant, pc_organisation = organisation,
       pc_type = ''ORGANISATION'', pc_country = Some market, pc_expires = Some ''T3''\<rparr>),
     resolve_schema = (\<lambda>v. case v of Inl r \<Rightarrow> Some r | Inr d \<Rightarrow> None), resolve_call = (\<lambda>q. Some (Inl (shop_resolution q))),
     decision_schema = (\<lambda>v. case v of Inl r \<Rightarrow> None | Inr d \<Rightarrow> Some d), decision_call = (\<lambda>q. Some (Inr (shop_decision q))),
     received_at = 2100, clock = (\<lambda>n. 2050 + int n), store_up = (\<lambda>n. True), new_attribution = ''attr-1'', attribution_time = 2040,
     new_receipt = ''rcpt-1'', receipt_time = 2200, receipt_clock = 2200\<rparr>"

definition local_environment :: authority_environment where
  "local_environment = \<lparr>env_node = Some ''test'', env_baobab = None, env_deployment = None, env_enabled = Some ''true''\<rparr>"

definition staging_environment :: authority_environment where
  "staging_environment = \<lparr>env_node = None, env_baobab = Some ''staging'', env_deployment = None, env_enabled = Some ''true''\<rparr>"

definition cart_subject :: commitment_subject where
  "cart_subject = \<lparr>cs_type = ''cart'', cs_id = ''cart-1''\<rparr>"

definition shop_attribution :: attribution_row where
  "shop_attribution = \<lparr>at_id = ''attr-1'', at_subject_type = ''cart'', at_subject = ''cart-1'', at_attestation = ''att-1'',
     at_reference = ''shop/main'', at_digest = some_hash [], at_currency = ''ZAR'', at_tenant = ''tn_acme'',
     at_organisation = ''0f0f0f0f-0f0f-0f0f-0f0f-0f0f0f0f0f0f'', at_market = ''ZA'', at_engine = ''ei_trade'', at_binding = ''binding-1'',
     at_version = 3, at_resolution = ''res-1'', at_context = ''ctx-1'', at_resolved = 2000, at_correlation = ''corr-1'',
     at_recorded = 2040\<rparr>"

definition shop_receipt :: receipt_row where
  "shop_receipt = \<lparr>ar_id = ''rcpt-1'', ar_attribution = ''attr-1'', ar_class = ''trade.order.commit'', ar_reference = ''cart/cart-1/complete/1'',
     ar_decision = ''dec-1'', ar_binding = ''binding-1'', ar_version = 3, ar_digest = some_hash [], ar_currency = ''ZAR'',
     ar_context = ''ctx-1'', ar_tenant = ''tn_acme'', ar_organisation = ''0f0f0f0f-0f0f-0f0f-0f0f-0f0f0f0f0f0f'', ar_market = ''ZA'',
     ar_mandate = ''mandate-1'', ar_entity = ''entity-1'', ar_policy = ''policy-1'', ar_evaluated = 2000, ar_received = 2100,
     ar_lease = 20000, ar_consumed = None, ar_recorded = 2200\<rparr>"

definition permitted_db :: trade_a where
  "permitted_db = shop_db\<lparr>attributions := [shop_attribution], receipts := [shop_receipt]\<rparr>"

lemma shop_permitted:
  "enforceOrderAuthority shop_authority staging_environment shop_db ''trade.order.commit'' cart_subject shop_native
     ''cart/cart-1/complete/1'' = (permitted_db, Inr shop_receipt)"
  unfolding permitted_db_def shop_db_def shop_attestation_def shop_document_def by code_simp


lemma enforcement_is_a_history_witness:
  "\<exists>a. for_each (trade_a_step some_hash) shop_db [Attribute a, Authorise 2200 shop_receipt] = Inr permitted_db"
proof -
  have "receipt_clock shop_authority = 2200" by (simp add: shop_authority_def)
  then show ?thesis using enforcement_is_a_history [OF shop_permitted, of some_hash] by auto
qed

lemma permission_is_an_authorised_decision_witness:
  "\<exists>a d. a \<in> set (attributions permitted_db) \<and>
     resolveOrderAuthority shop_authority (authority_request_for ''trade.order.commit'' ''cart/cart-1/complete/1'' a) = Some d \<and>
     dc_outcome d = ''AUTHORIZED'' \<and> ar_decision shop_receipt = dc_id d"
  using permission_is_an_authorised_decision [OF shop_permitted] by blast

definition enforced_posture :: posture_row where
  "enforced_posture = \<lparr>ps_posture = Some ''ENFORCED'', ps_superuser = Some False, ps_fences = ''9''\<rparr>"

lemma staging_runtime: "tradeARuntime staging_environment = PROTECTED"
  by code_simp

lemma entry_gate_witness:
  "\<exists>deps row. Some (shop_authority, Some (Some (Some enforced_posture))) = Some (deps, Some (Some (Some row))) \<and>
     governOrderEntry (Some (shop_authority, Some (Some (Some enforced_posture)))) staging_environment shop_db ''trade.order.commit''
       cart_subject shop_native ''cart/cart-1/complete/1'' = (permitted_db, Inr (Some shop_receipt)) \<and>
     ps_posture row = Some ''ENFORCED'' \<and> digits_value (ps_fences row) = 9"
proof -
  have "judgePosture (Some enforced_posture) = Enforced" "env_enabled staging_environment = Some ''true''" by code_simp+
  then have g: "governOrderEntry (Some (shop_authority, Some (Some (Some enforced_posture)))) staging_environment shop_db ''trade.order.commit''
       cart_subject shop_native ''cart/cart-1/complete/1'' = (permitted_db, Inr (Some shop_receipt))"
    by (simp add: governOrderEntry_def staging_runtime Let_def PERSISTENCE_FENCED_CLASSES_def assertPersistenceEnforced_def ensure_def shop_permitted)
  show ?thesis using entry_gate [OF g] g staging_runtime by simp
qed

section \<open>The classification of the cart\<close>

definition shop_estate :: estate_binding where
  "shop_estate = \<lparr>eb_id = ''bff-1'', eb_revision = 4, eb_estate = ''acme_shop'', eb_tenant = ''tn_acme'', eb_engine = ''ei_trade'',
     eb_expires = 60000\<rparr>"

definition consumer_request :: "string \<Rightarrow> classify_request" where
  "consumer_request consumer = \<lparr>kq_type = ''cart'', kq_id = ''cart-1'', kq_attribution = shop_attribution, kq_context = ''ctx-1'',
     kq_market = Some ''south_africa'', kq_estate = Some (ESTATE_CLIENT_BINDING shop_estate), kq_operation = None,
     kq_buyer = Some (CONSUMER consumer), kq_correlation = ''corr-2''\<rparr>"

definition shop_profile :: "string \<Rightarrow> profile_request \<Rightarrow> profile_attestation" where
  "shop_profile i p = \<lparr>pa_attestation = i, pa_profile = ''profile-1'', pa_revision = 1, pa_estate = pq_estate p, pa_tenant = ''tn_acme'',
     pa_engine = ''ei_trade'', pa_market = pq_market p, pa_model = ''B2C'', pa_issued = 2000, pa_expires = 30000, pa_until = None,
     pa_evidence = ''cp-evidence''\<rparr>"

definition shop_classifier :: "string \<Rightarrow> classification_deps" where
  "shop_classifier i = \<lparr>cd_engine = ''ei_trade'', cd_profiles = Some (\<lambda>p. Inr (shop_profile (''patt-'' @ i) p)), cd_now = 2500, cd_id = ''class-'' @ i,
     cd_parse = shop_instant, cd_schema = (\<lambda>w. True), cd_store = (\<lambda>n. True), cd_observation = ''obs-'' @ i, cd_observed = 2500,
     cd_clock = (\<lambda>n. 2500 + int n)\<rparr>"

definition shop_observation :: "string \<Rightarrow> observation_row" where
  "shop_observation i = \<lparr>ob_id = ''obs-'' @ i, ob_estate = ''acme_shop'', ob_engine = ''ei_trade'', ob_market = ''south_africa'',
     ob_kind = ''ESTATE_CLIENT_BINDING'', ob_reference = ''bff-1'', ob_outcome = ''ATTESTED'',
     ob_fact = Some \<lparr>pf_attestation = ''patt-'' @ i, pf_profile = ''profile-1'', pf_revision = 1, pf_tenant = ''tn_acme'', pf_model = ''B2C'',
       pf_issued = 2000, pf_expires = 30000, pf_until = None, pf_evidence = ''cp-evidence''\<rparr>, ob_observed = 2500\<rparr>"

definition shop_classification :: classification_row where
  "shop_classification = \<lparr>cl_id = ''class-1'', cl_type = ''cart'', cl_resource = ''cart-1'', cl_origin = ''DIRECT'', cl_parent = None,
     cl_relation = None, cl_estate = ''acme_shop'', cl_tenant = ''tn_acme'', cl_engine = ''ei_trade'', cl_market = ''south_africa'',
     cl_model = ''B2C'', cl_profile = ''profile-1'', cl_profile_revision = 1, cl_attestation = ''patt-1'', cl_attribution = ''attr-1'',
     cl_binding = ''binding-1'', cl_binding_version = 3, cl_context = ''ctx-1'', cl_buyer_model = ''CONSUMER'', cl_organisation = None,
     cl_membership = None, cl_mandate = None, cl_consumer = Some ''cus-1'', cl_buyer_context = None, cl_status = ''ACTIVE'',
     cl_revision = 1, cl_classified = 2501,
     cl_evidence = [''cp-commerce-profile:profile-1@r1'', ''cp-commerce-profile-attestation:patt-1'', ''cp-estate-binding:bff-1@r4'',
       ''trade-attribution:attr-1'']\<rparr>"

definition classified_db :: trade_a where
  "classified_db = permitted_db\<lparr>observations := [shop_observation ''1''], classifications := [shop_classification]\<rparr>"

lemma shop_classified:
  "classifyNativeCommitment (shop_classifier ''1'') (consumer_request ''cus-1'') permitted_db =
     (classified_db, CLASSIFIED (fromRow shop_classification))"
  unfolding classified_db_def permitted_db_def shop_db_def shop_attestation_def shop_document_def by code_simp


lemma classification_is_a_history_witness:
  "\<exists>ops. for_each (trade_a_step some_hash) permitted_db ops = Inr classified_db"
  using classification_is_a_history [OF shop_classified, of some_hash] by blast

lemma classified_rests_on_evidence_witness:
  "\<exists>c \<in> set (classifications classified_db). fromRow c = fromRow shop_classification \<and> cl_status c = ''ACTIVE'' \<and>
     cl_resource c = kq_id (consumer_request ''cus-1'') \<and> cl_binding c = at_binding (kq_attribution (consumer_request ''cus-1''))"
  using classified_rests_on_evidence [OF shop_classified] by blast

lemma history_append: "history f db (xs @ ys) = history f (history f db xs) ys"
  by (induction f db xs rule: history.induct) simp_all

definition classified_ops :: "trade_a_op list" where
  "classified_ops = [Attribute shop_attribution, Authorise 2200 shop_receipt, Observe 2500 (shop_observation ''1''),
     Classify 2501 shop_classification]"

lemma classified_steps: "history (trade_a_step some_hash) shop_db classified_ops = classified_db"
  unfolding classified_db_def permitted_db_def shop_db_def shop_attestation_def shop_document_def by code_simp

lemma classified_history: "history (trade_a_step some_hash) (trade_a_start ''SANDBOX'') (shop_ops @ classified_ops) = classified_db"
  by (simp add: history_append shop_history classified_steps)

lemma record_keeps_its_seller_witness: "\<exists>n \<in> set (attestations classified_db). attested_for shop_attribution n"
proof -
  have "shop_attribution \<in> set (attributions classified_db)" by (simp add: classified_db_def permitted_db_def)
  then show ?thesis using record_keeps_its_seller [OF classified_history [symmetric], of shop_attribution shop_attribution] by simp
qed






section \<open>The order\<close>

definition shop_order :: order_row where
  "shop_order = \<lparr>od_id = ''order-1'', od_channel = Some ''sc_web'', od_region = Some ''reg_za'', od_currency = ''zar'',
     od_customer = Some ''cus-1'', od_email = None, od_draft = False, od_version = 1, od_deleted = False\<rparr>"

definition shop_readings :: fence_readings where
  "shop_readings = \<lparr>fr_count = 3000, fr_choose = 3001, fr_consume = 3002, fr_void = 3003\<rparr>"

definition order_writes :: "native_write list" where
  "order_writes = [Insert_order shop_readings shop_order,
     Set_order_items [\<lparr>oi_order = ''order-1'', oi_version = 1, oi_item = ''line-1'', oi_quantity = 2, oi_deleted = False\<rparr>],
     Set_order_lines [\<lparr>ol_id = ''line-1'', ol_variant = Some ''v-1'', ol_price = Some 30, ol_deleted = False\<rparr>]]"

lemma permission_commits_its_cart_witness:
  "\<exists>db'. native_step False permitted_db (Insert_order shop_readings shop_order) = Inr db' \<and>
     (\<exists>k \<in> set (new_commitments permitted_db db'). cm_order k = ''order-1'' \<and> cm_subject k = ''cart-1'')"
proof -
  have "\<not> od_draft shop_order" "text_between 1 200 (od_id shop_order)" "od_id shop_order = ''order-1''"
      "cs_id cart_subject = ''cart-1''" "open_cart_for shop_order shop_cart" "ar_currency shop_receipt = pg_upper (od_currency shop_order)"
      "fr_count shop_readings < ar_lease shop_receipt" "fr_choose shop_readings < ar_lease shop_receipt"
      "ct_id shop_cart = ''cart-1''"
    by code_simp+
  moreover have "shop_cart \<in> set (carts permitted_db)" "orders permitted_db = []"
    by (simp_all add: permitted_db_def shop_db_def trade_a_start_def)
  moreover have "\<forall>x \<in> set (order_candidates (fr_count shop_readings) shop_order permitted_db) \<union>
      set (order_candidates (fr_choose shop_readings) shop_order permitted_db). snd x = ''cart-1''"
    by (auto simp: order_candidates_def permitted_db_def shop_db_def shop_attribution_def)
  moreover have "consumable shop_readings ''trade.order.commit'' ''cart'' ''cart-1'' permitted_db"
    by (simp add: consumable_def permitted_db_def shop_receipt_def shop_readings_def)
  ultimately show ?thesis
    using permission_commits_its_cart [OF shop_history [symmetric] shop_permitted, where n = shop_order and c = shop_cart and t = shop_readings and session = False] by simp
qed

definition shop_commitment :: commitment_row where
  "shop_commitment = \<lparr>cm_receipt = ''rcpt-1'', cm_class = ''trade.order.commit'', cm_subject_type = ''cart'', cm_subject = ''cart-1'',
     cm_order = ''order-1''\<rparr>"

definition ordered :: "string \<Rightarrow> int \<Rightarrow> trade_a \<Rightarrow> trade_a" where
  "ordered mode revision db = db\<lparr>receipts := [shop_receipt\<lparr>ar_consumed := Some 3002\<rparr>], commitments := [shop_commitment],
     decisions := [\<lparr>fd_subject_type = ''cart'', fd_subject = ''cart-1'', fd_receipt = ''rcpt-1'', fd_classification = Some ''class-1'',
       fd_model = Some ''B2C'', fd_outcome = None, fd_mode = mode, fd_revision = revision\<rparr>],
     orders := [shop_order],
     order_items := [\<lparr>oi_order = ''order-1'', oi_version = 1, oi_item = ''line-1'', oi_quantity = 2, oi_deleted = False\<rparr>],
     order_lines := [\<lparr>ol_id = ''line-1'', ol_variant = Some ''v-1'', ol_price = Some 30, ol_deleted = False\<rparr>]\<rparr>"

definition gated_db :: trade_a where
  "gated_db = classified_db\<lparr>gate := Some enforced_gate\<rparr>"

lemma shop_ordered: "native_transaction False 4000 order_writes gated_db = Inr (ordered ''ENFORCED'' 2 gated_db)"
  unfolding gated_db_def classified_db_def permitted_db_def shop_db_def shop_attestation_def shop_document_def by code_simp

lemma shop_ordered_in_shadow: "native_transaction False 4000 order_writes classified_db = Inr (ordered ''SHADOW'' 1 classified_db)"
  unfolding classified_db_def permitted_db_def shop_db_def shop_attestation_def shop_document_def by code_simp

lemma shop_new_commitment: "new_commitments gated_db (ordered ''ENFORCED'' 2 gated_db) = [shop_commitment]"
  by (simp add: new_commitments_def ordered_def gated_db_def classified_db_def permitted_db_def shop_db_def trade_a_start_def)

lemma shop_gate: "gate gated_db = Some enforced_gate" "gt_mode enforced_gate = ''ENFORCED''"
  by (simp_all add: gated_db_def enforced_gate_def)


lemma enforced_orders_are_committed_witness:
  "\<exists>k \<in> set (new_commitments gated_db (ordered ''ENFORCED'' 2 gated_db)). cm_order k = od_id shop_order"
proof -
  have "trade_a_persistence_enforced False gated_db"
    by (simp add: trade_a_persistence_enforced_def gated_db_def classified_db_def permitted_db_def shop_db_def trade_a_start_def)
  moreover have "Insert_order shop_readings shop_order \<in> set order_writes" "\<not> od_draft shop_order"
    by (simp_all add: order_writes_def shop_order_def)
  ultimately show ?thesis using enforced_orders_are_committed [OF shop_ordered] by blast
qed

lemma enforced_gate_admits_classified_consumers_witness:
  "\<exists>c. active_classification gated_db ''cart'' ''cart-1'' = Some c \<and> cl_model c \<noteq> ''B2B''"
proof -
  have "cm_subject_type shop_commitment = ''cart''" "cm_subject shop_commitment = ''cart-1''" by (simp_all add: shop_commitment_def)
  then show ?thesis
    using enforced_gate_admits_classified_consumers [OF shop_ordered shop_gate, of shop_commitment] shop_new_commitment by auto
qed

definition order_ops :: "trade_a_op list" where
  "order_ops = [Change_gate enforced_gate, Native False 4000 order_writes]"

lemma gated_step: "trade_a_step some_hash classified_db (Change_gate enforced_gate) = Inr gated_db"
  unfolding gated_db_def classified_db_def permitted_db_def shop_db_def shop_attestation_def shop_document_def by code_simp

lemma ordered_history:
  "history (trade_a_step some_hash) (trade_a_start ''SANDBOX'') (shop_ops @ classified_ops @ order_ops) = ordered ''ENFORCED'' 2 gated_db"
  using classified_history gated_step by (simp add: history_append order_ops_def shop_ordered)

lemma commitments_consume_their_receipts_witness:
  "\<exists>r \<in> set (receipts (ordered ''ENFORCED'' 2 gated_db)). \<exists>t. ar_id r = ''rcpt-1'' \<and> ar_consumed r = Some t \<and> t \<le> ar_lease r"
proof -
  have "shop_commitment \<in> set (commitments (ordered ''ENFORCED'' 2 gated_db))" by (simp add: ordered_def)
  moreover have "cm_receipt shop_commitment = ''rcpt-1''" by (simp add: shop_commitment_def)
  ultimately show ?thesis using commitments_consume_their_receipts [OF ordered_history [symmetric]] by metis
qed

lemma shadow_predicts_enforcement_witness:
  "\<exists>x. native_transaction False 4000 order_writes
     (classified_db\<lparr>gate := Some (the (gate classified_db)\<lparr>gt_mode := ''ENFORCED''\<rparr>)\<rparr>) = Inr x"
proof -
  have g: "gate classified_db = Some (the (gate classified_db))" "gt_mode (the (gate classified_db)) = ''SHADOW''"
    and d: "decisions classified_db = []"
    by (simp_all add: classified_db_def permitted_db_def shop_db_def trade_a_start_def)
  show ?thesis
    unfolding shadow_predicts_enforcement [OF g]
    by (rule exI [of _ "ordered ''SHADOW'' 1 classified_db"]) (simp add: shop_ordered_in_shadow d ordered_def)
qed

text \<open>The same cart where the permission was left unused until its lease had passed.\<close>

definition late_ops :: "trade_a_op list" where
  "late_ops = [Native False 40000 [Insert_order \<lparr>fr_count = 40000, fr_choose = 40001, fr_consume = 40002, fr_void = 40003\<rparr> shop_order]]"

lemma lapsed_receipt_closes_its_cart_witness:
  "filter (for_cart ''cart-1'') (commitments (history (trade_a_step some_hash) permitted_db late_ops)) = []"
proof -
  have "lapsed ''cart-1'' shop_receipt permitted_db"
    by (simp add: lapsed_def attributed_to_def permitted_db_def shop_receipt_def shop_attribution_def)
  moreover have "list_all (op_after (ar_lease shop_receipt)) late_ops"
    by (simp add: late_ops_def shop_receipt_def)
  moreover have "commitments permitted_db = []" by (simp add: permitted_db_def shop_db_def trade_a_start_def)
  ultimately show ?thesis using lapsed_receipt_closes_its_cart [OF _ _ refl, of "''cart-1''" shop_receipt permitted_db late_ops some_hash] by simp
qed

section \<open>Requests\<close>

definition shouted_path :: "string list" where
  "shouted_path = [''Store'', ''CARTS'', ''cart_01'', ''Complete'']"

lemma no_spelling_escapes_witness:
  "lower_subject (classifyTradeRoute ''post'' (path_of shouted_path @ replicate 2 (CHR ''/'') @ ''?step=1'')) =
     Trade_A ''trade.order.commit'' Workflow ''cart_01''"
proof -
  have "list_all segment shouted_path" "shouted_path \<noteq> []"
      "classifyTradeRoute ''post'' (path_of (map ascii_lower shouted_path)) = Trade_A ''trade.order.commit'' Workflow ''cart_01''"
    by code_simp+
  then show ?thesis using no_spelling_escapes [of shouted_path "''?step=1''" "''post''" 2] by simp
qed

text \<open>The request that finalises a draft of the shop in staging, from the guard to the recorded receipt.\<close>

definition shop_draft :: draft_record where
  "shop_draft = \<lparr>dr_draft = True, dr_channel = Some ''sc_web'', dr_region = Some ''reg_za'', dr_currency = Some ''zar''\<rparr>"

definition shop_drafts :: "string \<Rightarrow> draft_record option option" where
  "shop_drafts i = (if i = ''order-9'' then Some (Some shop_draft) else None)"

definition finalize_path :: string where
  "finalize_path = ''/admin/draft-orders/order-9/convert-to-order''"

definition draft_subject :: commitment_subject where
  "draft_subject = \<lparr>cs_type = ''draft_order'', cs_id = ''order-9''\<rparr>"

definition draft_receipt :: receipt_row where
  "draft_receipt = shop_receipt\<lparr>ar_class := ''trade.draft-order.finalize'', ar_reference := ''draft_order/order-9/finalize/u-1''\<rparr>"

definition draft_db :: trade_a where
  "draft_db = shop_db\<lparr>attributions := [shop_attribution\<lparr>at_subject_type := ''draft_order'', at_subject := ''order-9''\<rparr>],
     receipts := [draft_receipt]\<rparr>"

lemma draft_permitted:
  "enforceOrderAuthority shop_authority staging_environment shop_db ''trade.draft-order.finalize'' draft_subject shop_native
     ''draft_order/order-9/finalize/u-1'' = (draft_db, Inr draft_receipt)"
  unfolding draft_db_def shop_db_def shop_attestation_def shop_document_def by code_simp

lemma draft_passes_guard:
  "route_guard (Some (shop_authority, Some (Some (Some enforced_posture)))) shop_drafts ''u-1'' staging_environment shop_db
     ''POST'' finalize_path = (draft_db, Next_handler)"
proof -
  have c: "classifyTradeRoute ''POST'' finalize_path = Trade_A ''trade.draft-order.finalize'' Route ''order-9''"
    and d: "draftScope shop_drafts ''order-9'' = Inr shop_native"
    and u: "tradeAOperationReference draft_subject ''finalize'' ''u-1'' = ''draft_order/order-9/finalize/u-1''"
    and j: "judgePosture (Some enforced_posture) = Enforced" "env_enabled staging_environment = Some ''true''"
    by code_simp+
  have "governOrderEntry (Some (shop_authority, Some (Some (Some enforced_posture)))) staging_environment shop_db
      ''trade.draft-order.finalize'' draft_subject shop_native ''draft_order/order-9/finalize/u-1'' = (draft_db, Inr (Some draft_receipt))"
    using j by (simp add: governOrderEntry_def staging_runtime Let_def PERSISTENCE_FENCED_CLASSES_def assertPersistenceEnforced_def
        ensure_def draft_permitted)
  then show ?thesis
    using c d u by (simp add: route_guard_def staging_runtime Let_def PERSISTENCE_FENCED_CLASSES_def draft_subject_def)
qed

lemma guard_lets_only_authority_through_witness:
  "\<exists>r a. receipts draft_db = [r] \<and> attributions draft_db = [a] \<and> ar_class r = ''trade.draft-order.finalize'' \<and>
     ar_attribution r = at_id a \<and> at_subject_type a = ''draft_order'' \<and> at_subject a = ''order-9'' \<and> ar_consumed r = None"
proof -
  have c: "classifyTradeRoute ''POST'' finalize_path = Trade_A ''trade.draft-order.finalize'' Route ''order-9''"
      "protected_path (normalise finalize_path)" "ascii_upper ''POST'' \<in> set MUTATIONS" "\<not> CART_BUILDING (normalise finalize_path)"
      "route_exec ''/admin/orders/export'' (normalise finalize_path) = None"
    by code_simp+
  have "receipts shop_db = []" "attributions shop_db = []" by (simp_all add: shop_db_def trade_a_start_def)
  then show ?thesis
    using guard_lets_only_authority_through [OF draft_passes_guard] c staging_runtime
    by (auto simp: permission_recorded_def)
qed

lemma denial_survives_serialisation_witness:
  "tradeADenialOf (With_message (denial_message ''SELLER_CHANGED'')) = Some ''SELLER_CHANGED''"
proof -
  have "outcome_text ''SELLER_CHANGED''" by code_simp
  then show ?thesis using denial_survives_serialisation by simp
qed

end
