(* ===== verification/Spec2Isabelle.thy ===== *)
theory Spec2Isabelle
  imports Spend_Properties Spend_Outcomes Buyer_Operation_Properties Budget_Agreement
    Buyer_Context_Properties Commercial_Example
    Payments_Example Payments_Policy Fulfilment_Properties Fulfilment_Policy Fulfilment_Lines_Laws Outbox_Example
    Trade_A_Example
begin

text \<open>
  Baobab Trade, the B2B trade engine of \<open>src/src/\<close>: the parts that decide whether a buyer may act, hold
  and spend an Organisation's budget, negotiate a purchase, pay and fulfil it, and publish what
  happened.

  \<^bold>\<open>The program.\<close> A buyer reaches Trade through a storefront. \<open>baobab/b2b/buyer-authority.ts\<close> turns its
  tokens into a short-lived buyer execution context, using \<open>baobab/auth/buyer-assurance*.ts\<close> for the
  strength of the login. \<open>baobab/b2b/buyer-operation-policy.ts\<close> then decides each operation from facts
  that \<open>buyer-operation-policy-source.ts\<close> loads from the module's tables. A purchase that is formally
  submitted reserves budget: \<open>baobab/b2b/spend-reservation-commands.ts\<close> runs idempotent commands over
  the append-only ledger whose invariants live in the triggers of
  \<open>modules/b2b/migrations/Migration20261022150000.ts\<close> and \<open>Migration20261022180000.ts\<close>. Requests for
  quotation and quotations are kept by \<open>baobab/b2b/postgres-commercial-lifecycle.ts\<close> over the kernel
  \<open>commercial-lifecycle.ts\<close> and the triggers of \<open>Migration20261029130000.ts\<close>. Payments, fulfilments and
  outgoing events are records of their own modules, moved along a transition table by the adapters of
  \<open>baobab/payments/\<close>, \<open>baobab/fulfilment/\<close> and \<open>baobab/events/\<close>; no transaction spans such a move.
  Which seller a cart or a draft order may be committed for is decided under the order authority of
  \<open>baobab/orders/\<close>: a native seller configuration is attested, a cart is attributed to it, the Control
  Plane decides, the decision becomes a short-lived receipt, and the triggers of
  \<open>modules/legal-seller-checkout/migrations/\<close> let a transaction that completes the cart commit only
  when it consumes such a receipt. A record that is to be committed as a consumer's is classified from
  evidence first. A guard on the routes keeps callers out of native operations that escape the fences.

  \<^bold>\<open>Shared vocabulary.\<close> \<open>Trade_Prelude\<close>: fallible steps (\<open>error + value\<close>), loops over them, keyed
  tables, JavaScript strings and numbers, and the locales \<open>checked_store\<close> (a fallible step keeps an
  invariant) and \<open>additive_ledger\<close> (posts add up). \<open>Js_Text\<close> and \<open>Json_Text\<close>: numerals, instants, JSON
  and its canonical text. \<open>Buyer_Reasons\<close>: the decision vocabulary of the wire.

  \<^bold>\<open>The spend ledger.\<close> \<open>Spend_Tables\<close> holds policies and reservations with their triggers,
  \<open>Spend_Ledger\<close> balances, holds and the entry trigger \<open>b2b_spend_ledger_entry_apply\<close>,
  \<open>Spend_Commands\<close> the command service, each body a function of the tables under the transaction.
  \<open>Spend_Ledger_Laws\<close>, \<open>Spend_Commands_Laws\<close> and \<open>Spend_Invariant\<close> interpret the two locales at
  the ledger and prove that every step keeps the invariant; \<open>Spend_Effects\<close>, \<open>Spend_Moves\<close>,
  \<open>Spend_Safety\<close> and \<open>Spend_History\<close> compute what each command moves, that limits hold, and what later
  steps cannot change; \<open>Spend_Properties\<close> and \<open>Spend_Outcomes\<close> state the properties, evaluated on
  \<open>Spend_Example\<close>.

  \<^bold>\<open>Buyer decisions.\<close> \<open>Buyer_Operation\<close> is the evaluator, \<open>Buyer_Source\<close> the loader,
  \<open>Buyer_Assurance\<close> the login policies, \<open>Buyer_Context\<close> the execution context. Their
  \<open>_Properties\<close> theories show exactly when an operation is allowed, that budgets are never escalated,
  that duties stay separate, that a published context rests on evidence and does not outlive it, and
  that refusals disclose nothing to a non-member. \<open>Budget_Agreement\<close> relates two components: on budgets
  loaded from the ledger the evaluation passes exactly when the ledger's RESERVE step has capacity on
  every policy the reservation commands select.

  \<^bold>\<open>Commercial lifecycle.\<close> \<open>Commercial_Kernel\<close> is the kernel, \<open>Commercial_Store\<close> the tables and
  triggers, \<open>Commercial_Service\<close> the transactional service. \<open>Commercial_Kernel_Laws\<close> shows the decimal
  checks exact over the rationals and the digest independent of key order; \<open>Commercial_Invariant\<close> and
  \<open>Commercial_Service_Laws\<close> interpret \<open>checked_store\<close> at the table writes;
  \<open>Commercial_Properties\<close> interprets it at the commands and states the properties over histories,
  evaluated on \<open>Commercial_Example\<close>.

  \<^bold>\<open>Payments.\<close> \<open>Payments\<close> is \<open>payment-record-adapter.ts\<close> over the snapshot and transition tables of the
  module, \<open>Payments_Policy\<close> the provider and reconciliation rules. \<open>Status_Trail\<close> states once what a
  record whose status is logged may do (the inductive \<open>evolves\<close>) and its locale \<open>status_store\<close> draws the
  consequences for histories; \<open>Payments_Laws\<close> interprets it. \<open>Payments_Properties\<close> shows that a stored
  payment is well formed, that its status is the end of its log while no transition is interrupted, and
  what interruptions and racing initiations do; \<open>Payments_Example\<close> evaluates them. \<open>Trade_Party\<close> holds what
  payments and fulfilments share.

  \<^bold>\<open>Fulfilment.\<close> \<open>Fulfilment\<close> is \<open>record-adapter.ts\<close>, \<open>Fulfilment_Lines\<close> the return and allocation records
  of \<open>allocation-record-adapter.ts\<close>, \<open>Fulfilment_Policy\<close> the configuration and the reconciliation.
  \<open>Fulfilment_Laws\<close> interprets \<open>status_store\<close>, \<open>Fulfilment_Lines_Laws\<close> \<open>checked_store\<close>; the properties show
  the evidence a dispatched or delivered fulfilment carries, that returns stay within what was
  fulfilled, and what a repeated transition or a duplicate location does.

  \<^bold>\<open>Events.\<close> \<open>Event_Envelope\<close> is the CloudEvents contract of \<open>event-contracts.ts\<close>, \<open>Outbox\<close> the record
  adapter, publisher and dispatcher. \<open>Outbox_Laws\<close> states the delivery contract as the locale
  \<open>outbox_delivery\<close> and interprets it at the adapter; \<open>Outbox_Properties\<close> shows that a dispatch settles
  every record it lists, that delivery attempts end when dispatches neither overlap nor stop midway,
  that enqueueing is idempotent, and two weaknesses:
  finished rows can starve due ones, and a late failure reopens a published record.

  \<^bold>\<open>Order authority: tables.\<close> \<open>Trade_A_Tables\<close> holds attestations, attributions, receipts,
  commitments, postures, gates and decisions with the triggers of the seven migrations,
  \<open>Classification_Tables\<close> the observations and classifications, \<open>Commit_Fence\<close> the native transactions
  whose deferred triggers compare the cart with the order and consume the receipt. \<open>Trade_A_Laws\<close>,
  \<open>Trade_A_Invariant\<close> and \<open>Trade_A_History\<close> invert each write, interpret \<open>checked_store\<close> at all of them
  and follow rows through histories. \<open>Commit_Fence_Properties\<close> and \<open>Commit_Fence_Outcomes\<close> show that a
  committed order is its cart, that every commitment consumed a receipt of its own, that a record keeps
  its seller, that an enforced gate admits only classified consumers, that the shadow posture predicts
  the enforced one, and that a receipt that lapses unused closes its cart.

  \<^bold>\<open>Order authority: commands.\<close> \<open>Native_Configuration\<close> is the canonical document of
  \<open>native-seller-configuration.ts\<close> and the resolver that recomputes it from the live facts;
  \<open>Json_Parse\<close> is \<open>JSON.parse\<close> on the texts it stores, inverse to \<open>Json_Text\<close>. \<open>Order_Authority\<close> is
  \<open>order-authority-enforcement.ts\<close> with attribution, decision, receipt and posture;
  \<open>Control_Plane_Attestations\<close> and \<open>Commitment_Classification\<close> the classification of
  \<open>native-commitment-classification.ts\<close>; \<open>Trade_Route\<close> the entry points, the problem documents and the
  route guard. Their laws show that what a command writes is a history of the tables, that a
  permission is an authorised decision about that very configuration and its receipt commits the cart,
  that a classification rests on current agreeing evidence and stands or falls with it, that a
  resolution reproduces the attestation, and that no spelling of a path escapes the guard.
  \<open>Trade_A_Example\<close> evaluates all of them on one shop.

  \<^bold>\<open>Parameters.\<close> What is not in the repository, or is not determined by it, is an argument: SHA-256, the
  random identifiers, the readings of clocks, the token verifier, the Control Plane clients, the URL
  parser, the JSON schemas, the compiler of configured patterns, \<open>Date.parse\<close> where its grammar is
  open, and the answers of ORM listings. An exchange with the Control Plane is one function from the
  request to the answer. A
  listing or client that fails is \<open>None\<close> or a left value. A column an update leaves out, which page a
  listing returns, the collation of texts and the event bus are arguments too, and a step that is cut
  short between two statements, or that interleaves with another, is an operation of its own. Database locks serialise the commands, so a
  history is a sequence of commands; a connection may be down or lose the reply of a COMMIT.

  \<^bold>\<open>Bounds and termination.\<close> Every function is total: loops are recursions over lists or, for
  numerals, on the number. Minor units and versions are unbounded integers with the source's checks
  (\<open>Number.isSafeInteger\<close>, \<open>bigint\<close>); strings are lists of code units below 256.

  \<^bold>\<open>Not modelled.\<close> HTTP routes, ORM model declarations and framework glue; token verification and the
  HTTP side of the Control Plane clients, whose answers are parameters; instrumentation and scripts;
  letter case of characters outside ASCII in paths. Of the orders, the governed binding commands, the
  earlier legal-seller checkout but for its environment check, the command that records an attestation,
  and the wiring of the enforcement into the framework; the inventory, tax, ERP and pricing
  integrations, which the manifest lists.
\<close>

end
